(* ===== verification/Prelude.thy ===== *)
theory Prelude
  imports
    Complex_Main
    "HOL-Library.Char_ord"
    "HOL-Library.List_Lexorder"
    "HOL-Library.Product_Lexorder"
    "HOL-Library.AList"
    "HOL-Library.Sublist"
begin

section \<open>Shared vocabulary\<close>

text \<open>
  The Python notions every component uses: results that may raise, text, decimal rendering,
  JSON values, dictionaries and instants.

  \<^item> A raise is \<open>Inl\<close> of an error value, a normal return is \<open>Inr\<close>; \<open>bindr\<close> runs the
    next statement only after a normal return.
  \<^item> Text is \<open>string\<close>, a list of characters. Everything the program compares, strips or
    case-folds is StorCLI or SQL text in ASCII, so \<open>py_lower\<close> (for \<open>str.lower\<close> and
    \<open>str.casefold\<close>) and \<open>py_strip\<close> are defined on the ASCII range and leave other
    codes alone.
  \<^item> A dictionary is an association list in insertion order; \<open>map_of\<close> reads it and
    \<open>AList.update\<close> writes it, replacing in place or appending as a Python dict does.
  \<^item> An instant is a count of microseconds since the Unix epoch in UTC, the resolution of
    \<open>datetime\<close>.
\<close>

named_theorems py_simps "evaluation of the Python vocabulary"

subsection \<open>Results\<close>

definition bindr :: "'e + 'a \<Rightarrow> ('a \<Rightarrow> 'e + 'b) \<Rightarrow> 'e + 'b" where
  "bindr m f = (case m of Inl e \<Rightarrow> Inl e | Inr x \<Rightarrow> f x)"

lemma bindr_simps [simp, py_simps]:
  "bindr (Inl e) f = Inl e"
  "bindr (Inr x) f = f x"
  by (simp_all add: bindr_def)

lemma bindr_Inr_iff: "bindr m f = Inr y \<longleftrightarrow> (\<exists>x. m = Inr x \<and> f x = Inr y)"
  by (cases m) auto

lemma bindr_Inl_iff: "bindr m f = Inl e \<longleftrightarrow> m = Inl e \<or> (\<exists>x. m = Inr x \<and> f x = Inl e)"
  by (cases m) auto

lemma bindr_split: "P (bindr m f) \<longleftrightarrow> (\<forall>e. m = Inl e \<longrightarrow> P (Inl e)) \<and> (\<forall>x. m = Inr x \<longrightarrow> P (f x))"
  by (cases m) auto

fun map_res :: "('a \<Rightarrow> 'e + 'b) \<Rightarrow> 'a list \<Rightarrow> 'e + 'b list" where
  "map_res f [] = Inr []"
| "map_res f (x # xs) = bindr (f x) (\<lambda>y. bindr (map_res f xs) (\<lambda>ys. Inr (y # ys)))"

lemma map_res_Inr_length: "map_res f xs = Inr ys \<Longrightarrow> length ys = length xs"
  by (induction xs arbitrary: ys) (auto simp: bindr_Inr_iff)

lemma map_res_Inr_iff: "map_res f xs = Inr ys \<longleftrightarrow> list_all2 (\<lambda>x y. f x = Inr y) xs ys"
  by (induction xs arbitrary: ys) (auto simp: bindr_Inr_iff list_all2_Cons1)

subsection \<open>Characters and text\<close>

definition code_of :: "char \<Rightarrow> nat" where
  "code_of c = of_char c"

definition is_digit :: "char \<Rightarrow> bool" where
  "is_digit c \<longleftrightarrow> 48 \<le> code_of c \<and> code_of c \<le> 57"

definition is_upper :: "char \<Rightarrow> bool" where
  "is_upper c \<longleftrightarrow> 65 \<le> code_of c \<and> code_of c \<le> 90"

definition is_lower :: "char \<Rightarrow> bool" where
  "is_lower c \<longleftrightarrow> 97 \<le> code_of c \<and> code_of c \<le> 122"

definition is_alpha :: "char \<Rightarrow> bool" where
  "is_alpha c \<longleftrightarrow> is_upper c \<or> is_lower c"

text \<open>\<open>str.isspace\<close> on ASCII: tab to carriage return, the four separators, and space.\<close>

definition is_space :: "char \<Rightarrow> bool" where
  "is_space c \<longleftrightarrow> (9 \<le> code_of c \<and> code_of c \<le> 13) \<or> (28 \<le> code_of c \<and> code_of c \<le> 32)"

definition lower_char :: "char \<Rightarrow> char" where
  "lower_char c = (if is_upper c then char_of (code_of c + 32) else c)"

definition py_lower :: "string \<Rightarrow> string" where
  "py_lower s = map lower_char s"

definition py_lstrip :: "string \<Rightarrow> string" where
  "py_lstrip s = dropWhile is_space s"

definition py_strip :: "string \<Rightarrow> string" where
  "py_strip s = rev (dropWhile is_space (rev (dropWhile is_space s)))"

abbreviation starts_with :: "string \<Rightarrow> string \<Rightarrow> bool" where
  "starts_with p s \<equiv> prefix p s"

text \<open>\<open>sub in s\<close>.\<close>

fun str_in :: "string \<Rightarrow> string \<Rightarrow> bool" where
  "str_in p [] = (p = [])"
| "str_in p (c # cs) = (prefix p (c # cs) \<or> str_in p cs)"

lemma str_in_iff: "str_in p s \<longleftrightarrow> (\<exists>a b. s = a @ p @ b)"
proof (induction s)
  case Nil
  then show ?case by simp
next
  case (Cons c cs)
  show ?case
  proof
    assume "str_in p (c # cs)"
    then consider "prefix p (c # cs)" | "str_in p cs" by auto
    then show "\<exists>a b. c # cs = a @ p @ b"
    proof cases
      case 1
      then obtain b where "c # cs = [] @ p @ b" by (auto simp: prefix_def)
      then show ?thesis by blast
    next
      case 2
      then obtain a b where "cs = a @ p @ b" using Cons.IH by blast
      then have "c # cs = (c # a) @ p @ b" by simp
      then show ?thesis by blast
    qed
  next
    assume "\<exists>a b. c # cs = a @ p @ b"
    then obtain a b where ab: "c # cs = a @ p @ b" by blast
    show "str_in p (c # cs)"
    proof (cases a)
      case Nil
      with ab have "prefix p (c # cs)" by (auto simp: prefix_def)
      then show ?thesis by simp
    next
      case (Cons d a')
      with ab have "cs = a' @ p @ b" by simp
      then show ?thesis using Cons.IH by (simp, blast)
    qed
  qed
qed

lemma str_in_self [simp]: "str_in s s"
  by (auto simp: str_in_iff intro: exI [of _ "[]"])

lemma str_in_nil [simp]: "str_in [] s"
  by (auto simp: str_in_iff)

lemma lower_char_idem [simp]: "lower_char (lower_char c) = lower_char c"
proof (cases "is_upper c")
  case True
  then have "code_of (lower_char c) = code_of c + 32"
    by (simp add: lower_char_def code_of_def is_upper_def of_char_of)
  with True have "\<not> is_upper (lower_char c)"
    by (simp add: is_upper_def)
  then show ?thesis by (simp add: lower_char_def)
next
  case False
  then show ?thesis by (simp add: lower_char_def)
qed

lemma py_lower_idem [simp]: "py_lower (py_lower s) = py_lower s"
  by (simp add: py_lower_def comp_def)

lemma length_py_lower [simp]: "length (py_lower s) = length s"
  by (simp add: py_lower_def)

text \<open>\<open>s.split(sep)\<close> for a one-character separator, and \<open>sep.join(parts)\<close>.\<close>

fun split_on :: "char \<Rightarrow> string \<Rightarrow> string list" where
  "split_on d [] = [[]]"
| "split_on d (c # cs) =
     (if c = d then [] # split_on d cs
      else (case split_on d cs of [] \<Rightarrow> [[c]] | w # ws \<Rightarrow> (c # w) # ws))"

fun join_with :: "string \<Rightarrow> string list \<Rightarrow> string" where
  "join_with d [] = []"
| "join_with d [w] = w"
| "join_with d (w # v # ws) = w @ d @ join_with d (v # ws)"

lemma split_on_not_nil [simp]: "split_on d s \<noteq> []"
  by (induction s) (auto split: list.splits)

lemma split_on_no_sep: "d \<notin> set w \<Longrightarrow> split_on d w = [w]"
  by (induction w) auto

lemma split_on_append_sep:
  "d \<notin> set w \<Longrightarrow> split_on d (w @ d # s) = w # split_on d s"
  by (induction w) auto

lemma split_on_join:
  assumes "ws \<noteq> []" and "\<forall>w \<in> set ws. d \<notin> set w"
  shows "split_on d (join_with [d] ws) = ws"
  using assms
proof (induction "[d]" ws rule: join_with.induct)
  case 1
  then show ?case by simp
next
  case (2 w)
  then show ?case by (simp add: split_on_no_sep)
next
  case (3 w v ws)
  then show ?case by (simp add: split_on_append_sep)
qed

lemma join_with_inject:
  assumes "ws \<noteq> []" "vs \<noteq> []"
    and "\<forall>w \<in> set ws. d \<notin> set w" "\<forall>v \<in> set vs. d \<notin> set v"
    and "join_with [d] ws = join_with [d] vs"
  shows "ws = vs"
  by (metis split_on_join [OF assms(1,3)] split_on_join [OF assms(2,4)] assms(5))

lemma join_with_Cons: "ws \<noteq> [] \<Longrightarrow> join_with d (w # ws) = w @ d @ join_with d ws"
  by (cases ws) auto

lemma join_with_Cons_char: "join_with d ((c # w) # ws) = c # join_with d (w # ws)"
  by (cases ws) auto

lemma join_split_on: "join_with [d] (split_on d s) = s"
proof (induction s)
  case Nil
  then show ?case by simp
next
  case (Cons c cs)
  obtain w ws where ws: "split_on d cs = w # ws"
    using split_on_not_nil [of d cs] by (meson neq_Nil_conv)
  then show ?case
    using Cons.IH by (simp add: join_with_Cons join_with_Cons_char del: join_with.simps(3))
qed

text \<open>\<open>s.split()\<close>: maximal runs of non-space characters.\<close>

fun split_ws :: "string \<Rightarrow> string \<Rightarrow> string list" where
  "split_ws acc [] = (if acc = [] then [] else [rev acc])"
| "split_ws acc (c # cs) =
     (if is_space c then (if acc = [] then split_ws [] cs else rev acc # split_ws [] cs)
      else split_ws (c # acc) cs)"

definition py_words :: "string \<Rightarrow> string list" where
  "py_words s = split_ws [] s"

text \<open>\<open>s.replace("/s", ":")\<close>.\<close>

fun replace_slash_s :: "string \<Rightarrow> string" where
  "replace_slash_s (c # d # cs) =
     (if c = CHR ''/'' \<and> d = CHR ''s'' then CHR '':'' # replace_slash_s cs else c # replace_slash_s (d # cs))"
| "replace_slash_s s = s"

definition removeprefix :: "string \<Rightarrow> string \<Rightarrow> string" where
  "removeprefix p s = (if prefix p s then drop (length p) s else s)"

subsection \<open>Decimal rendering and reading\<close>

definition digit_char :: "nat \<Rightarrow> char" where
  "digit_char d = char_of (48 + d)"

fun show_nat :: "nat \<Rightarrow> string" where
  "show_nat n = (if n < 10 then [digit_char n] else show_nat (n div 10) @ [digit_char (n mod 10)])"

declare show_nat.simps [simp del]

definition show_int :: "int \<Rightarrow> string" where
  "show_int i = (if i < 0 then CHR ''-'' # show_nat (nat (- i)) else show_nat (nat i))"

definition digit_val :: "char \<Rightarrow> nat" where
  "digit_val c = code_of c - 48"

definition read_nat :: "string \<Rightarrow> nat" where
  "read_nat s = foldl (\<lambda>n c. 10 * n + digit_val c) 0 s"

lemma code_of_digit_char: "d < 10 \<Longrightarrow> code_of (digit_char d) = 48 + d"
  by (simp add: digit_char_def code_of_def of_char_of)

lemma is_digit_digit_char [simp]: "d < 10 \<Longrightarrow> is_digit (digit_char d)"
  by (simp add: is_digit_def code_of_digit_char)

lemma digit_val_digit_char [simp]: "d < 10 \<Longrightarrow> digit_val (digit_char d) = d"
  by (simp add: digit_val_def code_of_digit_char)

lemma show_nat_not_nil [simp]: "show_nat n \<noteq> []"
  by (subst show_nat.simps) simp

lemma show_nat_digits: "\<forall>c \<in> set (show_nat n). is_digit c"
proof (induction n rule: show_nat.induct)
  case (1 n)
  then show ?case by (subst show_nat.simps) auto
qed

lemma read_show_nat [simp]: "read_nat (show_nat n) = n"
proof (induction n rule: show_nat.induct)
  case (1 n)
  show ?case
  proof (cases "n < 10")
    case True
    then show ?thesis by (subst show_nat.simps) (simp add: read_nat_def)
  next
    case False
    with 1 show ?thesis by (subst show_nat.simps) (simp add: read_nat_def)
  qed
qed

lemma show_nat_inject [simp]: "show_nat m = show_nat n \<longleftrightarrow> m = n"
  by (metis read_show_nat)

lemma is_digit_not_minus [simp]: "\<not> is_digit CHR ''-''"
  by (simp add: is_digit_def code_of_def)

lemma show_int_inject [simp]: "show_int i = show_int j \<longleftrightarrow> i = j"
proof -
  have *: "CHR ''-'' # s \<noteq> show_nat n" for s n
    using show_nat_digits [of n] by (metis is_digit_not_minus list.set_intros(1))
  show ?thesis
    using * [symmetric] by (auto simp: show_int_def * nat_eq_iff2)
qed

lemma show_int_nonneg: "0 \<le> i \<Longrightarrow> show_int i = show_nat (nat i)"
  by (simp add: show_int_def)

subsection \<open>JSON values\<close>

text \<open>
  What \<open>json.loads\<close> returns. A number with a fraction or exponent is a finite float, kept as
  the rational it denotes with the text \<open>repr\<close> gives for it. An object keeps its keys in
  document order.
\<close>

datatype json =
    JNull
  | JBool bool
  | JInt int
  | JFloat rat string
  | JStr string
  | JArr "json list"
  | JObj "(string \<times> json) list"

type_synonym dict = "(string \<times> json) list"

definition dict_get :: "dict \<Rightarrow> string \<Rightarrow> json option" where
  "dict_get d k = map_of d k"

text \<open>\<open>{**(d or {}), k: v}\<close>.\<close>

definition dict_put :: "dict option \<Rightarrow> string \<Rightarrow> json \<Rightarrow> dict" where
  "dict_put d k v = AList.update k v (case d of None \<Rightarrow> [] | Some kvs \<Rightarrow> kvs)"

lemma dict_get_simps [simp, py_simps]:
  "dict_get [] k = None"
  "dict_get ((k', v) # d) k = (if k' = k then Some v else dict_get d k)"
  by (simp_all add: dict_get_def)

lemma dict_get_put [simp]: "dict_get (dict_put d k v) k' = (if k' = k then Some v else dict_get (case d of None \<Rightarrow> [] | Some kvs \<Rightarrow> kvs) k')"
  by (simp add: dict_get_def dict_put_def update_conv')

text \<open>The entry of a row's JSON column, which may be null: \<open>(column or {}).get(k)\<close>.\<close>

definition col_get :: "dict option \<Rightarrow> string \<Rightarrow> json option" where
  "col_get d k = (case d of None \<Rightarrow> None | Some kvs \<Rightarrow> dict_get kvs k)"

lemma col_get_simps [simp, py_simps]:
  "col_get None k = None"
  "col_get (Some kvs) k = dict_get kvs k"
  by (simp_all add: col_get_def)

subsection \<open>Time\<close>

type_synonym instant = int

definition sec :: "int \<Rightarrow> int" where
  "sec n = n * 1000000"

definition minutes :: "int \<Rightarrow> int" where
  "minutes n = sec (60 * n)"

definition hours :: "int \<Rightarrow> int" where
  "hours n = sec (3600 * n)"

definition days :: "int \<Rightarrow> int" where
  "days n = sec (86400 * n)"

text \<open>
  A \<open>datetime\<close> argument is aware (it denotes an instant) or naive. Every public operation
  that takes one refuses a naive value with ValueError.
\<close>

datatype py_datetime = Aware instant | Naive int

datatype py_error =
    ValueError | TypeError | KeyError | IndexError | OverflowError | LookupError | RuntimeError | NotImplementedError
  | OSError | TimeoutError

fun require_aware_utc :: "py_datetime \<Rightarrow> py_error + instant" where
  "require_aware_utc (Aware t) = Inr t"
| "require_aware_utc (Naive _) = Inl ValueError"

lemma time_unit_simps [py_simps]:
  "sec n = n * 1000000" "minutes n = n * 60000000" "hours n = n * 3600000000"
  "days n = n * 86400000000"
  by (simp_all add: sec_def minutes_def hours_def days_def)

subsection \<open>Lists\<close>

text \<open>\<open>max\<close> with a default and the last match of a query ordered by a key.\<close>

fun best_by :: "('a \<Rightarrow> 'k::linorder) \<Rightarrow> 'a list \<Rightarrow> 'a option" where
  "best_by f [] = None"
| "best_by f (x # xs) = (case best_by f xs of None \<Rightarrow> Some x | Some y \<Rightarrow> if f y < f x then Some x else Some y)"

lemma best_by_None_iff [simp]: "best_by f xs = None \<longleftrightarrow> xs = []"
  by (cases xs) (auto split: option.splits)

lemma best_by_Some:
  assumes "best_by f xs = Some y"
  shows "y \<in> set xs \<and> (\<forall>x \<in> set xs. f x \<le> f y)"
  using assms
proof (induction xs arbitrary: y)
  case Nil
  then show ?case by simp
next
  case (Cons x xs)
  then show ?case by (fastforce split: option.splits if_splits)
qed

lemma best_by_exists: "xs \<noteq> [] \<Longrightarrow> \<exists>y. best_by f xs = Some y"
  by (metis best_by_None_iff not_None_eq)

lemma find_None_iff_all: "List.find P xs = None \<longleftrightarrow> (\<forall>x \<in> set xs. \<not> P x)"
  by (auto simp: find_None_iff)

lemma find_Some_in: "List.find P xs = Some x \<Longrightarrow> x \<in> set xs \<and> P x"
  by (auto simp: find_Some_iff)

end
