(* ===== verification/States.thy ===== *)
theory States
  imports Prelude
begin

section \<open>Firmware state spellings\<close>

text \<open>
  \<open>storcli/states.py\<close>: the semantic comparison of drive, array and alarm states, and the
  severity names the whole program uses for events. Stored evidence keeps the firmware's own
  spelling; only comparisons go through \<open>normalized_state\<close>.
\<close>

definition state_aliases :: "(string \<times> string) list" where
  "state_aliases =
    [(''optl'', ''optimal''),
     (''msng'', ''missing''),
     (''offln'', ''offline''),
     (''ofln'', ''offline''),
     (''dgrd'', ''degraded''),
     (''pdgd'', ''partially degraded''),
     (''partially-degraded'', ''partially degraded'')]"

definition normalized_state :: "string \<Rightarrow> string" where
  "normalized_state s =
     (let normalized = py_lower (py_strip s)
      in case map_of state_aliases normalized of None \<Rightarrow> normalized | Some v \<Rightarrow> v)"

datatype alarm = AlarmOn | AlarmSilenced | AlarmOff | AlarmUnknown

definition normalize_alarm_state :: "string option \<Rightarrow> alarm" where
  "normalize_alarm_state v =
     (let normalized = py_lower (py_strip (case v of None \<Rightarrow> [] | Some s \<Rightarrow> s))
      in if normalized \<in> set [''on'', ''enabled'', ''enable''] then AlarmOn
         else if normalized \<in> set [''silenced'', ''silence'', ''mute'', ''muted''] then AlarmSilenced
         else if normalized \<in> set [''off'', ''disabled'', ''disable''] then AlarmOff
         else AlarmUnknown)"

text \<open>The three severities an event is written with: \<open>info\<close>, \<open>warning\<close>, \<open>critical\<close>.\<close>

datatype severity = Info | Warning | Critical

fun severity_name :: "severity \<Rightarrow> string" where
  "severity_name Info = ''info''"
| "severity_name Warning = ''warning''"
| "severity_name Critical = ''critical''"

fun severity_rank :: "severity \<Rightarrow> nat" where
  "severity_rank Info = 0"
| "severity_rank Warning = 1"
| "severity_rank Critical = 2"

instantiation severity :: linorder
begin

definition less_eq_severity :: "severity \<Rightarrow> severity \<Rightarrow> bool" where
  "a \<le> b \<longleftrightarrow> severity_rank a \<le> severity_rank b"

definition less_severity :: "severity \<Rightarrow> severity \<Rightarrow> bool" where
  "a < b \<longleftrightarrow> severity_rank a < severity_rank b"

instance
proof
  fix a b c :: severity
  show "a < b \<longleftrightarrow> a \<le> b \<and> \<not> b \<le> a" by (auto simp: less_eq_severity_def less_severity_def)
  show "a \<le> a" by (simp add: less_eq_severity_def)
  show "a \<le> b \<Longrightarrow> b \<le> c \<Longrightarrow> a \<le> c" by (simp add: less_eq_severity_def)
  show "a \<le> b \<Longrightarrow> b \<le> a \<Longrightarrow> a = b"
    by (cases a; cases b) (simp_all add: less_eq_severity_def)
  show "a \<le> b \<or> b \<le> a" by (auto simp: less_eq_severity_def)
qed

end

lemma severity_name_inject [simp]: "severity_name a = severity_name b \<longleftrightarrow> a = b"
  by (cases a; cases b) simp_all

lemma strip_keeps_inner:
  assumes "s \<noteq> []" "\<not> is_space (hd s)" "\<not> is_space (last s)"
  shows "py_strip s = s"
proof -
  have "dropWhile is_space s = s"
    using assms(1,2) by (cases s) auto
  moreover have "dropWhile is_space (rev s) = rev s"
    using assms(1,3) by (cases s rule: rev_cases) auto
  ultimately show ?thesis by (simp add: py_strip_def)
qed

lemma is_space_lower [simp]: "is_space (lower_char c) = is_space c"
proof (cases "is_upper c")
  case True
  then have "code_of (lower_char c) = code_of c + 32"
    by (simp add: lower_char_def code_of_def is_upper_def of_char_of)
  with True show ?thesis by (simp add: is_space_def is_upper_def)
next
  case False
  then show ?thesis by (simp add: lower_char_def)
qed

lemma strip_lower: "py_strip (py_lower s) = py_lower (py_strip s)"
  by (simp add: py_strip_def py_lower_def dropWhile_map rev_map comp_def)

lemma strip_idem [simp]: "py_strip (py_strip s) = py_strip s"
proof (cases "py_strip s = []")
  case True
  show ?thesis unfolding True by (simp add: py_strip_def)
next
  case False
  let ?t = "dropWhile is_space s"
  have ne: "dropWhile is_space (rev ?t) \<noteq> []" using False by (simp add: py_strip_def)
  then have l: "\<not> is_space (last (py_strip s))"
    using hd_dropWhile [of is_space "rev ?t"] by (simp add: py_strip_def last_rev)
  obtain w where w: "?t = py_strip s @ w"
    using takeWhile_dropWhile_id [of is_space "rev ?t"]
    unfolding py_strip_def by (metis rev_append rev_rev_ident)
  with False have "hd (py_strip s) = hd ?t" by (metis hd_append2)
  moreover have "?t \<noteq> []" using ne by (metis dropWhile.simps(1) rev.simps(1))
  ultimately have "\<not> is_space (hd (py_strip s))" using hd_dropWhile [of is_space s] by metis
  with False l show ?thesis by (intro strip_keeps_inner) auto
qed

text \<open>
  Normalisation is idempotent: the spelling it returns is a fixed point, so comparing a stored
  state with an already normalised one is safe.
\<close>

lemma alias_values_stable:
  assumes "map_of state_aliases s = Some v"
  shows "normalized_state v = v"
proof -
  from assms have "v \<in> {''optimal'', ''missing'', ''offline'', ''degraded'', ''partially degraded''}"
    by (auto simp: state_aliases_def split: if_splits)
  then show ?thesis
    by (auto simp: normalized_state_def state_aliases_def py_strip_def py_lower_def is_space_def
        lower_char_def is_upper_def code_of_def)
qed

lemma normalized_state_idem: "normalized_state (normalized_state s) = normalized_state s"
proof (cases "map_of state_aliases (py_lower (py_strip s))")
  case None
  then have "normalized_state s = py_lower (py_strip s)" by (simp add: normalized_state_def)
  moreover have "normalized_state (py_lower (py_strip s)) = py_lower (py_strip s)"
    using None by (simp add: normalized_state_def strip_lower)
  ultimately show ?thesis by simp
next
  case (Some v)
  then have "normalized_state s = v" by (simp add: normalized_state_def)
  with alias_values_stable [OF Some] show ?thesis by simp
qed

end
