(* ===== verification/Patterns.thy ===== *)
theory Patterns
  imports Prelude
begin

section \<open>Full-match patterns\<close>

text \<open>
  The regular expressions the program checks commands and audit lines with are sequences of
  literals, fixed alternatives, digit runs and runs of non-space characters. \<open>full_match\<close> is
  \<open>re.fullmatch\<close> on them, with the engine's backtracking; \<open>pieces_lang\<close> is the language
  such a sequence denotes, and \<open>full_match_iff\<close> shows that the matcher decides it.
\<close>

datatype piece =
    Lit string
  | OneOf "string list"
  | Num                   \<comment> \<open>\<open>\d+\<close>\<close>
  | NumOr string          \<comment> \<open>\<open>(?:word|\d+)\<close>\<close>
  | Graph                 \<comment> \<open>\<open>\S+\<close>\<close>

fun full_match :: "piece list \<Rightarrow> string \<Rightarrow> bool" where
  "full_match [] s = (s = [])"
| "full_match (Lit l # ps) s = (prefix l s \<and> full_match ps (drop (length l) s))"
| "full_match (OneOf ls # ps) s = list_ex (\<lambda>l. prefix l s \<and> full_match ps (drop (length l) s)) ls"
| "full_match (Num # ps) [] = False"
| "full_match (Num # ps) (c # cs) = (is_digit c \<and> (full_match ps cs \<or> full_match (Num # ps) cs))"
| "full_match (NumOr l # ps) s =
     ((prefix l s \<and> full_match ps (drop (length l) s))
      \<or> (case s of [] \<Rightarrow> False
          | c # cs \<Rightarrow> is_digit c \<and> (full_match ps cs \<or> full_match (Num # ps) cs)))"
| "full_match (Graph # ps) [] = False"
| "full_match (Graph # ps) (c # cs) =
     (\<not> is_space c \<and> (full_match ps cs \<or> full_match (Graph # ps) cs))"

fun piece_lang :: "piece \<Rightarrow> string set" where
  "piece_lang (Lit l) = {l}"
| "piece_lang (OneOf ls) = set ls"
| "piece_lang Num = {w. w \<noteq> [] \<and> (\<forall>c \<in> set w. is_digit c)}"
| "piece_lang (NumOr l) = insert l {w. w \<noteq> [] \<and> (\<forall>c \<in> set w. is_digit c)}"
| "piece_lang Graph = {w. w \<noteq> [] \<and> (\<forall>c \<in> set w. \<not> is_space c)}"

fun pieces_lang :: "piece list \<Rightarrow> string set" where
  "pieces_lang [] = {[]}"
| "pieces_lang (p # ps) = {u @ v | u v. u \<in> piece_lang p \<and> v \<in> pieces_lang ps}"

lemma prefix_drop_iff: "prefix l s \<and> P (drop (length l) s) \<longleftrightarrow> (\<exists>t. s = l @ t \<and> P t)"
  by (auto simp: prefix_def)

lemma run_lang_step:
  "(\<exists>u v. c # cs = u @ v \<and> u \<noteq> [] \<and> (\<forall>x \<in> set u. Q x) \<and> v \<in> V) \<longleftrightarrow>
   Q c \<and> (cs \<in> V \<or> (\<exists>u v. cs = u @ v \<and> u \<noteq> [] \<and> (\<forall>x \<in> set u. Q x) \<and> v \<in> V))"
  (is "?L \<longleftrightarrow> ?R")
proof
  assume ?L
  then obtain u v where uv: "c # cs = u @ v" "u \<noteq> []" "\<forall>x \<in> set u. Q x" "v \<in> V" by blast
  then obtain u' where u': "u = c # u'" "cs = u' @ v" by (cases u) auto
  show ?R
  proof (cases "u' = []")
    case True
    with uv u' show ?thesis by simp
  next
    case False
    with uv u' show ?thesis by auto
  qed
next
  assume R: ?R
  then have c: "Q c" by simp
  from R consider "cs \<in> V" | u v where "cs = u @ v" "u \<noteq> []" "\<forall>x \<in> set u. Q x" "v \<in> V" by blast
  then show ?L
  proof cases
    case 1
    with c have "c # cs = [c] @ cs \<and> [c] \<noteq> [] \<and> (\<forall>x \<in> set [c]. Q x) \<and> cs \<in> V" by simp
    then show ?thesis by blast
  next
    case 2
    with c have "c # cs = (c # u) @ v \<and> c # u \<noteq> [] \<and> (\<forall>x \<in> set (c # u). Q x) \<and> v \<in> V" by simp
    then show ?thesis by blast
  qed
qed

theorem full_match_iff: "full_match ps s \<longleftrightarrow> s \<in> pieces_lang ps"
proof (induction ps s rule: full_match.induct)
  case (3 ls ps s)
  then have "full_match (OneOf ls # ps) s \<longleftrightarrow> (\<exists>l \<in> set ls. \<exists>t. s = l @ t \<and> t \<in> pieces_lang ps)"
    using prefix_drop_iff [where P = "\<lambda>t. t \<in> pieces_lang ps"]
    by (simp add: list_ex_iff cong: bex_cong)
  then show ?case by auto
next
  case (5 ps c cs)
  then show ?case using run_lang_step [of c cs is_digit "pieces_lang ps"]
    by (simp add: conj_assoc)
next
  case (6 l ps s)
  have split: "s \<in> pieces_lang (NumOr l # ps) \<longleftrightarrow>
      (\<exists>t. s = l @ t \<and> t \<in> pieces_lang ps) \<or> s \<in> pieces_lang (Num # ps)"
    by auto
  have num: "(case s of [] \<Rightarrow> False
          | c # cs \<Rightarrow> is_digit c \<and> (full_match ps cs \<or> full_match (Num # ps) cs)) \<longleftrightarrow>
      s \<in> pieces_lang (Num # ps)"
  proof (cases s)
    case Nil
    then show ?thesis by simp
  next
    case (Cons c cs)
    with 6 show ?thesis using run_lang_step [of c cs is_digit "pieces_lang ps"]
      by (simp add: conj_assoc)
  qed
  from 6(1) show ?case by (simp only: full_match.simps split num) (auto simp: prefix_def)
next
  case (8 ps c cs)
  then show ?case using run_lang_step [of c cs "\<lambda>c. \<not> is_space c" "pieces_lang ps"]
    by (simp add: conj_assoc)
qed (auto simp: prefix_def list_ex_iff)

text \<open>Facts about every word of a pattern follow from facts about its pieces.\<close>

lemma pieces_lang_all:
  assumes "\<forall>p \<in> set ps. \<forall>w \<in> piece_lang p. \<forall>c \<in> set w. Q c" and "s \<in> pieces_lang ps"
  shows "\<forall>c \<in> set s. Q c"
  using assms by (induction ps arbitrary: s) auto

lemma digit_not_space: "is_digit c \<Longrightarrow> \<not> is_space c"
  by (auto simp: is_digit_def is_space_def)

lemma show_nat_in_num [simp]: "show_nat n \<in> {w. w \<noteq> [] \<and> (\<forall>c \<in> set w. is_digit c)}"
  using show_nat_digits by simp

text \<open>Tokens of a matched command: splitting literal text around digit runs.\<close>

lemma split_on_append_no_sep:
  "d \<notin> set w \<Longrightarrow> split_on d (w @ s) = (w @ hd (split_on d s)) # tl (split_on d s)"
proof (induction w)
  case Nil
  then show ?case by simp
next
  case (Cons c w)
  then show ?case by auto
qed

lemma digits_no_blank:
  assumes "\<forall>c \<in> set w. is_digit c"
  shows "CHR '' '' \<notin> set w"
proof
  assume "CHR '' '' \<in> set w"
  with assms have "is_digit CHR '' ''" by blast
  then show False by (simp add: is_digit_def code_of_def)
qed

end
