(* ===== verification/Commands.thy ===== *)
theory Commands
  imports States Patterns
begin

section \<open>StorCLI commands\<close>

text \<open>
  The commands the program can ask for (\<open>services/drive_actions.py\<close>), the fixed allow list in
  front of the subprocess (\<open>storcli/runner.py\<close>: \<open>_with_json_flag\<close>, \<open>_validate_command\<close>), and the
  exceptions of \<open>storcli/exceptions.py\<close>.

  A builder returns \<open>Inl message\<close> where the source raises \<open>ValueError(message)\<close>. A StorCLI
  exception is a value of \<open>storcli_error\<close>; its \<open>write_sent\<close> attribute is set by the runner and
  carried beside it there.
\<close>

subsection \<open>Exceptions\<close>

datatype storcli_error =
    CommandFailed (err_text: string) (err_msg: "string option")
  | NotAvailable (err_text: string)
  | ParseError (err_text: string)
  | ResponseFailed (err_text: string) (exit_code: int) (failed_payload: json)

fun error_class :: "storcli_error \<Rightarrow> string" where
  "error_class (CommandFailed _ _) = ''StorcliCommandFailed''"
| "error_class (NotAvailable _) = ''StorcliNotAvailable''"
| "error_class (ParseError _) = ''StorcliParseError''"
| "error_class (ResponseFailed _ _ _) = ''StorcliResponseFailed''"

subsection \<open>Argument checks\<close>

definition validate_enclosure_slot :: "int \<Rightarrow> int \<Rightarrow> string + unit" where
  "validate_enclosure_slot enclosure slot =
     (if enclosure < 0 \<or> enclosure > 255 then Inl ''enclosure must be int in [0, 255]''
      else if slot < 0 \<or> slot > 255 then Inl ''slot must be int in [0, 255]''
      else Inr ())"

definition validate_virtual_drive :: "int \<Rightarrow> string + unit" where
  "validate_virtual_drive vd =
     (if vd < 0 \<or> vd > 255 then Inl ''vd_id must be int in [0, 255]'' else Inr ())"

definition drive_path :: "int \<Rightarrow> int \<Rightarrow> string" where
  "drive_path e s = ''/c0/e'' @ show_int e @ ''/s'' @ show_int s"

text \<open>Python's \<open>repr\<close> of a string, which refusal messages quote their argument with.\<close>

definition hex_digit :: "nat \<Rightarrow> char" where
  "hex_digit d = (if d < 10 then digit_char d else char_of (87 + d))"

definition repr_char :: "char \<Rightarrow> char \<Rightarrow> string" where
  "repr_char quote c =
     (if c = quote \<or> code_of c = 92 then [CHR 0x5C, c]
      else if code_of c = 9 then [CHR 0x5C, CHR ''t'']
      else if code_of c = 10 then [CHR 0x5C, CHR ''n'']
      else if code_of c = 13 then [CHR 0x5C, CHR ''r'']
      else if code_of c < 32 \<or> code_of c = 127
        then [CHR 0x5C, CHR ''x'', hex_digit (code_of c div 16), hex_digit (code_of c mod 16)]
      else [c])"

definition py_repr :: "string \<Rightarrow> string" where
  "py_repr s =
     (let quote = (if CHR 0x27 \<in> set s \<and> CHR 0x22 \<notin> set s then CHR 0x22 else CHR 0x27)
      in [quote] @ concat (map (repr_char quote) s) @ [quote])"

subsection \<open>Builders\<close>

definition build_locate_command :: "int \<Rightarrow> int \<Rightarrow> string \<Rightarrow> string + string list" where
  "build_locate_command e s action =
     bindr (validate_enclosure_slot e s) (\<lambda>_.
       if action \<notin> set [''start'', ''stop''] then Inl (''unknown locate action: '' @ py_repr action)
       else Inr [drive_path e s, action, ''locate'', ''J''])"

definition build_alarm_silence_command :: "string list" where
  "build_alarm_silence_command = [''/c0'', ''set'', ''alarm=silence'']"

definition build_alarm_disable_command :: "string list" where
  "build_alarm_disable_command = [''/c0'', ''set'', ''alarm=off'']"

definition build_alarm_enable_command :: "string list" where
  "build_alarm_enable_command = [''/c0'', ''set'', ''alarm=on'']"

definition build_set_offline_command :: "int \<Rightarrow> int \<Rightarrow> string + string list" where
  "build_set_offline_command e s =
     bindr (validate_enclosure_slot e s) (\<lambda>_. Inr [drive_path e s, ''set'', ''offline'', ''J''])"

definition build_set_missing_command :: "int \<Rightarrow> int \<Rightarrow> string + string list" where
  "build_set_missing_command e s =
     bindr (validate_enclosure_slot e s) (\<lambda>_. Inr [drive_path e s, ''set'', ''missing'', ''J''])"

definition build_mark_unconfigured_bad_command :: "int \<Rightarrow> int \<Rightarrow> string + string list" where
  "build_mark_unconfigured_bad_command e s =
     bindr (validate_enclosure_slot e s) (\<lambda>_. Inr [drive_path e s, ''set'', ''bad''])"

definition build_mark_unconfigured_good_command :: "int \<Rightarrow> int \<Rightarrow> string + string list" where
  "build_mark_unconfigured_good_command e s =
     bindr (validate_enclosure_slot e s) (\<lambda>_. Inr [drive_path e s, ''set'', ''good''])"

definition build_spin_down_command :: "int \<Rightarrow> int \<Rightarrow> string + string list" where
  "build_spin_down_command e s =
     bindr (validate_enclosure_slot e s) (\<lambda>_. Inr [drive_path e s, ''spindown''])"

definition build_make_hot_spare_command :: "int \<Rightarrow> int \<Rightarrow> int \<Rightarrow> string + string list" where
  "build_make_hot_spare_command e s dg =
     bindr (validate_enclosure_slot e s) (\<lambda>_.
       if dg < 0 \<or> dg > 63 then Inl ''dg_id must be int in [0, 63]''
       else Inr [drive_path e s, ''add'', ''hotsparedrive'', ''dgs='' @ show_int dg])"

definition build_show_drive_command :: "int \<Rightarrow> int \<Rightarrow> string + string list" where
  "build_show_drive_command e s =
     bindr (validate_enclosure_slot e s) (\<lambda>_. Inr [drive_path e s, ''show'', ''all'', ''J''])"

definition build_rebuild_status_command :: "int \<Rightarrow> int \<Rightarrow> string + string list" where
  "build_rebuild_status_command e s =
     bindr (validate_enclosure_slot e s) (\<lambda>_. Inr [drive_path e s, ''show'', ''rebuild'', ''J''])"

definition build_patrol_read_show_command :: "string list" where
  "build_patrol_read_show_command = [''/c0'', ''show'', ''patrolread'', ''J'']"

definition build_patrol_read_start_command :: "string list" where
  "build_patrol_read_start_command = [''/c0'', ''start'', ''patrolread'', ''J'']"

definition build_patrol_read_stop_command :: "string list" where
  "build_patrol_read_stop_command = [''/c0'', ''stop'', ''patrolread'', ''J'']"

definition build_patrol_read_mode_command :: "string \<Rightarrow> string + string list" where
  "build_patrol_read_mode_command mode =
     (if mode = ''auto'' then Inr [''/c0'', ''set'', ''patrolread=on'', ''mode=auto'', ''J'']
      else if mode = ''manual'' then Inr [''/c0'', ''set'', ''patrolread=on'', ''mode=manual'', ''J'']
      else if mode = ''disable'' then Inr [''/c0'', ''set'', ''patrolread=off'', ''J'']
      else Inl (''unknown patrol read mode: '' @ py_repr mode))"

definition build_consistency_check_show_command :: "string list" where
  "build_consistency_check_show_command = [''/c0'', ''show'', ''cc'', ''J'']"

definition build_consistency_check_show_progress_command :: "string list" where
  "build_consistency_check_show_progress_command = [''/c0/vall'', ''show'', ''cc'', ''J'']"

definition build_consistency_check_start_command :: "int option \<Rightarrow> string + string list" where
  "build_consistency_check_start_command vd =
     (case vd of
        None \<Rightarrow> Inr [''/c0/vall'', ''start'', ''cc'', ''J'']
      | Some v \<Rightarrow> bindr (validate_virtual_drive v) (\<lambda>_.
          Inr [''/c0/v'' @ show_int v, ''start'', ''cc'', ''J'']))"

definition build_consistency_check_stop_command :: "string list" where
  "build_consistency_check_stop_command = [''/c0/vall'', ''stop'', ''cc'', ''J'']"

definition build_consistency_check_mode_command :: "string \<Rightarrow> string + string list" where
  "build_consistency_check_mode_command mode =
     (if mode = ''concurrent'' then Inr [''/c0'', ''set'', ''cc=conc'', ''J'']
      else if mode = ''sequential'' then Inr [''/c0'', ''set'', ''cc=seq'', ''J'']
      else Inl (''unknown consistency check mode: '' @ py_repr mode))"

definition build_insert_replacement_command ::
  "int \<Rightarrow> int \<Rightarrow> int \<Rightarrow> int \<Rightarrow> int \<Rightarrow> string + string list" where
  "build_insert_replacement_command e s dg array row =
     bindr (validate_enclosure_slot e s) (\<lambda>_.
       if dg < 0 \<or> dg > 63 then Inl ''dg must be int in [0, 63]''
       else if array < 0 \<or> array > 63 then Inl ''array must be int in [0, 63]''
       else if row < 0 \<or> row > 255 then Inl ''row must be int in [0, 255]''
       else Inr [drive_path e s, ''insert'', ''dg='' @ show_int dg, ''array='' @ show_int array,
                 ''row='' @ show_int row, ''J''])"

definition build_foreign_config_show_command :: "string list" where
  "build_foreign_config_show_command = [''/c0/fall'', ''show'', ''all'', ''J'']"

definition build_foreign_config_import_command :: "string list" where
  "build_foreign_config_import_command = [''/c0/fall'', ''import'', ''J'']"

definition build_foreign_config_clear_command :: "string list" where
  "build_foreign_config_clear_command = [''/c0/fall'', ''delete'', ''J'']"

subsection \<open>The allow list\<close>

definition allowed_command_patterns :: "piece list list" where
  "allowed_command_patterns =
    [[Lit ''/c0 show all J''],
     [Lit ''/c0/vall show all J''],
     [Lit ''/c0/eall/sall show all J''],
     [Lit ''/c0/cv show all J''],
     [Lit ''/c0/bbu show all J''],
     [Lit ''/c0 show patrolread J''],
     [Lit ''/c0 '', OneOf [''start'', ''stop''], Lit '' patrolread J''],
     [Lit ''/c0 set patrolread=on mode='', OneOf [''auto'', ''manual''], Lit '' J''],
     [Lit ''/c0 set patrolread=off J''],
     [Lit ''/c0 show cc J''],
     [Lit ''/c0/vall show cc J''],
     [Lit ''/c0/v'', NumOr ''all'', Lit '' start cc J''],
     [Lit ''/c0/vall stop cc J''],
     [Lit ''/c0 set cc='', OneOf [''conc'', ''seq''], Lit '' J''],
     [Lit ''/c0 set alarm='', OneOf [''silence'', ''off'', ''on''], Lit '' J''],
     [Lit ''/c0 set activityforlocate='', OneOf [''on'', ''off''], Lit '' J''],
     [Lit ''/c0/fall show all J''],
     [Lit ''/c0/fall import J''],
     [Lit ''/c0/fall delete J''],
     [Lit ''/c0/e'', Num, Lit ''/s'', Num, Lit '' show all J''],
     [Lit ''/c0/e'', Num, Lit ''/s'', Num, Lit '' show rebuild J''],
     [Lit ''/c0/e'', Num, Lit ''/s'', Num, Lit '' '', OneOf [''start'', ''stop''], Lit '' locate J''],
     [Lit ''/c0/e'', Num, Lit ''/s'', Num, Lit '' set '', OneOf [''offline'', ''missing'', ''good''], Lit '' J''],
     [Lit ''/c0/e'', Num, Lit ''/s'', Num, Lit '' spindown J''],
     [Lit ''/c0/e'', Num, Lit ''/s'', Num, Lit '' add hotsparedrive dgs='', Num, Lit '' J''],
     [Lit ''/c0/e'', Num, Lit ''/s'', Num, Lit '' insert dg='', Num, Lit '' array='', Num, Lit '' row='', Num, Lit '' J'']]"

definition with_json_flag :: "string list \<Rightarrow> string list" where
  "with_json_flag args = (if args \<noteq> [] \<and> last args = ''J'' then args else args @ [''J''])"

definition join_args :: "string list \<Rightarrow> string" where
  "join_args args = join_with [CHR '' ''] args"

definition validate_command :: "string list \<Rightarrow> storcli_error + unit" where
  "validate_command args =
     (let command = join_args args;
          refused = Inl (CommandFailed (''storcli command is not allowed: '' @ py_repr command) (Some command))
      in if list_ex (\<lambda>a. a = [] \<or> list_ex is_space a) args then refused
         else if list_ex (\<lambda>ps. full_match ps command) allowed_command_patterns then Inr ()
         else refused)"

subsection \<open>State gates\<close>

definition can_transition :: "string \<Rightarrow> string \<Rightarrow> bool" where
  "can_transition current step =
     (if step = ''offline'' then current \<in> set [''Onln'', ''Offln'', ''Failed'', ''UBad'', ''UGood'']
      else if step = ''missing'' then current \<in> set [''Offln'']
      else False)"

definition can_mark_ubad :: "string \<Rightarrow> bool" where
  "can_mark_ubad current \<longleftrightarrow> current = ''UGood''"

definition can_mark_ugood :: "string \<Rightarrow> bool" where
  "can_mark_ugood current \<longleftrightarrow> current = ''UBad''"

definition can_spin_down :: "string \<Rightarrow> bool" where
  "can_spin_down current \<longleftrightarrow> current \<in> set [''UGood'', ''UBad'']"

definition can_make_hot_spare :: "string \<Rightarrow> bool \<Rightarrow> bool" where
  "can_make_hot_spare current has_existing_dgs \<longleftrightarrow> current = ''UGood'' \<and> has_existing_dgs"

definition step_missing_success :: "piece list" where
  "step_missing_success =
     [Lit ''replace step missing drive '', Num, Lit '':'', Num, Lit '' serial '', Graph, Lit '' succeeded'']"

definition can_transition_step3 :: "string option \<Rightarrow> bool" where
  "can_transition_step3 latest =
     (case latest of None \<Rightarrow> False | Some msg \<Rightarrow> full_match step_missing_success msg)"

end
