(* ===== verification/CommandSafety.thy ===== *)
theory CommandSafety
  imports Commands
begin

section \<open>What the command allow list admits\<close>

text \<open>
  Facts about \<open>_validate_command\<close> and the builders. The allow list is read as a set of
  token lists: \<open>pat_tokens\<close> splits a pattern at its blanks, and a check on those tokens
  (\<open>shape_pat\<close>, evaluated once on the whole list) gives the shape of every admitted command.
\<close>

lemma join_args_nil [simp]: "join_args [] = []"
  by (simp add: join_args_def)

lemma validate_command_Inr_iff:
  "validate_command args = Inr () \<longleftrightarrow>
     (\<forall>a \<in> set args. a \<noteq> [] \<and> (\<forall>c \<in> set a. \<not> is_space c)) \<and>
     (\<exists>ps \<in> set allowed_command_patterns. join_args args \<in> pieces_lang ps)"
  by (auto simp: validate_command_def Let_def list_ex_iff full_match_iff)

lemma blank_is_space [simp]: "is_space CHR '' ''"
  by (simp add: is_space_def code_of_def)

lemma join_args_tokens:
  assumes "args \<noteq> []" "\<forall>a \<in> set args. \<forall>c \<in> set a. \<not> is_space c"
  shows "split_on CHR '' '' (join_args args) = args"
  unfolding join_args_def using assms blank_is_space by (intro split_on_join) blast+

fun add_token :: "string list \<Rightarrow> piece list list \<Rightarrow> piece list list" where
  "add_token [] qs = qs"
| "add_token [w] qs = (case qs of [] \<Rightarrow> [[Lit w]] | q # qs' \<Rightarrow> (Lit w # q) # qs')"
| "add_token (w # v # ws) qs = [Lit w] # add_token (v # ws) qs"

fun pat_tokens :: "piece list \<Rightarrow> piece list list" where
  "pat_tokens [] = [[]]"
| "pat_tokens (Lit l # ps) = add_token (split_on CHR '' '' l) (pat_tokens ps)"
| "pat_tokens (p # ps) = (case pat_tokens ps of [] \<Rightarrow> [[p]] | q # qs \<Rightarrow> (p # q) # qs)"

lemma add_token_conv:
  "ws \<noteq> [] \<Longrightarrow> qs \<noteq> [] \<Longrightarrow> add_token ws qs = map (\<lambda>w. [Lit w]) (butlast ws) @ (Lit (last ws) # hd qs) # tl qs"
  by (induction ws qs rule: add_token.induct) (auto split: list.splits)

lemma split_on_append:
  "split_on d (l @ v) = butlast (split_on d l) @ (last (split_on d l) @ hd (split_on d v)) # tl (split_on d v)"
  by (induction l) (auto split: list.splits)

lemma pat_tokens_not_nil [simp]: "pat_tokens ps \<noteq> []"
  by (induction ps rule: pat_tokens.induct) (auto simp: add_token_conv split: list.splits)

lemma list_all2_hd_tl: "xs \<noteq> [] \<Longrightarrow> ys \<noteq> [] \<Longrightarrow> list_all2 P xs ys \<longleftrightarrow> P (hd xs) (hd ys) \<and> list_all2 P (tl xs) (tl ys)"
  by (cases xs; cases ys) auto

fun solid :: "piece \<Rightarrow> bool" where
  "solid (OneOf ls) = list_all (\<lambda>l. CHR '' '' \<notin> set l) ls"
| "solid (NumOr l) = (CHR '' '' \<notin> set l)"
| "solid _ = True"

lemma solid_no_blank:
  assumes "solid p" "w \<in> piece_lang p" "\<nexists>l. p = Lit l"
  shows "CHR '' '' \<notin> set w"
  using assms by (cases p) (auto simp: list_all_iff digits_no_blank)

lemma pat_tokens_correct:
  assumes "s \<in> pieces_lang ps" "\<forall>p \<in> set ps. solid p"
  shows "list_all2 (\<lambda>w q. w \<in> pieces_lang q) (split_on CHR '' '' s) (pat_tokens ps)"
  using assms
proof (induction ps arbitrary: s)
  case Nil
  then show ?case by simp
next
  case (Cons p ps)
  then obtain u v where uv: "s = u @ v" "u \<in> piece_lang p" "v \<in> pieces_lang ps" by auto
  have IH: "list_all2 (\<lambda>w q. w \<in> pieces_lang q) (split_on CHR '' '' v) (pat_tokens ps)"
    using Cons uv by simp
  then have hd_tl: "hd (split_on CHR '' '' v) \<in> pieces_lang (hd (pat_tokens ps))"
    "list_all2 (\<lambda>w q. w \<in> pieces_lang q) (tl (split_on CHR '' '' v)) (tl (pat_tokens ps))"
    by (simp_all add: list_all2_hd_tl)
  show ?case
  proof (cases "\<exists>l. p = Lit l")
    case True
    then obtain l where p: "p = Lit l" by blast
    have "list_all2 (\<lambda>w q. w \<in> pieces_lang q) ws (map (\<lambda>w. [Lit w]) ws)" for ws
      by (induction ws) auto
    with hd_tl uv p show ?thesis
      by (auto simp: split_on_append add_token_conv intro!: list_all2_appendI)
  next
    case False
    with uv Cons.prems have "split_on CHR '' '' s = (u @ hd (split_on CHR '' '' v)) # tl (split_on CHR '' '' v)"
      using split_on_append_no_sep solid_no_blank [of p u] by simp
    moreover from False have "pat_tokens (p # ps) = (p # hd (pat_tokens ps)) # tl (pat_tokens ps)"
      by (cases p) (auto split: list.splits)
    ultimately show ?thesis using hd_tl uv by auto
  qed
qed

lemma patterns_solid: "ps \<in> set allowed_command_patterns \<Longrightarrow> p \<in> set ps \<Longrightarrow> solid p"
  by (auto simp: allowed_command_patterns_def)

text \<open>A check on the patterns themselves that implies the shape of every word they match.\<close>

fun choices :: "piece list \<Rightarrow> string list option" where
  "choices [] = Some [[]]"
| "choices (Lit l # ps) = (case choices ps of None \<Rightarrow> None | Some ws \<Rightarrow> Some (map ((@) l) ws))"
| "choices (OneOf ls # ps) =
     (case choices ps of None \<Rightarrow> None | Some ws \<Rightarrow> Some (concat (map (\<lambda>l. map ((@) l) ws) ls)))"
| "choices (_ # ps) = None"

lemma choices_correct: "choices q = Some ws \<Longrightarrow> w \<in> pieces_lang q \<Longrightarrow> w \<in> set ws"
  by (induction q arbitrary: ws w rule: choices.induct) (fastforce split: option.splits)+

fun leading :: "piece list \<Rightarrow> string" where
  "leading (Lit l # _) = l"
| "leading _ = []"

lemma leading_prefix: "w \<in> pieces_lang q \<Longrightarrow> prefix (leading q) w"
  by (cases q rule: leading.cases) auto

definition tok_in :: "piece list \<Rightarrow> string list \<Rightarrow> bool" where
  "tok_in q vs \<longleftrightarrow> (case choices q of None \<Rightarrow> False | Some ws \<Rightarrow> list_all (\<lambda>w. w \<in> set vs) ws)"

definition tok_not :: "piece list \<Rightarrow> string \<Rightarrow> bool" where
  "tok_not q v \<longleftrightarrow> (case choices q of None \<Rightarrow> False | Some ws \<Rightarrow> v \<notin> set ws)
     \<or> \<not> prefix (leading q) v"

lemma tok_in_correct: "tok_in q vs \<Longrightarrow> w \<in> pieces_lang q \<Longrightarrow> w \<in> set vs"
  by (auto simp: tok_in_def list_all_iff dest: choices_correct split: option.splits)

lemma tok_not_correct: "tok_not q v \<Longrightarrow> w \<in> pieces_lang q \<Longrightarrow> w \<noteq> v"
  by (auto simp: tok_not_def dest: choices_correct leading_prefix split: option.splits)

definition read_verbs :: "string list" where
  "read_verbs = [''all'', ''patrolread'', ''cc'', ''rebuild'']"

definition write_verbs :: "string list" where
  "write_verbs = [''start'', ''stop'', ''set'', ''import'', ''delete'', ''spindown'', ''add'', ''insert'']"

fun command_shape :: "string list \<Rightarrow> bool" where
  "command_shape (t # v # ts) \<longleftrightarrow>
     prefix ''/c0'' t \<and> t \<noteq> ''show'' \<and> last (v # ts) = ''J'' \<and>
     ((v = ''show'' \<and> (\<exists>what \<in> set read_verbs. ts = [what, ''J'']))
      \<or> (v \<in> set write_verbs \<and> ''show'' \<notin> set ts))"
| "command_shape _ = False"

fun shape_pat :: "piece list list \<Rightarrow> bool" where
  "shape_pat (q # v # qs) \<longleftrightarrow>
     prefix ''/c0'' (leading q) \<and> tok_not q ''show'' \<and> tok_in (last (v # qs)) [''J''] \<and>
     ((tok_in v [''show''] \<and> (case qs of [what, j] \<Rightarrow> tok_in what read_verbs \<and> tok_in j [''J''] | _ \<Rightarrow> False))
      \<or> (tok_in v write_verbs \<and> list_all (\<lambda>q. tok_not q ''show'') qs))"
| "shape_pat _ = False"

lemma list_all2_last: "list_all2 P xs ys \<Longrightarrow> xs \<noteq> [] \<Longrightarrow> P (last xs) (last ys)"
  by (induction rule: list_all2_induct) auto

lemma shape_pat_correct:
  assumes "list_all2 (\<lambda>w q. w \<in> pieces_lang q) ts qs" "shape_pat qs"
  shows "command_shape ts"
proof -
  obtain q v qs' where qs: "qs = q # v # qs'" using assms(2) by (cases qs rule: shape_pat.cases) auto
  then obtain t u ts' where ts: "ts = t # u # ts'" and t: "t \<in> pieces_lang q" and u: "u \<in> pieces_lang v"
    and rest: "list_all2 (\<lambda>w q. w \<in> pieces_lang q) ts' qs'"
    using assms(1) by (auto simp: list_all2_Cons2)
  have "last (u # ts') \<in> pieces_lang (last (v # qs'))"
    using list_all2_last [where P = "\<lambda>w q. w \<in> pieces_lang q", of "u # ts'" "v # qs'"] u rest by simp
  with assms(2) qs have J: "last (u # ts') = ''J''"
    using tok_in_correct by fastforce
  have "prefix ''/c0'' (leading q)" "tok_not q ''show''" using assms(2) qs by auto
  then have first: "prefix ''/c0'' t" "t \<noteq> ''show''"
    using leading_prefix [OF t] tok_not_correct [OF _ t] prefix_order.trans by (blast, blast)
  have "(u = ''show'' \<and> (\<exists>what \<in> set read_verbs. ts' = [what, ''J'']))
      \<or> (u \<in> set write_verbs \<and> ''show'' \<notin> set ts')"
  proof (cases "tok_in v [''show''] \<and> (case qs' of [what, j] \<Rightarrow> tok_in what read_verbs \<and> tok_in j [''J''] | _ \<Rightarrow> False)")
    case True
    then obtain a b where "qs' = [a, b]" "tok_in a read_verbs" "tok_in b [''J'']"
      by (auto split: list.splits)
    moreover from True u have "u = ''show''" using tok_in_correct by fastforce
    ultimately show ?thesis using rest by (fastforce simp: list_all2_Cons2 dest: tok_in_correct)
  next
    case False
    with assms(2) qs have "tok_in v write_verbs" "list_all (\<lambda>q. tok_not q ''show'') qs'" by auto
    moreover from rest have "\<forall>w \<in> set ts'. \<exists>p \<in> set qs'. w \<in> pieces_lang p"
      by (induction rule: list_all2_induct) auto
    ultimately show ?thesis using u tok_in_correct tok_not_correct by (metis list_all_iff)
  qed
  with J first ts show ?thesis by simp
qed

lemma patterns_shaped: "list_all (\<lambda>ps. shape_pat (pat_tokens ps)) allowed_command_patterns"
  by code_simp

lemma pattern_shape:
  assumes "ps \<in> set allowed_command_patterns" "s \<in> pieces_lang ps"
  shows "command_shape (split_on CHR '' '' s)"
  using assms patterns_solid patterns_shaped
  by (intro shape_pat_correct [OF pat_tokens_correct]) (auto simp: list_all_iff)

subsection \<open>Admitted commands\<close>

lemma admitted_not_nil: "validate_command args = Inr () \<Longrightarrow> args \<noteq> []"
proof
  assume v: "validate_command args = Inr ()" and n: "args = []"
  then obtain ps where "ps \<in> set allowed_command_patterns" "[] \<in> pieces_lang ps"
    by (auto simp: validate_command_Inr_iff)
  then have "command_shape (split_on CHR '' '' [])" by (rule pattern_shape)
  then show False by simp
qed

lemma admitted_shape:
  assumes "validate_command args = Inr ()"
  shows "command_shape args"
proof -
  obtain ps where ps: "ps \<in> set allowed_command_patterns" "join_args args \<in> pieces_lang ps"
    using assms by (auto simp: validate_command_Inr_iff)
  have "split_on CHR '' '' (join_args args) = args"
    using assms admitted_not_nil by (intro join_args_tokens) (auto simp: validate_command_Inr_iff)
  with pattern_shape [OF ps] show ?thesis by simp
qed

text \<open>The characters a command may contain: no quote, separator or glob of a shell or of sudoers.\<close>

definition plain_char :: "char \<Rightarrow> bool" where
  "plain_char c \<longleftrightarrow> is_alpha c \<or> is_digit c \<or> c = CHR ''/'' \<or> c = CHR ''=''"

definition plain_or_blank :: "char \<Rightarrow> bool" where
  "plain_or_blank c \<longleftrightarrow> plain_char c \<or> c = CHR '' ''"

fun plain_piece :: "piece \<Rightarrow> bool" where
  "plain_piece (Lit l) = list_all plain_or_blank l"
| "plain_piece (OneOf ls) = list_all (list_all plain_or_blank) ls"
| "plain_piece Num = True"
| "plain_piece (NumOr l) = list_all plain_or_blank l"
| "plain_piece Graph = False"

lemma plain_piece_correct: "plain_piece p \<Longrightarrow> w \<in> piece_lang p \<Longrightarrow> c \<in> set w \<Longrightarrow> plain_or_blank c"
  by (cases p) (auto simp: list_all_iff plain_or_blank_def plain_char_def)

lemma patterns_plain: "list_all (list_all plain_piece) allowed_command_patterns"
  by (simp add: allowed_command_patterns_def plain_or_blank_def plain_char_def is_alpha_def
      is_upper_def is_lower_def is_digit_def code_of_def)

lemma set_join_with: "a \<in> set ws \<Longrightarrow> set a \<subseteq> set (join_with d ws)"
  by (induction d ws rule: join_with.induct) auto

lemma admitted_plain:
  assumes "validate_command args = Inr ()" "a \<in> set args" "c \<in> set a"
  shows "plain_char c"
proof -
  obtain ps where ps: "ps \<in> set allowed_command_patterns" "join_args args \<in> pieces_lang ps"
    using assms by (auto simp: validate_command_Inr_iff)
  have "\<forall>c \<in> set (join_args args). plain_or_blank c"
    using ps patterns_plain plain_piece_correct
    by (intro pieces_lang_all [of ps]) (auto simp: list_all_iff, blast)
  moreover have "c \<in> set (join_args args)"
    using set_join_with [OF assms(2)] assms(3) by (auto simp: join_args_def)
  moreover have "c \<noteq> CHR '' ''"
    using assms blank_is_space unfolding validate_command_Inr_iff by metis
  ultimately show ?thesis by (auto simp: plain_or_blank_def)
qed

subsection \<open>Builders against the allow list\<close>

text \<open>Every argument list a builder can return.\<close>

inductive built :: "string list \<Rightarrow> bool" where
  "build_locate_command e s a = Inr c \<Longrightarrow> built c"
| "built build_alarm_silence_command"
| "built build_alarm_disable_command"
| "built build_alarm_enable_command"
| "build_set_offline_command e s = Inr c \<Longrightarrow> built c"
| "build_set_missing_command e s = Inr c \<Longrightarrow> built c"
| "build_mark_unconfigured_good_command e s = Inr c \<Longrightarrow> built c"
| "build_spin_down_command e s = Inr c \<Longrightarrow> built c"
| "build_make_hot_spare_command e s dg = Inr c \<Longrightarrow> built c"
| "build_show_drive_command e s = Inr c \<Longrightarrow> built c"
| "build_rebuild_status_command e s = Inr c \<Longrightarrow> built c"
| "built build_patrol_read_show_command"
| "built build_patrol_read_start_command"
| "built build_patrol_read_stop_command"
| "build_patrol_read_mode_command m = Inr c \<Longrightarrow> built c"
| "built build_consistency_check_show_command"
| "built build_consistency_check_show_progress_command"
| "build_consistency_check_start_command vd = Inr c \<Longrightarrow> built c"
| "built build_consistency_check_stop_command"
| "build_consistency_check_mode_command m = Inr c \<Longrightarrow> built c"
| "build_insert_replacement_command e s dg array row = Inr c \<Longrightarrow> built c"
| "built build_foreign_config_show_command"
| "built build_foreign_config_import_command"
| "built build_foreign_config_clear_command"

lemma in_lit: "t \<in> pieces_lang ps \<Longrightarrow> l @ t \<in> pieces_lang (Lit l # ps)"
  by auto

lemma in_one_of: "l \<in> set ls \<Longrightarrow> t \<in> pieces_lang ps \<Longrightarrow> l @ t \<in> pieces_lang (OneOf ls # ps)"
  by auto

lemma in_num: "t \<in> pieces_lang ps \<Longrightarrow> show_nat n @ t \<in> pieces_lang (Num # ps)"
  using show_nat_in_num unfolding pieces_lang.simps piece_lang.simps by blast

lemma in_num_or: "t \<in> pieces_lang ps \<Longrightarrow> show_nat n @ t \<in> pieces_lang (NumOr l # ps)"
  using show_nat_in_num unfolding pieces_lang.simps piece_lang.simps by blast

lemma in_end: "[] \<in> pieces_lang []"
  by simp

lemma show_nat_no_space: "c \<in> set (show_nat n) \<Longrightarrow> \<not> is_space c"
  using show_nat_digits digit_not_space by blast

lemma admitI:
  assumes "ps \<in> set allowed_command_patterns" "join_args args = s" "s \<in> pieces_lang ps"
    and "\<forall>a \<in> set args. a \<noteq> [] \<and> (\<forall>c \<in> set a. \<not> is_space c)"
  shows "validate_command args = Inr ()"
  using assms by (auto simp: validate_command_Inr_iff)

lemmas admit_eval = allowed_command_patterns_def full_match_iff [symmetric] join_args_def
  is_space_def code_of_def

definition token_ok :: "string \<Rightarrow> bool" where
  "token_ok a \<longleftrightarrow> a \<noteq> [] \<and> list_all (\<lambda>c. \<not> is_space c) a"

lemma admit_exact:
  assumes "[Lit (join_args args)] \<in> set allowed_command_patterns" "list_all token_ok args"
  shows "validate_command args = Inr ()"
  by (rule admitI [OF assms(1) refl]) (use assms(2) in \<open>auto simp: list_all_iff token_ok_def\<close>)

lemma admit_choice:
  assumes "[Lit a, OneOf ls, Lit b] \<in> set allowed_command_patterns" "l \<in> set ls"
    "join_args args = a @ l @ b" "list_all token_ok args"
  shows "validate_command args = Inr ()"
proof (rule admitI [OF assms(1,3)])
  have "a @ l @ b @ [] \<in> pieces_lang [Lit a, OneOf ls, Lit b]"
    by (intro in_lit in_one_of assms(2) in_end)
  then show "a @ l @ b \<in> pieces_lang [Lit a, OneOf ls, Lit b]" by simp
qed (use assms(4) in \<open>auto simp: list_all_iff token_ok_def\<close>)

lemmas fixed_builder_defs =
  build_alarm_silence_command_def
  build_alarm_disable_command_def
  build_alarm_enable_command_def
  build_patrol_read_show_command_def
  build_patrol_read_start_command_def
  build_patrol_read_stop_command_def
  build_consistency_check_show_command_def
  build_consistency_check_show_progress_command_def
  build_consistency_check_stop_command_def
  build_foreign_config_show_command_def
  build_foreign_config_import_command_def
  build_foreign_config_clear_command_def

lemmas exact_eval = with_json_flag_def fixed_builder_defs join_args_def allowed_command_patterns_def
  token_ok_def is_space_def code_of_def

lemma fixed_builders_admitted:
  "validate_command (with_json_flag build_alarm_silence_command) = Inr ()"
  "validate_command (with_json_flag build_alarm_disable_command) = Inr ()"
  "validate_command (with_json_flag build_alarm_enable_command) = Inr ()"
  "validate_command (with_json_flag build_patrol_read_show_command) = Inr ()"
  "validate_command (with_json_flag build_patrol_read_start_command) = Inr ()"
  "validate_command (with_json_flag build_patrol_read_stop_command) = Inr ()"
  "validate_command (with_json_flag build_consistency_check_show_command) = Inr ()"
  "validate_command (with_json_flag build_consistency_check_show_progress_command) = Inr ()"
  "validate_command (with_json_flag build_consistency_check_stop_command) = Inr ()"
  "validate_command (with_json_flag build_foreign_config_show_command) = Inr ()"
  "validate_command (with_json_flag build_foreign_config_import_command) = Inr ()"
  "validate_command (with_json_flag build_foreign_config_clear_command) = Inr ()"
proof -
  show "validate_command (with_json_flag build_alarm_silence_command) = Inr ()"
    by (rule admit_choice [of "''/c0 set alarm=''" "[''silence'', ''off'', ''on'']" "'' J''" "''silence''"]; simp add: exact_eval)
  show "validate_command (with_json_flag build_alarm_disable_command) = Inr ()"
    by (rule admit_choice [of "''/c0 set alarm=''" "[''silence'', ''off'', ''on'']" "'' J''" "''off''"]; simp add: exact_eval)
  show "validate_command (with_json_flag build_alarm_enable_command) = Inr ()"
    by (rule admit_choice [of "''/c0 set alarm=''" "[''silence'', ''off'', ''on'']" "'' J''" "''on''"]; simp add: exact_eval)
  show "validate_command (with_json_flag build_patrol_read_show_command) = Inr ()"
    by (rule admit_exact; simp add: exact_eval)
  show "validate_command (with_json_flag build_patrol_read_start_command) = Inr ()"
    by (rule admit_choice [of "''/c0 ''" "[''start'', ''stop'']" "'' patrolread J''" "''start''"]; simp add: exact_eval)
  show "validate_command (with_json_flag build_patrol_read_stop_command) = Inr ()"
    by (rule admit_choice [of "''/c0 ''" "[''start'', ''stop'']" "'' patrolread J''" "''stop''"]; simp add: exact_eval)
  show "validate_command (with_json_flag build_consistency_check_show_command) = Inr ()"
    by (rule admit_exact; simp add: exact_eval)
  show "validate_command (with_json_flag build_consistency_check_show_progress_command) = Inr ()"
    by (rule admit_exact; simp add: exact_eval)
  show "validate_command (with_json_flag build_consistency_check_stop_command) = Inr ()"
    by (rule admit_exact; simp add: exact_eval)
  show "validate_command (with_json_flag build_foreign_config_show_command) = Inr ()"
    by (rule admit_exact; simp add: exact_eval)
  show "validate_command (with_json_flag build_foreign_config_import_command) = Inr ()"
    by (rule admit_exact; simp add: exact_eval)
  show "validate_command (with_json_flag build_foreign_config_clear_command) = Inr ()"
    by (rule admit_exact; simp add: exact_eval)
qed

lemma literals_no_space [simp]:
  "\<not> is_space CHR ''/''" "\<not> is_space CHR ''c''" "\<not> is_space CHR ''0''" "\<not> is_space CHR ''e''"
  "\<not> is_space CHR ''s''" "\<not> is_space CHR ''v''"
  by (simp_all add: is_space_def code_of_def)

lemma drive_path_token: "0 \<le> e \<Longrightarrow> 0 \<le> s \<Longrightarrow> \<forall>c \<in> set (drive_path e s). \<not> is_space c"
  by (auto simp: drive_path_def show_int_nonneg show_nat_no_space)

lemma admit_drive:
  assumes "[Lit ''/c0/e'', Num, Lit ''/s'', Num] @ rest \<in> set allowed_command_patterns"
    "CHR '' '' # join_args args \<in> pieces_lang rest"
    "args \<noteq> []" "\<forall>a \<in> set args. a \<noteq> [] \<and> (\<forall>c \<in> set a. \<not> is_space c)"
    "0 \<le> e" "0 \<le> s"
  shows "validate_command (drive_path e s # args) = Inr ()"
proof (rule admitI [OF assms(1)])
  show "join_args (drive_path e s # args)
      = ''/c0/e'' @ show_nat (nat e) @ ''/s'' @ show_nat (nat s) @ (CHR '' '' # join_args args)"
    using assms by (simp add: join_args_def join_with_Cons drive_path_def show_int_nonneg)
  show "''/c0/e'' @ show_nat (nat e) @ ''/s'' @ show_nat (nat s) @ (CHR '' '' # join_args args)
    \<in> pieces_lang ([Lit ''/c0/e'', Num, Lit ''/s'', Num] @ rest)"
    unfolding append.simps(2) [of "Lit ''/c0/e''"] append.simps(2) [of Num] append.simps(2) [of "Lit ''/s''"]
      append.simps(1) [of rest]
    by (intro in_lit in_num assms(2))
  show "\<forall>a \<in> set (drive_path e s # args). a \<noteq> [] \<and> (\<forall>c \<in> set a. \<not> is_space c)"
    using assms drive_path_token by (auto simp: drive_path_def)
qed

lemma admit_locate:
  "0 \<le> e \<Longrightarrow> 0 \<le> s \<Longrightarrow> a \<in> set [''start'', ''stop''] \<Longrightarrow> validate_command [drive_path e s, a, ''locate'', ''J''] = Inr ()"
  by (rule admit_drive [where rest = "[Lit '' '', OneOf [''start'', ''stop''], Lit '' locate J'']"])
    (auto simp: admit_eval)

lemma admit_set:
  "0 \<le> e \<Longrightarrow> 0 \<le> s \<Longrightarrow> a \<in> set [''offline'', ''missing'', ''good''] \<Longrightarrow> validate_command [drive_path e s, ''set'', a, ''J''] = Inr ()"
  by (rule admit_drive [where rest = "[Lit '' set '', OneOf [''offline'', ''missing'', ''good''], Lit '' J'']"])
    (auto simp: admit_eval)

lemma admit_show:
  "0 \<le> e \<Longrightarrow> 0 \<le> s \<Longrightarrow> a \<in> set [''all'', ''rebuild''] \<Longrightarrow> validate_command [drive_path e s, ''show'', a, ''J''] = Inr ()"
  by (rule admit_drive [where rest = "[Lit ('' show '' @ a @ '' J'')]"]) (auto simp: admit_eval)

lemma admit_spindown:
  "0 \<le> e \<Longrightarrow> 0 \<le> s \<Longrightarrow> validate_command [drive_path e s, ''spindown'', ''J''] = Inr ()"
  by (rule admit_drive [where rest = "[Lit '' spindown J'']"]) (auto simp: admit_eval)

lemma show_nat_token: "\<forall>c \<in> set w. \<not> is_space c \<Longrightarrow> \<forall>c \<in> set (w @ show_nat n). \<not> is_space c"
  using show_nat_no_space by auto

lemma admit_hotspare:
  assumes "0 \<le> e" "0 \<le> s" "0 \<le> dg"
  shows "validate_command [drive_path e s, ''add'', ''hotsparedrive'', ''dgs='' @ show_int dg, ''J''] = Inr ()"
proof (rule admit_drive [where rest = "[Lit '' add hotsparedrive dgs='', Num, Lit '' J'']"])
  have "'' add hotsparedrive dgs='' @ show_nat (nat dg) @ '' J'' @ []
    \<in> pieces_lang [Lit '' add hotsparedrive dgs='', Num, Lit '' J'']"
    by (intro in_lit in_num in_end)
  then show "CHR '' '' # join_args [''add'', ''hotsparedrive'', ''dgs='' @ show_int dg, ''J'']
    \<in> pieces_lang [Lit '' add hotsparedrive dgs='', Num, Lit '' J'']"
    using assms by (simp add: join_args_def show_int_nonneg)
  show "\<forall>a \<in> set [''add'', ''hotsparedrive'', ''dgs='' @ show_int dg, ''J'']. a \<noteq> [] \<and> (\<forall>c \<in> set a. \<not> is_space c)"
    using assms show_nat_no_space [of _ "nat dg"]
    by (simp add: show_int_nonneg ball_Un) (auto simp: is_space_def code_of_def)
qed (simp_all add: assms allowed_command_patterns_def)

lemma admit_insert:
  assumes "0 \<le> e" "0 \<le> s" "0 \<le> dg" "0 \<le> a" "0 \<le> r"
  shows "validate_command [drive_path e s, ''insert'', ''dg='' @ show_int dg, ''array='' @ show_int a,
    ''row='' @ show_int r, ''J''] = Inr ()"
proof (rule admit_drive [where rest = "[Lit '' insert dg='', Num, Lit '' array='', Num, Lit '' row='', Num, Lit '' J'']"])
  have "'' insert dg='' @ show_nat (nat dg) @ '' array='' @ show_nat (nat a) @ '' row='' @ show_nat (nat r) @ '' J'' @ []
    \<in> pieces_lang [Lit '' insert dg='', Num, Lit '' array='', Num, Lit '' row='', Num, Lit '' J'']"
    by (intro in_lit in_num in_end)
  then show "CHR '' '' # join_args [''insert'', ''dg='' @ show_int dg, ''array='' @ show_int a, ''row='' @ show_int r, ''J'']
    \<in> pieces_lang [Lit '' insert dg='', Num, Lit '' array='', Num, Lit '' row='', Num, Lit '' J'']"
    using assms by (simp add: join_args_def show_int_nonneg)
  show "\<forall>x \<in> set [''insert'', ''dg='' @ show_int dg, ''array='' @ show_int a, ''row='' @ show_int r, ''J''].
      x \<noteq> [] \<and> (\<forall>c \<in> set x. \<not> is_space c)"
    using assms show_nat_no_space [of _ "nat dg"] show_nat_no_space [of _ "nat a"] show_nat_no_space [of _ "nat r"]
    by (simp add: show_int_nonneg ball_Un) (auto simp: is_space_def code_of_def)
qed (simp_all add: assms allowed_command_patterns_def)

lemma admit_cc_start:
  assumes "0 \<le> v"
  shows "validate_command [''/c0/v'' @ show_int v, ''start'', ''cc'', ''J''] = Inr ()"
proof (rule admitI)
  show "[Lit ''/c0/v'', NumOr ''all'', Lit '' start cc J''] \<in> set allowed_command_patterns"
    by (simp add: allowed_command_patterns_def)
  show "join_args [''/c0/v'' @ show_int v, ''start'', ''cc'', ''J''] = ''/c0/v'' @ show_nat (nat v) @ '' start cc J'' @ []"
    using assms by (simp add: join_args_def show_int_nonneg)
  show "''/c0/v'' @ show_nat (nat v) @ '' start cc J'' @ [] \<in> pieces_lang [Lit ''/c0/v'', NumOr ''all'', Lit '' start cc J'']"
    by (intro in_lit in_num_or in_end)
  show "\<forall>a \<in> set [''/c0/v'' @ show_int v, ''start'', ''cc'', ''J'']. a \<noteq> [] \<and> (\<forall>c \<in> set a. \<not> is_space c)"
    using assms show_nat_no_space [of _ "nat v"]
    by (simp add: show_int_nonneg ball_Un) (auto simp: is_space_def code_of_def)
qed

lemma admit_cc_all: "validate_command [''/c0/vall'', ''start'', ''cc'', ''J''] = Inr ()"
proof (rule admitI)
  show "[Lit ''/c0/v'', NumOr ''all'', Lit '' start cc J''] \<in> set allowed_command_patterns"
    by (simp add: allowed_command_patterns_def)
  show "''/c0/vall start cc J'' \<in> pieces_lang [Lit ''/c0/v'', NumOr ''all'', Lit '' start cc J'']"
    by (simp add: full_match_iff [symmetric])
qed (simp_all add: exact_eval)

lemma slot_ok [simp]: "validate_enclosure_slot e s = Inr u \<longleftrightarrow> 0 \<le> e \<and> e \<le> 255 \<and> 0 \<le> s \<and> s \<le> 255"
  by (auto simp: validate_enclosure_slot_def)

lemma vd_ok [simp]: "validate_virtual_drive v = Inr u \<longleftrightarrow> 0 \<le> v \<and> v \<le> 255"
  by (auto simp: validate_virtual_drive_def)

lemmas builder_defs = build_locate_command_def build_set_offline_command_def build_set_missing_command_def
  build_mark_unconfigured_good_command_def build_mark_unconfigured_bad_command_def
  build_spin_down_command_def build_make_hot_spare_command_def
  build_show_drive_command_def build_rebuild_status_command_def build_patrol_read_mode_command_def
  build_consistency_check_start_command_def build_consistency_check_mode_command_def
  build_insert_replacement_command_def

lemma drive_builders_admitted:
  "build_locate_command e s a = Inr c \<Longrightarrow> validate_command (with_json_flag c) = Inr ()"
  "build_set_offline_command e s = Inr c \<Longrightarrow> validate_command (with_json_flag c) = Inr ()"
  "build_set_missing_command e s = Inr c \<Longrightarrow> validate_command (with_json_flag c) = Inr ()"
  "build_mark_unconfigured_good_command e s = Inr c \<Longrightarrow> validate_command (with_json_flag c) = Inr ()"
  "build_spin_down_command e s = Inr c \<Longrightarrow> validate_command (with_json_flag c) = Inr ()"
  "build_show_drive_command e s = Inr c \<Longrightarrow> validate_command (with_json_flag c) = Inr ()"
  "build_rebuild_status_command e s = Inr c \<Longrightarrow> validate_command (with_json_flag c) = Inr ()"
  by (auto simp: builder_defs bindr_Inr_iff with_json_flag_def admit_locate admit_set admit_spindown
      admit_show split: if_splits)

lemma numbered_builders_admitted:
  "build_make_hot_spare_command e s dg = Inr c \<Longrightarrow> validate_command (with_json_flag c) = Inr ()"
  "build_insert_replacement_command e s dg a r = Inr c \<Longrightarrow> validate_command (with_json_flag c) = Inr ()"
  "build_consistency_check_start_command vd = Inr c \<Longrightarrow> validate_command (with_json_flag c) = Inr ()"
proof -
  show "build_make_hot_spare_command e s dg = Inr c \<Longrightarrow> validate_command (with_json_flag c) = Inr ()"
    using admit_hotspare [of e s dg]
    by (auto simp: builder_defs bindr_Inr_iff with_json_flag_def split: if_splits)
  show "build_insert_replacement_command e s dg a r = Inr c \<Longrightarrow> validate_command (with_json_flag c) = Inr ()"
    using admit_insert [of e s dg a r]
    by (auto simp: builder_defs bindr_Inr_iff with_json_flag_def split: if_splits)
  show "build_consistency_check_start_command vd = Inr c \<Longrightarrow> validate_command (with_json_flag c) = Inr ()"
    using admit_cc_start admit_cc_all
    by (auto simp: builder_defs bindr_Inr_iff with_json_flag_def split: option.splits)
qed

lemma admit_modes:
  "validate_command (with_json_flag [''/c0'', ''set'', ''patrolread=on'', ''mode=auto'', ''J'']) = Inr ()"
  "validate_command (with_json_flag [''/c0'', ''set'', ''patrolread=on'', ''mode=manual'', ''J'']) = Inr ()"
  "validate_command (with_json_flag [''/c0'', ''set'', ''patrolread=off'', ''J'']) = Inr ()"
  "validate_command (with_json_flag [''/c0'', ''set'', ''cc=conc'', ''J'']) = Inr ()"
  "validate_command (with_json_flag [''/c0'', ''set'', ''cc=seq'', ''J'']) = Inr ()"
proof -
  show "validate_command (with_json_flag [''/c0'', ''set'', ''patrolread=on'', ''mode=auto'', ''J'']) = Inr ()"
    by (rule admit_choice [of "''/c0 set patrolread=on mode=''" "[''auto'', ''manual'']" "'' J''" "''auto''"]; simp add: exact_eval)
  show "validate_command (with_json_flag [''/c0'', ''set'', ''patrolread=on'', ''mode=manual'', ''J'']) = Inr ()"
    by (rule admit_choice [of "''/c0 set patrolread=on mode=''" "[''auto'', ''manual'']" "'' J''" "''manual''"]; simp add: exact_eval)
  show "validate_command (with_json_flag [''/c0'', ''set'', ''patrolread=off'', ''J'']) = Inr ()"
    by (rule admit_exact; simp add: exact_eval)
  show "validate_command (with_json_flag [''/c0'', ''set'', ''cc=conc'', ''J'']) = Inr ()"
    by (rule admit_choice [of "''/c0 set cc=''" "[''conc'', ''seq'']" "'' J''" "''conc''"]; simp add: exact_eval)
  show "validate_command (with_json_flag [''/c0'', ''set'', ''cc=seq'', ''J'']) = Inr ()"
    by (rule admit_choice [of "''/c0 set cc=''" "[''conc'', ''seq'']" "'' J''" "''seq''"]; simp add: exact_eval)
qed

lemma mode_builders_admitted:
  "build_patrol_read_mode_command m = Inr c \<Longrightarrow> validate_command (with_json_flag c) = Inr ()"
  "build_consistency_check_mode_command m = Inr c \<Longrightarrow> validate_command (with_json_flag c) = Inr ()"
  by (auto simp: builder_defs admit_modes [unfolded with_json_flag_def, simplified] with_json_flag_def split: if_splits)

lemma built_admitted:
  assumes "built c"
  shows "validate_command (with_json_flag c) = Inr ()"
  using assms by cases
    (simp_all only: fixed_builders_admitted drive_builders_admitted numbered_builders_admitted
      mode_builders_admitted)

text \<open>Every command a builder returns passes the subprocess allow list once its JSON flag is on.\<close>

theorem builders_are_admitted:
  "built c \<Longrightarrow> validate_command (with_json_flag c) = Inr ()"
  by (rule built_admitted)

lemma patterns_lack_bad:
  "list_all (\<lambda>ps. list_all (\<lambda>q. tok_not q ''bad'') (pat_tokens ps)) allowed_command_patterns"
  by code_simp

lemma admitted_tokens:
  assumes "validate_command args = Inr ()"
  obtains ps where "ps \<in> set allowed_command_patterns"
    and "list_all2 (\<lambda>w q. w \<in> pieces_lang q) args (pat_tokens ps)"
proof -
  obtain ps where ps: "ps \<in> set allowed_command_patterns" "join_args args \<in> pieces_lang ps"
    using assms by (auto simp: validate_command_Inr_iff)
  have "split_on CHR '' '' (join_args args) = args"
    using assms admitted_not_nil by (intro join_args_tokens) (auto simp: validate_command_Inr_iff)
  moreover have "list_all2 (\<lambda>w q. w \<in> pieces_lang q) (split_on CHR '' '' (join_args args)) (pat_tokens ps)"
    using ps patterns_solid by (intro pat_tokens_correct) auto
  ultimately show thesis using that ps by simp
qed

lemma list_all2_member: "list_all2 P xs ys \<Longrightarrow> x \<in> set xs \<Longrightarrow> \<exists>y \<in> set ys. P x y"
  by (induction rule: list_all2_induct) auto

lemma admitted_lacks_bad: "validate_command args = Inr () \<Longrightarrow> ''bad'' \<notin> set args"
proof
  assume v: "validate_command args = Inr ()" and b: "''bad'' \<in> set args"
  obtain ps where ps: "ps \<in> set allowed_command_patterns"
    "list_all2 (\<lambda>w q. w \<in> pieces_lang q) args (pat_tokens ps)"
    using admitted_tokens [OF v] by blast
  obtain q where q: "q \<in> set (pat_tokens ps)" "''bad'' \<in> pieces_lang q"
    using list_all2_member [OF ps(2) b] by blast
  have "tok_not q ''bad''" using patterns_lack_bad ps(1) q(1) by (auto simp: list_all_iff)
  from tok_not_correct [OF this q(2)] show False by simp
qed

text \<open>A command the allow list admits addresses controller 0 and asks for JSON; it is either a
  read, of the form target, show, subject, J, or it carries one of the eight write verbs and the
  word show nowhere. So the word show, which the runner takes for the mark of a read, decides it.\<close>

theorem admitted_read_or_write:
  assumes "validate_command args = Inr ()"
  shows "prefix ''/c0'' (hd args) \<and> last args = ''J'' \<and>
    (''show'' \<in> set args \<longleftrightarrow> (\<exists>what \<in> set read_verbs. tl args = [''show'', what, ''J''])) \<and>
    (''show'' \<notin> set args \<longleftrightarrow> args ! 1 \<in> set write_verbs)"
proof -
  obtain t v ts where args: "args = t # v # ts"
    using admitted_shape [OF assms] by (cases args rule: command_shape.cases) auto
  with admitted_shape [OF assms] show ?thesis
    by (auto simp: read_verbs_def write_verbs_def)
qed

theorem admitted_read_or_write_witness:
  "(''show'' \<notin> set [''/c0/vall'', ''start'', ''cc'', ''J'']) = (''start'' \<in> set write_verbs)"
  using admitted_read_or_write [OF admit_cc_all] by simp

text \<open>A command the allow list admits holds only letters, digits, slash and equals sign: no
  shell metacharacter, quote, comma or glob can reach the argument vector or a sudoers line.\<close>

theorem admitted_plain_text:
  "validate_command args = Inr () \<Longrightarrow> \<forall>a \<in> set args. a \<noteq> [] \<and> list_all plain_char a"
  using admitted_plain by (auto simp: list_all_iff validate_command_Inr_iff)

theorem admitted_plain_text_witness:
  "list_all plain_char (drive_path 252 3)"
  using admitted_plain_text [OF admit_spindown [of 252 3]] by simp

text \<open>The builder of set bad never yields a command the runner would execute, whatever the
  enclosure and slot: Mark as UBad is refused by the allow list.\<close>

theorem mark_bad_never_admitted:
  "build_mark_unconfigured_bad_command e s = Inr c \<Longrightarrow> validate_command (with_json_flag c) \<noteq> Inr ()"
  using admitted_lacks_bad [of "with_json_flag c"]
  by (auto simp: builder_defs bindr_Inr_iff with_json_flag_def)

theorem mark_bad_never_admitted_witness:
  "validate_command (with_json_flag [drive_path 252 3, ''set'', ''bad'']) \<noteq> Inr ()"
  by (rule mark_bad_never_admitted [of 252 3]) (simp add: builder_defs validate_enclosure_slot_def)

theorem builders_are_admitted_witness:
  "validate_command (with_json_flag [drive_path 252 3, ''insert'', ''dg='' @ show_int 0, ''array='' @ show_int 0,
     ''row='' @ show_int 5, ''J'']) = Inr ()"
  by (rule builders_are_admitted, rule built.intros(21) [of 252 3 0 0 5]) (simp add: builder_defs validate_enclosure_slot_def)

end
