(* ===== verification/Policy.thy ===== *)
theory Policy
  imports CommandSafety
begin

section \<open>The reviewed command policy\<close>

text \<open>
  \<open>storcli/policy.py\<close>: the root-owned file that lists the exact write commands an
  administrator approved, its validation, and the refusals the routes and the runner derive from
  it. \<open>validate_commands\<close> returns \<open>Inl message\<close> where the pydantic validator raises
  ValueError. Reading the file, its ownership and the checksum of the binary
  (\<open>protected_path\<close>, \<open>load_policy\<close>, \<open>verify_pinned_binary\<close>) are file-system operations; the
  runner takes their outcomes as inputs.
\<close>

record approved_command =
  ac_command :: string
  ac_evidence :: string

record replacement_topology =
  rt_slot :: int
  rt_dg :: int
  rt_array :: int
  rt_row :: int

record command_policy =
  service_user :: string
  controller_serial :: string
  virtual_drive :: int
  disk_group :: int
  replacements :: "replacement_topology list"
  commands :: "approved_command list"

definition pinned_binary :: string where
  "pinned_binary = ''/usr/local/libexec/megaraid-dashboard/storcli-1.23.02/storcli64''"

text \<open>The declared bounds of the fields.\<close>

definition in_range :: "int \<Rightarrow> int \<Rightarrow> int \<Rightarrow> bool" where
  "in_range lo hi n \<longleftrightarrow> lo \<le> n \<and> n \<le> hi"

definition topology_fields_ok :: "replacement_topology \<Rightarrow> bool" where
  "topology_fields_ok t \<longleftrightarrow>
     in_range 0 7 (rt_slot t) \<and> in_range 0 63 (rt_dg t) \<and> in_range 0 63 (rt_array t) \<and>
     in_range 0 255 (rt_row t)"

definition policy_fields_ok :: "command_policy \<Rightarrow> bool" where
  "policy_fields_ok p \<longleftrightarrow>
     controller_serial p \<noteq> [] \<and> in_range 0 63 (virtual_drive p) \<and> in_range 0 63 (disk_group p) \<and>
     list_all topology_fields_ok (replacements p) \<and>
     commands p \<noteq> [] \<and> list_all (\<lambda>c. ac_evidence c \<noteq> []) (commands p)"

subsection \<open>Validation\<close>

definition account_name_ok :: "string \<Rightarrow> bool" where
  "account_name_ok s =
     (case s of [] \<Rightarrow> False
      | c # cs \<Rightarrow> (is_lower c \<or> c = CHR ''_'') \<and>
          list_all (\<lambda>c. is_lower c \<or> is_digit c \<or> c = CHR ''_'' \<or> c = CHR ''-'') cs)"

definition slot_names :: "string list" where
  "slot_names = [''0'', ''1'', ''2'', ''3'', ''4'', ''5'', ''6'', ''7'']"

definition approved_drive :: "string \<Rightarrow> bool" where
  "approved_drive token = full_match [Lit ''/c0/e252/s'', OneOf slot_names] token"

text \<open>\<open>token.rsplit("s", 1)[1]\<close>.\<close>

definition after_last :: "char \<Rightarrow> string \<Rightarrow> string" where
  "after_last d s = rev (takeWhile (\<lambda>c. c \<noteq> d) (rev s))"

definition topologies_by_slot :: "replacement_topology list \<Rightarrow> (int \<times> replacement_topology) list" where
  "topologies_by_slot ts = fold (\<lambda>t d. AList.update (rt_slot t) t d) ts []"

definition topology_args :: "replacement_topology \<Rightarrow> string list" where
  "topology_args t =
     [''dg='' @ show_int (rt_dg t), ''array='' @ show_int (rt_array t), ''row='' @ show_int (rt_row t)]"

definition check_approved ::
  "command_policy \<Rightarrow> (int \<times> replacement_topology) list \<Rightarrow> string list \<Rightarrow> string \<Rightarrow> string + unit" where
  "check_approved p topologies seen command =
     (let tokens = split_on CHR '' '' command; target = hd tokens
      in case validate_command tokens of
           Inl _ \<Rightarrow> Inl ''Unsupported command; no sudo grant may be generated''
         | Inr _ \<Rightarrow>
             if command \<in> set seen \<or> last tokens \<noteq> ''J'' \<or> ''show'' \<in> set tokens
               then Inl ''Expected unique JSON write commands''
             else if starts_with ''/c0/e'' target \<and> \<not> approved_drive target
               then Inl ''Only approved enclosure 252 slots 0-7''
             else if starts_with ''/c0/v'' target \<and>
                 target \<notin> set [''/c0/vall'', ''/c0/v'' @ show_int (virtual_drive p)]
               then Inl ''Wrong virtual drive''
             else if ''add'' \<in> set tokens \<and> (''dgs='' @ show_int (disk_group p)) \<notin> set tokens
               then Inl ''Wrong disk group''
             else if ''insert'' \<in> set tokens \<and>
                 (case map_of topologies (int (read_nat (after_last CHR ''s'' target))) of
                    None \<Rightarrow> True
                  | Some t \<Rightarrow> take 3 (drop 2 tokens) \<noteq> topology_args t \<or> rt_dg t \<noteq> disk_group p)
               then Inl ''Replacement requires explicitly approved topology''
             else Inr ())"

fun check_all_approved ::
  "command_policy \<Rightarrow> (int \<times> replacement_topology) list \<Rightarrow> string list \<Rightarrow> string list \<Rightarrow> string + unit" where
  "check_all_approved p topologies seen [] = Inr ()"
| "check_all_approved p topologies seen (c # cs) =
     bindr (check_approved p topologies seen c) (\<lambda>_. check_all_approved p topologies (c # seen) cs)"

definition validate_commands :: "command_policy \<Rightarrow> string + command_policy" where
  "validate_commands p =
     (let topologies = topologies_by_slot (replacements p)
      in if \<not> account_name_ok (service_user p) then Inl ''Invalid service account''
         else if length topologies \<noteq> length (replacements p) then Inl ''Duplicate replacement slot''
         else bindr (check_all_approved p topologies [] (map ac_command (commands p))) (\<lambda>_. Inr p))"

definition permits :: "command_policy \<Rightarrow> string list \<Rightarrow> bool" where
  "permits p args \<longleftrightarrow> join_args (with_json_flag args) \<in> set (map ac_command (commands p))"

text \<open>\<open>dict.fromkeys\<close>: the first occurrence of each key, in order.\<close>

fun first_uniques :: "'a list \<Rightarrow> 'a list" where
  "first_uniques [] = []"
| "first_uniques (x # xs) = x # filter (\<lambda>y. y \<noteq> x) (first_uniques xs)"

definition granted_commands :: "command_policy \<Rightarrow> string list \<Rightarrow> string list" where
  "granted_commands p reads = first_uniques (reads @ map ac_command (commands p))"

definition sudoers :: "command_policy \<Rightarrow> string list \<Rightarrow> string" where
  "sudoers p reads =
     (let body = join_with ('', '' @ [CHR 0x5C, CHR 0x0A] @ ''  '')
                   (map (\<lambda>c. pinned_binary @ '' '' @ c) (granted_commands p reads))
      in ''Cmnd_Alias MEGARAID_APPROVED = '' @ body @ [CHR 0x0A] @
         service_user p @ '' ALL=(root) NOPASSWD: MEGARAID_APPROVED'' @ [CHR 0x0A])"

subsection \<open>From routes to commands\<close>

text \<open>\<open>re.search(r"/drives/252:([0-7])/(.+)$", path)\<close>: the leftmost match, slot and action.\<close>

definition drop_final_newline :: "string \<Rightarrow> string" where
  "drop_final_newline s = (if s \<noteq> [] \<and> last s = CHR 0x0A then butlast s else s)"

definition drive_action_at :: "string \<Rightarrow> (char \<times> string) option" where
  "drive_action_at s =
     (if starts_with ''/drives/252:'' s then
        (case drop 12 s of
           slot # slash # rest \<Rightarrow>
             (let action = drop_final_newline rest
              in if [slot] \<in> set slot_names \<and> slash = CHR ''/'' \<and> action \<noteq> [] \<and> CHR 0x0A \<notin> set action
                 then Some (slot, action) else None)
         | _ \<Rightarrow> None)
      else None)"

fun search_drive_action :: "string \<Rightarrow> (char \<times> string) option" where
  "search_drive_action [] = None"
| "search_drive_action (c # cs) =
     (case drive_action_at (c # cs) of Some r \<Rightarrow> Some r | None \<Rightarrow> search_drive_action cs)"

definition controller_actions :: "command_policy \<Rightarrow> (string \<times> string list) list" where
  "controller_actions p =
    [(''/controller/buzzer/silence'', [''/c0 set alarm=silence J'']),
     (''/controller/buzzer/disable'', [''/c0 set alarm=off J'']),
     (''/controller/buzzer/enable'', [''/c0 set alarm=on J'']),
     (''/controller/patrol-read/start'', [''/c0 start patrolread J'']),
     (''/controller/patrol-read/stop'', [''/c0 stop patrolread J'']),
     (''/controller/patrol-read/mode'',
       [''/c0 set patrolread=on mode=auto J'', ''/c0 set patrolread=on mode=manual J'',
        ''/c0 set patrolread=off J'']),
     (''/controller/consistency-check/start'',
       [''/c0/vall start cc J'', ''/c0/v'' @ show_int (virtual_drive p) @ '' start cc J'']),
     (''/controller/consistency-check/stop'', [''/c0/vall stop cc J'']),
     (''/controller/consistency-check/mode'', [''/c0 set cc=conc J'', ''/c0 set cc=seq J'']),
     (''/controller/foreign-config/import'', [''/c0/fall import J'']),
     (''/controller/foreign-config/clear'', [''/c0/fall delete J''])]"

definition action_tails :: "command_policy \<Rightarrow> (string \<times> string) list" where
  "action_tails p =
    [(''locate/start'', ''start locate J''),
     (''locate/stop'', ''stop locate J''),
     (''actions/mark-ugood'', ''set good J''),
     (''actions/spindown'', ''spindown J''),
     (''actions/hotspare'', ''add hotsparedrive dgs='' @ show_int (disk_group p) @ '' J''),
     (''replace/offline'', ''set offline J''),
     (''replace/missing'', ''set missing J'')]"

definition drive_action_commands :: "command_policy \<Rightarrow> char \<Rightarrow> string \<Rightarrow> string list" where
  "drive_action_commands p slot action =
     (let drive = ''/c0/e252/s'' @ [slot]
      in if action = ''replace/insert'' then
           (case List.find (\<lambda>t. rt_slot t = int (read_nat [slot])) (replacements p) of
              None \<Rightarrow> []
            | Some t \<Rightarrow> [drive @ '' insert dg='' @ show_int (rt_dg t) @ '' array='' @ show_int (rt_array t) @
                         '' row='' @ show_int (rt_row t) @ '' J''])
         else (case map_of (action_tails p) action of None \<Rightarrow> [] | Some tail \<Rightarrow> [drive @ '' '' @ tail]))"

definition action_commands :: "command_policy \<Rightarrow> string \<Rightarrow> string list" where
  "action_commands p path =
     (case List.find (\<lambda>(suf, _). suffix suf path) (controller_actions p) of
        Some (_, cs) \<Rightarrow> cs
      | None \<Rightarrow> (case search_drive_action path of
          None \<Rightarrow> [] | Some (slot, action) \<Rightarrow> drive_action_commands p slot action))"

definition action_unavailable :: string where
  "action_unavailable =
     ''Unavailable: exact StorCLI 1.23.02 syntax or topology is not approved. '' @
     ''Ask the administrator to review read-only help and regenerate the exact sudo policy.''"

definition action_refusal :: "command_policy \<Rightarrow> string \<Rightarrow> string list option \<Rightarrow> string option" where
  "action_refusal p path selected =
     (let candidates = action_commands p path;
          chosen = (case selected of None \<Rightarrow> candidates
                    | Some args \<Rightarrow> filter (\<lambda>c. c = join_args (with_json_flag args)) candidates)
      in if \<not> list_ex (\<lambda>c. permits p (py_words c)) chosen then Some action_unavailable else None)"

text \<open>\<open>step.title()\<close>, for a one-word step.\<close>

definition upper_char :: "char \<Rightarrow> char" where
  "upper_char c = (if is_lower c then char_of (code_of c - 32) else c)"

definition title_word :: "string \<Rightarrow> string" where
  "title_word s = (case s of [] \<Rightarrow> [] | c # cs \<Rightarrow> upper_char c # py_lower cs)"

text \<open>\<open>path.rsplit("/", 1)[0]\<close>: the text before the last slash, or all of it.\<close>

definition before_last :: "char \<Rightarrow> string \<Rightarrow> string" where
  "before_last d s = (if d \<in> set s then rev (drop 1 (dropWhile (\<lambda>c. c \<noteq> d) (rev s))) else s)"

definition replacement_refusal :: "command_policy \<Rightarrow> string \<Rightarrow> string option" where
  "replacement_refusal p path =
     (let base = before_last CHR ''/'' path
      in case List.find (\<lambda>step. action_refusal p (base @ ''/'' @ step) None \<noteq> None)
                [''offline'', ''missing'', ''insert''] of
           None \<Rightarrow> None
         | Some step \<Rightarrow> Some (''Replacement unavailable: '' @ title_word step @
             '' command or topology is not approved. Ask the administrator to approve every replacement step '' @
             ''before taking a drive offline.''))"

definition replacement_step :: "string list \<Rightarrow> bool" where
  "replacement_step args \<longleftrightarrow>
     take 2 (drop 1 args) \<in> set [[''set'', ''offline''], [''set'', ''missing'']] \<or>
     take 1 (drop 1 args) = [''insert'']"

definition replacement_command_refusal :: "command_policy \<Rightarrow> string list \<Rightarrow> string option" where
  "replacement_command_refusal p args =
     (if replacement_step args
      then replacement_refusal p
             (''/drives/'' @ replace_slash_s (removeprefix ''/c0/e'' (hd args)) @ ''/replace/step'')
      else None)"

end
