(* ===== verification/Parsing.thy ===== *)
theory Parsing
  imports Commands
begin

section \<open>Numbers, dates and sizes in StorCLI text\<close>

text \<open>
  The scalar readers of \<open>storcli/models.py\<close> and the parts of Python they rest on: \<open>str\<close> of
  a JSON value, \<open>int(text)\<close>, \<open>float(text)\<close>, \<open>strptime\<close> for the two date formats StorCLI
  prints. A float is the rational its text denotes: the rounding of numerals with more than
  fifteen digits is not modelled. The readers return \<open>Inl e\<close> where the source raises \<open>e\<close>;
  pydantic's ValidationError is a ValueError.
\<close>

subsection \<open>Text of a value\<close>

fun py_str :: "json \<Rightarrow> string" and py_repr_json :: "json \<Rightarrow> string"
  and repr_items :: "json list \<Rightarrow> string list" and repr_pairs :: "(string \<times> json) list \<Rightarrow> string list" where
  "py_str (JStr s) = s"
| "py_str v = py_repr_json v"
| "py_repr_json JNull = ''None''"
| "py_repr_json (JBool b) = (if b then ''True'' else ''False'')"
| "py_repr_json (JInt i) = show_int i"
| "py_repr_json (JFloat _ r) = r"
| "py_repr_json (JStr s) = py_repr s"
| "py_repr_json (JArr vs) = ''['' @ join_with '', '' (repr_items vs) @ '']''"
| "py_repr_json (JObj kvs) = ''{'' @ join_with '', '' (repr_pairs kvs) @ ''}''"
| "repr_items [] = []"
| "repr_items (v # vs) = py_repr_json v # repr_items vs"
| "repr_pairs [] = []"
| "repr_pairs ((k, v) # kvs) = (py_repr k @ '': '' @ py_repr_json v) # repr_pairs kvs"

text \<open>Truth of a value, as \<open>or\<close> and \<open>if\<close> test it.\<close>

fun truthy :: "json \<Rightarrow> bool" where
  "truthy JNull = False"
| "truthy (JBool b) = b"
| "truthy (JInt i) = (i \<noteq> 0)"
| "truthy (JFloat q _) = (q \<noteq> 0)"
| "truthy (JStr s) = (s \<noteq> [])"
| "truthy (JArr vs) = (vs \<noteq> [])"
| "truthy (JObj kvs) = (kvs \<noteq> [])"

subsection \<open>Numerals\<close>

text \<open>A run of digits in which single underscores may separate digits.\<close>

definition digit_run :: "string \<Rightarrow> bool" where
  "digit_run s \<longleftrightarrow> list_all (\<lambda>w. w \<noteq> [] \<and> list_all is_digit w) (split_on CHR ''_'' s)"

definition run_value :: "string \<Rightarrow> nat" where
  "run_value s = read_nat (filter is_digit s)"

definition split_sign :: "string \<Rightarrow> int \<times> string" where
  "split_sign s =
     (case s of
        c # cs \<Rightarrow> if c = CHR ''-'' then (- 1, cs) else if c = CHR ''+'' then (1, cs) else (1, s)
      | [] \<Rightarrow> (1, s))"

definition int_of_text :: "string \<Rightarrow> py_error + int" where
  "int_of_text s =
     (case split_sign (py_strip s) of
        (sign, t) \<Rightarrow> if digit_run t then Inr (sign * int (run_value t)) else Inl ValueError)"

datatype py_float = Finite rat | Infinite | NotANumber

definition mantissa_of :: "string \<Rightarrow> rat option" where
  "mantissa_of s =
     (case split_on CHR ''.'' s of
        [w] \<Rightarrow> if digit_run w then Some (of_nat (run_value w)) else None
      | [w, f] \<Rightarrow>
          if (w = [] \<or> digit_run w) \<and> (f = [] \<or> digit_run f) \<and> \<not> (w = [] \<and> f = [])
          then Some (of_nat (run_value w) + of_nat (run_value f) / 10 ^ length (filter is_digit f))
          else None
      | _ \<Rightarrow> None)"

definition exponent_of :: "string \<Rightarrow> int option" where
  "exponent_of s = (case split_sign s of (sign, t) \<Rightarrow>
     if digit_run t then Some (sign * int (run_value t)) else None)"

definition scale10 :: "rat \<Rightarrow> int \<Rightarrow> rat" where
  "scale10 q e = (if 0 \<le> e then q * 10 ^ nat e else q / 10 ^ nat (- e))"

definition unsigned_float :: "string \<Rightarrow> py_float option" where
  "unsigned_float t =
     (if t \<in> set [''inf'', ''infinity''] then Some Infinite
      else if t = ''nan'' then Some NotANumber
      else case split_on CHR ''e'' t of
             [m] \<Rightarrow> map_option Finite (mantissa_of m)
           | [m, e] \<Rightarrow> (case (mantissa_of m, exponent_of e) of
               (Some q, Some k) \<Rightarrow> Some (Finite (scale10 q k)) | _ \<Rightarrow> None)
           | _ \<Rightarrow> None)"

definition float_of_text :: "string \<Rightarrow> py_error + py_float" where
  "float_of_text s =
     (case split_sign (py_lower (py_strip s)) of
        (sign, t) \<Rightarrow>
          (case unsigned_float t of
             None \<Rightarrow> Inl ValueError
           | Some (Finite q) \<Rightarrow> Inr (Finite (of_int sign * q))
           | Some x \<Rightarrow> Inr x))"

text \<open>\<open>int(x)\<close> of a float truncates towards zero; infinities and NaN raise.\<close>

definition trunc_rat :: "rat \<Rightarrow> int" where
  "trunc_rat q = (if 0 \<le> q then \<lfloor>q\<rfloor> else - \<lfloor>- q\<rfloor>)"

fun int_of_float :: "py_float \<Rightarrow> py_error + int" where
  "int_of_float (Finite q) = Inr (trunc_rat q)"
| "int_of_float Infinite = Inl OverflowError"
| "int_of_float NotANumber = Inl ValueError"

definition int_of_decimal_text :: "string \<Rightarrow> py_error + int" where
  "int_of_decimal_text s = bindr (float_of_text s) int_of_float"

text \<open>Values the optional readers take for absent: \<open>value in (None, "", "N/A", "-")\<close>.\<close>

definition absent_value :: "json \<Rightarrow> bool" where
  "absent_value v \<longleftrightarrow> v \<in> set [JNull, JStr [], JStr ''N/A'', JStr ''-'']"

definition parse_temperature :: "json \<Rightarrow> py_error + int option" where
  "parse_temperature v =
     (if absent_value v then Inr None
      else case v of
        JInt i \<Rightarrow> Inr (Some i)
      | JBool b \<Rightarrow> Inr (Some (if b then 1 else 0))
      | JFloat q _ \<Rightarrow> Inr (Some (trunc_rat q))
      | JStr s \<Rightarrow> bindr (int_of_decimal_text (py_strip (takeWhile (\<lambda>c. c \<noteq> CHR ''C'') s))) (\<lambda>n. Inr (Some n))
      | _ \<Rightarrow> Inl TypeError)"

definition parse_optional_int :: "json \<Rightarrow> py_error + int option" where
  "parse_optional_int v =
     (if absent_value v then Inr None
      else case v of
        JInt i \<Rightarrow> Inr (Some i)
      | JBool b \<Rightarrow> Inr (Some (if b then 1 else 0))
      | JFloat q _ \<Rightarrow> Inr (Some (trunc_rat q))
      | JStr s \<Rightarrow> (case int_of_decimal_text (py_strip s) of
            Inr n \<Rightarrow> Inr (Some n) | Inl ValueError \<Rightarrow> Inr None | Inl e \<Rightarrow> Inl e)
      | _ \<Rightarrow> Inl TypeError)"

definition parse_percent :: "json \<Rightarrow> py_error + int option" where
  "parse_percent v =
     (if absent_value v then Inr None
      else case v of
        JInt i \<Rightarrow> Inr (Some i)
      | JBool b \<Rightarrow> Inr (Some (if b then 1 else 0))
      | JFloat q _ \<Rightarrow> Inr (Some (trunc_rat q))
      | JStr s \<Rightarrow> bindr (int_of_decimal_text (py_strip (takeWhile (\<lambda>c. c \<noteq> CHR ''%'') s))) (\<lambda>n. Inr (Some n))
      | _ \<Rightarrow> Inl TypeError)"

definition yes_no_to_bool :: "json \<Rightarrow> py_error + bool" where
  "yes_no_to_bool v =
     (case v of
        JBool b \<Rightarrow> Inr b
      | JInt i \<Rightarrow> Inr (i \<noteq> 0)
      | JStr s \<Rightarrow> Inr (py_lower (py_strip s) \<in> set [''yes'', ''y'', ''true'', ''on'', ''1'', ''present''])
      | _ \<Rightarrow> Inl TypeError)"

subsection \<open>Sizes\<close>

text \<open>\<open>Decimal(text)\<close>; its special values make the final \<open>int\<close> raise.\<close>

definition size_units :: "(string \<times> int) list" where
  "size_units = [(''b'', 1), (''kb'', 10 ^ 3), (''mb'', 10 ^ 6), (''gb'', 10 ^ 9), (''tb'', 10 ^ 12), (''pb'', 10 ^ 15)]"

definition size_string_to_bytes :: "string \<Rightarrow> py_error + int" where
  "size_string_to_bytes s =
     (case py_words (py_strip (filter (\<lambda>c. c \<noteq> CHR '','') s)) of
        [] \<Rightarrow> Inl ValueError
      | number # rest \<Rightarrow>
          (let u = (case rest of [] \<Rightarrow> ''b'' | w # _ \<Rightarrow> py_lower w);
               scale = (if u = ''bytes'' then ''b'' else u)
           in case map_of size_units scale of
                None \<Rightarrow> Inl ValueError
              | Some m \<Rightarrow> bindr (float_of_text number) (\<lambda>x.
                  (case x of Finite q \<Rightarrow> Inr (trunc_rat (q * of_int m))
                   | Infinite \<Rightarrow> Inl OverflowError | NotANumber \<Rightarrow> Inl ValueError))))"

subsection \<open>Dates\<close>

definition leap_year :: "int \<Rightarrow> bool" where
  "leap_year y \<longleftrightarrow> y mod 4 = 0 \<and> (y mod 100 \<noteq> 0 \<or> y mod 400 = 0)"

definition month_days :: "int \<Rightarrow> int \<Rightarrow> int" where
  "month_days y m =
     (if m = 2 then (if leap_year y then 29 else 28) else if m \<in> set [4, 6, 9, 11] then 30 else 31)"

text \<open>Days since 1970-01-01 of a proleptic Gregorian date.\<close>

definition days_from_civil :: "int \<Rightarrow> int \<Rightarrow> int \<Rightarrow> int" where
  "days_from_civil y m d =
     (let y' = (if m \<le> 2 then y - 1 else y);
          era = y' div 400; yoe = y' - era * 400;
          doy = (153 * (if 2 < m then m - 3 else m + 9) + 2) div 5 + d - 1;
          doe = yoe * 365 + yoe div 4 - yoe div 100 + doy
      in era * 146097 + doe - 719468)"

definition civil_micros :: "int \<Rightarrow> int \<Rightarrow> int \<Rightarrow> int \<Rightarrow> int \<Rightarrow> int \<Rightarrow> int option" where
  "civil_micros y m d h mi s =
     (if 1 \<le> y \<and> y \<le> 9999 \<and> 1 \<le> m \<and> m \<le> 12 \<and> 1 \<le> d \<and> d \<le> month_days y m \<and>
         0 \<le> h \<and> h \<le> 23 \<and> 0 \<le> mi \<and> mi \<le> 59 \<and> 0 \<le> s \<and> s \<le> 59
      then Some (days (days_from_civil y m d) + hours h + minutes mi + sec s) else None)"

definition short_number :: "nat \<Rightarrow> string \<Rightarrow> int option" where
  "short_number n w = (if w \<noteq> [] \<and> length w \<le> n \<and> list_all is_digit w then Some (int (read_nat w)) else None)"

definition year_number :: "string \<Rightarrow> int option" where
  "year_number w = (if length w = 4 then short_number 4 w else None)"

definition clock_of :: "string \<Rightarrow> (int \<times> int \<times> int) option" where
  "clock_of w =
     (case split_on CHR '':'' w of
        [h, m, s] \<Rightarrow> (case (short_number 2 h, short_number 2 m, short_number 2 s) of
           (Some h', Some m', Some s') \<Rightarrow> Some (h', m', s') | _ \<Rightarrow> None)
      | _ \<Rightarrow> None)"

text \<open>\<open>"%m/%d/%Y, %H:%M:%S"\<close> and \<open>"%Y/%m/%d %H:%M:%S"\<close> on whitespace-normalised text.\<close>

definition us_date_of :: "string \<Rightarrow> (int \<times> int \<times> int) option" where
  "us_date_of w =
     (case split_on CHR ''/'' w of
        [m, d, y] \<Rightarrow>
          (if y \<noteq> [] \<and> last y = CHR '','' then
             (case (year_number (butlast y), short_number 2 m, short_number 2 d) of
                (Some y', Some m', Some d') \<Rightarrow> Some (y', m', d') | _ \<Rightarrow> None)
           else None)
      | _ \<Rightarrow> None)"

definition iso_date_of :: "string \<Rightarrow> (int \<times> int \<times> int) option" where
  "iso_date_of w =
     (case split_on CHR ''/'' w of
        [y, m, d] \<Rightarrow> (case (year_number y, short_number 2 m, short_number 2 d) of
           (Some y', Some m', Some d') \<Rightarrow> Some (y', m', d') | _ \<Rightarrow> None)
      | _ \<Rightarrow> None)"

definition date_and_clock :: "(string \<Rightarrow> (int \<times> int \<times> int) option) \<Rightarrow> string list \<Rightarrow> int option" where
  "date_and_clock date ws =
     (case ws of
        [w, v] \<Rightarrow> (case (date w, clock_of v) of
           (Some (y, m, d), Some (h, mi, s)) \<Rightarrow> civil_micros y m d h mi s | _ \<Rightarrow> None)
      | _ \<Rightarrow> None)"

definition parse_datetime :: "json \<Rightarrow> py_error + int" where
  "parse_datetime v =
     (case v of
        JStr s \<Rightarrow>
          (let ws = py_words (py_strip (takeWhile (\<lambda>c. c \<noteq> CHR ''('') s))
           in case date_and_clock us_date_of ws of
                Some t \<Rightarrow> Inr t
              | None \<Rightarrow> (case date_and_clock iso_date_of ws of Some t \<Rightarrow> Inr t | None \<Rightarrow> Inl ValueError))
      | _ \<Rightarrow> Inl TypeError)"

definition parse_optional_datetime :: "json \<Rightarrow> py_error + int option" where
  "parse_optional_datetime v =
     (if absent_value v then Inr None else bindr (parse_datetime v) (\<lambda>t. Inr (Some t)))"

end
