(* ===== verification/Payload.thy ===== *)
theory Payload
  imports Parsing
begin

section \<open>StorCLI responses\<close>

text \<open>
  The envelope of a StorCLI JSON response and its status, \<open>storcli/parser.py\<close>. A function
  raises either a StorCLI exception or a plain Python error; \<open>fault\<close> keeps the two apart,
  because \<open>except\<close> clauses do: \<open>Raised e\<close> is what a caller that only catches StorcliError
  does not catch.
\<close>

datatype fault = Raised py_error | Storcli storcli_error

definition parse_fault :: "string \<Rightarrow> fault" where
  "parse_fault msg = Storcli (ParseError msg)"

text \<open>\<open>try: m except (es): raise StorcliParseError(msg)\<close>.\<close>

definition catching :: "py_error list \<Rightarrow> string \<Rightarrow> fault + 'a \<Rightarrow> fault + 'a" where
  "catching es msg m =
     (case m of Inl (Raised e) \<Rightarrow> if e \<in> set es then Inl (parse_fault msg) else Inl (Raised e) | _ \<Rightarrow> m)"

definition lift_py :: "py_error + 'a \<Rightarrow> fault + 'a" where
  "lift_py m = (case m of Inl e \<Rightarrow> Inl (Raised e) | Inr x \<Rightarrow> Inr x)"

lemma catching_simps [simp, py_simps]:
  "catching es msg (Inr x) = Inr x"
  "catching es msg (Inl (Storcli se)) = Inl (Storcli se)"
  "catching es msg (Inl (Raised e)) = (if e \<in> set es then Inl (parse_fault msg) else Inl (Raised e))"
  by (simp_all add: catching_def)

lemma catching_Inr_iff [simp]: "catching es msg m = Inr x \<longleftrightarrow> m = Inr x"
  by (auto simp: catching_def split: sum.splits fault.splits)

lemma lift_py_simps [simp, py_simps]: "lift_py (Inr x) = Inr x" "lift_py (Inl e) = Inl (Raised e)"
  by (simp_all add: lift_py_def)

lemma lift_py_Inr_iff [simp]: "lift_py m = Inr x \<longleftrightarrow> m = Inr x"
  by (cases m) simp_all

subsection \<open>Reading objects\<close>

definition as_mapping :: "json \<Rightarrow> fault + dict" where
  "as_mapping v = (case v of JObj kvs \<Rightarrow> Inr kvs | _ \<Rightarrow> Inl (Raised TypeError))"

text \<open>\<open>d[k]\<close> and \<open>d.get(k, default)\<close>.\<close>

definition item :: "dict \<Rightarrow> string \<Rightarrow> fault + json" where
  "item d k = (case dict_get d k of None \<Rightarrow> Inl (Raised KeyError) | Some v \<Rightarrow> Inr v)"

definition get_or :: "dict \<Rightarrow> string \<Rightarrow> json \<Rightarrow> json" where
  "get_or d k v = (case dict_get d k of None \<Rightarrow> v | Some w \<Rightarrow> w)"

definition has_key :: "dict \<Rightarrow> string \<Rightarrow> bool" where
  "has_key d k \<longleftrightarrow> dict_get d k \<noteq> None"

lemma as_mapping_Inr_iff [simp]: "as_mapping v = Inr d \<longleftrightarrow> v = JObj d"
  by (cases v) (auto simp: as_mapping_def)

lemma item_Inr_iff [simp]: "item d k = Inr v \<longleftrightarrow> dict_get d k = Some v"
  by (auto simp: item_def split: option.splits)

subsection \<open>Command status\<close>

definition first_controller :: "dict \<Rightarrow> fault + dict" where
  "first_controller payload =
     catching [KeyError, TypeError] ''payload does not contain a controller''
       (bindr (item payload ''Controllers'') (\<lambda>cs.
          case cs of JArr (c # _) \<Rightarrow> as_mapping c | _ \<Rightarrow> Inl (Raised TypeError)))"

definition response_data :: "dict \<Rightarrow> fault + dict" where
  "response_data controller =
     catching [TypeError] ''Response Data is not a mapping''
       (as_mapping (get_or controller ''Response Data'' (JObj [])))"

definition command_status :: "dict \<Rightarrow> fault + dict" where
  "command_status controller = as_mapping (get_or controller ''Command Status'' (JObj []))"

definition folded_text :: "json \<Rightarrow> string" where
  "folded_text v = py_lower (py_strip (py_str v))"

definition command_failed :: "dict \<Rightarrow> fault + bool" where
  "command_failed controller =
     bindr (command_status controller) (\<lambda>status.
       Inr (folded_text (get_or status ''Status'' (JStr [])) = ''failure''))"

definition error_message_of :: "json \<Rightarrow> string option" where
  "error_message_of v =
     (case v of
        JObj kvs \<Rightarrow> (case dict_get kvs ''ErrMsg'' of
            Some m \<Rightarrow> if truthy m then Some (py_str m) else None | None \<Rightarrow> None)
      | _ \<Rightarrow> None)"

fun first_some :: "('a \<Rightarrow> 'b option) \<Rightarrow> 'a list \<Rightarrow> 'b option" where
  "first_some f [] = None"
| "first_some f (x # xs) = (case f x of Some y \<Rightarrow> Some y | None \<Rightarrow> first_some f xs)"

text \<open>\<open>a or b or "unknown error"\<close>.\<close>

definition or_else :: "json option \<Rightarrow> json \<Rightarrow> json" where
  "or_else v w = (case v of Some x \<Rightarrow> if truthy x then x else w | None \<Rightarrow> w)"

definition status_message :: "dict \<Rightarrow> string" where
  "status_message status =
     (let detailed = (case get_or status ''Detailed Status'' (JArr []) of
            JArr items \<Rightarrow> first_some error_message_of items | _ \<Rightarrow> None)
      in case detailed of
           Some msg \<Rightarrow> msg
         | None \<Rightarrow> py_str (or_else (dict_get status ''Description'')
                     (or_else (dict_get status ''Status'') (JStr ''unknown error''))))"

definition command_err_msg :: "dict \<Rightarrow> fault + string" where
  "command_err_msg controller = bindr (command_status controller) (\<lambda>status. Inr (status_message status))"

definition command_failure :: "string \<Rightarrow> fault" where
  "command_failure msg = Storcli (CommandFailed (''storcli command failed: '' @ msg) (Some msg))"

definition ensure_success :: "dict \<Rightarrow> fault + dict" where
  "ensure_success payload =
     bindr (first_controller payload) (\<lambda>controller.
     bindr (command_failed controller) (\<lambda>failed.
       if failed then bindr (command_err_msg controller) (\<lambda>msg. Inl (command_failure msg))
       else Inr controller))"

text \<open>\<open>status.get("Controller", 0) != 0\<close>: numbers compare by value, other types never equal 0.\<close>

definition is_zero :: "json \<Rightarrow> bool" where
  "is_zero v = (case v of JInt i \<Rightarrow> i = 0 | JFloat q _ \<Rightarrow> q = 0 | JBool b \<Rightarrow> \<not> b | _ \<Rightarrow> False)"

definition json_length :: "json \<Rightarrow> fault + nat" where
  "json_length v =
     (case v of JArr vs \<Rightarrow> Inr (length vs) | JStr s \<Rightarrow> Inr (length s) | JObj kvs \<Rightarrow> Inr (length kvs)
      | _ \<Rightarrow> Inl (Raised TypeError))"

definition ensure_inventory_success :: "dict \<Rightarrow> fault + dict" where
  "ensure_inventory_success payload =
     catching [TypeError] ''storcli command status is malformed''
       (bindr (ensure_success payload) (\<lambda>controller.
        bindr (command_status controller) (\<lambda>status.
          if folded_text (get_or status ''Status'' (JStr [])) \<noteq> ''success''
            then Inl (parse_fault ''storcli command success is unproven'')
          else bindr (bindr (item payload ''Controllers'') json_length) (\<lambda>n.
            if n \<noteq> 1 \<or> \<not> is_zero (get_or status ''Controller'' (JInt 0))
            then Inl (parse_fault ''storcli command success is unproven'')
            else Inr controller))))"

text \<open>\<open>str.isprintable\<close> on ASCII.\<close>

definition is_printable :: "char \<Rightarrow> bool" where
  "is_printable c \<longleftrightarrow> 32 \<le> code_of c \<and> code_of c \<le> 126"

definition bounded_detail :: "string \<Rightarrow> string" where
  "bounded_detail s =
     take 300 (join_with '' '' (py_words (filter (\<lambda>c. is_printable c \<or> is_space c) s)))"

definition ensure_command_succeeded :: "dict \<Rightarrow> fault + unit" where
  "ensure_command_succeeded payload =
     bindr (first_controller payload) (\<lambda>controller.
       case dict_get controller ''Command Status'' of
         Some (JObj status) \<Rightarrow>
           (case dict_get status ''Status'' of
              Some (JStr value) \<Rightarrow>
                (let folded = py_lower (py_strip value)
                 in if folded \<notin> set [''success'', ''failure'']
                      then Inl (parse_fault ''storcli did not report an explicit Success or Failure status'')
                    else if folded = ''failure'' then
                      bindr (command_err_msg controller) (\<lambda>msg. Inl (command_failure (bounded_detail msg)))
                    else Inr ())
            | _ \<Rightarrow> Inl (parse_fault ''storcli did not report an explicit Success or Failure status''))
       | _ \<Rightarrow> Inl (parse_fault ''storcli did not report a valid Command Status''))"

definition is_unsupported_hardware_error :: "string \<Rightarrow> bool" where
  "is_unsupported_hardware_error msg \<longleftrightarrow> list_ex (\<lambda>m. str_in m (py_lower msg)) [''use /cx/cv'', ''use /cx/bbu'']"

definition is_no_foreign_config_error :: "string \<Rightarrow> bool" where
  "is_no_foreign_config_error msg \<longleftrightarrow>
     list_ex (\<lambda>m. str_in m (py_lower msg))
       [''no foreign configuration'', ''no foreign config'', ''foreign configuration not found'']"

definition optional_command_succeeded :: "dict \<Rightarrow> fault + bool" where
  "optional_command_succeeded controller =
     bindr (command_failed controller) (\<lambda>failed.
       if \<not> failed then Inr True
       else bindr (command_err_msg controller) (\<lambda>msg.
         if is_unsupported_hardware_error msg then Inr False else Inl (command_failure msg)))"

text \<open>The parsed BBU response is the data mapping itself.\<close>

definition parse_bbu :: "dict \<Rightarrow> fault + dict option" where
  "parse_bbu payload =
     bindr (first_controller payload) (\<lambda>controller.
     bindr (optional_command_succeeded controller) (\<lambda>ok.
       if \<not> ok then Inr None
       else catching [TypeError, ValueError] ''bbu payload does not match expected schema''
              (bindr (response_data controller) (\<lambda>d. Inr (Some d)))))"

subsection \<open>Lemmas\<close>

lemma head_mapping_Inr_iff:
  "(case v of JArr (c # _) \<Rightarrow> as_mapping c | _ \<Rightarrow> Inl (Raised TypeError)) = Inr d \<longleftrightarrow>
     (\<exists>rest. v = JArr (JObj d # rest))"
  by (cases v) (auto split: list.splits)

lemma first_controller_Inr_iff:
  "first_controller payload = Inr c \<longleftrightarrow> (\<exists>cs. dict_get payload ''Controllers'' = Some (JArr (JObj c # cs)))"
  by (auto simp: first_controller_def bindr_Inr_iff head_mapping_Inr_iff)

lemma command_err_msg_status:
  "dict_get controller ''Command Status'' = Some (JObj status) \<Longrightarrow>
     command_err_msg controller = Inr (status_message status)"
  by (simp add: command_err_msg_def command_status_def get_or_def as_mapping_def)

definition explicit_status :: "dict \<Rightarrow> string option" where
  "explicit_status controller =
     (case dict_get controller ''Command Status'' of
        Some (JObj status) \<Rightarrow> (case dict_get status ''Status'' of Some (JStr v) \<Rightarrow> Some (py_lower (py_strip v)) | _ \<Rightarrow> None)
      | _ \<Rightarrow> None)"

lemma ensure_command_succeeded_cases:
  assumes "first_controller payload = Inr c"
  shows "ensure_command_succeeded payload =
    (case dict_get c ''Command Status'' of
       Some (JObj status) \<Rightarrow>
         (case explicit_status c of
            Some v \<Rightarrow> (if v = ''success'' then Inr ()
              else if v = ''failure'' then Inl (command_failure (bounded_detail (status_message status)))
              else Inl (parse_fault ''storcli did not report an explicit Success or Failure status''))
          | None \<Rightarrow> Inl (parse_fault ''storcli did not report an explicit Success or Failure status''))
     | _ \<Rightarrow> Inl (parse_fault ''storcli did not report a valid Command Status''))"
proof (cases "\<exists>status. dict_get c ''Command Status'' = Some (JObj status)")
  case True
  then obtain status where st: "dict_get c ''Command Status'' = Some (JObj status)" by blast
  show ?thesis
  proof (cases "\<exists>v. dict_get status ''Status'' = Some (JStr v)")
    case True
    then show ?thesis using assms st command_err_msg_status [OF st]
      by (auto simp: ensure_command_succeeded_def explicit_status_def Let_def)
  next
    case False
    then show ?thesis using assms st
      by (auto simp: ensure_command_succeeded_def explicit_status_def split: option.split json.split)
  qed
next
  case False
  then show ?thesis using assms
    by (auto simp: ensure_command_succeeded_def split: option.split json.split)
qed

lemma ensure_command_succeeded_Inr:
  "ensure_command_succeeded payload = Inr () \<longleftrightarrow>
     (\<exists>c. first_controller payload = Inr c \<and> explicit_status c = Some ''success'')"
proof (cases "first_controller payload")
  case (Inl e)
  then show ?thesis by (simp add: ensure_command_succeeded_def)
next
  case (Inr c)
  then show ?thesis
    by (auto simp: ensure_command_succeeded_cases [OF Inr] explicit_status_def split: option.splits json.splits if_splits)
qed

end
