(* ===== verification/Models.thy ===== *)
theory Models
  imports Payload
begin

section \<open>Parsed StorCLI objects\<close>

text \<open>
  The pydantic models of \<open>storcli/models.py\<close>: one record per model, and for each the
  validation of a JSON object. Aliases are tried before field names (\<open>populate_by_name\<close>) and
  unknown keys are ignored. A validator's ValueError is collected with the others and reported
  as one ValidationError (a ValueError); any other exception of a validator leaves the model at
  once. \<open>vap\<close> combines two field results that way. The conversion pydantic applies to an
  integer field without a validator of the repository's own is the parameter \<open>to_int\<close>.
\<close>

definition vap :: "py_error + ('a \<Rightarrow> 'b) \<Rightarrow> py_error + 'a \<Rightarrow> py_error + 'b" where
  "vap f x =
     (case f of
        Inr g \<Rightarrow> (case x of Inr y \<Rightarrow> Inr (g y) | Inl e \<Rightarrow> Inl e)
      | Inl ValueError \<Rightarrow> (case x of Inr _ \<Rightarrow> Inl ValueError | Inl e \<Rightarrow> Inl e)
      | Inl e \<Rightarrow> Inl e)"

lemma vap_Inr_iff: "vap f x = Inr y \<longleftrightarrow> (\<exists>g z. f = Inr g \<and> x = Inr z \<and> y = g z)"
  by (auto simp: vap_def split: sum.splits py_error.splits)

text \<open>A field's value: the alias, else the name; a required field that is missing is invalid.\<close>

definition field :: "dict \<Rightarrow> string \<Rightarrow> string \<Rightarrow> json option" where
  "field d alias name = (case dict_get d alias of Some v \<Rightarrow> Some v | None \<Rightarrow> dict_get d name)"

definition required :: "dict \<Rightarrow> string \<Rightarrow> string \<Rightarrow> (json \<Rightarrow> py_error + 'a) \<Rightarrow> py_error + 'a" where
  "required d alias name f = (case field d alias name of None \<Rightarrow> Inl ValueError | Some v \<Rightarrow> f v)"

definition optional :: "dict \<Rightarrow> string \<Rightarrow> string \<Rightarrow> 'a \<Rightarrow> (json \<Rightarrow> py_error + 'a) \<Rightarrow> py_error + 'a" where
  "optional d alias name dflt f = (case field d alias name of None \<Rightarrow> Inr dflt | Some v \<Rightarrow> f v)"

definition str_value :: "json \<Rightarrow> py_error + string" where
  "str_value v = (case v of JStr s \<Rightarrow> Inr s | _ \<Rightarrow> Inl ValueError)"

definition opt_str_value :: "json \<Rightarrow> py_error + string option" where
  "opt_str_value v = (case v of JNull \<Rightarrow> Inr None | JStr s \<Rightarrow> Inr (Some s) | _ \<Rightarrow> Inl ValueError)"

definition int_value :: "(json \<Rightarrow> int option) \<Rightarrow> json \<Rightarrow> py_error + int" where
  "int_value to_int v = (case to_int v of None \<Rightarrow> Inl ValueError | Some i \<Rightarrow> Inr i)"

text \<open>\<open>text.partition(sep)\<close>: the part after the first separator, or none.\<close>

definition partition_on :: "char \<Rightarrow> string \<Rightarrow> string \<times> string option" where
  "partition_on c s =
     (takeWhile (\<lambda>x. x \<noteq> c) s,
      if c \<in> set s then Some (drop 1 (dropWhile (\<lambda>x. x \<noteq> c) s)) else None)"

definition bool_int :: "bool \<Rightarrow> int" where
  "bool_int b = (if b then 1 else 0)"

subsection \<open>Controller\<close>

record controller_info =
  ci_model_name :: string
  ci_serial_number :: string
  ci_firmware_version :: string
  ci_bios_version :: string
  ci_driver_name :: string
  ci_driver_version :: string
  ci_pci_address :: string
  ci_system_time :: int
  ci_alarm_state :: string
  ci_cv_present :: bool
  ci_bbu_present :: bool
  ci_roc_temperature :: "int option"

definition cv_present_value :: "json \<Rightarrow> py_error + bool" where
  "cv_present_value v = (case v of JArr vs \<Rightarrow> Inr (vs \<noteq> []) | _ \<Rightarrow> yes_no_to_bool v)"

definition controller_info_of :: "dict \<Rightarrow> py_error + controller_info" where
  "controller_info_of d =
     vap (vap (vap (vap (vap (vap (vap (vap (vap (vap (vap (vap (Inr controller_info.make)
       (required d ''Model'' ''model_name'' str_value))
       (required d ''Serial Number'' ''serial_number'' str_value))
       (required d ''Firmware Version'' ''firmware_version'' str_value))
       (required d ''Bios Version'' ''bios_version'' str_value))
       (required d ''Driver Name'' ''driver_name'' str_value))
       (required d ''Driver Version'' ''driver_version'' str_value))
       (required d ''PCI Address'' ''pci_address'' str_value))
       (required d ''Current System Date/time'' ''system_time'' parse_datetime))
       (required d ''Alarm'' ''alarm_state'' str_value))
       (required d ''Cachevault_Info'' ''cv_present'' cv_present_value))
       (required d ''BBU'' ''bbu_present'' yes_no_to_bool))
       (optional d ''ROC temperature(Degree Celsius)'' ''roc_temperature_celsius'' None parse_optional_int)"

subsection \<open>Virtual drive\<close>

record virtual_drive_info =
  vdi_vd_id :: int
  vdi_name :: string
  vdi_raid_level :: string
  vdi_size_bytes :: int
  vdi_state :: string
  vdi_access :: string
  vdi_cache :: string

definition vd_id_value :: "json \<Rightarrow> py_error + int" where
  "vd_id_value v =
     (case v of
        JInt i \<Rightarrow> Inr i
      | JBool b \<Rightarrow> Inr (bool_int b)
      | JStr s \<Rightarrow> (case snd (partition_on CHR ''/'' s) of
            Some (c # cs) \<Rightarrow> int_of_text (c # cs) | _ \<Rightarrow> int_of_text s)
      | _ \<Rightarrow> Inl TypeError)"

definition size_value :: "json \<Rightarrow> py_error + int" where
  "size_value v =
     (case v of JInt i \<Rightarrow> Inr i | JBool b \<Rightarrow> Inr (bool_int b) | JStr s \<Rightarrow> size_string_to_bytes s
      | _ \<Rightarrow> Inl TypeError)"

definition virtual_drive_of :: "dict \<Rightarrow> py_error + virtual_drive_info" where
  "virtual_drive_of d =
     vap (vap (vap (vap (vap (vap (vap (Inr virtual_drive_info.make)
       (required d ''DG/VD'' ''vd_id'' vd_id_value))
       (required d ''Name'' ''name'' str_value))
       (required d ''TYPE'' ''raid_level'' str_value))
       (required d ''Size'' ''size_bytes'' size_value))
       (required d ''State'' ''state'' str_value))
       (required d ''Access'' ''access'' str_value))
       (required d ''Cache'' ''cache'' str_value)"

subsection \<open>Physical drive\<close>

record physical_drive_info =
  pdi_enclosure_id :: int
  pdi_slot_id :: int
  pdi_device_id :: int
  pdi_model :: string
  pdi_serial_number :: string
  pdi_firmware_version :: string
  pdi_size_bytes :: int
  pdi_interface :: string
  pdi_media_type :: string
  pdi_state :: string
  pdi_disk_group_id :: "int option"
  pdi_temperature :: "int option"
  pdi_media_errors :: int
  pdi_other_errors :: int
  pdi_predictive_failures :: int
  pdi_smart_alert :: bool
  pdi_sas_address :: string

definition eid_slot_value :: "bool \<Rightarrow> json \<Rightarrow> py_error + int" where
  "eid_slot_value enclosure v =
     (case v of
        JInt i \<Rightarrow> Inr i
      | JBool b \<Rightarrow> Inr (bool_int b)
      | JStr s \<Rightarrow> (case partition_on CHR '':'' s of
            (_, None) \<Rightarrow> Inl ValueError
          | (e, Some sl) \<Rightarrow> int_of_text (if enclosure then e else sl))
      | _ \<Rightarrow> Inl TypeError)"

definition serial_value :: "json \<Rightarrow> py_error + string" where
  "serial_value v = (case v of JStr s \<Rightarrow> Inr (py_strip s) | _ \<Rightarrow> Inl TypeError)"

definition disk_group_value :: "json \<Rightarrow> py_error + int option" where
  "disk_group_value v =
     (case v of
        JNull \<Rightarrow> Inr None
      | JBool _ \<Rightarrow> Inl TypeError
      | JInt i \<Rightarrow> Inr (Some i)
      | JStr s \<Rightarrow>
          (let t = py_strip s
           in if t \<in> set [[], ''-'', ''N/A''] then Inr None
              else case int_of_text t of Inr i \<Rightarrow> Inr (Some i) | Inl _ \<Rightarrow> Inr None)
      | _ \<Rightarrow> Inr None)"

definition sas_value :: "json \<Rightarrow> py_error + string" where
  "sas_value v =
     (case v of JStr s \<Rightarrow> Inr (removeprefix ''0x'' s) | _ \<Rightarrow> Inl TypeError)"

definition physical_drive_of :: "(json \<Rightarrow> int option) \<Rightarrow> dict \<Rightarrow> py_error + physical_drive_info" where
  "physical_drive_of to_int d =
     vap (vap (vap (vap (vap (vap (vap (vap (vap (vap (vap (vap (vap (vap (vap (vap (vap (Inr physical_drive_info.make)
       (required d ''EID:Slt'' ''enclosure_id'' (eid_slot_value True)))
       (required d ''EID:Slt'' ''slot_id'' (eid_slot_value False)))
       (required d ''DID'' ''device_id'' (int_value to_int)))
       (required d ''Model'' ''model'' str_value))
       (required d ''SN'' ''serial_number'' serial_value))
       (required d ''Firmware Revision'' ''firmware_version'' str_value))
       (required d ''Size'' ''size_bytes'' size_value))
       (required d ''Intf'' ''interface'' str_value))
       (required d ''Med'' ''media_type'' str_value))
       (required d ''State'' ''state'' str_value))
       (optional d ''DG'' ''disk_group_id'' None disk_group_value))
       (required d ''Drive Temperature'' ''temperature_celsius'' parse_temperature))
       (required d ''Media Error Count'' ''media_errors'' (int_value to_int)))
       (required d ''Other Error Count'' ''other_errors'' (int_value to_int)))
       (required d ''Predictive Failure Count'' ''predictive_failures'' (int_value to_int)))
       (required d ''S.M.A.R.T alert flagged by drive'' ''smart_alert'' yes_no_to_bool))
       (required d ''SAS address'' ''sas_address'' sas_value)"

subsection \<open>CacheVault\<close>

record cache_vault =
  cvi_type :: string
  cvi_state :: string
  cvi_temperature :: "int option"
  cvi_pack_energy :: "string option"
  cvi_capacitance :: "int option"
  cvi_replacement_required :: bool
  cvi_next_learn :: "py_datetime option"

definition health_text :: "json \<Rightarrow> py_error + string" where
  "health_text v =
     (case v of JStr s \<Rightarrow> if py_strip s \<in> set [[], ''-'', ''N/A''] then Inl ValueError else Inr s
      | _ \<Rightarrow> Inl ValueError)"

definition cv_temperature :: "json \<Rightarrow> py_error + int option" where
  "cv_temperature v = (case v of JBool _ \<Rightarrow> Inl ValueError | _ \<Rightarrow> parse_temperature v)"

definition capacitance_value :: "json \<Rightarrow> py_error + int option" where
  "capacitance_value v =
     (case v of JBool _ \<Rightarrow> Inl ValueError
      | _ \<Rightarrow> bindr (parse_percent v) (\<lambda>p.
          case p of Some n \<Rightarrow> if 0 \<le> n \<and> n \<le> 100 then Inr p else Inl ValueError | None \<Rightarrow> Inr p))"

definition replacement_value :: "json \<Rightarrow> py_error + bool" where
  "replacement_value v =
     (case v of
        JBool b \<Rightarrow> Inr b
      | JStr s \<Rightarrow> (let t = py_lower (py_strip s)
                   in if t \<in> set [''yes'', ''no''] then Inr (t = ''yes'') else Inl ValueError)
      | _ \<Rightarrow> Inl ValueError)"

text \<open>
  The recovery of an impossible calendar date: the exact shape
  \<open>YYYY/MM/DD HH:MM:SS (n seconds)\<close>, with n counted from 2000-01-01 UTC.
\<close>

definition digits_shape :: "char \<Rightarrow> nat list \<Rightarrow> string \<Rightarrow> bool" where
  "digits_shape sep ns w \<longleftrightarrow>
     map length (split_on sep w) = ns \<and> list_all (list_all is_digit) (split_on sep w)"

definition epoch_2000 :: instant where
  "epoch_2000 = days (days_from_civil 2000 1 1)"

definition recovered_seconds :: "string \<Rightarrow> int option" where
  "recovered_seconds s =
     (let t = py_strip s; tail = '' seconds)''; front = take (length t - length tail) t
      in if \<not> suffix tail t \<or> front = [] \<or> is_space (last front) then None
         else case py_words front of
           [date, clock, c # n] \<Rightarrow>
             if digits_shape CHR ''/'' [4, 2, 2] date \<and> digits_shape CHR '':'' [2, 2, 2] clock \<and>
                c = CHR ''('' \<and> n \<noteq> [] \<and> length n \<le> 10 \<and> list_all is_digit n
             then Some (int (read_nat n)) else None
         | _ \<Rightarrow> None)"

definition next_learn_value :: "json \<Rightarrow> py_error + py_datetime option" where
  "next_learn_value v =
     (case parse_optional_datetime v of
        Inr None \<Rightarrow> Inr None
      | Inr (Some t) \<Rightarrow> Inr (Some (Naive t))
      | Inl _ \<Rightarrow>
          (case v of
             JStr s \<Rightarrow> (case recovered_seconds s of
                Some n \<Rightarrow> if 0 < n \<and> n < 4294967295 then Inr (Some (Aware (epoch_2000 + sec n))) else Inr None
              | None \<Rightarrow> Inr None)
           | _ \<Rightarrow> Inr None))"

definition cache_vault_of :: "dict \<Rightarrow> py_error + cache_vault" where
  "cache_vault_of d =
     vap (vap (vap (vap (vap (vap (vap (Inr cache_vault.make)
       (required d ''Type'' ''type'' health_text))
       (required d ''State'' ''state'' health_text))
       (required d ''Temperature'' ''temperature_celsius'' cv_temperature))
       (optional d ''Pack Energy'' ''pack_energy'' None opt_str_value))
       (optional d ''Capacitance'' ''capacitance_percent'' None capacitance_value))
       (required d ''Replacement required'' ''replacement_required'' replacement_value))
       (optional d ''Next Learn time'' ''next_learn_cycle'' None next_learn_value)"

subsection \<open>One drive, one foreign configuration\<close>

record drive_show =
  ds_state :: string
  ds_serial_number :: string

definition drive_show_of :: "json \<Rightarrow> json \<Rightarrow> py_error + drive_show" where
  "drive_show_of state serial =
     vap (vap (Inr drive_show.make)
       (case state of JStr s \<Rightarrow> if py_strip s = [] then Inl ValueError else Inr s | _ \<Rightarrow> Inl TypeError))
       (case serial of JStr s \<Rightarrow> if py_strip s = [] then Inl ValueError else Inr (py_strip s) | _ \<Rightarrow> Inl TypeError)"

record foreign_disk_group =
  fg_dg_id :: int
  fg_drive_count :: int
  fg_size_bytes :: "int option"

record foreign_config_info =
  fci_present :: bool
  fci_dg_count :: int
  fci_drive_count :: int
  fci_total_size_bytes :: "int option"
  fci_disk_groups :: "foreign_disk_group list"
  fci_digest :: string

definition no_foreign_config :: foreign_config_info where
  "no_foreign_config =
     \<lparr>fci_present = False, fci_dg_count = 0, fci_drive_count = 0, fci_total_size_bytes = None,
      fci_disk_groups = [], fci_digest = []\<rparr>"

end
