(* ===== verification/Parser.thy ===== *)
theory Parser
  imports Models States
begin

section \<open>The StorCLI parsers\<close>

text \<open>
  \<open>storcli/parser.py\<close>: from a successful response to the parsed objects, and the check that
  three responses describe one complete inventory. The SHA-256 text of the canonical JSON of a
  foreign configuration is the parameter \<open>fingerprint\<close>; pydantic's conversion of plain integer
  fields is \<open>to_int\<close>.
\<close>

definition merge :: "dict \<Rightarrow> dict \<Rightarrow> dict" where
  "merge d kvs = fold (\<lambda>(k, v) acc. AList.update k v acc) kvs d"

definition dict_values :: "dict \<Rightarrow> json list" where
  "dict_values d = map snd d"

definition mapping_item :: "dict \<Rightarrow> string \<Rightarrow> fault + dict" where
  "mapping_item d k = bindr (item d k) as_mapping"

text \<open>pydantic refuses a value that is not an object with a ValidationError.\<close>

definition validate_object :: "(dict \<Rightarrow> py_error + 'a) \<Rightarrow> json \<Rightarrow> fault + 'a" where
  "validate_object f v = (case v of JObj d \<Rightarrow> lift_py (f d) | _ \<Rightarrow> Inl (Raised ValueError))"

subsection \<open>Controller\<close>

definition parse_controller_show_all :: "dict \<Rightarrow> fault + controller_info" where
  "parse_controller_show_all payload =
     bindr (ensure_inventory_success payload) (\<lambda>controller.
       catching [KeyError, TypeError, ValueError] ''controller show all payload does not match expected schema''
         (bindr (response_data controller) (\<lambda>response.
          bindr (mapping_item response ''Basics'') (\<lambda>basics.
          bindr (mapping_item response ''Version'') (\<lambda>version.
          bindr (mapping_item response ''HwCfg'') (\<lambda>hwcfg.
          bindr (item hwcfg ''Alarm'') (\<lambda>alarm.
          bindr (item hwcfg ''BBU'') (\<lambda>bbu.
            lift_py (controller_info_of
              (merge (merge basics version)
                [(''Alarm'', alarm),
                 (''Cachevault_Info'', get_or response ''Cachevault_Info'' (JArr [])),
                 (''BBU'', bbu),
                 (''ROC temperature(Degree Celsius)'',
                   get_or hwcfg ''ROC temperature(Degree Celsius)'' JNull)])))))))))) "

subsection \<open>Virtual drives\<close>

definition vd_row :: "json \<Rightarrow> bool" where
  "vd_row v = (case v of JObj d \<Rightarrow> list_all (has_key d) [''DG/VD'', ''TYPE'', ''Size''] | _ \<Rightarrow> False)"

definition vd_items :: "dict \<Rightarrow> json list" where
  "vd_items response =
     (case dict_get response ''VD LIST'' of
        Some (JArr items) \<Rightarrow> items
      | _ \<Rightarrow> concat (map (\<lambda>v. case v of JArr items \<Rightarrow> filter vd_row items | _ \<Rightarrow> []) (dict_values response)))"

definition parse_virtual_drives :: "dict \<Rightarrow> fault + virtual_drive_info list" where
  "parse_virtual_drives payload =
     bindr (ensure_inventory_success payload) (\<lambda>controller.
       catching [TypeError, ValueError] ''virtual drive payload does not match expected schema''
         (bindr (response_data controller) (\<lambda>response.
          bindr (map_res (validate_object virtual_drive_of) (vd_items response)) (\<lambda>vds.
            Inr (sort_key vdi_vd_id vds)))))"

subsection \<open>Physical drives\<close>

definition detail_suffix :: string where
  "detail_suffix = '' - Detailed Information''"

definition drive_key :: "string \<Rightarrow> bool" where
  "drive_key k \<longleftrightarrow> prefix ''Drive '' k \<and> \<not> suffix detail_suffix k"

definition drive_rows :: "dict \<Rightarrow> fault + (string \<times> json) list" where
  "drive_rows response =
     map_res (\<lambda>(k, v). case v of JArr [row] \<Rightarrow> Inr (k, row) | _ \<Rightarrow> Inl (Raised TypeError))
       (filter (\<lambda>(k, v). drive_key k) response)"

definition parse_physical_drive ::
  "(json \<Rightarrow> int option) \<Rightarrow> dict \<Rightarrow> string \<Rightarrow> json \<Rightarrow> fault + physical_drive_info" where
  "parse_physical_drive to_int response key row =
     bindr (mapping_item response (key @ detail_suffix)) (\<lambda>detail.
     bindr (mapping_item detail (key @ '' State'')) (\<lambda>state.
     bindr (mapping_item detail (key @ '' Device attributes'')) (\<lambda>attributes.
     bindr (mapping_item detail (key @ '' Policies/Settings'')) (\<lambda>policies.
     bindr (item policies ''Port Information'') (\<lambda>ports.
       case ports of
         JArr (port # _) \<Rightarrow>
           bindr (as_mapping row) (\<lambda>summary.
           bindr (item attributes ''SN'') (\<lambda>sn.
           bindr (item attributes ''Firmware Revision'') (\<lambda>fw.
           bindr (bindr (as_mapping port) (\<lambda>p. item p ''SAS address'')) (\<lambda>sas.
             lift_py (physical_drive_of to_int
               (merge (merge summary state)
                 [(''Model'', get_or attributes ''Model Number'' (get_or summary ''Model'' JNull)),
                  (''SN'', sn), (''Firmware Revision'', fw), (''SAS address'', sas)]))))))
       | _ \<Rightarrow> Inl (Raised TypeError))))))"

definition drive_location :: "physical_drive_info \<Rightarrow> int \<times> int" where
  "drive_location d = (pdi_enclosure_id d, pdi_slot_id d)"

definition parse_physical_drives :: "(json \<Rightarrow> int option) \<Rightarrow> dict \<Rightarrow> fault + physical_drive_info list" where
  "parse_physical_drives to_int payload =
     bindr (ensure_inventory_success payload) (\<lambda>controller.
       catching [KeyError, TypeError, IndexError, ValueError] ''physical drive payload does not match expected schema''
         (bindr (response_data controller) (\<lambda>response.
          bindr (drive_rows response) (\<lambda>rows.
          bindr (map_res (\<lambda>(k, row). parse_physical_drive to_int response k row) rows) (\<lambda>ds.
            Inr (sort_key drive_location ds))))))"

subsection \<open>One drive\<close>

fun extract_drive_show :: "dict \<Rightarrow> dict \<Rightarrow> fault + drive_show" where
  "extract_drive_show response [] = Inl (parse_fault ''drive show payload does not contain a Drive State and SN'')"
| "extract_drive_show response ((key, value) # rest) =
     (if \<not> drive_key key then extract_drive_show response rest
      else case value of
        JArr (JObj first # _) \<Rightarrow>
          (case dict_get first ''State'' of
             Some (JStr state) \<Rightarrow>
               bindr (mapping_item response (key @ detail_suffix)) (\<lambda>detail.
               bindr (mapping_item detail (key @ '' Device attributes'')) (\<lambda>attributes.
               bindr (item attributes ''SN'') (\<lambda>sn. lift_py (drive_show_of (JStr state) sn))))
           | _ \<Rightarrow> extract_drive_show response rest)
      | _ \<Rightarrow> extract_drive_show response rest)"

definition slot_token :: "string \<Rightarrow> string" where
  "slot_token path = replace_slash_s (removeprefix ''/c0/e'' path)"

definition identifies_drive :: "dict \<Rightarrow> dict \<Rightarrow> (string \<times> json) list \<Rightarrow> string \<Rightarrow> fault + bool" where
  "identifies_drive payload status rows requested =
     bindr (bindr (item payload ''Controllers'') json_length) (\<lambda>n.
       if n \<noteq> 1 \<or> dict_get status ''Controller'' \<noteq> Some (JInt 0) then Inr False
       else case rows of
         [(key, row)] \<Rightarrow>
           (if key \<noteq> ''Drive '' @ requested then Inr False
            else bindr (as_mapping row) (\<lambda>r. Inr (dict_get r ''EID:Slt'' = Some (JStr (slot_token requested)))))
       | _ \<Rightarrow> Inr False)"

definition parse_drive_show :: "dict \<Rightarrow> string option \<Rightarrow> fault + drive_show" where
  "parse_drive_show payload requested =
     bindr (ensure_success payload) (\<lambda>controller.
       catching [KeyError, TypeError, ValueError] ''drive show payload does not match expected schema''
         (bindr (response_data controller) (\<lambda>response.
            case requested of
              None \<Rightarrow> extract_drive_show response response
            | Some path \<Rightarrow>
                bindr (mapping_item controller ''Command Status'') (\<lambda>status.
                bindr (drive_rows response) (\<lambda>rows.
                bindr (identifies_drive payload status rows path) (\<lambda>ok.
                  if \<not> ok then Inl (parse_fault ''live drive response does not identify the requested slot'')
                  else extract_drive_show response response))))))"

subsection \<open>CacheVault\<close>

definition property_items :: "json \<Rightarrow> (string \<times> json) list" where
  "property_items v =
     (case v of
        JArr items \<Rightarrow> concat (map (\<lambda>i. case i of
            JObj d \<Rightarrow> (case (dict_get d ''Property'', dict_get d ''Value'') of
                (Some p, Some w) \<Rightarrow> [(py_str p, w)] | _ \<Rightarrow> [])
          | _ \<Rightarrow> []) items)
      | _ \<Rightarrow> [])"

definition property_lists_to_mapping :: "dict \<Rightarrow> dict" where
  "property_lists_to_mapping response = merge [] (concat (map property_items (dict_values response)))"

definition copy_key :: "string \<Rightarrow> string \<Rightarrow> dict \<Rightarrow> dict" where
  "copy_key src dst d = (case dict_get d src of None \<Rightarrow> d | Some v \<Rightarrow> AList.update dst v d)"

definition parse_cachevault :: "dict \<Rightarrow> fault + cache_vault option" where
  "parse_cachevault payload =
     bindr (ensure_inventory_success payload) (\<lambda>controller.
       catching [KeyError, TypeError, IndexError, ValueError] ''cachevault payload does not match expected schema''
         (bindr (response_data controller) (\<lambda>response.
            if dict_get response ''Cachevault_Info'' = Some (JArr []) then Inr None
            else
              (let data = property_lists_to_mapping response
               in bindr
                    (case dict_get response ''Cachevault_Info'' of
                       Some (JArr (first # _)) \<Rightarrow>
                         if data = [] then
                           bindr (as_mapping first) (\<lambda>d. Inr (copy_key ''Temp'' ''Temperature'' (copy_key ''Model'' ''Type'' d)))
                         else Inr data
                     | _ \<Rightarrow> Inr data)
                    (\<lambda>d. bindr (lift_py (cache_vault_of d)) (\<lambda>cv. Inr (Some cv)))))))"

end
