(* ===== verification/ForeignConfig.thy ===== *)
theory ForeignConfig
  imports Parser
begin

section \<open>Foreign configurations and complete inventories\<close>

text \<open>
  The foreign-configuration half of \<open>storcli/parser.py\<close> (\<open>parse_foreign_config\<close> and its
  helpers, whose digest the operator echoes back to confirm an import) and
  \<open>validate_complete_inventory\<close>, the agreement of three responses.
\<close>

subsection \<open>Drives and disk groups\<close>

definition foreign_drive_key :: "string \<Rightarrow> bool" where
  "foreign_drive_key k \<longleftrightarrow> str_in ''pd list'' (py_lower k) \<or> str_in ''drive'' (py_lower k)"

definition foreign_drive_rows :: "json \<Rightarrow> dict list" where
  "foreign_drive_rows v =
     (case v of
        JArr items \<Rightarrow> concat (map (\<lambda>i. case i of
            JObj d \<Rightarrow> if has_key d ''EID:Slt'' \<or> has_key d ''DID'' then [d] else [] | _ \<Rightarrow> []) items)
      | _ \<Rightarrow> [])"

definition foreign_drives :: "dict \<Rightarrow> dict list" where
  "foreign_drives response =
     concat (map (\<lambda>(k, v). if foreign_drive_key k then foreign_drive_rows v else []) response)"

definition coerce_dg_id :: "json option \<Rightarrow> int option" where
  "coerce_dg_id v =
     (case v of
        Some (JInt i) \<Rightarrow> Some i
      | Some (JStr s) \<Rightarrow>
          (let t = py_strip s
           in if t \<in> set [[], ''-'', ''N/A''] then None
              else case int_of_text (if CHR ''/'' \<in> set t then py_strip (fst (partition_on CHR ''/'' t)) else t) of
                     Inr i \<Rightarrow> Some i | Inl _ \<Rightarrow> None)
      | _ \<Rightarrow> None)"

type_synonym dg_entries = "(int \<times> nat \<times> int option) list"

definition entry_of :: "dg_entries \<Rightarrow> int \<Rightarrow> nat \<times> int option" where
  "entry_of es dg = (case map_of es dg of None \<Rightarrow> (0, None) | Some e \<Rightarrow> e)"

definition add_group_row :: "dict \<Rightarrow> dg_entries \<Rightarrow> fault + dg_entries" where
  "add_group_row row es =
     (case coerce_dg_id (if has_key row ''DG'' then dict_get row ''DG'' else dict_get row ''DG/VD'') of
        None \<Rightarrow> Inr es
      | Some dg \<Rightarrow>
          (case entry_of es dg of (n, sz) \<Rightarrow>
             (case (dict_get row ''Size'', sz) of
                (Some (JStr t), None) \<Rightarrow>
                  (case size_string_to_bytes t of
                     Inr b \<Rightarrow> Inr (AList.update dg (n, Some b) es)
                   | Inl ValueError \<Rightarrow> Inr (AList.update dg (n, None) es)
                   | Inl e \<Rightarrow> Inl (Raised e))
              | _ \<Rightarrow> Inr (AList.update dg (n, sz) es))))"

fun fold_res :: "('a \<Rightarrow> 'b \<Rightarrow> 'e + 'b) \<Rightarrow> 'a list \<Rightarrow> 'b \<Rightarrow> 'e + 'b" where
  "fold_res f [] acc = Inr acc"
| "fold_res f (x # xs) acc = bindr (f x acc) (fold_res f xs)"

definition group_rows :: "dict \<Rightarrow> dict list" where
  "group_rows response =
     concat (map (\<lambda>(k, v). case v of
         JArr items \<Rightarrow> if str_in ''dg'' (py_lower k)
           then concat (map (\<lambda>i. case i of JObj d \<Rightarrow> [d] | _ \<Rightarrow> []) items) else []
       | _ \<Rightarrow> []) response)"

definition count_drive :: "dict \<Rightarrow> dg_entries \<Rightarrow> dg_entries" where
  "count_drive drive es =
     (case coerce_dg_id (dict_get drive ''DG'') of
        None \<Rightarrow> es
      | Some dg \<Rightarrow> (case entry_of es dg of (n, sz) \<Rightarrow> AList.update dg (Suc n, sz) es))"

definition group_of_entry :: "int \<times> nat \<times> int option \<Rightarrow> foreign_disk_group" where
  "group_of_entry e = (case e of (dg, n, sz) \<Rightarrow>
     \<lparr>fg_dg_id = dg, fg_drive_count = int n, fg_size_bytes = sz\<rparr>)"

definition foreign_disk_groups :: "dict \<Rightarrow> dict list \<Rightarrow> fault + foreign_disk_group list" where
  "foreign_disk_groups response drives =
     bindr (fold_res add_group_row (group_rows response) []) (\<lambda>es.
       Inr (map group_of_entry (sort_key fst (fold count_drive drives es))))"

subsection \<open>Summary counts and size\<close>

definition coerce_count :: "json \<Rightarrow> fault + int option" where
  "coerce_count v =
     (case v of
        JInt i \<Rightarrow> Inr (Some i)
      | JFloat q _ \<Rightarrow> Inr (Some (trunc_rat q))
      | JStr s \<Rightarrow>
          (if py_strip s = [] then Inr None
           else case int_of_decimal_text (py_strip s) of
                  Inr n \<Rightarrow> Inr (Some n) | Inl ValueError \<Rightarrow> Inr None | Inl e \<Rightarrow> Inl (Raised e))
      | _ \<Rightarrow> Inr None)"

definition count_summary :: "string \<times> json \<Rightarrow> int \<times> int \<Rightarrow> fault + int \<times> int" where
  "count_summary kv acc =
     (case kv of (key, value) \<Rightarrow> (case acc of (dgs, drives) \<Rightarrow>
       (let k = py_lower key
        in if \<not> str_in ''total'' k \<or> \<not> str_in ''foreign'' k \<or> \<not> str_in ''count'' k then Inr acc
           else bindr (coerce_count value) (\<lambda>c.
             case c of
               None \<Rightarrow> Inr acc
             | Some n \<Rightarrow>
                 if n \<le> 0 then Inr acc
                 else if str_in ''dg'' k \<and> dgs = 0 then Inr (n, drives)
                 else if str_in ''drive'' k \<and> drives = 0 then Inr (dgs, n)
                 else Inr acc))))"

definition foreign_summary_counts :: "dict \<Rightarrow> fault + int \<times> int" where
  "foreign_summary_counts response = fold_res count_summary response (0, 0)"

fun first_total_size :: "dict \<Rightarrow> fault + int option" where
  "first_total_size [] = Inr None"
| "first_total_size ((k, v) # rest) =
     (case v of
        JStr s \<Rightarrow>
          (if str_in ''total'' (py_lower k) \<and> str_in ''size'' (py_lower k) then
             (case size_string_to_bytes s of
                Inr n \<Rightarrow> Inr (Some n) | Inl ValueError \<Rightarrow> first_total_size rest | Inl e \<Rightarrow> Inl (Raised e))
           else first_total_size rest)
      | _ \<Rightarrow> first_total_size rest)"

definition foreign_total_size_bytes :: "dict \<Rightarrow> foreign_disk_group list \<Rightarrow> fault + int option" where
  "foreign_total_size_bytes response groups =
     bindr (first_total_size response) (\<lambda>total_size.
       case total_size of
         Some n \<Rightarrow> Inr (Some n)
       | None \<Rightarrow>
           (let sizes = List.map_filter fg_size_bytes groups
            in Inr (if sizes = [] then None else Some (sum_list sizes))))"

subsection \<open>Digest\<close>

text \<open>\<open>round\<close> of a rational: to the nearest integer, ties to even.\<close>

definition round_half_even :: "rat \<Rightarrow> int" where
  "round_half_even q =
     (let n = \<lfloor>q\<rfloor>; r = q - of_int n
      in if r < 1 / 2 then n else if r > 1 / 2 then n + 1 else if even n then n else n + 1)"

definition size_token :: "int option \<Rightarrow> string" where
  "size_token total_size =
     (case total_size of
        None \<Rightarrow> ''UNKNOWN''
      | Some n \<Rightarrow> show_int (max 0 (round_half_even (of_int n / 10 ^ 9))) @ ''GB'')"

definition foreign_config_digest :: "int \<Rightarrow> int \<Rightarrow> int option \<Rightarrow> foreign_disk_group list \<Rightarrow> string" where
  "foreign_config_digest dgs drives total_size groups =
     (let base = ''FC-DG'' @ show_int dgs @ ''-PD'' @ show_int drives @ ''-'' @ size_token total_size;
          tokens = map (\<lambda>g. ''dg'' @ show_int (fg_dg_id g) @ '':'' @ show_int (fg_drive_count g)) groups
      in if tokens = [] then base else base @ ''-['' @ join_with '','' tokens @ '']'')"

definition present_config ::
  "(dict \<Rightarrow> string) \<Rightarrow> dict \<Rightarrow> int \<Rightarrow> int \<Rightarrow> int option \<Rightarrow> foreign_disk_group list \<Rightarrow> foreign_config_info" where
  "present_config fingerprint response dgs drives total_size groups =
     \<lparr>fci_present = True, fci_dg_count = dgs, fci_drive_count = drives, fci_total_size_bytes = total_size,
      fci_disk_groups = groups,
      fci_digest = foreign_config_digest dgs drives total_size groups @ ''-'' @ fingerprint response\<rparr>"

definition describe_foreign :: "(dict \<Rightarrow> string) \<Rightarrow> dict \<Rightarrow> fault + foreign_config_info" where
  "describe_foreign fingerprint response =
     (let drives = foreign_drives response
      in bindr (foreign_disk_groups response drives) (\<lambda>groups.
         bindr (foreign_total_size_bytes response groups) (\<lambda>total_size.
           let n = int (length drives); g = int (length groups)
           in if g = 0 \<and> n = 0 then
                bindr (foreign_summary_counts response) (\<lambda>(sdg, sdrive).
                  if sdg > 0 \<or> sdrive > 0
                  then Inr (present_config fingerprint response sdg sdrive total_size groups)
                  else Inr no_foreign_config)
              else Inr (present_config fingerprint response g n total_size groups))))"

definition parse_foreign_config :: "(dict \<Rightarrow> string) \<Rightarrow> dict \<Rightarrow> fault + foreign_config_info" where
  "parse_foreign_config fingerprint payload =
     bindr (first_controller payload) (\<lambda>controller.
     bindr (command_failed controller) (\<lambda>failed.
       if failed then
         bindr (command_err_msg controller) (\<lambda>msg.
           if is_no_foreign_config_error msg then Inr no_foreign_config else Inl (command_failure msg))
       else
         bindr (ensure_command_succeeded payload) (\<lambda>_.
           case response_data controller of
             Inl (Storcli (ParseError _)) \<Rightarrow> Inr no_foreign_config
           | Inl f \<Rightarrow> Inl f
           | Inr response \<Rightarrow> describe_foreign fingerprint response)))"

subsection \<open>Complete inventories\<close>

definition vd_key :: "virtual_drive_info \<Rightarrow> int \<times> string" where
  "vd_key d = (vdi_vd_id d, normalized_state (vdi_state d))"

definition pd_key :: "physical_drive_info \<Rightarrow> int \<times> int \<times> int \<times> string" where
  "pd_key d = (pdi_enclosure_id d, pdi_slot_id d, pdi_device_id d, normalized_state (pdi_state d))"

text \<open>\<open>int(value)\<close> of a JSON value.\<close>

definition int_of_json :: "json \<Rightarrow> fault + int" where
  "int_of_json v =
     (case v of
        JInt i \<Rightarrow> Inr i
      | JBool b \<Rightarrow> Inr (bool_int b)
      | JFloat q _ \<Rightarrow> Inr (trunc_rat q)
      | JStr s \<Rightarrow> lift_py (int_of_text s)
      | _ \<Rightarrow> Inl (Raised TypeError))"

definition summary_pd_key :: "json \<Rightarrow> fault + int \<times> int \<times> int \<times> string" where
  "summary_pd_key row =
     bindr (as_mapping row) (\<lambda>d.
     bindr (item d ''EID:Slt'') (\<lambda>place.
       case split_on CHR '':'' (py_str place) of
         [e, s] \<Rightarrow>
           bindr (item d ''State'') (\<lambda>state.
             case state of
               JStr st \<Rightarrow>
                 bindr (lift_py (int_of_text e)) (\<lambda>enclosure.
                 bindr (lift_py (int_of_text s)) (\<lambda>slot.
                 bindr (bindr (item d ''DID'') int_of_json) (\<lambda>did.
                   Inr (enclosure, slot, did, normalized_state st))))
             | _ \<Rightarrow> Inl (Raised TypeError))
       | _ \<Rightarrow> Inl (Raised ValueError)))"

definition same_inventory ::
  "int \<Rightarrow> int \<Rightarrow> virtual_drive_info list \<Rightarrow> physical_drive_info list \<Rightarrow> virtual_drive_info list \<Rightarrow>
   (int \<times> int \<times> int \<times> string) list \<Rightarrow> bool" where
  "same_inventory vd_count pd_count vds pds summary_vds summary_pds \<longleftrightarrow>
     int (length (remdups (map vdi_vd_id vds))) = vd_count \<and>
     int (length (remdups (map drive_location pds))) = pd_count \<and>
     sort (map vd_key vds) = sort (map vd_key summary_vds) \<and>
     sort (map pd_key pds) = sort summary_pds \<and>
     list_all (\<lambda>d. pdi_serial_number d \<noteq> []) pds"

definition validate_complete_inventory ::
  "dict \<Rightarrow> dict \<Rightarrow> dict \<Rightarrow> virtual_drive_info list \<Rightarrow> physical_drive_info list \<Rightarrow> fault + unit" where
  "validate_complete_inventory controller_payload virtual_payload physical_payload vds pds =
     catching [KeyError, TypeError, ValueError] ''inventory completeness is unproven''
       (bindr (map_res ensure_inventory_success [controller_payload, virtual_payload, physical_payload]) (\<lambda>_.
        bindr (bindr (first_controller controller_payload) response_data) (\<lambda>response.
        bindr (item response ''Virtual Drives'') (\<lambda>vd_count.
        bindr (item response ''Physical Drives'') (\<lambda>pd_count.
          if vd_count \<noteq> JInt (int (length vds)) \<or> pd_count \<noteq> JInt (int (length pds))
            then Inl (Raised ValueError)
          else bindr (parse_virtual_drives controller_payload) (\<lambda>summary_vds.
            case get_or response ''PD LIST'' (JArr []) of
              JArr rows \<Rightarrow>
                bindr (map_res summary_pd_key rows) (\<lambda>summary_pds.
                  if \<not> same_inventory (int (length vds)) (int (length pds)) vds pds summary_vds summary_pds
                    then Inl (Raised ValueError)
                  else bindr (item response ''Cachevault_Info'') (\<lambda>cv.
                    case cv of JArr _ \<Rightarrow> Inr () | _ \<Rightarrow> Inl (Raised ValueError)))
            | _ \<Rightarrow> Inl (Raised ValueError)))))))"

end
