(* ===== verification/Operations.thy ===== *)
theory Operations
  imports Payload Patterns
begin

section \<open>Progress of background operations\<close>

text \<open>
  The status readers of \<open>services/drive_actions.py\<close>: rebuild, patrol read and consistency
  check. Firmware reports them as free-form tables, so the readers walk the response and match key
  and value texts; each regular expression is written out as the scan it performs.
\<close>

record rebuild_status =
  rs_percent_complete :: "int option"
  rs_state :: string
  rs_time_remaining :: "int option"

record patrol_read_status =
  pr_mode :: string
  pr_state :: string
  pr_progress_percent :: "int option"
  pr_completed_drive_count :: "int option"
  pr_last_run :: "string option"
  pr_interval_hours :: "int option"
  pr_next_start :: "string option"

record consistency_check_status =
  cc_mode :: string
  cc_state :: string
  cc_progress_percent :: "int option"
  cc_last_run :: "string option"
  cc_inconsistency_count :: "int option"
  cc_inconsistency_detail :: "string option"

definition running_states :: "string list" where
  "running_states = [''active'', ''paused'', ''running'', ''in progress'']"

definition pr_is_running :: "patrol_read_status \<Rightarrow> bool" where
  "pr_is_running s \<longleftrightarrow> py_lower (pr_state s) \<in> set running_states"

definition cc_is_running :: "consistency_check_status \<Rightarrow> bool" where
  "cc_is_running s \<longleftrightarrow> py_lower (cc_state s) \<in> set running_states"

definition cc_has_inconsistency :: "consistency_check_status \<Rightarrow> bool" where
  "cc_has_inconsistency s =
     (case cc_inconsistency_count s of Some n \<Rightarrow> n > 0 | None \<Rightarrow> cc_inconsistency_detail s \<noteq> None)"

definition patrol_read_can_start :: "patrol_read_status \<Rightarrow> bool" where
  "patrol_read_can_start s \<longleftrightarrow> py_lower (pr_state s) \<in> set [''stopped'', ''ready'']"

definition patrol_read_can_stop :: "patrol_read_status \<Rightarrow> bool" where
  "patrol_read_can_stop s = pr_is_running s"

definition consistency_check_can_start :: "consistency_check_status \<Rightarrow> bool" where
  "consistency_check_can_start s \<longleftrightarrow> py_lower (cc_state s) \<in> set [''stopped'', ''ready'']"

definition consistency_check_can_stop :: "consistency_check_status \<Rightarrow> bool" where
  "consistency_check_can_stop s = cc_is_running s"

subsection \<open>Scanning text\<close>

definition rstrip :: "string \<Rightarrow> string" where
  "rstrip s = rev (dropWhile is_space (rev s))"

definition last_word :: "string \<Rightarrow> string" where
  "last_word s = rev (takeWhile (\<lambda>c. \<not> is_space c) (rev s))"

text \<open>A match of \<open>\d+(?:\.\d+)?\<close> at the front: its value and the text after it.\<close>

definition number_at :: "string \<Rightarrow> (rat \<times> string) option" where
  "number_at s =
     (let w = takeWhile is_digit s; rest = dropWhile is_digit s
      in if w = [] then None
         else case rest of
           c # others \<Rightarrow>
             (let f = takeWhile is_digit others
              in if c = CHR ''.'' \<and> f \<noteq> []
                 then Some (of_nat (read_nat w) + of_nat (read_nat f) / 10 ^ length f, dropWhile is_digit others)
                 else Some (of_nat (read_nat w), rest))
         | [] \<Rightarrow> Some (of_nat (read_nat w), rest))"

fun first_number :: "string \<Rightarrow> rat option" where
  "first_number [] = None"
| "first_number (c # cs) = (case number_at (c # cs) of Some (q, _) \<Rightarrow> Some q | None \<Rightarrow> first_number cs)"

definition is_word_char :: "char \<Rightarrow> bool" where
  "is_word_char c \<longleftrightarrow> is_alpha c \<or> is_digit c \<or> c = CHR ''_''"

definition boundary :: "string \<Rightarrow> bool" where
  "boundary s = (case s of [] \<Rightarrow> True | c # _ \<Rightarrow> \<not> is_word_char c)"

fun unit_value :: "string list \<Rightarrow> string \<Rightarrow> rat option" where
  "unit_value units [] = None"
| "unit_value units (c # cs) =
     (case number_at (c # cs) of
        Some (q, rest) \<Rightarrow>
          (let t = dropWhile is_space rest
           in if list_ex (\<lambda>u. prefix u t \<and> boundary (drop (length u) t)) units then Some q
              else unit_value units cs)
      | None \<Rightarrow> unit_value units cs)"

definition parse_int :: "json \<Rightarrow> int option" where
  "parse_int v =
     (case v of
        JInt i \<Rightarrow> Some i
      | JFloat q _ \<Rightarrow> Some (trunc_rat q)
      | JStr s \<Rightarrow> map_option trunc_rat (first_number s)
      | _ \<Rightarrow> None)"

definition parse_trailing_percent :: "string \<Rightarrow> int option" where
  "parse_trailing_percent s =
     (let t = rstrip s
      in if t = [] \<or> last t \<noteq> CHR ''%'' then None
         else case number_at (last_word (rstrip (butlast t))) of
                Some (q, []) \<Rightarrow> Some (trunc_rat q) | _ \<Rightarrow> None)"

definition parse_trailing_drive_count :: "string \<Rightarrow> int option" where
  "parse_trailing_drive_count s =
     (let t = rstrip s; w = last_word t
      in if w = [] \<or> last t = CHR ''%'' \<or> \<not> list_all is_digit w then None else Some (int (read_nat w)))"

definition parse_minutes :: "json \<Rightarrow> int option" where
  "parse_minutes v =
     (case v of
        JInt i \<Rightarrow> Some i
      | JFloat q _ \<Rightarrow> Some (trunc_rat q)
      | JStr s \<Rightarrow>
          (let t = py_lower (py_strip s);
               d = unit_value [''day'', ''days'', ''d''] t;
               h = unit_value [''hour'', ''hours'', ''hr'', ''hrs'', ''h''] t;
               m = unit_value [''minute'', ''minutes'', ''min'', ''mins'', ''m''] t;
               s' = unit_value [''second'', ''seconds'', ''sec'', ''secs'', ''s''] t;
               val = case_option 0 id
           in if t \<in> set [[], ''-'', ''n/a'', ''na'', ''none''] then None
              else if t \<in> set [''0'', ''0 minutes'', ''0 minute''] then Some 0
              else if d \<noteq> None \<or> h \<noteq> None \<or> m \<noteq> None \<or> s' \<noteq> None
                then Some (trunc_rat (val d * 24 * 60 + val h * 60 + val m + val s' / 60))
              else if list_ex is_alpha t then None
              else parse_int (JStr t))
      | _ \<Rightarrow> None)"

subsection \<open>Walking a response\<close>

fun walk_properties :: "json \<Rightarrow> (string \<times> json) list"
  and walk_properties_list :: "json list \<Rightarrow> (string \<times> json) list"
  and walk_properties_pairs :: "(string \<times> json) list \<Rightarrow> (string \<times> json) list" where
  "walk_properties (JObj d) =
     (case (dict_get d ''Ctrl_Prop'', dict_get d ''Value'') of
        (Some (JStr p), Some v) \<Rightarrow> [(p, v)] | _ \<Rightarrow> []) @ walk_properties_pairs d"
| "walk_properties (JArr vs) = walk_properties_list vs"
| "walk_properties _ = []"
| "walk_properties_list [] = []"
| "walk_properties_list (v # vs) = walk_properties v @ walk_properties_list vs"
| "walk_properties_pairs [] = []"
| "walk_properties_pairs ((k, v) # kvs) = walk_properties v @ walk_properties_pairs kvs"

fun walk_key_values :: "json \<Rightarrow> (string \<times> json) list"
  and walk_key_values_list :: "json list \<Rightarrow> (string \<times> json) list"
  and walk_key_values_pairs :: "(string \<times> json) list \<Rightarrow> (string \<times> json) list" where
  "walk_key_values (JObj d) = walk_key_values_pairs d"
| "walk_key_values (JArr vs) = walk_key_values_list vs"
| "walk_key_values _ = []"
| "walk_key_values_list [] = []"
| "walk_key_values_list (v # vs) = walk_key_values v @ walk_key_values_list vs"
| "walk_key_values_pairs [] = []"
| "walk_key_values_pairs ((k, v) # kvs) = (k, v) # walk_key_values v @ walk_key_values_pairs kvs"

definition walked :: "json \<Rightarrow> (string \<times> json) list" where
  "walked v = walk_properties v @ walk_key_values v"

definition squeezed :: "string \<Rightarrow> string" where
  "squeezed k = filter (\<lambda>c. c \<noteq> CHR '' '' \<and> c \<noteq> CHR ''_'') (py_lower k)"

text \<open>\<open>(?:^|[^a-z0-9])w(?:[^a-z0-9]|$)\<close> somewhere in the text.\<close>

definition alnum_lower :: "char \<Rightarrow> bool" where
  "alnum_lower c \<longleftrightarrow> is_lower c \<or> is_digit c"

fun isolated_at :: "bool \<Rightarrow> string \<Rightarrow> string \<Rightarrow> bool" where
  "isolated_at free w [] = False"
| "isolated_at free w (c # cs) =
     ((free \<and> prefix w (c # cs) \<and> (case drop (length w) (c # cs) of [] \<Rightarrow> True | d # _ \<Rightarrow> \<not> alnum_lower d))
      \<or> isolated_at (\<not> alnum_lower c) w cs)"

definition isolated :: "string \<Rightarrow> string \<Rightarrow> bool" where
  "isolated w s = isolated_at True w s"

definition progress_key :: "string \<Rightarrow> bool" where
  "progress_key k \<longleftrightarrow>
     \<not> str_in ''rate'' (squeezed k) \<and> (str_in ''progress'' (squeezed k) \<or> str_in ''percentcomplete'' (squeezed k))"

definition is_patrol_read_progress_key :: "string \<Rightarrow> bool" where
  "is_patrol_read_progress_key k \<longleftrightarrow>
     progress_key k \<and> (str_in ''patrol'' (squeezed k) \<or> isolated ''pr'' (py_lower k))"

definition parse_consistency_check_progress :: "string \<times> json \<Rightarrow> int option" where
  "parse_consistency_check_progress kv =
     (if progress_key (fst kv) \<and> (str_in ''consistency'' (squeezed (fst kv)) \<or> isolated ''cc'' (py_lower (fst kv)))
      then parse_int (snd kv) else None)"

definition find_patrol_read_progress_percent :: "json \<Rightarrow> int option" where
  "find_patrol_read_progress_percent v =
     first_some (\<lambda>(k, c). if is_patrol_read_progress_key k then parse_int c else None) (walked v)"

definition find_consistency_check_progress_percent :: "json \<Rightarrow> int option" where
  "find_consistency_check_progress_percent v = first_some parse_consistency_check_progress (walked v)"

definition text_of :: "json \<Rightarrow> string option" where
  "text_of v = (case v of JStr s \<Rightarrow> if py_strip s = [] then None else Some (py_strip s) | _ \<Rightarrow> None)"

definition hinted :: "string list \<Rightarrow> string \<Rightarrow> bool" where
  "hinted hints k = list_ex (\<lambda>h. str_in h (py_lower k)) hints"

definition find_patrol_read_text :: "json \<Rightarrow> string list \<Rightarrow> string option" where
  "find_patrol_read_text v hints =
     first_some (\<lambda>(k, c). if hinted hints k then text_of c else None) (walked v)"

definition is_consistency_check_operation :: "string \<Rightarrow> bool" where
  "is_consistency_check_operation s \<longleftrightarrow> squeezed (py_strip s) \<in> set [''cc'', ''consistencycheck'']"

definition operation_row_text :: "dict \<Rightarrow> string list \<Rightarrow> string option" where
  "operation_row_text d hints =
     (case dict_get d ''Operation'' of
        Some (JStr op) \<Rightarrow>
          (if is_consistency_check_operation op
           then first_some (\<lambda>(k, c). if k \<noteq> ''Operation'' \<and> hinted hints k then text_of c else None) d
           else None)
      | _ \<Rightarrow> None)"

fun operation_text :: "string list \<Rightarrow> json \<Rightarrow> string option"
  and operation_text_list :: "string list \<Rightarrow> json list \<Rightarrow> string option"
  and operation_text_pairs :: "string list \<Rightarrow> (string \<times> json) list \<Rightarrow> string option" where
  "operation_text hints (JObj d) =
     (case operation_row_text d hints of Some t \<Rightarrow> Some t | None \<Rightarrow> operation_text_pairs hints d)"
| "operation_text hints (JArr vs) = operation_text_list hints vs"
| "operation_text hints _ = None"
| "operation_text_list hints [] = None"
| "operation_text_list hints (v # vs) =
     (case operation_text hints v of Some t \<Rightarrow> Some t | None \<Rightarrow> operation_text_list hints vs)"
| "operation_text_pairs hints [] = None"
| "operation_text_pairs hints ((k, v) # kvs) =
     (case operation_text hints v of Some t \<Rightarrow> Some t | None \<Rightarrow> operation_text_pairs hints kvs)"

definition find_consistency_check_text :: "json \<Rightarrow> string list \<Rightarrow> string option" where
  "find_consistency_check_text v hints =
     (case operation_text hints v of
        Some t \<Rightarrow> Some t
      | None \<Rightarrow> first_some (\<lambda>(k, c).
          if hinted hints k \<and> (str_in ''consistency'' (squeezed k) \<or> str_in ''cc'' (squeezed k)) then text_of c else None)
          (walked v))"

subsection \<open>Inconsistencies\<close>

text \<open>\<open>re.sub(r"[\s_-]+", " ", text)\<close> followed by the words of the result.\<close>

definition detail_words :: "string \<Rightarrow> string list" where
  "detail_words s =
     map rev (filter (\<lambda>w. w \<noteq> []) (fold (\<lambda>c ws. if is_word_char c \<and> c \<noteq> CHR ''_'' then (c # hd ws) # tl ws else [] # ws) s [[]]))"

fun negated_inconsistency :: "string list \<Rightarrow> bool" where
  "negated_inconsistency [] = False"
| "negated_inconsistency (w # ws) =
     ((w \<in> set [''no'', ''none'', ''zero'', ''0''] \<and> list_ex (\<lambda>v. v \<in> set [''inconsistency'', ''inconsistencies'']) ws)
      \<or> negated_inconsistency ws)"

definition collapse_separators :: "string \<Rightarrow> string" where
  "collapse_separators s =
     rev (fold (\<lambda>c acc. if is_space c \<or> c = CHR ''_'' \<or> c = CHR ''-''
            then (if acc \<noteq> [] \<and> hd acc = CHR '' '' then acc else CHR '' '' # acc) else c # acc) s [])"

definition is_negative_detail :: "string \<Rightarrow> bool" where
  "is_negative_detail s \<longleftrightarrow>
     (let t = collapse_separators (py_lower (py_strip s))
      in t \<in> set [''no'', ''none'', ''n/a'', ''na'', ''0''] \<or> negated_inconsistency (rev (detail_words t)))"

definition inconsistency_candidate :: "string \<times> json \<Rightarrow> (int option \<times> string option) option" where
  "inconsistency_candidate kv =
     (if \<not> str_in ''inconsist'' (squeezed (fst kv)) then None
      else case parse_int (snd kv) of
             Some n \<Rightarrow> Some (Some n, Some (py_str (snd kv)))
           | None \<Rightarrow> (case text_of (snd kv) of
               Some t \<Rightarrow> if is_negative_detail t then None else Some (None, Some t)
             | None \<Rightarrow> None))"

definition find_inconsistency :: "json \<Rightarrow> int option \<times> string option" where
  "find_inconsistency v =
     (case first_some inconsistency_candidate (walked v) of Some r \<Rightarrow> r | None \<Rightarrow> (None, None))"

subsection \<open>Status of each operation\<close>

definition contains_any :: "string list \<Rightarrow> string \<Rightarrow> bool" where
  "contains_any ws s = list_ex (\<lambda>w. str_in w s) ws"

definition normalize_rebuild_state :: "string option \<Rightarrow> int option \<Rightarrow> string" where
  "normalize_rebuild_state raw percent =
     (let lowered = py_lower (py_strip (case raw of None \<Rightarrow> [] | Some s \<Rightarrow> s))
      in if contains_any [''not'', ''none'', ''idle''] lowered then ''Not in progress''
         else if contains_any [''fail'', ''abort'', ''stop''] lowered then ''Unknown''
         else if lowered \<in> set [''complete'', ''completed''] \<and> percent = Some 100 then ''Complete''
         else if contains_any [''progress'', ''rebuild'', ''rbld'', ''active''] lowered then ''In progress''
         else if (case percent of Some p \<Rightarrow> 0 < p \<and> p < 100 | None \<Rightarrow> False) then ''In progress''
         else ''Unknown'')"

definition normalize_patrol_read_state :: "string option \<Rightarrow> string" where
  "normalize_patrol_read_state raw =
     (case raw of
        None \<Rightarrow> ''unknown''
      | Some s \<Rightarrow>
          (let lowered = py_lower (py_strip s)
           in if str_in ''not in progress'' lowered then ''stopped''
              else if contains_any [''active'', ''running'', ''progress''] lowered then ''active''
              else if str_in ''paused'' lowered then ''paused''
              else if str_in ''ready'' lowered then ''ready''
              else if contains_any [''stopped'', ''aborted''] lowered then ''stopped''
              else if lowered = [] then ''unknown'' else lowered))"

definition single_controller_response_data :: "dict \<Rightarrow> bool \<Rightarrow> fault + json" where
  "single_controller_response_data payload allow_list =
     (case dict_get payload ''Controllers'' of
        Some (JArr [controller]) \<Rightarrow>
          (case controller of
             JObj c \<Rightarrow>
               (let failed = (case dict_get c ''Command Status'' of
                      Some (JObj status) \<Rightarrow>
                        (if py_lower (py_str (get_or status ''Status'' (JStr []))) = ''failure'' then Some status else None)
                    | _ \<Rightarrow> None)
                in case failed of
                     Some status \<Rightarrow> Inl (command_failure (status_message status))
                   | None \<Rightarrow>
                       (case dict_get c ''Response Data'' of
                          Some (JObj d) \<Rightarrow> Inr (JObj d)
                        | Some (JArr vs) \<Rightarrow>
                            if allow_list then Inr (JArr vs)
                            else Inl (parse_fault ''storcli rebuild status missing Response Data'')
                        | _ \<Rightarrow> Inl (parse_fault ''storcli rebuild status missing Response Data'')))
           | _ \<Rightarrow> Inl (parse_fault ''storcli rebuild status controller is not an object''))
      | _ \<Rightarrow> Inl (parse_fault ''storcli rebuild status missing Controllers''))"

definition drive_id_pattern :: "piece list" where
  "drive_id_pattern = [Lit ''/c0/e'', Num, Lit ''/s'', Num]"

definition rebuild_table_suffix :: string where
  "rebuild_table_suffix = '' - Rebuild Progress''"

text \<open>The rows of a rebuild response and the drive its table is named after.\<close>

definition rebuild_table :: "json \<Rightarrow> fault + string option \<times> json" where
  "rebuild_table response =
     (case response of
        JObj [(name, rows)] \<Rightarrow>
          (if full_match ([Lit ''Drive ''] @ drive_id_pattern @ [Lit rebuild_table_suffix]) name
           then Inr (Some (take (length name - 6 - length rebuild_table_suffix) (drop 6 name)), rows)
           else Inl (parse_fault ''unsupported rebuild progress table''))
      | JObj _ \<Rightarrow> Inl (parse_fault ''ambiguous rebuild progress tables'')
      | rows \<Rightarrow> Inr (None, rows))"

definition rebuild_row_drive :: "dict \<Rightarrow> string option \<Rightarrow> fault + string option" where
  "rebuild_row_drive row table_drive =
     (case dict_get row ''Drive-ID'' of
        None \<Rightarrow> Inr table_drive
      | Some (JStr d) \<Rightarrow>
          (if \<not> full_match drive_id_pattern d then Inl (parse_fault ''invalid rebuild Drive-ID'')
           else if table_drive \<noteq> None \<and> Some d \<noteq> table_drive
             then Inl (parse_fault ''mismatched rebuild Drive-ID and table'')
           else Inr (Some d))
      | Some _ \<Rightarrow> Inl (parse_fault ''invalid rebuild Drive-ID''))"

definition rebuild_percent :: "json option \<Rightarrow> fault + int option" where
  "rebuild_percent v =
     (case v of
        None \<Rightarrow> Inr None
      | Some raw \<Rightarrow>
          (if absent_value raw then Inr None
           else
             (let text = py_str raw;
                  digits = (if text \<noteq> [] \<and> last text = CHR ''%'' then butlast text else text)
              in if (case raw of JBool _ \<Rightarrow> True | _ \<Rightarrow> False) \<or> digits = [] \<or> length digits > 3 \<or>
                    \<not> list_all is_digit digits \<or> read_nat digits > 100
                 then Inl (parse_fault ''invalid rebuild progress'')
                 else Inr (Some (int (read_nat digits))))))"

definition parse_rebuild_status :: "dict \<Rightarrow> string option \<Rightarrow> fault + rebuild_status" where
  "parse_rebuild_status payload requested =
     bindr (single_controller_response_data payload True) (\<lambda>response.
     bindr (ensure_command_succeeded payload) (\<lambda>_.
     bindr (rebuild_table response) (\<lambda>(table_drive, rows).
       case rows of
         JArr [JObj row] \<Rightarrow>
           bindr (rebuild_row_drive row table_drive) (\<lambda>drive_id.
             if requested \<noteq> None \<and> drive_id \<noteq> requested
               then Inl (parse_fault ''rebuild Drive-ID is missing or does not match requested drive'')
             else bindr (rebuild_percent (dict_get row ''Progress%'')) (\<lambda>percent.
               (let explicit = (case dict_get row ''Status'' of Some v \<Rightarrow> Some v | None \<Rightarrow> dict_get row ''State'');
                    finish = (\<lambda>st. Inr \<lparr>rs_percent_complete = percent, rs_state = normalize_rebuild_state st percent,
                      rs_time_remaining = (case dict_get row ''Estimated Time Left'' of None \<Rightarrow> None | Some v \<Rightarrow> parse_minutes v)\<rparr>);
                    missing = Inl (parse_fault ''storcli rebuild status missing progress data'')
                in case explicit of
                     Some (JStr st) \<Rightarrow> if percent = None \<and> st = [] then missing else finish (Some st)
                   | None \<Rightarrow> if percent = None then missing else finish None
                   | Some JNull \<Rightarrow> if percent = None then missing else finish None
                   | Some _ \<Rightarrow> Inl (parse_fault ''invalid rebuild status''))))
       | _ \<Rightarrow> Inl (parse_fault ''expected exactly one rebuild progress row''))))"

definition clamp_percent :: "int option \<Rightarrow> int option" where
  "clamp_percent = map_option (\<lambda>p. max 0 (min 100 p))"

definition patrol_interval_hours :: "string option \<Rightarrow> int option" where
  "patrol_interval_hours v =
     (case v of
        None \<Rightarrow> None
      | Some s \<Rightarrow>
          (let n = takeWhile is_digit s; unit = py_lower (py_lstrip (dropWhile is_digit s))
           in if n = [] \<or> length n > 8 \<or> unit \<notin> set [[], ''h'', ''hr'', ''hrs'', ''hour'', ''hours''] then None
              else if read_nat n > 0 then Some (int (read_nat n)) else None))"

definition or_first :: "'a option \<Rightarrow> 'a option \<Rightarrow> 'a option" where
  "or_first x y = (case x of Some _ \<Rightarrow> x | None \<Rightarrow> y)"

definition text_or_unknown :: "string option \<Rightarrow> string" where
  "text_or_unknown t = (case t of None \<Rightarrow> ''unknown'' | Some s \<Rightarrow> s)"

definition parse_patrol_read_status :: "dict \<Rightarrow> fault + patrol_read_status" where
  "parse_patrol_read_status payload =
     bindr (single_controller_response_data payload False) (\<lambda>data.
       (let raw = find_patrol_read_text data [''current state'', ''state'', ''status''];
            state = normalize_patrol_read_state raw;
            running = state \<in> set [''active'', ''paused'']
        in Inr \<lparr>pr_mode = py_lower (text_or_unknown (find_patrol_read_text data [''mode''])),
             pr_state = state,
             pr_progress_percent = clamp_percent
               (if running then or_first (find_patrol_read_progress_percent data) (Option.bind raw parse_trailing_percent) else None),
             pr_completed_drive_count = (if running then Option.bind raw parse_trailing_drive_count else None),
             pr_last_run = find_patrol_read_text data [''last run'', ''last completed'', ''last start'', ''last''],
             pr_interval_hours = patrol_interval_hours (find_patrol_read_text data [''execution delay'', ''reoccurrence'']),
             pr_next_start = find_patrol_read_text data [''next start time'', ''next patrol read launch'']\<rparr>))"

definition parse_consistency_check_status :: "dict \<Rightarrow> dict \<Rightarrow> fault + consistency_check_status" where
  "parse_consistency_check_status show_payload progress_payload =
     bindr (single_controller_response_data show_payload False) (\<lambda>shown.
     bindr (single_controller_response_data progress_payload False) (\<lambda>progress.
       (let raw = find_consistency_check_text progress [''current state'', ''state'', ''status''];
            found = find_inconsistency progress
        in Inr \<lparr>cc_mode = py_lower (text_or_unknown (find_consistency_check_text shown [''mode''])),
             cc_state = normalize_patrol_read_state raw,
             cc_progress_percent = clamp_percent
               (or_first (find_consistency_check_progress_percent progress) (Option.bind raw parse_trailing_percent)),
             cc_last_run = find_consistency_check_text shown [''last run'', ''last completed'', ''last start'', ''last''],
             cc_inconsistency_count = fst found,
             cc_inconsistency_detail = snd found\<rparr>)))"

end
