(* ===== verification/Prewrite.thy ===== *)
theory Prewrite
  imports Policy ForeignConfig Operations
begin

section \<open>Evidence required before a write\<close>

text \<open>
  The checks of \<open>storcli/prewrite.py\<close> on live responses, and the response schemas of
  \<open>storcli/prewrite.py\<close> and \<open>storcli/runner.py\<close>. A pydantic model in strict mode accepts a
  value of exactly the declared type, so each schema is a predicate on JSON values; a response
  that fails it raises ValidationError, a ValueError. The reads themselves are passed in, so these
  definitions are the pure part; the runner performs the reads.
\<close>

subsection \<open>Strict schemas\<close>

definition strict_int :: "(int \<Rightarrow> bool) \<Rightarrow> json option \<Rightarrow> bool" where
  "strict_int ok v = (case v of Some (JInt i) \<Rightarrow> ok i | _ \<Rightarrow> False)"

definition strict_str :: "(string \<Rightarrow> bool) \<Rightarrow> json option \<Rightarrow> bool" where
  "strict_str ok v = (case v of Some (JStr s) \<Rightarrow> ok s | _ \<Rightarrow> False)"

text \<open>An optional field: missing, null, or valid.\<close>

definition or_null :: "(json option \<Rightarrow> bool) \<Rightarrow> json option \<Rightarrow> bool" where
  "or_null ok v \<longleftrightarrow> v = None \<or> v = Some JNull \<or> ok v"

definition list_of :: "(dict \<Rightarrow> bool) \<Rightarrow> (nat \<Rightarrow> bool) \<Rightarrow> json option \<Rightarrow> bool" where
  "list_of ok len v =
     (case v of
        Some (JArr vs) \<Rightarrow> len (length vs) \<and> list_all (\<lambda>x. case x of JObj d \<Rightarrow> ok d | _ \<Rightarrow> False) vs
      | _ \<Rightarrow> False)"

definition object_field :: "(dict \<Rightarrow> bool) \<Rightarrow> json option \<Rightarrow> bool" where
  "object_field ok v = (case v of Some (JObj d) \<Rightarrow> ok d | _ \<Rightarrow> False)"

definition one_controller :: "(dict \<Rightarrow> bool) \<Rightarrow> dict \<Rightarrow> bool" where
  "one_controller status_ok payload =
     list_of (\<lambda>c. object_field status_ok (dict_get c ''Command Status'')) (\<lambda>n. n = 1) (dict_get payload ''Controllers'')"

definition read_response_ok :: "dict \<Rightarrow> bool" where
  "read_response_ok payload =
     one_controller (\<lambda>s. strict_int (\<lambda>i. i = 0) (dict_get s ''Controller'') \<and>
       strict_str (\<lambda>t. t = ''Success'') (dict_get s ''Status'')) payload"

definition write_detail_ok :: "dict \<Rightarrow> bool" where
  "write_detail_ok d \<longleftrightarrow>
     or_null (strict_int (\<lambda>i. i = 0)) (dict_get d ''Controller'') \<and>
     or_null (strict_int (\<lambda>i. i = 0)) (dict_get d ''Ctrl'') \<and>
     strict_str (\<lambda>t. t = ''Success'') (dict_get d ''Status'')"

definition write_response_ok :: "dict \<Rightarrow> bool" where
  "write_response_ok payload =
     one_controller (\<lambda>s. strict_int (\<lambda>i. i = 0) (dict_get s ''Controller'') \<and>
       strict_str (\<lambda>t. t \<in> set [''Success'', ''Failure'']) (dict_get s ''Status'') \<and>
       or_null (list_of write_detail_ok (\<lambda>_. True)) (dict_get s ''Detailed Status'')) payload"

definition failed_detail_ok :: "dict \<Rightarrow> bool" where
  "failed_detail_ok d \<longleftrightarrow>
     or_null (strict_str (\<lambda>t. t \<in> set [''Failure'', ''Failed''])) (dict_get d ''Status'') \<and>
     or_null (strict_int (\<lambda>_. True)) (dict_get d ''Controller'') \<and>
     or_null (strict_int (\<lambda>_. True)) (dict_get d ''Ctrl'') \<and>
     strict_str (\<lambda>t. t \<noteq> []) (dict_get d ''ErrMsg'')"

definition failed_status_ok :: "dict \<Rightarrow> bool" where
  "failed_status_ok s \<longleftrightarrow>
     strict_int (\<lambda>_. True) (dict_get s ''Controller'') \<and>
     strict_str (\<lambda>t. t = ''Failure'') (dict_get s ''Status'') \<and>
     or_null (list_of failed_detail_ok (\<lambda>n. n \<ge> 1)) (dict_get s ''Detailed Status'')"

text \<open>A detail that names a controller names the one whose status it is part of.\<close>

definition same_identity :: "json option \<Rightarrow> dict \<Rightarrow> bool" where
  "same_identity controller detail \<longleftrightarrow>
     list_all (\<lambda>k. or_null (\<lambda>v. v = controller) (dict_get detail k)) [''Controller'', ''Ctrl'']"

definition identities_agree :: "dict \<Rightarrow> bool" where
  "identities_agree s =
     (case dict_get s ''Detailed Status'' of
        Some (JArr vs) \<Rightarrow>
          list_all (\<lambda>x. case x of JObj d \<Rightarrow> same_identity (dict_get s ''Controller'') d | _ \<Rightarrow> True) vs
      | _ \<Rightarrow> True)"

definition failed_response :: "json option \<Rightarrow> dict option" where
  "failed_response out =
     (case out of
        Some (JObj payload) \<Rightarrow>
          if one_controller (\<lambda>s. failed_status_ok s \<and> identities_agree s) payload then Some payload else None
      | _ \<Rightarrow> None)"

subsection \<open>Topology\<close>

definition response_of :: "dict \<Rightarrow> dict" where
  "response_of payload =
     (case dict_get payload ''Controllers'' of
        Some (JArr (JObj c # _)) \<Rightarrow> (case dict_get c ''Response Data'' of Some (JObj d) \<Rightarrow> d | _ \<Rightarrow> [])
      | _ \<Rightarrow> [])"

definition dg_vd_pattern :: "piece list" where
  "dg_vd_pattern = [Num, Lit ''/'', Num]"

definition object_rows :: "json option \<Rightarrow> dict list" where
  "object_rows v = (case v of Some (JArr vs) \<Rightarrow> concat (map (\<lambda>x. case x of JObj d \<Rightarrow> [d] | _ \<Rightarrow> []) vs) | _ \<Rightarrow> [])"

definition str_of :: "json option \<Rightarrow> string" where
  "str_of v = (case v of Some (JStr s) \<Rightarrow> s | _ \<Rightarrow> [])"

definition int_of :: "json option \<Rightarrow> int" where
  "int_of v = (case v of Some (JInt i) \<Rightarrow> i | _ \<Rightarrow> 0)"

definition vd_inventory :: "dict \<Rightarrow> (int \<times> string list) option" where
  "vd_inventory data =
     (if strict_int (\<lambda>i. i \<ge> 0) (dict_get data ''Virtual Drives'') \<and>
         list_of (\<lambda>d. strict_str (full_match dg_vd_pattern) (dict_get d ''DG/VD'')) (\<lambda>_. True) (dict_get data ''VD LIST'')
      then Some (int_of (dict_get data ''Virtual Drives''),
                 map (\<lambda>d. str_of (dict_get d ''DG/VD'')) (object_rows (dict_get data ''VD LIST'')))
      else None)"

text \<open>A topology cell: an integer or a dash.\<close>

definition cell_ok :: "json option \<Rightarrow> bool" where
  "cell_ok v = (case v of Some (JInt _) \<Rightarrow> True | Some (JStr s) \<Rightarrow> s = ''-'' | _ \<Rightarrow> False)"

definition group_inventory :: "dict \<Rightarrow> (int \<times> dict list) option" where
  "group_inventory data =
     (if strict_int (\<lambda>i. i \<ge> 0) (dict_get data ''Drive Groups'') \<and>
         list_of (\<lambda>d. list_all (\<lambda>k. cell_ok (dict_get d k)) [''DG'', ''Arr'', ''Row'']) (\<lambda>_. True) (dict_get data ''TOPOLOGY'')
      then Some (int_of (dict_get data ''Drive Groups''), object_rows (dict_get data ''TOPOLOGY''))
      else None)"

definition group_headers :: "dict list \<Rightarrow> int list" where
  "group_headers rows =
     concat (map (\<lambda>d. case dict_get d ''DG'' of
         Some (JInt g) \<Rightarrow> if dict_get d ''Arr'' = Some (JStr ''-'') \<and> dict_get d ''Row'' = Some (JStr ''-'') then [g] else []
       | _ \<Rightarrow> []) rows)"

definition needs_vd_check :: "string list \<Rightarrow> bool" where
  "needs_vd_check args \<longleftrightarrow>
     starts_with ''/c0/v'' (args ! 0) \<or> starts_with ''cc='' (args ! 2) \<or> replacement_step args"

definition vd_topology_ok :: "string list \<Rightarrow> command_policy \<Rightarrow> int \<times> string list \<Rightarrow> bool" where
  "vd_topology_ok args p inven =
     (case inven of (count, ids) \<Rightarrow>
       count = int (length ids) \<and> distinct ids \<and>
       (show_int (disk_group p) @ ''/'' @ show_int (virtual_drive p)) \<in> set ids \<and>
       ((args ! 0 = ''/c0/v'' @ show_int (virtual_drive p) \<and> take 2 (drop 1 args) = [''start'', ''cc''])
        \<or> length ids = 1))"

definition group_topology_ok :: "command_policy \<Rightarrow> int \<times> dict list \<Rightarrow> bool" where
  "group_topology_ok p inven =
     (case inven of (count, rows) \<Rightarrow>
       count = int (length (group_headers rows)) \<and> distinct (group_headers rows) \<and>
       disk_group p \<in> set (group_headers rows))"

definition topology_message :: string where
  "topology_message =
     ''Approved local VD/DG topology cannot be verified for this action. '' @
     ''Refresh current controller topology and have the administrator review the policy.''"

definition check_action_topology :: "string list \<Rightarrow> dict \<Rightarrow> command_policy \<Rightarrow> fault + unit" where
  "check_action_topology args identity p =
     (let data = response_of identity; refused = Inl (Storcli (CommandFailed topology_message None))
      in if needs_vd_check args then
           (case vd_inventory data of None \<Rightarrow> refused | Some inven \<Rightarrow> if vd_topology_ok args p inven then Inr () else refused)
         else if take 2 (drop 1 args) = [''add'', ''hotsparedrive''] then
           (case group_inventory data of None \<Rightarrow> refused | Some inven \<Rightarrow> if group_topology_ok p inven then Inr () else refused)
         else Inr ())"

subsection \<open>Physical inventory\<close>

type_synonym drive_evidence = "string \<times> int \<times> string"

definition drive_states :: "string list" where
  "drive_states = [''Onln'', ''UGood'', ''UBad'', ''Offln'', ''Failed'', ''Rbld'', ''DHS'', ''GHS'', ''Msng'', ''JBOD'']"

definition drive_row_ok :: "dict \<Rightarrow> bool" where
  "drive_row_ok d \<longleftrightarrow>
     strict_str (full_match [Lit ''252:'', OneOf slot_names]) (dict_get d ''EID:Slt'') \<and>
     strict_int (\<lambda>i. i \<ge> 0) (dict_get d ''DID'') \<and>
     strict_str (\<lambda>t. t \<in> set drive_states) (dict_get d ''State'')"

definition drive_evidence_of :: "dict \<Rightarrow> drive_evidence" where
  "drive_evidence_of d = (str_of (dict_get d ''EID:Slt''), int_of (dict_get d ''DID''), str_of (dict_get d ''State''))"

definition physical_inventory :: "dict \<Rightarrow> fault + drive_evidence list" where
  "physical_inventory identity =
     (let data = response_of identity;
          drives = map drive_evidence_of (object_rows (dict_get data ''PD LIST''))
      in if read_response_ok identity \<and>
            strict_int (\<lambda>i. i \<ge> 1) (dict_get data ''Physical Drives'') \<and>
            list_of drive_row_ok (\<lambda>n. n \<ge> 1) (dict_get data ''PD LIST'') \<and>
            int_of (dict_get data ''Physical Drives'') = int (length drives) \<and>
            distinct (map fst drives) \<and> distinct (map (fst \<circ> snd) drives)
         then Inr drives else Inl (Raised ValueError))"

subsection \<open>Foreign configurations\<close>

text \<open>A refusal of the application's own (\<open>_UnprovenSafetyError\<close>), or an exception underneath.\<close>

datatype safety_error = Unproven string | Underlying fault

definition lift_safety :: "fault + 'a \<Rightarrow> safety_error + 'a" where
  "lift_safety m = (case m of Inl f \<Rightarrow> Inl (Underlying f) | Inr x \<Rightarrow> Inr x)"

definition require_read_response :: "dict \<Rightarrow> safety_error + unit" where
  "require_read_response payload =
     (if read_response_ok payload then Inr () else Inl (Underlying (Raised ValueError)))"

definition foreign_evidence :: "(dict \<Rightarrow> string) \<Rightarrow> dict \<Rightarrow> string \<Rightarrow> safety_error + unit" where
  "foreign_evidence fp payload expected =
     bindr (require_read_response payload) (\<lambda>_.
     bindr (lift_safety (parse_foreign_config fp payload)) (\<lambda>config.
       if \<not> fci_present config \<or> fci_digest config \<noteq> expected
       then Inl (Unproven ''foreign configuration changed; reload and confirm its current digest'')
       else Inr ()))"

definition idle_texts :: "string list" where
  "idle_texts = [''not in progress'', ''idle'', ''none'', ''complete'', ''completed'']"

text \<open>The explicit idle proof: the Status (or else State) text of the single progress row.\<close>

definition idle_proof :: "dict \<Rightarrow> bool" where
  "idle_proof payload =
     (let rows = (case dict_get payload ''Controllers'' of
            Some (JArr (JObj c # _)) \<Rightarrow>
              (case dict_get c ''Response Data'' of
                 Some (JArr vs) \<Rightarrow> vs
               | Some (JObj ((_, JArr vs) # _)) \<Rightarrow> vs
               | _ \<Rightarrow> [])
          | _ \<Rightarrow> [])
      in case rows of
           JObj row # _ \<Rightarrow>
             strict_str (\<lambda>t. py_lower (py_strip t) \<in> set idle_texts)
               (case dict_get row ''Status'' of Some v \<Rightarrow> Some v | None \<Rightarrow> dict_get row ''State'')
         | _ \<Rightarrow> False)"

definition evidence_path :: "drive_evidence \<Rightarrow> string" where
  "evidence_path d = ''/c0/e252/s'' @ drop 1 (dropWhile (\<lambda>c. c \<noteq> CHR '':'') (fst d))"

definition rebuild_idle :: "drive_evidence \<Rightarrow> dict \<Rightarrow> safety_error + unit" where
  "rebuild_idle drive payload =
     bindr (require_read_response payload) (\<lambda>_.
     bindr (lift_safety (parse_rebuild_status payload (Some (evidence_path drive)))) (\<lambda>status.
       if rs_state status \<notin> set [''Not in progress'', ''Complete'']
         then Inl (Unproven (''rebuild '' @ rs_state status @ '' at '' @ fst drive))
       else if idle_proof payload then Inr () else Inl (Underlying (Raised ValueError))))"

definition expected_model :: string where
  "expected_model = ''LSI MegaRAID SAS 9270CV-8i''"

definition identity_matches :: "command_policy \<Rightarrow> controller_info \<Rightarrow> bool" where
  "identity_matches p c \<longleftrightarrow> ci_serial_number c = controller_serial p \<and> ci_model_name c = expected_model"

end
