(* ===== verification/PolicySafety.thy ===== *)
theory PolicySafety
  imports Policy
begin

section \<open>What a validated policy lets through\<close>

text \<open>
  Lemmas about \<open>storcli/policy.py\<close>: the tokens of an approved command, the drive and
  topology an approval pins down, and when a route's action or a whole replacement workflow is
  refused.
\<close>

subsection \<open>Words of a command\<close>

lemma with_json_flag_idem [simp]: "with_json_flag (with_json_flag args) = with_json_flag args"
  by (simp add: with_json_flag_def)

lemma split_ws_token:
  "list_all (\<lambda>c. \<not> is_space c) w \<Longrightarrow> split_ws acc (w @ s) = split_ws (rev w @ acc) s"
  by (induction w arbitrary: acc) auto

lemma py_words_join:
  assumes "list_all token_ok ws"
  shows "py_words (join_args ws) = ws"
  using assms
proof (induction ws)
  case Nil
  then show ?case by (simp add: py_words_def)
next
  case (Cons w ws)
  then have w: "w \<noteq> []" "list_all (\<lambda>c. \<not> is_space c) w" and IH: "py_words (join_args ws) = ws"
    by (auto simp: token_ok_def)
  show ?case
  proof (cases ws)
    case Nil
    with w split_ws_token [of w "[]" "[]"] show ?thesis by (simp add: py_words_def join_args_def)
  next
    case (Cons v vs)
    then have "join_args (w # ws) = w @ CHR '' '' # join_args ws" by (simp add: join_args_def)
    with w split_ws_token [of w "[]" "CHR '' '' # join_args ws"] IH show ?thesis
      by (simp add: py_words_def)
  qed
qed

lemma admitted_tokens_ok: "validate_command args = Inr () \<Longrightarrow> list_all token_ok args"
  by (auto simp: validate_command_Inr_iff list_all_iff token_ok_def)

subsection \<open>Drive paths\<close>

lemma digit_char_cases: "is_digit c \<Longrightarrow> c \<noteq> CHR ''/'' \<and> c \<noteq> CHR ''s'' \<and> c \<noteq> CHR '' ''"
  by (auto simp: is_digit_def code_of_def)

lemma show_int_no_sep [simp]:
  "CHR ''/'' \<notin> set (show_int i)" "CHR ''s'' \<notin> set (show_int i)"
proof -
  have "CHR ''/'' \<notin> set (show_nat n)" "CHR ''s'' \<notin> set (show_nat n)" for n
    by (metis digit_char_cases show_nat_digits)+
  then show "CHR ''/'' \<notin> set (show_int i)" "CHR ''s'' \<notin> set (show_int i)"
    by (simp_all add: show_int_def)
qed

lemma drive_path_parts: "split_on CHR ''/'' (drive_path e s) = [[], ''c0'', CHR ''e'' # show_int e, CHR ''s'' # show_int s]"
proof -
  have "drive_path e s = [] @ CHR ''/'' # (''c0'' @ CHR ''/'' # ((CHR ''e'' # show_int e) @ CHR ''/'' # (CHR ''s'' # show_int s)))"
    by (simp add: drive_path_def)
  then show ?thesis by (simp only: split_on_append_sep split_on_no_sep) (simp add: split_on_append_sep split_on_no_sep)
qed

lemma drive_path_inject [simp]: "drive_path e s = drive_path e' s' \<longleftrightarrow> e = e' \<and> s = s'"
proof
  assume "drive_path e s = drive_path e' s'"
  then have "split_on CHR ''/'' (drive_path e s) = split_on CHR ''/'' (drive_path e' s')" by simp
  then show "e = e' \<and> s = s'" by (simp add: drive_path_parts)
qed simp

lemma show_int_small:
  "show_int 0 = ''0''" "show_int 1 = ''1''" "show_int 2 = ''2''" "show_int 3 = ''3''" "show_int 4 = ''4''"
  "show_int 5 = ''5''" "show_int 6 = ''6''" "show_int 7 = ''7''" "show_int 252 = ''252''"
  by code_simp+

lemma slot_name_iff: "w \<in> set slot_names \<longleftrightarrow> (\<exists>k. 0 \<le> k \<and> k \<le> 7 \<and> w = show_int k)"
proof
  assume "w \<in> set slot_names"
  then have "w \<in> show_int ` {0, 1, 2, 3, 4, 5, 6, 7}" by (auto simp: slot_names_def show_int_small)
  then show "\<exists>k. 0 \<le> k \<and> k \<le> 7 \<and> w = show_int k" by force
next
  assume "\<exists>k. 0 \<le> k \<and> k \<le> 7 \<and> w = show_int k"
  then obtain k where k: "0 \<le> k" "k \<le> 7" "w = show_int k" by blast
  then have "k = 0 \<or> k = 1 \<or> k = 2 \<or> k = 3 \<or> k = 4 \<or> k = 5 \<or> k = 6 \<or> k = 7" by presburger
  then show "w \<in> set slot_names" using k by (auto simp: slot_names_def show_int_small)
qed

lemma approved_drive_iff: "approved_drive t \<longleftrightarrow> (\<exists>k. 0 \<le> k \<and> k \<le> 7 \<and> t = drive_path 252 k)"
proof -
  have "approved_drive t \<longleftrightarrow> (\<exists>w \<in> set slot_names. t = ''/c0/e252/s'' @ w)"
    by (auto simp: approved_drive_def full_match_iff)
  then show ?thesis by (auto simp: slot_name_iff drive_path_def show_int_small)
qed

lemma after_last_append: "d \<notin> set w \<Longrightarrow> after_last d (x @ d # w) = w"
  by (simp add: after_last_def takeWhile_append)

lemma after_last_drive: "after_last CHR ''s'' (drive_path e s) = show_int s"
  using after_last_append [of "CHR ''s''" "show_int s" "''/c0/e'' @ show_int e @ ''/''"]
  by (simp add: drive_path_def)

subsection \<open>Approved commands\<close>

lemma topologies_by_slot_Some:
  assumes "map_of (topologies_by_slot ts) k = Some t"
  shows "t \<in> set ts \<and> rt_slot t = k"
proof -
  have "map_of (fold (\<lambda>t d. AList.update (rt_slot t) t d) ts d) k = Some t \<Longrightarrow>
      (t \<in> set ts \<and> rt_slot t = k) \<or> map_of d k = Some t" for d
    by (induction ts arbitrary: d) (force simp: update_conv' split: if_splits)+
  from this [of "[]"] assms show ?thesis by (simp add: topologies_by_slot_def)
qed

lemma check_all_approved_member:
  "check_all_approved p T seen cs = Inr () \<Longrightarrow> c \<in> set cs \<Longrightarrow> \<exists>seen'. check_approved p T seen' c = Inr ()"
  by (induction cs arbitrary: seen) (auto simp: bindr_Inr_iff)

lemma check_approved_tokens:
  assumes "check_approved p T seen c = Inr ()" and "ts = split_on CHR '' '' c"
  shows "validate_command ts = Inr ()" "''show'' \<notin> set ts"
    "starts_with ''/c0/e'' (hd ts) \<Longrightarrow> approved_drive (hd ts)"
    "starts_with ''/c0/v'' (hd ts) \<Longrightarrow> hd ts \<in> {''/c0/vall'', ''/c0/v'' @ show_int (virtual_drive p)}"
    "''add'' \<in> set ts \<Longrightarrow> (''dgs='' @ show_int (disk_group p)) \<in> set ts"
    "''insert'' \<in> set ts \<Longrightarrow> \<exists>t. map_of T (int (read_nat (after_last CHR ''s'' (hd ts)))) = Some t \<and>
        take 3 (drop 2 ts) = topology_args t \<and> rt_dg t = disk_group p"
  using assms by (auto simp: check_approved_def Let_def split: sum.splits if_splits option.splits)

lemma validate_commands_Inr:
  assumes "validate_commands p = Inr q"
  shows "q = p" "check_all_approved p (topologies_by_slot (replacements p)) [] (map ac_command (commands p)) = Inr ()"
  using assms by (auto simp: validate_commands_def Let_def bindr_Inr_iff split: if_splits)

lemma permitted_checked:
  assumes "validate_commands p = Inr q" "list_all token_ok (with_json_flag args)" "permits q args"
  obtains seen where "check_approved q (topologies_by_slot (replacements q)) seen (join_args (with_json_flag args)) = Inr ()"
    and "split_on CHR '' '' (join_args (with_json_flag args)) = with_json_flag args"
proof -
  have "split_on CHR '' '' (join_args (with_json_flag args)) = with_json_flag args"
    using assms(2) by (intro join_args_tokens) (auto simp: with_json_flag_def list_all_iff token_ok_def)
  moreover obtain seen where "check_approved q (topologies_by_slot (replacements q)) seen (join_args (with_json_flag args)) = Inr ()"
    using assms(3) validate_commands_Inr [OF assms(1)]
      check_all_approved_member [of q "topologies_by_slot (replacements q)" "[]" "map ac_command (commands q)"]
    unfolding permits_def by metis
  ultimately show thesis using that by blast
qed

lemma drive_path_is_drive [simp]: "starts_with ''/c0/e'' (drive_path e s)" "\<not> starts_with ''/c0/v'' (drive_path e s)"
  by (simp_all add: drive_path_def)

subsection \<open>A policy for the witnesses\<close>

definition approve :: "string \<Rightarrow> approved_command" where
  "approve c = \<lparr>ac_command = c, ac_evidence = ''reviewed help text''\<rparr>"

definition sample_topology :: replacement_topology where
  "sample_topology = \<lparr>rt_slot = 3, rt_dg = 0, rt_array = 0, rt_row = 3\<rparr>"

definition sample_policy :: command_policy where
  "sample_policy = \<lparr>service_user = ''megaraid'', controller_serial = ''SV12345678'', virtual_drive = 0,
     disk_group = 0, replacements = [sample_topology],
     commands = map approve
       [''/c0/e252/s3 set offline J'', ''/c0/e252/s3 set missing J'',
        ''/c0/e252/s3 insert dg=0 array=0 row=3 J'', ''/c0 set alarm=off J'']\<rparr>"

lemma sample_policy_valid: "validate_commands sample_policy = Inr sample_policy"
  by code_simp

subsection \<open>Properties\<close>

lemma patterns_insert:
  "list_all (\<lambda>ps. list_all (\<lambda>q. tok_not q ''insert'') (pat_tokens ps) \<or> prefix ''/c0/e'' (leading (hd (pat_tokens ps))))
     allowed_command_patterns"
  by code_simp

lemma inserted_drive:
  assumes "validate_command args = Inr ()" "''insert'' \<in> set args"
  shows "starts_with ''/c0/e'' (hd args)"
proof -
  obtain ps where ps: "ps \<in> set allowed_command_patterns"
    "list_all2 (\<lambda>w q. w \<in> pieces_lang q) args (pat_tokens ps)"
    using admitted_tokens [OF assms(1)] by blast
  obtain q where q: "q \<in> set (pat_tokens ps)" "''insert'' \<in> pieces_lang q"
    using list_all2_member [OF ps(2) assms(2)] by blast
  then have "\<not> tok_not q ''insert''" using tok_not_correct by blast
  then have lead: "prefix ''/c0/e'' (leading (hd (pat_tokens ps)))"
    using patterns_insert ps(1) q(1) by (auto simp: list_all_iff)
  have "args \<noteq> []" "pat_tokens ps \<noteq> []" using assms(2) q(1) by auto
  then have "hd args \<in> pieces_lang (hd (pat_tokens ps))" using list_all2_hd_tl [THEN iffD1, OF _ _ ps(2)] by blast
  then show ?thesis using lead leading_prefix prefix_order.trans by blast
qed

lemma insert_topology_ok:
  assumes "map_of (topologies_by_slot (replacements q)) (int (read_nat (after_last CHR ''s'' t))) = Some tp"
    "t = drive_path 252 k" "0 \<le> k"
  shows "tp \<in> set (replacements q) \<and> rt_slot tp = k"
  using topologies_by_slot_Some [OF assms(1)] assms(2,3) by (simp add: after_last_drive show_int_nonneg)

text \<open>C8. Every command a validated policy permits is a write: it never contains the word show, so the
  runner always runs the preflight for it, and its target is inside the approved hardware, drives
  252:0 to 252:7 and the approved virtual drive; a hot spare joins only the approved disk group, and a drive is
  inserted only at the array and row approved for its slot, in the approved disk group.\<close>

theorem permitted_commands_are_approved_writes:
  assumes "validate_commands p = Inr q" "validate_command (with_json_flag args) = Inr ()" "permits q args"
  shows "''show'' \<notin> set args \<and> with_json_flag args ! 1 \<in> set write_verbs \<and>
    (starts_with ''/c0/e'' (hd args) \<longrightarrow> (\<exists>k. 0 \<le> k \<and> k \<le> 7 \<and> hd args = drive_path 252 k)) \<and>
    (starts_with ''/c0/v'' (hd args) \<longrightarrow> hd args \<in> {''/c0/vall'', ''/c0/v'' @ show_int (virtual_drive q)}) \<and>
    (''add'' \<in> set args \<longrightarrow> ''dgs='' @ show_int (disk_group q) \<in> set args) \<and>
    (''insert'' \<in> set args \<longrightarrow> (\<exists>t \<in> set (replacements q). rt_dg t = disk_group q \<and> hd args = drive_path 252 (rt_slot t) \<and>
       take 3 (drop 2 (with_json_flag args)) = topology_args t))"
proof -
  let ?c = "with_json_flag args"
  obtain seen where chk: "check_approved q (topologies_by_slot (replacements q)) seen (join_args ?c) = Inr ()"
    and toks: "split_on CHR '' '' (join_args ?c) = ?c"
    using permitted_checked [OF assms(1) admitted_tokens_ok [OF assms(2)] assms(3)] by blast
  note facts = check_approved_tokens [OF chk toks [symmetric]]
  obtain t v ts where c: "?c = t # v # ts"
    using admitted_shape [OF assms(2)] by (cases ?c rule: command_shape.cases) auto
  then obtain ts' where args: "args = t # ts'" by (cases args) (auto simp: with_json_flag_def split: if_splits)
  have sub: "set args \<subseteq> set ?c" "set ?c \<subseteq> insert ''J'' (set args)" by (auto simp: with_json_flag_def)
  have "?c ! 1 \<in> set write_verbs" using admitted_shape [OF assms(2)] facts(2) c by auto
  moreover have "hd ?c = hd args" using c args by simp
  moreover have "''dgs='' @ show_int (disk_group q) \<noteq> ''J''" by simp
  moreover have "\<exists>t \<in> set (replacements q). rt_dg t = disk_group q \<and> hd args = drive_path 252 (rt_slot t) \<and>
      take 3 (drop 2 ?c) = topology_args t" if "''insert'' \<in> set args"
  proof -
    have ins: "''insert'' \<in> set ?c" using that sub by blast
    obtain tp where tp: "map_of (topologies_by_slot (replacements q)) (int (read_nat (after_last CHR ''s'' (hd ?c)))) = Some tp"
      "take 3 (drop 2 ?c) = topology_args tp" "rt_dg tp = disk_group q"
      using facts(6) [OF ins] by blast
    have "starts_with ''/c0/e'' (hd ?c)" using inserted_drive [OF assms(2) ins] .
    then obtain k where k: "0 \<le> k" "hd ?c = drive_path 252 k" using facts(3) approved_drive_iff by auto
    have "tp \<in> set (replacements q) \<and> rt_slot tp = k" by (rule insert_topology_ok [OF tp(1) k(2,1)])
    with tp(2,3) k(2) \<open>hd ?c = hd args\<close> show ?thesis by (intro bexI [of _ tp]) simp_all
  qed
  ultimately show ?thesis using facts(2-5) sub approved_drive_iff by (auto 0 3)
qed

theorem permitted_commands_are_approved_writes_witness:
  "''show'' \<notin> set [drive_path 252 3, ''set'', ''offline'', ''J'']"
  using permitted_commands_are_approved_writes
    [of sample_policy sample_policy "[drive_path 252 3, ''set'', ''offline'', ''J'']"] sample_policy_valid admit_set [of 252 3 "''offline''"]
  by (simp add: with_json_flag_def permits_def join_args_def drive_path_def show_int_small sample_policy_def approve_def)

text \<open>The insert step of a replacement is permitted only for a slot of enclosure 252 with an
  explicitly approved topology, and only with that topology's disk group, array and row.\<close>

theorem permitted_insert_has_topology:
  assumes "validate_commands p = Inr q" "build_insert_replacement_command e s dg array row = Inr c" "permits q c"
  shows "e = 252 \<and> dg = disk_group q \<and>
    (\<exists>t \<in> set (replacements q). rt_slot t = s \<and> rt_dg t = dg \<and> rt_array t = array \<and> rt_row t = row)"
proof -
  from assms(2) have c: "c = [drive_path e s, ''insert'', ''dg='' @ show_int dg, ''array='' @ show_int array,
      ''row='' @ show_int row, ''J'']" and s: "0 \<le> s"
    by (auto simp: build_insert_replacement_command_def bindr_Inr_iff split: if_splits)
  then have flag: "with_json_flag c = c" by (simp add: with_json_flag_def)
  have "validate_command (with_json_flag c) = Inr ()" by (rule numbered_builders_admitted(2) [OF assms(2)])
  then obtain seen where chk: "check_approved q (topologies_by_slot (replacements q)) seen (join_args (with_json_flag c)) = Inr ()"
    and toks: "split_on CHR '' '' (join_args (with_json_flag c)) = with_json_flag c"
    using permitted_checked [OF assms(1) admitted_tokens_ok assms(3)] by blast
  note facts = check_approved_tokens [OF chk toks [symmetric], unfolded flag]
  have "approved_drive (drive_path e s)" using facts(3) c by simp
  then have e: "e = 252" by (auto simp: approved_drive_iff)
  have "int (read_nat (after_last CHR ''s'' (hd c))) = s"
    using c s by (simp add: after_last_drive show_int_nonneg)
  then obtain t where t: "map_of (topologies_by_slot (replacements q)) s = Some t"
    "take 3 (drop 2 c) = topology_args t" "rt_dg t = disk_group q"
    using facts(6) c by auto
  then have "rt_dg t = dg \<and> rt_array t = array \<and> rt_row t = row"
    using c by (simp add: topology_args_def)
  with e t topologies_by_slot_Some [OF t(1)] show ?thesis by auto
qed

theorem permitted_insert_has_topology_witness:
  "\<exists>t \<in> set (replacements sample_policy). rt_slot t = 3 \<and> rt_array t = 0 \<and> rt_row t = 3"
  using permitted_insert_has_topology [OF sample_policy_valid, of 252 3 0 0 3
      "[drive_path 252 3, ''insert'', ''dg='' @ show_int 0, ''array='' @ show_int 0, ''row='' @ show_int 3, ''J'']"]
  by (auto simp: build_insert_replacement_command_def validate_enclosure_slot_def permits_def with_json_flag_def
      join_args_def drive_path_def show_int_small sample_policy_def approve_def)

subsection \<open>Refusals\<close>

lemma action_refusal_None_iff:
  "action_refusal p path sel = None \<longleftrightarrow>
     (\<exists>c \<in> set (action_commands p path). (case sel of None \<Rightarrow> True | Some args \<Rightarrow> c = join_args (with_json_flag args))
        \<and> permits p (py_words c))"
  by (auto simp: action_refusal_def Let_def list_ex_iff split: option.splits)

lemma char_in_slot_names: "[d] \<in> set slot_names \<Longrightarrow> d \<noteq> CHR 0x0A \<and> \<not> is_space d \<and> d \<noteq> CHR ''/''"
  by (auto simp: slot_names_def is_space_def code_of_def)

lemma step_paths_not_controller:
  assumes "step \<in> set [''offline'', ''missing'', ''insert'']"
  shows "List.find (\<lambda>(suf, _). suffix suf (w @ ''/replace/'' @ step)) (controller_actions p) = None"
  using assms by (auto simp: find_None_iff_all controller_actions_def suffix_to_prefix)

lemma search_replace_path:
  assumes "[d] \<in> set slot_names" "step \<in> set [''offline'', ''missing'', ''insert'']"
  shows "search_drive_action (''/drives/252:'' @ d # ''/replace/'' @ step) = Some (d, ''replace/'' @ step)"
  using assms by (auto simp: drive_action_at_def drop_final_newline_def Let_def)

lemma action_commands_replace:
  assumes "[d] \<in> set slot_names" "step \<in> set [''offline'', ''missing'', ''insert'']"
  shows "action_commands p (''/drives/252:'' @ d # ''/replace/'' @ step) = drive_action_commands p d (''replace/'' @ step)"
  using step_paths_not_controller [OF assms(2), of "''/drives/252:'' @ [d]" p] search_replace_path [OF assms]
  by (simp add: action_commands_def)

lemma before_last_path: "d \<notin> set w \<Longrightarrow> before_last d (x @ d # w) = x"
  by (simp add: before_last_def dropWhile_append)

lemma words_of_drive_command:
  assumes "list_all token_ok ts" "ts \<noteq> []" "0 \<le> k"
  shows "py_words (drive_path 252 k @ '' '' @ join_args ts) = drive_path 252 k # ts"
proof -
  have "drive_path 252 k @ '' '' @ join_args ts = join_args (drive_path 252 k # ts)"
    using assms(2) by (simp add: join_args_def join_with_Cons)
  moreover have "list_all token_ok (drive_path 252 k # ts)"
    using assms drive_path_token [of 252 k] by (auto simp: token_ok_def list_all_iff drive_path_def)
  ultimately show ?thesis using py_words_join by metis
qed

lemma slot_digit:
  assumes "0 \<le> k" "k \<le> 7"
  obtains d where "show_int k = [d]" "[d] \<in> set slot_names"
proof -
  have "show_int k \<in> set slot_names" using assms slot_name_iff by blast
  moreover have "\<exists>d. show_int k = [d]" using \<open>show_int k \<in> set slot_names\<close> by (auto simp: slot_names_def)
  ultimately show thesis using that by auto
qed

lemma drive_path_252: "show_int k = [d] \<Longrightarrow> drive_path 252 k = ''/c0/e252/s'' @ [d]"
  by (simp add: drive_path_def show_int_small)

lemma read_show_int: "0 \<le> k \<Longrightarrow> int (read_nat (show_int k)) = k"
  by (simp add: show_int_nonneg)

definition insert_args :: "int \<Rightarrow> replacement_topology \<Rightarrow> string list" where
  "insert_args k t = [drive_path 252 k, ''insert''] @ topology_args t @ [''J'']"

definition step_approved :: "command_policy \<Rightarrow> int \<Rightarrow> string \<Rightarrow> bool" where
  "step_approved p k step \<longleftrightarrow>
     (if step = ''insert''
      then (\<exists>t. List.find (\<lambda>t. rt_slot t = k) (replacements p) = Some t \<and> permits p (insert_args k t))
      else permits p [drive_path 252 k, ''set'', step, ''J''])"

lemma token_ok_J [simp]: "token_ok ''J''" "token_ok ''set''" "token_ok ''offline''" "token_ok ''missing''" "token_ok ''insert''"
  by (simp_all add: token_ok_def is_space_def code_of_def)

lemma number_token: "token_ok w \<Longrightarrow> token_ok (w @ show_int i)"
  using show_nat_no_space by (auto simp: token_ok_def list_all_iff show_int_def is_space_def code_of_def)

lemma topology_args_ok: "list_all token_ok (topology_args t)"
proof -
  have "token_ok ''dg=''" "token_ok ''array=''" "token_ok ''row=''"
    by (simp_all add: token_ok_def is_space_def code_of_def)
  from this [THEN number_token] show ?thesis by (simp add: topology_args_def)
qed

lemma step_refusal:
  assumes k: "0 \<le> k" "k \<le> 7" and d: "show_int k = [d]" "[d] \<in> set slot_names"
    and step: "step \<in> set [''offline'', ''missing'', ''insert'']"
  shows "action_refusal p (''/drives/252:'' @ d # ''/replace/'' @ step) None = None \<longleftrightarrow> step_approved p k step"
proof (cases "step = ''insert''")
  case True
  have "action_commands p (''/drives/252:'' @ d # ''/replace/'' @ step) =
      (case List.find (\<lambda>t. rt_slot t = k) (replacements p) of None \<Rightarrow> []
       | Some t \<Rightarrow> [drive_path 252 k @ '' '' @ join_args (''insert'' # topology_args t @ [''J''])])"
    using action_commands_replace [OF d(2) step] True read_show_int [OF k(1)] d(1)
    by (auto simp: drive_action_commands_def Let_def drive_path_252 topology_args_def join_args_def split: option.splits)
  with True k topology_args_ok show ?thesis
    by (auto simp: action_refusal_None_iff step_approved_def insert_args_def words_of_drive_command [simplified]
        split: option.splits)
next
  case False
  with step have so: "step = ''offline'' \<or> step = ''missing''" by auto
  then have "action_commands p (''/drives/252:'' @ d # ''/replace/'' @ step) =
      [drive_path 252 k @ '' '' @ join_args [''set'', step, ''J'']]"
    using action_commands_replace [OF d(2) step, of p] d(1)
    by (auto simp: drive_action_commands_def Let_def drive_path_252 action_tails_def join_args_def)
  with so k show ?thesis
    by (auto simp: action_refusal_None_iff step_approved_def words_of_drive_command [simplified])
qed

lemma case_option_None_iff: "(case x of None \<Rightarrow> None | Some y \<Rightarrow> Some (f y)) = None \<longleftrightarrow> x = None"
  by (cases x) auto

lemma replacement_refusal_None:
  "replacement_refusal p path = None \<longleftrightarrow>
     (\<forall>step \<in> set [''offline'', ''missing'', ''insert'']. action_refusal p (before_last CHR ''/'' path @ ''/'' @ step) None = None)"
  unfolding replacement_refusal_def Let_def case_option_None_iff find_None_iff_all by simp

lemma replacement_refusal_None_iff:
  assumes k: "0 \<le> k" "k \<le> 7" and d: "show_int k = [d]" "[d] \<in> set slot_names" and x: "CHR ''/'' \<notin> set x"
  shows "replacement_refusal p (''/drives/252:'' @ d # ''/replace/'' @ x) = None \<longleftrightarrow>
    step_approved p k ''offline'' \<and> step_approved p k ''missing'' \<and> step_approved p k ''insert''"
proof -
  have "before_last CHR ''/'' ((''/drives/252:'' @ d # ''/replace'') @ CHR ''/'' # x) = ''/drives/252:'' @ d # ''/replace''"
    using x by (rule before_last_path)
  then have base: "before_last CHR ''/'' (''/drives/252:'' @ d # ''/replace/'' @ x) = ''/drives/252:'' @ d # ''/replace''"
    by simp
  show ?thesis
    using step_refusal [OF k d, of "''offline''" p] step_refusal [OF k d, of "''missing''" p]
      step_refusal [OF k d, of "''insert''" p]
    unfolding replacement_refusal_None base by simp
qed

text \<open>At the wrapper boundary, an offline, missing or insert command for a drive of enclosure 252 is
  refused unless all three steps of that slot's replacement are approved: the exact set offline and
  set missing commands, and the insert command with the slot's approved topology. No drive is
  taken offline under a policy that could not finish the replacement.\<close>

theorem replacement_needs_every_step:
  assumes "0 \<le> k" "k \<le> 7" "replacement_step (drive_path 252 k # rest)"
  shows "replacement_command_refusal p (drive_path 252 k # rest) = None \<longleftrightarrow>
    permits p [drive_path 252 k, ''set'', ''offline'', ''J''] \<and>
    permits p [drive_path 252 k, ''set'', ''missing'', ''J''] \<and>
    (\<exists>t. List.find (\<lambda>t. rt_slot t = k) (replacements p) = Some t \<and> permits p (insert_args k t))"
proof -
  obtain d where d: "show_int k = [d]" "[d] \<in> set slot_names" using slot_digit assms by blast
  have "replace_slash_s (removeprefix ''/c0/e'' (drive_path 252 k)) = ''252:'' @ [d]"
    by (simp add: drive_path_252 [OF d(1)] removeprefix_def)
  then show ?thesis
    using assms replacement_refusal_None_iff [OF assms(1,2) d, of "''step''" p]
    by (simp add: replacement_command_refusal_def step_approved_def)
qed

theorem replacement_needs_every_step_witness:
  "replacement_command_refusal sample_policy [drive_path 252 3, ''set'', ''offline'', ''J''] = None"
proof (subst replacement_needs_every_step)
  show "permits sample_policy [drive_path 252 3, ''set'', ''offline'', ''J''] \<and>
    permits sample_policy [drive_path 252 3, ''set'', ''missing'', ''J''] \<and>
    (\<exists>t. List.find (\<lambda>t. rt_slot t = 3) (replacements sample_policy) = Some t \<and> permits sample_policy (insert_args 3 t))"
    by (simp add: permits_def with_json_flag_def insert_args_def topology_args_def join_args_def drive_path_def
        show_int_small sample_policy_def sample_topology_def approve_def)
qed (simp_all add: replacement_step_def)

text \<open>A route may run the command it built exactly when the policy permits that very command and the
  route's own path maps to it: no path can be used to run another action's command.\<close>

theorem selected_action_refusal:
  assumes "validate_command (with_json_flag args) = Inr ()"
  shows "action_refusal p path (Some args) = None \<longleftrightarrow>
    permits p args \<and> join_args (with_json_flag args) \<in> set (action_commands p path)"
  using py_words_join [OF admitted_tokens_ok [OF assms]]
  by (auto simp: action_refusal_None_iff permits_def)

theorem selected_action_refusal_witness:
  "(action_refusal sample_policy ''/controller/buzzer/disable'' (Some build_alarm_disable_command) = None) =
     (permits sample_policy build_alarm_disable_command \<and>
      join_args (with_json_flag build_alarm_disable_command) \<in> set (action_commands sample_policy ''/controller/buzzer/disable''))"
  by (rule selected_action_refusal) (rule fixed_builders_admitted)

end
