(* ===== verification/Runner.thy ===== *)
theory Runner
  imports Prewrite CommandSafety PolicySafety
begin

section \<open>The StorCLI runner\<close>

text \<open>
  \<open>storcli/runner.py\<close> with the effectful half of \<open>storcli/prewrite.py\<close>. The runner reads
  the policy file and the pinned binary, starts processes, and asks a request's gate for the
  current settings; every such step is recorded in a trace, oldest first, and its outcome is a
  function of the trace so far, so the outside world may change between any two steps. A
  computation takes the trace and returns the extended trace with a result.
\<close>

subsection \<open>Effects\<close>

datatype process_outcome =
    NotStarted string                       \<comment> \<open>FileNotFoundError, PermissionError\<close>
  | TimedOut
  | Exited int "json option" string         \<comment> \<open>return code, parsed stdout, stripped stderr\<close>

text \<open>
  The last three are effects of the request handlers: a read of the database, an audit row with its
  user, category, text and data, and a transaction that only keeps the database up to date.
\<close>

datatype effect =
    LoadPolicy string
  | VerifyBinary string
  | Exec "string list"
  | ReadSettings
  | ReadDb
  | Audit string string string "dict option"
  | Transaction string

type_synonym trace = "effect list"

text \<open>The effects of another program are another type \<open>'s\<close>; the runner's own are \<open>effect\<close>.\<close>

type_synonym ('s, 'e, 'a) steps = "'s list \<Rightarrow> 's list \<times> ('e + 'a)"

type_synonym ('e, 'a) io = "(effect, 'e, 'a) steps"

record write_settings =
  ws_read_only :: bool
  ws_capability :: string
  ws_maintenance_mode :: bool
  ws_destructive_mode :: bool

record runner_env =
  load_policy :: "trace \<Rightarrow> string \<Rightarrow> string + command_policy"
  verify_pinned_binary :: "trace \<Rightarrow> string \<Rightarrow> string + unit"
  exec_process :: "trace \<Rightarrow> string list \<Rightarrow> process_outcome"
  current_settings :: "trace \<Rightarrow> write_settings"
  fingerprint :: "dict \<Rightarrow> string"

definition ret :: "'a \<Rightarrow> ('s, 'e, 'a) steps" where
  "ret x tr = (tr, Inr x)"

definition lift_sum :: "'e + 'a \<Rightarrow> ('s, 'e, 'a) steps" where
  "lift_sum m tr = (tr, m)"

definition fail :: "'e \<Rightarrow> ('s, 'e, 'a) steps" where
  "fail e = lift_sum (Inl e)"

definition andthen :: "('s, 'e, 'a) steps \<Rightarrow> ('a \<Rightarrow> ('s, 'e, 'b) steps) \<Rightarrow> ('s, 'e, 'b) steps" where
  "andthen m f tr = (case m tr of (tr', Inl e) \<Rightarrow> (tr', Inl e) | (tr', Inr x) \<Rightarrow> f x tr')"

definition map_error :: "('e \<Rightarrow> 'f) \<Rightarrow> ('s, 'e, 'a) steps \<Rightarrow> ('s, 'f, 'a) steps" where
  "map_error h m tr = (case m tr of (tr', Inl e) \<Rightarrow> (tr', Inl (h e)) | (tr', Inr x) \<Rightarrow> (tr', Inr x))"

definition perform :: "'s \<Rightarrow> ('s list \<Rightarrow> 'a) \<Rightarrow> ('s, 'e, 'a) steps" where
  "perform e outcome tr = (tr @ [e], Inr (outcome tr))"

subsection \<open>One process\<close>

record run_config =
  use_sudo :: bool
  binary_path :: string
  timeout_text :: string

definition argv_of :: "run_config \<Rightarrow> string list \<Rightarrow> string list" where
  "argv_of cfg args = (if use_sudo cfg then [''sudo'', ''-n''] else []) @ binary_path cfg # args"

definition sudo_blocked :: "string \<Rightarrow> bool" where
  "sudo_blocked stderr =
     list_ex (\<lambda>p. str_in p (py_lower stderr))
       [''a password is required'', ''a terminal is required'', ''not in the sudoers'']"

definition tail_text :: "string \<Rightarrow> string" where
  "tail_text s = drop (length s - 500) s"

definition not_available :: "string \<Rightarrow> fault" where
  "not_available msg = Storcli (NotAvailable msg)"

definition command_refused :: "string \<Rightarrow> fault" where
  "command_refused msg = Storcli (CommandFailed msg None)"

definition exit_failure :: "int \<Rightarrow> json option \<Rightarrow> string \<Rightarrow> fault" where
  "exit_failure code out stderr =
     (case (if stderr = [] then failed_response out else None) of
        Some payload \<Rightarrow> Storcli (ResponseFailed
          (''storcli exited with code '' @ show_int code @ '': controller reported Failure'') code (JObj payload))
      | None \<Rightarrow> Storcli (CommandFailed
          (''storcli exited with code '' @ show_int code @ '': '' @ tail_text stderr) (Some (tail_text stderr))))"

definition interpret_outcome :: "run_config \<Rightarrow> bool \<Rightarrow> process_outcome \<Rightarrow> fault + dict" where
  "interpret_outcome cfg authorized_write outcome =
     (case outcome of
        NotStarted msg \<Rightarrow> Inl (not_available (''storcli is not available: '' @ msg))
      | TimedOut \<Rightarrow> Inl (command_refused (''storcli timed out after '' @ timeout_text cfg @ '' seconds''))
      | Exited code out stderr \<Rightarrow>
          (if use_sudo cfg \<and> sudo_blocked stderr
             then Inl (not_available (''storcli sudo access is not available: '' @ tail_text stderr))
           else if code \<noteq> 0 then Inl (exit_failure code out stderr)
           else case out of
             None \<Rightarrow> Inl (parse_fault ''storcli stdout is not valid JSON'')
           | Some (JObj parsed) \<Rightarrow>
               (if authorized_write \<and> \<not> write_response_ok parsed
                then Inl (parse_fault ''Controller result is uncertain. Inspect hardware and audit before retrying.'')
                else Inr parsed)
           | Some _ \<Rightarrow> Inl (parse_fault ''storcli JSON root is not an object'')))"

definition dispatch :: "runner_env \<Rightarrow> run_config \<Rightarrow> bool \<Rightarrow> string list \<Rightarrow> (fault, dict) io" where
  "dispatch env cfg authorized_write args =
     andthen (perform (Exec (argv_of cfg args)) (\<lambda>tr. exec_process env tr (argv_of cfg args)))
       (\<lambda>outcome. lift_sum (interpret_outcome cfg authorized_write outcome))"

text \<open>A read: \<open>run_storcli\<close> without an authorization path.\<close>

definition validate_io :: "string list \<Rightarrow> (fault, unit) io" where
  "validate_io args = lift_sum (case validate_command args of Inl e \<Rightarrow> Inl (Storcli e) | Inr u \<Rightarrow> Inr u)"

definition run_read :: "runner_env \<Rightarrow> run_config \<Rightarrow> string list \<Rightarrow> (fault, dict) io" where
  "run_read env cfg args =
     andthen (validate_io (with_json_flag args)) (\<lambda>_. dispatch env cfg False (with_json_flag args))"

subsection \<open>Foreign safety reads\<close>

definition safety_read :: "runner_env \<Rightarrow> run_config \<Rightarrow> string list \<Rightarrow> (safety_error, dict) io" where
  "safety_read env cfg args = map_error Underlying (run_read env cfg args)"

fun check_rebuilds :: "runner_env \<Rightarrow> run_config \<Rightarrow> drive_evidence list \<Rightarrow> (safety_error, unit) io" where
  "check_rebuilds env cfg [] = ret ()"
| "check_rebuilds env cfg (d # ds) =
     (if snd (snd d) = ''Rbld'' then fail (Unproven (''rebuild active at '' @ fst d))
      else andthen (safety_read env cfg [evidence_path d, ''show'', ''rebuild'', ''J'']) (\<lambda>payload.
           andthen (lift_sum (rebuild_idle d payload)) (\<lambda>_. check_rebuilds env cfg ds)))"

definition foreign_show :: "string list" where
  "foreign_show = [''/c0/fall'', ''show'', ''all'', ''J'']"

definition controller_show :: "string list" where
  "controller_show = [''/c0'', ''show'', ''all'', ''J'']"

definition require_safe :: "bool \<Rightarrow> string \<Rightarrow> (safety_error, unit) io" where
  "require_safe ok msg = (if ok then ret () else fail (Unproven msg))"

definition foreign_safety_reads ::
  "runner_env \<Rightarrow> run_config \<Rightarrow> command_policy \<Rightarrow> dict \<Rightarrow> string \<Rightarrow> (safety_error, unit) io" where
  "foreign_safety_reads env cfg p identity expected =
     andthen (lift_sum (lift_safety (physical_inventory identity))) (\<lambda>drives.
     andthen (safety_read env cfg foreign_show) (\<lambda>shown.
     andthen (lift_sum (foreign_evidence (fingerprint env) shown expected)) (\<lambda>_.
     andthen (check_rebuilds env cfg drives) (\<lambda>_.
     andthen (safety_read env cfg controller_show) (\<lambda>current.
     andthen (lift_sum (lift_safety (parse_controller_show_all current))) (\<lambda>controller.
     andthen (require_safe (identity_matches p controller) ''controller identity changed during safety reads'') (\<lambda>_.
     andthen (lift_sum (lift_safety (physical_inventory current))) (\<lambda>latest.
     andthen (require_safe (set drives = set latest) ''physical inventory changed during safety reads'') (\<lambda>_.
     andthen (safety_read env cfg foreign_show) (\<lambda>after.
       lift_sum (foreign_evidence (fingerprint env) after expected)))))))))))"

definition foreign_advice :: string where
  "foreign_advice =
     ''. Refresh current controller and per-drive rebuild '' @
     ''reads; wait for rebuilds to finish, then reload Foreign Configuration '' @
     ''and confirm again.''"

definition foreign_unproven :: string where
  "foreign_unproven =
     ''Foreign action refused: live controller, inventory, rebuild safety or confirmation '' @
     ''cannot be established. Refresh current controller and per-drive rebuild reads; '' @
     ''wait for any rebuild to finish, then reload Foreign Configuration and confirm again.''"

fun foreign_refusal :: "safety_error \<Rightarrow> fault" where
  "foreign_refusal (Unproven msg) = command_refused (''Foreign action refused: '' @ msg @ foreign_advice)"
| "foreign_refusal (Underlying (Raised e)) =
     (if e = ValueError then command_refused foreign_unproven else Raised e)"
| "foreign_refusal (Underlying (Storcli _)) = command_refused foreign_unproven"

definition check_foreign_safety ::
  "runner_env \<Rightarrow> run_config \<Rightarrow> command_policy \<Rightarrow> dict \<Rightarrow> string option \<Rightarrow> (fault, unit) io" where
  "check_foreign_safety env cfg p identity expected =
     (case expected of
        Some (c # cs) \<Rightarrow> map_error foreign_refusal (foreign_safety_reads env cfg p identity (c # cs))
      | _ \<Rightarrow> fail (command_refused
          (''Foreign confirmation is missing. Reload Foreign Configuration '' @
           ''and confirm its current digest.'')))"

subsection \<open>Preflight\<close>

definition policy_refusal :: "command_policy \<Rightarrow> string list \<Rightarrow> string option" where
  "policy_refusal p args =
     (case replacement_command_refusal p args of
        Some msg \<Rightarrow> Some msg
      | None \<Rightarrow> if permits p args then None else Some ''Command lacks reviewed syntax/topology approval'')"

definition load_approved ::
  "runner_env \<Rightarrow> run_config \<Rightarrow> string \<Rightarrow> string list \<Rightarrow> (string, command_policy) io" where
  "load_approved env cfg path args =
     andthen (andthen (perform (VerifyBinary (binary_path cfg)) (\<lambda>tr. verify_pinned_binary env tr (binary_path cfg))) lift_sum) (\<lambda>_.
     andthen (andthen (perform (LoadPolicy path) (\<lambda>tr. load_policy env tr path)) lift_sum) (\<lambda>p.
       lift_sum (case policy_refusal p args of Some msg \<Rightarrow> Inl msg | None \<Rightarrow> Inr p)))"

definition alarm_conflict :: "string list \<Rightarrow> controller_info \<Rightarrow> bool" where
  "alarm_conflict args c =
     (case map_of [(''alarm=on'', [AlarmOff]), (''alarm=off'', [AlarmOn, AlarmSilenced]), (''alarm=silence'', [AlarmOn])] (args ! 2) of
        None \<Rightarrow> False
      | Some allowed \<Rightarrow> normalize_alarm_state (Some (ci_alarm_state c)) \<notin> set allowed)"

definition activity_conflict :: "string list \<Rightarrow> dict \<Rightarrow> bool" where
  "activity_conflict args identity =
     (case map_of [(''activityforlocate=on'', ''off''), (''activityforlocate=off'', ''on'')] (args ! 2) of
        None \<Rightarrow> False
      | Some expected \<Rightarrow>
          \<not> (case dict_get (response_of identity) ''Policies'' of
               Some (JObj policies) \<Rightarrow>
                 strict_str (\<lambda>t. py_lower (py_strip t) = expected) (dict_get policies ''Use drive activity for locate'')
             | _ \<Rightarrow> False))"

definition check_storcli_prewrite ::
  "runner_env \<Rightarrow> run_config \<Rightarrow> string \<Rightarrow> string option \<Rightarrow> string list \<Rightarrow> (fault, unit) io" where
  "check_storcli_prewrite env cfg path expected args =
     andthen (validate_io args) (\<lambda>_.
     andthen (map_error (\<lambda>msg. not_available (''Action refused before execution: '' @ msg @
          ''. Ask the administrator to review policy.'')) (load_approved env cfg path args)) (\<lambda>p.
     andthen (run_read env cfg controller_show) (\<lambda>identity.
     andthen (lift_sum (parse_controller_show_all identity)) (\<lambda>controller.
       if \<not> identity_matches p controller then
         fail (command_refused ''Controller identity changed. Stop and have the administrator verify inventory.'')
       else if alarm_conflict args controller then
         fail (command_refused ''Buzzer state is unknown or conflicts. Refresh controller status.'')
       else if activity_conflict args identity then
         fail (command_refused ''Locate activity setting is unknown or conflicts; no write sent'')
       else
         andthen (lift_sum (check_action_topology args identity p)) (\<lambda>_.
           if args ! 0 = ''/c0/fall'' then check_foreign_safety env cfg p identity expected else ret ())))))"

subsection \<open>Running a command\<close>

text \<open>
  The gate a request installs (\<open>before_write\<close> in \<open>web/routes.py\<close>): whether the route is the
  recovery route, whether its path is destructive.
\<close>

record write_gate =
  wg_recovery :: bool
  wg_destructive :: bool

definition gate_closed :: "write_gate \<Rightarrow> write_settings \<Rightarrow> bool" where
  "gate_closed g s \<longleftrightarrow>
     ws_read_only s \<or> ws_capability s \<noteq> ''full-supported-actions'' \<or>
     (\<not> wg_recovery g \<and> \<not> ws_maintenance_mode s) \<or> (wg_destructive g \<and> \<not> ws_destructive_mode s)"

definition before_write_check :: "write_gate \<Rightarrow> write_settings \<Rightarrow> fault + unit" where
  "before_write_check g s =
     (if gate_closed g s
      then Inl (not_available
        (''Action cancelled before execution: maintenance, destructive mode '' @
         ''or controller authorization was revoked. No write was sent.''))
      else Inr ())"

definition reload_unchanged :: "runner_env \<Rightarrow> run_config \<Rightarrow> string \<Rightarrow> command_policy \<Rightarrow> (string, unit) io" where
  "reload_unchanged env cfg path approved =
     andthen (andthen (perform (LoadPolicy path) (\<lambda>tr. load_policy env tr path)) lift_sum) (\<lambda>p.
     andthen (if p \<noteq> approved
              then fail ''Command policy changed during preflight; reload and review again'' else ret ()) (\<lambda>_.
       andthen (perform (VerifyBinary (binary_path cfg)) (\<lambda>tr. verify_pinned_binary env tr (binary_path cfg))) lift_sum))"

definition preflight ::
  "runner_env \<Rightarrow> run_config \<Rightarrow> string \<Rightarrow> string option \<Rightarrow> string list \<Rightarrow> (fault, unit) io" where
  "preflight env cfg path expected args =
     andthen (map_error (\<lambda>_. not_available ''Authorization cannot be verified; no write sent'')
       (andthen (perform (LoadPolicy path) (\<lambda>tr. load_policy env tr path)) lift_sum)) (\<lambda>approved.
     andthen (check_storcli_prewrite env cfg path expected args) (\<lambda>_.
       map_error (\<lambda>_. not_available ''Authorization changed before execution; no write sent'')
         (reload_unchanged env cfg path approved)))"

definition open_gate :: "runner_env \<Rightarrow> write_gate option \<Rightarrow> (fault, unit) io" where
  "open_gate env gate =
     (case gate of
        None \<Rightarrow> ret ()
      | Some g \<Rightarrow> andthen (perform ReadSettings (\<lambda>tr. current_settings env tr)) (\<lambda>s. lift_sum (before_write_check g s)))"

text \<open>
  An exception as the caller sees it: the exception and its \<open>write_sent\<close> attribute, \<open>Some False\<close>
  when the preflight block set it, \<open>None\<close> when it keeps the class default.
\<close>

record storcli_failure =
  sf_fault :: fault
  sf_write_sent :: "bool option"

fun preflight_failure :: "fault \<Rightarrow> storcli_failure" where
  "preflight_failure (Storcli e) = \<lparr>sf_fault = Storcli e, sf_write_sent = Some False\<rparr>"
| "preflight_failure (Raised e) = \<lparr>sf_fault = Raised e, sf_write_sent = None\<rparr>"

definition plain_failure :: "fault \<Rightarrow> storcli_failure" where
  "plain_failure f = \<lparr>sf_fault = f, sf_write_sent = None\<rparr>"

definition run_storcli ::
  "runner_env \<Rightarrow> run_config \<Rightarrow> string option \<Rightarrow> string option \<Rightarrow> write_gate option \<Rightarrow> string list \<Rightarrow>
   (storcli_failure, dict) io" where
  "run_storcli env cfg auth_path expected gate args =
     (let command = with_json_flag args; write = (''show'' \<notin> set command)
      in andthen (map_error plain_failure (validate_io command)) (\<lambda>_.
         andthen (map_error preflight_failure
           (andthen (case auth_path of
               Some path \<Rightarrow> if write then preflight env cfg path expected command else ret ()
             | None \<Rightarrow> ret ()) (\<lambda>_.
             if write then open_gate env gate else ret ()))) (\<lambda>_.
           map_error plain_failure (dispatch env cfg (auth_path \<noteq> None \<and> write) command))))"

end
