(* ===== verification/RunnerSafety.thy ===== *)
theory RunnerSafety
  imports Runner
begin

section \<open>Writes are dispatched only after approval\<close>

text \<open>
  Every computation of the runner extends the trace. \<open>extends_by ok\<close> says that what it adds
  satisfies a predicate on traces; the locale \<open>trace_discipline\<close> shows once that such a
  predicate, when closed under appending, survives sequencing, and is interpreted on \<open>reads_only\<close>:
  the processes started are admitted show commands.
\<close>

subsection \<open>Sequencing\<close>

lemma andthen_Inr:
  "andthen m f tr = (tr', Inr y) \<longleftrightarrow> (\<exists>tr1 x. m tr = (tr1, Inr x) \<and> f x tr1 = (tr', Inr y))"
  by (auto simp: andthen_def split: prod.splits sum.splits)

lemma map_error_Inr [simp]: "map_error h m tr = (tr', Inr y) \<longleftrightarrow> m tr = (tr', Inr y)"
  by (auto simp: map_error_def split: prod.splits sum.splits)

lemma map_error_Inl: "map_error h m tr = (tr', Inl e) \<longleftrightarrow> (\<exists>e'. m tr = (tr', Inl e') \<and> e = h e')"
  by (auto simp: map_error_def split: prod.splits sum.splits)

lemma andthen_Inl:
  "andthen m f tr = (tr', Inl e) \<longleftrightarrow>
     m tr = (tr', Inl e) \<or> (\<exists>tr1 x. m tr = (tr1, Inr x) \<and> f x tr1 = (tr', Inl e))"
  by (auto simp: andthen_def split: prod.splits sum.splits)

lemma perform_iff [simp]: "perform e out tr = (tr', Inr x) \<longleftrightarrow> tr' = tr @ [e] \<and> x = out tr"
  "perform e out tr \<noteq> (tr', Inl err)"
  by (auto simp: perform_def)

lemma lift_sum_iff [simp]: "lift_sum m tr = (tr', r) \<longleftrightarrow> tr' = tr \<and> m = r"
  by (auto simp: lift_sum_def)

lemma ret_iff [simp]: "ret x tr = (tr', r) \<longleftrightarrow> tr' = tr \<and> r = Inr x"
  by (auto simp: ret_def)

lemma fail_iff [simp]: "fail e tr = (tr', r) \<longleftrightarrow> tr' = tr \<and> r = Inl e"
  by (auto simp: fail_def)

definition extends_by :: "('s list \<Rightarrow> bool) \<Rightarrow> ('s, 'e, 'a) steps \<Rightarrow> bool" where
  "extends_by ok m \<longleftrightarrow> (\<forall>tr. \<exists>new. fst (m tr) = tr @ new \<and> ok new)"

lemma extends_byE:
  assumes "extends_by ok m" "m tr = (tr', r)"
  obtains new where "tr' = tr @ new" "ok new"
  using assms by (metis extends_by_def fst_conv)

locale trace_discipline =
  fixes ok :: "'s list \<Rightarrow> bool"
  assumes ok_nil: "ok []" and ok_append: "ok a \<Longrightarrow> ok b \<Longrightarrow> ok (a @ b)"
begin

lemma ext_lift_sum: "extends_by ok (lift_sum m)"
  by (simp add: extends_by_def lift_sum_def ok_nil)

lemma ext_ret: "extends_by ok (ret x)"
  by (simp add: extends_by_def ret_def ok_nil)

lemma ext_fail: "extends_by ok (fail e)"
  by (simp add: fail_def ext_lift_sum)

lemma ext_perform: "ok [e] \<Longrightarrow> extends_by ok (perform e out)"
  by (simp add: extends_by_def perform_def)

lemma ext_map_error: "extends_by ok m \<Longrightarrow> extends_by ok (map_error h m)"
proof -
  have "fst (map_error h m tr) = fst (m tr)" for tr
    by (simp add: map_error_def split: prod.split sum.split)
  then show "extends_by ok m \<Longrightarrow> extends_by ok (map_error h m)" by (simp add: extends_by_def)
qed

lemma ext_andthen:
  assumes "extends_by ok m" "\<And>x. extends_by ok (f x)"
  shows "extends_by ok (andthen m f)"
  unfolding extends_by_def
proof
  fix tr
  obtain tr1 r where m: "m tr = (tr1, r)" by (cases "m tr")
  obtain new where new: "tr1 = tr @ new" "ok new" using extends_byE [OF assms(1) m] by blast
  show "\<exists>new. fst (andthen m f tr) = tr @ new \<and> ok new"
  proof (cases r)
    case (Inl e)
    with m new show ?thesis by (simp add: andthen_def)
  next
    case (Inr x)
    obtain new2 where "fst (f x tr1) = tr1 @ new2" "ok new2" using assms(2) [of x] unfolding extends_by_def by blast
    with m new Inr ok_append [of new new2] show ?thesis by (auto simp: andthen_def)
  qed
qed

end

definition reads_only :: "run_config \<Rightarrow> effect list \<Rightarrow> bool" where
  "reads_only cfg new \<longleftrightarrow>
     (\<forall>argv. Exec argv \<in> set new \<longrightarrow>
        (\<exists>args. argv = argv_of cfg args \<and> ''show'' \<in> set args \<and> validate_command args = Inr ()))"

interpretation reads: trace_discipline "reads_only cfg" for cfg
  by unfold_locales (auto simp: reads_only_def)

lemma argv_of_inject [simp]: "argv_of cfg a = argv_of cfg b \<longleftrightarrow> a = b"
  by (simp add: argv_of_def)

lemma show_with_json_flag [simp]: "''show'' \<in> set (with_json_flag args) \<longleftrightarrow> ''show'' \<in> set args"
  by (simp add: with_json_flag_def)

lemma run_read_reads:
  assumes "''show'' \<in> set args"
  shows "extends_by (reads_only cfg) (run_read env cfg args)"
proof (cases "validate_command (with_json_flag args)")
  case (Inl e)
  then show ?thesis by (simp add: run_read_def validate_io_def andthen_def lift_sum_def extends_by_def reads.ok_nil)
next
  case (Inr u)
  then have "reads_only cfg [Exec (argv_of cfg (with_json_flag args))]"
    using assms by (auto simp: reads_only_def)
  then show ?thesis unfolding run_read_def dispatch_def validate_io_def
    by (intro reads.ext_andthen reads.ext_lift_sum reads.ext_perform)
qed

lemma safety_read_reads: "''show'' \<in> set args \<Longrightarrow> extends_by (reads_only cfg) (safety_read env cfg args)"
  unfolding safety_read_def by (intro reads.ext_map_error run_read_reads)

lemma check_rebuilds_reads: "extends_by (reads_only cfg) (check_rebuilds env cfg ds)"
  by (induction ds) (auto intro!: reads.ext_andthen reads.ext_lift_sum reads.ext_ret reads.ext_fail safety_read_reads)

lemma foreign_safety_reads: "extends_by (reads_only cfg) (foreign_safety_reads env cfg p identity expected)"
  unfolding foreign_safety_reads_def require_safe_def
  by (intro reads.ext_andthen reads.ext_lift_sum safety_read_reads check_rebuilds_reads)
    (auto simp: foreign_show_def controller_show_def intro: reads.ext_ret reads.ext_fail)

lemma check_foreign_safety_reads: "extends_by (reads_only cfg) (check_foreign_safety env cfg p identity expected)"
  unfolding check_foreign_safety_def
  by (auto intro!: reads.ext_map_error foreign_safety_reads reads.ext_fail split: option.split list.split)

lemma load_approved_reads: "extends_by (reads_only cfg) (load_approved env cfg path args)"
  unfolding load_approved_def
  by (intro reads.ext_andthen reads.ext_lift_sum reads.ext_perform) (simp_all add: reads_only_def)

lemma check_storcli_prewrite_reads: "extends_by (reads_only cfg) (check_storcli_prewrite env cfg path expected args)"
proof -
  have "''show'' \<in> set controller_show" by (simp add: controller_show_def)
  then show ?thesis unfolding check_storcli_prewrite_def validate_io_def
    by (auto intro!: reads.ext_andthen reads.ext_lift_sum reads.ext_map_error load_approved_reads run_read_reads
        check_foreign_safety_reads reads.ext_ret reads.ext_fail)
qed

lemma preflight_reads: "extends_by (reads_only cfg) (preflight env cfg path expected args)"
  unfolding preflight_def reload_unchanged_def
  by (intro reads.ext_andthen reads.ext_map_error reads.ext_lift_sum reads.ext_perform check_storcli_prewrite_reads)
    (auto simp: reads_only_def intro: reads.ext_ret reads.ext_fail)

lemma open_gate_reads: "extends_by (reads_only cfg) (open_gate env gate)"
  unfolding open_gate_def
  by (auto intro!: reads.ext_andthen reads.ext_perform reads.ext_lift_sum reads.ext_ret simp: reads_only_def split: option.split)

subsection \<open>What a successful preflight has seen\<close>

lemma extends_prefix: "extends_by ok m \<Longrightarrow> m tr = (tr', r) \<Longrightarrow> prefix tr tr'"
  by (metis extends_byE prefixI)

lemma load_approved_Inr:
  assumes "load_approved env cfg path args tr = (tr', Inr p)"
  shows "verify_pinned_binary env tr (binary_path cfg) = Inr () \<and>
    load_policy env (tr @ [VerifyBinary (binary_path cfg)]) path = Inr p \<and>
    tr' = tr @ [VerifyBinary (binary_path cfg), LoadPolicy path] \<and>
    replacement_command_refusal p args = None \<and> permits p args"
  using assms unfolding load_approved_def
  by (auto simp: andthen_Inr policy_refusal_def split: option.splits if_splits)

definition prewrite_tail ::
  "runner_env \<Rightarrow> run_config \<Rightarrow> command_policy \<Rightarrow> string option \<Rightarrow> string list \<Rightarrow> dict \<Rightarrow> controller_info \<Rightarrow> (fault, unit) io" where
  "prewrite_tail env cfg p expected args identity controller =
       (if \<not> identity_matches p controller then
         fail (command_refused ''Controller identity changed. Stop and have the administrator verify inventory.'')
       else if alarm_conflict args controller then
         fail (command_refused ''Buzzer state is unknown or conflicts. Refresh controller status.'')
       else if activity_conflict args identity then
         fail (command_refused ''Locate activity setting is unknown or conflicts; no write sent'')
       else
         andthen (lift_sum (check_action_topology args identity p)) (\<lambda>_.
           if args ! 0 = ''/c0/fall'' then check_foreign_safety env cfg p identity expected else ret ()))"

lemma prewrite_tail_reads: "extends_by (reads_only cfg) (prewrite_tail env cfg p expected args identity controller)"
  unfolding prewrite_tail_def
  by (auto intro!: reads.ext_andthen reads.ext_lift_sum check_foreign_safety_reads reads.ext_ret reads.ext_fail)

lemma prewrite_tail_Inr:
  assumes "prewrite_tail env cfg p expected args identity controller tr = (tr', Inr ())"
  shows "identity_matches p controller \<and> \<not> alarm_conflict args controller \<and> \<not> activity_conflict args identity \<and>
    check_action_topology args identity p = Inr () \<and>
    (args ! 0 = ''/c0/fall'' \<longrightarrow> check_foreign_safety env cfg p identity expected tr = (tr', Inr ()))"
  using assms unfolding prewrite_tail_def by (auto simp: andthen_Inr split: if_splits)

lemma check_storcli_prewrite_Inr:
  assumes "check_storcli_prewrite env cfg path expected args tr = (tr', Inr ())"
  obtains p tr1 identity controller tr2 where "load_approved env cfg path args tr = (tr1, Inr p)"
    "run_read env cfg controller_show tr1 = (tr2, Inr identity)"
    "parse_controller_show_all identity = Inr controller"
    "prewrite_tail env cfg p expected args identity controller tr2 = (tr', Inr ())"
  using assms unfolding check_storcli_prewrite_def prewrite_tail_def [symmetric] andthen_Inr map_error_Inr
    lift_sum_iff validate_io_def by blast

text \<open>The evidence behind one authorised write: the policy read that permitted it, the identity read.\<close>

definition approved_between :: "runner_env \<Rightarrow> string \<Rightarrow> string list \<Rightarrow> trace \<Rightarrow> trace \<Rightarrow> bool" where
  "approved_between env path args start tr \<longleftrightarrow>
     (\<exists>t p identity controller.
        prefix start t \<and> prefix t tr \<and> load_policy env t path = Inr p \<and> permits p args \<and>
        replacement_command_refusal p args = None \<and>
        parse_controller_show_all identity = Inr controller \<and> identity_matches p controller \<and>
        \<not> alarm_conflict args controller \<and> check_action_topology args identity p = Inr ())"

lemma preflight_Inr:
  assumes "preflight env cfg path expected args tr = (tr', Inr ())"
  shows "\<exists>p t. load_policy env tr path = Inr p \<and> prefix t tr' \<and> load_policy env t path = Inr p"
    and "approved_between env path args tr tr'"
    and "\<exists>t. prefix t tr' \<and> verify_pinned_binary env t (binary_path cfg) = Inr ()"
proof -
  from assms obtain p tr1 where p: "load_policy env tr path = Inr p"
    and chk: "check_storcli_prewrite env cfg path expected args (tr @ [LoadPolicy path]) = (tr1, Inr ())"
    and q: "load_policy env tr1 path = Inr p"
    and v: "verify_pinned_binary env (tr1 @ [LoadPolicy path]) (binary_path cfg) = Inr ()"
    and tr': "tr' = (tr1 @ [LoadPolicy path]) @ [VerifyBinary (binary_path cfg)]"
    unfolding preflight_def reload_unchanged_def by (auto simp: andthen_Inr split: if_splits)
  show "\<exists>p t. load_policy env tr path = Inr p \<and> prefix t tr' \<and> load_policy env t path = Inr p"
    using p q tr' by (intro exI [of _ p] exI [of _ tr1]) simp
  show "\<exists>t. prefix t tr' \<and> verify_pinned_binary env t (binary_path cfg) = Inr ()"
    using v tr' by (intro exI [of _ "tr1 @ [LoadPolicy path]"]) simp
  obtain pp tr2 identity controller tr3 where
    l: "load_approved env cfg path args (tr @ [LoadPolicy path]) = (tr2, Inr pp)"
    and r: "run_read env cfg controller_show tr2 = (tr3, Inr identity)"
    and c: "parse_controller_show_all identity = Inr controller"
    and t: "prewrite_tail env cfg pp expected args identity controller tr3 = (tr1, Inr ())"
    by (rule check_storcli_prewrite_Inr [OF chk])
  have "''show'' \<in> set controller_show" by (simp add: controller_show_def)
  then have "prefix tr2 tr3" using extends_prefix [OF run_read_reads r] by blast
  moreover have "prefix tr3 tr1" by (rule extends_prefix [OF prewrite_tail_reads t])
  moreover have "prefix tr1 tr'" using tr' by simp
  ultimately have "prefix tr2 tr'" by (metis prefix_order.trans)
  moreover have "prefix (tr @ [LoadPolicy path, VerifyBinary (binary_path cfg)]) tr2"
    using load_approved_Inr [OF l] by simp
  ultimately have "prefix (tr @ [LoadPolicy path, VerifyBinary (binary_path cfg)]) tr'"
    by (metis prefix_order.trans)
  moreover have "load_policy env (tr @ [LoadPolicy path, VerifyBinary (binary_path cfg)]) path = Inr pp"
    "permits pp args" "replacement_command_refusal pp args = None"
    using load_approved_Inr [OF l] by simp_all
  moreover note prewrite_tail_Inr [OF t] c
  ultimately show "approved_between env path args tr tr'"
    unfolding approved_between_def by (metis prefixI)
qed

text \<open>
  A passed preflight, step by step: the policy, the binary, the policy again, the live controller, the evidence a foreign
  configuration needs (\<open>live\<close>), and at the end the policy and the binary once more.
\<close>

definition preflight_passed ::
  "runner_env \<Rightarrow> run_config \<Rightarrow> string \<Rightarrow> string option \<Rightarrow> string list \<Rightarrow> trace \<Rightarrow> trace \<Rightarrow> bool" where
  "preflight_passed env cfg path expected command tr live \<longleftrightarrow>
     (\<exists>p q identity controller stderr.
        let binary = binary_path cfg;
            t1 = tr @ [LoadPolicy path];
            t2 = t1 @ [VerifyBinary binary];
            t3 = t2 @ [LoadPolicy path];
            t4 = t3 @ [Exec (argv_of cfg controller_show)];
            t5 = t4 @ live
        in load_policy env tr path = Inr p \<and>
           verify_pinned_binary env t1 binary = Inr () \<and>
           load_policy env t2 path = Inr q \<and> permits q command \<and> replacement_command_refusal q command = None \<and>
           exec_process env t3 (argv_of cfg controller_show) = Exited 0 (Some (JObj identity)) stderr \<and>
           parse_controller_show_all identity = Inr controller \<and> identity_matches q controller \<and>
           \<not> alarm_conflict command controller \<and> \<not> activity_conflict command identity \<and>
           check_action_topology command identity q = Inr () \<and>
           (if command ! 0 = ''/c0/fall'' then check_foreign_safety env cfg q identity expected t4 = (t5, Inr ()) else live = []) \<and>
           load_policy env t5 path = Inr p \<and>
           verify_pinned_binary env (t5 @ [LoadPolicy path]) binary = Inr ())"

lemma run_read_Inr:
  assumes "run_read env cfg controller_show tr = (tr', Inr payload)"
  obtains stderr where "tr' = tr @ [Exec (argv_of cfg controller_show)]"
    "exec_process env tr (argv_of cfg controller_show) = Exited 0 (Some (JObj payload)) stderr"
proof -
  have flag: "with_json_flag controller_show = controller_show" by (simp add: controller_show_def with_json_flag_def)
  from assms have tr': "tr' = tr @ [Exec (argv_of cfg controller_show)]"
    and i: "interpret_outcome cfg False (exec_process env tr (argv_of cfg controller_show)) = Inr payload"
    by (auto simp: run_read_def flag andthen_Inr validate_io_def dispatch_def)
  from i obtain stderr where "exec_process env tr (argv_of cfg controller_show) = Exited 0 (Some (JObj payload)) stderr"
    by (auto simp: interpret_outcome_def split: process_outcome.splits if_splits option.splits json.splits)
  with tr' show thesis by (rule that)
qed

lemma prewrite_tail_live:
  assumes "prewrite_tail env cfg p expected args identity controller tr = (tr', Inr ())"
  obtains live where "tr' = tr @ live" "reads_only cfg live"
    "if args ! 0 = ''/c0/fall'' then check_foreign_safety env cfg p identity expected tr = (tr @ live, Inr ()) else live = []"
proof -
  obtain live where live: "tr' = tr @ live" "reads_only cfg live"
    using extends_byE [OF prewrite_tail_reads assms] .
  moreover have "if args ! 0 = ''/c0/fall'' then check_foreign_safety env cfg p identity expected tr = (tr @ live, Inr ()) else live = []"
    using assms live(1) unfolding prewrite_tail_def by (auto simp: andthen_Inr split: if_splits)
  ultimately show thesis by (rule that)
qed

lemma preflight_passed_Inr:
  assumes "preflight env cfg path expected args tr = (tr', Inr ())"
  obtains live where "preflight_passed env cfg path expected args tr live" "reads_only cfg live"
    "tr' = tr @ [LoadPolicy path, VerifyBinary (binary_path cfg), LoadPolicy path, Exec (argv_of cfg controller_show)] @ live @
       [LoadPolicy path, VerifyBinary (binary_path cfg)]"
proof -
  from assms obtain p tr1 where p: "load_policy env tr path = Inr p"
    and chk: "check_storcli_prewrite env cfg path expected args (tr @ [LoadPolicy path]) = (tr1, Inr ())"
    and q: "load_policy env tr1 path = Inr p"
    and v: "verify_pinned_binary env (tr1 @ [LoadPolicy path]) (binary_path cfg) = Inr ()"
    and tr': "tr' = (tr1 @ [LoadPolicy path]) @ [VerifyBinary (binary_path cfg)]"
    unfolding preflight_def reload_unchanged_def by (auto simp: andthen_Inr split: if_splits)
  obtain pp tr2 identity controller tr3 where
    l: "load_approved env cfg path args (tr @ [LoadPolicy path]) = (tr2, Inr pp)"
    and r: "run_read env cfg controller_show tr2 = (tr3, Inr identity)"
    and c: "parse_controller_show_all identity = Inr controller"
    and t: "prewrite_tail env cfg pp expected args identity controller tr3 = (tr1, Inr ())"
    by (rule check_storcli_prewrite_Inr [OF chk])
  obtain stderr where read: "tr3 = tr2 @ [Exec (argv_of cfg controller_show)]"
    "exec_process env tr2 (argv_of cfg controller_show) = Exited 0 (Some (JObj identity)) stderr"
    by (rule run_read_Inr [OF r])
  obtain live where live: "tr1 = tr3 @ live" "reads_only cfg live"
    "if args ! 0 = ''/c0/fall'' then check_foreign_safety env cfg pp identity expected tr3 = (tr3 @ live, Inr ()) else live = []"
    by (rule prewrite_tail_live [OF t])
  note loaded = load_approved_Inr [OF l] and tail = prewrite_tail_Inr [OF t]
  have "preflight_passed env cfg path expected args tr live"
    unfolding preflight_passed_def Let_def
    using p q v loaded read live tail c
    by (intro exI [of _ p] exI [of _ pp] exI [of _ identity] exI [of _ controller] exI [of _ stderr]) simp
  moreover have "tr' = tr @ [LoadPolicy path, VerifyBinary (binary_path cfg), LoadPolicy path, Exec (argv_of cfg controller_show)] @ live @
       [LoadPolicy path, VerifyBinary (binary_path cfg)]"
    using tr' live(1) read(1) loaded by simp
  ultimately show thesis using live(2) that by blast
qed

subsection \<open>One run\<close>

definition before_dispatch ::
  "runner_env \<Rightarrow> run_config \<Rightarrow> string option \<Rightarrow> string option \<Rightarrow> write_gate option \<Rightarrow> string list \<Rightarrow> (fault, unit) io" where
  "before_dispatch env cfg auth_path expected gate command =
     andthen (case auth_path of
               Some path \<Rightarrow> if ''show'' \<notin> set command then preflight env cfg path expected command else ret ()
             | None \<Rightarrow> ret ()) (\<lambda>_.
             if ''show'' \<notin> set command then open_gate env gate else ret ())"

lemma before_dispatch_reads: "extends_by (reads_only cfg) (before_dispatch env cfg auth_path expected gate command)"
  unfolding before_dispatch_def
  by (auto intro!: reads.ext_andthen preflight_reads open_gate_reads reads.ext_ret split: option.split)

lemma dispatch_result:
  "dispatch env cfg w command tr = (tr @ [Exec (argv_of cfg command)],
     interpret_outcome cfg w (exec_process env tr (argv_of cfg command)))"
  by (simp add: dispatch_def andthen_def perform_def lift_sum_def)

lemma validated_andthen: "validate_command c = Inr () \<Longrightarrow> andthen (map_error h (validate_io c)) k = k ()"
  by (simp add: fun_eq_iff andthen_def map_error_def validate_io_def lift_sum_def)

lemma run_storcli_cases [consumes 1, case_names invalid refused dispatched]:
  assumes "run_storcli env cfg auth_path expected gate args tr = (tr', r)"
  obtains e where "validate_command (with_json_flag args) = Inl e" "tr' = tr" "r = Inl (plain_failure (Storcli e))"
  | f where "validate_command (with_json_flag args) = Inr ()"
      "before_dispatch env cfg auth_path expected gate (with_json_flag args) tr = (tr', Inl f)" "r = Inl (preflight_failure f)"
  | tr1 where "validate_command (with_json_flag args) = Inr ()"
      "before_dispatch env cfg auth_path expected gate (with_json_flag args) tr = (tr1, Inr ())"
      "tr' = tr1 @ [Exec (argv_of cfg (with_json_flag args))]"
      "r = (case interpret_outcome cfg (auth_path \<noteq> None \<and> ''show'' \<notin> set args)
              (exec_process env tr1 (argv_of cfg (with_json_flag args))) of Inl f \<Rightarrow> Inl (plain_failure f) | Inr x \<Rightarrow> Inr x)"
proof (cases "validate_command (with_json_flag args)")
  case (Inl e)
  with assms show thesis using that(1) [OF Inl]
    by (simp add: run_storcli_def Let_def validate_io_def andthen_def map_error_def lift_sum_def)
next
  case (Inr u)
  then have v: "validate_command (with_json_flag args) = Inr ()" by simp
  obtain tr1 b where b: "before_dispatch env cfg auth_path expected gate (with_json_flag args) tr = (tr1, b)"
    by (cases "before_dispatch env cfg auth_path expected gate (with_json_flag args) tr")
  have run: "run_storcli env cfg auth_path expected gate args tr =
      andthen (map_error preflight_failure (before_dispatch env cfg auth_path expected gate (with_json_flag args))) (\<lambda>_.
        map_error plain_failure (dispatch env cfg (auth_path \<noteq> None \<and> ''show'' \<notin> set args) (with_json_flag args))) tr"
    unfolding run_storcli_def Let_def before_dispatch_def show_with_json_flag validated_andthen [OF v] by (rule refl)
  show thesis
  proof (cases b)
    case (Inl f)
    with assms b run Inr show thesis using that(2) by (simp add: andthen_def map_error_def)
  next
    case b2: (Inr v)
    with assms b run Inr show thesis using that(3)
      by (simp add: andthen_def map_error_def dispatch_result split: sum.splits)
  qed
qed

lemma preflight_failure_sent: "sf_write_sent (preflight_failure f) = Some False \<or> sf_write_sent (preflight_failure f) = None"
  by (cases f) simp_all

lemma plain_failure_sent [simp]: "sf_write_sent (plain_failure f) = None"
  by (simp add: plain_failure_def)

lemma reads_only_no_write: "reads_only cfg new \<Longrightarrow> ''show'' \<notin> set args \<Longrightarrow> Exec (argv_of cfg args) \<notin> set new"
  by (auto simp: reads_only_def)

text \<open>C7. When a run fails with write_sent = False, no write was dispatched: every process started during
  the run was an admitted show command. This is what lets a route record that an action failed
  before execution.\<close>

theorem unsent_means_not_dispatched:
  assumes "run_storcli env cfg auth_path expected gate args tr = (tr', Inl f)" "sf_write_sent f = Some False"
  shows "\<exists>new. tr' = tr @ new \<and> reads_only cfg new"
  using assms(1)
proof (cases rule: run_storcli_cases)
  case (invalid e)
  with assms(2) show ?thesis by simp
next
  case (refused g)
  then show ?thesis using extends_byE [OF before_dispatch_reads refused(2)] by blast
next
  case (dispatched tr1)
  with assms(2) show ?thesis by (auto split: sum.splits)
qed


text \<open>The status of an accepted write response, and what the caller's \<open>ensure_command_succeeded\<close> makes of it.\<close>

definition explicit_answer :: "dict \<Rightarrow> dict \<Rightarrow> bool" where
  "explicit_answer payload status \<longleftrightarrow>
     dict_get status ''Controller'' = Some (JInt 0) \<and>
     (dict_get status ''Status'' = Some (JStr ''Success'') \<and> ensure_command_succeeded payload = Inr () \<or>
      dict_get status ''Status'' = Some (JStr ''Failure'') \<and> (\<exists>msg. ensure_command_succeeded payload = Inl (command_failure msg)))"

lemma strict_shapes:
  "strict_int ok v \<longleftrightarrow> (\<exists>i. v = Some (JInt i) \<and> ok i)"
  "strict_str ok' v \<longleftrightarrow> (\<exists>t. v = Some (JStr t) \<and> ok' t)"
  "object_field ok'' v \<longleftrightarrow> (\<exists>d. v = Some (JObj d) \<and> ok'' d)"
  by (auto simp: strict_int_def strict_str_def object_field_def split: option.splits json.splits)

lemma one_controller_shape:
  assumes "one_controller ok payload"
  obtains controller status where "dict_get payload ''Controllers'' = Some (JArr [JObj controller])"
    "dict_get controller ''Command Status'' = Some (JObj status)" "ok status"
proof -
  from assms obtain xs where xs: "dict_get payload ''Controllers'' = Some (JArr xs)" "length xs = 1"
    "list_all (\<lambda>v. case v of JObj c \<Rightarrow> object_field ok (dict_get c ''Command Status'') | _ \<Rightarrow> False) xs"
    by (auto simp: one_controller_def list_of_def split: option.splits json.splits)
  from xs(2) obtain v where v: "xs = [v]" by (auto simp: length_Suc_conv)
  from xs(3) v obtain c where c: "v = JObj c" "object_field ok (dict_get c ''Command Status'')"
    by (cases v) auto
  from c(2) obtain status where "dict_get c ''Command Status'' = Some (JObj status)" "ok status"
    by (auto simp: strict_shapes)
  with that xs(1) v c(1) show thesis by blast
qed

lemma write_response_explicit:
  assumes "write_response_ok payload"
  shows "\<exists>controller status. dict_get payload ''Controllers'' = Some (JArr [JObj controller]) \<and>
    dict_get controller ''Command Status'' = Some (JObj status) \<and> explicit_answer payload status"
proof -
  from assms obtain controller status where c: "dict_get payload ''Controllers'' = Some (JArr [JObj controller])"
      "dict_get controller ''Command Status'' = Some (JObj status)"
    and ok: "strict_int (\<lambda>i. i = 0) (dict_get status ''Controller'')"
      "strict_str (\<lambda>t. t \<in> set [''Success'', ''Failure'']) (dict_get status ''Status'')"
    unfolding write_response_ok_def by (elim one_controller_shape conjE)
  have st: "dict_get status ''Controller'' = Some (JInt 0)"
      "dict_get status ''Status'' = Some (JStr ''Success'') \<or> dict_get status ''Status'' = Some (JStr ''Failure'')"
    using ok by (auto simp: strict_shapes)
  have first: "first_controller payload = Inr controller" using c by (simp add: first_controller_Inr_iff)
  have folded: "py_lower (py_strip ''Success'') = ''success''" "py_lower (py_strip ''Failure'') = ''failure''" by code_simp+
  have "explicit_answer payload status"
    using st by (auto simp: explicit_answer_def ensure_command_succeeded_def first c(2) folded command_err_msg_status)
  with c show ?thesis by blast
qed

text \<open>C9. An authorised write returns normally only when its process exited with code 0 and printed one response for one
  controller, number 0, that states Success or Failure; the callers take the first as done and the second as a failed command.
  Anything less explicit is an error of the runner.\<close>

theorem authorised_answer_is_explicit:
  assumes "run_storcli env cfg (Some path) expected gate args tr = (tr', Inr payload)" "''show'' \<notin> set args"
  shows "(\<exists>controller status. dict_get payload ''Controllers'' = Some (JArr [JObj controller]) \<and>
      dict_get controller ''Command Status'' = Some (JObj status) \<and> explicit_answer payload status) \<and>
    (\<exists>t stderr. tr' = t @ [Exec (argv_of cfg (with_json_flag args))] \<and>
       exec_process env t (argv_of cfg (with_json_flag args)) = Exited 0 (Some (JObj payload)) stderr)"
  using assms(1)
proof (cases rule: run_storcli_cases)
  case (dispatched tr1)
  then have i: "interpret_outcome cfg True (exec_process env tr1 (argv_of cfg (with_json_flag args))) = Inr payload"
    using assms(2) by (auto split: sum.splits)
  then obtain stderr where "exec_process env tr1 (argv_of cfg (with_json_flag args)) = Exited 0 (Some (JObj payload)) stderr"
    "write_response_ok payload"
    by (auto simp: interpret_outcome_def split: process_outcome.splits if_splits option.splits json.splits)
  with dispatched(3) write_response_explicit show ?thesis by blast
qed auto

text \<open>A read never consults the policy or the gate: it starts exactly one process, and its result is
  that process's output.\<close>

theorem reads_bypass_authorization:
  assumes "''show'' \<in> set args" "validate_command (with_json_flag args) = Inr ()"
  shows "run_storcli env cfg auth_path expected gate args tr =
    (tr @ [Exec (argv_of cfg (with_json_flag args))],
     case interpret_outcome cfg False (exec_process env tr (argv_of cfg (with_json_flag args))) of
       Inl f \<Rightarrow> Inl (plain_failure f) | Inr d \<Rightarrow> Inr d)"
  using assms
  by (cases auth_path) (simp_all add: run_storcli_def Let_def validate_io_def andthen_def map_error_def lift_sum_def ret_def dispatch_result
      split: sum.split)

subsection \<open>A run for the witnesses\<close>

definition sample_identity :: dict where
  "sample_identity =
     [(''Controllers'', JArr [JObj
        [(''Command Status'', JObj [(''Controller'', JInt 0), (''Status'', JStr ''Success'')]),
         (''Response Data'', JObj
           [(''Basics'', JObj [(''Model'', JStr expected_model), (''Serial Number'', JStr ''SV12345678''),
                             (''Current System Date/time'', JStr ''07/14/2026, 10:00:00''), (''PCI Address'', JStr ''00:03:00:00'')]),
            (''Version'', JObj [(''Firmware Version'', JStr ''3.4''), (''Bios Version'', JStr ''5.5''),
                              (''Driver Name'', JStr ''megaraid_sas''), (''Driver Version'', JStr ''07'')]),
            (''HwCfg'', JObj [(''Alarm'', JStr ''On''), (''BBU'', JStr ''Absent'')])])]])]"

definition sample_done :: dict where
  "sample_done = [(''Controllers'', JArr [JObj [(''Command Status'', JObj [(''Controller'', JInt 0), (''Status'', JStr ''Success'')])]])]"

definition sample_env :: runner_env where
  "sample_env =
     \<lparr>load_policy = (\<lambda>_ _. Inr sample_policy), verify_pinned_binary = (\<lambda>_ _. Inr ()),
      exec_process = (\<lambda>_ argv. Exited 0 (Some (JObj (if ''show'' \<in> set argv then sample_identity else sample_done))) []),
      current_settings = (\<lambda>_. \<lparr>ws_read_only = False, ws_capability = ''full-supported-actions'',
         ws_maintenance_mode = True, ws_destructive_mode = False\<rparr>),
      fingerprint = (\<lambda>_. [])\<rparr>"

definition sample_config :: run_config where
  "sample_config = \<lparr>use_sudo = True, binary_path = pinned_binary, timeout_text = ''30.0''\<rparr>"

definition sample_gate :: write_gate where
  "sample_gate = \<lparr>wg_recovery = False, wg_destructive = False\<rparr>"

definition sample_pre :: trace where
  "sample_pre =
     [LoadPolicy ''p'', VerifyBinary pinned_binary, LoadPolicy ''p'', Exec (argv_of sample_config controller_show),
      LoadPolicy ''p'', VerifyBinary pinned_binary, ReadSettings]"

lemma sample_run:
  "run_storcli sample_env sample_config (Some ''p'') None (Some sample_gate) build_alarm_disable_command [] =
     (sample_pre @ [Exec (argv_of sample_config (with_json_flag build_alarm_disable_command))], Inr sample_done)"
  by code_simp


theorem authorised_answer_is_explicit_witness:
  "\<exists>controller status. dict_get sample_done ''Controllers'' = Some (JArr [JObj controller]) \<and>
     dict_get controller ''Command Status'' = Some (JObj status) \<and> explicit_answer sample_done status"
  by (rule authorised_answer_is_explicit [OF sample_run, THEN conjunct1]) (simp add: build_alarm_disable_command_def)

theorem unsent_means_not_dispatched_witness:
  "\<exists>new. [LoadPolicy ''p''] = [] @ new \<and> reads_only sample_config new"
proof (rule unsent_means_not_dispatched)
  show "run_storcli (sample_env\<lparr>load_policy := \<lambda>_ _. Inl ''missing''\<rparr>) sample_config (Some ''p'') None None build_alarm_disable_command [] =
      ([LoadPolicy ''p''], Inl \<lparr>sf_fault = not_available ''Authorization cannot be verified; no write sent'', sf_write_sent = Some False\<rparr>)"
    by code_simp
qed simp

theorem reads_bypass_authorization_witness:
  "fst (run_storcli sample_env sample_config None None None controller_show []) = [Exec (argv_of sample_config (with_json_flag controller_show))]"
  using reads_bypass_authorization [of controller_show sample_env sample_config None None None "[]"]
  by (simp add: controller_show_def with_json_flag_def admit_exact exact_eval)

end
