(* ===== verification/Journal.thy ===== *)
theory Journal
  imports RunnerSafety
begin

section \<open>Runs that may be cut off\<close>

text \<open>
  The operator's tools keep journals on disk because a run may be killed after any of its steps. What a monitor has seen of the
  steps is its state; \<open>upholds P m Q R\<close> says that from a state in \<open>P\<close> every step of \<open>m\<close> leaves the monitor in a safe state, and
  that \<open>m\<close> ends in \<open>Q\<close> with its result or in \<open>R\<close> with its failure. The locale gives the rules of sequencing once.
\<close>

subsection \<open>More steps\<close>

text \<open>A step whose answer is recorded in it, a reading that is no step, and \<open>try: m except Exception\<close>.\<close>

definition observe :: "('a \<Rightarrow> 's) \<Rightarrow> ('s list \<Rightarrow> 'a) \<Rightarrow> ('s, 'e, 'a) steps" where
  "observe mk answer tr = (tr @ [mk (answer tr)], Inr (answer tr))"

definition clock :: "('s list \<Rightarrow> 'a) \<Rightarrow> ('s, 'e, 'a) steps" where
  "clock f tr = (tr, Inr (f tr))"

definition caught :: "('s, 'e, 'a) steps \<Rightarrow> ('s, 'f, 'e + 'a) steps" where
  "caught m tr = (case m tr of (tr', r) \<Rightarrow> (tr', Inr r))"

subsection \<open>Monitors\<close>

locale monitored =
  fixes watch :: "'m \<Rightarrow> 's \<Rightarrow> 'm" and start :: 'm and safe :: "'m \<Rightarrow> bool"
  assumes safe_start: "safe start"
begin

definition seen :: "'s list \<Rightarrow> 'm" where
  "seen tr = foldl watch start tr"

lemma seen_simps [simp]: "seen [] = start" "seen (tr @ [e]) = watch (seen tr) e"
  by (simp_all add: seen_def)

definition upholds ::
  "('m \<Rightarrow> bool) \<Rightarrow> ('s, 'e, 'a) steps \<Rightarrow> ('a \<Rightarrow> 'm \<Rightarrow> bool) \<Rightarrow> ('e \<Rightarrow> 'm \<Rightarrow> bool) \<Rightarrow> bool" where
  "upholds P m Q R \<longleftrightarrow>
     (\<forall>tr. P (seen tr) \<longrightarrow>
        (\<exists>new. fst (m tr) = tr @ new \<and> (\<forall>k. safe (seen (tr @ take k new)))) \<and>
        (case snd (m tr) of Inr x \<Rightarrow> Q x (seen (fst (m tr))) | Inl e \<Rightarrow> R e (seen (fst (m tr)))))"

lemma upholdsI:
  assumes "\<And>tr tr' r. P (seen tr) \<Longrightarrow> m tr = (tr', r) \<Longrightarrow>
     (\<exists>new. tr' = tr @ new \<and> (\<forall>k. safe (seen (tr @ take k new)))) \<and>
     (case r of Inr x \<Rightarrow> Q x (seen tr') | Inl e \<Rightarrow> R e (seen tr'))"
  shows "upholds P m Q R"
  unfolding upholds_def using assms by (metis prod.collapse)

lemma upholdsD:
  assumes "upholds P m Q R" "P (seen tr)" "m tr = (tr', r)"
  shows "\<exists>new. tr' = tr @ new \<and> (\<forall>k. safe (seen (tr @ take k new)))"
    "r = Inr x \<Longrightarrow> Q x (seen tr')" "r = Inl e \<Longrightarrow> R e (seen tr')"
  using assms by (auto simp: upholds_def)

lemma upholds_lift:
  assumes "\<And>s. P s \<Longrightarrow> safe s" "\<And>x s. m = Inr x \<Longrightarrow> P s \<Longrightarrow> Q x s" "\<And>e s. m = Inl e \<Longrightarrow> P s \<Longrightarrow> R e s"
  shows "upholds P (lift_sum m) Q R"
  by (rule upholdsI) (use assms in \<open>auto simp: lift_sum_def split: sum.split\<close>)

lemma upholds_ret: "(\<And>s. P s \<Longrightarrow> safe s) \<Longrightarrow> (\<And>s. P s \<Longrightarrow> Q x s) \<Longrightarrow> upholds P (ret x) Q R"
  by (rule upholdsI) (auto simp: ret_def)

lemma upholds_fail: "(\<And>s. P s \<Longrightarrow> safe s) \<Longrightarrow> (\<And>s. P s \<Longrightarrow> R e s) \<Longrightarrow> upholds P (fail e) Q R"
  unfolding fail_def by (rule upholds_lift) auto

lemma upholds_clock: "(\<And>s. P s \<Longrightarrow> safe s) \<Longrightarrow> (\<And>x s. P s \<Longrightarrow> Q x s) \<Longrightarrow> upholds P (clock f) Q R"
  by (rule upholdsI) (auto simp: clock_def)

lemma upholds_observe:
  assumes "\<And>s. P s \<Longrightarrow> safe s" "\<And>x s. P s \<Longrightarrow> safe (watch s (mk x))" "\<And>x s. P s \<Longrightarrow> Q x (watch s (mk x))"
  shows "upholds P (observe mk f) Q R"
proof (rule upholdsI, goal_cases)
  case (1 tr tr' r)
  moreover have "safe (seen (tr @ take k [mk (f tr)]))" if "P (seen tr)" for k
    using that assms(1,2) by (cases k) auto
  ultimately show ?case
    using assms(3) by (auto simp: observe_def)
qed

lemma upholds_perform:
  assumes "\<And>s. P s \<Longrightarrow> safe s" "\<And>s. P s \<Longrightarrow> safe (watch s e)" "\<And>x s. P s \<Longrightarrow> Q x (watch s e)"
  shows "upholds P (perform e f) Q R"
proof (rule upholdsI, goal_cases)
  case (1 tr tr' r)
  moreover have "safe (seen (tr @ take k [e]))" if "P (seen tr)" for k
    using that assms(1,2) by (cases k) auto
  ultimately show ?case
    using assms(3) by (auto simp: perform_def)
qed

lemma upholds_andthen:
  assumes "upholds P m Q R" "\<And>x. upholds (Q x) (f x) Q' R"
  shows "upholds P (andthen m f) Q' R"
proof (rule upholdsI)
  fix tr tr' r
  assume P: "P (seen tr)" and run: "andthen m f tr = (tr', r)"
  obtain tr1 r1 where m: "m tr = (tr1, r1)" by (cases "m tr")
  obtain new where new: "tr1 = tr @ new" "\<And>k. safe (seen (tr @ take k new))"
    using upholdsD(1) [OF assms(1) P m] by blast
  show "(\<exists>new. tr' = tr @ new \<and> (\<forall>k. safe (seen (tr @ take k new)))) \<and>
     (case r of Inr x \<Rightarrow> Q' x (seen tr') | Inl e \<Rightarrow> R e (seen tr'))"
  proof (cases r1)
    case (Inl e)
    then have "tr' = tr1" "r = Inl e" using m run by (simp_all add: andthen_def)
    then show ?thesis using new upholdsD(3) [OF assms(1) P m Inl] by auto
  next
    case (Inr x)
    then have f: "f x tr1 = (tr', r)" using m run by (simp add: andthen_def)
    have Q: "Q x (seen tr1)" using upholdsD(2) [OF assms(1) P m Inr] .
    obtain new' where new': "tr' = tr1 @ new'" "\<And>k. safe (seen (tr1 @ take k new'))"
      using upholdsD(1) [OF assms(2) Q f] by blast
    have "safe (seen (tr @ take k (new @ new')))" for k
      using new(2) [of k] new'(2) [of "k - length new"] new(1) by (cases "k \<le> length new") auto
    moreover have "tr' = tr @ new @ new'" using new(1) new'(1) by simp
    moreover have "case r of Inr x \<Rightarrow> Q' x (seen tr') | Inl e \<Rightarrow> R e (seen tr')"
      using upholdsD(2,3) [OF assms(2) Q f] by (auto split: sum.split)
    ultimately show ?thesis by blast
  qed
qed

lemma upholds_weaken:
  assumes "upholds P m Q R" "\<And>s. P' s \<Longrightarrow> P s" "\<And>x s. Q x s \<Longrightarrow> Q' x s" "\<And>e s. R e s \<Longrightarrow> R' e s"
  shows "upholds P' m Q' R'"
proof (rule upholdsI)
  fix tr tr' r
  assume P: "P' (seen tr)" and m: "m tr = (tr', r)"
  note run = upholdsD [OF assms(1) assms(2) [OF P] m]
  show "(\<exists>new. tr' = tr @ new \<and> (\<forall>k. safe (seen (tr @ take k new)))) \<and>
     (case r of Inr x \<Rightarrow> Q' x (seen tr') | Inl e \<Rightarrow> R' e (seen tr'))"
    using run assms(3,4) by (auto split: sum.split)
qed

lemma upholds_caught:
  assumes "upholds P m (\<lambda>x. Q (Inr x)) (\<lambda>e. Q (Inl e))"
  shows "upholds P (caught m) Q R"
proof (rule upholdsI, goal_cases)
  case (1 tr tr' r)
  then have P: "P (seen tr)" and run: "caught m tr = (tr', r)" by simp_all
  obtain r1 where m: "m tr = (tr', r1)" "r = Inr r1" using run by (auto simp: caught_def split: prod.splits)
  show ?case
    using upholdsD [OF assms P m(1)] m(2) by (cases r1) auto
qed

lemma upholds_assuming:
  assumes "\<And>tr. P (seen tr) \<Longrightarrow> C" "C \<Longrightarrow> upholds P m Q R"
  shows "upholds P m Q R"
  by (metis assms upholdsI upholdsD(1) upholds_def)

text \<open>Steps a predicate does not notice.\<close>

lemma upholds_stable:
  assumes "extends_by (list_all ok) m" "\<And>s e. ok e \<Longrightarrow> P s \<Longrightarrow> P (watch s e)" "\<And>s. P s \<Longrightarrow> safe s"
  shows "upholds P m (\<lambda>_. P) (\<lambda>_. P)"
proof (rule upholdsI)
  fix tr tr' r
  assume P: "P (seen tr)" and m: "m tr = (tr', r)"
  obtain new where new: "tr' = tr @ new" "list_all ok new"
    using extends_byE [OF assms(1) m] by blast
  have keeps: "P (seen (tr @ xs))" if "list_all ok xs" for xs
    using that
  proof (induction xs rule: rev_induct)
    case Nil
    then show ?case using P by simp
  next
    case (snoc e xs)
    then have "P (watch (seen (tr @ xs)) e)" using assms(2) by simp
    then show ?case using seen_simps(2) [of "tr @ xs" e] by simp
  qed
  have "list_all ok (take k new)" for k
    using new(2) by (metis append_take_drop_id list_all_append)
  then have "\<forall>k. safe (seen (tr @ take k new))" using keeps assms(3) by blast
  then show "(\<exists>new. tr' = tr @ new \<and> (\<forall>k. safe (seen (tr @ take k new)))) \<and>
     (case r of Inr x \<Rightarrow> P (seen tr') | Inl e \<Rightarrow> P (seen tr'))"
    using new keeps by (auto split: sum.split)
qed

text \<open>Wherever a run is cut off, the monitor is safe.\<close>

lemma safe_at_every_step:
  assumes "upholds P m Q R" "P (seen tr)" "prefix tr tr'" "prefix tr' (fst (m tr))"
  shows "safe (seen tr')"
proof -
  obtain new where new: "fst (m tr) = tr @ new" "\<And>k. safe (seen (tr @ take k new))"
    using assms(1,2) unfolding upholds_def by blast
  obtain zs where "tr' = tr @ zs" using assms(3) by (auto simp: prefix_def)
  moreover then have "zs = take (length zs) new" using assms(4) new(1) by (auto simp: prefix_def)
  ultimately show ?thesis using new(2) by metis
qed

end

end
