(* ===== verification/Detector.thy ===== *)
theory Detector
  imports Models States
begin

section \<open>The event detector\<close>

text \<open>
  \<open>services/event_detector.py\<close>: the comparison of the last persisted snapshot with the current
  one. A persisted snapshot has the columns of the parsed objects, so both sides use the parsed
  records; \<open>previous_snapshot\<close> adds the controller columns of the row. The instance attributes of
  \<open>EventDetector\<close> are the record \<open>detector\<close>; \<open>detect\<close> returns it updated.

  \<^item> The temperature loop is a \<open>while True\<close>; it is a partial function into option, None for a
    loop that never returns.
  \<^item> Per-drive temperature states are the three values the database admits
    (\<open>CheckConstraint\<close> of \<open>pd_temp_states\<close>).
\<close>

subsection \<open>Data\<close>

record detected_event =
  de_severity :: severity
  de_category :: string
  de_subject :: string
  de_summary :: string
  de_before :: "dict option"
  de_after :: "dict option"

record storcli_snapshot =
  sc_controller :: controller_info
  sc_virtual_drives :: "virtual_drive_info list"
  sc_physical_drives :: "physical_drive_info list"
  sc_cachevault :: "cache_vault option"
  sc_bbu :: "dict option"
  sc_foreign_config :: "foreign_config_info option"
  sc_captured_at :: py_datetime

record previous_snapshot =
  ps_alarm_state :: string
  ps_cv_present :: bool
  ps_roc_temperature :: "int option"
  ps_virtual_drives :: "virtual_drive_info list"
  ps_physical_drives :: "physical_drive_info list"
  ps_cachevault :: "cache_vault option"

type_synonym drive_id = "int \<times> int \<times> string"
type_synonym slot_id = "int \<times> int"

datatype temp_state = TempOk | TempWarning | TempCritical

fun temp_state_name :: "temp_state \<Rightarrow> string" where
  "temp_state_name TempOk = ''ok''"
| "temp_state_name TempWarning = ''warning''"
| "temp_state_name TempCritical = ''critical''"

record thresholds =
  th_warning :: int
  th_critical :: int
  th_hysteresis :: int
  th_roc_warning :: int
  th_roc_critical :: int
  th_roc_hysteresis :: int
  th_cv_capacitance :: int

record detector =
  det_states :: "(drive_id \<times> temp_state) list"
  det_updates :: "(drive_id \<times> temp_state) list"
  det_clears :: "slot_id list"
  det_foreign_present :: "bool option"

definition set_temperature_states :: "(drive_id \<times> temp_state) list \<Rightarrow> detector \<Rightarrow> detector" where
  "set_temperature_states states d = d\<lparr>det_states := states\<rparr>"

definition new_detector :: detector where
  "new_detector = \<lparr>det_states = [], det_updates = [], det_clears = [], det_foreign_present = None\<rparr>"

text \<open>The two properties the collector reads after a detection, in key order.\<close>

definition temperature_updates :: "detector \<Rightarrow> (drive_id \<times> temp_state) list" where
  "temperature_updates d = sort_key fst (det_updates d)"

definition temperature_clears :: "detector \<Rightarrow> slot_id list" where
  "temperature_clears d = sort (det_clears d)"

subsection \<open>Subjects and severities\<close>

definition drive_subject :: "physical_drive_info \<Rightarrow> string" where
  "drive_subject d = ''PD e'' @ show_int (pdi_enclosure_id d) @ '':s'' @ show_int (pdi_slot_id d)"

definition vd_subject :: "virtual_drive_info \<Rightarrow> string" where
  "vd_subject d = ''VD '' @ show_int (vdi_vd_id d)"

definition drive_id_of :: "physical_drive_info \<Rightarrow> drive_id" where
  "drive_id_of d = (pdi_enclosure_id d, pdi_slot_id d, pdi_serial_number d)"

definition slot_of :: "physical_drive_info \<Rightarrow> slot_id" where
  "slot_of d = (pdi_enclosure_id d, pdi_slot_id d)"

definition virtual_drive_state_severity :: "string \<Rightarrow> severity" where
  "virtual_drive_state_severity st =
     (let n = normalized_state st
      in if n \<in> set [''optl'', ''optimal''] then Info
         else if n \<in> set [''degraded'', ''dgrd'', ''partially degraded'', ''pdgd'', ''failed'', ''offline'', ''offln'', ''ofln'']
           then Critical else Warning)"

definition physical_drive_state_severity :: "string \<Rightarrow> string \<Rightarrow> severity" where
  "physical_drive_state_severity previous current =
     (let n = normalized_state current
      in if n \<in> set [''failed'', ''missing'', ''offline'', ''ubad''] then Critical
         else if n \<in> set [''jbod'', ''ugood''] then Warning else Info)"

definition cachevault_state_severity :: "string \<Rightarrow> severity" where
  "cachevault_state_severity st = (if normalized_state st = ''optimal'' then Info else Critical)"

subsection \<open>Event constructors\<close>

definition json_opt :: "('a \<Rightarrow> json) \<Rightarrow> 'a option \<Rightarrow> json" where
  "json_opt f v = (case v of None \<Rightarrow> JNull | Some x \<Rightarrow> f x)"

definition state_dict :: "string \<Rightarrow> dict" where
  "state_dict st = [(''state'', JStr st)]"

definition presence_event ::
  "string \<Rightarrow> string \<Rightarrow> bool \<Rightarrow> string \<Rightarrow> string option \<Rightarrow> string option \<Rightarrow> detected_event" where
  "presence_event category subject present state previous_state serial =
     \<lparr>de_severity = (if present then Info else Critical),
      de_category = category, de_subject = subject,
      de_summary = subject @ '' '' @ (if present then ''detected'' else ''no longer detected''),
      de_before = Some [(''present'', JBool (\<not> present)), (''state'', json_opt JStr previous_state)],
      de_after = Some ([(''present'', JBool present), (''state'', JStr state)] @
        (case serial of None \<Rightarrow> [] | Some s \<Rightarrow> [(''serial_number'', JStr s)]))\<rparr>"

definition new_virtual_drive_event :: "virtual_drive_info \<Rightarrow> detected_event option" where
  "new_virtual_drive_event d =
     (let sev = virtual_drive_state_severity (vdi_state d)
      in if sev = Info then None
         else Some \<lparr>de_severity = sev, de_category = ''vd_state'', de_subject = vd_subject d,
           de_summary = vd_subject d @ '' state is '' @ vdi_state d,
           de_before = None, de_after = Some (state_dict (vdi_state d))\<rparr>)"

definition vd_state_event :: "virtual_drive_info \<Rightarrow> virtual_drive_info \<Rightarrow> detected_event" where
  "vd_state_event previous current =
     \<lparr>de_severity = virtual_drive_state_severity (vdi_state current), de_category = ''vd_state'',
      de_subject = vd_subject previous,
      de_summary = vd_subject previous @ '' state changed from '' @ vdi_state previous @ '' to '' @ vdi_state current,
      de_before = Some (state_dict (vdi_state previous)), de_after = Some (state_dict (vdi_state current))\<rparr>"

definition drive_state_event :: "physical_drive_info \<Rightarrow> physical_drive_info \<Rightarrow> detected_event" where
  "drive_state_event previous current =
     \<lparr>de_severity = physical_drive_state_severity (pdi_state previous) (pdi_state current),
      de_category = ''pd_state'', de_subject = drive_subject current,
      de_summary = drive_subject current @ '' state changed from '' @ pdi_state previous @ '' to '' @ pdi_state current,
      de_before = Some (state_dict (pdi_state previous)), de_after = Some (state_dict (pdi_state current))\<rparr>"

definition smart_alert_event :: "bool option \<Rightarrow> physical_drive_info \<Rightarrow> detected_event" where
  "smart_alert_event previous d =
     \<lparr>de_severity = Critical, de_category = ''smart_alert'', de_subject = drive_subject d,
      de_summary = ''SMART alert flagged by drive'',
      de_before = map_option (\<lambda>b. [(''smart_alert'', JBool b)]) previous,
      de_after = Some [(''smart_alert'', JBool (pdi_smart_alert d))]\<rparr>"

text \<open>The three error counters: field, severity, label. The category is the field name.\<close>

definition counters :: "(string \<times> (physical_drive_info \<Rightarrow> int) \<times> severity \<times> string) list" where
  "counters =
     [(''media_errors'', pdi_media_errors, Critical, ''Media error count''),
      (''other_errors'', pdi_other_errors, Warning, ''Other error count''),
      (''predictive_failures'', pdi_predictive_failures, Critical, ''Predictive failure count'')]"

definition new_counter_events :: "physical_drive_info \<Rightarrow> detected_event list" where
  "new_counter_events d =
     concat (map (\<lambda>(name, get, sev, label).
       if get d \<le> 0 then []
       else [\<lparr>de_severity = sev, de_category = name, de_subject = drive_subject d,
              de_summary = label @ '' is '' @ show_int (get d),
              de_before = None, de_after = Some [(name, JInt (get d))]\<rparr>]) counters)"

definition counter_events :: "physical_drive_info \<Rightarrow> physical_drive_info \<Rightarrow> detected_event list" where
  "counter_events previous d =
     concat (map (\<lambda>(name, get, sev, label).
       if get previous \<ge> get d then []
       else [\<lparr>de_severity = sev, de_category = name, de_subject = drive_subject d,
              de_summary = label @ '' increased from '' @ show_int (get previous) @ '' to '' @ show_int (get d),
              de_before = Some [(name, JInt (get previous))], de_after = Some [(name, JInt (get d))]\<rparr>]) counters)"

definition new_physical_drive_events :: "physical_drive_info \<Rightarrow> detected_event list" where
  "new_physical_drive_events d =
     (let sev = physical_drive_state_severity (pdi_state d) (pdi_state d)
      in (if sev = Info then []
          else [\<lparr>de_severity = sev, de_category = ''pd_state'', de_subject = drive_subject d,
                 de_summary = drive_subject d @ '' state is '' @ pdi_state d,
                 de_before = None, de_after = Some (state_dict (pdi_state d))\<rparr>])
         @ new_counter_events d
         @ (if pdi_smart_alert d then [smart_alert_event None d] else []))"

definition cv_event :: "severity \<Rightarrow> string \<Rightarrow> dict option \<Rightarrow> dict \<Rightarrow> detected_event" where
  "cv_event sev summary before after =
     \<lparr>de_severity = sev, de_category = ''cv_state'', de_subject = ''CacheVault'', de_summary = summary,
      de_before = before, de_after = Some after\<rparr>"

definition capacitance_low :: "thresholds \<Rightarrow> int option \<Rightarrow> bool" where
  "capacitance_low th c = (case c of None \<Rightarrow> False | Some n \<Rightarrow> n < th_cv_capacitance th)"

definition new_cachevault_events :: "thresholds \<Rightarrow> cache_vault \<Rightarrow> detected_event list" where
  "new_cachevault_events th cv =
     (let sev = cachevault_state_severity (cvi_state cv)
      in (if sev = Info then [] else [cv_event sev (''CacheVault state is '' @ cvi_state cv) None (state_dict (cvi_state cv))])
         @ (if cvi_replacement_required cv
            then [cv_event Critical ''CacheVault replacement required'' None
                    [(''replacement_required'', JBool (cvi_replacement_required cv))]] else [])
         @ (case cvi_capacitance cv of
              Some n \<Rightarrow> if n < th_cv_capacitance th
                then [cv_event Warning (''CacheVault capacitance below '' @ show_int (th_cv_capacitance th) @ ''%: '' @ show_int n @ ''%'')
                        None [(''capacitance_percent'', JInt n)]] else []
            | None \<Rightarrow> []))"

subsection \<open>Controller and RoC temperature\<close>

text \<open>\<open>{key(x): x for x in xs}\<close>.\<close>

definition dict_of :: "('a \<Rightarrow> 'k) \<Rightarrow> 'a list \<Rightarrow> ('k \<times> 'a) list" where
  "dict_of key xs = fold (\<lambda>x d. AList.update (key x) x d) xs []"

definition detect_controller :: "previous_snapshot \<Rightarrow> storcli_snapshot \<Rightarrow> detected_event list" where
  "detect_controller previous current =
     (let alarm = ci_alarm_state (sc_controller current)
      in if ps_alarm_state previous = alarm then []
         else [\<lparr>de_severity = Info, de_category = ''controller_alarm_setting_changed'', de_subject = ''Controller'',
                de_summary = ''Controller buzzer setting changed from '' @ ps_alarm_state previous @ '' to '' @ alarm,
                de_before = Some [(''alarm_state'', JStr (ps_alarm_state previous))],
                de_after = Some [(''alarm_state'', JStr alarm)]\<rparr>])"

definition roc_event :: "severity \<Rightarrow> string \<Rightarrow> int option \<Rightarrow> int \<Rightarrow> detected_event" where
  "roc_event sev summary previous current =
     \<lparr>de_severity = sev, de_category = ''controller_temperature'', de_subject = ''Controller'', de_summary = summary,
      de_before = Some [(''roc_temperature_celsius'', json_opt JInt previous)],
      de_after = Some [(''roc_temperature_celsius'', JInt current)]\<rparr>"

definition roc_text :: "int \<Rightarrow> string" where
  "roc_text t = ''RoC temperature '' @ show_int t @ '' C ''"

definition threshold_text :: "int \<Rightarrow> string" where
  "threshold_text t = ''threshold ('' @ show_int t @ '' C)''"

definition roc_first_events :: "thresholds \<Rightarrow> int \<Rightarrow> detected_event list" where
  "roc_first_events th t =
     (if t \<ge> th_roc_warning th then [roc_event Warning
        (roc_text t @ ''reached warning '' @ threshold_text (th_roc_warning th) @ '' after unavailable sample'') None t] else [])
     @ (if t \<ge> th_roc_critical th then [roc_event Critical
        (roc_text t @ ''reached critical '' @ threshold_text (th_roc_critical th) @ '' after unavailable sample'') None t] else [])"

definition roc_change_events :: "thresholds \<Rightarrow> int \<Rightarrow> int \<Rightarrow> detected_event list" where
  "roc_change_events th p t =
     (if p < th_roc_warning th \<and> th_roc_warning th \<le> t then [roc_event Warning
        (roc_text t @ ''crossed warning '' @ threshold_text (th_roc_warning th)) (Some p) t] else [])
     @ (if p < th_roc_critical th \<and> th_roc_critical th \<le> t then [roc_event Critical
        (roc_text t @ ''crossed critical '' @ threshold_text (th_roc_critical th)) (Some p) t] else [])
     @ (if p \<ge> th_roc_critical th \<and> t \<le> th_roc_critical th - th_roc_hysteresis th
        then [roc_event Info (roc_text t @ ''cleared critical threshold'') (Some p) t] else [])
     @ (if p \<ge> th_roc_warning th \<and> t \<le> th_roc_warning th - th_roc_hysteresis th
        then [roc_event Info (roc_text t @ ''cleared warning threshold'') (Some p) t] else [])"

definition detect_roc_temperature :: "thresholds \<Rightarrow> int option \<Rightarrow> int option \<Rightarrow> detected_event list" where
  "detect_roc_temperature th previous current =
     (case current of
        None \<Rightarrow> []
      | Some t \<Rightarrow> (case previous of None \<Rightarrow> roc_first_events th t | Some p \<Rightarrow> roc_change_events th p t))"

subsection \<open>Virtual drives\<close>

definition vd_changes :: "virtual_drive_info list \<Rightarrow> virtual_drive_info \<Rightarrow> detected_event list" where
  "vd_changes current previous =
     (case map_of (dict_of vdi_vd_id current) (vdi_vd_id previous) of
        None \<Rightarrow> [presence_event ''vd_state'' (vd_subject previous) False ''Offline'' (Some (vdi_state previous)) None]
      | Some d \<Rightarrow>
          (if normalized_state (vdi_state previous) = normalized_state (vdi_state d) then []
           else [vd_state_event previous d]))"

definition vd_arrivals :: "virtual_drive_info list \<Rightarrow> virtual_drive_info \<Rightarrow> detected_event list" where
  "vd_arrivals previous d =
     (if vdi_vd_id d \<in> set (map vdi_vd_id previous) then []
      else presence_event ''vd_state'' (vd_subject d) True (vdi_state d) None None #
        (case new_virtual_drive_event d of None \<Rightarrow> [] | Some e \<Rightarrow> [e]))"

definition detect_virtual_drives :: "previous_snapshot \<Rightarrow> storcli_snapshot \<Rightarrow> detected_event list" where
  "detect_virtual_drives previous current =
     concat (map (vd_changes (sc_virtual_drives current)) (ps_virtual_drives previous))
     @ concat (map (vd_arrivals (ps_virtual_drives previous)) (sc_virtual_drives current))"

subsection \<open>Physical drives\<close>

definition drive_gone_event :: "physical_drive_info \<Rightarrow> detected_event" where
  "drive_gone_event d =
     presence_event ''pd_state'' (drive_subject d) False ''Missing'' (Some (pdi_state d)) (Some (pdi_serial_number d))"

definition drive_arrived_event :: "physical_drive_info \<Rightarrow> detected_event" where
  "drive_arrived_event d =
     presence_event ''pd_state'' (drive_subject d) True (pdi_state d) None (Some (pdi_serial_number d))"

definition drive_replaced_event :: "physical_drive_info \<Rightarrow> physical_drive_info \<Rightarrow> detected_event" where
  "drive_replaced_event previous d =
     \<lparr>de_severity = Info, de_category = ''pd_state'', de_subject = drive_subject d,
      de_summary = ''Drive replaced: '' @ pdi_serial_number previous @ '' -> '' @ pdi_serial_number d,
      de_before = Some [(''serial_number'', JStr (pdi_serial_number previous))],
      de_after = Some [(''serial_number'', JStr (pdi_serial_number d))]\<rparr>"

definition removed_drives :: "physical_drive_info list \<Rightarrow> physical_drive_info list \<Rightarrow> physical_drive_info list" where
  "removed_drives previous current =
     filter (\<lambda>d. slot_of d \<notin> set (map slot_of current)) (map snd (dict_of slot_of previous))"

text \<open>What the current drive of a slot is against the previous inventory.\<close>

datatype slot_change = Arrived | Replaced physical_drive_info | SameDrive physical_drive_info

definition slot_change_of :: "physical_drive_info list \<Rightarrow> physical_drive_info \<Rightarrow> slot_change" where
  "slot_change_of previous d =
     (case map_of (dict_of slot_of previous) (slot_of d) of
        None \<Rightarrow> Arrived
      | Some p \<Rightarrow> if pdi_serial_number p = pdi_serial_number d then SameDrive p else Replaced p)"

definition replacement_event :: "physical_drive_info list \<Rightarrow> physical_drive_info \<Rightarrow> detected_event list" where
  "replacement_event previous d =
     (case slot_change_of previous d of
        Arrived \<Rightarrow> [drive_arrived_event d] | Replaced p \<Rightarrow> [drive_replaced_event p d] | SameDrive _ \<Rightarrow> [])"

definition replaced_slots :: "physical_drive_info list \<Rightarrow> physical_drive_info list \<Rightarrow> slot_id list" where
  "replaced_slots previous current =
     map slot_of (filter (\<lambda>d. \<not> (case slot_change_of previous d of SameDrive _ \<Rightarrow> True | _ \<Rightarrow> False)) current)"

definition detect_drive_replacements ::
  "previous_snapshot \<Rightarrow> storcli_snapshot \<Rightarrow> detector \<Rightarrow> detector \<times> detected_event list \<times> slot_id list" where
  "detect_drive_replacements previous current d =
     (let before = ps_physical_drives previous; now = sc_physical_drives current;
          gone = removed_drives before now; changed = replaced_slots before now
      in (d\<lparr>det_clears := fold List.insert (map slot_of gone @ changed) (det_clears d)\<rparr>,
          map drive_gone_event gone @ concat (map (replacement_event before) now), changed))"

definition drive_changes :: "physical_drive_info list \<Rightarrow> slot_id list \<Rightarrow> physical_drive_info \<Rightarrow> detected_event list" where
  "drive_changes previous replaced d =
     (case map_of (dict_of slot_of previous) (slot_of d) of
        None \<Rightarrow> new_physical_drive_events d
      | Some p \<Rightarrow>
          (let changed = (normalized_state (pdi_state p) \<noteq> normalized_state (pdi_state d))
           in if slot_of d \<in> set replaced then
                (if changed
                 then drive_state_event p d # new_counter_events d @ (if pdi_smart_alert d then [smart_alert_event None d] else [])
                 else new_physical_drive_events d)
              else (if changed then [drive_state_event p d] else [])
                @ counter_events p d
                @ (if pdi_smart_alert d \<and> \<not> pdi_smart_alert p then [smart_alert_event (Some (pdi_smart_alert p)) d] else [])))"

definition detect_physical_drives ::
  "previous_snapshot \<Rightarrow> storcli_snapshot \<Rightarrow> slot_id list \<Rightarrow> detected_event list" where
  "detect_physical_drives previous current replaced =
     concat (map (drive_changes (ps_physical_drives previous) replaced) (sc_physical_drives current))"

subsection \<open>Drive temperatures\<close>

definition temperature_event ::
  "physical_drive_info \<Rightarrow> severity \<Rightarrow> string \<Rightarrow> temp_state \<Rightarrow> temp_state \<Rightarrow> detected_event" where
  "temperature_event d sev summary before after =
     (let reading = json_opt JInt (pdi_temperature d)
      in \<lparr>de_severity = sev, de_category = ''temperature'', de_subject = drive_subject d, de_summary = summary,
          de_before = Some [(''state'', JStr (temp_state_name before)), (''temperature_celsius'', reading)],
          de_after = Some [(''state'', JStr (temp_state_name after)), (''temperature_celsius'', reading)]\<rparr>)"

text \<open>One iteration of the loop body: the next state with its event, or the end.\<close>

definition temperature_step ::
  "thresholds \<Rightarrow> physical_drive_info \<Rightarrow> int \<Rightarrow> temp_state \<Rightarrow> (temp_state \<times> detected_event) option" where
  "temperature_step th d t st =
     (let reading = show_int t @ '' C''
      in if st = TempOk \<and> t \<ge> th_warning th then
           Some (TempWarning, temperature_event d Warning (''Temperature reached warning threshold: '' @ reading) st TempWarning)
         else if st = TempWarning \<and> t \<ge> th_critical th then
           Some (TempCritical, temperature_event d Critical (''Temperature reached critical threshold: '' @ reading) st TempCritical)
         else if st = TempCritical \<and> t < th_critical th - th_hysteresis th then
           Some (TempWarning, temperature_event d Info (''Temperature back below critical: '' @ reading) st TempWarning)
         else if st = TempWarning \<and> t < th_warning th - th_hysteresis th then
           Some (TempOk, temperature_event d Info (''Temperature back to normal: '' @ reading) st TempOk)
         else None)"

partial_function (option) temperature_loop ::
  "thresholds \<Rightarrow> physical_drive_info \<Rightarrow> int \<Rightarrow> detected_event list \<Rightarrow> temp_state \<Rightarrow> (detected_event list \<times> temp_state) option" where
  "temperature_loop th d t events st =
     (case temperature_step th d t st of
        None \<Rightarrow> Some (events, st)
      | Some (st', e) \<Rightarrow> temperature_loop th d t (events @ [e]) st')"

declare temperature_loop.simps [code]

definition temperature_transitions ::
  "thresholds \<Rightarrow> physical_drive_info \<Rightarrow> temp_state \<Rightarrow> (detected_event list \<times> temp_state) option" where
  "temperature_transitions th d st =
     (case pdi_temperature d of None \<Rightarrow> Some ([], st) | Some t \<Rightarrow> temperature_loop th d t [] st)"

definition temperature_state_from_reading :: "thresholds \<Rightarrow> int option \<Rightarrow> temp_state" where
  "temperature_state_from_reading th reading =
     (case reading of
        None \<Rightarrow> TempOk
      | Some t \<Rightarrow> if t \<ge> th_critical th then TempCritical else if t \<ge> th_warning th then TempWarning else TempOk)"

definition temperature_states_from_previous ::
  "thresholds \<Rightarrow> previous_snapshot option \<Rightarrow> (drive_id \<times> temp_state) list" where
  "temperature_states_from_previous th previous =
     (case previous of
        None \<Rightarrow> []
      | Some p \<Rightarrow> fold (\<lambda>d acc. AList.update (drive_id_of d) (temperature_state_from_reading th (pdi_temperature d)) acc)
          (filter (\<lambda>d. pdi_temperature d \<noteq> None) (ps_physical_drives p)) [])"

definition initial_temp_state ::
  "(drive_id \<times> temp_state) list \<Rightarrow> (drive_id \<times> temp_state) list \<Rightarrow> slot_id list \<Rightarrow> physical_drive_info \<Rightarrow> temp_state" where
  "initial_temp_state states previous replaced d =
     (if slot_of d \<in> set replaced then TempOk
      else case map_of states (drive_id_of d) of
             Some st \<Rightarrow> st
           | None \<Rightarrow> (case map_of previous (drive_id_of d) of Some st \<Rightarrow> st | None \<Rightarrow> TempOk))"

fun drive_temperatures ::
  "thresholds \<Rightarrow> (drive_id \<times> temp_state) list \<Rightarrow> (drive_id \<times> temp_state) list \<Rightarrow> slot_id list \<Rightarrow>
   physical_drive_info list \<Rightarrow> (drive_id \<times> temp_state) list \<Rightarrow> ((drive_id \<times> temp_state) list \<times> detected_event list) option" where
  "drive_temperatures th states previous replaced [] updates = Some (updates, [])"
| "drive_temperatures th states previous replaced (d # ds) updates =
     (if pdi_temperature d = None then drive_temperatures th states previous replaced ds updates
      else case temperature_transitions th d (initial_temp_state states previous replaced d) of
             None \<Rightarrow> None
           | Some (events, st) \<Rightarrow>
               (case drive_temperatures th states previous replaced ds (AList.update (drive_id_of d) st updates) of
                  None \<Rightarrow> None
                | Some (updates', rest) \<Rightarrow> Some (updates', events @ rest)))"

definition detect_temperatures ::
  "thresholds \<Rightarrow> previous_snapshot option \<Rightarrow> storcli_snapshot \<Rightarrow> slot_id list \<Rightarrow> detector \<Rightarrow>
   (detector \<times> detected_event list) option" where
  "detect_temperatures th previous current replaced d =
     (case drive_temperatures th (det_states d) (temperature_states_from_previous th previous) replaced
             (sc_physical_drives current) (det_updates d) of
        None \<Rightarrow> None
      | Some (updates, events) \<Rightarrow> Some (d\<lparr>det_updates := updates\<rparr>, events))"

subsection \<open>CacheVault\<close>

definition cachevault_gone_events :: "previous_snapshot \<Rightarrow> detected_event list" where
  "cachevault_gone_events previous =
     (if ps_cachevault previous = None \<and> \<not> ps_cv_present previous then []
      else [cv_event Critical ''CacheVault no longer detected''
              (Some ((''present'', JBool True) #
                 (case ps_cachevault previous of None \<Rightarrow> [] | Some p \<Rightarrow> state_dict (cvi_state p))))
              [(''present'', JBool False)]])"

definition cachevault_change_events :: "thresholds \<Rightarrow> cache_vault \<Rightarrow> cache_vault \<Rightarrow> detected_event list" where
  "cachevault_change_events th p cv =
     (if normalized_state (cvi_state p) = normalized_state (cvi_state cv) then []
      else [cv_event (cachevault_state_severity (cvi_state cv))
              (''CacheVault state changed from '' @ cvi_state p @ '' to '' @ cvi_state cv)
              (Some (state_dict (cvi_state p))) (state_dict (cvi_state cv))])
     @ (if cvi_replacement_required cv \<and> \<not> cvi_replacement_required p
        then [cv_event Critical ''CacheVault replacement required''
                (Some [(''replacement_required'', JBool (cvi_replacement_required p))])
                [(''replacement_required'', JBool (cvi_replacement_required cv))]] else [])
     @ (case cvi_capacitance cv of
          None \<Rightarrow> []
        | Some n \<Rightarrow>
            if n < th_cv_capacitance th \<and> \<not> capacitance_low th (cvi_capacitance p)
            then [cv_event Warning
                    (''CacheVault capacitance dropped below '' @ show_int (th_cv_capacitance th) @ ''%: '' @
                     (case cvi_capacitance p of None \<Rightarrow> ''unknown'' | Some k \<Rightarrow> show_int k @ ''%'') @
                     '' -> '' @ show_int n @ ''%'')
                    (Some [(''capacitance_percent'', json_opt JInt (cvi_capacitance p))])
                    [(''capacitance_percent'', JInt n)]] else [])"

definition detect_cachevault :: "thresholds \<Rightarrow> previous_snapshot \<Rightarrow> storcli_snapshot \<Rightarrow> detected_event list" where
  "detect_cachevault th previous current =
     (case sc_cachevault current of
        None \<Rightarrow> if ci_cv_present (sc_controller current) then [] else cachevault_gone_events previous
      | Some cv \<Rightarrow>
          (case ps_cachevault previous of
             None \<Rightarrow>
               (if ps_cv_present previous then []
                else [cv_event Info ''CacheVault detected'' (Some [(''present'', JBool False)])
                        [(''present'', JBool True), (''state'', JStr (cvi_state cv))]])
               @ new_cachevault_events th cv
           | Some p \<Rightarrow> cachevault_change_events th p cv))"

subsection \<open>First snapshot\<close>

definition detect_baseline :: "thresholds \<Rightarrow> storcli_snapshot \<Rightarrow> detected_event list" where
  "detect_baseline th current =
     List.map_filter new_virtual_drive_event (sc_virtual_drives current)
     @ concat (map new_physical_drive_events (sc_physical_drives current))
     @ (case sc_cachevault current of
          Some cv \<Rightarrow> new_cachevault_events th cv
        | None \<Rightarrow> if ci_cv_present (sc_controller current) then []
                  else [cv_event Critical ''CacheVault is not detected'' None [(''present'', JBool False)]])"

subsection \<open>Foreign configuration\<close>

definition foreign_event :: "severity \<Rightarrow> string \<Rightarrow> dict option \<Rightarrow> dict \<Rightarrow> detected_event" where
  "foreign_event sev summary before after =
     \<lparr>de_severity = sev, de_category = ''foreign_config_detected'', de_subject = ''Controller foreign config'',
      de_summary = summary, de_before = before, de_after = Some after\<rparr>"

definition foreign_detected_event :: "foreign_config_info \<Rightarrow> detected_event" where
  "foreign_detected_event f =
     foreign_event Warning
       (''Foreign configuration detected: '' @ show_int (fci_dg_count f) @ '' DG, '' @
        show_int (fci_drive_count f) @ '' drives ('' @ fci_digest f @ '')'')
       None
       [(''present'', JBool True), (''dg_count'', JInt (fci_dg_count f)),
        (''drive_count'', JInt (fci_drive_count f)), (''digest'', JStr (fci_digest f))]"

definition foreign_cleared_event :: detected_event where
  "foreign_cleared_event =
     foreign_event Info ''Foreign configuration cleared''
       (Some [(''present'', JBool True)]) [(''present'', JBool False)]"

text \<open>No reading (a failed probe) keeps the last known presence and emits nothing.\<close>

definition detect_foreign_config :: "foreign_config_info option \<Rightarrow> detector \<Rightarrow> detector \<times> detected_event list" where
  "detect_foreign_config current d =
     (case current of
        None \<Rightarrow> (d, [])
      | Some f \<Rightarrow>
          (d\<lparr>det_foreign_present := Some (fci_present f)\<rparr>,
           if fci_present f \<and> det_foreign_present d \<noteq> Some True then [foreign_detected_event f]
           else if det_foreign_present d = Some True \<and> \<not> fci_present f then [foreign_cleared_event]
           else []))"

subsection \<open>detect\<close>

definition stamp_serials :: "physical_drive_info list \<Rightarrow> detected_event list \<Rightarrow> detected_event list" where
  "stamp_serials drives events =
     (let serials = dict_of drive_subject drives
      in map (\<lambda>e. case map_of serials (de_subject e) of
                    None \<Rightarrow> e
                  | Some d \<Rightarrow> e\<lparr>de_after := Some (dict_put (de_after e) ''serial_number'' (JStr (pdi_serial_number d)))\<rparr>) events)"

text \<open>The part of \<open>detect\<close> that depends on whether a previous snapshot exists.\<close>

definition compare_snapshots ::
  "thresholds \<Rightarrow> previous_snapshot option \<Rightarrow> storcli_snapshot \<Rightarrow> detector \<Rightarrow>
   detector \<times> detected_event list \<times> slot_id list" where
  "compare_snapshots th previous current d =
     (case previous of
        None \<Rightarrow> (d, detect_baseline th current, [])
      | Some p \<Rightarrow>
          (case detect_drive_replacements p current d of
             (d', replacements, replaced) \<Rightarrow>
               (d', detect_controller p current @ detect_virtual_drives p current @ replacements
                    @ detect_physical_drives p current replaced @ detect_cachevault th p current, replaced)))"

definition detect ::
  "thresholds \<Rightarrow> previous_snapshot option \<Rightarrow> storcli_snapshot \<Rightarrow> detector \<Rightarrow> (detector \<times> detected_event list) option" where
  "detect th previous current d =
     (case compare_snapshots th previous current (d\<lparr>det_updates := [], det_clears := []\<rparr>) of
        (d1, compared, replaced) \<Rightarrow>
          (case detect_temperatures th previous current replaced d1 of
             None \<Rightarrow> None
           | Some (d2, temperatures) \<Rightarrow>
               (case detect_foreign_config (sc_foreign_config current) d2 of
                  (d3, foreign) \<Rightarrow>
                    Some (d3, stamp_serials (sc_physical_drives current)
                      (compared
                       @ detect_roc_temperature th (case previous of None \<Rightarrow> None | Some p \<Rightarrow> ps_roc_temperature p)
                           (ci_roc_temperature (sc_controller current))
                       @ temperatures @ foreign)))))"

end
