(* ===== verification/Config.thy ===== *)
theory Config
  imports States Parsing
begin

section \<open>Configuration\<close>

text \<open>
  \<open>config.py\<close>: the settings the modelled components read, and the checks of
  \<open>validate_runtime_values\<close> in the order the validator makes them; the first that fails raises
  \<open>ValueError\<close> with its message. \<open>network_ok\<close> stands for
  \<open>ipaddress.ip_network(text, strict=False)\<close> returning normally.
  Reading the environment and the path checks on the StorCLI binary are not modelled.
\<close>

datatype capability = NoActions | LocateOnly | FullActions

record settings =
  st_alert_smtp_port :: int
  st_alert_severity_threshold :: string
  st_alert_suppress_window_minutes :: int
  st_alert_throttle_per_hour :: int
  st_telegram_enabled :: bool
  st_telegram_warning_confirm_minutes :: int
  st_collector_stale_alert_minutes :: int
  st_auth_rate_limit_per_minute :: int
  st_auth_rate_limit_burst :: int
  st_trusted_proxy_ips :: string
  st_metrics_interval_seconds :: int
  st_metrics_raw_retention_days :: int
  st_metrics_hourly_retention_days :: int
  st_store_raw_snapshot_payload :: bool
  st_collector_lock_path :: string
  st_metrics_listen_address :: string
  st_metrics_lock_path :: string
  st_metrics_port :: int
  st_temp_warning_celsius :: int
  st_temp_critical_celsius :: int
  st_temp_hysteresis_celsius :: int
  st_roc_temp_warning_celsius :: int
  st_roc_temp_critical_celsius :: int
  st_roc_temp_hysteresis_celsius :: int
  st_cv_capacitance_warning_percent :: int
  st_disk_warning_free_mb :: int
  st_disk_critical_free_mb :: int
  st_disk_check_interval_minutes :: int

definition split_csv :: "string \<Rightarrow> string list" where
  "split_csv v = filter (\<lambda>e. e \<noteq> []) (map py_strip (split_on CHR '','' v))"

text \<open>The refusals in source order: condition and message.\<close>

definition runtime_checks :: "(string \<Rightarrow> bool) \<Rightarrow> settings \<Rightarrow> (bool \<times> string) list" where
  "runtime_checks network_ok s =
     [(st_metrics_interval_seconds s \<le> 0, ''metrics_interval_seconds must be positive''),
      (st_metrics_raw_retention_days s \<le> 0, ''metrics_raw_retention_days must be positive''),
      (st_metrics_hourly_retention_days s \<le> 0, ''metrics_hourly_retention_days must be positive''),
      (\<not> (1 \<le> st_cv_capacitance_warning_percent s \<and> st_cv_capacitance_warning_percent s \<le> 100),
         ''cv_capacitance_warning_percent must be between 1 and 100''),
      (st_disk_warning_free_mb s \<le> 0, ''disk_warning_free_mb must be positive''),
      (st_disk_critical_free_mb s \<le> 0, ''disk_critical_free_mb must be positive''),
      (st_disk_critical_free_mb s \<ge> st_disk_warning_free_mb s,
         ''disk_critical_free_mb must be less than disk_warning_free_mb''),
      (st_disk_check_interval_minutes s \<le> 0, ''disk_check_interval_minutes must be positive''),
      (py_strip (st_collector_lock_path s) = [], ''collector_lock_path must not be empty''),
      (py_strip (st_metrics_listen_address s) = [], ''metrics_listen_address must not be empty''),
      (py_strip (st_metrics_lock_path s) = [], ''metrics_lock_path must not be empty''),
      (\<not> (1 \<le> st_metrics_port s \<and> st_metrics_port s \<le> 65535), ''metrics_port must be 1..65535''),
      (st_temp_critical_celsius s \<le> st_temp_warning_celsius s,
         ''temp_critical_celsius must be greater than temp_warning_celsius''),
      (st_temp_hysteresis_celsius s < 1, ''temp_hysteresis_celsius must be at least 1''),
      (st_temp_hysteresis_celsius s \<ge> st_temp_warning_celsius s,
         ''temp_hysteresis_celsius must be less than temp_warning_celsius''),
      (\<not> (40 \<le> st_roc_temp_warning_celsius s \<and> st_roc_temp_warning_celsius s \<le> 130),
         ''roc_temp_warning_celsius must be between 40 and 130''),
      (\<not> (40 \<le> st_roc_temp_critical_celsius s \<and> st_roc_temp_critical_celsius s \<le> 130),
         ''roc_temp_critical_celsius must be between 40 and 130''),
      (st_roc_temp_critical_celsius s \<le> st_roc_temp_warning_celsius s,
         ''roc_temp_critical_celsius must be greater than roc_temp_warning_celsius''),
      (st_roc_temp_hysteresis_celsius s < 1, ''roc_temp_hysteresis_celsius must be at least 1''),
      (st_roc_temp_hysteresis_celsius s \<ge> st_roc_temp_warning_celsius s,
         ''roc_temp_hysteresis_celsius must be less than roc_temp_warning_celsius''),
      (st_alert_smtp_port s \<le> 0, ''alert_smtp_port must be positive''),
      (st_alert_severity_threshold s \<notin> set [''info'', ''warning'', ''critical''],
         ''alert_severity_threshold must be one of info, warning, critical''),
      (st_alert_suppress_window_minutes s \<le> 0, ''alert_suppress_window_minutes must be positive''),
      (st_alert_throttle_per_hour s \<le> 0, ''alert_throttle_per_hour must be positive''),
      (st_telegram_warning_confirm_minutes s \<le> 0, ''telegram_warning_confirm_minutes must be positive''),
      (st_collector_stale_alert_minutes s \<le> 0, ''collector_stale_alert_minutes must be positive''),
      (st_auth_rate_limit_per_minute s \<le> 0, ''auth_rate_limit_per_minute must be positive''),
      (st_auth_rate_limit_burst s < 0, ''auth_rate_limit_burst must be non-negative''),
      (st_auth_rate_limit_burst s > st_auth_rate_limit_per_minute s,
         ''auth_rate_limit_burst must not exceed auth_rate_limit_per_minute''),
      (\<not> list_all network_ok (split_csv (st_trusted_proxy_ips s)),
         ''trusted_proxy_ips must contain only IP addresses or CIDR networks'')]"

definition validate_runtime_values :: "(string \<Rightarrow> bool) \<Rightarrow> settings \<Rightarrow> string + settings" where
  "validate_runtime_values network_ok s =
     (case List.find fst (runtime_checks network_ok s) of None \<Rightarrow> Inr s | Some (_, msg) \<Rightarrow> Inl msg)"

lemma valid_settings_checks:
  "validate_runtime_values network_ok s = Inr s' \<Longrightarrow> list_all (\<lambda>c. \<not> fst c) (runtime_checks network_ok s)"
  by (auto simp: validate_runtime_values_def find_None_iff list_all_iff split: option.splits prod.splits)

lemma valid_settings_same: "validate_runtime_values network_ok s = Inr s' \<Longrightarrow> s' = s"
  by (auto simp: validate_runtime_values_def split: option.splits prod.splits)

text \<open>The facts the components rely on.\<close>

lemma valid_temperatures:
  assumes "validate_runtime_values network_ok s = Inr s'"
  shows "st_temp_warning_celsius s < st_temp_critical_celsius s"
    and "0 < st_temp_hysteresis_celsius s"
    and "st_roc_temp_warning_celsius s < st_roc_temp_critical_celsius s"
    and "0 < st_roc_temp_hysteresis_celsius s"
  using valid_settings_checks [OF assms] by (simp_all add: runtime_checks_def)

lemma valid_disk:
  assumes "validate_runtime_values network_ok s = Inr s'"
  shows "0 < st_disk_critical_free_mb s" and "st_disk_critical_free_mb s < st_disk_warning_free_mb s"
  using valid_settings_checks [OF assms] by (simp_all add: runtime_checks_def)

lemma valid_limits:
  assumes "validate_runtime_values network_ok s = Inr s'"
  shows "0 < st_auth_rate_limit_per_minute s" and "0 \<le> st_auth_rate_limit_burst s"
    and "0 < st_metrics_interval_seconds s" and "0 < st_alert_suppress_window_minutes s"
    and "0 < st_metrics_raw_retention_days s" and "0 < st_metrics_hourly_retention_days s"
    and "0 < st_collector_stale_alert_minutes s" and "0 < st_telegram_warning_confirm_minutes s"
  using valid_settings_checks [OF assms] by (simp_all add: runtime_checks_def)

lemma valid_severity_threshold:
  assumes "validate_runtime_values network_ok s = Inr s'"
  shows "st_alert_severity_threshold s \<in> {''info'', ''warning'', ''critical''}"
  using valid_settings_checks [OF assms] by (simp add: runtime_checks_def)

text \<open>The defaults, where the program has one, for the examples.\<close>

definition sample_settings :: settings where
  "sample_settings =
     \<lparr>st_alert_smtp_port = 587, st_alert_severity_threshold = ''critical'', st_alert_suppress_window_minutes = 60,
      st_alert_throttle_per_hour = 20, st_telegram_enabled = False, st_telegram_warning_confirm_minutes = 15,
      st_collector_stale_alert_minutes = 15, st_auth_rate_limit_per_minute = 5, st_auth_rate_limit_burst = 2,
      st_trusted_proxy_ips = [], st_metrics_interval_seconds = 300, st_metrics_raw_retention_days = 30,
      st_metrics_hourly_retention_days = 365, st_store_raw_snapshot_payload = False,
      st_collector_lock_path = ''/c'', st_metrics_listen_address = ''lo'', st_metrics_lock_path = ''/m'',
      st_metrics_port = 8091, st_temp_warning_celsius = 55, st_temp_critical_celsius = 60,
      st_temp_hysteresis_celsius = 5, st_roc_temp_warning_celsius = 95, st_roc_temp_critical_celsius = 105,
      st_roc_temp_hysteresis_celsius = 5, st_cv_capacitance_warning_percent = 70, st_disk_warning_free_mb = 500,
      st_disk_critical_free_mb = 100, st_disk_check_interval_minutes = 60\<rparr>"

lemma sample_settings_valid: "validate_runtime_values (\<lambda>_. False) sample_settings = Inr sample_settings"
  by code_simp

end
