(* ===== verification/Database.thy ===== *)
theory Database
  imports Detector Config
begin

section \<open>The database\<close>

text \<open>
  \<open>db/models.py\<close> and \<open>db/dao.py\<close>. A table is the list of its rows in insertion order; an upsert
  table is keyed by its unique columns. One \<open>db\<close> value is what a session sees; a transaction that
  is rolled back leaves the old value. \<open>datetime.now(UTC)\<close> is the parameter \<open>now\<close>.

  \<^item> \<open>system_state.value\<close> is text. The writers store two shapes only: the maintenance record as
    JSON and an ISO instant; both are kept as what they denote, and \<open>OtherText\<close> is a value that
    is neither.
  \<^item> Rows of \<open>alerts_sent\<close> are written by no component and have no model; the duration of an
    audited command is left out.
\<close>

subsection \<open>The configured detector\<close>

definition detector_thresholds :: "settings \<Rightarrow> thresholds" where
  "detector_thresholds s =
     \<lparr>th_warning = st_temp_warning_celsius s, th_critical = st_temp_critical_celsius s,
      th_hysteresis = st_temp_hysteresis_celsius s, th_roc_warning = st_roc_temp_warning_celsius s,
      th_roc_critical = st_roc_temp_critical_celsius s, th_roc_hysteresis = st_roc_temp_hysteresis_celsius s,
      th_cv_capacitance = st_cv_capacitance_warning_percent s\<rparr>"

subsection \<open>Keyed tables\<close>

text \<open>
  The contract of a table with a unique key, for the clients that read what they upserted.
\<close>

locale keyed_table =
  fixes lookup :: "'k \<Rightarrow> 't \<Rightarrow> 'v option"
    and upsert :: "'k \<Rightarrow> 'v \<Rightarrow> 't \<Rightarrow> 't"
  assumes lookup_upsert: "lookup k (upsert k' v t) = (if k = k' then Some v else lookup k t)"
begin

lemma lookup_same: "lookup k (upsert k v t) = Some v"
  by (simp add: lookup_upsert)

lemma lookup_other: "k \<noteq> k' \<Longrightarrow> lookup k (upsert k' v t) = lookup k t"
  by (simp add: lookup_upsert)

lemma lookup_fold:
  "lookup k (fold (\<lambda>x. upsert (key x) (val x)) xs t) =
     (case map_of (rev (map (\<lambda>x. (key x, val x)) xs)) k of Some v \<Rightarrow> Some v | None \<Rightarrow> lookup k t)"
  by (induction xs arbitrary: t) (auto simp: lookup_upsert map_add_def split: option.splits)

lemma lookup_fold_absent:
  "k \<notin> key ` set xs \<Longrightarrow> lookup k (fold (\<lambda>x. upsert (key x) (val x)) xs t) = lookup k t"
  by (induction xs arbitrary: t) (auto simp: lookup_upsert)

end

text \<open>With deletion of the keys a predicate selects.\<close>

locale pruned_table = keyed_table lookup upsert
  for lookup :: "'k \<Rightarrow> 't \<Rightarrow> 'v option" and upsert :: "'k \<Rightarrow> 'v \<Rightarrow> 't \<Rightarrow> 't" +
  fixes remove :: "('k \<Rightarrow> bool) \<Rightarrow> 't \<Rightarrow> 't"
  assumes lookup_remove: "lookup k (remove P t) = (if P k then None else lookup k t)"
begin

lemma lookup_remove_fold:
  "lookup k (fold (\<lambda>x. remove (P x)) xs t) = (if (\<exists>x \<in> set xs. P x k) then None else lookup k t)"
  by (induction xs arbitrary: t) (auto simp: lookup_remove)

lemma upsert_survives: "\<not> P k \<Longrightarrow> lookup k (remove P (upsert k v t)) = Some v"
  by (simp add: lookup_remove lookup_upsert)

end

definition remove_keys :: "('k \<Rightarrow> bool) \<Rightarrow> ('k \<times> 'v) list \<Rightarrow> ('k \<times> 'v) list" where
  "remove_keys P t = filter (\<lambda>(k, _). \<not> P k) t"

lemma map_of_remove_keys: "map_of (remove_keys P t) k = (if P k then None else map_of t k)"
  by (induction t) (auto simp: remove_keys_def)

subsection \<open>Rows\<close>

record snapshot_row = previous_snapshot +
  sr_id :: int
  sr_captured_at :: instant
  sr_model_name :: string
  sr_serial_number :: string
  sr_firmware_version :: string
  sr_bios_version :: string
  sr_driver_version :: string
  sr_bbu_present :: bool
  sr_raw_json :: "dict option"

record event_row =
  ev_id :: int
  ev_occurred_at :: instant
  ev_severity :: severity
  ev_category :: string
  ev_subject :: string
  ev_summary :: string
  ev_before :: "dict option"
  ev_after :: "dict option"
  ev_notified_at :: "instant option"
  ev_operator_username :: "string option"

record audit_row =
  au_id :: int
  au_occurred_at :: instant
  au_actor :: string
  au_action :: string
  au_target :: string
  au_command_argv :: "string list"
  au_exit_code :: "int option"
  au_stdout_tail :: "string option"
  au_stderr_tail :: "string option"
  au_success :: bool

record maintenance_payload =
  mp_active :: bool
  mp_expires_at :: "instant option"
  mp_started_by :: "string option"

datatype state_value = MaintenanceText maintenance_payload | InstantText instant | OtherText string

datatype delivery_status = Sending | Retry | Sent | Failed | Skipped

record delivery_row =
  dl_status :: delivery_status
  dl_attempts :: int
  dl_last_attempt_at :: "instant option"
  dl_next_attempt_at :: "instant option"
  dl_delivered_at :: "instant option"
  dl_detail :: "string option"

record metrics_row =
  mr_temp_min :: "int option"
  mr_temp_max :: "int option"
  mr_temp_avg :: "rat option"
  mr_temp_count :: int
  mr_media_errors_max :: int
  mr_other_errors_max :: int
  mr_predictive_failures_max :: int
  mr_sample_count :: int

type_synonym bucket_key = "instant \<times> int \<times> int \<times> string"

record db =
  db_snapshots :: "snapshot_row list"
  db_events :: "event_row list"
  db_temp_states :: "(drive_id \<times> temp_state) list"
  db_audit :: "audit_row list"
  db_state :: "(string \<times> state_value) list"
  db_deliveries :: "(int \<times> delivery_row) list"
  db_hourly :: "(bucket_key \<times> metrics_row) list"
  db_daily :: "(bucket_key \<times> metrics_row) list"
  db_staged_metrics :: "(severity \<times> string) list"

definition empty_db :: db where
  "empty_db =
     \<lparr>db_snapshots = [], db_events = [], db_temp_states = [], db_audit = [], db_state = [],
      db_deliveries = [], db_hourly = [], db_daily = [], db_staged_metrics = []\<rparr>"

text \<open>An integer primary key gets one more than the largest in use.\<close>

definition next_id :: "int list \<Rightarrow> int" where
  "next_id ids = foldr max ids 0 + 1"

lemma next_id_gt: "i \<in> set ids \<Longrightarrow> i < next_id ids"
proof -
  have "i \<in> set ids \<Longrightarrow> i \<le> foldr max ids 0" by (induction ids) auto
  then show "i \<in> set ids \<Longrightarrow> i < next_id ids" by (simp add: next_id_def)
qed

lemma next_id_fresh: "next_id ids \<notin> set ids"
  using next_id_gt by blast

subsection \<open>Snapshots\<close>

fun storcli_datetime_to_utc :: "py_datetime \<Rightarrow> py_datetime" where
  "storcli_datetime_to_utc (Naive t) = Aware t"
| "storcli_datetime_to_utc (Aware t) = Aware t"

definition cachevault_row :: "cache_vault \<Rightarrow> cache_vault" where
  "cachevault_row cv = cv\<lparr>cvi_next_learn := map_option storcli_datetime_to_utc (cvi_next_learn cv)\<rparr>"

definition operation_state :: "dict option \<Rightarrow> dict" where
  "operation_state raw =
     List.map_filter (\<lambda>k. case col_get raw k of None \<Rightarrow> None | Some JNull \<Rightarrow> None | Some v \<Rightarrow> Some (k, v))
       [''patrol_read'', ''consistency_check'', ''physical_drive_positions'', ''foreign_config_state'']"

definition raw_column :: "bool \<Rightarrow> dict option \<Rightarrow> dict option" where
  "raw_column store_raw raw =
     (if store_raw then raw else if operation_state raw = [] then None else Some (operation_state raw))"

definition insert_snapshot :: "storcli_snapshot \<Rightarrow> bool \<Rightarrow> dict option \<Rightarrow> db \<Rightarrow> py_error + (db \<times> snapshot_row)" where
  "insert_snapshot s store_raw raw d =
     bindr (require_aware_utc (sc_captured_at s)) (\<lambda>captured.
       (let c = sc_controller s;
            row = \<lparr>ps_alarm_state = ci_alarm_state c, ps_cv_present = ci_cv_present c,
                   ps_roc_temperature = ci_roc_temperature c,
                   ps_virtual_drives = sc_virtual_drives s, ps_physical_drives = sc_physical_drives s,
                   ps_cachevault = map_option cachevault_row (sc_cachevault s),
                   sr_id = next_id (map sr_id (db_snapshots d)), sr_captured_at = captured,
                   sr_model_name = ci_model_name c, sr_serial_number = ci_serial_number c,
                   sr_firmware_version = ci_firmware_version c, sr_bios_version = ci_bios_version c,
                   sr_driver_version = ci_driver_version c, sr_bbu_present = ci_bbu_present c,
                   sr_raw_json = raw_column store_raw raw\<rparr>
        in Inr (d\<lparr>db_snapshots := db_snapshots d @ [row]\<rparr>, row)))"

text \<open>
  \<open>order_by(captured_at.desc()).limit(1)\<close>; between rows with the same instant SQL leaves the
  choice open, here the one inserted last.
\<close>

definition get_latest_snapshot :: "db \<Rightarrow> snapshot_row option" where
  "get_latest_snapshot d = best_by sr_captured_at (db_snapshots d)"

definition previous_of :: "snapshot_row \<Rightarrow> previous_snapshot" where
  "previous_of row = previous_snapshot.truncate row"

subsection \<open>Events\<close>

definition record_event ::
  "instant \<Rightarrow> severity \<Rightarrow> string \<Rightarrow> string \<Rightarrow> string \<Rightarrow> dict option \<Rightarrow> dict option \<Rightarrow> db \<Rightarrow> db \<times> event_row" where
  "record_event now severity category subject summary before after d =
     (let row = \<lparr>ev_id = next_id (map ev_id (db_events d)), ev_occurred_at = now, ev_severity = severity,
                 ev_category = category, ev_subject = subject, ev_summary = summary,
                 ev_before = before, ev_after = after, ev_notified_at = None, ev_operator_username = None\<rparr>
      in (d\<lparr>db_events := db_events d @ [row],
            db_staged_metrics := db_staged_metrics d @ [(severity, category)]\<rparr>, row))"

definition severities_at_or_above :: "string \<Rightarrow> py_error + severity list" where
  "severities_at_or_above threshold =
     (case List.find (\<lambda>s. severity_name s = threshold) [Info, Warning, Critical] of
        None \<Rightarrow> Inl ValueError
      | Some m \<Rightarrow> Inr (filter (\<lambda>s. severity_rank s \<ge> severity_rank m) [Info, Warning, Critical]))"

definition pending_before :: "event_row \<Rightarrow> instant \<times> int" where
  "pending_before e = (ev_occurred_at e, ev_id e)"

definition iter_pending_events :: "string \<Rightarrow> py_datetime \<Rightarrow> db \<Rightarrow> py_error + event_row list" where
  "iter_pending_events threshold since d =
     bindr (require_aware_utc since) (\<lambda>start.
     bindr (severities_at_or_above threshold) (\<lambda>allowed.
       Inr (sort_key pending_before
         (filter (\<lambda>e. ev_severity e \<in> set allowed \<and> ev_notified_at e = None \<and> start \<le> ev_occurred_at e)
           (db_events d)))))"

definition mark_event_notified :: "int \<Rightarrow> py_datetime \<Rightarrow> db \<Rightarrow> py_error + db" where
  "mark_event_notified i sent_at d =
     bindr (require_aware_utc sent_at) (\<lambda>t.
       if i \<in> set (map ev_id (db_events d))
       then Inr (d\<lparr>db_events := map (\<lambda>e. if ev_id e = i then e\<lparr>ev_notified_at := Some t\<rparr> else e) (db_events d)\<rparr>)
       else Inl LookupError)"

definition notified_since :: "instant \<Rightarrow> event_row \<Rightarrow> bool" where
  "notified_since start e \<longleftrightarrow> (case ev_notified_at e of None \<Rightarrow> False | Some t \<Rightarrow> start \<le> t)"

definition count_events_notified_since :: "py_datetime \<Rightarrow> db \<Rightarrow> py_error + int" where
  "count_events_notified_since since d =
     bindr (require_aware_utc since) (\<lambda>start. Inr (int (length (filter (notified_since start) (db_events d)))))"

subsection \<open>Temperature states\<close>

definition get_temp_state :: "drive_id \<Rightarrow> db \<Rightarrow> temp_state option" where
  "get_temp_state k d = map_of (db_temp_states d) k"

definition upsert_temp_state :: "drive_id \<Rightarrow> temp_state \<Rightarrow> db \<Rightarrow> db" where
  "upsert_temp_state k v d = d\<lparr>db_temp_states := AList.update k v (db_temp_states d)\<rparr>"

definition clear_temp_states :: "(drive_id \<Rightarrow> bool) \<Rightarrow> db \<Rightarrow> db" where
  "clear_temp_states P d = d\<lparr>db_temp_states := remove_keys P (db_temp_states d)\<rparr>"

definition clear_temp_state_for_slot :: "slot_id \<Rightarrow> db \<Rightarrow> db" where
  "clear_temp_state_for_slot slot d = clear_temp_states (\<lambda>(e, s, _). (e, s) = slot) d"

interpretation temps: pruned_table get_temp_state upsert_temp_state clear_temp_states
  by unfold_locales
    (simp_all add: get_temp_state_def upsert_temp_state_def clear_temp_states_def update_conv' map_of_remove_keys)

subsection \<open>Audit log\<close>

definition record_audit ::
  "instant \<Rightarrow> string \<Rightarrow> string \<Rightarrow> string \<Rightarrow> string list \<Rightarrow> int option \<Rightarrow> string option \<Rightarrow> string option \<Rightarrow> bool \<Rightarrow>
   db \<Rightarrow> db \<times> audit_row" where
  "record_audit now actor action target argv code out err success d =
     (let row = \<lparr>au_id = next_id (map au_id (db_audit d)), au_occurred_at = now, au_actor = actor,
                 au_action = action, au_target = target, au_command_argv = argv, au_exit_code = code,
                 au_stdout_tail = out, au_stderr_tail = err, au_success = success\<rparr>
      in (d\<lparr>db_audit := db_audit d @ [row]\<rparr>, row))"

subsection \<open>System state and maintenance\<close>

definition get_state :: "string \<Rightarrow> db \<Rightarrow> state_value option" where
  "get_state k d = map_of (db_state d) k"

definition set_state :: "string \<Rightarrow> state_value \<Rightarrow> db \<Rightarrow> db" where
  "set_state k v d = d\<lparr>db_state := AList.update k v (db_state d)\<rparr>"

definition remove_state :: "(string \<Rightarrow> bool) \<Rightarrow> db \<Rightarrow> db" where
  "remove_state P d = d\<lparr>db_state := remove_keys P (db_state d)\<rparr>"

definition delete_state :: "string \<Rightarrow> db \<Rightarrow> db" where
  "delete_state k d = remove_state (\<lambda>k'. k' = k) d"

interpretation sys: pruned_table get_state set_state remove_state
  by unfold_locales
    (simp_all add: get_state_def set_state_def remove_state_def update_conv' map_of_remove_keys)

definition maintenance_mode_key :: string where
  "maintenance_mode_key = ''maintenance_mode''"

definition no_maintenance :: maintenance_payload where
  "no_maintenance = \<lparr>mp_active = False, mp_expires_at = None, mp_started_by = None\<rparr>"

definition get_maintenance_state :: "py_datetime \<Rightarrow> db \<Rightarrow> py_error + maintenance_payload" where
  "get_maintenance_state now d =
     bindr (require_aware_utc now) (\<lambda>t.
       (case get_state maintenance_mode_key d of
          None \<Rightarrow> Inr no_maintenance
        | Some (MaintenanceText p) \<Rightarrow>
            Inr (case mp_expires_at p of
                   Some e \<Rightarrow> if e \<le> t then p\<lparr>mp_active := False\<rparr> else p
                 | None \<Rightarrow> p)
        | Some _ \<Rightarrow> Inl ValueError))"

definition maintenance_writes_enabled :: "bool \<Rightarrow> py_datetime \<Rightarrow> db \<Rightarrow> py_error + bool" where
  "maintenance_writes_enabled configured now d =
     (if get_state maintenance_mode_key d = None then Inr configured
      else bindr (get_maintenance_state now d) (\<lambda>p. Inr (mp_active p)))"

definition set_maintenance_state :: "bool \<Rightarrow> py_datetime option \<Rightarrow> string option \<Rightarrow> db \<Rightarrow> py_error + db" where
  "set_maintenance_state active expires_at started_by d =
     bindr (case expires_at of None \<Rightarrow> Inr None | Some e \<Rightarrow> bindr (require_aware_utc e) (\<lambda>t. Inr (Some t))) (\<lambda>e.
       Inr (set_state maintenance_mode_key
         (MaintenanceText \<lparr>mp_active = active, mp_expires_at = e, mp_started_by = started_by\<rparr>) d))"

end
