(* ===== verification/LocateActivity.thy ===== *)
theory LocateActivity
  imports Journal Database
begin

section \<open>The Locate activity tool\<close>

text \<open>
  \<open>src/scripts/locate_activity.py\<close>: an operator's tool that changes one controller property. It is a computation over its own
  trace of steps; the steps of the StorCLI runner are embedded in it. A step that writes a file carries whether the write succeeded
  (a failed write may or may not have replaced the file), and the reading of the receipt carries what was read. A run may be
  killed after any step.

  \<^item> \<open>le_digest\<close> is \<open>digest\<close> of a text, \<open>le_fingerprint\<close> of the sorted JSON of an object.
  \<^item> \<open>le_to_bool\<close> is pydantic's reading of a Boolean, \<open>le_make_url\<close> gives backend and database of an address.
  \<^item> An exception of the outside is \<open>Uncaught\<close> with the name it is reported under.
\<close>

subsection \<open>Failures and steps\<close>

datatype led_failure = Refusal string | Fault fault | Uncaught string

fun py_error_name :: "py_error \<Rightarrow> string" where
  "py_error_name ValueError = ''ValueError''"
| "py_error_name TypeError = ''TypeError''"
| "py_error_name KeyError = ''KeyError''"
| "py_error_name IndexError = ''IndexError''"
| "py_error_name OverflowError = ''OverflowError''"
| "py_error_name LookupError = ''LookupError''"
| "py_error_name RuntimeError = ''RuntimeError''"
| "py_error_name NotImplementedError = ''NotImplementedError''"
| "py_error_name OSError = ''OSError''"
| "py_error_name TimeoutError = ''TimeoutError''"

text \<open>\<open>type(error).__name__\<close>.\<close>

fun failure_name :: "led_failure \<Rightarrow> string" where
  "failure_name (Refusal _) = ''RefusedError''"
| "failure_name (Fault (Storcli e)) = error_class e"
| "failure_name (Fault (Raised e)) = py_error_name e"
| "failure_name (Uncaught name) = name"

datatype led_step =
    Run effect
  | Service_seen
  | Environment_seen string
  | Database_seen
  | Receipt_read "string + json option"
  | Receipt_put dict bool
  | Audit_copy dict bool
  | Status_put dict bool
  | Audit_new "string list" string bool
  | Audit_update int string bool bool

type_synonym 'a led = "(led_step, led_failure, 'a) steps"

type_synonym properties = "(string \<times> string) list"

record led_env =
  le_runner :: runner_env
  le_profile :: properties
  le_actor :: string
  le_properties :: "led_step list \<Rightarrow> string + properties"
  le_environ :: "led_step list \<Rightarrow> string \<Rightarrow> string + properties"
  le_versions :: "led_step list \<Rightarrow> string list"
  le_db :: "led_step list \<Rightarrow> db"
  le_instant :: "led_step list \<Rightarrow> instant"
  le_now :: "led_step list \<Rightarrow> string"
  le_receipt :: "led_step list \<Rightarrow> string + json option"
  le_put :: "led_step list \<Rightarrow> string option"
  le_new_audit :: "led_step list \<Rightarrow> string + int"
  le_audit_entry :: "led_step list \<Rightarrow> int \<Rightarrow> (string \<times> string list) option"
  le_audit_saved :: "led_step list \<Rightarrow> string option"
  le_digest :: "string \<Rightarrow> string"
  le_fingerprint :: "dict \<Rightarrow> string"
  le_to_bool :: "string \<Rightarrow> bool option"
  le_make_url :: "string \<Rightarrow> (string \<times> string option) option"

subsection \<open>Steps\<close>

definition refuse :: "string \<Rightarrow> 'a led" where
  "refuse msg = fail (Refusal msg)"

definition unless_refused :: "bool \<Rightarrow> string \<Rightarrow> unit led" where
  "unless_refused ok msg = (if ok then ret () else refuse msg)"

definition uncaught :: "string + 'a \<Rightarrow> 'a led" where
  "uncaught m = lift_sum (map_sum Uncaught id m)"

text \<open>A computation of the runner, on the steps of the runner.\<close>

definition runner_steps :: "led_step list \<Rightarrow> trace" where
  "runner_steps tr = List.map_filter (\<lambda>s. case s of Run e \<Rightarrow> Some e | _ \<Rightarrow> None) tr"

definition on_runner :: "(fault, 'a) io \<Rightarrow> 'a led" where
  "on_runner m tr =
     (case m (runner_steps tr) of (t, r) \<Rightarrow> (tr @ map Run (drop (length (runner_steps tr)) t), map_sum Fault id r))"

subsection \<open>What the controller shows\<close>

definition num_is :: "int \<Rightarrow> json option \<Rightarrow> bool" where
  "num_is n v =
     (case v of
        Some (JInt i) \<Rightarrow> i = n | Some (JFloat q _) \<Rightarrow> q = of_int n | Some (JBool b) \<Rightarrow> (if b then 1 else 0) = n | _ \<Rightarrow> False)"

definition activity_key :: string where
  "activity_key = ''Use drive activity for locate''"

definition activity_of :: "dict \<Rightarrow> string option" where
  "activity_of data =
     (case dict_get data ''Policies'' of
        Some (JObj policies) \<Rightarrow>
          (case dict_get policies activity_key of
             Some (JStr v) \<Rightarrow> if py_lower (py_strip v) \<in> set [''on'', ''off''] then Some (py_lower (py_strip v)) else None
           | _ \<Rightarrow> None)
      | _ \<Rightarrow> None)"

definition inventory_columns :: "(string \<times> string list) list" where
  "inventory_columns =
     [(''PD LIST'', [''EID:Slt'', ''DID'', ''State'', ''DG'']), (''VD LIST'', [''DG/VD'', ''TYPE'', ''State'', ''Size'']),
      (''TOPOLOGY'', [''DG'', ''Arr'', ''Row'', ''EID:Slot'', ''DID'', ''Type'', ''State''])]"

definition inventory_rows :: "dict \<Rightarrow> string \<times> string list \<Rightarrow> dict list option" where
  "inventory_rows data nk =
     (case dict_get data (fst nk) of
        Some (JArr rows) \<Rightarrow>
          if rows = [] \<or> list_ex (\<lambda>r. case r of JObj _ \<Rightarrow> False | _ \<Rightarrow> True) rows then None
          else Some (map (\<lambda>row. map (\<lambda>k. (k, get_or row k JNull)) (snd nk)) (object_rows (Some (JArr rows))))
      | _ \<Rightarrow> None)"

definition unhashable :: "json \<Rightarrow> bool" where
  "unhashable v = (case v of JArr _ \<Rightarrow> True | JObj _ \<Rightarrow> True | _ \<Rightarrow> False)"

definition column :: "string \<Rightarrow> dict list \<Rightarrow> json list" where
  "column k rows = map (\<lambda>r. get_or r k JNull) rows"

text \<open>Every section of settings without the property itself.\<close>

definition other_settings :: "dict \<Rightarrow> dict option" where
  "other_settings data =
     (case (dict_get data ''Policies'', dict_get data ''Defaults'') of
        (Some (JObj p), Some (JObj d)) \<Rightarrow>
          Some [(''Policies'', JObj (filter (\<lambda>kv. fst kv \<noteq> activity_key) p)),
                (''Defaults'', JObj (filter (\<lambda>kv. fst kv \<noteq> activity_key) d))]
      | _ \<Rightarrow> None)"

definition rows_json :: "dict list \<Rightarrow> json" where
  "rows_json rows = JArr (map JObj rows)"

definition expected_slots :: "json list" where
  "expected_slots = map (\<lambda>k. JStr (''252:'' @ show_int (int k))) [0..<8]"

definition check_array :: "command_policy \<Rightarrow> dict \<Rightarrow> dict list \<Rightarrow> dict list \<Rightarrow> led_failure + unit" where
  "check_array approval data pds vds =
     (if \<not> num_is 8 (dict_get data ''Physical Drives'') \<or> length pds \<noteq> 8 \<or>
         \<not> num_is 1 (dict_get data ''Virtual Drives'') \<or> length vds \<noteq> 1
      then Inl (Refusal ''Array inventory differs from the approved eight-drive profile'')
      else if list_ex unhashable (column ''EID:Slt'' pds) then Inl (Fault (Raised TypeError))
      else if set (column ''EID:Slt'' pds) \<noteq> set expected_slots \<or> list_ex (\<lambda>s. s \<noteq> JStr ''Onln'') (column ''State'' pds)
      then Inl (Refusal ''Physical drive membership or state changed'')
      else if get_or (hd vds) ''DG/VD'' JNull \<noteq> JStr (show_int (disk_group approval) @ ''/'' @ show_int (virtual_drive approval)) \<or>
         get_or (hd vds) ''State'' JNull \<noteq> JStr ''Optl''
      then Inl (Refusal ''Virtual drive identity or state changed'')
      else Inr ())"

definition with_fault :: "fault + 'a \<Rightarrow> led_failure + 'a" where
  "with_fault m = map_sum Fault id m"

definition or_refused :: "string \<Rightarrow> 'a option \<Rightarrow> led_failure + 'a" where
  "or_refused msg v = (case v of None \<Rightarrow> Inl (Refusal msg) | Some x \<Rightarrow> Inr x)"

text \<open>The setting and the fingerprint of everything else.\<close>

definition locate_observation :: "(dict \<Rightarrow> string) \<Rightarrow> dict \<Rightarrow> command_policy \<Rightarrow> led_failure + string \<times> string" where
  "locate_observation digest_of payload approval =
     bindr (with_fault (ensure_command_succeeded payload)) (\<lambda>_.
     bindr (with_fault (parse_controller_show_all payload)) (\<lambda>controller.
       if ci_serial_number controller \<noteq> controller_serial approval \<or> ci_model_name controller \<noteq> expected_model
       then Inl (Refusal ''Controller identity changed'')
       else let data = response_of payload in
         bindr (or_refused ''Locate activity setting is unknown'' (activity_of data)) (\<lambda>mode.
         bindr (map_res (\<lambda>nk. or_refused ''Array inventory is incomplete'' (inventory_rows data nk)) inventory_columns) (\<lambda>inventory.
         bindr (check_array approval data (inventory ! 0) (inventory ! 1)) (\<lambda>_.
         bindr (or_refused ''Controller settings are incomplete'' (other_settings data)) (\<lambda>settings.
           Inr (mode, digest_of (zip (map fst inventory_columns) (map rows_json inventory) @
                                   [(''controller_settings'', JObj settings)]))))))))"

subsection \<open>The guard\<close>

definition baseline :: string where
  "baseline = ''27af3da95318ce3f902eaa9bf6a86dad89710da2''"

definition expected_service :: properties where
  "expected_service =
     [(''User'', ''megaraid''), (''Group'', ''megaraid''), (''ActiveState'', ''active''), (''SubState'', ''running''),
      (''WorkingDirectory'', ''/opt/megaraid-dashboard-ui-27af3da'')]"

definition same_properties :: "properties \<Rightarrow> properties \<Rightarrow> bool" where
  "same_properties a b = list_all (\<lambda>k. map_of a k = map_of b k) (map fst (a @ b))"

definition value_or :: "properties \<Rightarrow> string \<Rightarrow> string \<Rightarrow> string" where
  "value_or env k v = (case map_of env k of None \<Rightarrow> v | Some x \<Rightarrow> x)"

definition check_service :: "properties \<Rightarrow> properties \<Rightarrow> led_failure + unit" where
  "check_service profile current =
     (if \<not> same_properties current profile \<or> list_ex (\<lambda>(k, v). map_of current k \<noteq> Some v) expected_service
      then Inl (Refusal ''The running application baseline changed'') else Inr ())"

definition locate_database :: string where
  "locate_database = ''/var/lib/megaraid-dashboard/megaraid.db''"

definition check_environment :: "led_env \<Rightarrow> properties \<Rightarrow> led_failure + unit" where
  "check_environment w env =
     (case le_make_url w (value_or env ''DATABASE_URL'' ''sqlite://'') of
        None \<Rightarrow> Inl (Uncaught ''ArgumentError'')
      | Some (backend, file) \<Rightarrow>
          (case le_to_bool w (value_or env ''CONTROLLER_READ_ONLY'' ''true'') of
             None \<Rightarrow> Inl (Uncaught ''ValidationError'')
           | Some read_only \<Rightarrow>
               if read_only \<or> map_of env ''CONTROLLER_ACTION_CAPABILITY'' \<noteq> Some ''full-supported-actions'' \<or>
                  map_of env ''GIT_SHA'' \<noteq> Some baseline \<or> backend \<noteq> ''sqlite'' \<or> file \<noteq> Some locate_database
               then Inl (Refusal ''The reviewed runtime profile changed'') else Inr ()))"

definition check_window :: "bool \<Rightarrow> string list \<Rightarrow> instant \<Rightarrow> db \<Rightarrow> led_failure + unit" where
  "check_window maintenance versions now d =
     (if versions \<noteq> [''0009_event_deliveries''] then Inl (Refusal ''Database schema differs'')
      else case get_maintenance_state (Aware now) d of
        Inl e \<Rightarrow> Inl (Fault (Raised e))
      | Inr window \<Rightarrow>
          if maintenance \<and> (\<not> mp_active window \<or> mp_expires_at window = None)
          then Inl (Refusal ''Open an explicit maintenance window in the UI first'') else Inr ())"

text \<open>The command policy and the binary are read by the functions of \<open>storcli/policy.py\<close>, like the runner does.\<close>

definition policy_at :: "led_env \<Rightarrow> string \<Rightarrow> command_policy led" where
  "policy_at w path =
     andthen (on_runner (perform (LoadPolicy path) (\<lambda>tr. load_policy (le_runner w) tr path))) (\<lambda>r.
       case r of Inl _ \<Rightarrow> fail (Fault (Raised ValueError)) | Inr p \<Rightarrow> ret p)"

definition binary_verified :: "led_env \<Rightarrow> unit led" where
  "binary_verified w =
     andthen (on_runner (perform (VerifyBinary pinned_binary) (\<lambda>tr. verify_pinned_binary (le_runner w) tr pinned_binary))) (\<lambda>r.
       case r of Inl _ \<Rightarrow> fail (Fault (Raised ValueError)) | Inr u \<Rightarrow> ret ())"

definition service_environment :: "led_env \<Rightarrow> properties \<Rightarrow> properties led" where
  "service_environment w current =
     (case map_of current ''MainPID'' of
        None \<Rightarrow> fail (Fault (Raised KeyError))
      | Some pid \<Rightarrow> andthen (perform (Environment_seen pid) (\<lambda>tr. le_environ w tr pid)) uncaught)"

definition host_guard :: "led_env \<Rightarrow> bool \<Rightarrow> unit led" where
  "host_guard w maintenance =
     andthen (andthen (perform Service_seen (le_properties w)) uncaught) (\<lambda>current.
     andthen (lift_sum (check_service (le_profile w) current)) (\<lambda>_.
     andthen (service_environment w current) (\<lambda>env.
     andthen (lift_sum (check_environment w env)) (\<lambda>_.
     andthen (binary_verified w) (\<lambda>_.
     andthen (perform Database_seen (\<lambda>tr. (le_versions w tr, le_instant w tr, le_db w tr))) (\<lambda>(versions, now, d).
       lift_sum (check_window maintenance versions now d)))))))"

subsection \<open>Records of an attempt\<close>

definition with_entries :: "dict \<Rightarrow> (string \<times> json) list \<Rightarrow> dict" where
  "with_entries d kvs = fold (\<lambda>(k, v) d. dict_put (Some d) k v) kvs d"

text \<open>The receipt after \<open>phase\<close> has updated it.\<close>

definition phased :: "dict \<Rightarrow> string \<Rightarrow> string \<Rightarrow> (string \<times> json) list \<Rightarrow> dict" where
  "phased receipt state now extra = with_entries receipt ([(''state'', JStr state), (''updated_at'', JStr now)] @ extra)"

definition public_keys :: "string list" where
  "public_keys =
     [''state'', ''updated_at'', ''before'', ''target'', ''observed'', ''command_confirmed'', ''array_state_preserved'',
      ''other_settings_preserved'', ''write_dispatched'', ''audit_id'']"

definition public_view :: "dict \<Rightarrow> dict" where
  "public_view receipt =
     dict_put (Some (filter (\<lambda>kv. fst kv \<in> set public_keys) receipt)) ''software_cannot_verify_physical_led'' (JBool True)"

definition put :: "led_env \<Rightarrow> (dict \<Rightarrow> bool \<Rightarrow> led_step) \<Rightarrow> dict \<Rightarrow> unit led" where
  "put w mk d =
     andthen (observe (\<lambda>failed. mk d (failed = None)) (le_put w)) (\<lambda>failed.
       case failed of None \<Rightarrow> ret () | Some err \<Rightarrow> fail (Uncaught err))"

definition write_phase :: "led_env \<Rightarrow> dict \<Rightarrow> dict led" where
  "write_phase w receipt =
     andthen (put w Receipt_put receipt) (\<lambda>_.
     andthen (put w Audit_copy receipt) (\<lambda>_.
     andthen (put w Status_put (public_view receipt)) (\<lambda>_. ret (public_view receipt))))"

text \<open>A new audit row, and the outcome of one that exists.\<close>

definition audit_intent :: "led_env \<Rightarrow> string list \<Rightarrow> string \<Rightarrow> int led" where
  "audit_intent w argv outcome =
     andthen (observe (\<lambda>r. Audit_new argv outcome (\<not> isl r)) (le_new_audit w)) uncaught"

definition audit_outcome :: "led_env \<Rightarrow> string list \<Rightarrow> int \<Rightarrow> string \<Rightarrow> bool \<Rightarrow> unit led" where
  "audit_outcome w argv audit_id outcome success =
     andthen (perform Database_seen (\<lambda>tr. le_audit_entry w tr audit_id)) (\<lambda>entry.
       if entry \<noteq> Some (le_actor w, argv) then refuse ''Audit intent identity differs''
       else andthen (observe (\<lambda>failed. Audit_update audit_id outcome success (failed = None)) (le_audit_saved w)) (\<lambda>failed.
         case failed of None \<Rightarrow> ret () | Some err \<Rightarrow> fail (Uncaught err)))"

subsection \<open>Talking to the controller\<close>

definition locate_config :: run_config where
  "locate_config = \<lparr>use_sudo = False, binary_path = pinned_binary, timeout_text = ''30.0''\<rparr>"

definition approval_path :: string where
  "approval_path = ''/var/lib/megaraid-dashboard-led-maintenance/private/approval.json''"

definition baseline_policy_path :: string where
  "baseline_policy_path = ''/etc/megaraid-dashboard-rollout/actions.json''"

definition activity_argv :: "string \<Rightarrow> string list" where
  "activity_argv mode = [''/c0'', ''set'', ''activityforlocate='' @ mode, ''J'']"

definition host_read :: "led_env \<Rightarrow> dict led" where
  "host_read w = on_runner (run_read (le_runner w) locate_config controller_show)"

definition read_observation :: "led_env \<Rightarrow> command_policy \<Rightarrow> (string \<times> string) led" where
  "read_observation w approval =
     andthen (host_read w) (\<lambda>payload. lift_sum (locate_observation (le_fingerprint w) payload approval))"

text \<open>
  \<open>execute\<close> around its \<open>before_write\<close>: what the runner does before it calls it, and the dispatch after it returned.
\<close>

definition execute_prepare :: "led_env \<Rightarrow> string \<Rightarrow> unit led" where
  "execute_prepare w mode =
     on_runner (andthen (validate_io (activity_argv mode)) (\<lambda>_.
       preflight (le_runner w) locate_config approval_path None (activity_argv mode)))"

definition execute_dispatch :: "led_env \<Rightarrow> string \<Rightarrow> dict led" where
  "execute_dispatch w mode = on_runner (dispatch (le_runner w) locate_config True (activity_argv mode))"

subsection \<open>An attempt\<close>

text \<open>
  The \<open>try\<close> block of \<open>operate\<close>: the receipt as the block leaves it, whether the command was confirmed, and the result. The
  callback updates the receipt in memory before it writes it.
\<close>

definition readback :: "led_env \<Rightarrow> command_policy \<Rightarrow> string \<Rightarrow> string \<Rightarrow> string led" where
  "readback w approval target topology =
     andthen (read_observation w approval) (\<lambda>(observed, after_topology).
     andthen (unless_refused (observed = target \<and> after_topology = topology) ''Readback or array preservation check failed'') (\<lambda>_.
       ret observed))"

definition send_confirmed :: "led_env \<Rightarrow> string \<Rightarrow> unit led" where
  "send_confirmed w target =
     andthen (execute_dispatch w target) (\<lambda>result. lift_sum (with_fault (ensure_command_succeeded result)))"

definition attempt ::
  "led_env \<Rightarrow> command_policy \<Rightarrow> string \<Rightarrow> string \<Rightarrow> dict \<Rightarrow> (dict \<times> bool \<times> (led_failure + string)) led" where
  "attempt w approval target topology intent =
     andthen (caught (andthen (execute_prepare w target) (\<lambda>_. host_guard w True))) (\<lambda>ready.
       case ready of Inl f \<Rightarrow> ret (intent, False, Inl f) | Inr _ \<Rightarrow>
     andthen (clock (le_now w)) (\<lambda>now.
       let sending = phased intent ''dispatching'' now [(''write_dispatched'', JBool True)]
       in andthen (caught (write_phase w sending)) (\<lambda>noted.
            case noted of Inl f \<Rightarrow> ret (sending, False, Inl f) | Inr _ \<Rightarrow>
          andthen (caught (send_confirmed w target)) (\<lambda>sent.
            case sent of Inl f \<Rightarrow> ret (sending, False, Inl f) | Inr _ \<Rightarrow>
          andthen (caught (readback w approval target topology)) (\<lambda>seen. ret (sending, True, seen))))))"

text \<open>\<open>original\<close> is the receipt of the change to restore.\<close>

definition pinned_sha256 :: string where
  "pinned_sha256 = ''642fff8a3976dbc85406d9f7e8f5f5ce4ceab2753ac68cab5245888b281c8547''"

definition intent_of ::
  "led_env \<Rightarrow> command_policy \<Rightarrow> bool \<Rightarrow> string \<Rightarrow> string \<Rightarrow> dict option \<Rightarrow> dict" where
  "intent_of w approval restoring mode topology original =
     [(''before'', JStr mode), (''target'', JStr (if restoring then ''off'' else ''on'')), (''topology_sha256'', JStr topology),
      (''controller_sha256'', JStr (le_digest w (controller_serial approval))), (''actor'', JStr (le_actor w)),
      (''binary_sha256'', JStr pinned_sha256), (''write_dispatched'', JBool False), (''command_confirmed'', JBool False)] @
     (if restoring then [(''restore_of'', (case original of None \<Rightarrow> JNull | Some r \<Rightarrow> JObj r))] else [])"

definition record_failure ::
  "led_env \<Rightarrow> string list \<Rightarrow> int \<Rightarrow> dict \<Rightarrow> bool \<Rightarrow> led_failure \<Rightarrow> dict led" where
  "record_failure w argv audit_id receipt confirmed f =
     (let state = (if dict_get receipt ''write_dispatched'' = Some (JBool True) then ''uncertain'' else ''not_sent'')
      in andthen (clock (le_now w)) (\<lambda>now.
         andthen (write_phase w (phased receipt state now
            [(''command_confirmed'', JBool confirmed), (''error_type'', JStr (failure_name f))])) (\<lambda>_.
         andthen (audit_outcome w argv audit_id (state @ '': '' @ failure_name f) False) (\<lambda>_.
           refuse ''Inspect the durable receipt and audit; no automatic retry''))))"

definition record_success ::
  "led_env \<Rightarrow> string list \<Rightarrow> int \<Rightarrow> string \<Rightarrow> string \<Rightarrow> dict \<Rightarrow> string \<Rightarrow> dict led" where
  "record_success w argv audit_id outcome final receipt observed =
     andthen (clock (le_now w)) (\<lambda>now.
       let verified = phased receipt ''verified_pending_audit'' now
             [(''command_confirmed'', JBool True), (''observed'', JStr observed),
              (''array_state_preserved'', JBool True), (''other_settings_preserved'', JBool True)]
       in andthen (write_phase w verified) (\<lambda>_.
          andthen (audit_outcome w argv audit_id outcome True) (\<lambda>_.
          andthen (clock (le_now w)) (\<lambda>later. write_phase w (phased verified final later [])))))"

definition locate_attempt ::
  "led_env \<Rightarrow> command_policy \<Rightarrow> bool \<Rightarrow> string \<Rightarrow> string \<Rightarrow> dict option \<Rightarrow> dict led" where
  "locate_attempt w approval restoring mode topology original =
     (let target = (if restoring then ''off'' else ''on''); argv = activity_argv target
      in andthen (audit_intent w argv ''prepared; command not sent'') (\<lambda>audit_id.
         andthen (clock (le_now w)) (\<lambda>now.
           let prepared = phased (with_entries (intent_of w approval restoring mode topology original)
                 [(''audit_id'', JInt audit_id)]) ''prepared'' now []
           in andthen (write_phase w prepared) (\<lambda>_.
              andthen (attempt w approval target topology prepared) (\<lambda>(receipt, confirmed, result).
                case result of
                  Inl f \<Rightarrow> record_failure w argv audit_id receipt confirmed f
                | Inr observed \<Rightarrow>
                    record_success w argv audit_id (''verified '' @ mode @ '' -> '' @ target)
                      (if restoring then ''restored'' else ''verified'') receipt observed)))))"

subsection \<open>One call\<close>

text \<open>The receipt a reading gives: any JSON value; what is not an object has no \<open>get\<close>.\<close>

definition read_receipt :: "led_env \<Rightarrow> string \<Rightarrow> dict option led" where
  "read_receipt w serial =
     andthen (andthen (observe Receipt_read (le_receipt w)) uncaught) (\<lambda>content.
       case content of
         None \<Rightarrow> ret None
       | Some (JObj r) \<Rightarrow>
           if dict_get r ''controller_sha256'' \<noteq> Some (JStr (le_digest w serial)) \<or>
              dict_get r ''binary_sha256'' \<noteq> Some (JStr pinned_sha256)
           then refuse ''Receipt identity differs'' else ret (Some r)
       | Some _ \<Rightarrow> fail (Uncaught ''AttributeError''))"

text \<open>May an earlier attempt with this receipt be followed by another?\<close>

definition may_follow :: "dict \<Rightarrow> led_failure + bool" where
  "may_follow r =
     (case dict_get r ''state'' of
        None \<Rightarrow> Inl (Fault (Raised KeyError))
      | Some v \<Rightarrow>
          if unhashable v then Inl (Fault (Raised TypeError))
          else Inr (v \<in> set [JStr ''verified'', JStr ''restored''] \<or>
                    v = JStr ''not_sent'' \<and> dict_get r ''write_dispatched'' = Some (JBool False)))"

definition restorable :: "led_env \<Rightarrow> string \<Rightarrow> dict \<Rightarrow> bool" where
  "restorable w serial r \<longleftrightarrow>
     dict_get r ''state'' = Some (JStr ''verified'') \<and> dict_get r ''before'' = Some (JStr ''off'') \<and>
     dict_get r ''target'' = Some (JStr ''on'') \<and> dict_get r ''command_confirmed'' = Some (JBool True) \<and>
     dict_get r ''controller_sha256'' = Some (JStr (le_digest w serial)) \<and>
     dict_get r ''binary_sha256'' = Some (JStr pinned_sha256)"

text \<open>The receipt of the change a restore undoes.\<close>

definition restore_original :: "dict option \<Rightarrow> dict option" where
  "restore_original receipt =
     (case receipt of
        None \<Rightarrow> None
      | Some r \<Rightarrow>
          if dict_get r ''state'' = Some (JStr ''not_sent'')
          then (case dict_get r ''restore_of'' of Some (JObj earlier) \<Rightarrow> Some earlier | _ \<Rightarrow> None) else Some r)"

definition no_write :: "(string \<times> json) list \<Rightarrow> dict" where
  "no_write kvs = kvs @ [(''controller_writes_executed'', JBool False)]"

definition locate_commands :: "string list" where
  "locate_commands = [''/c0 set activityforlocate=off J'', ''/c0 set activityforlocate=on J'']"

definition checked_approval :: "led_env \<Rightarrow> command_policy led" where
  "checked_approval w =
     andthen (policy_at w approval_path) (\<lambda>approval.
       if set (map ac_command (commands approval)) \<noteq> set locate_commands
       then refuse ''Private approval differs from the approved single property''
       else andthen (policy_at w baseline_policy_path) (\<lambda>reviewed.
              if controller_serial approval \<noteq> controller_serial reviewed
              then refuse ''Private approval differs from the approved single property'' else ret approval))"

definition change_activity ::
  "led_env \<Rightarrow> command_policy \<Rightarrow> bool \<Rightarrow> string \<Rightarrow> string \<Rightarrow> dict option \<Rightarrow> dict led" where
  "change_activity w approval restoring mode topology receipt =
     andthen (case receipt of None \<Rightarrow> ret True | Some r \<Rightarrow> lift_sum (may_follow r)) (\<lambda>ok.
     andthen (unless_refused ok ''Earlier attempt needs inspection; no automatic retry'') (\<lambda>_.
       let original = restore_original receipt
       in andthen (unless_refused
            (\<not> restoring \<or> (case original of None \<Rightarrow> False | Some r \<Rightarrow> restorable w (controller_serial approval) r))
            ''No matching verified change to restore'') (\<lambda>_.
          andthen (host_guard w True) (\<lambda>_. locate_attempt w approval restoring mode topology original))))"

definition report_status :: "string \<Rightarrow> dict option \<Rightarrow> dict led" where
  "report_status mode receipt =
     (case receipt of
        None \<Rightarrow> ret (no_write [(''state'', JStr ''observed''), (''current_mode'', JStr mode), (''receipt_state'', JNull)])
      | Some r \<Rightarrow>
          (case dict_get r ''state'' of
             None \<Rightarrow> fail (Fault (Raised KeyError))
           | Some state \<Rightarrow>
               ret (no_write [(''state'', JStr ''observed''), (''current_mode'', JStr mode), (''receipt_state'', state)])))"

definition act ::
  "led_env \<Rightarrow> command_policy \<Rightarrow> string \<Rightarrow> string \<Rightarrow> string \<Rightarrow> dict option \<Rightarrow> dict led" where
  "act w approval action mode topology receipt =
     (if action = ''status'' then report_status mode receipt
      else if action = ''plan'' then
        ret (no_write [(''state'', JStr ''plan_verified''), (''current_mode'', JStr mode), (''target'', JStr ''on'')])
      else
        (let target = (if action = ''apply'' then ''on'' else ''off'')
         in if mode = target then ret (no_write [(''state'', JStr (''already_'' @ target)), (''current_mode'', JStr mode)])
            else change_activity w approval (action = ''restore'') mode topology receipt))"

definition operate :: "led_env \<Rightarrow> string \<Rightarrow> dict led" where
  "operate w action =
     andthen (unless_refused (action \<in> set [''plan'', ''apply'', ''status'', ''restore'']) ''Unknown maintenance action'') (\<lambda>_.
     andthen (host_guard w False) (\<lambda>_.
     andthen (checked_approval w) (\<lambda>approval.
     andthen (read_observation w approval) (\<lambda>(mode, topology).
     andthen (read_receipt w (controller_serial approval)) (\<lambda>receipt.
       act w approval action mode topology receipt)))))"

subsection \<open>Preparing the approval\<close>

text \<open>An entry of the file system: whether every part of its path is controlled by root, whether it is a directory, its mode.\<close>

datatype dir_entry = Absent | Present bool bool nat

record prepare_view =
  pv_parent_protected :: bool
  pv_root :: dir_entry
  pv_private :: dir_entry
  pv_help :: "string + string"
  pv_approval :: "(string + command_policy) option"

text \<open>\<open>True\<close>: the directory is created.\<close>

definition prepare_directory :: "dir_entry \<Rightarrow> nat \<Rightarrow> led_failure + bool" where
  "prepare_directory entry mode =
     (case entry of
        Absent \<Rightarrow> Inr True
      | Present protected directory found \<Rightarrow>
          if \<not> protected then Inl (Uncaught ''DeployError'')
          else if \<not> directory \<or> found \<noteq> mode then Inl (Refusal ''Existing maintenance directory permissions differ'')
          else Inr False)"

definition help_hash :: string where
  "help_hash = ''c4b8eb58c45c0a6eed3baddd3ca6891af0c09541cf3ee135277bdd506cdeae08''"

definition locate_approval :: "command_policy \<Rightarrow> string + command_policy" where
  "locate_approval reviewed =
     validate_commands (reviewed\<lparr>commands :=
       map (\<lambda>c. \<lparr>ac_command = c, ac_evidence = ''Operator-approved Locate activity setup; pinned help SHA256 '' @ help_hash\<rparr>)
         locate_commands\<rparr>)"

text \<open>The directories created and the approval written.\<close>

definition host_prepare :: "led_env \<Rightarrow> prepare_view \<Rightarrow> (bool \<times> bool \<times> command_policy option) led" where
  "host_prepare w v =
     andthen (host_guard w False) (\<lambda>_.
     andthen (lift_sum (if pv_parent_protected v then Inr () else Inl (Uncaught ''DeployError''))) (\<lambda>_.
     andthen (lift_sum (prepare_directory (pv_root v) (7 * 64 + 5 * 8 + 5))) (\<lambda>new_root.
     andthen (lift_sum (prepare_directory (pv_private v) (7 * 64))) (\<lambda>new_private.
     andthen (uncaught (pv_help v)) (\<lambda>help_text.
     andthen (unless_refused (str_in ''storcli /cx set activityforlocate=<on|off>'' help_text)
        ''Pinned help does not approve the exact property syntax'') (\<lambda>_.
     andthen (policy_at w baseline_policy_path) (\<lambda>reviewed.
     andthen (case locate_approval reviewed of Inl _ \<Rightarrow> fail (Uncaught ''ValidationError'') | Inr p \<Rightarrow> ret p) (\<lambda>approved.
       case pv_approval v of
         None \<Rightarrow> ret (new_root, new_private, Some approved)
       | Some (Inl _) \<Rightarrow> fail (Fault (Raised ValueError))
       | Some (Inr existing) \<Rightarrow>
           if existing \<noteq> approved then refuse ''Existing private approval differs''
           else ret (new_root, new_private, None)))))))))"

text \<open>What the tool prints, with its exit status.\<close>

definition locate_report :: "led_failure + dict \<Rightarrow> int \<times> dict" where
  "locate_report r =
     (case r of
        Inr result \<Rightarrow> (0, result)
      | Inl f \<Rightarrow>
          (1, [(''state'', JStr ''refused_or_failed''), (''error'', JStr (failure_name f)),
               (''detail'', JStr (case f of Refusal msg \<Rightarrow> msg | _ \<Rightarrow> ''Inspect protected receipt and audit''))]))"

end
