(* ===== verification/LocateJournal.thy ===== *)
theory LocateJournal
  imports LocateActivity
begin

section \<open>The journal of the Locate activity tool\<close>

text \<open>
  A history is any sequence of calls, each of which may be killed after any step. Over all histories a write is announced before it
  is sent and is never repeated while its outcome is open, and switching the property off undoes a verified change.
\<close>

subsection \<open>Histories\<close>

text \<open>Calls run one after the other: the tool holds the deployment lock. The outside may differ from call to call.\<close>

inductive led_history :: "led_step list \<Rightarrow> bool" where
  fresh: "led_history []"
| run: "led_history tr \<Longrightarrow> prefix tr tr' \<Longrightarrow> prefix tr' (fst (operate w action tr)) \<Longrightarrow> led_history tr'"

text \<open>The file of the receipt keeps what is written to it: \<open>cs\<close> is what it may hold.\<close>

fun receipts_kept :: "json option list \<Rightarrow> led_step list \<Rightarrow> bool" where
  "receipts_kept cs [] = True"
| "receipts_kept cs (s # tr) =
     (case s of
        Receipt_put r ok \<Rightarrow> receipts_kept (if ok then [Some (JObj r)] else Some (JObj r) # cs) tr
      | Receipt_read (Inr v) \<Rightarrow> v \<in> set cs \<and> receipts_kept cs tr
      | _ \<Rightarrow> receipts_kept cs tr)"

definition write_step :: "led_step \<Rightarrow> bool" where
  "write_step s = (case s of Run (Exec argv) \<Rightarrow> ''show'' \<notin> set argv | _ \<Rightarrow> False)"

definition switches_off :: "led_step \<Rightarrow> bool" where
  "switches_off s \<longleftrightarrow> s = Run (Exec (argv_of locate_config (activity_argv ''off'')))"

definition closes_attempt :: "dict \<Rightarrow> bool" where
  "closes_attempt r \<longleftrightarrow> dict_get r ''state'' \<in> {Some (JStr ''verified''), Some (JStr ''restored'')}"

definition undoable :: "dict \<Rightarrow> bool" where
  "undoable r \<longleftrightarrow>
     dict_get r ''state'' = Some (JStr ''verified'') \<and> dict_get r ''before'' = Some (JStr ''off'') \<and>
     dict_get r ''target'' = Some (JStr ''on'') \<and> dict_get r ''command_confirmed'' = Some (JBool True)"

definition announces :: "dict \<Rightarrow> bool" where
  "announces r \<longleftrightarrow> dict_get r ''state'' = Some (JStr ''dispatching'') \<and> dict_get r ''write_dispatched'' = Some (JBool True)"

subsection \<open>The monitor\<close>

text \<open>
  \<open>lm_contents\<close>: what the receipt file may hold; \<open>lm_pending\<close>: a write without a closing receipt; \<open>lm_undoable\<close>: a verified change was
  recorded; \<open>lm_audited\<close>: an audit row was stored since the last write; \<open>lm_recent\<close>: the last three steps; \<open>lm_lied\<close>: the file
  did not keep a receipt; \<open>lm_bad\<close>: a write broke a rule.
\<close>

record led_monitor =
  lm_contents :: "json option list"
  lm_pending :: bool
  lm_undoable :: bool
  lm_audited :: bool
  lm_recent :: "led_step list"
  lm_lied :: bool
  lm_bad :: bool

definition announced :: "led_step list \<Rightarrow> bool" where
  "announced recent \<longleftrightarrow> (\<exists>r. recent = [Status_put (public_view r) True, Audit_copy r True, Receipt_put r True] \<and> announces r)"

definition led_watch :: "led_monitor \<Rightarrow> led_step \<Rightarrow> led_monitor" where
  "led_watch m s =
     (let m' = m\<lparr>lm_recent := take 3 (s # lm_recent m)\<rparr>
      in case s of
        Receipt_put r ok \<Rightarrow>
          m'\<lparr>lm_contents := (if ok then [Some (JObj r)] else Some (JObj r) # lm_contents m),
             lm_pending := (lm_pending m \<and> \<not> closes_attempt r), lm_undoable := (lm_undoable m \<or> undoable r)\<rparr>
      | Receipt_read (Inr v) \<Rightarrow> m'\<lparr>lm_lied := (lm_lied m \<or> v \<notin> set (lm_contents m))\<rparr>
      | Audit_new argv outcome saved \<Rightarrow> m'\<lparr>lm_audited := (lm_audited m \<or> saved)\<rparr>
      | _ \<Rightarrow>
          if write_step s
          then m'\<lparr>lm_bad := (lm_bad m \<or> lm_pending m \<or> \<not> lm_audited m \<or> \<not> announced (lm_recent m) \<or>
                       switches_off s \<and> \<not> lm_undoable m),
                  lm_pending := True, lm_audited := False\<rparr>
          else m')"

definition led_start :: led_monitor where
  "led_start = \<lparr>lm_contents = [None], lm_pending = False, lm_undoable = False, lm_audited = False, lm_recent = [],
     lm_lied = False, lm_bad = False\<rparr>"

text \<open>A receipt that stops every further attempt, and what a restore may take from a content of the file.\<close>

definition stops :: "json option \<Rightarrow> bool" where
  "stops c \<longleftrightarrow> (\<exists>r. c = Some (JObj r) \<and> may_follow r \<noteq> Inr True)"

definition offers_restore :: "json option \<Rightarrow> bool" where
  "offers_restore c \<longleftrightarrow> (\<exists>r earlier. c = Some (JObj r) \<and> restore_original (Some r) = Some earlier \<and> undoable earlier)"

definition led_safe :: "led_monitor \<Rightarrow> bool" where
  "led_safe m \<longleftrightarrow> lm_lied m \<or>
     \<not> lm_bad m \<and> (lm_pending m \<longrightarrow> list_all stops (lm_contents m)) \<and>
     (\<not> lm_undoable m \<longrightarrow> list_all (\<lambda>c. \<not> offers_restore c) (lm_contents m))"

interpretation led: monitored led_watch led_start led_safe
  by unfold_locales (simp add: led_safe_def led_start_def offers_restore_def)

subsection \<open>Steps the monitor does not notice\<close>

definition quiet_step :: "led_step \<Rightarrow> bool" where
  "quiet_step s \<longleftrightarrow> \<not> write_step s \<and> (case s of Receipt_put _ _ \<Rightarrow> False | Receipt_read _ \<Rightarrow> False | _ \<Rightarrow> True)"

interpretation quiet_led: trace_discipline "list_all quiet_step"
  by unfold_locales auto

definition ready :: "bool \<Rightarrow> led_monitor \<Rightarrow> bool" where
  "ready restoring m \<longleftrightarrow> led_safe m \<and> (lm_lied m \<or> \<not> lm_pending m \<and> (restoring \<longrightarrow> lm_undoable m))"

definition audited_ready :: "bool \<Rightarrow> led_monitor \<Rightarrow> bool" where
  "audited_ready restoring m \<longleftrightarrow> ready restoring m \<and> lm_audited m"

lemma quiet_watch:
  assumes "quiet_step e"
  shows "led_watch m e = m\<lparr>lm_recent := take 3 (e # lm_recent m), lm_audited := lm_audited (led_watch m e)\<rparr>"
    "lm_audited m \<Longrightarrow> lm_audited (led_watch m e)"
  using assms by (auto simp: led_watch_def quiet_step_def Let_def split: led_step.split sum.split)

lemma quiet_keeps:
  assumes "quiet_step e"
  shows "led_safe m \<Longrightarrow> led_safe (led_watch m e)" "ready restoring m \<Longrightarrow> ready restoring (led_watch m e)"
    "audited_ready restoring m \<Longrightarrow> audited_ready restoring (led_watch m e)"
  using quiet_watch(2) [OF assms, of m]
  by (subst quiet_watch(1) [OF assms]; simp add: led_safe_def ready_def audited_ready_def)+

lemma ready_safe: "ready restoring m \<Longrightarrow> led_safe m" "audited_ready restoring m \<Longrightarrow> led_safe m"
  by (simp_all add: ready_def audited_ready_def)

lemma quietly:
  assumes "extends_by (list_all quiet_step) m"
  shows "led.upholds led_safe m (\<lambda>_. led_safe) (\<lambda>_. led_safe)"
    "led.upholds (ready restoring) m (\<lambda>_. ready restoring) (\<lambda>_. ready restoring)"
    "led.upholds (audited_ready restoring) m (\<lambda>_. audited_ready restoring) (\<lambda>_. audited_ready restoring)"
  by (rule led.upholds_stable [OF assms]; use quiet_keeps ready_safe in blast)+

lemma on_runner_quiet:
  assumes "extends_by (reads_only cfg) m"
  shows "extends_by (list_all quiet_step) (on_runner m)"
  unfolding extends_by_def
proof
  fix tr
  obtain t r where m: "m (runner_steps tr) = (t, r)" by (cases "m (runner_steps tr)")
  obtain new where new: "t = runner_steps tr @ new" "reads_only cfg new" using extends_byE [OF assms m] by blast
  have "list_all quiet_step (map Run new)"
    using new(2) by (fastforce simp: list_all_iff quiet_step_def write_step_def reads_only_def argv_of_def split: effect.split)
  then show "\<exists>new. fst (on_runner m tr) = tr @ new \<and> list_all quiet_step new"
    using m new(1) by (auto simp: on_runner_def)
qed

lemma ext_observe: "(\<And>x. quiet_step (mk x)) \<Longrightarrow> extends_by (list_all quiet_step) (observe mk f)"
  by (simp add: extends_by_def observe_def)

lemma ext_clock: "extends_by (list_all quiet_step) (clock f)"
  by (simp add: extends_by_def clock_def)

lemma fst_caught [simp]: "fst (caught m tr) = fst (m tr)"
  by (simp add: caught_def split: prod.split)

lemma ext_caught: "extends_by ok m \<Longrightarrow> extends_by ok (caught m)"
  by (simp add: extends_by_def)

lemma quiet_steps [simp]:
  "quiet_step Service_seen" "quiet_step (Environment_seen pid)" "quiet_step Database_seen"
  "quiet_step (Audit_new a t b)" "quiet_step (Audit_update i t b c)" "quiet_step (Audit_copy r b)" "quiet_step (Status_put r b)"
  by (simp_all add: quiet_step_def write_step_def)

lemmas ext_quiet = quiet_led.ext_andthen quiet_led.ext_lift_sum quiet_led.ext_perform quiet_led.ext_ret quiet_led.ext_fail
  ext_observe ext_clock

lemma policy_at_quiet: "extends_by (list_all quiet_step) (policy_at w path)"
proof -
  have "extends_by (reads_only cfg) (perform (LoadPolicy path) f)" for cfg f
    by (rule reads.ext_perform) (simp add: reads_only_def)
  then show ?thesis unfolding policy_at_def
    by (intro ext_quiet on_runner_quiet) (auto intro: ext_quiet split: sum.split)
qed

lemma binary_verified_quiet: "extends_by (list_all quiet_step) (binary_verified w)"
proof -
  have "extends_by (reads_only cfg) (perform (VerifyBinary path) f)" for cfg f path
    by (rule reads.ext_perform) (simp add: reads_only_def)
  then show ?thesis unfolding binary_verified_def
    by (intro ext_quiet on_runner_quiet) (auto intro: ext_quiet split: sum.split)
qed

lemma host_guard_quiet: "extends_by (list_all quiet_step) (host_guard w maintenance)"
  unfolding host_guard_def service_environment_def uncaught_def
  by (auto intro!: ext_quiet binary_verified_quiet split: option.split)

lemma checked_approval_quiet: "extends_by (list_all quiet_step) (checked_approval w)"
  unfolding checked_approval_def refuse_def by (auto intro!: ext_quiet policy_at_quiet)

lemma read_observation_quiet: "extends_by (list_all quiet_step) (read_observation w approval)"
proof -
  have "''show'' \<in> set controller_show" by (simp add: controller_show_def)
  then show ?thesis unfolding read_observation_def host_read_def
    by (auto intro!: ext_quiet on_runner_quiet run_read_reads)
qed

lemma readback_quiet: "extends_by (list_all quiet_step) (readback w approval target topology)"
  unfolding readback_def unless_refused_def refuse_def by (auto intro!: ext_quiet read_observation_quiet)

lemma execute_prepare_quiet: "extends_by (list_all quiet_step) (execute_prepare w mode)"
  unfolding execute_prepare_def validate_io_def
  by (intro on_runner_quiet [where cfg = locate_config] reads.ext_andthen reads.ext_lift_sum preflight_reads)

lemma audit_outcome_quiet: "extends_by (list_all quiet_step) (audit_outcome w argv i outcome success)"
  unfolding audit_outcome_def refuse_def by (auto intro!: ext_quiet split: option.split)

lemma audit_intent_quiet: "extends_by (list_all quiet_step) (audit_intent w argv outcome)"
  unfolding audit_intent_def uncaught_def by (auto intro!: ext_quiet)

subsection \<open>Receipts\<close>

lemma put_cases:
  assumes "\<And>m. P m \<Longrightarrow> led_safe m" "\<And>m ok. P m \<Longrightarrow> led_safe (led_watch m (mk r ok))"
    "\<And>m. P m \<Longrightarrow> Q (led_watch m (mk r True))" "\<And>m. P m \<Longrightarrow> R (led_watch m (mk r False))"
  shows "led.upholds P (put w mk r) (\<lambda>_. Q) (\<lambda>_. R)"
  unfolding put_def
proof (rule led.upholds_andthen)
  show "led.upholds P (observe (\<lambda>failed. mk r (failed = None)) (le_put w))
      (\<lambda>failed m. led_safe m \<and> (if failed = None then Q m else R m)) (\<lambda>_. R)"
    by (rule led.upholds_observe) (use assms in auto)
  show "led.upholds (\<lambda>m. led_safe m \<and> (if x = None then Q m else R m))
      (case x of None \<Rightarrow> ret () | Some err \<Rightarrow> fail (Uncaught err)) (\<lambda>_. Q) (\<lambda>_. R)" for x
    by (cases x) (auto intro: led.upholds_ret led.upholds_fail)
qed

lemma write_phase_keeps:
  assumes "\<And>m. Q m \<Longrightarrow> led_safe m" "\<And>m ok. Q m \<Longrightarrow> Q (led_watch m (Receipt_put r ok))"
    "\<And>m e. quiet_step e \<Longrightarrow> Q m \<Longrightarrow> Q (led_watch m e)"
  shows "led.upholds Q (write_phase w r) (\<lambda>_. Q) (\<lambda>_. Q)"
proof -
  have quiet: "extends_by (list_all quiet_step) (put w mk d)" if "\<And>b. quiet_step (mk d b)" for mk d
    unfolding put_def by (auto intro!: ext_quiet that split: option.split)
  have copy: "led.upholds Q (put w Audit_copy r) (\<lambda>_. Q) (\<lambda>_. Q)"
    by (rule led.upholds_stable [OF quiet]) (use assms in auto)
  have status: "led.upholds Q (put w Status_put (public_view r)) (\<lambda>_. Q) (\<lambda>_. Q)"
    by (rule led.upholds_stable [OF quiet]) (use assms in auto)
  have receipt: "led.upholds Q (put w Receipt_put r) (\<lambda>_. Q) (\<lambda>_. Q)"
    by (rule put_cases) (use assms in auto)
  have done_: "led.upholds Q (ret (public_view r)) (\<lambda>_. Q) (\<lambda>_. Q)"
    by (rule led.upholds_ret) (use assms in auto)
  show ?thesis
    unfolding write_phase_def
    by (rule led.upholds_andthen [OF receipt led.upholds_andthen [OF copy led.upholds_andthen [OF status done_]]])
qed

lemma watch_receipt:
  "led_watch m (Receipt_put r ok) =
     m\<lparr>lm_recent := take 3 (Receipt_put r ok # lm_recent m),
       lm_contents := (if ok then [Some (JObj r)] else Some (JObj r) # lm_contents m),
       lm_pending := (lm_pending m \<and> \<not> closes_attempt r), lm_undoable := (lm_undoable m \<or> undoable r)\<rparr>"
  by (simp add: led_watch_def Let_def)

lemma watch_copies [simp]:
  "lm_contents (led_watch m (Audit_copy r b)) = lm_contents m"
  "lm_recent (led_watch m (Audit_copy r b)) = take 3 (Audit_copy r b # lm_recent m)"
  "lm_contents (led_watch m (Status_put r b)) = lm_contents m"
  "lm_recent (led_watch m (Status_put r b)) = take 3 (Status_put r b # lm_recent m)"
  by (simp_all add: led_watch_def Let_def write_step_def)

lemma receipt_keeps_ready:
  assumes "ready restoring m" "restoring \<or> \<not> offers_restore (Some (JObj r))"
  shows "ready restoring (led_watch m (Receipt_put r ok))"
  using assms by (auto simp: watch_receipt ready_def led_safe_def)

lemma receipt_keeps_audited_ready:
  assumes "audited_ready restoring m" "restoring \<or> \<not> offers_restore (Some (JObj r))"
  shows "audited_ready restoring (led_watch m (Receipt_put r ok))"
proof -
  have "lm_audited (led_watch m (Receipt_put r ok))" using assms(1) by (simp add: watch_receipt audited_ready_def)
  then show ?thesis using receipt_keeps_ready assms by (simp add: audited_ready_def)
qed

lemma receipt_keeps_safe:
  assumes "led_safe m" "closes_attempt r \<or> stops (Some (JObj r))" "offers_restore (Some (JObj r)) \<Longrightarrow> undoable r"
  shows "led_safe (led_watch m (Receipt_put r ok))"
  using assms by (auto simp: watch_receipt led_safe_def)

text \<open>What the phases of an attempt write.\<close>

lemma phased_get [simp]:
  "dict_get (phased d state now []) k = (if k = ''updated_at'' then Some (JStr now) else if k = ''state'' then Some (JStr state) else dict_get d k)"
  "dict_get (phased d state now ((k', v) # kvs)) k =
     (case map_of (rev kvs) k of Some x \<Rightarrow> Some x | None \<Rightarrow> if k = k' then Some v else dict_get (phased d state now []) k)"
proof -
  have entries: "dict_get (with_entries d kvs) k = (case map_of (rev kvs) k of Some x \<Rightarrow> Some x | None \<Rightarrow> dict_get d k)" for d kvs
    by (induction kvs arbitrary: d) (auto simp: with_entries_def map_add_def split: option.split)
  show "dict_get (phased d state now []) k = (if k = ''updated_at'' then Some (JStr now) else if k = ''state'' then Some (JStr state) else dict_get d k)"
    by (simp add: phased_def entries)
  show "dict_get (phased d state now ((k', v) # kvs)) k =
     (case map_of (rev kvs) k of Some x \<Rightarrow> Some x | None \<Rightarrow> if k = k' then Some v else dict_get (phased d state now []) k)"
    by (auto simp: phased_def entries map_add_def split: option.split)
qed

lemma offers_own_state: "dict_get r ''state'' \<noteq> Some (JStr ''not_sent'') \<Longrightarrow> offers_restore (Some (JObj r)) \<longleftrightarrow> undoable r"
  by (auto simp: offers_restore_def restore_original_def)

lemma stops_by_state: "dict_get r ''state'' = Some (JStr s) \<Longrightarrow> s \<notin> {''verified'', ''restored'', ''not_sent''} \<Longrightarrow> stops (Some (JObj r))"
  by (simp add: stops_def may_follow_def unhashable_def)

subsection \<open>An attempt keeps the journal\<close>

definition set_to_send :: "bool \<Rightarrow> dict \<Rightarrow> led_monitor \<Rightarrow> bool" where
  "set_to_send restoring sending m \<longleftrightarrow>
     audited_ready restoring m \<and> lm_contents m = [Some (JObj sending)] \<and> announced (lm_recent m)"

lemma announce:
  assumes "announces sending"
  shows "led.upholds (audited_ready restoring) (write_phase w sending) (\<lambda>_. set_to_send restoring sending) (\<lambda>_. led_safe)"
proof -
  have no_offer: "\<not> offers_restore (Some (JObj sending))"
    using assms offers_own_state [of sending] by (simp add: announces_def undoable_def)
  note keep = receipt_keeps_audited_ready [OF _ disjI2 [OF no_offer]]
  define Q1 where "Q1 m \<longleftrightarrow> audited_ready restoring m \<and> lm_contents m = [Some (JObj sending)] \<and>
      take 1 (lm_recent m) = [Receipt_put sending True]" for m
  define Q2 where "Q2 m \<longleftrightarrow> audited_ready restoring m \<and> lm_contents m = [Some (JObj sending)] \<and>
      take 2 (lm_recent m) = [Audit_copy sending True, Receipt_put sending True]" for m
  have safe: "led_safe m" if "audited_ready restoring m" for m using that ready_safe(2) by blast
  have quiet: "audited_ready restoring (led_watch m e)" if "audited_ready restoring m" "quiet_step e" for m e
    using quiet_keeps(3) that by blast
  have fields: "lm_contents (led_watch m (Receipt_put sending True)) = [Some (JObj sending)]"
    "take 1 (lm_recent (led_watch m (Receipt_put sending True))) = [Receipt_put sending True]" for m
    by (simp_all add: watch_receipt)
  have "led.upholds (audited_ready restoring) (put w Receipt_put sending) (\<lambda>_. Q1) (\<lambda>_. led_safe)"
    by (rule put_cases) (use keep safe fields in \<open>auto simp: Q1_def simp del: One_nat_def\<close>)
  moreover have "led.upholds Q1 (put w Audit_copy sending) (\<lambda>_. Q2) (\<lambda>_. led_safe)"
    by (rule put_cases) (use quiet safe in \<open>auto simp: Q1_def Q2_def numeral_3_eq_3 numeral_2_eq_2\<close>)
  moreover have "led.upholds Q2 (put w Status_put (public_view sending)) (\<lambda>_. set_to_send restoring sending) (\<lambda>_. led_safe)"
    by (rule put_cases) (use quiet safe assms in \<open>auto simp: Q2_def set_to_send_def announced_def numeral_3_eq_3 numeral_2_eq_2\<close>)
  moreover have "led.upholds (set_to_send restoring sending) (ret (public_view sending)) (\<lambda>_. set_to_send restoring sending) (\<lambda>_. led_safe)"
    by (rule led.upholds_ret) (use safe in \<open>auto simp: set_to_send_def\<close>)
  ultimately show ?thesis
    unfolding write_phase_def by (blast intro: led.upholds_andthen)
qed

definition target_of :: "bool \<Rightarrow> string" where
  "target_of restoring = (if restoring then ''off'' else ''on'')"

lemma activity_command_writes: "write_step (Run (Exec (argv_of locate_config (activity_argv (target_of restoring)))))"
  "switches_off (Run (Exec (argv_of locate_config (activity_argv (target_of restoring))))) \<longleftrightarrow> restoring"
  by (auto simp: write_step_def switches_off_def argv_of_def locate_config_def pinned_binary_def activity_argv_def target_of_def)

lemma dispatch_keeps_safe:
  assumes "announces sending"
  shows "led.upholds (set_to_send restoring sending) (execute_dispatch w (target_of restoring)) (\<lambda>_. led_safe) (\<lambda>_. led_safe)"
proof (rule led.upholdsI, goal_cases)
  case (1 tr tr' r)
  let ?e = "Run (Exec (argv_of locate_config (activity_argv (target_of restoring))))"
  have tr': "tr' = tr @ [?e]"
    using 1(2) by (auto simp: execute_dispatch_def on_runner_def dispatch_result split: prod.splits)
  have sending: "stops (Some (JObj sending))" "\<not> offers_restore (Some (JObj sending))"
    using assms stops_by_state [of sending] offers_own_state [of sending] by (simp_all add: announces_def undoable_def)
  have safe: "led_safe (led.seen tr)" using 1(1) by (simp add: set_to_send_def audited_ready_def ready_def)
  have "led_safe (led_watch (led.seen tr) ?e)"
    using 1(1) sending activity_command_writes [of restoring]
    by (auto simp: set_to_send_def audited_ready_def ready_def led_safe_def led_watch_def Let_def)
  then have "led_safe (led.seen tr')" "\<forall>k. led_safe (led.seen (tr @ take k [?e]))"
    using safe tr' by (auto simp: take_Cons' )
  then show ?case using tr' by (auto split: sum.split)
qed

lemma send_confirmed_safe:
  assumes "announces sending"
  shows "led.upholds (set_to_send restoring sending) (send_confirmed w (target_of restoring)) (\<lambda>_. led_safe) (\<lambda>_. led_safe)"
  unfolding send_confirmed_def
  by (rule led.upholds_andthen [OF dispatch_keeps_safe [OF assms]]) (rule led.upholds_lift; simp)

definition attempt_left :: "bool \<Rightarrow> dict \<Rightarrow> dict \<times> bool \<times> (led_failure + string) \<Rightarrow> led_monitor \<Rightarrow> bool" where
  "attempt_left restoring intent result m \<longleftrightarrow> led_safe m \<and>
     (fst result = intent \<and> isl (snd (snd result)) \<and> ready restoring m \<or>
      (\<exists>now. fst result = phased intent ''dispatching'' now [(''write_dispatched'', JBool True)]))"

lemma attempt_safe:
  shows "led.upholds (audited_ready restoring) (attempt w approval (target_of restoring) topology intent)
    (attempt_left restoring intent) (\<lambda>_. led_safe)"
proof -
  have prepare: "led.upholds (audited_ready restoring)
      (caught (andthen (execute_prepare w (target_of restoring)) (\<lambda>_. host_guard w True)))
      (\<lambda>_. audited_ready restoring) (\<lambda>_. led_safe)"
    by (rule led.upholds_caught, rule quietly(3), rule quiet_led.ext_andthen [OF execute_prepare_quiet host_guard_quiet])
  have tail: "led.upholds (audited_ready restoring)
      (let sending = phased intent ''dispatching'' now [(''write_dispatched'', JBool True)]
       in andthen (caught (write_phase w sending)) (\<lambda>noted.
            case noted of Inl f \<Rightarrow> ret (sending, False, Inl f) | Inr _ \<Rightarrow>
          andthen (caught (send_confirmed w (target_of restoring))) (\<lambda>sent.
            case sent of Inl f \<Rightarrow> ret (sending, False, Inl f) | Inr _ \<Rightarrow>
          andthen (caught (readback w approval (target_of restoring) topology)) (\<lambda>seen. ret (sending, True, seen)))))
      (attempt_left restoring intent) (\<lambda>_. led_safe)" for now
  proof -
    define sending where "sending = phased intent ''dispatching'' now [(''write_dispatched'', JBool True)]"
    have announces: "announces sending" by (simp add: sending_def announces_def)
    have left: "attempt_left restoring intent (sending, b, x) m" if "led_safe m" for b x m
      using that by (auto simp: attempt_left_def sending_def)
    have fin: "led.upholds led_safe (ret (sending, b, x)) (attempt_left restoring intent) (\<lambda>_. led_safe)" for b x
      by (rule led.upholds_ret) (use left in auto)
    have last: "led.upholds led_safe (andthen (caught (readback w approval (target_of restoring) topology)) (\<lambda>seen. ret (sending, True, seen)))
        (attempt_left restoring intent) (\<lambda>_. led_safe)"
      by (rule led.upholds_andthen [OF led.upholds_caught fin]) (rule quietly(1) [OF readback_quiet])
    have sent: "led.upholds (set_to_send restoring sending) (andthen (caught (send_confirmed w (target_of restoring))) (\<lambda>sent.
            case sent of Inl f \<Rightarrow> ret (sending, False, Inl f) | Inr _ \<Rightarrow>
          andthen (caught (readback w approval (target_of restoring) topology)) (\<lambda>seen. ret (sending, True, seen))))
        (attempt_left restoring intent) (\<lambda>_. led_safe)"
      by (rule led.upholds_andthen [where Q = "\<lambda>_. led_safe"], rule led.upholds_caught, rule send_confirmed_safe [OF announces])
        (use fin last in \<open>auto split: sum.split\<close>)
    have noted: "led.upholds (audited_ready restoring) (caught (write_phase w sending))
        (\<lambda>noted m. if isl noted then led_safe m else set_to_send restoring sending m) (\<lambda>_. led_safe)"
      by (rule led.upholds_caught) (use announce [OF announces] in simp)
    show ?thesis
      unfolding sending_def [symmetric] Let_def
      by (rule led.upholds_andthen [OF noted]) (use fin sent in \<open>auto split: sum.split\<close>)
  qed
  have early: "led.upholds (audited_ready restoring) (ret (intent, False, Inl f)) (attempt_left restoring intent) (\<lambda>_. led_safe)" for f
    by (rule led.upholds_ret) (auto simp: attempt_left_def audited_ready_def ready_def)
  have timed: "led.upholds (audited_ready restoring) (clock (le_now w)) (\<lambda>_. audited_ready restoring) (\<lambda>_. led_safe)"
    by (rule led.upholds_clock) (auto dest: ready_safe)
  show ?thesis
    unfolding attempt_def
    by (rule led.upholds_andthen [OF prepare])
      (auto split: sum.split intro: early led.upholds_andthen [OF timed tail])
qed

lemma safe_phase:
  assumes "closes_attempt r \<or> stops (Some (JObj r))" "offers_restore (Some (JObj r)) \<Longrightarrow> undoable r"
  shows "led.upholds led_safe (write_phase w r) (\<lambda>_. led_safe) (\<lambda>_. led_safe)"
  by (rule write_phase_keeps) (use receipt_keeps_safe assms quiet_keeps(1) in auto)

lemma safe_clock: "led.upholds led_safe (clock f) (\<lambda>_. led_safe) (\<lambda>_. led_safe)"
  by (rule led.upholds_clock) auto

lemma safe_refuse: "led.upholds led_safe (refuse msg) Q (\<lambda>_. led_safe)"
  unfolding refuse_def by (rule led.upholds_fail) auto

lemma audit_intent_ready:
  "led.upholds (ready restoring) (audit_intent w argv outcome) (\<lambda>_. audited_ready restoring) (\<lambda>_. led_safe)"
proof -
  have "lm_audited (led_watch m (Audit_new argv outcome True))" for m
    by (simp add: led_watch_def Let_def)
  then have stored: "audited_ready restoring (led_watch m (Audit_new argv outcome True))" if "ready restoring m" for m
    using that quiet_keeps(2) [of "Audit_new argv outcome True"] by (simp add: audited_ready_def)
  have observed: "led.upholds (ready restoring) (observe (\<lambda>r. Audit_new argv outcome (\<not> isl r)) (le_new_audit w))
      (\<lambda>r m. led_safe m \<and> (\<not> isl r \<longrightarrow> audited_ready restoring m)) (\<lambda>_. led_safe)"
    by (rule led.upholds_observe) (use stored ready_safe quiet_keeps(1) in auto)
  have rest: "led.upholds (\<lambda>m. led_safe m \<and> (\<not> isl r \<longrightarrow> audited_ready restoring m)) (uncaught r)
      (\<lambda>_. audited_ready restoring) (\<lambda>_. led_safe)" for r :: "string + int"
    unfolding uncaught_def by (rule led.upholds_lift; cases r) auto
  show ?thesis
    unfolding audit_intent_def by (rule led.upholds_andthen [OF observed rest])
qed

text \<open>What is written after the attempt, when it failed and when it was confirmed.\<close>

lemma record_failure_safe:
  assumes "dict_get intent ''write_dispatched'' = Some (JBool False)" "\<not> restoring \<Longrightarrow> dict_get intent ''restore_of'' = None"
  shows "led.upholds (attempt_left restoring intent (receipt, confirmed, Inl f))
     (record_failure w argv audit_id receipt confirmed f) (\<lambda>_. led_safe) (\<lambda>_. led_safe)"
proof -
  let ?left = "attempt_left restoring intent (receipt, confirmed, Inl f)"
  have rest: "led.upholds led_safe (andthen (audit_outcome w argv audit_id t False) (\<lambda>_.
      refuse ''Inspect the durable receipt and audit; no automatic retry'')) (\<lambda>_. led_safe) (\<lambda>_. led_safe)" for t
    by (rule led.upholds_andthen [OF quietly(1) [OF audit_outcome_quiet] safe_refuse])
  have timed: "led.upholds ?left (clock g) (\<lambda>_. ?left) (\<lambda>_. led_safe)" for g :: "led_step list \<Rightarrow> string"
    by (rule led.upholds_clock) (auto simp: attempt_left_def)
  let ?r = "\<lambda>state now. phased receipt state now [(''command_confirmed'', JBool confirmed), (''error_type'', JStr (failure_name f))]"
  have whole: "led.upholds ?left (record_failure w argv audit_id receipt confirmed f) (\<lambda>_. led_safe) (\<lambda>_. led_safe)"
    if "state = (if dict_get receipt ''write_dispatched'' = Some (JBool True) then ''uncertain'' else ''not_sent'')"
      and "\<And>now. led.upholds ?left (write_phase w (?r state now)) (\<lambda>_. led_safe) (\<lambda>_. led_safe)" for state
    unfolding record_failure_def Let_def that(1) [symmetric]
    by (rule led.upholds_andthen [OF timed led.upholds_andthen [OF that(2) rest]])
  consider (unsent) "receipt = intent" | (open_) now where "receipt = phased intent ''dispatching'' now [(''write_dispatched'', JBool True)]"
    | (never) "\<And>m. \<not> ?left m"
    by (auto simp: attempt_left_def)
  then show ?thesis
  proof cases
    case unsent
    have ne: "receipt \<noteq> phased intent ''dispatching'' now [(''write_dispatched'', JBool True)]" (is "_ \<noteq> ?p") for now
      unfolding unsent
    proof
      assume "intent = ?p"
      then have "dict_get intent ''write_dispatched'' = dict_get ?p ''write_dispatched''" by (rule arg_cong)
      then show False using assms(1) by simp
    qed
    have left: "ready restoring m" if "?left m" for m
      using that ne unfolding attempt_left_def fst_conv snd_conv by blast
    have harmless: "restoring \<or> \<not> offers_restore (Some (JObj (?r ''not_sent'' now)))" for now
      using assms(2) unsent by (auto simp: offers_restore_def restore_original_def)
    have phase: "led.upholds (ready restoring) (write_phase w (?r ''not_sent'' now)) (\<lambda>_. ready restoring) (\<lambda>_. ready restoring)" for now
      by (rule write_phase_keeps) (use receipt_keeps_ready harmless quiet_keeps(2) ready_safe in auto)
    have "led.upholds ?left (write_phase w (?r ''not_sent'' now)) (\<lambda>_. led_safe) (\<lambda>_. led_safe)" for now
      by (rule led.upholds_weaken [OF phase]) (use left ready_safe in auto)
    then show ?thesis
      using unsent assms(1) by (intro whole [of "''not_sent''"]) simp_all
  next
    case (open_ now)
    have state: "dict_get (?r ''uncertain'' t) ''state'' = Some (JStr ''uncertain'')" for t by simp
    have "led.upholds led_safe (write_phase w (?r ''uncertain'' t)) (\<lambda>_. led_safe) (\<lambda>_. led_safe)" for t
      by (rule safe_phase) (use stops_by_state [OF state] offers_own_state [of "?r ''uncertain'' t"] state in auto)
    then have "led.upholds ?left (write_phase w (?r ''uncertain'' t)) (\<lambda>_. led_safe) (\<lambda>_. led_safe)" for t
      by (rule led.upholds_weaken) (auto simp: attempt_left_def)
    then show ?thesis
      using open_ by (intro whole [of "''uncertain''"]) simp_all
  next
    case never
    then show ?thesis by (auto simp: led.upholds_def)
  qed
qed

lemma record_success_safe:
  assumes "final \<in> {''verified'', ''restored''}"
  shows "led.upholds led_safe (record_success w argv audit_id outcome final receipt observed) (\<lambda>_. led_safe) (\<lambda>_. led_safe)"
proof -
  define v where "v now = phased receipt ''verified_pending_audit'' now
            [(''command_confirmed'', JBool True), (''observed'', JStr observed),
             (''array_state_preserved'', JBool True), (''other_settings_preserved'', JBool True)]" for now
  have state: "dict_get (v now) ''state'' = Some (JStr ''verified_pending_audit'')" for now by (simp add: v_def)
  have pending: "led.upholds led_safe (write_phase w (v now)) (\<lambda>_. led_safe) (\<lambda>_. led_safe)" for now
    by (rule safe_phase) (use stops_by_state [OF state] offers_own_state [of "v now"] state in auto)
  have closing: "led.upholds led_safe (write_phase w (phased (v now) final t [])) (\<lambda>_. led_safe) (\<lambda>_. led_safe)" for now t
  proof (rule safe_phase)
    let ?c = "phased (v now) final t []"
    show "closes_attempt ?c \<or> stops (Some (JObj ?c))" using assms by (auto simp: closes_attempt_def)
    show "offers_restore (Some (JObj ?c)) \<Longrightarrow> undoable ?c" using assms offers_own_state [of ?c] by auto
  qed
  show ?thesis
    unfolding record_success_def Let_def v_def [symmetric]
    by (rule led.upholds_andthen [OF safe_clock led.upholds_andthen [OF pending
          led.upholds_andthen [OF quietly(1) [OF audit_outcome_quiet] led.upholds_andthen [OF safe_clock closing]]]])
qed

subsection \<open>Every call keeps the journal\<close>

lemma locate_attempt_safe:
  "led.upholds (ready restoring) (locate_attempt w approval restoring mode topology original) (\<lambda>_. led_safe) (\<lambda>_. led_safe)"
proof -
  define prepared where "prepared audit_id now =
      phased (with_entries (intent_of w approval restoring mode topology original) [(''audit_id'', JInt audit_id)]) ''prepared'' now []" for audit_id now
  have get: "dict_get (prepared audit_id now) ''state'' = Some (JStr ''prepared'')"
    "dict_get (prepared audit_id now) ''write_dispatched'' = Some (JBool False)"
    "\<not> restoring \<Longrightarrow> dict_get (prepared audit_id now) ''restore_of'' = None" for audit_id now
    by (simp_all add: prepared_def intent_of_def with_entries_def)
  have no_offer: "\<not> offers_restore (Some (JObj (prepared i now)))" for i now
    using offers_own_state [of "prepared i now"] get(1) [of i now] by (simp add: undoable_def)
  have first: "led.upholds (audited_ready restoring) (write_phase w (prepared i now)) (\<lambda>_. audited_ready restoring) (\<lambda>_. led_safe)" for i now
    by (rule led.upholds_weaken, rule write_phase_keeps [where Q = "audited_ready restoring"])
      (use receipt_keeps_audited_ready no_offer quiet_keeps(3) ready_safe in auto)
  have timed: "led.upholds (audited_ready restoring) (clock f) (\<lambda>_. audited_ready restoring) (\<lambda>_. led_safe)" for f :: "led_step list \<Rightarrow> string"
    by (rule led.upholds_clock) (auto dest: ready_safe)
  have closed: "led.upholds (attempt_left restoring (prepared i now) x)
      (case x of (receipt, confirmed, Inl f) \<Rightarrow> record_failure w argv i receipt confirmed f
       | (receipt, confirmed, Inr observed) \<Rightarrow>
           record_success w argv i outcome (if restoring then ''restored'' else ''verified'') receipt observed)
      (\<lambda>_. led_safe) (\<lambda>_. led_safe)" for i now x argv outcome
  proof -
    obtain receipt confirmed result where x: "x = (receipt, confirmed, result)" by (cases x) auto
    show ?thesis
    proof (cases result)
      case (Inl f)
      then show ?thesis using x record_failure_safe [OF get(2,3)] by simp
    next
      case (Inr observed)
      have "led.upholds (attempt_left restoring (prepared i now) x)
          (record_success w argv i outcome (if restoring then ''restored'' else ''verified'') receipt observed) (\<lambda>_. led_safe) (\<lambda>_. led_safe)"
        by (rule led.upholds_weaken [OF record_success_safe]) (auto simp: attempt_left_def)
      then show ?thesis using x Inr by simp
    qed
  qed
  show ?thesis
    unfolding locate_attempt_def Let_def target_of_def [symmetric] prepared_def [symmetric]
    by (rule led.upholds_andthen [OF audit_intent_ready led.upholds_andthen [OF timed led.upholds_andthen [OF first
          led.upholds_andthen [OF attempt_safe closed]]]])
qed

definition receipt_seen :: "dict option \<Rightarrow> led_monitor \<Rightarrow> bool" where
  "receipt_seen receipt m \<longleftrightarrow> led_safe m \<and> (lm_lied m \<or> map_option JObj receipt \<in> set (lm_contents m))"

lemma read_receipt_seen: "led.upholds led_safe (read_receipt w serial) receipt_seen (\<lambda>_. led_safe)"
proof -
  have watch: "led_watch m (Receipt_read c) =
      m\<lparr>lm_recent := take 3 (Receipt_read c # lm_recent m),
        lm_lied := (lm_lied m \<or> (case c of Inr v \<Rightarrow> v \<notin> set (lm_contents m) | Inl _ \<Rightarrow> False))\<rparr>" for m c
    by (cases c) (simp_all add: led_watch_def Let_def write_step_def)
  have keeps: "led_safe (led_watch m (Receipt_read c))" if "led_safe m" for m c
    using that by (auto simp: watch led_safe_def)
  have observed: "led.upholds led_safe (observe Receipt_read (le_receipt w))
      (\<lambda>c m. led_safe m \<and> (\<forall>v. c = Inr v \<longrightarrow> lm_lied m \<or> v \<in> set (lm_contents m))) (\<lambda>_. led_safe)"
    by (rule led.upholds_observe) (use keeps in \<open>auto simp: watch\<close>)
  have content: "led.upholds led_safe (andthen (observe Receipt_read (le_receipt w)) uncaught)
      (\<lambda>v m. led_safe m \<and> (lm_lied m \<or> v \<in> set (lm_contents m))) (\<lambda>_. led_safe)"
  proof (rule led.upholds_andthen [OF observed])
    show "led.upholds (\<lambda>m. led_safe m \<and> (\<forall>v. c = Inr v \<longrightarrow> lm_lied m \<or> v \<in> set (lm_contents m))) (uncaught c)
        (\<lambda>v m. led_safe m \<and> (lm_lied m \<or> v \<in> set (lm_contents m))) (\<lambda>_. led_safe)" for c :: "string + json option"
      unfolding uncaught_def by (rule led.upholds_lift; cases c) auto
  qed
  have rest: "led.upholds (\<lambda>m. led_safe m \<and> (lm_lied m \<or> v \<in> set (lm_contents m)))
      (case v of None \<Rightarrow> ret None
       | Some (JObj r) \<Rightarrow>
           if dict_get r ''controller_sha256'' \<noteq> Some (JStr (le_digest w serial)) \<or>
              dict_get r ''binary_sha256'' \<noteq> Some (JStr pinned_sha256)
           then refuse ''Receipt identity differs'' else ret (Some r)
       | Some _ \<Rightarrow> fail (Uncaught ''AttributeError'')) receipt_seen (\<lambda>_. led_safe)" for v
    by (auto intro!: led.upholds_ret led.upholds_fail simp: refuse_def receipt_seen_def split: option.split json.split)
  show ?thesis
    unfolding read_receipt_def by (rule led.upholds_andthen [OF content rest])
qed

lemma followed_not_pending:
  assumes "receipt_seen receipt m" "case receipt of None \<Rightarrow> True | Some r \<Rightarrow> may_follow r = Inr True"
  shows "ready False m"
  using assms by (auto simp: receipt_seen_def ready_def led_safe_def stops_def list_all_iff split: option.splits)

lemma restore_needs_undoable:
  assumes "receipt_seen receipt m" "restore_original receipt = Some r" "restorable w serial r"
  shows "lm_lied m \<or> lm_undoable m"
proof -
  obtain q where q: "receipt = Some q" using assms(2) by (cases receipt) (auto simp: restore_original_def)
  have "undoable r" using assms(3) by (simp add: restorable_def undoable_def)
  then have "offers_restore (map_option JObj receipt)" using assms(2) q by (auto simp: offers_restore_def)
  then show ?thesis using assms(1) by (auto simp: receipt_seen_def led_safe_def list_all_iff)
qed

lemma change_activity_safe:
  "led.upholds (receipt_seen receipt) (change_activity w approval restoring mode topology receipt) (\<lambda>_. led_safe) (\<lambda>_. led_safe)"
proof -
  have safe: "led_safe m" if "receipt_seen receipt m" for m using that by (simp add: receipt_seen_def)
  have asked: "led.upholds (receipt_seen receipt) (case receipt of None \<Rightarrow> ret True | Some r \<Rightarrow> lift_sum (may_follow r))
      (\<lambda>ok m. receipt_seen receipt m \<and> (ok \<longrightarrow> ready False m)) (\<lambda>_. led_safe)"
    by (cases receipt) (use safe followed_not_pending [of receipt] in \<open>auto intro!: led.upholds_ret led.upholds_lift\<close>)
  have open_: "led.upholds (\<lambda>m. receipt_seen receipt m \<and> (ok \<longrightarrow> ready False m)) (unless_refused ok msg)
      (\<lambda>_ m. receipt_seen receipt m \<and> ready False m) (\<lambda>_. led_safe)" for ok msg
    using safe by (auto simp: unless_refused_def refuse_def intro!: led.upholds_ret led.upholds_fail)
  have original: "led.upholds (\<lambda>m. receipt_seen receipt m \<and> ready False m)
      (unless_refused (\<not> restoring \<or> (case restore_original receipt of None \<Rightarrow> False | Some r \<Rightarrow> restorable w (controller_serial approval) r)) msg)
      (\<lambda>_. ready restoring) (\<lambda>_. led_safe)" for msg
    using safe restore_needs_undoable [of receipt]
    by (auto simp: unless_refused_def refuse_def ready_def intro!: led.upholds_ret led.upholds_fail split: option.splits)
  have guard: "led.upholds (ready restoring) (host_guard w True) (\<lambda>_. ready restoring) (\<lambda>_. led_safe)"
    by (rule led.upholds_weaken [OF quietly(2) [OF host_guard_quiet]]) (auto dest: ready_safe)
  show ?thesis
    unfolding change_activity_def Let_def
    by (rule led.upholds_andthen [OF asked led.upholds_andthen [OF open_ led.upholds_andthen [OF original
          led.upholds_andthen [OF guard locate_attempt_safe]]]])
qed

lemma act_safe:
  "led.upholds (receipt_seen receipt) (act w approval action mode topology receipt) (\<lambda>_. led_safe) (\<lambda>_. led_safe)"
proof -
  have ends: "led.upholds (receipt_seen seen) (ret x) (\<lambda>_. led_safe) (\<lambda>_. led_safe)"
    "led.upholds (receipt_seen seen) (fail e) (\<lambda>_. led_safe) (\<lambda>_. led_safe)" for x :: dict and e :: led_failure and seen
    by (auto simp: receipt_seen_def intro!: led.upholds_ret led.upholds_fail)
  have "led.upholds (receipt_seen receipt) (report_status mode receipt) (\<lambda>_. led_safe) (\<lambda>_. led_safe)"
    unfolding report_status_def by (cases receipt; simp add: ends split: option.split)
  then show ?thesis
    unfolding act_def Let_def by (simp add: ends change_activity_safe)
qed

lemma operate_safe: "led.upholds led_safe (operate w action) (\<lambda>_. led_safe) (\<lambda>_. led_safe)"
proof -
  have named: "led.upholds led_safe (unless_refused ok msg) (\<lambda>_. led_safe) (\<lambda>_. led_safe)" for ok msg
    by (auto simp: unless_refused_def refuse_def intro!: led.upholds_ret led.upholds_fail)
  have rest: "led.upholds led_safe (case x of (mode, topology) \<Rightarrow>
      andthen (read_receipt w (controller_serial approval)) (\<lambda>receipt. act w approval action mode topology receipt))
      (\<lambda>_. led_safe) (\<lambda>_. led_safe)" for x approval
    using led.upholds_andthen [OF read_receipt_seen act_safe] by (cases x) simp
  show ?thesis
    unfolding operate_def
    by (rule led.upholds_andthen [OF named led.upholds_andthen [OF quietly(1) [OF host_guard_quiet]
          led.upholds_andthen [OF quietly(1) [OF checked_approval_quiet]
          led.upholds_andthen [OF quietly(1) [OF read_observation_quiet] rest]]]])
qed

lemma history_safe: "led_history tr \<Longrightarrow> led_safe (led.seen tr)"
proof (induction rule: led_history.induct)
  case fresh
  then show ?case using led.safe_start by simp
next
  case (run tr tr' w action)
  then show ?case using led.safe_at_every_step [OF operate_safe] by blast
qed

subsection \<open>What the monitor means\<close>

lemma history_prefix: "led_history tr \<Longrightarrow> prefix x tr \<Longrightarrow> led_history x"
proof (induction arbitrary: x rule: led_history.induct)
  case fresh
  then show ?case using led_history.fresh by simp
next
  case (run tr tr' w action)
  then consider "prefix x tr" | "prefix tr x" using prefix_same_cases by blast
  then show ?case
  proof cases
    case 1
    then show ?thesis using run.IH by blast
  next
    case 2
    then show ?thesis using led_history.run [OF run.hyps(1)] run.hyps(3) run.prems prefix_order.trans by blast
  qed
qed

lemma kept_not_lied: "lm_lied (foldl led_watch m tr) \<longleftrightarrow> lm_lied m \<or> \<not> receipts_kept (lm_contents m) tr"
proof (induction tr arbitrary: m)
  case Nil
  then show ?case by simp
next
  case (Cons s tr)
  have "lm_lied (led_watch m s) \<or> \<not> receipts_kept (lm_contents (led_watch m s)) tr \<longleftrightarrow>
      lm_lied m \<or> \<not> receipts_kept (lm_contents m) (s # tr)"
    by (cases s) (auto simp: led_watch_def Let_def write_step_def split: sum.split effect.split)
  then show ?case using Cons by simp
qed

lemma undoable_recorded:
  "lm_undoable (foldl led_watch m tr) \<Longrightarrow> lm_undoable m \<or> (\<exists>r ok. Receipt_put r ok \<in> set tr \<and> undoable r)"
proof (induction tr arbitrary: m)
  case (Cons s tr)
  have "lm_undoable (led_watch m s) \<Longrightarrow> lm_undoable m \<or> (\<exists>r ok. s = Receipt_put r ok \<and> undoable r)"
    by (cases s) (auto simp: led_watch_def Let_def write_step_def split: sum.splits effect.splits if_splits)
  then show ?case using Cons by fastforce
qed simp

lemma audit_recorded:
  "lm_audited (foldl led_watch m tr) \<Longrightarrow> lm_audited m \<or> (\<exists>argv t. Audit_new argv t True \<in> set tr)"
proof (induction tr arbitrary: m)
  case (Cons s tr)
  have "lm_audited (led_watch m s) \<Longrightarrow> lm_audited m \<or> (\<exists>argv t. s = Audit_new argv t True)"
    by (cases s) (auto simp: led_watch_def Let_def write_step_def split: sum.splits effect.splits if_splits)
  then show ?case using Cons by fastforce
qed simp

lemma stays_pending:
  "lm_pending m \<Longrightarrow> \<not> lm_pending (foldl led_watch m tr) \<Longrightarrow> \<exists>r ok. Receipt_put r ok \<in> set tr \<and> closes_attempt r"
proof (induction tr arbitrary: m)
  case (Cons s tr)
  have "lm_pending (led_watch m s) \<or> (\<exists>r ok. s = Receipt_put r ok \<and> closes_attempt r)"
    using Cons.prems(1) by (cases s) (auto simp: led_watch_def Let_def write_step_def split: sum.splits effect.splits if_splits)
  then show ?case
  proof
    assume "lm_pending (led_watch m s)"
    then show ?thesis using Cons.IH [of "led_watch m s"] Cons.prems(2) by auto
  qed auto
qed simp

lemma watch_recent [simp]: "lm_recent (led_watch m s) = take 3 (s # lm_recent m)"
  by (cases s) (auto simp: led_watch_def Let_def write_step_def split: sum.split effect.split)

lemma recent_steps: "lm_recent (led.seen tr) = take 3 (rev tr)"
proof (induction tr rule: rev_induct)
  case Nil
  have "lm_recent led_start = []" by (simp add: led_start_def)
  then show ?case by simp
next
  case (snoc s tr)
  then show ?case by (simp add: take_Cons' min_def)
qed

lemma watch_write: "write_step s \<Longrightarrow> lm_bad (led_watch m s) \<longleftrightarrow> lm_bad m \<or> lm_pending m \<or> \<not> lm_audited m \<or>
    \<not> announced (lm_recent m) \<or> switches_off s \<and> \<not> lm_undoable m"
  "write_step s \<Longrightarrow> lm_pending (led_watch m s) \<and> \<not> lm_audited (led_watch m s)"
  by (cases s; auto simp: led_watch_def write_step_def Let_def)+

lemma write_was_allowed:
  assumes "led_history (a @ s # c)" "receipts_kept [None] (a @ s # c)" "write_step s"
  shows "\<not> lm_pending (led.seen a) \<and> lm_audited (led.seen a) \<and> announced (lm_recent (led.seen a)) \<and>
    (switches_off s \<longrightarrow> lm_undoable (led.seen a))"
proof -
  have "led_safe (led.seen (a @ [s]))"
    by (rule history_safe, rule history_prefix [OF assms(1)]) simp
  moreover have "\<not> lm_lied (led.seen (a @ s # c))"
  proof -
    have "lm_contents led_start = [None]" "\<not> lm_lied led_start" by (simp_all add: led_start_def)
    then show ?thesis using assms(2) kept_not_lied [of led_start "a @ s # c"] unfolding led.seen_def by simp
  qed
  then have "\<not> lm_lied (led.seen (a @ [s]))"
    using kept_not_lied [of "led.seen (a @ [s])" c] by (simp add: led.seen_def)
  ultimately show ?thesis
    using watch_write(1) [OF assms(3)] by (auto simp: led_safe_def)
qed

lemma split_at_write:
  assumes "write_step s" "\<not> lm_pending (led.seen (a @ s # b))" 
  shows "\<exists>r ok. Receipt_put r ok \<in> set b \<and> closes_attempt r"
proof -
  have "lm_pending (led_watch (led.seen a) s)" using watch_write(2) [OF assms(1)] by blast
  moreover have "led.seen (a @ s # b) = foldl led_watch (led_watch (led.seen a) s) b" by (simp add: led.seen_def)
  ultimately show ?thesis using stays_pending assms(2) by metis
qed

lemma audited_since_write:
  assumes "write_step s" "lm_audited (led.seen (a @ s # b))" 
  shows "\<exists>argv t. Audit_new argv t True \<in> set b"
proof -
  have "\<not> lm_audited (led_watch (led.seen a) s)" using watch_write(2) [OF assms(1)] by blast
  moreover have "led.seen (a @ s # b) = foldl led_watch (led_watch (led.seen a) s) b" by (simp add: led.seen_def)
  ultimately show ?thesis using audit_recorded assms(2) by metis
qed

end
