(* ===== verification/LocateProps.thy ===== *)
theory LocateProps
  imports LocateJournal
begin

section \<open>What the Locate activity tool promises\<close>

text \<open>The two properties of the journal, and a run that switches the property on and restores it.\<close>

subsection \<open>Writes\<close>

text \<open>C39. No write of the tool goes unannounced. Over all calls, each of which may be killed after any step and may meet any
  outside: a command that changes the controller is sent only right after the receipt, its audit copy and the public status
  were written and say that it is being dispatched; and the property is switched off only to undo a change that was recorded as
  verified (on, after off) before.\<close>

theorem activity_writes_are_announced:
  assumes "led_history (tr @ s # later)" "receipts_kept [None] (tr @ s # later)" "write_step s"
  shows "(\<exists>earlier r. tr = earlier @ [Receipt_put r True, Audit_copy r True, Status_put (public_view r) True] \<and> announces r) \<and>
    (switches_off s \<longrightarrow> (\<exists>r ok. Receipt_put r ok \<in> set tr \<and> undoable r))"
proof
  note allowed = write_was_allowed [OF assms]
  obtain r where r: "take 3 (rev tr) = [Status_put (public_view r) True, Audit_copy r True, Receipt_put r True]" "announces r"
    using allowed recent_steps [of tr] by (auto simp: announced_def)
  have "rev tr = take 3 (rev tr) @ drop 3 (rev tr)" by simp
  then have "tr = rev (drop 3 (rev tr)) @ rev (take 3 (rev tr))" by (metis rev_append rev_rev_ident)
  then show "\<exists>earlier r. tr = earlier @ [Receipt_put r True, Audit_copy r True, Status_put (public_view r) True] \<and> announces r"
    using r by (metis append.simps rev.simps)
  show "switches_off s \<longrightarrow> (\<exists>r ok. Receipt_put r ok \<in> set tr \<and> undoable r)"
  proof
    assume "switches_off s"
    then have "lm_undoable (led.seen tr)" using allowed by blast
    moreover have "\<not> lm_undoable led_start" by (simp add: led_start_def)
    ultimately show "\<exists>r ok. Receipt_put r ok \<in> set tr \<and> undoable r"
      using undoable_recorded [of led_start tr] unfolding led.seen_def by blast
  qed
qed

text \<open>C40. No write of the tool is repeated blindly. Over all such calls, between two commands that change the controller a receipt that
  closes the first one as verified or restored was written, and the second has an audit row of its own: an attempt whose outcome is
  open, because it failed or was killed, stops every later one until the operator has inspected it.\<close>

theorem activity_writes_are_not_repeated:
  assumes "led_history (tr @ s # between @ s' # later)" "receipts_kept [None] (tr @ s # between @ s' # later)"
    and "write_step s" "write_step s'"
  shows "(\<exists>r ok. Receipt_put r ok \<in> set between \<and> closes_attempt r) \<and> (\<exists>argv t. Audit_new argv t True \<in> set between)"
proof -
  have "led_history ((tr @ s # between) @ s' # later)" "receipts_kept [None] ((tr @ s # between) @ s' # later)"
    using assms by simp_all
  then have "\<not> lm_pending (led.seen (tr @ s # between))" "lm_audited (led.seen (tr @ s # between))"
    using write_was_allowed assms(4) by blast+
  then show ?thesis
    using split_at_write [OF assms(3)] audited_since_write [OF assms(3)] by blast
qed

subsection \<open>Two runs for the witnesses\<close>

definition activity_write :: "string \<Rightarrow> effect" where
  "activity_write mode = Exec (argv_of locate_config (activity_argv mode))"

text \<open>What was set last.\<close>

definition set_mode :: "trace \<Rightarrow> string" where
  "set_mode tr =
     foldl (\<lambda>m e. if e = activity_write ''on'' then ''on'' else if e = activity_write ''off'' then ''off'' else m) ''off'' tr"

definition sample_slots :: "json list" where
  "sample_slots = map (\<lambda>k. JObj [(''EID:Slt'', JStr (''252:'' @ show_int (int k))), (''State'', JStr ''Onln'')]) [0..<8]"

definition shown :: "string \<Rightarrow> dict" where
  "shown mode =
     [(''Controllers'', JArr [JObj
        [(''Command Status'', JObj [(''Controller'', JInt 0), (''Status'', JStr ''Success'')]),
         (''Response Data'', JObj
           (response_of sample_identity @
           [(''Policies'', JObj [(activity_key, JStr mode)]), (''Defaults'', JObj []), (''Physical Drives'', JInt 8),
            (''PD LIST'', JArr sample_slots), (''Virtual Drives'', JInt 1),
            (''VD LIST'', JArr [JObj [(''DG/VD'', JStr ''0/0''), (''State'', JStr ''Optl'')]]), (''TOPOLOGY'', JArr [JObj []])]))]])]"

definition sample_led :: led_env where
  "sample_led =
     \<lparr>le_runner = \<lparr>load_policy = (\<lambda>_ path. if path = approval_path then locate_approval sample_policy else Inr sample_policy),
        verify_pinned_binary = (\<lambda>_ _. Inr ()),
        exec_process = (\<lambda>tr argv. Exited 0 (Some (JObj (if ''show'' \<in> set argv then shown (set_mode tr) else sample_done))) []),
        current_settings = (\<lambda>_. \<lparr>ws_read_only = False, ws_capability = ''full-supported-actions'',
           ws_maintenance_mode = True, ws_destructive_mode = False\<rparr>),
        fingerprint = (\<lambda>_. [])\<rparr>,
      le_profile = expected_service @ [(''MainPID'', ''1'')], le_actor = ''root'',
      le_properties = (\<lambda>_. Inr (expected_service @ [(''MainPID'', ''1'')])),
      le_environ = (\<lambda>_ _. Inr [(''CONTROLLER_READ_ONLY'', ''false''), (''CONTROLLER_ACTION_CAPABILITY'', ''full-supported-actions''),
        (''GIT_SHA'', baseline), (''DATABASE_URL'', ''db'')]),
      le_versions = (\<lambda>_. [''0009_event_deliveries'']),
      le_db = (\<lambda>_. empty_db\<lparr>db_state := [(maintenance_mode_key,
        MaintenanceText \<lparr>mp_active = True, mp_expires_at = Some 10, mp_started_by = None\<rparr>)]\<rparr>),
      le_instant = (\<lambda>_. 5), le_now = (\<lambda>_. ''now''),
      le_receipt = (\<lambda>tr. Inr (foldl (\<lambda>m s. case s of Receipt_put r ok \<Rightarrow> Some (JObj r) | _ \<Rightarrow> m) None tr)),
      le_put = (\<lambda>_. None), le_new_audit = (\<lambda>_. Inr 7),
      le_audit_entry = (\<lambda>tr _. foldl (\<lambda>m s. case s of Audit_new argv t ok \<Rightarrow> Some (''root'', argv) | _ \<Rightarrow> m) None tr),
      le_audit_saved = (\<lambda>_. None), le_digest = (\<lambda>s. s), le_fingerprint = (\<lambda>_. ''f''),
      le_to_bool = (\<lambda>s. Some (s = ''true'')), le_make_url = (\<lambda>_. Some (''sqlite'', Some locate_database))\<rparr>"

definition led_policy :: command_policy where
  "led_policy = sample_policy\<lparr>commands :=
     map (\<lambda>c. \<lparr>ac_command = c, ac_evidence = ''Operator-approved Locate activity setup; pinned help SHA256 '' @ help_hash\<rparr>)
       locate_commands\<rparr>"

text \<open>The parts of a run on the sample, for any steps before.\<close>

lemma sample_run_parts:
  "andthen m f tr = (case m tr of (tr', Inl e) \<Rightarrow> (tr', Inl e) | (tr', Inr x) \<Rightarrow> f x tr')"
  "ret x tr = (tr, Inr x)" "lift_sum r tr = (tr, r)" "perform e out tr = (tr @ [e], Inr (out tr))"
  "observe mk out tr = (tr @ [mk (out tr)], Inr (out tr))" "clock out tr = (tr, Inr (out tr))"
  "caught n tr = (case n tr of (tr', r) \<Rightarrow> (tr', Inr r))" "fail err tr = (tr, Inl err)"
  by (simp_all add: andthen_def ret_def lift_sum_def perform_def observe_def clock_def caught_def fail_def)

lemma sample_guard [simp]:
  "host_guard sample_led maintenance tr =
     (tr @ [Service_seen, Environment_seen ''1'', Run (VerifyBinary pinned_binary), Database_seen], Inr ())"
proof -
  have service: "check_service (expected_service @ [(''MainPID'', ''1'')]) (expected_service @ [(''MainPID'', ''1'')]) = Inr ()"
    "map_of (expected_service @ [(''MainPID'', ''1'')]) ''MainPID'' = Some ''1''"
    by code_simp+
  have environment: "check_environment sample_led [(''CONTROLLER_READ_ONLY'', ''false''),
      (''CONTROLLER_ACTION_CAPABILITY'', ''full-supported-actions''), (''GIT_SHA'', baseline), (''DATABASE_URL'', ''db'')] = Inr ()"
    by code_simp
  have window: "check_window maintenance (le_versions sample_led tr) (le_instant sample_led tr) (le_db sample_led tr) = Inr ()" for tr
    by (simp add: check_window_def sample_led_def get_maintenance_state_def get_state_def)
  have env: "le_properties sample_led tr = Inr (expected_service @ [(''MainPID'', ''1'')])"
    "le_profile sample_led = expected_service @ [(''MainPID'', ''1'')]"
    "verify_pinned_binary (le_runner sample_led) t b = Inr ()"
    "le_environ sample_led tr pid = Inr [(''CONTROLLER_READ_ONLY'', ''false''),
      (''CONTROLLER_ACTION_CAPABILITY'', ''full-supported-actions''), (''GIT_SHA'', baseline), (''DATABASE_URL'', ''db'')]" for tr t b pid
    by (simp_all add: sample_led_def)
  show ?thesis
    using service environment window
    by (simp add: host_guard_def service_environment_def binary_verified_def sample_run_parts on_runner_def uncaught_def env)
qed

lemma sample_policy_at [simp]:
  "policy_at sample_led path tr =
     (tr @ [Run (LoadPolicy path)], Inr (if path = approval_path then led_policy else sample_policy))"
proof -
  have "locate_approval sample_policy = Inr led_policy" by code_simp
  then have "load_policy (le_runner sample_led) t path = Inr (if path = approval_path then led_policy else sample_policy)" for t
    by (simp add: sample_led_def)
  then show ?thesis by (simp add: policy_at_def sample_run_parts on_runner_def)
qed

lemma sample_approval [simp]:
  "checked_approval sample_led tr = (tr @ [Run (LoadPolicy approval_path), Run (LoadPolicy baseline_policy_path)], Inr led_policy)"
proof -
  have "set (map ac_command (commands led_policy)) = set locate_commands" "controller_serial led_policy = controller_serial sample_policy"
    "baseline_policy_path \<noteq> approval_path"
    by (simp_all add: led_policy_def baseline_policy_path_def approval_path_def comp_def)
  then show ?thesis by (simp add: checked_approval_def sample_run_parts)
qed

definition activity_show :: effect where
  "activity_show = Exec (argv_of locate_config controller_show)"

lemma sample_read:
  "run_read (le_runner sample_led) locate_config controller_show tr = (tr @ [activity_show], Inr (shown (set_mode tr)))"
proof -
  have "validate_command (with_json_flag controller_show) = Inr ()" "with_json_flag controller_show = controller_show"
    "''show'' \<in> set (argv_of locate_config controller_show)"
    by code_simp+
  then show ?thesis
    by (simp add: run_read_def validate_io_def dispatch_def sample_run_parts activity_show_def sample_led_def interpret_outcome_def locate_config_def)
qed

lemma shown_identity:
  "case parse_controller_show_all (shown mode) of
     Inr c \<Rightarrow> identity_matches led_policy c \<and> ci_serial_number c = controller_serial led_policy \<and> ci_model_name c = expected_model
   | Inl _ \<Rightarrow> False"
  by code_simp

lemma shown_activity:
  "activity_of (response_of (shown ''on'')) = Some ''on''" "activity_of (response_of (shown ''off'')) = Some ''off''"
  by code_simp+

lemma shown_inventory:
  "case map_res (\<lambda>nk. or_refused msg (inventory_rows (response_of (shown mode)) nk)) inventory_columns of
     Inr inventory \<Rightarrow> check_array led_policy (response_of (shown mode)) (inventory ! 0) (inventory ! 1) = Inr ()
   | Inl _ \<Rightarrow> False"
  by code_simp

lemma shown_rest: "ensure_command_succeeded (shown mode) = Inr ()" "other_settings (response_of (shown mode)) \<noteq> None"
proof -
  show "ensure_command_succeeded (shown mode) = Inr ()" by code_simp
  have "case other_settings (response_of (shown mode)) of None \<Rightarrow> False | Some _ \<Rightarrow> True" by code_simp
  then show "other_settings (response_of (shown mode)) \<noteq> None" by (auto split: option.splits)
qed

lemma shown_observed:
  assumes "mode = ''on'' \<or> mode = ''off''"
  shows "locate_observation (\<lambda>_. ''f'') (shown mode) led_policy = Inr (mode, ''f'')"
proof -
  obtain c where "parse_controller_show_all (shown mode) = Inr c" "ci_serial_number c = controller_serial led_policy"
    "ci_model_name c = expected_model"
    using shown_identity [of mode] by (auto split: sum.splits)
  moreover obtain inventory where
    "map_res (\<lambda>nk. or_refused ''Array inventory is incomplete'' (inventory_rows (response_of (shown mode)) nk)) inventory_columns = Inr inventory"
    "check_array led_policy (response_of (shown mode)) (inventory ! 0) (inventory ! 1) = Inr ()"
    using shown_inventory [of mode "''Array inventory is incomplete''"] by (auto split: sum.splits)
  moreover obtain settings where "other_settings (response_of (shown mode)) = Some settings" using shown_rest(2) by blast
  moreover have "activity_of (response_of (shown mode)) = Some mode" using assms shown_activity by auto
  ultimately show ?thesis
    by (simp add: locate_observation_def with_fault_def or_refused_def shown_rest(1))
qed

lemma set_mode_cases: "set_mode tr = ''on'' \<or> set_mode tr = ''off''"
  by (induction tr rule: rev_induct) (auto simp: set_mode_def)

lemma sample_observation [simp]:
  "read_observation sample_led led_policy tr = (tr @ [Run activity_show], Inr (set_mode (runner_steps tr), ''f''))"
proof -
  have "le_fingerprint sample_led = (\<lambda>_. ''f'')" by (simp add: sample_led_def)
  then show ?thesis
    using shown_observed [OF set_mode_cases [of "runner_steps tr"]]
    by (simp add: read_observation_def host_read_def on_runner_def sample_run_parts sample_read)
qed

definition prepare_steps :: "effect list" where
  "prepare_steps = [LoadPolicy approval_path, VerifyBinary pinned_binary, LoadPolicy approval_path, activity_show,
     LoadPolicy approval_path, VerifyBinary pinned_binary]"

lemma sample_preflight:
  assumes "target = ''on'' \<and> set_mode tr = ''off'' \<or> target = ''off'' \<and> set_mode tr = ''on''"
  shows "preflight (le_runner sample_led) locate_config approval_path None (activity_argv target) tr = (tr @ prepare_steps, Inr ())"
proof -
  have policy: "load_policy (le_runner sample_led) t approval_path = Inr led_policy" for t
    using sample_policy_at [of approval_path "[]"]
    by (simp add: policy_at_def sample_run_parts on_runner_def sample_led_def split: sum.splits)
  have binary: "verify_pinned_binary (le_runner sample_led) t b = Inr ()" "binary_path locate_config = pinned_binary" for t b
    by (simp_all add: sample_led_def locate_config_def)
  have command: "validate_command (activity_argv target) = Inr ()" "policy_refusal led_policy (activity_argv target) = None"
    using assms by (elim disjE conjE; simp, code_simp)+
  obtain c where c: "parse_controller_show_all (shown (set_mode tr)) = Inr c" "identity_matches led_policy c"
    using shown_identity [of "set_mode tr"] by (auto split: sum.splits)
  have calm: "\<not> alarm_conflict (activity_argv target) c" "check_action_topology (activity_argv target) d led_policy = Inr ()"
    "activity_argv target ! 0 \<noteq> ''/c0/fall''" for d
    using assms by (auto simp: activity_argv_def alarm_conflict_def check_action_topology_def Let_def needs_vd_check_def replacement_step_def)
  have differs: "\<not> activity_conflict (activity_argv target) (shown (set_mode tr))"
    using assms by (elim disjE conjE; simp, code_simp)
  have same: "set_mode (tr @ [LoadPolicy p, VerifyBinary b, LoadPolicy q]) = set_mode tr" for p b q
    by (simp add: set_mode_def activity_write_def)
  show ?thesis
    using policy binary command c calm differs
    by (simp add: preflight_def check_storcli_prewrite_def load_approved_def reload_unchanged_def validate_io_def sample_run_parts
        map_error_def sample_read same prepare_steps_def)
qed

lemma runner_steps_simps [simp]:
  "runner_steps [] = []" "runner_steps (a @ b) = runner_steps a @ runner_steps b" "runner_steps (Run e # tr) = e # runner_steps tr"
  "\<forall>e. s \<noteq> Run e \<Longrightarrow> runner_steps (s # tr) = runner_steps tr"
  by (auto simp: runner_steps_def map_filter_def split: led_step.splits)

lemma runner_steps_map [simp]: "runner_steps (map Run es) = es"
  by (induction es) simp_all

lemma sample_prepare [simp]:
  assumes "target = ''on'' \<and> set_mode (runner_steps tr) = ''off'' \<or> target = ''off'' \<and> set_mode (runner_steps tr) = ''on''"
  shows "execute_prepare sample_led target tr = (tr @ map Run prepare_steps, Inr ())"
proof -
  have "validate_command (activity_argv target) = Inr ()"
    using assms by (elim disjE conjE; simp, code_simp)
  then show ?thesis
    using sample_preflight [OF assms]
    by (simp add: execute_prepare_def on_runner_def sample_run_parts validate_io_def)
qed

lemma sample_send [simp]:
  assumes "target = ''on'' \<or> target = ''off''"
  shows "send_confirmed sample_led target tr = (tr @ [Run (activity_write target)], Inr ())"
proof -
  have "ensure_command_succeeded sample_done = Inr ()" "write_response_ok sample_done" by code_simp+
  moreover have "''show'' \<notin> set (argv_of locate_config (activity_argv target))"
    using assms by (auto simp: argv_of_def locate_config_def pinned_binary_def activity_argv_def)
  ultimately show ?thesis
    by (simp add: send_confirmed_def execute_dispatch_def on_runner_def dispatch_def sample_run_parts activity_write_def sample_led_def
        interpret_outcome_def locate_config_def with_fault_def)
qed

lemma sample_phase [simp]:
  "write_phase sample_led r tr =
     (tr @ [Receipt_put r True, Audit_copy r True, Status_put (public_view r) True], Inr (public_view r))"
proof -
  have "le_put sample_led t = None" for t by (simp add: sample_led_def)
  then show ?thesis by (simp add: write_phase_def put_def sample_run_parts)
qed

lemma sample_intent [simp]: "audit_intent sample_led argv t tr = (tr @ [Audit_new argv t True], Inr 7)"
proof -
  have "le_new_audit sample_led t = Inr 7" for t by (simp add: sample_led_def)
  then show ?thesis by (simp add: audit_intent_def uncaught_def sample_run_parts)
qed

lemma sample_outcome [simp]:
  assumes "le_audit_entry sample_led tr i = Some (''root'', argv)"
  shows "audit_outcome sample_led argv i t ok tr = (tr @ [Database_seen, Audit_update i t ok True], Inr ())"
proof -
  have "le_audit_saved sample_led t = None" "le_actor sample_led = ''root''" for t by (simp_all add: sample_led_def)
  then show ?thesis using assms by (simp add: audit_outcome_def sample_run_parts)
qed

lemma sample_entry [simp]:
  "le_audit_entry sample_led (tr @ Audit_new argv t b # c) i =
     foldl (\<lambda>m s. case s of Audit_new argv t ok \<Rightarrow> Some (''root'', argv) | _ \<Rightarrow> m) (Some (''root'', argv)) c"
  "le_now sample_led tr = ''now''" "le_digest sample_led s = s" "le_actor sample_led = ''root''"
  "le_receipt sample_led tr = Inr (foldl (\<lambda>m s. case s of Receipt_put r ok \<Rightarrow> Some (JObj r) | _ \<Rightarrow> m) None tr)"
  by (simp_all add: sample_led_def)

lemma set_mode_append:
  "set_mode (tr @ es) = foldl (\<lambda>m e. if e = activity_write ''on'' then ''on'' else if e = activity_write ''off'' then ''off'' else m) (set_mode tr) es"
  by (simp add: set_mode_def)

lemma sample_effects [simp]:
  "activity_show \<noteq> activity_write m" "LoadPolicy p \<noteq> activity_write m" "VerifyBinary p \<noteq> activity_write m"
  "activity_write ''off'' \<noteq> activity_write ''on''" "activity_write ''on'' \<noteq> activity_write ''off''"
  by (auto simp: activity_show_def activity_write_def controller_show_def activity_argv_def)

lemma sample_attempt:
  assumes "target = ''on'' \<and> set_mode (runner_steps tr) = ''off'' \<or> target = ''off'' \<and> set_mode (runner_steps tr) = ''on''"
  shows "\<exists>sending. sending = phased intent ''dispatching'' ''now'' [(''write_dispatched'', JBool True)] \<and>
    attempt sample_led led_policy target ''f'' intent tr =
      (tr @ map Run prepare_steps @ [Service_seen, Environment_seen ''1'', Run (VerifyBinary pinned_binary), Database_seen,
         Receipt_put sending True, Audit_copy sending True, Status_put (public_view sending) True,
         Run (activity_write target), Run activity_show], Inr (sending, True, Inr target))"
proof -
  have target: "target = ''on'' \<or> target = ''off''" using assms by blast
  have "set_mode (runner_steps tr @ es @ [activity_write target]) = target" for es
    using target by (auto simp: set_mode_append)
  note after = this [of "prepare_steps @ [VerifyBinary pinned_binary]", simplified]
  show ?thesis
    using target assms after
    by (simp add: attempt_def sample_run_parts Let_def readback_def unless_refused_def)
qed

definition r_prepared :: "bool \<Rightarrow> string \<Rightarrow> dict option \<Rightarrow> dict" where
  "r_prepared restoring mode original =
     phased (with_entries (intent_of sample_led led_policy restoring mode ''f'' original) [(''audit_id'', JInt 7)]) ''prepared'' ''now'' []"

definition r_sending :: "bool \<Rightarrow> string \<Rightarrow> dict option \<Rightarrow> dict" where
  "r_sending restoring mode original =
     phased (r_prepared restoring mode original) ''dispatching'' ''now'' [(''write_dispatched'', JBool True)]"

definition r_verified :: "bool \<Rightarrow> string \<Rightarrow> dict option \<Rightarrow> dict" where
  "r_verified restoring mode original =
     phased (r_sending restoring mode original) ''verified_pending_audit'' ''now''
       [(''command_confirmed'', JBool True), (''observed'', JStr (target_of restoring)),
        (''array_state_preserved'', JBool True), (''other_settings_preserved'', JBool True)]"

definition r_final :: "bool \<Rightarrow> string \<Rightarrow> dict option \<Rightarrow> dict" where
  "r_final restoring mode original =
     phased (r_verified restoring mode original) (if restoring then ''restored'' else ''verified'') ''now'' []"

definition phase_steps :: "dict \<Rightarrow> led_step list" where
  "phase_steps r = [Receipt_put r True, Audit_copy r True, Status_put (public_view r) True]"

definition guard_steps :: "led_step list" where
  "guard_steps = [Service_seen, Environment_seen ''1'', Run (VerifyBinary pinned_binary), Database_seen]"

definition attempt_steps :: "bool \<Rightarrow> string \<Rightarrow> dict option \<Rightarrow> led_step list" where
  "attempt_steps restoring mode original =
     [Audit_new (activity_argv (target_of restoring)) ''prepared; command not sent'' True] @
     phase_steps (r_prepared restoring mode original) @ map Run prepare_steps @ guard_steps @
     phase_steps (r_sending restoring mode original) @ [Run (activity_write (target_of restoring)), Run activity_show] @
     phase_steps (r_verified restoring mode original) @
     [Database_seen, Audit_update 7 (''verified '' @ mode @ '' -> '' @ target_of restoring) True True] @
     phase_steps (r_final restoring mode original)"

lemma sample_locate:
  assumes "set_mode (runner_steps tr) = (if restoring then ''on'' else ''off'')"
  shows "\<exists>x. locate_attempt sample_led led_policy restoring mode ''f'' original tr = (tr @ attempt_steps restoring mode original, Inr x)"
proof -
  let ?tr = "tr @ Audit_new (activity_argv (target_of restoring)) ''prepared; command not sent'' True # phase_steps (r_prepared restoring mode original)"
  have moded: "set_mode (runner_steps ?tr) = set_mode (runner_steps tr)" by (simp add: phase_steps_def)
  have att: "attempt sample_led led_policy (target_of restoring) ''f'' (r_prepared restoring mode original) ?tr =
      (?tr @ map Run prepare_steps @ guard_steps @ phase_steps (r_sending restoring mode original) @
        [Run (activity_write (target_of restoring)), Run activity_show],
       Inr (r_sending restoring mode original, True, Inr (target_of restoring)))"
    using sample_attempt [of "target_of restoring" ?tr "r_prepared restoring mode original"] assms moded
    by (cases restoring) (simp_all add: target_of_def r_sending_def phase_steps_def guard_steps_def)
  show ?thesis
    using att unfolding locate_attempt_def Let_def target_of_def [symmetric]
    by (simp add: sample_run_parts record_success_def Let_def r_prepared_def [symmetric] r_verified_def [symmetric] r_final_def [symmetric]
        phase_steps_def guard_steps_def attempt_steps_def prepare_steps_def)
qed

definition read_steps :: "dict option \<Rightarrow> led_step list" where
  "read_steps receipt =
     guard_steps @ map Run [LoadPolicy approval_path, LoadPolicy baseline_policy_path, activity_show] @
     [Receipt_read (Inr (map_option JObj receipt))] @ guard_steps"

definition applied :: "led_step list" where
  "applied = read_steps None @ attempt_steps False ''off'' None"

definition applied_receipt :: dict where
  "applied_receipt = r_final False ''off'' None"

definition restored :: "led_step list" where
  "restored = applied @ read_steps (Some applied_receipt) @ attempt_steps True ''on'' (Some applied_receipt)"

lemma guard_runs [simp]: "runner_steps guard_steps = [VerifyBinary pinned_binary]" "runner_steps (phase_steps r) = []"
  by (simp_all add: guard_steps_def phase_steps_def)

lemma sample_applied: "fst (operate sample_led ''apply'' []) = applied"
proof -
  let ?tr = "read_steps None"
  have mode: "set_mode [VerifyBinary pinned_binary, LoadPolicy approval_path, LoadPolicy baseline_policy_path] = ''off''"
    "set_mode (runner_steps ?tr) = ''off''"
    by (simp_all add: set_mode_def read_steps_def)
  obtain x where "locate_attempt sample_led led_policy False ''off'' ''f'' None ?tr = (?tr @ attempt_steps False ''off'' None, Inr x)"
    using sample_locate [of ?tr False] mode(2) by auto
  then show ?thesis
    using mode(1)
    by (simp add: operate_def sample_run_parts unless_refused_def read_receipt_def uncaught_def act_def change_activity_def Let_def
        restore_original_def applied_def read_steps_def guard_steps_def)
qed

lemma applied_receipt_get:
  "dict_get applied_receipt ''state'' = Some (JStr ''verified'')" "dict_get applied_receipt ''before'' = Some (JStr ''off'')"
  "dict_get applied_receipt ''target'' = Some (JStr ''on'')" "dict_get applied_receipt ''command_confirmed'' = Some (JBool True)"
  "dict_get applied_receipt ''controller_sha256'' = Some (JStr (controller_serial led_policy))"
  "dict_get applied_receipt ''binary_sha256'' = Some (JStr pinned_sha256)"
  by (simp_all add: applied_receipt_def r_final_def r_verified_def r_sending_def r_prepared_def with_entries_def intent_of_def)

lemma sample_restored: "fst (operate sample_led ''restore'' applied) = restored"
proof -
  let ?tr = "applied @ read_steps (Some applied_receipt)"
  have last: "foldl (\<lambda>m s. case s of Receipt_put r ok \<Rightarrow> Some (JObj r) | _ \<Rightarrow> m) None applied = Some (JObj applied_receipt)"
    by (simp add: applied_def read_steps_def attempt_steps_def phase_steps_def guard_steps_def prepare_steps_def applied_receipt_def)
  have mode: "set_mode (runner_steps applied @ [VerifyBinary pinned_binary, LoadPolicy approval_path, LoadPolicy baseline_policy_path]) = ''on''"
    "set_mode (runner_steps ?tr) = ''on''"
    by (simp_all add: set_mode_def read_steps_def applied_def attempt_steps_def prepare_steps_def target_of_def)
  obtain x where "locate_attempt sample_led led_policy True ''on'' ''f'' (Some applied_receipt) ?tr =
      (?tr @ attempt_steps True ''on'' (Some applied_receipt), Inr x)"
    using sample_locate [of ?tr True] mode(2) by auto
  then show ?thesis
    using mode(1) last
    by (simp add: operate_def sample_run_parts unless_refused_def read_receipt_def uncaught_def act_def change_activity_def Let_def
        restore_original_def restored_def read_steps_def guard_steps_def applied_receipt_get may_follow_def unhashable_def restorable_def)
qed

lemma sample_histories: "led_history applied" "led_history restored"
proof -
  show applied: "led_history applied"
    by (rule led_history.run [OF led_history.fresh, of _ sample_led "''apply''"]) (simp_all add: sample_applied)
  show "led_history restored"
    by (rule led_history.run [OF applied, of _ sample_led "''restore''"]) (simp_all add: sample_restored restored_def)
qed

lemma sample_kept: "receipts_kept [None] restored" "receipts_kept [None] applied"
  by (simp_all add: restored_def applied_def read_steps_def attempt_steps_def phase_steps_def guard_steps_def prepare_steps_def
      applied_receipt_def)

lemma sample_writes:
  "\<exists>tr later. applied = tr @ Run (activity_write ''on'') # later"
  "\<exists>tr between later. restored = tr @ Run (activity_write ''on'') # between @ Run (activity_write ''off'') # later"
proof -
  have "Run (activity_write ''on'') \<in> set applied" by (simp add: applied_def attempt_steps_def target_of_def)
  then obtain a c where on: "applied = a @ Run (activity_write ''on'') # c" by (meson split_list)
  then show "\<exists>tr later. applied = tr @ Run (activity_write ''on'') # later" by blast
  have "Run (activity_write ''off'') \<in> set (attempt_steps True ''on'' (Some applied_receipt))"
    by (simp add: attempt_steps_def target_of_def)
  then obtain b d where "attempt_steps True ''on'' (Some applied_receipt) = b @ Run (activity_write ''off'') # d" by (meson split_list)
  then have "restored = a @ Run (activity_write ''on'') # (c @ read_steps (Some applied_receipt) @ b) @ Run (activity_write ''off'') # d"
    using on by (simp add: restored_def)
  then show "\<exists>tr between later. restored = tr @ Run (activity_write ''on'') # between @ Run (activity_write ''off'') # later" by blast
qed

lemma sample_write_steps: "write_step (Run (activity_write ''on''))" "write_step (Run (activity_write ''off''))"
  using activity_command_writes(1) [of False] activity_command_writes(1) [of True] by (simp_all add: activity_write_def target_of_def)

lemma activity_writes_are_announced_witness:
  "\<exists>tr later earlier r. applied = tr @ Run (activity_write ''on'') # later \<and>
     tr = earlier @ [Receipt_put r True, Audit_copy r True, Status_put (public_view r) True] \<and> announces r"
proof -
  obtain tr later where split: "applied = tr @ Run (activity_write ''on'') # later" using sample_writes(1) by blast
  show ?thesis
    using activity_writes_are_announced [of tr "Run (activity_write ''on'')" later] sample_histories(1) sample_kept(2)
      sample_write_steps(1) unfolding split by blast
qed

lemma activity_writes_are_not_repeated_witness:
  "\<exists>tr between later. restored = tr @ Run (activity_write ''on'') # between @ Run (activity_write ''off'') # later \<and>
     (\<exists>r ok. Receipt_put r ok \<in> set between \<and> closes_attempt r)"
proof -
  obtain tr between later where split: "restored = tr @ Run (activity_write ''on'') # between @ Run (activity_write ''off'') # later"
    using sample_writes(2) by blast
  show ?thesis
    using activity_writes_are_not_repeated [of tr "Run (activity_write ''on'')" between "Run (activity_write ''off'')" later]
      sample_histories(2) sample_kept(1) sample_write_steps unfolding split by blast
qed

subsection \<open>The approval\<close>

text \<open>An approval the tool writes lets exactly the two commands of the property through.\<close>

lemma approval_permits_the_property_alone:
  assumes "locate_approval reviewed = Inr approval"
  shows "permits approval args \<longleftrightarrow> join_args (with_json_flag args) \<in> set locate_commands"
proof -
  have "commands approval = map (\<lambda>c. \<lparr>ac_command = c,
      ac_evidence = ''Operator-approved Locate activity setup; pinned help SHA256 '' @ help_hash\<rparr>) locate_commands"
    using assms validate_commands_Inr by (fastforce simp: locate_approval_def validate_commands_def Let_def bindr_def split: if_splits sum.splits)
  then show ?thesis by (simp add: permits_def comp_def)
qed

end
