(* ===== verification/Retention.thy ===== *)
theory Retention
  imports Database
begin

section \<open>Metric retention\<close>

text \<open>
  \<open>db/retention.py\<close> and the transaction of \<open>services/scheduler.py\<close> that runs it: raw
  snapshots are folded into hourly rows, hourly rows into daily rows, and both sources are pruned
  at the same cutoffs. The joined query delivers its rows in insertion order. Averages are rational
  numbers, so the rounding of Python's floats is not modelled.
\<close>

definition hour_bucket :: "instant \<Rightarrow> instant" where
  "hour_bucket t = t - t mod hours 1"

definition day_bucket :: "instant \<Rightarrow> instant" where
  "day_bucket t = t - t mod days 1"

text \<open>\<open>datetime.min\<close> in UTC.\<close>

definition datetime_min :: instant where
  "datetime_min = sec (- 62135596800)"

subsection \<open>Accumulators\<close>

record raw_metrics =
  ra_bucket_start :: instant
  ra_enclosure_id :: int
  ra_slot_id :: int
  ra_serial_number :: string
  ra_media_errors_max :: int
  ra_other_errors_max :: int
  ra_predictive_failures_max :: int
  ra_sample_count :: int
  ra_latest_seen_at :: instant
  ra_temperatures :: "int list"

type_synonym raw_sample = "physical_drive_info \<times> instant"

definition raw_key :: "raw_sample \<Rightarrow> bucket_key" where
  "raw_key x = (hour_bucket (snd x), pdi_enclosure_id (fst x), pdi_slot_id (fst x), pdi_serial_number (fst x))"

fun raw_start :: "bucket_key \<Rightarrow> raw_metrics" where
  "raw_start (b, e, s, serial) =
     \<lparr>ra_bucket_start = b, ra_enclosure_id = e, ra_slot_id = s, ra_serial_number = serial,
      ra_media_errors_max = 0, ra_other_errors_max = 0, ra_predictive_failures_max = 0, ra_sample_count = 0,
      ra_latest_seen_at = datetime_min, ra_temperatures = []\<rparr>"

definition raw_add :: "raw_sample \<Rightarrow> raw_metrics \<Rightarrow> raw_metrics" where
  "raw_add x a =
     (let drive = fst x; latest = (snd x \<ge> ra_latest_seen_at a)
      in a\<lparr>ra_sample_count := ra_sample_count a + 1,
           ra_media_errors_max := max (ra_media_errors_max a) (pdi_media_errors drive),
           ra_other_errors_max := max (ra_other_errors_max a) (pdi_other_errors drive),
           ra_predictive_failures_max := max (ra_predictive_failures_max a) (pdi_predictive_failures drive),
           ra_temperatures := ra_temperatures a @ (case pdi_temperature drive of None \<Rightarrow> [] | Some t \<Rightarrow> [t]),
           ra_latest_seen_at := (if latest then snd x else ra_latest_seen_at a),
           ra_serial_number := (if latest then pdi_serial_number drive else ra_serial_number a)\<rparr>)"

definition raw_acc_key :: "raw_metrics \<Rightarrow> bucket_key" where
  "raw_acc_key a = (ra_bucket_start a, ra_enclosure_id a, ra_slot_id a, ra_serial_number a)"

record hourly_metrics =
  ha_bucket_start :: instant
  ha_enclosure_id :: int
  ha_slot_id :: int
  ha_serial_number :: string
  ha_media_errors_max :: int
  ha_other_errors_max :: int
  ha_predictive_failures_max :: int
  ha_sample_count :: int
  ha_temperature_weighted_sum :: rat
  ha_temperature_sample_count :: int
  ha_latest_seen_at :: instant
  ha_temperature_mins :: "int list"
  ha_temperature_maxes :: "int list"

type_synonym hourly_row = "bucket_key \<times> metrics_row"

fun hourly_key :: "hourly_row \<Rightarrow> bucket_key" where
  "hourly_key ((b, e, s, serial), _) = (day_bucket b, e, s, serial)"

fun hourly_start :: "bucket_key \<Rightarrow> hourly_metrics" where
  "hourly_start (b, e, s, serial) =
     \<lparr>ha_bucket_start = b, ha_enclosure_id = e, ha_slot_id = s, ha_serial_number = serial,
      ha_media_errors_max = 0, ha_other_errors_max = 0, ha_predictive_failures_max = 0, ha_sample_count = 0,
      ha_temperature_weighted_sum = 0, ha_temperature_sample_count = 0, ha_latest_seen_at = datetime_min,
      ha_temperature_mins = [], ha_temperature_maxes = []\<rparr>"

definition option_list :: "'a option \<Rightarrow> 'a list" where
  "option_list v = (case v of None \<Rightarrow> [] | Some x \<Rightarrow> [x])"

definition hourly_add :: "hourly_row \<Rightarrow> hourly_metrics \<Rightarrow> hourly_metrics" where
  "hourly_add x a =
     (case x of ((b, _, _, serial), m) \<Rightarrow>
       (let latest = (b \<ge> ha_latest_seen_at a);
            counted = (mr_temp_avg m \<noteq> None \<and> mr_temp_count m > 0)
        in a\<lparr>ha_sample_count := ha_sample_count a + mr_sample_count m,
             ha_media_errors_max := max (ha_media_errors_max a) (mr_media_errors_max m),
             ha_other_errors_max := max (ha_other_errors_max a) (mr_other_errors_max m),
             ha_predictive_failures_max := max (ha_predictive_failures_max a) (mr_predictive_failures_max m),
             ha_temperature_mins := ha_temperature_mins a @ option_list (mr_temp_min m),
             ha_temperature_maxes := ha_temperature_maxes a @ option_list (mr_temp_max m),
             ha_temperature_weighted_sum := ha_temperature_weighted_sum a +
               (case mr_temp_avg m of Some avg \<Rightarrow> if counted then avg * of_int (mr_temp_count m) else 0 | None \<Rightarrow> 0),
             ha_temperature_sample_count := ha_temperature_sample_count a + (if counted then mr_temp_count m else 0),
             ha_latest_seen_at := (if latest then b else ha_latest_seen_at a),
             ha_serial_number := (if latest then serial else ha_serial_number a)\<rparr>))"

definition hourly_acc_key :: "hourly_metrics \<Rightarrow> bucket_key" where
  "hourly_acc_key a = (ha_bucket_start a, ha_enclosure_id a, ha_slot_id a, ha_serial_number a)"

text \<open>The dict of accumulators: \<open>buckets.setdefault(key, start).add(row)\<close> for every row.\<close>

definition bucket_step ::
  "('x \<Rightarrow> 'k) \<Rightarrow> ('k \<Rightarrow> 'a) \<Rightarrow> ('x \<Rightarrow> 'a \<Rightarrow> 'a) \<Rightarrow> 'x \<Rightarrow> ('k \<times> 'a) list \<Rightarrow> ('k \<times> 'a) list" where
  "bucket_step key start add x bs =
     AList.update (key x) (add x (case map_of bs (key x) of None \<Rightarrow> start (key x) | Some a \<Rightarrow> a)) bs"

definition bucket_all ::
  "('x \<Rightarrow> 'k) \<Rightarrow> ('k \<Rightarrow> 'a) \<Rightarrow> ('x \<Rightarrow> 'a \<Rightarrow> 'a) \<Rightarrow> 'x list \<Rightarrow> ('k \<times> 'a) list" where
  "bucket_all key start add xs = fold (bucket_step key start add) xs []"

subsection \<open>Rows\<close>

definition temperature_summary :: "int list \<Rightarrow> int option \<times> int option \<times> rat option" where
  "temperature_summary ts =
     (if ts = [] then (None, None, None)
      else (Some (Min (set ts)), Some (Max (set ts)), Some (of_int (sum_list ts) / of_nat (length ts))))"

definition hourly_row_of :: "raw_metrics \<Rightarrow> metrics_row" where
  "hourly_row_of a =
     (case temperature_summary (ra_temperatures a) of (mn, mx, avg) \<Rightarrow>
       \<lparr>mr_temp_min = mn, mr_temp_max = mx, mr_temp_avg = avg, mr_temp_count = int (length (ra_temperatures a)),
        mr_media_errors_max = ra_media_errors_max a, mr_other_errors_max = ra_other_errors_max a,
        mr_predictive_failures_max = ra_predictive_failures_max a, mr_sample_count = ra_sample_count a\<rparr>)"

definition daily_row_of :: "hourly_metrics \<Rightarrow> metrics_row" where
  "daily_row_of a =
     \<lparr>mr_temp_min = (if ha_temperature_mins a = [] then None else Some (Min (set (ha_temperature_mins a)))),
      mr_temp_max = (if ha_temperature_maxes a = [] then None else Some (Max (set (ha_temperature_maxes a)))),
      mr_temp_avg = (if ha_temperature_sample_count a = 0 then None
        else Some (ha_temperature_weighted_sum a / of_int (ha_temperature_sample_count a))),
      mr_temp_count = ha_temperature_sample_count a, mr_media_errors_max = ha_media_errors_max a,
      mr_other_errors_max = ha_other_errors_max a, mr_predictive_failures_max = ha_predictive_failures_max a,
      mr_sample_count = ha_sample_count a\<rparr>"

text \<open>An upsert writes every column of the row with the accumulator's key.\<close>

definition upsert_hourly :: "raw_metrics \<Rightarrow> db \<Rightarrow> db" where
  "upsert_hourly a d = d\<lparr>db_hourly := AList.update (raw_acc_key a) (hourly_row_of a) (db_hourly d)\<rparr>"

definition upsert_daily :: "hourly_metrics \<Rightarrow> db \<Rightarrow> db" where
  "upsert_daily a d = d\<lparr>db_daily := AList.update (hourly_acc_key a) (daily_row_of a) (db_daily d)\<rparr>"

subsection \<open>Operations\<close>

definition raw_samples :: "db \<Rightarrow> raw_sample list" where
  "raw_samples d = concat (map (\<lambda>s. map (\<lambda>x. (x, sr_captured_at s)) (ps_physical_drives s)) (db_snapshots d))"

definition downsample_to_hourly :: "py_datetime \<Rightarrow> int \<Rightarrow> db \<Rightarrow> py_error + (db \<times> int)" where
  "downsample_to_hourly now_utc retention_days d =
     bindr (require_aware_utc now_utc) (\<lambda>now.
       (let window_end = hour_bucket (now - days retention_days);
            buckets = bucket_all raw_key raw_start raw_add (filter (\<lambda>x. snd x < window_end) (raw_samples d))
        in Inr (fold (upsert_hourly \<circ> snd) buckets d, int (length buckets))))"

definition downsample_to_daily :: "py_datetime \<Rightarrow> int \<Rightarrow> db \<Rightarrow> py_error + (db \<times> int)" where
  "downsample_to_daily now_utc retention_days d =
     bindr (require_aware_utc now_utc) (\<lambda>now.
       (let window_end = day_bucket (now - days retention_days);
            buckets = bucket_all hourly_key hourly_start hourly_add (filter (\<lambda>x. fst (fst x) < window_end) (db_hourly d))
        in Inr (fold (upsert_daily \<circ> snd) buckets d, int (length buckets))))"

definition prune_raw_snapshots :: "py_datetime \<Rightarrow> int \<Rightarrow> db \<Rightarrow> py_error + (db \<times> int)" where
  "prune_raw_snapshots now_utc retention_days d =
     bindr (require_aware_utc now_utc) (\<lambda>now.
       (let cutoff = hour_bucket (now - days retention_days);
            old = filter (\<lambda>s. sr_captured_at s < cutoff) (db_snapshots d)
        in if old = [] then Inr (d, 0)
           else Inr (d\<lparr>db_snapshots := filter (\<lambda>s. \<not> sr_captured_at s < cutoff) (db_snapshots d)\<rparr>, int (length old))))"

definition prune_hourly_metrics :: "py_datetime \<Rightarrow> int \<Rightarrow> db \<Rightarrow> py_error + (db \<times> int)" where
  "prune_hourly_metrics now_utc retention_days d =
     bindr (require_aware_utc now_utc) (\<lambda>now.
       (let cutoff = day_bucket (now - days retention_days);
            old = filter (\<lambda>x. fst (fst x) < cutoff) (db_hourly d)
        in if old = [] then Inr (d, 0)
           else Inr (d\<lparr>db_hourly := filter (\<lambda>x. \<not> fst (fst x) < cutoff) (db_hourly d)\<rparr>, int (length old))))"

definition retention_transaction :: "settings \<Rightarrow> py_datetime \<Rightarrow> db \<Rightarrow> py_error + (db \<times> int \<times> int \<times> int \<times> int)" where
  "retention_transaction s clock d =
     bindr (require_aware_utc clock) (\<lambda>now.
     bindr (downsample_to_hourly (Aware now) (st_metrics_raw_retention_days s) d) (\<lambda>(d1, hourly).
     bindr (downsample_to_daily (Aware now) (st_metrics_hourly_retention_days s) d1) (\<lambda>(d2, daily).
     bindr (prune_raw_snapshots (Aware now) (st_metrics_raw_retention_days s) d2) (\<lambda>(d3, raw_pruned).
     bindr (prune_hourly_metrics (Aware now) (st_metrics_hourly_retention_days s) d3) (\<lambda>(d4, hourly_pruned).
       Inr (d4, hourly, daily, raw_pruned, hourly_pruned))))))"

text \<open>An exception is logged and the transaction is rolled back.\<close>

definition run_retention_once :: "settings \<Rightarrow> py_datetime \<Rightarrow> db \<Rightarrow> db" where
  "run_retention_once s clock d = (case retention_transaction s clock d of Inl _ \<Rightarrow> d | Inr (d', _) \<Rightarrow> d')"

end
