(* ===== verification/Health.thy ===== *)
theory Health
  imports Database ForeignConfig
begin

section \<open>Health assessments\<close>

text \<open>
  \<open>services/drive_health.py\<close>, \<open>services/controller_health.py\<close>, \<open>services/drive_position.py\<close>, and from
  \<open>services/overview.py\<close> what combines them: the grade of the controller, the grid of drives and the
  list of drives. Grades are the strings of the source. A snapshot row stands for its controller
  with its related rows.

  \<^item> Sizes are divided as rationals and rounded half to even; the code divides floats.
\<close>

subsection \<open>Drives\<close>

record drive_assessment =
  dh_severity :: string
  dh_label :: string
  dh_reasons :: "string list"

definition dh_summary :: "drive_assessment \<Rightarrow> string" where
  "dh_summary a = (let joined = join_with '' '' (dh_reasons a)
                   in if joined = [] then ''Drive functioning normally.'' else joined)"

definition health_count :: "int \<Rightarrow> string \<Rightarrow> string" where
  "health_count n description = show_int n @ '' '' @ description @ (if n = 1 then [] else ''s'') @ ''.''"

definition state_faults :: "(string \<times> string) list" where
  "state_faults =
     [(''failed'', ''Controller reports drive failure.''),
      (''offline'', ''Drive is offline.''),
      (''missing'', ''No drive detected.''),
      (''ubad'', ''Controller marks drive unusable (UBad).'')]"

definition drive_critical_reasons :: "physical_drive_info \<Rightarrow> string \<Rightarrow> string list" where
  "drive_critical_reasons drive temperature =
     (case map_of state_faults (normalized_state (pdi_state drive)) of None \<Rightarrow> [] | Some reason \<Rightarrow> [reason]) @
     (if pdi_smart_alert drive then [''S.M.A.R.T. alert is active.''] else []) @
     (if pdi_predictive_failures drive > 0
      then [health_count (pdi_predictive_failures drive) ''predictive failure''] else []) @
     (if temperature = ''critical'' then [''Drive temperature is critical.''] else [])"

definition state_warning :: "string \<Rightarrow> string list" where
  "state_warning raw =
     (let state = normalized_state raw
      in if map_of state_faults state \<noteq> None then []
         else if state \<in> set [''rbld'', ''rebld'', ''rebuild'', ''rebuilding''] then [''Rebuild in progress.'']
         else if state = ''jbod'' then [''JBOD drive; not a RAID member.'']
         else if state \<notin> set [''onln'', ''online'', ''ugood'', ''dhs'', ''ghs''] then
           [''Unrecognized drive state: '' @ raw @ ''.'']
         else [])"

definition drive_warning_reasons :: "physical_drive_info \<Rightarrow> string \<Rightarrow> string list" where
  "drive_warning_reasons drive temperature =
     state_warning (pdi_state drive) @
     (if temperature = ''warning'' then [''Drive temperature is elevated.''] else []) @
     (if pdi_media_errors drive > 0
      then [health_count (pdi_media_errors drive) ''historical media error''] else []) @
     (if pdi_other_errors drive > 0 then [health_count (pdi_other_errors drive) ''other error''] else [])"

definition assess_drive_health :: "physical_drive_info \<Rightarrow> string \<Rightarrow> drive_assessment" where
  "assess_drive_health drive temperature =
     (let critical = drive_critical_reasons drive temperature;
          warning = drive_warning_reasons drive temperature
      in if critical \<noteq> [] then
           \<lparr>dh_severity = ''critical'', dh_label = ''Critical'', dh_reasons = critical @ warning\<rparr>
         else if warning \<noteq> [] then
           \<lparr>dh_severity = ''warning'', dh_label = ''Attention'', dh_reasons = critical @ warning\<rparr>
         else
           \<lparr>dh_severity = ''optimal'',
            dh_label = (case map_of [(''ugood'', ''Ready''), (''dhs'', ''Hot spare''), (''ghs'', ''Hot spare'')]
                          (normalized_state (pdi_state drive)) of None \<Rightarrow> ''Healthy'' | Some l \<Rightarrow> l),
            dh_reasons = []\<rparr>)"

definition temperature_severity :: "int option \<Rightarrow> int \<Rightarrow> int \<Rightarrow> string" where
  "temperature_severity t temp_warning temp_critical =
     (case t of
        None \<Rightarrow> ''unknown''
      | Some n \<Rightarrow> if n \<ge> temp_critical then ''critical'' else if n \<ge> temp_warning then ''warning'' else ''optimal'')"

text \<open>The assessment every live view shows.\<close>

definition graded_health :: "physical_drive_info \<Rightarrow> int \<Rightarrow> int \<Rightarrow> drive_assessment" where
  "graded_health drive temp_warning temp_critical =
     assess_drive_health drive (temperature_severity (pdi_temperature drive) temp_warning temp_critical)"

definition compute_drive_tile_severity :: "physical_drive_info \<Rightarrow> int \<Rightarrow> int \<Rightarrow> string" where
  "compute_drive_tile_severity drive temp_warning temp_critical = dh_severity (graded_health drive temp_warning temp_critical)"

subsection \<open>Controller components\<close>

definition cachevault_critical :: "snapshot_row \<Rightarrow> string list" where
  "cachevault_critical s =
     (case ps_cachevault s of
        None \<Rightarrow> if ps_cv_present s then [] else [''CacheVault is not detected.'']
      | Some cv \<Rightarrow>
          (if normalized_state (cvi_state cv) \<noteq> ''optimal'' then [''CacheVault reports '' @ cvi_state cv @ ''.''] else []) @
          (if cvi_replacement_required cv then [''CacheVault replacement is required.''] else []))"

definition cachevault_warning :: "snapshot_row \<Rightarrow> settings option \<Rightarrow> string list" where
  "cachevault_warning s settings =
     (case ps_cachevault s of
        None \<Rightarrow> if ps_cv_present s then [''CacheVault status is unverified.''] else []
      | Some cv \<Rightarrow>
          (if ps_cv_present s then [] else [''CacheVault presence evidence conflicts.'']) @
          (case (settings, cvi_capacitance cv) of
             (Some st, Some n) \<Rightarrow>
               if n < st_cv_capacitance_warning_percent st
               then [''CacheVault capacitance is below the warning threshold.''] else []
           | _ \<Rightarrow> []))"

definition roc_temperature_reasons :: "snapshot_row \<Rightarrow> settings option \<Rightarrow> string list \<times> string list" where
  "roc_temperature_reasons s settings =
     (case (settings, ps_roc_temperature s) of
        (Some st, Some t) \<Rightarrow>
          if t \<ge> st_roc_temp_critical_celsius st then ([''Controller temperature is critical.''], [])
          else if t \<ge> st_roc_temp_warning_celsius st then ([], [''Controller temperature is elevated.''])
          else ([], [])
      | _ \<Rightarrow> ([], []))"

definition assess_controller_components :: "snapshot_row \<Rightarrow> settings option \<Rightarrow> string \<times> string list" where
  "assess_controller_components s settings =
     (let critical = cachevault_critical s @ fst (roc_temperature_reasons s settings);
          warning = cachevault_warning s settings @ snd (roc_temperature_reasons s settings)
      in (if critical \<noteq> [] then ''critical'' else if warning \<noteq> [] then ''warning'' else ''optimal'', critical @ warning))"

subsection \<open>The grade of the controller\<close>

definition worst_controller_health :: "string \<Rightarrow> string \<Rightarrow> string" where
  "worst_controller_health current candidate =
     (if candidate = ''critical'' then ''critical''
      else if candidate = ''warning'' \<and> current = ''optimal'' then ''warning'' else current)"

fun event_severity_to_status :: "severity \<Rightarrow> string" where
  "event_severity_to_status Info = ''optimal''"
| "event_severity_to_status Warning = ''warning''"
| "event_severity_to_status Critical = ''critical''"

definition virtual_drive_controller_health_status :: "virtual_drive_info list \<Rightarrow> string" where
  "virtual_drive_controller_health_status vds =
     fold (\<lambda>v severity. worst_controller_health severity
       (event_severity_to_status (virtual_drive_state_severity (vdi_state v)))) vds ''optimal''"

definition physical_drive_aggregate_status :: "physical_drive_info list \<Rightarrow> settings option \<Rightarrow> string" where
  "physical_drive_aggregate_status pds settings =
     fold (\<lambda>p severity.
       let temperature = (case settings of
             None \<Rightarrow> ''unknown''
           | Some st \<Rightarrow> temperature_severity (pdi_temperature p) (st_temp_warning_celsius st) (st_temp_critical_celsius st))
       in worst_controller_health severity (dh_severity (assess_drive_health p temperature))) pds ''optimal''"

definition derive_controller_health ::
  "snapshot_row \<Rightarrow> physical_drive_info list \<Rightarrow> virtual_drive_info list \<Rightarrow> string option \<Rightarrow> settings option \<Rightarrow> string" where
  "derive_controller_health s pds vds physical_drive_severity settings =
     (let components = fst (assess_controller_components s settings);
          drives = (case physical_drive_severity of
                      Some x \<Rightarrow> x | None \<Rightarrow> physical_drive_aggregate_status pds settings);
          severity = worst_controller_health (worst_controller_health components drives)
                       (virtual_drive_controller_health_status vds)
      in if pds = [] \<or> vds = [] then ''critical'' else severity)"

definition snapshot_health :: "settings \<Rightarrow> snapshot_row \<Rightarrow> string" where
  "snapshot_health st s =
     derive_controller_health s (ps_physical_drives s) (ps_virtual_drives s)
       (Some (physical_drive_aggregate_status (ps_physical_drives s) (Some st))) (Some st)"

subsection \<open>Positions\<close>

definition physical_slot_by_controller_slot :: "(int \<times> int) list" where
  "physical_slot_by_controller_slot = [(4, 0), (5, 1), (6, 2), (7, 3), (0, 4), (1, 5), (2, 6), (3, 7)]"

definition controller_slots_in_physical_order :: "int list" where
  "controller_slots_in_physical_order = map fst physical_slot_by_controller_slot"

definition physical_slot_number :: "int \<Rightarrow> int" where
  "physical_slot_number k = (case map_of physical_slot_by_controller_slot k of None \<Rightarrow> k | Some p \<Rightarrow> p)"

definition physical_slot_label :: "int \<Rightarrow> string" where
  "physical_slot_label k = ''S'' @ show_int (physical_slot_number k)"

definition position_key :: "physical_drive_info \<Rightarrow> int \<times> int" where
  "position_key p = (pdi_enclosure_id p, physical_slot_number (pdi_slot_id p))"

definition in_position_order :: "physical_drive_info list \<Rightarrow> physical_drive_info list" where
  "in_position_order ps = sort_key position_key ps"

definition slot_ref :: "physical_drive_info \<Rightarrow> string" where
  "slot_ref p = show_int (pdi_enclosure_id p) @ '':'' @ show_int (pdi_slot_id p)"

subsection \<open>The grid of the main page\<close>

record drive_tile =
  dt_slot_label :: string
  dt_enclosure_id :: int
  dt_slot_id :: int
  dt_temperature :: "int option"
  dt_temperature_state :: string
  dt_state_text :: string
  dt_state_severity :: string
  dt_tile_severity :: string
  dt_error_badge_count :: "int option"
  dt_detail_url :: string
  dt_health_label :: string
  dt_health_reason :: string

definition health_reason :: "drive_assessment \<Rightarrow> string" where
  "health_reason a = (if dh_reasons a \<noteq> [] then dh_summary a else [])"

definition drive_grid_tile :: "int \<Rightarrow> int \<Rightarrow> physical_drive_info \<Rightarrow> drive_tile" where
  "drive_grid_tile temp_warning temp_critical p =
     (let health = graded_health p temp_warning temp_critical;
          errors = pdi_media_errors p + pdi_other_errors p + pdi_predictive_failures p
      in \<lparr>dt_slot_label = physical_slot_label (pdi_slot_id p), dt_enclosure_id = pdi_enclosure_id p,
          dt_slot_id = pdi_slot_id p, dt_temperature = pdi_temperature p,
          dt_temperature_state = temperature_severity (pdi_temperature p) temp_warning temp_critical,
          dt_state_text = pdi_state p, dt_state_severity = dh_severity health,
          dt_tile_severity = compute_drive_tile_severity p temp_warning temp_critical,
          dt_error_badge_count = (if errors = 0 then None else Some errors),
          dt_detail_url = ''/drives/'' @ slot_ref p,
          dt_health_label = dh_label health, dt_health_reason = health_reason health\<rparr>)"

definition severity_order :: "string list" where
  "severity_order = [''critical'', ''warning'', ''info'', ''optimal'', ''neutral'', ''unknown'']"

definition severity_index :: "string \<Rightarrow> nat" where
  "severity_index x = length (takeWhile (\<lambda>y. y \<noteq> x) severity_order)"

text \<open>\<open>tuple.index\<close> raises for other texts; the grades of tiles are all in the tuple.\<close>

definition higher_severity :: "string \<Rightarrow> string \<Rightarrow> string" where
  "higher_severity a b = (if severity_index a \<le> severity_index b then a else b)"

definition load_drive_grid :: "settings \<Rightarrow> snapshot_row option \<Rightarrow> drive_tile list \<times> string" where
  "load_drive_grid st snapshot =
     (case snapshot of
        None \<Rightarrow> ([], ''optimal'')
      | Some s \<Rightarrow>
          (let tiles = map (drive_grid_tile (st_temp_warning_celsius st) (st_temp_critical_celsius st))
                 (in_position_order (ps_physical_drives s))
           in (tiles, fold (\<lambda>t worst. higher_severity worst (dt_tile_severity t)) tiles ''optimal'')))"

subsection \<open>The list of drives\<close>

text \<open>\<open>f"{x:.1f}"\<close> of a number that is not negative.\<close>

definition fixed_1 :: "rat \<Rightarrow> string" where
  "fixed_1 x = (let n = round_half_even (x * 10) in show_int (n div 10) @ ''.'' @ show_int (n mod 10))"

definition format_tb :: "int \<Rightarrow> string" where
  "format_tb size_bytes = fixed_1 (rat_of_int size_bytes / 10 ^ 12) @ '' TB''"

record drive_row =
  dv_slot :: string
  dv_physical_slot_label :: string
  dv_model :: string
  dv_serial_number :: string
  dv_state :: string
  dv_row_state :: string
  dv_status_icon :: string
  dv_temperature :: string
  dv_temperature_sort :: int
  dv_temperature_severity :: string
  dv_temperature_tooltip :: "string option"
  dv_size :: string
  dv_size_bytes :: int
  dv_media_errors :: int
  dv_other_errors :: int
  dv_predictive_failures :: int
  dv_smart_label :: string
  dv_smart_severity :: string
  dv_health_label :: string
  dv_health_reason :: string

definition drive_temperature_badge :: "physical_drive_info \<Rightarrow> int \<Rightarrow> int \<Rightarrow> string \<Rightarrow> string" where
  "drive_temperature_badge p temp_warning temp_critical row_state =
     (let status = temperature_severity (pdi_temperature p) temp_warning temp_critical
      in if status = ''unknown'' then ''unknown''
         else if row_state \<in> set [''critical'', ''warning''] then ''neutral'' else status)"

definition drive_status_icon :: "string \<Rightarrow> string" where
  "drive_status_icon row_state =
     (case map_of [(''optimal'', ''check-circle''), (''warning'', ''alert-triangle''), (''critical'', ''x-circle'')] row_state of
        None \<Rightarrow> ''help-circle'' | Some icon \<Rightarrow> icon)"

definition temperature_tooltip :: "int option \<Rightarrow> int \<Rightarrow> int \<Rightarrow> string option" where
  "temperature_tooltip t warning critical =
     map_option (\<lambda>n. ''Current '' @ show_int n @ '' C / Warning '' @ show_int warning @ '' C / Critical '' @
       show_int critical @ '' C'') t"

definition physical_drive_row :: "int \<Rightarrow> int \<Rightarrow> physical_drive_info \<Rightarrow> drive_row" where
  "physical_drive_row temp_warning temp_critical p =
     (let health = graded_health p temp_warning temp_critical;
          row_state = compute_drive_tile_severity p temp_warning temp_critical
      in \<lparr>dv_slot = slot_ref p, dv_physical_slot_label = physical_slot_label (pdi_slot_id p),
          dv_model = pdi_model p, dv_serial_number = pdi_serial_number p, dv_state = pdi_state p,
          dv_row_state = row_state, dv_status_icon = drive_status_icon row_state,
          dv_temperature = (case pdi_temperature p of None \<Rightarrow> ''Unknown'' | Some n \<Rightarrow> show_int n @ '' C''),
          dv_temperature_sort = (case pdi_temperature p of None \<Rightarrow> - 1 | Some n \<Rightarrow> n),
          dv_temperature_severity = drive_temperature_badge p temp_warning temp_critical row_state,
          dv_temperature_tooltip = temperature_tooltip (pdi_temperature p) temp_warning temp_critical,
          dv_size = format_tb (pdi_size_bytes p), dv_size_bytes = pdi_size_bytes p,
          dv_media_errors = pdi_media_errors p, dv_other_errors = pdi_other_errors p,
          dv_predictive_failures = pdi_predictive_failures p,
          dv_smart_label = (if pdi_smart_alert p then ''Yes'' else ''No''),
          dv_smart_severity = (if pdi_smart_alert p then ''critical'' else ''neutral''),
          dv_health_label = dh_label health, dv_health_reason = health_reason health\<rparr>)"

record drive_list_summary =
  dls_total :: nat
  dls_optimal :: nat
  dls_warning :: nat
  dls_critical :: nat

definition count_rows :: "string \<Rightarrow> drive_row list \<Rightarrow> nat" where
  "count_rows grade rows = length (filter (\<lambda>r. dv_row_state r = grade) rows)"

definition drive_list_summary_of :: "drive_row list \<Rightarrow> drive_list_summary" where
  "drive_list_summary_of rows =
     \<lparr>dls_total = length rows, dls_optimal = count_rows ''optimal'' rows,
      dls_warning = count_rows ''warning'' rows, dls_critical = count_rows ''critical'' rows\<rparr>"

definition load_drive_list :: "settings \<Rightarrow> db \<Rightarrow> drive_row list \<times> drive_list_summary" where
  "load_drive_list st d =
     (let rows = (case get_latest_snapshot d of
            None \<Rightarrow> []
          | Some s \<Rightarrow> map (physical_drive_row (st_temp_warning_celsius st) (st_temp_critical_celsius st))
                         (in_position_order (ps_physical_drives s)))
      in (rows, drive_list_summary_of rows))"

end
