(* ===== verification/Events.thy ===== *)
theory Events
  imports Database
begin

section \<open>The list of events\<close>

text \<open>
  \<open>services/events.py\<close> and the handlers of \<open>web/routes.py\<close> around it: pages of events newest first,
  continued by a cursor or by polling for events after the newest one shown, and the filters in the
  address of the page.

  \<^item> \<open>from_iso\<close> is \<open>datetime.fromisoformat\<close> (\<open>None\<close> is \<open>ValueError\<close>), \<open>to_number\<close> is \<open>int\<close> of a text,
    \<open>url_for\<close> the path of a named route. A response is its status and the context of its template.
\<close>

definition events_page_size :: int where
  "events_page_size = 50"

definition controller_label :: string where
  "controller_label = ''LSI MegaRAID SAS9270CV-8i''"

subsection \<open>Pages\<close>

record events_cursor =
  cu_before_occurred_at :: instant
  cu_before_id :: int

record event_item =
  ei_id :: int
  ei_occurred_at :: instant
  ei_severity :: string
  ei_severity_status :: string
  ei_category :: string
  ei_subject :: string
  ei_summary :: string
  ei_operator_username :: "string option"

definition severity_icon_of :: "string \<Rightarrow> string" where
  "severity_icon_of s =
     (case map_of [(''info'', ''check-circle''), (''warning'', ''alert-triangle''), (''critical'', ''x-circle'')] s of
        None \<Rightarrow> ''circle'' | Some icon \<Rightarrow> icon)"

definition status_of_severity_text :: "string \<Rightarrow> string" where
  "status_of_severity_text s =
     (case map_of [(''info'', ''optimal''), (''warning'', ''warning''), (''critical'', ''critical'')] s of
        None \<Rightarrow> ''unknown'' | Some status \<Rightarrow> status)"

definition event_item_of :: "event_row \<Rightarrow> event_item" where
  "event_item_of e =
     (let severity = severity_name (ev_severity e)
      in \<lparr>ei_id = ev_id e, ei_occurred_at = ev_occurred_at e, ei_severity = severity,
          ei_severity_status = status_of_severity_text severity, ei_category = ev_category e,
          ei_subject = ev_subject e, ei_summary = ev_summary e, ei_operator_username = ev_operator_username e\<rparr>)"

record events_fragment =
  ef_events :: "event_item list"
  ef_next_cursor :: "events_cursor option"
  ef_is_first_page :: bool
  ef_category_filters :: "string list"
  ef_severity_filters :: "string list"

record events_page = events_fragment +
  ep_latest_captured_at :: "instant option"
  ep_controller_label :: string

definition latest_event_id :: "('a events_fragment_scheme) \<Rightarrow> int" where
  "latest_event_id f = (case ef_events f of [] \<Rightarrow> 0 | e # _ \<Rightarrow> ei_id e)"

definition category_filter :: "('a events_fragment_scheme) \<Rightarrow> string option" where
  "category_filter f = (case ef_category_filters f of [c] \<Rightarrow> Some c | _ \<Rightarrow> None)"

text \<open>Blank values are dropped and repetitions after the first.\<close>

fun keep_first :: "'a list \<Rightarrow> 'a list \<Rightarrow> 'a list" where
  "keep_first seen [] = []"
| "keep_first seen (x # xs) = (if x \<in> set seen then keep_first seen xs else x # keep_first (x # seen) xs)"

definition normalize_filters :: "string option list \<Rightarrow> string list" where
  "normalize_filters values =
     keep_first [] (filter (\<lambda>v. v \<noteq> []) (map py_strip (List.map_filter (\<lambda>v. v) values)))"

definition filter_inputs :: "string list \<Rightarrow> string option \<Rightarrow> string option list" where
  "filter_inputs values legacy =
     (case legacy of None \<Rightarrow> map Some values | Some v \<Rightarrow> map Some values @ [Some v])"

definition newest_key :: "event_row \<Rightarrow> instant \<times> int" where
  "newest_key e = (ev_occurred_at e, ev_id e)"

definition newest_first :: "event_row list \<Rightarrow> event_row list" where
  "newest_first es = rev (sort_key newest_key es)"

record event_query =
  eq_categories :: "string list"
  eq_severities :: "string list"
  eq_since :: "int option"
  eq_before :: "events_cursor option"

definition older_than :: "events_cursor \<Rightarrow> event_row \<Rightarrow> bool" where
  "older_than c e \<longleftrightarrow>
     ev_occurred_at e < cu_before_occurred_at c \<or>
     (ev_occurred_at e = cu_before_occurred_at c \<and> ev_id e < cu_before_id c)"

definition selects :: "event_query \<Rightarrow> event_row \<Rightarrow> bool" where
  "selects q e \<longleftrightarrow>
     (eq_categories q \<noteq> [] \<longrightarrow> ev_category e \<in> set (eq_categories q)) \<and>
     (eq_severities q \<noteq> [] \<longrightarrow> severity_name (ev_severity e) \<in> set (eq_severities q)) \<and>
     (case eq_since q of None \<Rightarrow> True | Some n \<Rightarrow> ev_id e > n) \<and>
     (case eq_before q of None \<Rightarrow> True | Some c \<Rightarrow> older_than c e)"

definition matching_events :: "event_query \<Rightarrow> db \<Rightarrow> event_row list" where
  "matching_events q d = newest_first (filter (selects q) (db_events d))"

definition next_cursor :: "int \<Rightarrow> event_row list \<Rightarrow> events_cursor option" where
  "next_cursor page_size events =
     (if int (length events) > page_size then
        (let x = last (take (nat page_size) events)
         in Some \<lparr>cu_before_occurred_at = ev_occurred_at x, cu_before_id = ev_id x\<rparr>)
      else None)"

definition load_events_fragment ::
  "db \<Rightarrow> int \<Rightarrow> py_datetime option \<Rightarrow> int option \<Rightarrow> string list \<Rightarrow> string list \<Rightarrow> string option \<Rightarrow> int option \<Rightarrow>
   py_error + events_fragment" where
  "load_events_fragment d page_size before_occurred_at before_id categories severities category since =
     (if page_size < 1 then Inl ValueError
      else if (before_occurred_at = None) \<noteq> (before_id = None) then Inl ValueError
      else bindr (case before_occurred_at of
                    None \<Rightarrow> Inr None | Some t \<Rightarrow> bindr (require_aware_utc t) (\<lambda>u. Inr (Some u))) (\<lambda>upper.
        let cats = normalize_filters (filter_inputs categories category);
            sevs = normalize_filters (map Some severities);
            cursor = (case (upper, before_id) of
                (Some t, Some i) \<Rightarrow> Some \<lparr>cu_before_occurred_at = t, cu_before_id = i\<rparr> | _ \<Rightarrow> None);
            events = take (nat (page_size + 1)) (matching_events
              \<lparr>eq_categories = cats, eq_severities = sevs, eq_since = since, eq_before = cursor\<rparr> d)
        in Inr \<lparr>ef_events = map event_item_of (take (nat page_size) events), ef_next_cursor = next_cursor page_size events,
                ef_is_first_page = (before_occurred_at = None \<and> since = None),
                ef_category_filters = cats, ef_severity_filters = sevs\<rparr>))"

definition latest_captured_at :: "db \<Rightarrow> instant option" where
  "latest_captured_at d = map_option sr_captured_at (best_by sr_captured_at (db_snapshots d))"

definition load_events_page ::
  "db \<Rightarrow> int \<Rightarrow> py_datetime option \<Rightarrow> int option \<Rightarrow> string list \<Rightarrow> string list \<Rightarrow> string option \<Rightarrow> py_error + events_page" where
  "load_events_page d page_size before_occurred_at before_id categories severities category =
     (let cats = normalize_filters (filter_inputs categories category);
          sevs = normalize_filters (map Some severities)
      in bindr (load_events_fragment d page_size before_occurred_at before_id cats sevs None None) (\<lambda>f.
        Inr \<lparr>ef_events = ef_events f, ef_next_cursor = ef_next_cursor f, ef_is_first_page = ef_is_first_page f,
             ef_category_filters = ef_category_filters f, ef_severity_filters = ef_severity_filters f,
             ep_latest_captured_at = (if ef_is_first_page f then latest_captured_at d else None),
             ep_controller_label = controller_label\<rparr>))"

definition list_recent_events :: "db \<Rightarrow> int \<Rightarrow> py_error + event_row list" where
  "list_recent_events d limit =
     (if limit < 1 then Inl ValueError else Inr (take (nat limit) (newest_first (db_events d))))"

subsection \<open>The query of a request\<close>

definition parse_events_cursor ::
  "(string \<Rightarrow> py_datetime option) \<Rightarrow> (string \<Rightarrow> int option) \<Rightarrow> string option \<Rightarrow> string option \<Rightarrow> string + (instant \<times> int) option" where
  "parse_events_cursor from_iso to_number before_occurred_at before_id =
     (case (before_occurred_at, before_id) of
        (None, None) \<Rightarrow> Inr None
      | (Some stamp, Some i) \<Rightarrow>
          (case from_iso stamp of
             None \<Rightarrow> Inl ''before_occurred_at must be a valid ISO 8601 datetime''
           | Some (Naive _) \<Rightarrow> Inl ''before_occurred_at must include a timezone''
           | Some (Aware t) \<Rightarrow>
               (case to_number i of
                  None \<Rightarrow> Inl ''before_id must be an integer'' | Some n \<Rightarrow> Inr (Some (t, n))))
      | _ \<Rightarrow> Inl ''before_occurred_at and before_id must be provided together'')"

definition parse_events_since :: "(string \<Rightarrow> int option) \<Rightarrow> string option \<Rightarrow> string + int option" where
  "parse_events_since to_number since =
     (case since of
        None \<Rightarrow> Inr None
      | Some text \<Rightarrow>
          (case to_number text of
             None \<Rightarrow> Inl ''since must be an integer''
           | Some n \<Rightarrow> if n < 0 then Inl ''since must be non-negative'' else Inr (Some n)))"

definition normalize_query_values :: "string list \<Rightarrow> string list" where
  "normalize_query_values values = normalize_filters (map Some values)"

subsection \<open>The fragment of a request\<close>

datatype events_view = FullPage events_page | Fragment events_fragment

definition view_latest_id :: "events_view \<Rightarrow> int" where
  "view_latest_id v = (case v of FullPage p \<Rightarrow> latest_event_id p | Fragment f \<Rightarrow> latest_event_id f)"

record events_context =
  ec_poll_since :: int
  ec_data_oob :: bool
  ec_load_more_oob :: bool
  ec_poller_oob :: bool
  ec_since_oob :: bool
  ec_page_fragment :: bool
  ec_page_items :: bool
  ec_view :: events_view

datatype events_reply = BadQuery string | QueryCrash py_error | Rendered events_context

text \<open>What is loaded, and whether the whole list is replaced: after an empty list it is.\<close>

definition load_events_view ::
  "db \<Rightarrow> (instant \<times> int) option \<Rightarrow> int option \<Rightarrow> string list \<Rightarrow> string list \<Rightarrow> py_error + (events_view \<times> bool)" where
  "load_events_view d cursor since categories severities =
     (let fragment = (\<lambda>stamp i s. bindr (load_events_fragment d events_page_size stamp i categories severities None s)
            (\<lambda>f. Inr (Fragment f, False)))
      in case since of
           Some n \<Rightarrow>
             if n = 0 then
               bindr (load_events_page d events_page_size None None categories severities None) (\<lambda>p.
                 if ef_events p \<noteq> [] then Inr (FullPage p, True) else fragment None None (Some 0))
             else fragment None None (Some n)
         | None \<Rightarrow>
             (case cursor of
                None \<Rightarrow> bindr (load_events_page d events_page_size None None categories severities None)
                          (\<lambda>p. Inr (FullPage p, False))
              | Some (t, i) \<Rightarrow> fragment (Some (Aware t)) (Some i) None))"

definition events_fragment_response ::
  "(string \<Rightarrow> py_datetime option) \<Rightarrow> (string \<Rightarrow> int option) \<Rightarrow> string option \<Rightarrow> string option \<Rightarrow> string option \<Rightarrow>
   string list \<Rightarrow> string list \<Rightarrow> db \<Rightarrow> events_reply" where
  "events_fragment_response from_iso to_number before_occurred_at before_id since raw_categories raw_severities d =
     (case parse_events_cursor from_iso to_number before_occurred_at before_id of
        Inl msg \<Rightarrow> BadQuery msg
      | Inr cursor \<Rightarrow>
          (case parse_events_since to_number since of
             Inl msg \<Rightarrow> BadQuery msg
           | Inr since_id \<Rightarrow>
               (case load_events_view d cursor since_id (normalize_query_values raw_categories)
                       (normalize_query_values raw_severities) of
                  Inl err \<Rightarrow> QueryCrash err
                | Inr (view, replaced) \<Rightarrow>
                    Rendered \<lparr>ec_poll_since = max (case since_id of None \<Rightarrow> 0 | Some n \<Rightarrow> n) (view_latest_id view),
                      ec_data_oob = replaced,
                      ec_load_more_oob = (replaced \<or> (cursor = None \<and> since_id = None)),
                      ec_poller_oob = replaced,
                      ec_since_oob = (since_id \<noteq> None \<and> \<not> replaced),
                      ec_page_fragment = (cursor = None \<and> since_id = None),
                      ec_page_items = (cursor \<noteq> None),
                      ec_view = view\<rparr>)))"

subsection \<open>Filters in addresses\<close>

definition event_severity_filters :: "string list" where
  "event_severity_filters = [''info'', ''warning'', ''critical'']"

definition operator_action_categories :: "string list" where
  "operator_action_categories =
     [''operator_action'', ''drive_mark_ubad'', ''drive_mark_ugood'', ''drive_spin_down'', ''drive_make_hot_spare'',
      ''controller_buzzer_silence'', ''controller_buzzer_disable'', ''controller_buzzer_enable'']"

definition event_category_filters :: "string list" where
  "event_category_filters =
     [''controller'', ''controller_alarm_setting_changed'', ''pd_state'', ''vd_state'', ''cv_state'', ''smart_alert'',
      ''media_errors'', ''other_errors'', ''predictive_failures'', ''temperature'', ''controller_temperature'',
      ''disk_space'', ''system''] @ operator_action_categories @
     [''foreign_config_detected'', ''consistency_check_inconsistency'']"

text \<open>\<open>urlencode\<close>: \<open>quote_plus\<close> of the UTF-8 bytes.\<close>

definition utf8_bytes :: "char \<Rightarrow> nat list" where
  "utf8_bytes c = (if code_of c < 128 then [code_of c] else [192 + code_of c div 64, 128 + code_of c mod 64])"

definition upper_hex :: "nat \<Rightarrow> char" where
  "upper_hex n = ''0123456789ABCDEF'' ! n"

definition quote_char :: "char \<Rightarrow> string" where
  "quote_char c =
     (if is_digit c \<or> is_alpha c \<or> c \<in> set ''_.-~'' then [c]
      else if c = CHR '' '' then ''+''
      else concat (map (\<lambda>b. [CHR ''%'', upper_hex (b div 16), upper_hex (b mod 16)]) (utf8_bytes c)))"

definition quote_plus :: "string \<Rightarrow> string" where
  "quote_plus s = concat (map quote_char s)"

definition urlencode :: "(string \<times> string) list \<Rightarrow> string" where
  "urlencode items = join_with ''&'' (map (\<lambda>(k, v). quote_plus k @ ''='' @ quote_plus v) items)"

definition events_query_path :: "(string \<Rightarrow> string) \<Rightarrow> string \<Rightarrow> string list \<Rightarrow> string list \<Rightarrow> string" where
  "events_query_path url_for route categories severities =
     (let items = map (\<lambda>s. (''severity'', s)) severities @ map (\<lambda>c. (''category'', c)) categories
      in if items = [] then url_for route else url_for route @ ''?'' @ urlencode items)"

record filter_chip =
  fc_label :: string
  fc_value :: string
  fc_active :: bool
  fc_href :: string

definition toggle_filter_value :: "string list \<Rightarrow> string \<Rightarrow> string list" where
  "toggle_filter_value values v = (if v \<in> set values then filter (\<lambda>x. x \<noteq> v) values else values @ [v])"

definition category_chip :: "(string \<Rightarrow> string) \<Rightarrow> string list \<Rightarrow> string list \<Rightarrow> string \<Rightarrow> filter_chip" where
  "category_chip url_for categories severities v =
     \<lparr>fc_label = map (\<lambda>c. if c = CHR ''_'' then CHR '' '' else c) v, fc_value = v, fc_active = (v \<in> set categories),
      fc_href = events_query_path url_for ''events'' (toggle_filter_value categories v) severities\<rparr>"

definition severity_chip :: "(string \<Rightarrow> string) \<Rightarrow> string list \<Rightarrow> string list \<Rightarrow> string \<Rightarrow> string \<Rightarrow> filter_chip" where
  "severity_chip url_for categories severities label v =
     \<lparr>fc_label = label, fc_value = v, fc_active = (v \<in> set severities),
      fc_href = events_query_path url_for ''events'' categories (toggle_filter_value severities v)\<rparr>"

definition quick_filter_chips :: "(string \<Rightarrow> string) \<Rightarrow> string list \<Rightarrow> string list \<Rightarrow> filter_chip list" where
  "quick_filter_chips url_for categories severities =
     [\<lparr>fc_label = ''All events'', fc_value = ''all'', fc_active = (categories = [] \<and> severities = []),
       fc_href = events_query_path url_for ''events'' [] []\<rparr>,
      \<lparr>fc_label = ''Operator actions'', fc_value = ''operator_actions'',
       fc_active = (set categories = set operator_action_categories),
       fc_href = events_query_path url_for ''events'' operator_action_categories severities\<rparr>]"

record filter_context =
  fx_filter_state :: string
  fx_partial_filter_state :: string
  fx_quick :: "filter_chip list"
  fx_severity :: "filter_chip list"
  fx_category :: "filter_chip list"

definition events_filter_context :: "(string \<Rightarrow> string) \<Rightarrow> string list \<Rightarrow> string list \<Rightarrow> filter_context" where
  "events_filter_context url_for categories severities =
     \<lparr>fx_filter_state = events_query_path url_for ''events'' categories severities,
      fx_partial_filter_state = events_query_path url_for ''events_partial'' categories severities,
      fx_quick = quick_filter_chips url_for categories severities,
      fx_severity = map (\<lambda>(label, v). severity_chip url_for categories severities label v)
        (zip [''Info'', ''Warning'', ''Critical''] event_severity_filters),
      fx_category = map (category_chip url_for categories severities) event_category_filters\<rparr>"

definition audit_log_target :: "(string \<Rightarrow> string) \<Rightarrow> string" where
  "audit_log_target url_for = events_query_path url_for ''events'' operator_action_categories []"

text \<open>The text under an empty list; \<open>next_run\<close> is the next run of the collector job, naive in UTC.\<close>

definition next_run_text :: "bool \<Rightarrow> py_datetime option \<Rightarrow> instant \<Rightarrow> string" where
  "next_run_text collector_enabled next_run now =
     (if \<not> collector_enabled then ''Metrics collection is disabled; no collection run is scheduled.''
      else case next_run of
             None \<Rightarrow> ''No collection run is currently scheduled.''
           | Some r \<Rightarrow>
               (let t = (case r of Aware u \<Rightarrow> u | Naive u \<Rightarrow> u)
                in ''Next scheduled run in '' @ show_int (max 0 ((t - now) div sec 1)) @ '' seconds.''))"

definition events_empty_context :: "bool \<Rightarrow> py_datetime option \<Rightarrow> instant \<Rightarrow> events_view \<Rightarrow> (string \<times> string) list" where
  "events_empty_context collector_enabled next_run now v =
     (case v of
        Fragment _ \<Rightarrow> []
      | FullPage p \<Rightarrow>
          if ep_latest_captured_at p \<noteq> None then []
          else [(''events_empty_title'', ''Waiting for first metrics collection''),
                (''events_empty_body'', ''The collector has not yet completed its first run.''),
                (''events_empty_next_run'', next_run_text collector_enabled next_run now),
                (''events_empty_detail'', ''No events recorded yet.'')])"

subsection \<open>The pages\<close>

definition is_htmx_request :: "string option \<Rightarrow> bool" where
  "is_htmx_request hx_request = (py_lower (case hx_request of None \<Rightarrow> [] | Some v \<Rightarrow> v) = ''true'')"

datatype events_response = EventsPartial events_reply | EventsPage events_page filter_context "(string \<times> string) list"
  | EventsCrash py_error

definition get_events ::
  "(string \<Rightarrow> py_datetime option) \<Rightarrow> (string \<Rightarrow> int option) \<Rightarrow> (string \<Rightarrow> string) \<Rightarrow> bool \<Rightarrow> py_datetime option \<Rightarrow> instant \<Rightarrow>
   string option \<Rightarrow> string option \<Rightarrow> string option \<Rightarrow> string option \<Rightarrow> string list \<Rightarrow> string list \<Rightarrow> db \<Rightarrow> events_response" where
  "get_events from_iso to_number url_for collector_enabled next_run now hx_request before_occurred_at before_id since
     raw_categories raw_severities d =
     (if is_htmx_request hx_request \<or> before_occurred_at \<noteq> None \<or> before_id \<noteq> None \<or> since \<noteq> None
      then EventsPartial (events_fragment_response from_iso to_number before_occurred_at before_id since
             raw_categories raw_severities d)
      else
        let categories = normalize_query_values raw_categories;
            severities = normalize_query_values raw_severities
        in case load_events_page d events_page_size None None categories severities None of
             Inl err \<Rightarrow> EventsCrash err
           | Inr p \<Rightarrow> EventsPage p (events_filter_context url_for categories severities)
                       (events_empty_context collector_enabled next_run now (FullPage p)))"

end
