(* ===== verification/History.thy ===== *)
theory History
  imports Retention Health Events
begin

section \<open>Histories and charts\<close>

text \<open>
  \<open>services/drive_history.py\<close>, \<open>services/controller_history.py\<close> and the handlers of \<open>web/routes.py\<close> that draw
  them. A drive is shown from its samples, its hourly rows and its daily rows, each period from the finest
  tier that has it.

  \<^item> The identifier of a row is its position in its table: rows are appended, so positions order the rows of
    a table the way their keys do.
  \<^item> Averages are rationals; SQLite groups timestamps by text, which is by hour and by day.
\<close>

subsection \<open>Points of a drive\<close>

datatype history_source = From_daily | From_hourly | From_raw

record history_key =
  hk_source :: history_source
  hk_id :: nat

record replacement_marker =
  rk_timestamp :: instant
  rk_previous :: string
  rk_current :: string

record raw_point =
  rw_timestamp :: instant
  rw_serial :: string
  rw_key :: history_key
  rw_temperature :: "int option"
  rw_media :: int
  rw_other :: int
  rw_predictive :: int

record aggregate_point =
  ap_timestamp :: instant
  ap_serial :: string
  ap_key :: history_key
  ap_min :: "int option"
  ap_max :: "int option"
  ap_avg :: "rat option"
  ap_media :: int
  ap_other :: int
  ap_predictive :: int

record selected_rows =
  sl_raw :: "raw_point list"
  sl_hourly :: "aggregate_point list"
  sl_daily :: "aggregate_point list"

fun source_chronology_rank :: "history_source \<Rightarrow> nat" where
  "source_chronology_rank From_daily = 0"
| "source_chronology_rank From_hourly = 1"
| "source_chronology_rank From_raw = 2"

definition series_sort_key :: "instant \<Rightarrow> history_key \<Rightarrow> instant \<times> nat \<times> nat" where
  "series_sort_key t k = (t, source_chronology_rank (hk_source k), hk_id k)"

definition raw_sort_key :: "raw_point \<Rightarrow> instant \<times> nat \<times> nat" where
  "raw_sort_key p = series_sort_key (rw_timestamp p) (rw_key p)"

definition point_sort_key :: "aggregate_point \<Rightarrow> instant \<times> nat \<times> nat" where
  "point_sort_key p = series_sort_key (ap_timestamp p) (ap_key p)"

subsection \<open>Reading the tables\<close>

definition drive_samples :: "db \<Rightarrow> (nat \<times> snapshot_row \<times> physical_drive_info) list" where
  "drive_samples d = enumerate 1 (concat (map (\<lambda>s. map (Pair s) (ps_physical_drives s)) (db_snapshots d)))"

definition raw_point_of :: "nat \<times> snapshot_row \<times> physical_drive_info \<Rightarrow> raw_point" where
  "raw_point_of x = (case x of (i, s, p) \<Rightarrow>
     \<lparr>rw_timestamp = sr_captured_at s, rw_serial = pdi_serial_number p, rw_key = \<lparr>hk_source = From_raw, hk_id = i\<rparr>,
      rw_temperature = pdi_temperature p, rw_media = pdi_media_errors p, rw_other = pdi_other_errors p,
      rw_predictive = pdi_predictive_failures p\<rparr>)"

definition load_raw_points :: "db \<Rightarrow> int \<Rightarrow> int \<Rightarrow> instant \<Rightarrow> instant \<Rightarrow> raw_point list" where
  "load_raw_points d e k cutoff until =
     sort_key raw_sort_key (map raw_point_of (filter (\<lambda>(i, s, p).
       pdi_enclosure_id p = e \<and> pdi_slot_id p = k \<and> cutoff \<le> sr_captured_at s \<and> sr_captured_at s \<le> until)
       (drive_samples d)))"

definition bucket_point_of :: "history_source \<Rightarrow> nat \<times> bucket_key \<times> metrics_row \<Rightarrow> aggregate_point" where
  "bucket_point_of source x = (case x of (i, (start, e, k, serial), m) \<Rightarrow>
     \<lparr>ap_timestamp = start, ap_serial = serial, ap_key = \<lparr>hk_source = source, hk_id = i\<rparr>,
      ap_min = mr_temp_min m, ap_max = mr_temp_max m, ap_avg = mr_temp_avg m,
      ap_media = mr_media_errors_max m, ap_other = mr_other_errors_max m,
      ap_predictive = mr_predictive_failures_max m\<rparr>)"

definition load_bucket_points ::
  "history_source \<Rightarrow> (bucket_key \<times> metrics_row) list \<Rightarrow> int \<Rightarrow> int \<Rightarrow> instant \<Rightarrow> instant \<Rightarrow> aggregate_point list" where
  "load_bucket_points source table e k cutoff until =
     sort_key point_sort_key (map (bucket_point_of source) (filter (\<lambda>(i, (start, e', k', serial), m).
       e' = e \<and> k' = k \<and> cutoff \<le> start \<and> start \<le> until) (enumerate 1 table)))"

definition load_hourly_points :: "db \<Rightarrow> int \<Rightarrow> int \<Rightarrow> instant \<Rightarrow> instant \<Rightarrow> aggregate_point list" where
  "load_hourly_points d = load_bucket_points From_hourly (db_hourly d)"

definition load_daily_points :: "db \<Rightarrow> int \<Rightarrow> int \<Rightarrow> instant \<Rightarrow> instant \<Rightarrow> aggregate_point list" where
  "load_daily_points d = load_bucket_points From_daily (db_daily d)"

text \<open>A slot that has held several drives in the window is shown with all of them.\<close>

definition select_rows_for_serial_window :: "selected_rows \<Rightarrow> string \<Rightarrow> selected_rows" where
  "select_rows_for_serial_window rows current =
     (let serials = set (map rw_serial (sl_raw rows) @ map ap_serial (sl_hourly rows) @ map ap_serial (sl_daily rows))
      in if card serials > 1 then rows
         else \<lparr>sl_raw = filter (\<lambda>p. rw_serial p = current) (sl_raw rows),
               sl_hourly = filter (\<lambda>p. ap_serial p = current) (sl_hourly rows),
               sl_daily = filter (\<lambda>p. ap_serial p = current) (sl_daily rows)\<rparr>)"

definition load_selected_history_rows :: "db \<Rightarrow> int \<Rightarrow> int \<Rightarrow> string \<Rightarrow> int \<Rightarrow> py_datetime \<Rightarrow> py_error + selected_rows" where
  "load_selected_history_rows d e k current range_days now =
     (if range_days \<le> 0 then Inl ValueError
      else bindr (require_aware_utc now) (\<lambda>until.
        let cutoff = until - days range_days;
            rows = select_rows_for_serial_window
              \<lparr>sl_raw = load_raw_points d e k cutoff until, sl_hourly = load_hourly_points d e k cutoff until,
               sl_daily = load_daily_points d e k cutoff until\<rparr> current
        in Inr \<lparr>sl_raw = sort_key raw_sort_key (sl_raw rows), sl_hourly = sort_key point_sort_key (sl_hourly rows),
                sl_daily = sort_key point_sort_key (sl_daily rows)\<rparr>))"

subsection \<open>One tier for each period\<close>

definition uncovered :: "(instant \<times> string) set \<Rightarrow> aggregate_point list \<Rightarrow> aggregate_point list" where
  "uncovered covered ps = filter (\<lambda>p. (ap_timestamp p, ap_serial p) \<notin> covered) ps"

definition raw_periods :: "(instant \<Rightarrow> instant) \<Rightarrow> raw_point list \<Rightarrow> (instant \<times> string) set" where
  "raw_periods bucket ps = set (map (\<lambda>p. (bucket (rw_timestamp p), rw_serial p)) ps)"

definition hourly_periods :: "(instant \<Rightarrow> instant) \<Rightarrow> aggregate_point list \<Rightarrow> (instant \<times> string) set" where
  "hourly_periods bucket ps = set (map (\<lambda>p. (bucket (ap_timestamp p), ap_serial p)) ps)"

definition error_rows :: "selected_rows \<Rightarrow> selected_rows" where
  "error_rows rows =
     (let hourly = uncovered (raw_periods hour_bucket (sl_raw rows)) (sl_hourly rows)
      in \<lparr>sl_raw = sl_raw rows, sl_hourly = hourly,
          sl_daily = uncovered (raw_periods day_bucket (sl_raw rows) \<union> hourly_periods day_bucket hourly) (sl_daily rows)\<rparr>)"

definition temperature_rows :: "selected_rows \<Rightarrow> selected_rows" where
  "temperature_rows rows =
     error_rows \<lparr>sl_raw = filter (\<lambda>p. rw_temperature p \<noteq> None) (sl_raw rows),
                 sl_hourly = filter (\<lambda>p. ap_avg p \<noteq> None) (sl_hourly rows),
                 sl_daily = filter (\<lambda>p. ap_avg p \<noteq> None) (sl_daily rows)\<rparr>"

definition point_of_raw :: "raw_point \<Rightarrow> aggregate_point" where
  "point_of_raw p =
     \<lparr>ap_timestamp = rw_timestamp p, ap_serial = rw_serial p, ap_key = rw_key p, ap_min = rw_temperature p,
      ap_max = rw_temperature p, ap_avg = map_option rat_of_int (rw_temperature p), ap_media = rw_media p,
      ap_other = rw_other p, ap_predictive = rw_predictive p\<rparr>"

definition all_points :: "selected_rows \<Rightarrow> aggregate_point list" where
  "all_points rows = map point_of_raw (sl_raw rows) @ sl_hourly rows @ sl_daily rows"

subsection \<open>Replaced drives\<close>

fun replacement_markers_from :: "string option \<Rightarrow> aggregate_point list \<Rightarrow> replacement_marker list" where
  "replacement_markers_from previous [] = []"
| "replacement_markers_from previous (p # ps) =
     (case previous of
        None \<Rightarrow> replacement_markers_from (Some (ap_serial p)) ps
      | Some serial \<Rightarrow>
          if serial = ap_serial p then replacement_markers_from previous ps
          else \<lparr>rk_timestamp = ap_timestamp p, rk_previous = serial, rk_current = ap_serial p\<rparr> #
               replacement_markers_from (Some (ap_serial p)) ps)"

definition replacement_markers :: "aggregate_point list \<Rightarrow> replacement_marker list" where
  "replacement_markers ps = replacement_markers_from None (sort_key point_sort_key ps)"

subsection \<open>Series\<close>

record drive_series =
  ds_points :: "aggregate_point list"
  ds_markers :: "replacement_marker list"
  ds_raw_count :: nat
  ds_hourly_count :: nat
  ds_daily_count :: nat

definition series_of :: "selected_rows \<Rightarrow> aggregate_point list \<Rightarrow> drive_series" where
  "series_of rows points =
     \<lparr>ds_points = points, ds_markers = replacement_markers points, ds_raw_count = length (sl_raw rows),
      ds_hourly_count = length (sl_hourly rows), ds_daily_count = length (sl_daily rows)\<rparr>"

definition load_drive_temperature_series ::
  "db \<Rightarrow> int \<Rightarrow> int \<Rightarrow> string \<Rightarrow> int \<Rightarrow> py_datetime \<Rightarrow> py_error + drive_series" where
  "load_drive_temperature_series d e k current range_days now =
     bindr (load_selected_history_rows d e k current range_days now) (\<lambda>selected.
       let rows = temperature_rows selected
       in Inr (series_of rows (sort_key point_sort_key (filter (\<lambda>p. ap_avg p \<noteq> None) (all_points rows)))))"

definition load_drive_error_series ::
  "db \<Rightarrow> int \<Rightarrow> int \<Rightarrow> string \<Rightarrow> int \<Rightarrow> py_datetime \<Rightarrow> py_error + drive_series" where
  "load_drive_error_series d e k current range_days now =
     bindr (load_selected_history_rows d e k current range_days now) (\<lambda>selected.
       let rows = error_rows selected
       in Inr (series_of rows (sort_key point_sort_key (all_points rows))))"

subsection \<open>Texts of times\<close>

text \<open>\<open>strftime\<close> of a time in UTC, with the proleptic Gregorian calendar.\<close>

definition civil_of_days :: "int \<Rightarrow> int \<times> int \<times> int" where
  "civil_of_days n =
     (let z = n + 719468; era = z div 146097; doe = z mod 146097;
          yoe = (doe - doe div 1460 + doe div 36524 - doe div 146096) div 365;
          doy = doe - (365 * yoe + yoe div 4 - yoe div 100);
          mp = (5 * doy + 2) div 153;
          d = doy - (153 * mp + 2) div 5 + 1;
          m = (if mp < 10 then mp + 3 else mp - 9)
      in (yoe + era * 400 + (if m \<le> 2 then 1 else 0), m, d))"

definition padded :: "nat \<Rightarrow> int \<Rightarrow> string" where
  "padded w n = (let digits = show_int n in replicate (w - length digits) (CHR ''0'') @ digits)"

definition date_text :: "instant \<Rightarrow> string" where
  "date_text t = (case civil_of_days (t div days 1) of (y, m, d) \<Rightarrow>
     padded 4 y @ ''-'' @ padded 2 m @ ''-'' @ padded 2 d)"

definition hour_text :: "instant \<Rightarrow> string" where
  "hour_text t = padded 2 (t mod days 1 div hours 1)"

definition minute_text :: "instant \<Rightarrow> string" where
  "minute_text t = padded 2 (t mod hours 1 div minutes 1)"

definition chart_timestamp_label :: "instant \<Rightarrow> int \<Rightarrow> string" where
  "chart_timestamp_label t range_days =
     (if range_days = 365 then date_text t
      else if range_days = 30 then date_text t @ '' '' @ hour_text t @ '':00''
      else date_text t @ '' '' @ hour_text t @ '':'' @ minute_text t)"

text \<open>\<open>f"{x:.1f}"\<close> with its sign.\<close>

definition signed_1 :: "rat \<Rightarrow> string" where
  "signed_1 x = (if x < 0 then ''-'' @ fixed_1 (- x) else fixed_1 x)"

subsection \<open>Charts of a drive\<close>

record chart_key =
  ck_timestamp :: instant
  ck_serial :: string
  ck_history :: history_key

definition chart_keys :: "aggregate_point list \<Rightarrow> chart_key list" where
  "chart_keys ps = map (\<lambda>p. \<lparr>ck_timestamp = ap_timestamp p, ck_serial = ap_serial p, ck_history = ap_key p\<rparr>) ps"

definition merge_chart_keys :: "chart_key list \<Rightarrow> chart_key list \<Rightarrow> chart_key list" where
  "merge_chart_keys temperature_keys error_keys =
     map snd (sort_key (\<lambda>(i, k). (ck_timestamp k, i)) (enumerate 0 (keep_first [] (error_keys @ temperature_keys))))"

text \<open>A dictionary of the values at the points, the last entry of a key counting.\<close>

definition values_at :: "(aggregate_point \<Rightarrow> 'v) \<Rightarrow> aggregate_point list \<Rightarrow> chart_key list \<Rightarrow> 'v option list" where
  "values_at f ps keys = map (map_of (rev (zip (chart_keys ps) (map f ps)))) keys"

record chart_marker =
  cm_point_index :: nat
  cm_timestamp :: string
  cm_label :: string
  cm_previous :: string
  cm_current :: string

definition first_index :: "chart_key list \<Rightarrow> instant \<times> string \<Rightarrow> nat option" where
  "first_index keys x = map_of (map (\<lambda>(i, k). ((ck_timestamp k, ck_serial k), i)) (enumerate 0 keys)) x"

definition unique_replacement_markers :: "drive_series \<Rightarrow> drive_series \<Rightarrow> replacement_marker list" where
  "unique_replacement_markers temperatures errors = keep_first [] (ds_markers temperatures @ ds_markers errors)"

definition chart_replacement_markers :: "drive_series \<Rightarrow> drive_series \<Rightarrow> int \<Rightarrow> chart_key list \<Rightarrow> chart_marker list" where
  "chart_replacement_markers temperatures errors range_days keys =
     List.map_filter (\<lambda>m. map_option (\<lambda>i.
       \<lparr>cm_point_index = i, cm_timestamp = chart_timestamp_label (rk_timestamp m) range_days,
        cm_label = ''Drive replaced'', cm_previous = rk_previous m, cm_current = rk_current m\<rparr>)
       (first_index keys (rk_timestamp m, rk_current m))) (unique_replacement_markers temperatures errors)"

text \<open>Charts without the colours and line styles of the source.\<close>

record temperature_chart =
  tc_labels :: "string list"
  tc_average :: "rat option list"
  tc_warning_line :: "int list"
  tc_critical_line :: "int list"
  tc_markers :: "chart_marker list"
  tc_y_min :: int
  tc_y_max :: int

definition temperature_chart_data ::
  "string list \<Rightarrow> rat option list \<Rightarrow> int \<Rightarrow> int \<Rightarrow> rat \<Rightarrow> chart_marker list \<Rightarrow> temperature_chart" where
  "temperature_chart_data labels values warning critical max_temperature markers =
     \<lparr>tc_labels = labels, tc_average = values, tc_warning_line = replicate (length labels) warning,
      tc_critical_line = replicate (length labels) critical, tc_markers = markers, tc_y_min = 20,
      tc_y_max = Max (set [70, \<lceil>max_temperature + 5\<rceil>, warning + 5, critical + 5])\<rparr>"

record error_chart =
  ch_labels :: "string list"
  ch_media :: "int option list"
  ch_other :: "int option list"
  ch_predictive :: "int option list"
  ch_markers :: "chart_marker list"

record temperature_fallback_row =
  tf_timestamp :: string
  tf_average :: string
  tf_minimum :: string
  tf_maximum :: string

definition last_rows :: "nat \<Rightarrow> 'a list \<Rightarrow> 'a list" where
  "last_rows n xs = drop (length xs - n) xs"

definition degrees_text :: "int option \<Rightarrow> string" where
  "degrees_text t = (case t of None \<Rightarrow> ''Unknown'' | Some n \<Rightarrow> signed_1 (rat_of_int n))"

definition temperature_fallback_rows :: "drive_series \<Rightarrow> int \<Rightarrow> temperature_fallback_row list" where
  "temperature_fallback_rows series range_days = last_rows 24 (map (\<lambda>p.
     \<lparr>tf_timestamp = chart_timestamp_label (ap_timestamp p) range_days,
      tf_average = (case ap_avg p of None \<Rightarrow> [] | Some x \<Rightarrow> signed_1 x),
      tf_minimum = degrees_text (ap_min p), tf_maximum = degrees_text (ap_max p)\<rparr>) (ds_points series))"

record error_fallback_row =
  ef_timestamp :: string
  ef_media :: string
  ef_other :: string
  ef_predictive :: string

definition error_fallback_rows :: "drive_series \<Rightarrow> int \<Rightarrow> error_fallback_row list" where
  "error_fallback_rows series range_days = last_rows 24 (map (\<lambda>p.
     \<lparr>ef_timestamp = chart_timestamp_label (ap_timestamp p) range_days, ef_media = show_int (ap_media p),
      ef_other = show_int (ap_other p), ef_predictive = show_int (ap_predictive p)\<rparr>) (ds_points series))"

record drive_charts =
  dc_enclosure_id :: int
  dc_slot_id :: int
  dc_active_range_days :: int
  dc_temperature_chart :: temperature_chart
  dc_error_chart :: error_chart
  dc_temperature_rows :: "temperature_fallback_row list"
  dc_error_rows :: "error_fallback_row list"
  dc_raw_count :: nat
  dc_hourly_count :: nat
  dc_daily_count :: nat

definition charts_of :: "settings \<Rightarrow> int \<Rightarrow> int \<Rightarrow> int \<Rightarrow> drive_series \<Rightarrow> drive_series \<Rightarrow> drive_charts" where
  "charts_of st e k range_days temperatures errors =
     (let keys = merge_chart_keys (chart_keys (ds_points temperatures)) (chart_keys (ds_points errors));
          labels = map (\<lambda>c. chart_timestamp_label (ck_timestamp c) range_days) keys;
          averages = values_at (\<lambda>p. case ap_avg p of None \<Rightarrow> 0 | Some x \<Rightarrow> x) (ds_points temperatures) keys;
          present = List.map_filter (\<lambda>v. v) averages;
          markers = chart_replacement_markers temperatures errors range_days keys;
          at_error = (\<lambda>f. values_at f (ds_points errors) keys)
      in \<lparr>dc_enclosure_id = e, dc_slot_id = k, dc_active_range_days = range_days,
          dc_temperature_chart = temperature_chart_data labels averages (st_temp_warning_celsius st)
            (st_temp_critical_celsius st) (if present = [] then 0 else Max (set present)) markers,
          dc_error_chart = \<lparr>ch_labels = labels, ch_media = at_error ap_media, ch_other = at_error ap_other,
            ch_predictive = at_error ap_predictive, ch_markers = markers\<rparr>,
          dc_temperature_rows = temperature_fallback_rows temperatures range_days,
          dc_error_rows = error_fallback_rows errors range_days,
          dc_raw_count = max (ds_raw_count temperatures) (ds_raw_count errors),
          dc_hourly_count = max (ds_hourly_count temperatures) (ds_hourly_count errors),
          dc_daily_count = max (ds_daily_count temperatures) (ds_daily_count errors)\<rparr>)"

subsection \<open>The chart handler\<close>

text \<open>A handler refuses with a status and a detail, or fails with an exception of the code.\<close>

datatype page_fault = Page_refused int string | Page_crashed py_error

definition validate_range_days :: "int \<Rightarrow> page_fault + int" where
  "validate_range_days range_days =
     (if range_days \<in> set [7, 30, 365] then Inr range_days
      else Inl (Page_refused 400 ''range_days must be one of 7, 30, or 365''))"

definition find_physical_drive :: "snapshot_row \<Rightarrow> int \<Rightarrow> int \<Rightarrow> physical_drive_info option" where
  "find_physical_drive s e k = List.find (\<lambda>p. pdi_enclosure_id p = e \<and> pdi_slot_id p = k) (ps_physical_drives s)"

definition latest_snapshot_or_404 :: "db \<Rightarrow> page_fault + snapshot_row" where
  "latest_snapshot_or_404 d =
     (case get_latest_snapshot d of None \<Rightarrow> Inl (Page_refused 404 ''No controller snapshot exists'') | Some s \<Rightarrow> Inr s)"

definition latest_drive_or_404 :: "db \<Rightarrow> int \<Rightarrow> int \<Rightarrow> page_fault + (snapshot_row \<times> physical_drive_info)" where
  "latest_drive_or_404 d e k =
     bindr (latest_snapshot_or_404 d) (\<lambda>s.
       case find_physical_drive s e k of
         None \<Rightarrow> Inl (Page_refused 404 ''Physical drive not found in latest snapshot'') | Some p \<Rightarrow> Inr (s, p))"

definition chart_identity_or_404 ::
  "db \<Rightarrow> int \<Rightarrow> int \<Rightarrow> string option \<Rightarrow> py_datetime option \<Rightarrow> page_fault + (string \<times> instant)" where
  "chart_identity_or_404 d e k serial captured_at =
     (case (serial, captured_at) of
        (None, None) \<Rightarrow> bindr (latest_drive_or_404 d e k) (\<lambda>(s, p). Inr (pdi_serial_number p, sr_captured_at s))
      | (Some sn, Some t) \<Rightarrow>
          if sn = [] then Inl (Page_refused 400 ''serial_number must not be empty'')
          else bindr (latest_snapshot_or_404 d) (\<lambda>_.
            case t of Naive _ \<Rightarrow> Inl (Page_refused 400 ''captured_at must include a timezone'') | Aware u \<Rightarrow> Inr (sn, u))
      | _ \<Rightarrow> Inl (Page_refused 400 ''serial_number and captured_at must be provided together''))"

definition or_crash :: "py_error + 'a \<Rightarrow> page_fault + 'a" where
  "or_crash r = (case r of Inl err \<Rightarrow> Inl (Page_crashed err) | Inr x \<Rightarrow> Inr x)"

definition drive_charts_view_model ::
  "settings \<Rightarrow> db \<Rightarrow> int \<Rightarrow> int \<Rightarrow> string \<Rightarrow> int \<Rightarrow> instant \<Rightarrow> page_fault + drive_charts" where
  "drive_charts_view_model st d e k serial range_days now =
     bindr (validate_range_days range_days) (\<lambda>r.
     bindr (or_crash (load_drive_temperature_series d e k serial r (Aware now))) (\<lambda>temperatures.
     bindr (or_crash (load_drive_error_series d e k serial r (Aware now))) (\<lambda>errors.
       Inr (charts_of st e k r temperatures errors))))"

definition get_drive_charts ::
  "settings \<Rightarrow> db \<Rightarrow> int \<Rightarrow> int \<Rightarrow> int \<Rightarrow> string option \<Rightarrow> py_datetime option \<Rightarrow> page_fault + drive_charts" where
  "get_drive_charts st d e k range_days serial captured_at =
     bindr (validate_range_days range_days) (\<lambda>r.
     bindr (chart_identity_or_404 d e k serial captured_at) (\<lambda>(sn, t).
       drive_charts_view_model st d e k sn r t))"

subsection \<open>Temperature of the controller\<close>

record roc_point =
  ro_captured_at :: instant
  ro_temperature :: int

record roc_series =
  rs_points :: "roc_point list"
  rs_range_label :: string
  rs_min :: "int option"
  rs_avg :: "int option"
  rs_max :: "int option"
  rs_current :: "int option"
  rs_warning :: int
  rs_critical :: int

definition roc_samples :: "db \<Rightarrow> instant \<Rightarrow> instant \<Rightarrow> roc_point list" where
  "roc_samples d cutoff until = List.map_filter (\<lambda>s. map_option (\<lambda>t.
     \<lparr>ro_captured_at = sr_captured_at s, ro_temperature = t\<rparr>) (ps_roc_temperature s))
     (filter (\<lambda>s. cutoff < sr_captured_at s \<and> sr_captured_at s \<le> until) (db_snapshots d))"

definition load_raw_roc_points :: "db \<Rightarrow> instant \<Rightarrow> instant \<Rightarrow> roc_point list" where
  "load_raw_roc_points d cutoff until = sort_key ro_captured_at (roc_samples d cutoff until)"

definition mean_of :: "int list \<Rightarrow> rat" where
  "mean_of xs = rat_of_int (sum_list xs) / rat_of_nat (length xs)"

definition load_bucketed_roc_points ::
  "db \<Rightarrow> instant \<Rightarrow> instant \<Rightarrow> (instant \<Rightarrow> instant) \<Rightarrow> nat option \<Rightarrow> roc_point list" where
  "load_bucketed_roc_points d cutoff until bucket max_points =
     (let samples = roc_samples d cutoff until;
          points = map (\<lambda>b. \<lparr>ro_captured_at = b, ro_temperature = round_half_even (mean_of (map ro_temperature
              (filter (\<lambda>p. bucket (ro_captured_at p) = b) samples)))\<rparr>)
            (sort (remdups (map (\<lambda>p. bucket (ro_captured_at p)) samples)))
      in case max_points of Some n \<Rightarrow> if length points > n then last_rows n points else points | None \<Rightarrow> points)"

definition roc_range_label :: "int \<Rightarrow> string" where
  "roc_range_label range_hours =
     (if range_hours < 24 then ''last '' @ show_int range_hours @ '' hour''
      else if range_hours = 24 then ''last 24 hours''
      else ''last '' @ show_int (range_hours div 24) @ '' days'')"

definition roc_series_of :: "roc_point list \<Rightarrow> int \<Rightarrow> int option \<Rightarrow> settings \<Rightarrow> roc_series" where
  "roc_series_of points range_hours current st =
     (let ts = map ro_temperature points
      in \<lparr>rs_points = points, rs_range_label = roc_range_label range_hours,
          rs_min = (if ts = [] then None else Some (Min (set ts))),
          rs_avg = (if ts = [] then None else Some (round_half_even (mean_of ts))),
          rs_max = (if ts = [] then None else Some (Max (set ts))),
          rs_current = current, rs_warning = st_roc_temp_warning_celsius st, rs_critical = st_roc_temp_critical_celsius st\<rparr>)"

definition load_roc_temperature_series :: "db \<Rightarrow> int \<Rightarrow> settings \<Rightarrow> instant \<Rightarrow> roc_series" where
  "load_roc_temperature_series d range_hours st now =
     (let current = Option.bind (get_latest_snapshot d) ps_roc_temperature;
          cutoff = now - hours range_hours;
          points =
            (if latest_captured_at d = None then []
             else if range_hours \<le> 24 then load_raw_roc_points d cutoff now
             else if range_hours \<le> 168 then load_bucketed_roc_points d cutoff now hour_bucket (Some (nat range_hours))
             else load_bucketed_roc_points d cutoff now day_bucket None)
      in roc_series_of points range_hours current st)"

definition get_controller_roc_history :: "settings \<Rightarrow> db \<Rightarrow> int \<Rightarrow> instant \<Rightarrow> page_fault + roc_series" where
  "get_controller_roc_history st d range_hours now =
     (if range_hours \<notin> set [1, 24, 168, 720] then Inl (Page_refused 422 ''range_hours must be one of 1, 24, 168, 720'')
      else Inr (load_roc_temperature_series d range_hours st now))"

end
