(* ===== verification/Overview.thy ===== *)
theory Overview
  imports History Operations
begin

section \<open>The main page\<close>

text \<open>
  What \<open>services/overview.py\<close> adds to the grades and lists of \<^theory_text>\<open>Health\<close>: the summary of the controller with its
  running operations, the recent activity, the state of the system, the page with the list of drives, and
  \<open>services/observation_health.py\<close>.

  \<^item> \<open>make_url\<close> of SQLAlchemy and the size of a file are parameters, as are the last run of the collector and the
    health of the mailer. An unvalidated stored text is an integer when it is a sign and digits.
  \<^item> Times of operations are those of the controller, read as UTC the way the code does.
\<close>

subsection \<open>Values of the raw data\<close>

definition none_if_null :: "json \<Rightarrow> json option" where
  "none_if_null v = (case v of JNull \<Rightarrow> None | _ \<Rightarrow> Some v)"

definition names_key :: "string \<Rightarrow> string \<Rightarrow> bool" where
  "names_key key k \<longleftrightarrow> py_lower (py_strip k) = py_lower key"

text \<open>\<open>item.get("Property") or item.get("Ctrl_Prop")\<close>, as a text.\<close>

definition property_name :: "dict \<Rightarrow> string" where
  "property_name entry =
     (case dict_get entry ''Property'' of
        Some v \<Rightarrow> if truthy v then py_str v else (case dict_get entry ''Ctrl_Prop'' of None \<Rightarrow> ''None'' | Some w \<Rightarrow> py_str w)
      | None \<Rightarrow> (case dict_get entry ''Ctrl_Prop'' of None \<Rightarrow> ''None'' | Some w \<Rightarrow> py_str w))"

fun property_value :: "json list \<Rightarrow> string \<Rightarrow> json option" where
  "property_value [] key = None"
| "property_value (JObj entry # rest) key =
     (if names_key key (property_name entry) then Option.bind (dict_get entry ''Value'') none_if_null
      else property_value rest key)"
| "property_value (_ # rest) key = property_value rest key"

fun find_raw_value :: "json \<Rightarrow> string \<Rightarrow> json option"
  and find_raw_entry :: "(string \<times> json) list \<Rightarrow> string \<Rightarrow> json option"
  and find_raw_item :: "json list \<Rightarrow> string \<Rightarrow> json option" where
  "find_raw_value (JObj kvs) key = find_raw_entry kvs key"
| "find_raw_value (JArr vs) key =
     (case property_value vs key of Some v \<Rightarrow> Some v | None \<Rightarrow> find_raw_item vs key)"
| "find_raw_value _ key = None"
| "find_raw_entry [] key = None"
| "find_raw_entry ((k, v) # kvs) key =
     (if names_key key k then none_if_null v
      else case find_raw_value v key of Some found \<Rightarrow> Some found | None \<Rightarrow> find_raw_entry kvs key)"
| "find_raw_item [] key = None"
| "find_raw_item (v # vs) key = (case find_raw_value v key of Some found \<Rightarrow> Some found | None \<Rightarrow> find_raw_item vs key)"

fun first_raw_text :: "dict \<Rightarrow> string list \<Rightarrow> string option" where
  "first_raw_text raw [] = None"
| "first_raw_text raw (key # keys) =
     (case find_raw_value (JObj raw) key of
        None \<Rightarrow> first_raw_text raw keys
      | Some v \<Rightarrow> (let found = py_strip (py_str v)
                   in if found \<noteq> [] \<and> found \<notin> set [''-'', ''None'', ''N/A''] then Some found else first_raw_text raw keys))"

subsection \<open>Texts\<close>

definition month_names :: "string list" where
  "month_names = [''Jan'', ''Feb'', ''Mar'', ''Apr'', ''May'', ''Jun'', ''Jul'', ''Aug'', ''Sep'', ''Oct'', ''Nov'', ''Dec'']"

definition format_relative_time :: "instant option \<Rightarrow> instant \<Rightarrow> string" where
  "format_relative_time t now =
     (case t of
        None \<Rightarrow> ''never''
      | Some u \<Rightarrow>
          (let seconds = max 0 (now - u) div sec 1; mins = seconds div 60; hrs = mins div 60; ds = hrs div 24
           in if seconds < 60 then ''just now''
              else if mins < 60 then show_int mins @ '' min ago''
              else if hrs < 24 then show_int hrs @ (if hrs = 1 then '' hour'' else '' hours'') @ '' ago''
              else show_int ds @ (if ds = 1 then '' day'' else '' days'') @ '' ago''))"

definition format_short_date :: "instant option \<Rightarrow> string option" where
  "format_short_date t = map_option (\<lambda>u. case civil_of_days (u div days 1) of (y, m, d) \<Rightarrow>
     month_names ! nat (m - 1) @ '' '' @ show_int d) t"

definition format_future_time :: "instant option \<Rightarrow> instant \<Rightarrow> string option" where
  "format_future_time t now = map_option (\<lambda>u.
     (let seconds = max 0 (u - now) div sec 1; ds = seconds div 86400; hrs = seconds mod 86400 div 3600;
          mins = seconds mod 3600 div 60
      in if ds \<noteq> 0 then ''in '' @ show_int ds @ ''d '' @ show_int hrs @ ''h''
         else if hrs \<noteq> 0 then ''in '' @ show_int hrs @ ''h '' @ show_int mins @ ''m''
         else if mins \<noteq> 0 then ''in '' @ show_int mins @ ''m'' else ''now'')) t"

text \<open>\<open>f"{int(value * 10) / 10:.1f} {unit}"\<close>.\<close>

definition floor_1 :: "rat \<Rightarrow> string" where
  "floor_1 x = fixed_1 (rat_of_int \<lfloor>x * 10\<rfloor> / 10)"

definition format_db_size :: "int \<Rightarrow> string" where
  "format_db_size size_bytes =
     (if size_bytes < 1024 then show_int size_bytes @ '' B''
      else if size_bytes < 1024 ^ 2 then floor_1 (rat_of_int size_bytes / 1024) @ '' KB''
      else if size_bytes < 1024 ^ 3 then floor_1 (rat_of_int size_bytes / 1024 ^ 2) @ '' MB''
      else floor_1 (rat_of_int size_bytes / 1024 ^ 3) @ '' GB'')"

text \<open>Backend and database of an address; \<open>None\<close> is an address that cannot be read.\<close>

definition database_size_bytes ::
  "(string \<Rightarrow> (string \<times> string option) option) \<Rightarrow> (string \<Rightarrow> int option) \<Rightarrow> string \<Rightarrow> int" where
  "database_size_bytes make_url file_size url =
     (case make_url url of
        Some (backend, Some file) \<Rightarrow>
          if backend \<noteq> ''sqlite'' \<or> file \<in> set [[], '':memory:''] then 0
          else (case file_size file of None \<Rightarrow> 0 | Some n \<Rightarrow> n)
      | _ \<Rightarrow> 0)"

subsection \<open>Times of operations\<close>

definition dashed_date_of :: "string \<Rightarrow> (int \<times> int \<times> int) option" where
  "dashed_date_of w =
     (case split_on CHR ''-'' w of
        [y, m, d] \<Rightarrow> (case (year_number y, short_number 2 m, short_number 2 d) of
           (Some y', Some m', Some d') \<Rightarrow> Some (y', m', d') | _ \<Rightarrow> None)
      | _ \<Rightarrow> None)"

definition month_number :: "string \<Rightarrow> int option" where
  "month_number w = map_of (zip (map py_lower month_names) [1..12]) (py_lower w)"

text \<open>\<open>"%b %d, %Y %H:%M"\<close>.\<close>

definition month_date_of :: "string list \<Rightarrow> instant option" where
  "month_date_of ws =
     (case ws of
        [m, d, y, clock] \<Rightarrow>
          (if d = [] \<or> last d \<noteq> CHR '','' then None
           else case split_on CHR '':'' clock of
             [h, mi] \<Rightarrow>
               (case (month_number m, short_number 2 (butlast d), year_number y, short_number 2 h, short_number 2 mi) of
                  (Some m', Some d', Some y', Some h', Some mi') \<Rightarrow> civil_micros y' m' d' h' mi' 0 | _ \<Rightarrow> None)
           | _ \<Rightarrow> None)
      | _ \<Rightarrow> None)"

definition parse_operation_timestamp :: "string option \<Rightarrow> instant option" where
  "parse_operation_timestamp v =
     (case v of
        None \<Rightarrow> None
      | Some stamp \<Rightarrow>
          (let ws = py_words (py_strip (takeWhile (\<lambda>c. c \<noteq> CHR ''('') stamp))
           in case date_and_clock dashed_date_of ws of Some t \<Rightarrow> Some t
              | None \<Rightarrow> (case date_and_clock iso_date_of ws of Some t \<Rightarrow> Some t
              | None \<Rightarrow> (case date_and_clock us_date_of ws of Some t \<Rightarrow> Some t | None \<Rightarrow> month_date_of ws))))"

subsection \<open>Operations of the last snapshot\<close>

text \<open>Validation of a stored status: unknown keys are ignored, absent optional fields take their defaults.\<close>

definition stored_text :: "dict \<Rightarrow> string \<Rightarrow> string option" where
  "stored_text d k = (case dict_get d k of Some (JStr s) \<Rightarrow> Some s | _ \<Rightarrow> None)"

definition optional_text :: "dict \<Rightarrow> string \<Rightarrow> string option option" where
  "optional_text d k =
     (case dict_get d k of
        None \<Rightarrow> Some None | Some JNull \<Rightarrow> Some None | Some (JStr s) \<Rightarrow> Some (Some s) | Some _ \<Rightarrow> None)"

definition text_integer :: "string \<Rightarrow> int option" where
  "text_integer s =
     (let w = py_strip s; body = (case w of c # rest \<Rightarrow> if c \<in> set ''+-'' then rest else w | [] \<Rightarrow> [])
      in if body = [] \<or> \<not> list_all is_digit body then None
         else Some (if hd w = CHR ''-'' then - int (read_nat body) else int (read_nat body)))"

definition optional_integer :: "dict \<Rightarrow> string \<Rightarrow> int option option" where
  "optional_integer d k =
     (case dict_get d k of
        None \<Rightarrow> Some None
      | Some JNull \<Rightarrow> Some None
      | Some (JInt n) \<Rightarrow> Some (Some n)
      | Some (JBool b) \<Rightarrow> Some (Some (if b then 1 else 0))
      | Some (JFloat q _) \<Rightarrow> if q = rat_of_int \<lfloor>q\<rfloor> then Some (Some \<lfloor>q\<rfloor>) else None
      | Some (JStr s) \<Rightarrow> map_option Some (text_integer s)
      | Some _ \<Rightarrow> None)"

definition load_patrol_read_state :: "snapshot_row \<Rightarrow> patrol_read_status option" where
  "load_patrol_read_state s =
     (case col_get (sr_raw_json s) ''patrol_read'' of
        Some (JObj d) \<Rightarrow>
          (case (stored_text d ''mode'', stored_text d ''state'', optional_integer d ''progress_percent'',
                 optional_integer d ''completed_drive_count'', optional_text d ''last_run_timestamp'',
                 optional_integer d ''interval_hours'', optional_text d ''next_start_timestamp'') of
             (Some mode, Some state, Some progress, Some completed, Some last_run, Some interval, Some next_start) \<Rightarrow>
               Some \<lparr>pr_mode = mode, pr_state = state, pr_progress_percent = progress, pr_completed_drive_count = completed,
                     pr_last_run = last_run, pr_interval_hours = interval, pr_next_start = next_start\<rparr>
           | _ \<Rightarrow> None)
      | _ \<Rightarrow> None)"

definition load_consistency_check_state :: "snapshot_row \<Rightarrow> consistency_check_status option" where
  "load_consistency_check_state s =
     (case col_get (sr_raw_json s) ''consistency_check'' of
        Some (JObj d) \<Rightarrow>
          (case (stored_text d ''mode'', stored_text d ''state'', optional_integer d ''progress_percent'',
                 optional_text d ''last_run_timestamp'', optional_integer d ''inconsistency_count'',
                 optional_text d ''inconsistency_detail'') of
             (Some mode, Some state, Some progress, Some last_run, Some found, Some detail) \<Rightarrow>
               Some \<lparr>cc_mode = mode, cc_state = state, cc_progress_percent = progress, cc_last_run = last_run,
                     cc_inconsistency_count = found, cc_inconsistency_detail = detail\<rparr>
           | _ \<Rightarrow> None)
      | _ \<Rightarrow> None)"

record active_operation =
  ao_name :: string
  ao_progress_percent :: "int option"
  ao_tooltip :: string

definition active_operation_of :: "string \<Rightarrow> int option \<Rightarrow> string option \<Rightarrow> string \<Rightarrow> active_operation" where
  "active_operation_of name progress last_run subject =
     \<lparr>ao_name = name, ao_progress_percent = progress,
      ao_tooltip = (case parse_operation_timestamp last_run of
          None \<Rightarrow> subject @ '', ETA unknown''
        | Some t \<Rightarrow> subject @ '', last reported run '' @ hour_text t @ '':'' @ minute_text t @
                     '' (controller time) - ETA unknown'')\<rparr>"

definition load_rebuild_operation :: "snapshot_row \<Rightarrow> active_operation option" where
  "load_rebuild_operation s =
     map_option (\<lambda>p. \<lparr>ao_name = ''Rebuild'', ao_progress_percent = None,
       ao_tooltip = ''Drive '' @ slot_ref p @ '', ETA unknown''\<rparr>)
       (List.find (\<lambda>p. pdi_state p \<in> set [''Rbld'', ''Rebld'', ''Rebuild'', ''Rebuilding'']) (ps_physical_drives s))"

definition load_foreign_config_import_operation :: "snapshot_row \<Rightarrow> active_operation option" where
  "load_foreign_config_import_operation s = None"

definition load_active_operations :: "snapshot_row \<Rightarrow> active_operation list" where
  "load_active_operations s =
     List.map_filter (\<lambda>x. x)
       [load_rebuild_operation s,
        (case load_consistency_check_state s of
           Some c \<Rightarrow> if cc_is_running c
             then Some (active_operation_of ''Consistency check'' (cc_progress_percent c) (cc_last_run c) ''Controller'') else None
         | None \<Rightarrow> None),
        (case load_patrol_read_state s of
           Some p \<Rightarrow> if pr_is_running p
             then Some (active_operation_of ''Patrol read'' (pr_progress_percent p) (pr_last_run p) ''Controller'') else None
         | None \<Rightarrow> None),
        load_foreign_config_import_operation s]"

subsection \<open>The summary of the controller\<close>

definition count_recent_warning_and_critical_events :: "db \<Rightarrow> instant \<Rightarrow> nat" where
  "count_recent_warning_and_critical_events d now =
     length (filter (\<lambda>e. ev_severity e \<in> set [Warning, Critical] \<and> ev_occurred_at e > now - hours 24) (db_events d))"

text \<open>The most frequent level, the first in the alphabet among equals.\<close>

definition dominant_raid_level :: "virtual_drive_info list \<Rightarrow> string" where
  "dominant_raid_level vds =
     (let levels = map vdi_raid_level vds;
          ranked = sort_key (\<lambda>l. (- int (count_list levels l), map code_of l)) (keep_first [] levels)
      in case ranked of [] \<Rightarrow> ''Unknown'' | l # _ \<Rightarrow> l)"

definition main_page_raid_summary :: "virtual_drive_info list \<Rightarrow> physical_drive_info list \<Rightarrow> string" where
  "main_page_raid_summary vds pds =
     dominant_raid_level vds @ '' ('' @ show_int (int (length vds)) @ '' VD, '' @ show_int (int (length pds)) @ '' PD)''"

definition virtual_drive_state_label :: "string \<Rightarrow> string" where
  "virtual_drive_state_label state =
     (case map_of [(''Optl'', ''Optimal''), (''Optimal'', ''Optimal''), (''Pdgd'', ''Degraded''),
                   (''Partially Degraded'', ''Degraded''), (''Degraded'', ''Degraded''), (''Failed'', ''Failed''),
                   (''Offln'', ''Failed''), (''Offline'', ''Failed'')] state of
        None \<Rightarrow> state | Some l \<Rightarrow> l)"

definition main_page_bbu_status :: "snapshot_row \<Rightarrow> string" where
  "main_page_bbu_status s =
     (case ps_cachevault s of
        Some cv \<Rightarrow> if ps_cv_present s \<and> \<not> sr_bbu_present s then ''N/A'' else virtual_drive_state_label (cvi_state cv)
      | None \<Rightarrow> if sr_bbu_present s then ''Unknown'' else ''N/A'')"

record controller_summary =
  sm_state :: string
  sm_model :: string
  sm_serial :: string
  sm_raid_summary :: string
  sm_roc_temperature :: "int option"
  sm_cv_capacitance :: "int option"
  sm_bbu_status :: string
  sm_errors_24h :: nat
  sm_active_operations :: "active_operation list"
  sm_last_patrol_read_completed_at :: "instant option"
  sm_last_patrol_read_completed_text :: "string option"
  sm_last_patrol_read_duration_text :: "string option"
  sm_next_patrol_read_in_text :: "string option"
  sm_operations_known :: bool

definition py_upper :: "string \<Rightarrow> string" where
  "py_upper s = map (\<lambda>c. if is_lower c then char_of (code_of c - 32) else c) s"

definition known_operation_state :: "string option \<Rightarrow> bool" where
  "known_operation_state state =
     (py_lower (py_strip (case state of None \<Rightarrow> ''unknown'' | Some s \<Rightarrow> s))
        \<in> set [''active'', ''running'', ''in progress'', ''paused'', ''stopped'', ''ready''])"

definition load_controller_summary :: "db \<Rightarrow> settings \<Rightarrow> snapshot_row option \<Rightarrow> instant \<Rightarrow> controller_summary" where
  "load_controller_summary d st snapshot now =
     (case snapshot of
        None \<Rightarrow>
          \<lparr>sm_state = ''UNKNOWN'', sm_model = ''Unknown'', sm_serial = ''Unknown'', sm_raid_summary = ''Unknown'',
           sm_roc_temperature = None, sm_cv_capacitance = None, sm_bbu_status = ''Unknown'',
           sm_errors_24h = count_recent_warning_and_critical_events d now, sm_active_operations = [],
           sm_last_patrol_read_completed_at = None, sm_last_patrol_read_completed_text = None,
           sm_last_patrol_read_duration_text = None, sm_next_patrol_read_in_text = None, sm_operations_known = False\<rparr>
      | Some s \<Rightarrow>
          (let patrol = load_patrol_read_state s;
               completed = parse_operation_timestamp (Option.bind patrol pr_last_run);
               next_run = parse_operation_timestamp
                 (first_raw_text (case sr_raw_json s of None \<Rightarrow> [] | Some raw \<Rightarrow> raw) [''Next Patrol Read launch''])
           in \<lparr>sm_state = py_upper (snapshot_health st s), sm_model = sr_model_name s, sm_serial = sr_serial_number s,
               sm_raid_summary = main_page_raid_summary (ps_virtual_drives s) (ps_physical_drives s),
               sm_roc_temperature = ps_roc_temperature s,
               sm_cv_capacitance = Option.bind (ps_cachevault s) cvi_capacitance,
               sm_bbu_status = main_page_bbu_status s,
               sm_errors_24h = count_recent_warning_and_critical_events d now,
               sm_active_operations = load_active_operations s,
               sm_last_patrol_read_completed_at = completed,
               sm_last_patrol_read_completed_text = format_short_date completed,
               sm_last_patrol_read_duration_text = None,
               sm_next_patrol_read_in_text = format_future_time next_run now,
               sm_operations_known = list_all known_operation_state
                 [map_option pr_state patrol, map_option cc_state (load_consistency_check_state s)]\<rparr>))"

subsection \<open>Activity and system\<close>

record activity_item =
  ac_category :: string
  ac_message :: string
  ac_severity :: string
  ac_severity_icon :: string
  ac_occurred_at :: instant
  ac_age_text :: string

definition severity_icon_or_info :: "string \<Rightarrow> string" where
  "severity_icon_or_info sev =
     (case map_of [(''critical'', ''x-circle''), (''warning'', ''alert-triangle''), (''info'', ''check-circle'')] sev of
        None \<Rightarrow> ''info'' | Some icon \<Rightarrow> icon)"

definition activity_item_of :: "instant \<Rightarrow> event_row \<Rightarrow> activity_item" where
  "activity_item_of now e =
     \<lparr>ac_category = ev_category e, ac_message = ev_summary e, ac_severity = severity_name (ev_severity e),
      ac_severity_icon = severity_icon_or_info (severity_name (ev_severity e)), ac_occurred_at = ev_occurred_at e,
      ac_age_text = format_relative_time (Some (ev_occurred_at e)) now\<rparr>"

definition load_recent_activity :: "db \<Rightarrow> int \<Rightarrow> instant \<Rightarrow> py_error + activity_item list" where
  "load_recent_activity d limit now =
     bindr (list_recent_events d limit) (\<lambda>es. Inr (map (activity_item_of now) es))"

text \<open>What the page is told of the process around it.\<close>

record page_env =
  pe_notifier_ok :: bool
  pe_collector_enabled :: bool
  pe_collector_last_run :: "py_datetime option"
  pe_database_size :: int
  pe_app_version :: string

record system_health =
  sy_notifier_ok :: bool
  sy_collector_last_run_at :: "instant option"
  sy_collector_last_run_text :: string
  sy_db_size :: string
  sy_app_version :: string

definition load_system_health :: "page_env \<Rightarrow> instant \<Rightarrow> py_error + system_health" where
  "load_system_health env now =
     bindr (case pe_collector_last_run env of None \<Rightarrow> Inr None
            | Some t \<Rightarrow> bindr (require_aware_utc t) (\<lambda>u. Inr (Some u))) (\<lambda>last_run.
       Inr \<lparr>sy_notifier_ok = pe_notifier_ok env, sy_collector_last_run_at = last_run,
            sy_collector_last_run_text =
              (if \<not> pe_collector_enabled env \<and> last_run = None then ''disabled'' else format_relative_time last_run now),
            sy_db_size = format_db_size (pe_database_size env), sy_app_version = pe_app_version env\<rparr>)"

record main_page =
  mn_controller :: controller_summary
  mn_drive_tiles :: "drive_tile list"
  mn_worst_severity :: string
  mn_recent_activity :: "activity_item list"
  mn_system_health :: system_health
  mn_updated_at :: instant
  mn_auto_refresh_seconds :: int

definition load_main_page :: "settings \<Rightarrow> page_env \<Rightarrow> db \<Rightarrow> instant \<Rightarrow> py_error + main_page" where
  "load_main_page st env d now =
     (let snapshot = get_latest_snapshot d
      in bindr (load_recent_activity d 10 now) (\<lambda>activity.
         bindr (load_system_health env now) (\<lambda>system.
           Inr \<lparr>mn_controller = load_controller_summary d st snapshot now,
                mn_drive_tiles = fst (load_drive_grid st snapshot), mn_worst_severity = snd (load_drive_grid st snapshot),
                mn_recent_activity = activity, mn_system_health = system,
                mn_updated_at = (case snapshot of None \<Rightarrow> now | Some s \<Rightarrow> sr_captured_at s),
                mn_auto_refresh_seconds = 30\<rparr>)))"

subsection \<open>The page with the drives\<close>

record drive_list_page =
  lp_has_snapshot :: bool
  lp_controller_label :: string
  lp_captured_at :: "instant option"
  lp_physical_drives :: "drive_row list"
  lp_slot_urls :: "string list"
  lp_summary :: drive_list_summary
  lp_empty_title :: string
  lp_empty_body :: string
  lp_empty_next_run :: string

definition load_drive_list_page ::
  "settings \<Rightarrow> (string \<Rightarrow> string) \<Rightarrow> bool \<Rightarrow> py_datetime option \<Rightarrow> db \<Rightarrow> instant \<Rightarrow> drive_list_page" where
  "load_drive_list_page st slot_url collector_enabled next_run d now =
     (let (rows, summary) = load_drive_list st d; snapshot = get_latest_snapshot d
      in \<lparr>lp_has_snapshot = (snapshot \<noteq> None), lp_controller_label = controller_label,
          lp_captured_at = map_option sr_captured_at snapshot, lp_physical_drives = rows,
          lp_slot_urls = map (\<lambda>r. slot_url (dv_slot r)) rows, lp_summary = summary,
          lp_empty_title = ''Waiting for first metrics collection'',
          lp_empty_body = ''The collector has not yet completed its first run.'',
          lp_empty_next_run = (if snapshot = None then next_run_text collector_enabled next_run now else [])\<rparr>)"

subsection \<open>Stale observations\<close>

definition observation_warning :: "db \<Rightarrow> settings \<Rightarrow> bool \<Rightarrow> instant \<Rightarrow> string option" where
  "observation_warning d st collector_enabled now =
     (if \<not> collector_enabled then None
      else case best_by (\<lambda>s. (sr_captured_at s, sr_id s)) (filter (\<lambda>s. sr_captured_at s \<le> now) (db_snapshots d)) of
        None \<Rightarrow> Some ''No reliable collection yet. RAID state is unknown.''
      | Some s \<Rightarrow>
          (let captured = sr_captured_at s;
               label = date_text captured @ '' '' @ hour_text captured @ '':'' @ minute_text captured @ '' UTC''
           in if captured < now - sec (max 60 (2 * st_metrics_interval_seconds st)) then
                Some (''Monitoring data is stale. RAID state is unknown. Last observation: '' @ label @ ''.'')
              else if list_ex (\<lambda>e. ev_category e = ''system'' \<and> starts_with (py_lower ''Collection failed:'') (py_lower (ev_summary e)) \<and>
                       captured \<le> ev_occurred_at e \<and> ev_occurred_at e \<le> now) (db_events d) then
                Some (''Collection failed. Showing last known data from '' @ label @ ''.'')
              else None))"

end
