(* ===== verification/ControllerDetail.thy ===== *)
theory ControllerDetail
  imports Overview
begin

section \<open>The controller page\<close>

text \<open>
  \<open>services/controller_detail.py\<close>: the health of the controller in words, cards of the running operations with
  their buttons, the configuration, the hardware, the buzzer and the foreign configuration.

  \<^item> \<open>fingerprint\<close> is the digest of a foreign configuration, as in \<^theory_text>\<open>ForeignConfig\<close>.
  \<^item> The fractional parts of sizes are rationals; the code uses floats.
\<close>

subsection \<open>Texts\<close>

definition optional_stripped :: "json option \<Rightarrow> string option" where
  "optional_stripped v =
     (case v of
        None \<Rightarrow> None
      | Some JNull \<Rightarrow> None
      | Some w \<Rightarrow> (let found = py_strip (py_str w) in if found = [] then None else Some found))"

fun first_hardware_text :: "json \<Rightarrow> string list \<Rightarrow> string option" where
  "first_hardware_text raw [] = None"
| "first_hardware_text raw (key # keys) =
     (case optional_stripped (find_raw_value raw key) of Some found \<Rightarrow> Some found | None \<Rightarrow> first_hardware_text raw keys)"

definition hardware_text :: "json \<Rightarrow> string \<Rightarrow> string" where
  "hardware_text raw key = (case first_hardware_text raw [key] of None \<Rightarrow> ''N/A'' | Some found \<Rightarrow> found)"

text \<open>\<open>str.title\<close>.\<close>

fun title_from :: "bool \<Rightarrow> string \<Rightarrow> string" where
  "title_from inside [] = []"
| "title_from inside (c # cs) =
     (if is_alpha c then (if inside then hd (py_lower [c]) else hd (py_upper [c])) # title_from True cs
      else c # title_from False cs)"

definition py_title :: "string \<Rightarrow> string" where
  "py_title s = title_from False s"

definition full_month_names :: "string list" where
  "full_month_names =
     [''January'', ''February'', ''March'', ''April'', ''May'', ''June'', ''July'', ''August'', ''September'',
      ''October'', ''November'', ''December'']"

definition long_date :: "int \<times> int \<times> int \<Rightarrow> string" where
  "long_date x = (case x of (y, m, d) \<Rightarrow> full_month_names ! nat (m - 1) @ '' '' @ show_int d @ '', '' @ padded 4 y)"

definition clock_text :: "instant \<Rightarrow> string" where
  "clock_text t = hour_text t @ '':'' @ minute_text t"

definition civil :: "instant \<Rightarrow> int \<times> int \<times> int" where
  "civil t = civil_of_days (t div days 1)"

definition reported_date :: "instant \<Rightarrow> string" where
  "reported_date t = (case civil t of (y, m, d) \<Rightarrow>
     padded 2 d @ '' '' @ month_names ! nat (m - 1) @ '' '' @ padded 4 y @ '', '' @ clock_text t)"

definition format_uptime :: "int \<Rightarrow> string" where
  "format_uptime elapsed =
     (let seconds = max 0 (elapsed div sec 1); ds = seconds div 86400; hrs = seconds mod 86400 div 3600;
          mins = seconds mod 3600 div 60; s = seconds mod 60
      in if ds \<noteq> 0 then show_int ds @ ''d '' @ show_int hrs @ ''h''
         else if hrs \<noteq> 0 then show_int hrs @ ''h '' @ show_int mins @ ''m''
         else if mins \<noteq> 0 then show_int mins @ ''m '' @ show_int s @ ''s'' else show_int s @ ''s'')"

definition fixed_2 :: "rat \<Rightarrow> string" where
  "fixed_2 x = (let n = round_half_even (x * 100) in show_int (n div 100) @ ''.'' @ padded 2 (n mod 100))"

fun format_units :: "rat \<Rightarrow> string list \<Rightarrow> string" where
  "format_units x [] = fixed_2 x @ '' PB''"
| "format_units x (unit # units) = (if x < 1000 then fixed_2 x @ '' '' @ unit else format_units (x / 1000) units)"

definition format_bytes :: "int \<Rightarrow> string" where
  "format_bytes n =
     (if n < 1000 then show_int n @ '' B''
      else format_units (rat_of_int n / 1000) [''KB'', ''MB'', ''GB'', ''TB''])"

definition plain_number :: "string \<Rightarrow> bool" where
  "plain_number w =
     (case split_on CHR ''.'' w of
        [a] \<Rightarrow> a \<noteq> [] \<and> list_all is_digit a
      | [a, b] \<Rightarrow> a \<noteq> [] \<and> list_all is_digit a \<and> b \<noteq> [] \<and> list_all is_digit b
      | _ \<Rightarrow> False)"

definition format_size_text :: "string option \<Rightarrow> string option \<Rightarrow> string" where
  "format_size_text v default_unit =
     (case optional_stripped (map_option JStr v) of
        None \<Rightarrow> ''N/A''
      | Some found \<Rightarrow>
          (case default_unit of
             Some unit \<Rightarrow> if plain_number found then found @ '' '' @ unit else found
           | None \<Rightarrow> found))"

subsection \<open>Values\<close>

definition first_number :: "string \<Rightarrow> int" where
  "first_number s =
     (let digits = takeWhile is_digit (dropWhile (\<lambda>c. \<not> is_digit c) s) in if digits = [] then 0 else int (read_nat digits))"

definition truncated :: "rat \<Rightarrow> int" where
  "truncated q = (if q < 0 then - \<lfloor>- q\<rfloor> else \<lfloor>q\<rfloor>)"

fun int_or_zero :: "json \<Rightarrow> int" where
  "int_or_zero (JInt n) = n"
| "int_or_zero (JFloat q _) = truncated q"
| "int_or_zero (JStr s) = first_number s"
| "int_or_zero _ = 0"

fun flag_value :: "json \<Rightarrow> bool" where
  "flag_value (JBool b) = b"
| "flag_value (JInt n) = (n > 0)"
| "flag_value (JStr s) = (py_lower (py_strip s) \<in> set [''1'', ''true'', ''yes'', ''on'', ''present''])"
| "flag_value _ = False"

definition parse_interval_hours :: "string option \<Rightarrow> int option" where
  "parse_interval_hours v =
     Option.bind v (\<lambda>s.
       let w = py_lower (py_strip s);
           body = (if starts_with ''every'' w \<and> drop 5 w \<noteq> [] \<and> is_space (hd (drop 5 w)) then py_lstrip (drop 5 w) else w);
           digits = takeWhile is_digit body; unit = py_lstrip (dropWhile is_digit body); amount = int (read_nat digits)
       in if digits = [] \<or> length digits > 8 \<or> unit \<notin> set [[], ''h'', ''hr'', ''hrs'', ''hour'', ''hours'', ''day'', ''days'']
          then None
          else if amount = 0 then None
          else if starts_with ''day'' unit then Some (amount * 24) else Some amount)"

definition parse_timestamp :: "string option \<Rightarrow> instant option" where
  "parse_timestamp v =
     Option.bind v (\<lambda>s.
       let ws = py_words (py_strip (takeWhile (\<lambda>c. c \<noteq> CHR ''('') s))
       in case date_and_clock us_date_of ws of Some t \<Rightarrow> Some t
          | None \<Rightarrow> (case date_and_clock iso_date_of ws of Some t \<Rightarrow> Some t
          | None \<Rightarrow> (case date_and_clock dashed_date_of ws of Some t \<Rightarrow> Some t | None \<Rightarrow> month_date_of ws)))"

definition valid_date :: "(int \<times> int \<times> int) option \<Rightarrow> (int \<times> int \<times> int) option" where
  "valid_date x = Option.bind x (\<lambda>(y, m, d). if civil_micros y m d 0 0 0 = None then None else Some (y, m, d))"

definition slashed :: "string \<Rightarrow> (string \<times> string \<times> string) option" where
  "slashed w = (case split_on CHR ''/'' w of [a, b, c] \<Rightarrow> Some (a, b, c) | _ \<Rightarrow> None)"

definition date_parts :: "string \<Rightarrow> string \<Rightarrow> string \<Rightarrow> (int \<times> int \<times> int) option" where
  "date_parts y m d =
     (case (year_number y, short_number 2 m, short_number 2 d) of
        (Some y', Some m', Some d') \<Rightarrow> valid_date (Some (y', m', d')) | _ \<Rightarrow> None)"

definition parse_date :: "string option \<Rightarrow> (int \<times> int \<times> int) option" where
  "parse_date v =
     Option.bind v (\<lambda>s. Option.bind (slashed (py_strip s)) (\<lambda>(a, b, c).
       case date_parts a b c of Some x \<Rightarrow> Some x
       | None \<Rightarrow> (case date_parts c a b of Some x \<Rightarrow> Some x | None \<Rightarrow> date_parts c b a)))"

definition format_manufacture_date :: "(int \<times> int \<times> int) option \<Rightarrow> instant \<Rightarrow> string" where
  "format_manufacture_date v now =
     (case v of
        None \<Rightarrow> ''N/A''
      | Some (y, m, d) \<Rightarrow>
          (case civil now of (ny, nm, nd) \<Rightarrow>
             (let had_anniversary = (nm > m \<or> (nm = m \<and> nd \<ge> d));
                  years = max 0 (ny - y - (if had_anniversary then 0 else 1))
              in long_date (y, m, d) @ '' (~'' @ show_int years @ '' years old)'')))"

subsection \<open>Health in words\<close>

definition bbu_status :: "snapshot_row \<Rightarrow> string" where
  "bbu_status s =
     (case ps_cachevault s of
        Some cv \<Rightarrow> if ps_cv_present s then cvi_state cv else if sr_bbu_present s then ''Unknown'' else ''N/A''
      | None \<Rightarrow> if sr_bbu_present s then ''Unknown'' else ''N/A'')"

definition raw_of :: "snapshot_row \<Rightarrow> dict" where
  "raw_of s = (case sr_raw_json s of None \<Rightarrow> [] | Some raw \<Rightarrow> raw)"

definition memory_ecc_errors_total :: "dict option \<Rightarrow> int" where
  "memory_ecc_errors_total raw =
     (case raw of
        None \<Rightarrow> 0
      | Some r \<Rightarrow> sum_list (map (\<lambda>key. case first_hardware_text (JObj r) [key] of None \<Rightarrow> 0 | Some s \<Rightarrow> int_or_zero (JStr s))
                  [''Memory Correctable Errors'', ''Memory Uncorrectable Errors'', ''ECC Bucket Count'']))"

text \<open>Here the level of the first virtual drive, not the most frequent one.\<close>

definition first_raid_level :: "virtual_drive_info list \<Rightarrow> string" where
  "first_raid_level vds = (case sort_key vdi_vd_id vds of [] \<Rightarrow> ''RAID unknown'' | v # _ \<Rightarrow> vdi_raid_level v)"

definition health_summary :: "snapshot_row \<Rightarrow> string \<Rightarrow> settings \<Rightarrow> string" where
  "health_summary s health st =
     (let online = show_int (int (length (filter (\<lambda>p. pdi_state p = ''Onln'') (ps_physical_drives s)))) @ ''/'' @
            show_int (int (length (ps_physical_drives s))) @ '' drives online. '';
          raid = first_raid_level (ps_virtual_drives s);
          reasons = join_with '' '' (snd (assess_controller_components s (Some st)));
          states = join_with '', '' (map (\<lambda>v. ''VD '' @ show_int (vdi_vd_id v) @ '': '' @ vdi_state v) (ps_virtual_drives s))
      in if health = ''optimal'' then ''All systems nominal. '' @ online @ raid @ '' healthy.''
         else ''Controller requires attention.'' @ (if reasons = [] then [] else '' '' @ reasons) @ '' '' @ online @ raid @
              '' virtual-drive state: '' @ (if states = [] then ''No virtual drives reported'' else states) @ ''.'')"

record controller_health_view =
  hv_state :: string
  hv_summary_text :: string
  hv_roc_temperature :: "int option"
  hv_cv_capacitance :: "int option"
  hv_bbu_status :: string
  hv_memory_ecc_errors_total :: int
  hv_errors_24h :: nat
  hv_uptime_text :: string

definition build_health_snapshot :: "db \<Rightarrow> snapshot_row option \<Rightarrow> settings \<Rightarrow> instant \<Rightarrow> instant \<Rightarrow> controller_health_view" where
  "build_health_snapshot d snapshot st started now =
     (case snapshot of
        None \<Rightarrow>
          \<lparr>hv_state = ''UNKNOWN'', hv_summary_text = ''Waiting for first controller snapshot.'', hv_roc_temperature = None,
           hv_cv_capacitance = None, hv_bbu_status = ''Unknown'', hv_memory_ecc_errors_total = 0,
           hv_errors_24h = count_recent_warning_and_critical_events d now, hv_uptime_text = format_uptime (now - started)\<rparr>
      | Some s \<Rightarrow>
          \<lparr>hv_state = py_upper (snapshot_health st s), hv_summary_text = health_summary s (snapshot_health st s) st,
           hv_roc_temperature = ps_roc_temperature s, hv_cv_capacitance = Option.bind (ps_cachevault s) cvi_capacitance,
           hv_bbu_status = bbu_status s, hv_memory_ecc_errors_total = memory_ecc_errors_total (sr_raw_json s),
           hv_errors_24h = count_recent_warning_and_critical_events d now, hv_uptime_text = format_uptime (now - started)\<rparr>)"

subsection \<open>Cards of operations\<close>

record operation_card =
  oc_name :: string
  oc_mode_text :: string
  oc_status_text :: string
  oc_progress_percent :: "int option"
  oc_progress_eta_text :: "string option"
  oc_can_start :: bool
  oc_can_stop :: bool
  oc_can_change_mode :: bool
  oc_start_url :: "string option"
  oc_stop_url :: "string option"
  oc_mode_url :: "string option"
  oc_detail_text :: "string option"

definition operation_status_text :: "string \<Rightarrow> string" where
  "operation_status_text raw =
     (let state = py_lower (py_strip raw)
      in if state \<in> set [''active'', ''running'', ''in progress''] then ''Running'' else py_title state)"

definition operation_detail_text :: "string option \<Rightarrow> string" where
  "operation_detail_text last_run =
     (case parse_timestamp last_run of
        None \<Rightarrow> ''Last reported run unknown.''
      | Some t \<Rightarrow> ''Last reported run '' @ reported_date t @ '' (controller time).'')"

definition mode_text :: "string \<Rightarrow> int option \<Rightarrow> string" where
  "mode_text mode interval_hours =
     (let stripped = py_lower (py_strip mode);
          normalized = (if stripped = [] then ''unknown'' else stripped);
          label = py_title (map (\<lambda>c. if c = CHR ''_'' then CHR '' '' else c) normalized)
      in case interval_hours of
           None \<Rightarrow> label @ '' mode.'' | Some n \<Rightarrow> label @ '' mode. Interval '' @ show_int n @ ''h.'')"

definition build_rebuild_operation_card :: "snapshot_row \<Rightarrow> operation_card option" where
  "build_rebuild_operation_card s =
     (case sort_key (\<lambda>p. (pdi_enclosure_id p, pdi_slot_id p))
             (filter (\<lambda>p. pdi_state p \<in> set [''Rbld'', ''Rebld'', ''Rebuild'', ''Rebuilding'']) (ps_physical_drives s)) of
        [] \<Rightarrow> None
      | p # _ \<Rightarrow> Some
          \<lparr>oc_name = ''Rebuild'', oc_mode_text = ''Automatic rebuild.'', oc_status_text = ''Running on drive '' @ slot_ref p @ ''.'',
           oc_progress_percent = None, oc_progress_eta_text = None, oc_can_start = False, oc_can_stop = False,
           oc_can_change_mode = False, oc_start_url = None, oc_stop_url = None, oc_mode_url = None, oc_detail_text = None\<rparr>)"

definition patrol_read_card :: "patrol_read_status \<Rightarrow> int option \<Rightarrow> operation_card" where
  "patrol_read_card status interval_hours =
     \<lparr>oc_name = ''Patrol Read'', oc_mode_text = mode_text (pr_mode status) interval_hours,
      oc_status_text = operation_status_text (pr_state status),
      oc_progress_percent = (if pr_is_running status then pr_progress_percent status else None),
      oc_progress_eta_text = (if pr_is_running status then Some ''ETA unknown'' else None),
      oc_can_start = patrol_read_can_start status, oc_can_stop = patrol_read_can_stop status,
      oc_can_change_mode = (py_lower (pr_state status) \<noteq> ''unknown''),
      oc_start_url = Some ''/controller/patrol-read/start'', oc_stop_url = Some ''/controller/patrol-read/stop'',
      oc_mode_url = Some ''/controller/patrol-read/mode'', oc_detail_text = Some (operation_detail_text (pr_last_run status))\<rparr>"

definition consistency_check_card :: "consistency_check_status \<Rightarrow> operation_card" where
  "consistency_check_card status =
     \<lparr>oc_name = ''Consistency Check'', oc_mode_text = mode_text (cc_mode status) None,
      oc_status_text = operation_status_text (cc_state status),
      oc_progress_percent = (if cc_is_running status then cc_progress_percent status else None),
      oc_progress_eta_text = (if cc_is_running status then Some ''ETA unknown'' else None),
      oc_can_start = consistency_check_can_start status, oc_can_stop = consistency_check_can_stop status,
      oc_can_change_mode = (py_lower (cc_state status) \<noteq> ''unknown''),
      oc_start_url = Some ''/controller/consistency-check/start'', oc_stop_url = Some ''/controller/consistency-check/stop'',
      oc_mode_url = Some ''/controller/consistency-check/mode'', oc_detail_text = Some (operation_detail_text (cc_last_run status))\<rparr>"

definition unknown_patrol_read :: patrol_read_status where
  "unknown_patrol_read =
     \<lparr>pr_mode = ''unknown'', pr_state = ''unknown'', pr_progress_percent = None, pr_completed_drive_count = None,
      pr_last_run = None, pr_interval_hours = None, pr_next_start = None\<rparr>"

definition unknown_consistency_check :: consistency_check_status where
  "unknown_consistency_check =
     \<lparr>cc_mode = ''unknown'', cc_state = ''unknown'', cc_progress_percent = None, cc_last_run = None,
      cc_inconsistency_count = None, cc_inconsistency_detail = None\<rparr>"

definition build_live_operations :: "snapshot_row option \<Rightarrow> operation_card list" where
  "build_live_operations snapshot =
     (case snapshot of
        None \<Rightarrow> []
      | Some s \<Rightarrow>
          (case build_rebuild_operation_card s of None \<Rightarrow> [] | Some c \<Rightarrow> [c]) @
          [consistency_check_card (case load_consistency_check_state s of None \<Rightarrow> unknown_consistency_check | Some c \<Rightarrow> c),
           patrol_read_card (case load_patrol_read_state s of None \<Rightarrow> unknown_patrol_read | Some p \<Rightarrow> p)
             (parse_interval_hours (first_hardware_text (JObj (raw_of s)) [''Patrol Read Reoccurrence'']))])"

subsection \<open>CacheVault, arrays and schedules\<close>

record cachevault_detail =
  cd_model :: string
  cd_state :: string
  cd_capacitance_percent :: "int option"
  cd_temperature :: "int option"
  cd_mfg_date :: "(int \<times> int \<times> int) option"
  cd_mfg_date_text :: string
  cd_fw_cache_size_text :: string

definition build_cachevault_detail :: "cache_vault option \<Rightarrow> dict \<Rightarrow> instant \<Rightarrow> cachevault_detail option" where
  "build_cachevault_detail cachevault raw now =
     map_option (\<lambda>cv.
       let mfg_date = parse_date (first_hardware_text (JObj raw) [''MfgDate'', ''Date of Manufacture''])
       in \<lparr>cd_model = cvi_type cv, cd_state = cvi_state cv, cd_capacitance_percent = cvi_capacitance cv,
           cd_temperature = cvi_temperature cv, cd_mfg_date = mfg_date, cd_mfg_date_text = format_manufacture_date mfg_date now,
           cd_fw_cache_size_text = format_size_text
             (first_hardware_text (JObj raw) [''Current Size of FW Cache (MB)'', ''CacheVault Flash Size'']) (Some ''MB'')\<rparr>)
       cachevault"

definition strip_size_text :: "dict \<Rightarrow> int \<Rightarrow> string" where
  "strip_size_text raw vd_id =
     (let inside = (case find_raw_value (JObj raw) (''VD'' @ show_int vd_id @ '' Properties'') of
            Some (JObj properties) \<Rightarrow> first_hardware_text (JObj properties) [''Strip Size''] | _ \<Rightarrow> None);
          specific = first_hardware_text (JObj raw) [''VD'' @ show_int vd_id @ '' Strip Size'']
      in case inside of
           Some v \<Rightarrow> format_size_text (Some v) (Some ''KB'')
         | None \<Rightarrow>
             (case specific of
                Some v \<Rightarrow> format_size_text (Some v) (Some ''KB'')
              | None \<Rightarrow> format_size_text (optional_stripped (dict_get raw ''Strip Size'')) (Some ''KB'')))"

definition vd_state_severity :: "string \<Rightarrow> string" where
  "vd_state_severity state =
     (if state \<in> set [''Optl'', ''Optimal''] then ''optimal''
      else if virtual_drive_state_severity state = Critical then ''critical'' else ''warning'')"

record raid_config_row =
  rc_vd_id :: int
  rc_name :: string
  rc_raid_level :: string
  rc_size_text :: string
  rc_state :: string
  rc_state_severity :: string
  rc_access :: string
  rc_cache_policy :: string
  rc_strip_size_text :: string

definition build_raid_config :: "snapshot_row \<Rightarrow> dict \<Rightarrow> raid_config_row list" where
  "build_raid_config s raw =
     map (\<lambda>v. \<lparr>rc_vd_id = vdi_vd_id v,
               rc_name = (if vdi_name v = [] then ''VD '' @ show_int (vdi_vd_id v) else vdi_name v),
               rc_raid_level = vdi_raid_level v, rc_size_text = format_bytes (vdi_size_bytes v), rc_state = vdi_state v,
               rc_state_severity = vd_state_severity (vdi_state v), rc_access = vdi_access v, rc_cache_policy = vdi_cache v,
               rc_strip_size_text = strip_size_text raw (vdi_vd_id v)\<rparr>)
       (sort_key vdi_vd_id (ps_virtual_drives s))"

definition middle_dot :: string where
  "middle_dot = [char_of (183::nat)]"

definition schedule_text :: "int option \<Rightarrow> instant option \<Rightarrow> string" where
  "schedule_text interval_hours reported_at =
     (if interval_hours = None \<and> reported_at = None then ''Schedule unknown.''
      else
        let text_before = (case interval_hours of
              None \<Rightarrow> ''Interval unknown''
            | Some n \<Rightarrow>
                if n mod 24 = 0 then ''Every '' @ show_int (n div 24) @ '' day'' @ (if n div 24 = 1 then [] else ''s'')
                else ''Every '' @ show_int n @ ''h'')
        in case reported_at of
             None \<Rightarrow> text_before @ '' '' @ middle_dot @ '' Schedule time unknown.''
           | Some t \<Rightarrow> text_before @ '' '' @ middle_dot @ '' Reported schedule: '' @ reported_date t @ '' (controller time).'')"

record scheduled_task =
  sk_name :: string
  sk_schedule_text :: string
  sk_is_enabled :: "bool option"
  sk_configure_url :: "string option"

definition build_scheduled_tasks :: "snapshot_row option \<Rightarrow> dict \<Rightarrow> scheduled_task list" where
  "build_scheduled_tasks snapshot raw =
     (let status = Option.bind snapshot load_patrol_read_state;
          interval = (case Option.bind status pr_interval_hours of
              Some n \<Rightarrow> if n > 0 then Some n
                else parse_interval_hours (first_hardware_text (JObj raw) [''Patrol Read Reoccurrence''])
            | None \<Rightarrow> parse_interval_hours (first_hardware_text (JObj raw) [''Patrol Read Reoccurrence'']));
          next_at = (case Option.bind status pr_next_start of
              Some stamp \<Rightarrow> parse_timestamp (Some stamp)
            | None \<Rightarrow> parse_timestamp (first_hardware_text (JObj raw) [''Next Patrol Read launch'']));
          mode = (case status of None \<Rightarrow> ''unknown'' | Some p \<Rightarrow> py_lower (py_strip (pr_mode p)));
          enabled = map_of [(''auto'', True), (''manual'', False), (''disabled'', False)] mode
      in [\<lparr>sk_name = ''Patrol Read'',
           sk_schedule_text = (if enabled = Some False then ''Automatic scheduling disabled.'' else schedule_text interval next_at),
           sk_is_enabled = enabled, sk_configure_url = Some ''/controller/patrol-read/mode''\<rparr>])"

subsection \<open>Hardware and buzzer\<close>

record hardware_identity =
  hw_model :: string
  hw_serial :: string
  hw_revision :: string
  hw_chip_revision :: string
  hw_manufactured_date_text :: string
  hw_rework_date_text :: string
  hw_firmware_version :: string
  hw_bios_version :: string
  hw_driver_version :: string
  hw_sas_address :: string
  hw_pci_address :: string
  hw_backend_ports :: string
  hw_nvram_size_text :: string
  hw_flash_size_text :: string
  hw_memory_size_text :: string
  hw_fw_cache_size_text :: string
  hw_pending_images_count :: nat
  hw_alarm_buzzer_text :: string

definition snapshot_text :: "snapshot_row option \<Rightarrow> (snapshot_row \<Rightarrow> string) \<Rightarrow> string" where
  "snapshot_text snapshot attribute =
     (case snapshot of None \<Rightarrow> ''N/A'' | Some s \<Rightarrow> if attribute s = [] then ''N/A'' else attribute s)"

definition pending_images_count :: "dict \<Rightarrow> nat" where
  "pending_images_count raw =
     (case find_raw_value (JObj raw) ''Image name'' of
        Some (JArr items) \<Rightarrow> length items
      | v \<Rightarrow> (case optional_stripped v of None \<Rightarrow> 0 | Some s \<Rightarrow> if s \<in> set [''-'', ''None'', ''N/A''] then 0 else 1))"

definition build_hardware_identity :: "snapshot_row option \<Rightarrow> dict \<Rightarrow> hardware_identity" where
  "build_hardware_identity snapshot raw =
     (let shown = hardware_text (JObj raw); sized = (\<lambda>key. format_size_text (first_hardware_text (JObj raw) [key]))
      in \<lparr>hw_model = snapshot_text snapshot sr_model_name, hw_serial = snapshot_text snapshot sr_serial_number,
          hw_revision = shown ''Revision No'', hw_chip_revision = shown ''ChipRevision'',
          hw_manufactured_date_text = shown ''Mfg Date'', hw_rework_date_text = shown ''Rework Date'',
          hw_firmware_version = snapshot_text snapshot sr_firmware_version,
          hw_bios_version = snapshot_text snapshot sr_bios_version,
          hw_driver_version = snapshot_text snapshot sr_driver_version,
          hw_sas_address = shown ''SAS Address'', hw_pci_address = shown ''PCI Address'',
          hw_backend_ports = shown ''Backend Port Count'', hw_nvram_size_text = sized ''NVRAM Size'' None,
          hw_flash_size_text = sized ''Flash Size'' None, hw_memory_size_text = sized ''On Board Memory Size'' None,
          hw_fw_cache_size_text = sized ''Current Size of FW Cache (MB)'' (Some ''MB''),
          hw_pending_images_count = pending_images_count raw,
          hw_alarm_buzzer_text = (case first_hardware_text (JObj raw) [''Alarm''] of
              Some v \<Rightarrow> v | None \<Rightarrow> snapshot_text snapshot ps_alarm_state)\<rparr>)"

record buzzer_control =
  bz_current_setting :: alarm
  bz_can_silence :: bool
  bz_can_disable :: bool
  bz_can_enable :: bool
  bz_silence_url :: string
  bz_disable_url :: string
  bz_enable_url :: string

definition build_buzzer_control_state :: "string option \<Rightarrow> buzzer_control" where
  "build_buzzer_control_state alarm_state =
     (let current = normalize_alarm_state alarm_state
      in \<lparr>bz_current_setting = current, bz_can_silence = (current = AlarmOn),
          bz_can_disable = (current \<in> set [AlarmOn, AlarmSilenced]), bz_can_enable = (current = AlarmOff),
          bz_silence_url = ''/controller/buzzer/silence'', bz_disable_url = ''/controller/buzzer/disable'',
          bz_enable_url = ''/controller/buzzer/enable''\<rparr>)"

subsection \<open>Foreign configuration\<close>

record foreign_state =
  fs_present :: bool
  fs_drive_count :: int
  fs_digest :: string
  fs_source_controller_serial :: "string option"
  fs_description_text :: string
  fs_can_import :: bool
  fs_can_clear :: bool
  fs_import_url :: string
  fs_clear_url :: string
  fs_is_known :: bool

text \<open>\<open>a.get(x) or a.get(y) or a.get(z)\<close>.\<close>

fun get_first_truthy :: "dict \<Rightarrow> string list \<Rightarrow> json option" where
  "get_first_truthy d [] = None"
| "get_first_truthy d [k] = dict_get d k"
| "get_first_truthy d (k # ks) =
     (case dict_get d k of Some v \<Rightarrow> if truthy v then Some v else get_first_truthy d ks | None \<Rightarrow> get_first_truthy d ks)"

definition foreign_mapping :: "dict \<Rightarrow> dict" where
  "foreign_mapping raw =
     (case dict_get raw ''foreign_config_state'' of
        Some (JObj d) \<Rightarrow> d
      | Some _ \<Rightarrow> []
      | None \<Rightarrow> (case dict_get raw ''foreign_config'' of Some (JObj d) \<Rightarrow> d | _ \<Rightarrow> []))"

definition parsed_foreign :: "(dict \<Rightarrow> string) \<Rightarrow> dict \<Rightarrow> fault + foreign_config_info option" where
  "parsed_foreign fingerprint mapping =
     (if dict_get mapping ''present'' = None \<and> mapping \<noteq> [] then
        (case parse_foreign_config fingerprint mapping of
           Inr f \<Rightarrow> Inr (Some f) | Inl (Storcli _) \<Rightarrow> Inr None | Inl (Raised err) \<Rightarrow> Inl (Raised err))
      else Inr None)"

definition build_foreign_config_state :: "(dict \<Rightarrow> string) \<Rightarrow> dict \<Rightarrow> fault + foreign_state" where
  "build_foreign_config_state fingerprint raw =
     (let mapping = foreign_mapping raw
      in bindr (parsed_foreign fingerprint mapping) (\<lambda>parsed.
        let flag = dict_get mapping ''present'';
            known = (parsed \<noteq> None \<or> (case flag of Some (JBool _) \<Rightarrow> True | _ \<Rightarrow> False));
            present = (known \<and> (case parsed of Some f \<Rightarrow> fci_present f
                | None \<Rightarrow> (case flag of Some v \<Rightarrow> flag_value v | None \<Rightarrow> False)));
            drive_count = (case parsed of Some f \<Rightarrow> fci_drive_count f
                | None \<Rightarrow> (case dict_get mapping ''drive_count'' of Some v \<Rightarrow> int_or_zero v | None \<Rightarrow> 0));
            digest = (case parsed of Some f \<Rightarrow> fci_digest f
                | None \<Rightarrow> (case optional_stripped (dict_get mapping ''digest'') of Some x \<Rightarrow> x | None \<Rightarrow> []))
        in Inr \<lparr>fs_present = present, fs_drive_count = drive_count, fs_digest = digest,
                fs_source_controller_serial = optional_stripped
                  (get_first_truthy mapping [''source_controller_serial'', ''source_serial'', ''controller_serial'']),
                fs_description_text =
                  (if present then ''Foreign configuration detected on '' @ show_int drive_count @ '' drive(s).''
                   else if known then ''No foreign configuration detected.'' else ''Foreign configuration status unknown.''),
                fs_can_import = present, fs_can_clear = present,
                fs_import_url = ''/controller/foreign-config/import'', fs_clear_url = ''/controller/foreign-config/clear'',
                fs_is_known = known\<rparr>))"

subsection \<open>The page\<close>

record controller_detail =
  cp_page_title :: string
  cp_page_subtitle :: string
  cp_health :: controller_health_view
  cp_live_operations :: "operation_card list"
  cp_cachevault :: "cachevault_detail option"
  cp_roc_history_chart_url :: string
  cp_raid_config :: "raid_config_row list"
  cp_scheduled_tasks :: "scheduled_task list"
  cp_hardware :: hardware_identity
  cp_buzzer :: buzzer_control
  cp_foreign_config :: foreign_state
  cp_system_health :: system_health
  cp_updated_at :: instant
  cp_auto_refresh_seconds :: int
  cp_observed_at :: "instant option"

definition page_subtitle :: "snapshot_row option \<Rightarrow> string" where
  "page_subtitle snapshot =
     (case snapshot of
        None \<Rightarrow> ''Waiting for first controller snapshot.''
      | Some s \<Rightarrow> ''SN '' @ sr_serial_number s @ ''. Observed '' @ long_date (civil (sr_captured_at s)) @ '' '' @
                  clock_text (sr_captured_at s) @ '' UTC.'')"

definition load_controller_detail ::
  "(dict \<Rightarrow> string) \<Rightarrow> settings \<Rightarrow> page_env \<Rightarrow> instant \<Rightarrow> string \<Rightarrow> db \<Rightarrow> instant \<Rightarrow> fault + controller_detail" where
  "load_controller_detail fingerprint st env started roc_url d now =
     (let snapshot = get_latest_snapshot d; raw = (case snapshot of None \<Rightarrow> [] | Some s \<Rightarrow> raw_of s)
      in bindr (build_foreign_config_state fingerprint raw) (\<lambda>foreign.
         bindr (case load_system_health env now of Inl err \<Rightarrow> Inl (Raised err) | Inr x \<Rightarrow> Inr x) (\<lambda>system.
           Inr \<lparr>cp_page_title = ''Controller'', cp_page_subtitle = page_subtitle snapshot,
                cp_health = build_health_snapshot d snapshot st started now,
                cp_live_operations = build_live_operations snapshot,
                cp_cachevault = Option.bind snapshot (\<lambda>s. build_cachevault_detail (ps_cachevault s) raw now),
                cp_roc_history_chart_url = roc_url,
                cp_raid_config = (case snapshot of None \<Rightarrow> [] | Some s \<Rightarrow> build_raid_config s raw),
                cp_scheduled_tasks = build_scheduled_tasks snapshot raw,
                cp_hardware = build_hardware_identity snapshot raw,
                cp_buzzer = build_buzzer_control_state (map_option ps_alarm_state snapshot),
                cp_foreign_config = foreign, cp_system_health = system, cp_updated_at = now,
                cp_auto_refresh_seconds = 30, cp_observed_at = map_option sr_captured_at snapshot\<rparr>)))"

end
