(* ===== verification/DriveDetail.thy ===== *)
theory DriveDetail
  imports Overview
begin

section \<open>The page of a drive\<close>

text \<open>
  \<open>services/drive_detail.py\<close>: health, error counters by day, position, identity, buttons and the state of the
  replacement wizard.

  \<^item> The stored rows of drives have no columns for the extra texts (\<open>getattr\<close> with a default finds none of them).
  \<^item> \<open>LIKE\<close> of SQLite ignores the case of ASCII letters.
\<close>

subsection \<open>Error counters by day\<close>

record daily_errors =
  da_media :: int
  da_other :: int
  da_bbm :: int
  da_shield :: int

definition daily_total :: "daily_errors \<Rightarrow> int" where
  "daily_total e = da_media e + da_other e + da_bbm e + da_shield e"

record sparkline_point =
  sp_day :: int
  sp_total_count :: int
  sp_incremental_delta :: int

record error_sparkline =
  es_current_total :: int
  es_latest :: daily_errors
  es_points :: "sparkline_point list"
  es_meta_text :: string

definition no_errors :: daily_errors where
  "no_errors = \<lparr>da_media = 0, da_other = 0, da_bbm = 0, da_shield = 0\<rparr>"

definition serial_samples :: "db \<Rightarrow> string \<Rightarrow> (snapshot_row \<times> physical_drive_info) list" where
  "serial_samples d serial =
     map snd (sort_key (\<lambda>(i, s, p). (sr_captured_at s, i)) (filter (\<lambda>(i, s, p). pdi_serial_number p = serial) (drive_samples d)))"

definition day_of :: "instant \<Rightarrow> int" where
  "day_of t = t div days 1"

text \<open>The last sample of each day, in the order of time.\<close>

definition latest_by_day :: "(snapshot_row \<times> physical_drive_info) list \<Rightarrow> int \<Rightarrow> daily_errors option" where
  "latest_by_day samples day =
     (case rev (filter (\<lambda>(s, p). day_of (sr_captured_at s) = day) samples) of
        [] \<Rightarrow> None
      | (s, p) # _ \<Rightarrow> Some \<lparr>da_media = pdi_media_errors p, da_other = pdi_other_errors p, da_bbm = 0,
                           da_shield = pdi_predictive_failures p\<rparr>)"

fun sparkline_from :: "(int \<Rightarrow> daily_errors option) \<Rightarrow> daily_errors \<Rightarrow> int \<Rightarrow> int list \<Rightarrow> sparkline_point list \<times> daily_errors" where
  "sparkline_from at_day latest previous_total [] = ([], latest)"
| "sparkline_from at_day latest previous_total (day # rest) =
     (let now_latest = (case at_day day of None \<Rightarrow> latest | Some e \<Rightarrow> e);
          point = \<lparr>sp_day = day, sp_total_count = daily_total now_latest,
                   sp_incremental_delta = max 0 (daily_total now_latest - previous_total)\<rparr>;
          (points, final) = sparkline_from at_day now_latest (daily_total now_latest) rest
      in (point # points, final))"

definition load_error_sparkline :: "db \<Rightarrow> string \<Rightarrow> int \<Rightarrow> int \<Rightarrow> py_error + error_sparkline" where
  "load_error_sparkline d serial range_days today =
     (if range_days \<le> 0 then Inl ValueError
      else
        let samples = serial_samples d serial;
            end_day = (if samples = [] then today else day_of (sr_captured_at (fst (last samples))));
            start_day = end_day - (range_days - 1);
            inside = filter (\<lambda>(s, p). days start_day \<le> sr_captured_at s \<and> sr_captured_at s < days (end_day + 1)) samples;
            (points, latest) = sparkline_from (latest_by_day inside) no_errors 0 [start_day..end_day]
        in Inr \<lparr>es_current_total = daily_total latest, es_latest = latest, es_points = points,
                es_meta_text = ''Media '' @ show_int (da_media latest) @ '' / Other '' @ show_int (da_other latest) @
                  '' / BBM '' @ show_int (da_bbm latest) @ '' / Shield '' @ show_int (da_shield latest)\<rparr>)"

subsection \<open>Position\<close>

record backplane_slot =
  bp_slot_label :: string
  bp_enclosure_id :: int
  bp_slot_id :: int
  bp_is_this :: bool
  bp_severity :: string
  bp_detail_url :: string

definition drive_url :: "int \<Rightarrow> int \<Rightarrow> string" where
  "drive_url e k = ''/drives/'' @ show_int e @ '':'' @ show_int k"

definition backplane_slot_severity :: "physical_drive_info option \<Rightarrow> settings \<Rightarrow> string" where
  "backplane_slot_severity drive st =
     (case drive of
        None \<Rightarrow> ''neutral''
      | Some p \<Rightarrow> compute_drive_tile_severity p (st_temp_warning_celsius st) (st_temp_critical_celsius st))"

text \<open>A dictionary of the drives of the enclosure by slot: the last of a slot counts.\<close>

definition load_backplane_layout :: "db \<Rightarrow> int \<Rightarrow> int \<Rightarrow> settings \<Rightarrow> backplane_slot list" where
  "load_backplane_layout d this_enclosure this_slot st =
     (let drives = (case get_latest_snapshot d of None \<Rightarrow> [] | Some s \<Rightarrow> ps_physical_drives s);
          by_slot = map_of (rev (map (\<lambda>p. (pdi_slot_id p, p)) (filter (\<lambda>p. pdi_enclosure_id p = this_enclosure) drives)))
      in map (\<lambda>k. \<lparr>bp_slot_label = physical_slot_label k, bp_enclosure_id = this_enclosure, bp_slot_id = k,
                   bp_is_this = (k = this_slot), bp_severity = backplane_slot_severity (by_slot k) st,
                   bp_detail_url = drive_url this_enclosure k\<rparr>) controller_slots_in_physical_order)"

definition position_of :: "(physical_drive_info \<Rightarrow> bool) \<Rightarrow> physical_drive_info list \<Rightarrow> nat option" where
  "position_of P ps = (let n = length (takeWhile (\<lambda>p. \<not> P p) ps) in if n < length ps then Some n else None)"

definition neighbor_drive_url :: "physical_drive_info list \<Rightarrow> physical_drive_info \<Rightarrow> int \<Rightarrow> string option" where
  "neighbor_drive_url drives current offset =
     (let sorted_drives = in_position_order drives
      in case position_of (\<lambda>p. pdi_enclosure_id p = pdi_enclosure_id current \<and> pdi_slot_id p = pdi_slot_id current) sorted_drives of
           None \<Rightarrow> None
         | Some i \<Rightarrow>
             (let n = int i + offset
              in if n < 0 \<or> n \<ge> int (length sorted_drives) then None
                 else let p = sorted_drives ! nat n in Some (drive_url (pdi_enclosure_id p) (pdi_slot_id p))))"

definition state_subtitle :: "physical_drive_info \<Rightarrow> snapshot_row \<Rightarrow> string" where
  "state_subtitle p s =
     (case pdi_disk_group_id p of
        None \<Rightarrow> ''Unconfigured drive.''
      | Some dg \<Rightarrow>
          (case sort_key vdi_vd_id (ps_virtual_drives s) of
             [] \<Rightarrow> ''Member of VD unknown. Unknown RAID. DG '' @ show_int dg @ ''.''
           | v # _ \<Rightarrow> ''Member of VD '' @ show_int (vdi_vd_id v) @ ''. '' @ vdi_raid_level v @ ''. DG '' @ show_int dg @ ''.''))"

text \<open>\<open>DriveGroup:(\d+),\s*Span:(\d+),\s*Row:(\d+)\<close>.\<close>

definition labelled_number :: "string \<Rightarrow> string \<Rightarrow> (int \<times> string) option" where
  "labelled_number label s =
     (if starts_with label s then
        let rest = drop (length label) s; digits = takeWhile is_digit rest
        in if digits = [] then None else Some (int (read_nat digits), dropWhile is_digit rest)
      else None)"

definition after_comma :: "string \<Rightarrow> string option" where
  "after_comma s = (case s of [] \<Rightarrow> None | c # cs \<Rightarrow> if c = CHR '','' then Some (py_lstrip cs) else None)"

definition drive_position_numbers :: "string \<Rightarrow> (int \<times> int \<times> int) option" where
  "drive_position_numbers s =
     Option.bind (labelled_number ''DriveGroup:'' s) (\<lambda>(dg, s1).
     Option.bind (after_comma s1) (\<lambda>s2.
     Option.bind (labelled_number ''Span:'' s2) (\<lambda>(spn, s3).
     Option.bind (after_comma s3) (\<lambda>s4.
     Option.bind (labelled_number ''Row:'' s4) (\<lambda>(row, s5).
       if s5 = [] then Some (dg, spn, row) else None)))))"

definition json_member :: "string \<Rightarrow> json \<Rightarrow> json option" where
  "json_member k v = (case v of JObj d \<Rightarrow> dict_get d k | _ \<Rightarrow> None)"

text \<open>Equality of a value with an integer, the way Python compares.\<close>

fun equals_int :: "json \<Rightarrow> int \<Rightarrow> bool" where
  "equals_int (JInt n) i = (n = i)"
| "equals_int (JBool b) i = ((if b then 1 else 0) = i)"
| "equals_int (JFloat q _) i = (q = rat_of_int i)"
| "equals_int _ i = False"

definition observed_position :: "physical_drive_info \<Rightarrow> snapshot_row \<Rightarrow> (int \<times> int \<times> int) option" where
  "observed_position p s =
     (let raw = (case sr_raw_json s of None \<Rightarrow> [] | Some r \<Rightarrow> r);
          payload = (case dict_get raw ''physical_drive_positions'' of
              Some v \<Rightarrow> v | None \<Rightarrow> (case dict_get raw ''physical_drives'' of Some v \<Rightarrow> v | None \<Rightarrow> JObj []));
          key = ''Drive '' @ drive_path (pdi_enclosure_id p) (pdi_slot_id p)
      in Option.bind (json_member ''Controllers'' payload) (\<lambda>controllers.
         case controllers of
           JArr [controller] \<Rightarrow>
             Option.bind (json_member ''Response Data'' controller) (\<lambda>response.
             Option.bind (json_member key response) (\<lambda>rows.
             case rows of
               JArr [summary] \<Rightarrow>
                 Option.bind (json_member (key @ '' - Detailed Information'') response) (\<lambda>detail.
                 Option.bind (Option.bind (json_member (key @ '' Device attributes'') detail) (json_member ''SN'')) (\<lambda>serial.
                 Option.bind (Option.bind (json_member (key @ '' Policies/Settings'') detail) (json_member ''Drive position'')) (\<lambda>position.
                 Option.bind (json_member ''EID:Slt'' summary) (\<lambda>eid_slot.
                 Option.bind (json_member ''DID'' summary) (\<lambda>did.
                 case (serial, position) of
                   (JStr sn, JStr written) \<Rightarrow>
                     (if py_strip sn \<noteq> pdi_serial_number p \<or> eid_slot \<noteq> JStr (slot_ref p) \<or> \<not> equals_int did (pdi_device_id p)
                      then None
                      else case drive_position_numbers written of
                        Some (dg, spn, row) \<Rightarrow> if Some dg = pdi_disk_group_id p then Some (dg, spn, row) else None
                      | None \<Rightarrow> None)
                 | _ \<Rightarrow> None)))))
             | _ \<Rightarrow> None))
         | _ \<Rightarrow> None))"

definition dg_span_row_text :: "physical_drive_info \<Rightarrow> snapshot_row \<Rightarrow> string" where
  "dg_span_row_text p s =
     (case observed_position p s of
        None \<Rightarrow> ''N/A''
      | Some (dg, spn, row) \<Rightarrow> show_int dg @ '' : '' @ show_int spn @ '' : '' @ show_int row)"

subsection \<open>Health\<close>

record drive_health_view =
  dw_state :: string
  dw_state_severity :: string
  dw_state_subtitle :: string
  dw_summary_text :: string
  dw_temperature :: "int option"
  dw_temperature_severity :: string
  dw_smart_status :: string
  dw_smart_severity :: string
  dw_predictive_failure_count :: int
  dw_can_locate_start :: bool
  dw_can_locate_stop :: bool
  dw_locate_last_action :: "string option"
  dw_locate_start_url :: string
  dw_locate_stop_url :: string
  dw_health_label :: string

definition latest_by_occurrence :: "(event_row \<Rightarrow> bool) \<Rightarrow> db \<Rightarrow> event_row option" where
  "latest_by_occurrence P d = best_by newest_key (filter P (db_events d))"

definition locate_summary :: "string \<Rightarrow> physical_drive_info \<Rightarrow> string" where
  "locate_summary action p = ''locate '' @ action @ '' drive '' @ slot_ref p @ '' succeeded''"

definition latest_locate_action :: "db \<Rightarrow> physical_drive_info \<Rightarrow> string option" where
  "latest_locate_action d p =
     map_option (\<lambda>e. if str_in ''locate start'' (ev_summary e) then ''start'' else ''stop'')
       (latest_by_occurrence (\<lambda>e. ev_category e = ''operator_action'' \<and>
          ev_summary e \<in> set [locate_summary ''start'' p, locate_summary ''stop'' p]) d)"

definition build_drive_health :: "db \<Rightarrow> physical_drive_info \<Rightarrow> snapshot_row \<Rightarrow> settings \<Rightarrow> drive_health_view" where
  "build_drive_health d p s st =
     (let temperature = temperature_severity (pdi_temperature p) (st_temp_warning_celsius st) (st_temp_critical_celsius st);
          health = assess_drive_health p temperature; last_action = latest_locate_action d p
      in \<lparr>dw_state = py_upper (pdi_state p), dw_state_severity = dh_severity health, dw_state_subtitle = state_subtitle p s,
          dw_summary_text = dh_summary health, dw_temperature = pdi_temperature p, dw_temperature_severity = temperature,
          dw_smart_status = (if pdi_smart_alert p then ''ALERT'' else ''OK''),
          dw_smart_severity = (if pdi_smart_alert p then ''critical'' else ''optimal''),
          dw_predictive_failure_count = pdi_predictive_failures p,
          dw_can_locate_start = (last_action \<noteq> Some ''start''), dw_can_locate_stop = True,
          dw_locate_last_action = last_action,
          dw_locate_start_url = drive_url (pdi_enclosure_id p) (pdi_slot_id p) @ ''/locate/start'',
          dw_locate_stop_url = drive_url (pdi_enclosure_id p) (pdi_slot_id p) @ ''/locate/stop'',
          dw_health_label = dh_label health\<rparr>)"

subsection \<open>Identity and connection\<close>

definition drive_attribute :: "physical_drive_info \<Rightarrow> string \<Rightarrow> string option" where
  "drive_attribute p name = None"

definition drive_extra_text :: "physical_drive_info \<Rightarrow> string \<Rightarrow> string \<Rightarrow> string" where
  "drive_extra_text p name fallback =
     (case drive_attribute p name of
        None \<Rightarrow> fallback | Some v \<Rightarrow> if py_strip v = [] then fallback else py_strip v)"

definition manufacturer_text :: "string \<Rightarrow> string" where
  "manufacturer_text interface =
     (let normalized = py_upper interface
      in if normalized = ''SATA'' then ''ATA (SATA)'' else if normalized = ''SAS'' then ''SAS'' else interface)"

record drive_identity =
  di_model :: string
  di_serial_number :: string
  di_manufacturer_text :: string
  di_firmware_revision :: string
  di_wwn :: string
  di_media_type :: string
  di_raw_size_text :: string
  di_coerced_size_text :: string
  di_logical_sector_size_text :: string

definition build_identity :: "physical_drive_info \<Rightarrow> drive_identity" where
  "build_identity p =
     \<lparr>di_model = pdi_model p, di_serial_number = pdi_serial_number p, di_manufacturer_text = manufacturer_text (pdi_interface p),
      di_firmware_revision = pdi_firmware_version p, di_wwn = drive_extra_text p ''wwn'' ''Unknown'',
      di_media_type = pdi_media_type p,
      di_raw_size_text = drive_extra_text p ''raw_size_text'' (format_tb (pdi_size_bytes p)),
      di_coerced_size_text = drive_extra_text p ''coerced_size_text'' (format_tb (pdi_size_bytes p)),
      di_logical_sector_size_text = drive_extra_text p ''logical_sector_size_text'' ''Unknown''\<rparr>"

definition speed_value :: "string \<Rightarrow> rat" where
  "speed_value s =
     (if s = ''Unknown'' then 0
      else case mantissa_of (filter (\<lambda>c. is_digit c \<or> c = CHR ''.'') s) of None \<Rightarrow> 0 | Some q \<Rightarrow> q)"

record drive_connection =
  dn_interface_text :: string
  dn_device_speed_text :: string
  dn_link_speed_text :: string
  dn_link_speed_is_degraded :: bool
  dn_ncq_enabled_text :: string
  dn_sas_address :: string
  dn_connector_text :: string
  dn_sequence_number :: string
  dn_wide_port_text :: string

definition build_connection :: "physical_drive_info \<Rightarrow> drive_connection" where
  "build_connection p =
     (let device_speed = drive_extra_text p ''device_speed_text'' ''Unknown'';
          link_speed = drive_extra_text p ''link_speed_text'' device_speed
      in \<lparr>dn_interface_text = (if device_speed = ''Unknown'' then pdi_interface p else pdi_interface p @ '' '' @ device_speed),
          dn_device_speed_text = device_speed, dn_link_speed_text = link_speed,
          dn_link_speed_is_degraded = (speed_value link_speed < speed_value device_speed),
          dn_ncq_enabled_text = drive_extra_text p ''ncq_enabled_text'' ''Unknown'', dn_sas_address = pdi_sas_address p,
          dn_connector_text = drive_extra_text p ''connector_text'' ''Unknown'',
          dn_sequence_number = drive_extra_text p ''sequence_number'' ''Unknown'',
          dn_wide_port_text = drive_extra_text p ''wide_port_text'' ''Unknown''\<rparr>)"

definition port_text :: "physical_drive_info \<Rightarrow> string" where
  "port_text p =
     drive_extra_text p ''connector_text'' ''Port unknown'' @ '' (device '' @ show_int (pdi_device_id p) @ '')''"

subsection \<open>Buttons\<close>

record action_button =
  ab_label :: string
  ab_url :: string
  ab_is_destructive :: bool
  ab_is_enabled :: bool
  ab_disabled_reason :: "string option"

definition action_button_of :: "string \<Rightarrow> string \<Rightarrow> bool \<Rightarrow> bool \<Rightarrow> string \<Rightarrow> action_button" where
  "action_button_of label url destructive enabled reason =
     \<lparr>ab_label = label, ab_url = url, ab_is_destructive = destructive, ab_is_enabled = enabled,
      ab_disabled_reason = (if enabled then None else Some reason)\<rparr>"

definition advanced_actions :: "physical_drive_info \<Rightarrow> action_button list" where
  "advanced_actions p =
     (let state = pdi_state p; url = (\<lambda>tail. drive_url (pdi_enclosure_id p) (pdi_slot_id p) @ ''/actions/'' @ tail)
      in [action_button_of ''Mark as UBad'' (url ''mark-ubad'') True False
            ''Unavailable: StorCLI 1.23.02 does not document set bad. Review read-only help; no command is guessed.'',
          action_button_of ''Mark as UGood'' (url ''mark-ugood'') False (state = ''UBad'')
            ''Drive state does not allow Mark as UGood.'',
          action_button_of ''Spin Down'' (url ''spindown'') False (state \<in> set [''UGood'', ''UBad''])
            ''Only unconfigured UGood or UBad drives can be spun down. Refresh drive state.'',
          action_button_of ''Hot Spare'' (url ''hotspare'') False (state = ''UGood'')
            ''Only UGood drives can become hot spares.''])"

subsection \<open>The replacement wizard\<close>

definition step_of_category :: "string \<Rightarrow> int option" where
  "step_of_category c = map_of
     [(''drive_replace_begin'', 1), (''drive_replace_offline'', 2), (''drive_replace_missing'', 2),
      (''drive_replace_insert_pending'', 3)] c"

text \<open>\<open>LIKE '%a%b%'\<close> as the leftmost \<open>a\<close> followed by \<open>b\<close>.\<close>

fun after_first :: "string \<Rightarrow> string \<Rightarrow> string option" where
  "after_first p [] = (if p = [] then Some [] else None)"
| "after_first p (c # cs) = (if starts_with p (c # cs) then Some (drop (length p) (c # cs)) else after_first p cs)"

definition like_both :: "string \<Rightarrow> string \<Rightarrow> string \<Rightarrow> bool" where
  "like_both a b s = (case after_first (py_lower a) (py_lower s) of None \<Rightarrow> False | Some rest \<Rightarrow> str_in (py_lower b) rest)"

definition replace_event_of :: "physical_drive_info \<Rightarrow> event_row \<Rightarrow> bool" where
  "replace_event_of p e \<longleftrightarrow> step_of_category (ev_category e) \<noteq> None \<or>
     (ev_category e = ''operator_action'' \<and> like_both ''replace step'' (''drive '' @ slot_ref p) (ev_summary e))"

definition latest_replace_step :: "db \<Rightarrow> physical_drive_info \<Rightarrow> int option" where
  "latest_replace_step d p =
     (case latest_by_occurrence (replace_event_of p) d of
        None \<Rightarrow> None
      | Some e \<Rightarrow>
          if ev_category e = ''drive_replace_completed'' \<or> str_in ''replace step insert'' (ev_summary e) then None
          else case step_of_category (ev_category e) of
            Some n \<Rightarrow> Some n
          | None \<Rightarrow> if str_in ''replace step missing'' (ev_summary e) \<or> str_in ''replace step offline'' (ev_summary e)
                    then Some 2 else None)"

record replace_wizard =
  wz_can_begin :: bool
  wz_current_step :: "int option"
  wz_begin_url :: string
  wz_resume_url :: "string option"

definition replace_wizard_state :: "db \<Rightarrow> physical_drive_info \<Rightarrow> replace_wizard" where
  "replace_wizard_state d p =
     (let step = latest_replace_step d p; url = (\<lambda>tail. drive_url (pdi_enclosure_id p) (pdi_slot_id p) @ ''/replace/'' @ tail)
      in \<lparr>wz_can_begin = (step = None), wz_current_step = step, wz_begin_url = url ''offline'',
          wz_resume_url = (if step = None then None else Some (url ''resume''))\<rparr>)"

subsection \<open>The page\<close>

record physical_position =
  pp_enclosure :: int
  pp_slot :: int
  pp_disk_group_id :: "int option"
  pp_dg_span_row_text :: string
  pp_port_text :: string
  pp_backplane_layout :: "backplane_slot list"
  pp_physical_slot_label :: string

record drive_page =
  dg_page_title :: string
  dg_page_subtitle :: string
  dg_prev_drive_url :: "string option"
  dg_next_drive_url :: "string option"
  dg_health :: drive_health_view
  dg_error_sparkline :: error_sparkline
  dg_position :: physical_position
  dg_temperature_chart :: drive_series
  dg_identity :: drive_identity
  dg_connection :: drive_connection
  dg_advanced_actions :: "action_button list"
  dg_replace :: replace_wizard
  dg_system_health :: system_health
  dg_updated_at :: instant
  dg_auto_refresh_seconds :: int

definition load_drive_page ::
  "db \<Rightarrow> int \<Rightarrow> int \<Rightarrow> settings \<Rightarrow> page_env \<Rightarrow> int \<Rightarrow> instant \<Rightarrow> page_fault + drive_page" where
  "load_drive_page d e k st env range_days now =
     (if range_days \<le> 0 then Inl (Page_crashed ValueError)
      else case get_latest_snapshot d of
        None \<Rightarrow> Inl (Page_refused 404 [])
      | Some s \<Rightarrow>
          (case find_physical_drive s e k of
             None \<Rightarrow> Inl (Page_refused 404 [])
           | Some p \<Rightarrow>
               bindr (or_crash (load_error_sparkline d (pdi_serial_number p) range_days (day_of now))) (\<lambda>sparkline.
               bindr (or_crash (load_drive_temperature_series d e k (pdi_serial_number p) range_days (Aware (sr_captured_at s)))) (\<lambda>chart.
               bindr (or_crash (load_system_health env now)) (\<lambda>system.
                 Inr \<lparr>dg_page_title = physical_slot_label (pdi_slot_id p) @ '' '' @ [char_of (183::nat)] @ '' Slot '' @ slot_ref p,
                      dg_page_subtitle = pdi_model p @ '' / '' @ pdi_serial_number p,
                      dg_prev_drive_url = neighbor_drive_url (ps_physical_drives s) p (- 1),
                      dg_next_drive_url = neighbor_drive_url (ps_physical_drives s) p 1,
                      dg_health = build_drive_health d p s st, dg_error_sparkline = sparkline,
                      dg_position = \<lparr>pp_enclosure = pdi_enclosure_id p, pp_slot = pdi_slot_id p,
                        pp_disk_group_id = pdi_disk_group_id p, pp_dg_span_row_text = dg_span_row_text p s,
                        pp_port_text = port_text p, pp_backplane_layout = load_backplane_layout d e k st,
                        pp_physical_slot_label = physical_slot_label (pdi_slot_id p)\<rparr>,
                      dg_temperature_chart = chart, dg_identity = build_identity p, dg_connection = build_connection p,
                      dg_advanced_actions = advanced_actions p, dg_replace = replace_wizard_state d p,
                      dg_system_health = system, dg_updated_at = sr_captured_at s, dg_auto_refresh_seconds = 30\<rparr>)))))"

end
