(* ===== verification/ActionGates.thy ===== *)
theory ActionGates
  imports CommandSafety Operations
begin

section \<open>Gates of the drive actions\<close>

text \<open>
  The audit messages of the replacement steps (\<open>web/routes.py\<close>) and what the gates of
  \<open>services/drive_actions.py\<close> conclude from them and from operation status.
\<close>

definition audit_detail_max :: nat where
  "audit_detail_max = 200"

text \<open>The ellipsis character is one code outside ASCII; here it is code 133.\<close>

definition truncate_audit_detail :: "string \<Rightarrow> string" where
  "truncate_audit_detail s =
     (let collapsed = join_with '' '' (py_words s)
      in if length collapsed \<le> audit_detail_max then collapsed
         else take (audit_detail_max - 1) collapsed @ [CHR 0x85])"

definition replace_audit_message :: "string \<Rightarrow> int \<Rightarrow> int \<Rightarrow> string \<Rightarrow> string \<Rightarrow> string" where
  "replace_audit_message step e s serial outcome =
     ''replace step '' @ step @ '' drive '' @ show_int e @ '':'' @ show_int s @ '' serial '' @ serial @ '' '' @ outcome"

definition failure_outcome :: "string \<Rightarrow> string \<Rightarrow> string" where
  "failure_outcome cls detail = ''failed: '' @ cls @ '': '' @ truncate_audit_detail detail"

subsection \<open>The gate of the insert step\<close>

lemma split_on_append_char: "split_on d (w @ d # s) = split_on d w @ split_on d s"
  by (induction w) (auto split: list.splits)

lemma split_on_singleton: "split_on d s = [w] \<Longrightarrow> s = w \<and> d \<notin> set w"
proof -
  assume a: "split_on d s = [w]"
  have "d \<notin> set s"
  proof
    assume "d \<in> set s"
    then obtain u v where "s = u @ d # v" by (auto dest: split_list)
    moreover have "1 \<le> length (split_on d w)" for w by (cases "split_on d w") simp_all
    note this [of u] this [of v]
    ultimately have "2 \<le> length (split_on d s)" by (simp add: split_on_append_char)
    with a show False by simp
  qed
  with a split_on_no_sep [of d s] show ?thesis by simp
qed

lemma show_int_no_blank: "CHR '' '' \<notin> set (show_int i)"
  using digits_no_blank [OF show_nat_digits] by (simp add: show_int_def)

lemma step3_tokens: "pat_tokens step_missing_success =
    [[Lit ''replace''], [Lit ''step''], [Lit ''missing''], [Lit ''drive''], [Lit [], Num, Lit '':'', Num, Lit []],
     [Lit ''serial''], [Lit [], Graph, Lit []], [Lit ''succeeded'']]"
  by code_simp

lemma replace_message_tokens:
  assumes "CHR '' '' \<notin> set step"
  shows "split_on CHR '' '' (replace_audit_message step e s serial outcome) =
    [''replace'', ''step'', step, ''drive'', show_int e @ '':'' @ show_int s, ''serial''] @
      split_on CHR '' '' serial @ split_on CHR '' '' outcome"
proof -
  have "replace_audit_message step e s serial outcome =
      ''replace'' @ CHR '' '' # ''step'' @ CHR '' '' # step @ CHR '' '' # ''drive'' @ CHR '' '' #
      (show_int e @ '':'' @ show_int s) @ CHR '' '' # ''serial'' @ CHR '' '' # serial @ CHR '' '' # outcome"
    by (simp add: replace_audit_message_def)
  moreover have "CHR '' '' \<notin> set (show_int e @ '':'' @ show_int s)" using show_int_no_blank by simp
  ultimately show ?thesis using assms
    by (simp only: split_on_append_char) (simp add: split_on_no_sep)
qed

lemma gate_message:
  assumes "0 \<le> e" "0 \<le> s" "serial \<noteq> []" "\<forall>c \<in> set serial. \<not> is_space c"
  shows "full_match step_missing_success (replace_audit_message ''missing'' e s serial ''succeeded'')"
proof -
  have "''replace step missing drive '' @ show_nat (nat e) @ '':'' @ show_nat (nat s) @ '' serial '' @ serial @ '' succeeded'' @ []
      \<in> pieces_lang step_missing_success"
    unfolding step_missing_success_def using assms(3,4)
    by (intro in_lit in_num in_end) (auto intro!: exI [of _ serial] exI [of _ "'' succeeded''"])
  then show ?thesis using assms(1,2)
    by (simp add: full_match_iff replace_audit_message_def show_int_nonneg)
qed

text \<open>The insert step's gate reads the last audit line of the slot. For a line the replacement audit
  writes, it opens exactly when the step is missing, the outcome is succeeded, and the serial is
  one non-empty word: no error text appended after failed can open it, whatever the text says.\<close>

theorem insert_gate_exact:
  assumes "0 \<le> e" "0 \<le> s" "step \<in> {''offline'', ''missing'', ''insert''}"
  shows "can_transition_step3 (Some (replace_audit_message step e s serial outcome)) \<longleftrightarrow>
    step = ''missing'' \<and> outcome = ''succeeded'' \<and> serial \<noteq> [] \<and> (\<forall>c \<in> set serial. \<not> is_space c)"
proof
  assume "can_transition_step3 (Some (replace_audit_message step e s serial outcome))"
  then have "replace_audit_message step e s serial outcome \<in> pieces_lang step_missing_success"
    by (simp add: can_transition_step3_def full_match_iff)
  moreover have "\<forall>p \<in> set step_missing_success. solid p" by (simp add: step_missing_success_def)
  ultimately have "list_all2 (\<lambda>w q. w \<in> pieces_lang q)
      (split_on CHR '' '' (replace_audit_message step e s serial outcome)) (pat_tokens step_missing_success)"
    by (rule pat_tokens_correct)
  moreover have nb: "CHR '' '' \<notin> set step" using assms(3) by auto
  ultimately have all2: "list_all2 (\<lambda>w q. w \<in> pieces_lang q)
      ([''replace'', ''step'', step, ''drive'', show_int e @ '':'' @ show_int s, ''serial''] @
        split_on CHR '' '' serial @ split_on CHR '' '' outcome)
      [[Lit ''replace''], [Lit ''step''], [Lit ''missing''], [Lit ''drive''], [Lit [], Num, Lit '':'', Num, Lit []],
       [Lit ''serial''], [Lit [], Graph, Lit []], [Lit ''succeeded'']]"
    by (simp only: replace_message_tokens [OF nb] step3_tokens)
  then have step: "step = ''missing''" by simp
  from all2 have rest: "list_all2 (\<lambda>w q. w \<in> pieces_lang q) (split_on CHR '' '' serial @ split_on CHR '' '' outcome)
      [[Lit [], Graph, Lit []], [Lit ''succeeded'']]" by simp
  then have "length (split_on CHR '' '' serial) + length (split_on CHR '' '' outcome) = 2"
    by (auto dest: list_all2_lengthD)
  then obtain v w where v: "split_on CHR '' '' serial = [v]" and w: "split_on CHR '' '' outcome = [w]"
    using split_on_not_nil [of "CHR '' ''" serial] split_on_not_nil [of "CHR '' ''" outcome]
    by (cases "split_on CHR '' '' serial"; cases "split_on CHR '' '' outcome") (auto simp: length_Suc_conv)
  have "serial = v" "outcome = w" using split_on_singleton v w by blast+
  moreover have "v \<in> pieces_lang [Lit [], Graph, Lit []]" "w = ''succeeded''" using rest v w by simp_all
  moreover have "v \<noteq> [] \<and> (\<forall>c \<in> set v. \<not> is_space c)" using \<open>v \<in> pieces_lang [Lit [], Graph, Lit []]\<close> by auto
  ultimately show "step = ''missing'' \<and> outcome = ''succeeded'' \<and> serial \<noteq> [] \<and> (\<forall>c \<in> set serial. \<not> is_space c)"
    using step by simp
next
  assume "step = ''missing'' \<and> outcome = ''succeeded'' \<and> serial \<noteq> [] \<and> (\<forall>c \<in> set serial. \<not> is_space c)"
  then show "can_transition_step3 (Some (replace_audit_message step e s serial outcome))"
    using gate_message [OF assms(1,2)] by (simp add: can_transition_step3_def)
qed

theorem insert_gate_exact_witness:
  "can_transition_step3 (Some (replace_audit_message ''missing'' 252 3 ''SN1'' ''succeeded'')) \<and>
   \<not> can_transition_step3 (Some (replace_audit_message ''missing'' 252 3 ''SN1''
        (failure_outcome ''StorcliCommandFailed'' ''serial X succeeded'')))"
proof -
  have "(can_transition_step3 (Some (replace_audit_message ''missing'' 252 3 ''SN1'' ''succeeded''))) = True"
    by (subst insert_gate_exact) (simp_all add: is_space_def code_of_def)
  moreover have "can_transition_step3 (Some (replace_audit_message ''missing'' 252 3 ''SN1''
        (failure_outcome ''StorcliCommandFailed'' ''serial X succeeded''))) = False"
    by (subst insert_gate_exact) (simp_all add: failure_outcome_def)
  ultimately show ?thesis by simp
qed

subsection \<open>Operation status\<close>

lemma rebuild_percent_range: "rebuild_percent v = Inr (Some p) \<Longrightarrow> 0 \<le> p \<and> p \<le> 100"
  by (auto simp: rebuild_percent_def Let_def split: option.splits if_splits)

lemma normalize_rebuild_state_range:
  "normalize_rebuild_state raw percent \<in> {''Not in progress'', ''Unknown'', ''Complete'', ''In progress''}"
  by (simp add: normalize_rebuild_state_def Let_def)

lemma normalize_rebuild_complete: "normalize_rebuild_state raw percent = ''Complete'' \<Longrightarrow> percent = Some 100"
  by (auto simp: normalize_rebuild_state_def Let_def split: if_splits)

lemma rebuild_row_drive_Inr: "rebuild_row_drive row table = Inr d \<Longrightarrow> d = table \<or> (\<exists>w. d = Some w \<and> dict_get row ''Drive-ID'' = Some (JStr w))"
  by (auto simp: rebuild_row_drive_def split: option.splits json.splits if_splits)

lemma parse_rebuild_status_Inr:
  assumes "parse_rebuild_status payload requested = Inr st"
  obtains response drive row d raw where "single_controller_response_data payload True = Inr response"
    "ensure_command_succeeded payload = Inr ()" "rebuild_table response = Inr (drive, JArr [JObj row])"
    "rebuild_row_drive row drive = Inr d" "requested = None \<or> d = requested"
    "rebuild_percent (dict_get row ''Progress%'') = Inr (rs_percent_complete st)"
    "rs_state st = normalize_rebuild_state raw (rs_percent_complete st)"
proof -
  from assms obtain response drive rows where a: "single_controller_response_data payload True = Inr response"
    "ensure_command_succeeded payload = Inr ()" "rebuild_table response = Inr (drive, rows)"
    unfolding parse_rebuild_status_def bindr_Inr_iff by auto
  obtain row where r: "rows = JArr [JObj row]"
    using assms a by (cases rows rule: json.exhaust)
      (auto simp: parse_rebuild_status_def split: list.splits json.splits)
  from assms a r obtain d p where d: "rebuild_row_drive row drive = Inr d" "requested = None \<or> d = requested"
    "rebuild_percent (dict_get row ''Progress%'') = Inr p"
    by (auto simp: parse_rebuild_status_def bindr_Inr_iff split: if_splits)
  have "rs_percent_complete st = p \<and> (\<exists>raw. rs_state st = normalize_rebuild_state raw p)"
    using assms a r d
    by (auto simp: parse_rebuild_status_def Let_def split: if_splits option.splits json.splits)
  with a r d show thesis using that by blast
qed

text \<open>A parsed rebuild status belongs to the requested drive, comes from a response that reported success,
  has a percentage between 0 and 100 if any, and reads Complete only at 100 percent.\<close>

theorem rebuild_status_sound:
  assumes "parse_rebuild_status payload (Some path) = Inr st"
  shows "ensure_command_succeeded payload = Inr () \<and>
    (\<forall>p. rs_percent_complete st = Some p \<longrightarrow> 0 \<le> p \<and> p \<le> 100) \<and>
    rs_state st \<in> {''Not in progress'', ''Unknown'', ''Complete'', ''In progress''} \<and>
    (rs_state st = ''Complete'' \<longrightarrow> rs_percent_complete st = Some 100) \<and>
    (\<exists>response drive row. single_controller_response_data payload True = Inr response \<and>
       rebuild_table response = Inr (drive, JArr [JObj row]) \<and>
       (drive = Some path \<or> dict_get row ''Drive-ID'' = Some (JStr path)))"
proof -
  obtain response drive row d raw where
    f: "single_controller_response_data payload True = Inr response" "ensure_command_succeeded payload = Inr ()"
    "rebuild_table response = Inr (drive, JArr [JObj row])" "rebuild_row_drive row drive = Inr d" "Some path = None \<or> d = Some path"
    "rebuild_percent (dict_get row ''Progress%'') = Inr (rs_percent_complete st)"
    "rs_state st = normalize_rebuild_state raw (rs_percent_complete st)"
    by (rule parse_rebuild_status_Inr [OF assms])
  have "drive = Some path \<or> dict_get row ''Drive-ID'' = Some (JStr path)"
    using rebuild_row_drive_Inr [OF f(4)] f(5) by auto
  with f rebuild_percent_range [of "dict_get row ''Progress%''"] normalize_rebuild_state_range [of raw "rs_percent_complete st"]
    normalize_rebuild_complete [of raw "rs_percent_complete st"]
  show ?thesis by (intro conjI allI impI exI [of _ response] exI [of _ drive] exI [of _ row]) auto
qed

definition sample_rebuild :: dict where
  "sample_rebuild =
     [(''Controllers'', JArr [JObj
        [(''Command Status'', JObj [(''Controller'', JInt 0), (''Status'', JStr ''Success'')]),
         (''Response Data'', JArr [JObj [(''Drive-ID'', JStr ''/c0/e252/s3''), (''Progress%'', JInt 42),
            (''Status'', JStr ''In progress''), (''Estimated Time Left'', JStr ''1 Hour 5 Minutes'')]])]])]"

theorem rebuild_status_sound_witness:
  "parse_rebuild_status sample_rebuild (Some ''/c0/e252/s3'') =
     Inr \<lparr>rs_percent_complete = Some 42, rs_state = ''In progress'', rs_time_remaining = Some 65\<rparr> \<and>
   ensure_command_succeeded sample_rebuild = Inr () \<and>
   (\<exists>response drive row. rebuild_table response = Inr (drive, JArr [JObj row]) \<and>
      (drive = Some ''/c0/e252/s3'' \<or> dict_get row ''Drive-ID'' = Some (JStr ''/c0/e252/s3'')))"
proof -
  have p: "parse_rebuild_status sample_rebuild (Some ''/c0/e252/s3'') =
      Inr \<lparr>rs_percent_complete = Some 42, rs_state = ''In progress'', rs_time_remaining = Some 65\<rparr>"
    by code_simp
  from rebuild_status_sound [OF p] p show ?thesis by blast
qed

lemma clamp_percent_range: "clamp_percent x = Some p \<Longrightarrow> 0 \<le> p \<and> p \<le> 100"
  by (auto simp: clamp_percent_def)

lemma lower_fixed:
  "py_lower ''active'' = ''active''" "py_lower ''paused'' = ''paused''" "py_lower ''stopped'' = ''stopped''"
  "py_lower ''ready'' = ''ready''"
  by (simp_all add: py_lower_def lower_char_def is_upper_def code_of_def)

lemma parse_patrol_read_status_Inr:
  assumes "parse_patrol_read_status payload = Inr st"
  shows "\<exists>x v. pr_progress_percent st = clamp_percent (if pr_state st \<in> set [''active'', ''paused''] then x else None) \<and>
    pr_interval_hours st = patrol_interval_hours v"
proof -
  from assms obtain data where "single_controller_response_data payload False = Inr data"
    unfolding parse_patrol_read_status_def bindr_Inr_iff by blast
  with assms show ?thesis unfolding parse_patrol_read_status_def Let_def
    by (simp only: bindr_simps sum.inject) (hypsubst, unfold patrol_read_status.simps, blast)
qed

text \<open>A parsed patrol-read status reports progress only while the operation is active or paused, clamped
  to 0..100, and it never offers both start and stop.\<close>

theorem patrol_read_status_sound:
  assumes "parse_patrol_read_status payload = Inr st"
  shows "(\<forall>p. pr_progress_percent st = Some p \<longrightarrow> 0 \<le> p \<and> p \<le> 100 \<and> pr_state st \<in> {''active'', ''paused''}) \<and>
    \<not> (patrol_read_can_start st \<and> patrol_read_can_stop st) \<and>
    (\<forall>h. pr_interval_hours st = Some h \<longrightarrow> 0 < h)"
proof -
  have "patrol_interval_hours v = Some h \<Longrightarrow> 0 < h" for v h
    by (auto simp: patrol_interval_hours_def Let_def split: option.splits if_splits)
  moreover have "\<not> (patrol_read_can_start st \<and> patrol_read_can_stop st)"
    by (auto simp: patrol_read_can_start_def patrol_read_can_stop_def pr_is_running_def running_states_def)
  moreover obtain x v where "pr_progress_percent st = clamp_percent (if pr_state st \<in> set [''active'', ''paused''] then x else None)"
    "pr_interval_hours st = patrol_interval_hours v"
    using parse_patrol_read_status_Inr [OF assms] by blast
  moreover have "clamp_percent None = None" by (simp add: clamp_percent_def)
  ultimately show ?thesis using clamp_percent_range [of x] by (auto split: if_splits)
qed

definition sample_patrol :: patrol_read_status where
  "sample_patrol = \<lparr>pr_mode = ''unknown'', pr_state = ''active'', pr_progress_percent = Some 100,
     pr_completed_drive_count = None, pr_last_run = None, pr_interval_hours = None, pr_next_start = None\<rparr>"

theorem patrol_read_status_sound_witness:
  "\<not> (patrol_read_can_start sample_patrol \<and> patrol_read_can_stop sample_patrol)"
proof -
  have "parse_patrol_read_status
      [(''Controllers'', JArr [JObj [(''Response Data'', JObj [(''state'', JStr ''Active 250%'')])]])] = Inr sample_patrol"
    by code_simp
  from patrol_read_status_sound [OF this] show ?thesis by blast
qed

end
