(* ===== verification/Actions.thy ===== *)
theory Actions
  imports Runner Database ForeignConfig ActionGates
begin

section \<open>Drive actions\<close>

text \<open>
  The handlers of \<open>web/routes.py\<close> that act on one drive, with \<open>services/audit.py\<close> and
  \<open>services/action_capabilities.py\<close>. A handler is a computation over the trace of \<open>Runner\<close>:
  early returns are its failures, so both sides of its result are a reply. What a handler reads of
  the database, of the clock and of the processes is a function of the trace so far: other tasks
  may run between any two of its steps.

  \<^item> \<open>we_int\<close> is \<open>int(text)\<close> of a path segment, with the message of its \<open>ValueError\<close>.
  \<^item> \<open>we_saved\<close> says whether the transaction that ends the trace commits (\<open>False\<close> is \<open>SQLAlchemyError\<close>).
  \<^item> A request body is given parsed: \<open>NotJson\<close>, \<open>Invalid\<close> with the errors of the validation library,
    or the fields of the request class.
  \<^item> The maintenance row is only written by \<open>set_maintenance_state\<close>; with any other text in it the
    model reads maintenance as off where the code raises.
\<close>

subsection \<open>The world of a handler\<close>

record action_settings =
  as_read_only :: bool
  as_capability :: string
  as_maintenance_mode :: bool
  as_destructive_mode :: bool
  as_use_sudo :: bool
  as_storcli_path :: string
  as_policy_path :: string

record web_env =
  we_runner :: runner_env
  we_settings :: action_settings
  we_db :: "trace \<Rightarrow> db"
  we_saved :: "trace \<Rightarrow> bool"
  we_now :: "trace \<Rightarrow> instant"
  we_int :: "string \<Rightarrow> string + int"

record action_request =
  ar_user :: string
  ar_route :: string
  ar_path :: string
  ar_hx_request :: string
  ar_accept :: string
  ar_dry_run :: "string option"

datatype 'b parsed_body = NotJson | Invalid json | Body 'b

datatype reply = Reply int dict | See_other string string | Page int string dict | Crashed fault | DatabaseFailed

type_synonym 'a action = "(reply, 'a) io"

definition respond :: "int \<Rightarrow> dict \<Rightarrow> 'a action" where
  "respond code body = fail (Reply code body)"

definition error_body :: "string \<Rightarrow> dict" where
  "error_body msg = [(''error'', JStr msg)]"

definition bad_request :: "string + 'a \<Rightarrow> 'a action" where
  "bad_request m = (case m of Inl msg \<Rightarrow> respond 400 (error_body msg) | Inr x \<Rightarrow> ret x)"

definition strings :: "string list \<Rightarrow> json" where
  "strings xs = JArr (map JStr xs)"

definition json_of_dict :: "dict option \<Rightarrow> json" where
  "json_of_dict d = (case d of None \<Rightarrow> JNull | Some kvs \<Rightarrow> JObj kvs)"

definition json_of_int :: "int option \<Rightarrow> json" where
  "json_of_int i = (case i of None \<Rightarrow> JNull | Some n \<Rightarrow> JInt n)"

definition json_of_text :: "string option \<Rightarrow> json" where
  "json_of_text t = (case t of None \<Rightarrow> JNull | Some s \<Rightarrow> JStr s)"

subsection \<open>Settings of a request\<close>

definition full_actions :: "web_env \<Rightarrow> bool" where
  "full_actions w \<longleftrightarrow> as_capability (we_settings w) = ''full-supported-actions''"

definition write_settings_at :: "web_env \<Rightarrow> trace \<Rightarrow> write_settings" where
  "write_settings_at w tr =
     (let s = we_settings w
      in \<lparr>ws_read_only = as_read_only s, ws_capability = as_capability s,
          ws_maintenance_mode =
            (case maintenance_writes_enabled (as_maintenance_mode s) (Aware (we_now w tr)) (we_db w tr) of
               Inr b \<Rightarrow> b | Inl _ \<Rightarrow> False),
          ws_destructive_mode = as_destructive_mode s\<rparr>)"

definition read_settings :: "web_env \<Rightarrow> write_settings action" where
  "read_settings w = perform ReadSettings (write_settings_at w)"

definition read_db :: "web_env \<Rightarrow> db action" where
  "read_db w = perform ReadDb (we_db w)"

definition runner_of :: "web_env \<Rightarrow> runner_env" where
  "runner_of w = (we_runner w)\<lparr>current_settings := write_settings_at w\<rparr>"

definition config_of :: "web_env \<Rightarrow> run_config" where
  "config_of w =
     \<lparr>use_sudo = as_use_sudo (we_settings w), binary_path = as_storcli_path (we_settings w),
      timeout_text = ''30.0''\<rparr>"

subsection \<open>Authorization of a command\<close>

definition authorization_path :: "web_env \<Rightarrow> string option" where
  "authorization_path w = (if full_actions w then Some (as_policy_path (we_settings w)) else None)"

definition request_gate :: "action_request \<Rightarrow> write_gate" where
  "request_gate rq =
     \<lparr>wg_recovery = (ar_route rq = ''drive_locate_stop''),
      wg_destructive = (str_in ''/replace/'' (ar_path rq) \<or> str_in ''/foreign-config/'' (ar_path rq))\<rparr>"

definition run_live :: "web_env \<Rightarrow> string list \<Rightarrow> (storcli_failure, dict) io" where
  "run_live w argv = run_storcli (runner_of w) (config_of w) (authorization_path w) None None argv"

definition run_write :: "web_env \<Rightarrow> action_request \<Rightarrow> string option \<Rightarrow> string list \<Rightarrow> (storcli_failure, dict) io" where
  "run_write w rq digest argv =
     run_storcli (runner_of w) (config_of w) (authorization_path w)
       (if full_actions w then digest else None) (if full_actions w then Some (request_gate rq) else None) argv"

definition storcli_step :: "fault + 'a \<Rightarrow> (storcli_failure, 'a) io" where
  "storcli_step m = map_error plain_failure (lift_sum m)"

text \<open>\<open>except StorcliError\<close>: any other exception leaves the handler.\<close>

definition catch_storcli :: "(storcli_failure, 'a) io \<Rightarrow> ((storcli_error \<times> bool option) + 'a) action" where
  "catch_storcli m tr =
     (case m tr of
        (tr', Inr x) \<Rightarrow> (tr', Inr (Inr x))
      | (tr', Inl f) \<Rightarrow>
          (case sf_fault f of
             Storcli e \<Rightarrow> (tr', Inr (Inl (e, sf_write_sent f)))
           | Raised e \<Rightarrow> (tr', Inl (Crashed (Raised e)))))"

text \<open>
  The \<open>try\<close> block around a command: the response once the process returned one, and the error.
\<close>

definition run_command ::
  "web_env \<Rightarrow> action_request \<Rightarrow> string option \<Rightarrow> string list \<Rightarrow> (dict option \<times> (storcli_error \<times> bool option) option) action" where
  "run_command w rq digest argv =
     andthen (catch_storcli (run_write w rq digest argv)) (\<lambda>r.
       case r of
         Inl e \<Rightarrow> ret (None, Some e)
       | Inr payload \<Rightarrow>
           andthen (catch_storcli (storcli_step (ensure_command_succeeded payload))) (\<lambda>s.
             ret (Some payload, case s of Inl e \<Rightarrow> Some e | Inr _ \<Rightarrow> None)))"

definition failure_text :: "storcli_error \<Rightarrow> string" where
  "failure_text e = failure_outcome (error_class e) (err_text e)"

definition outcome_text :: "(storcli_error \<times> bool option) option \<Rightarrow> string" where
  "outcome_text err = (case err of None \<Rightarrow> ''succeeded'' | Some (e, _) \<Rightarrow> failure_text e)"

subsection \<open>The audit log\<close>

definition operator_action :: string where
  "operator_action = ''operator_action''"

definition record_operator_action ::
  "instant \<Rightarrow> string \<Rightarrow> string \<Rightarrow> string \<Rightarrow> dict option \<Rightarrow> db \<Rightarrow> db \<times> event_row" where
  "record_operator_action now username category msg after d =
     (let row = \<lparr>ev_id = next_id (map ev_id (db_events d)), ev_occurred_at = now, ev_severity = Info,
                 ev_category = category, ev_subject = ''Operator action'', ev_summary = msg,
                 ev_before = None, ev_after = after, ev_notified_at = None,
                 ev_operator_username = Some username\<rparr>
      in (d\<lparr>db_events := db_events d @ [row],
            db_staged_metrics := db_staged_metrics d @ [(Info, category)]\<rparr>, row))"

text \<open>A later key of \<open>extras\<close> replaces the one of the standard body.\<close>

definition merge_body :: "dict \<Rightarrow> dict \<Rightarrow> dict" where
  "merge_body base extras = fold (\<lambda>(k, v). AList.update k v) extras base"

definition audit_failure :: "dict \<Rightarrow> reply" where
  "audit_failure extras =
     Reply 500 (merge_body
       [(''error'', JStr ''audit persistence failed''),
        (''message'', JStr (''Physical outcome is unverified. Inspect hardware and repair audit storage '' @
           ''before retrying; the controller may already have accepted the command.''))] extras)"

definition audited ::
  "web_env \<Rightarrow> action_request \<Rightarrow> string \<Rightarrow> string \<Rightarrow> dict option \<Rightarrow> dict \<Rightarrow> unit action" where
  "audited w rq category msg after extras =
     andthen (perform (Audit (ar_user rq) category msg after) (we_saved w)) (\<lambda>saved.
       if saved then ret () else fail (audit_failure extras))"

definition optional_entries :: "dict option \<Rightarrow> (storcli_error \<times> bool option) option \<Rightarrow> dict" where
  "optional_entries result err =
     (case result of None \<Rightarrow> [] | Some d \<Rightarrow> [(''result'', JObj d)]) @
     (case err of None \<Rightarrow> [] | Some (e, _) \<Rightarrow> [(''storcli_error'', JStr (err_text e))])"

text \<open>A transaction whose \<open>SQLAlchemyError\<close> leaves the handler.\<close>

definition transaction :: "web_env \<Rightarrow> string \<Rightarrow> unit action" where
  "transaction w label =
     andthen (perform (Transaction label) (we_saved w)) (\<lambda>saved. if saved then ret () else fail DatabaseFailed)"

definition is_htmx_request :: "action_request \<Rightarrow> bool" where
  "is_htmx_request rq \<longleftrightarrow> py_lower (ar_hx_request rq) = ''true''"

definition accepts_html :: "action_request \<Rightarrow> bool" where
  "accepts_html rq \<longleftrightarrow>
     (let accept = py_lower (ar_accept rq) in str_in ''text/html'' accept \<and> \<not> str_in ''application/json'' accept)"

definition storcli_error_name :: "storcli_error \<Rightarrow> string" where
  "storcli_error_name e = (case e of ParseError _ \<Rightarrow> ''storcli parse failed'' | _ \<Rightarrow> ''storcli command failed'')"

subsection \<open>Locate\<close>

definition locate_message :: "string \<Rightarrow> int \<Rightarrow> int \<Rightarrow> string \<Rightarrow> string" where
  "locate_message action e s outcome =
     ''locate '' @ action @ '' drive '' @ show_int e @ '':'' @ show_int s @ '' '' @ outcome"

definition recovery_guidance :: string where
  "recovery_guidance =
     ''LED state is unverified. Inspect the physical LED and audit log before another Start. '' @
     ''Do not repeat Start blindly. Stop Locate can request LED shutdown without maintenance.''"

definition locate_error_text :: "string \<Rightarrow> dict option \<Rightarrow> storcli_error \<Rightarrow> string" where
  "locate_error_text action result e =
     (if result \<noteq> None then ''Locate '' @ action @ '' was not confirmed: '' @ err_text e @ ''.''
      else case e of
             NotAvailable _ \<Rightarrow> ''StorCLI is unavailable. Check its installation and sudo access.''
           | _ \<Rightarrow> if str_in ''timed out'' (err_text e) then ''StorCLI timed out.''
                  else ''StorCLI could not confirm the command. Check controller access.'') @
     '' '' @ recovery_guidance"

definition locate_start_refused :: dict where
  "locate_start_refused =
     [(''error'', JStr ''locate requires maintenance_mode''),
      (''message'', JStr (''Locate Start requires an active maintenance window. '' @
         ''Stop Locate remains available.''))]"

definition run_locate :: "web_env \<Rightarrow> action_request \<Rightarrow> string \<Rightarrow> string \<Rightarrow> string \<Rightarrow> reply action" where
  "run_locate w rq enclosure slot action =
     andthen (bad_request (bindr (we_int w enclosure) (\<lambda>e. bindr (we_int w slot) (\<lambda>s.
       bindr (build_locate_command e s action) (\<lambda>argv. Inr (e, s, argv)))))) (\<lambda>(e, s, argv).
     andthen (read_settings w) (\<lambda>st.
       if action = ''start'' \<and> \<not> ws_maintenance_mode st then
         andthen (audited w rq operator_action
           (locate_message action e s ''rejected: maintenance_mode required'') None [(''action'', JStr action)]) (\<lambda>_.
           respond 403 locate_start_refused)
       else
         andthen (run_command w rq None argv) (\<lambda>(result, err).
         andthen (audited w rq operator_action (locate_message action e s (outcome_text err)) None
           [(''action'', JStr action), (''enclosure'', JInt e), (''slot'', JInt s), (''result'', json_of_dict result),
            (''message'', JStr (''Audit could not be saved. '' @
               (case err of None \<Rightarrow> recovery_guidance | Some (x, _) \<Rightarrow> locate_error_text action result x)))]) (\<lambda>_.
           case err of
             Some (x, _) \<Rightarrow>
               respond 502 [(''error'', JStr ''locate command failed''),
                 (''message'', JStr (locate_error_text action result x)), (''action'', JStr action)]
           | None \<Rightarrow>
               respond 200 [(''action'', JStr action), (''enclosure'', JInt e), (''slot'', JInt s),
                 (''result'', json_of_dict result), (''command_accepted'', JBool True),
                 (''led_state'', JStr ''unverified'')]))))"

subsection \<open>The drive a request names\<close>

definition path_drive :: "web_env \<Rightarrow> string \<Rightarrow> string \<Rightarrow> (int \<times> int) action" where
  "path_drive w enclosure slot =
     (case (we_int w enclosure, we_int w slot) of
        (Inr e, Inr s) \<Rightarrow> andthen (bad_request (validate_enclosure_slot e s)) (\<lambda>_. ret (e, s))
      | _ \<Rightarrow> respond 400 (error_body ''enclosure and slot must be integers''))"

definition load_latest_drive_for_slot :: "int \<Rightarrow> int \<Rightarrow> db \<Rightarrow> physical_drive_info option" where
  "load_latest_drive_for_slot e s d =
     (case best_by (\<lambda>x. (sr_captured_at x, sr_id x))
             (filter (\<lambda>x. list_ex (\<lambda>p. slot_of p = (e, s)) (ps_physical_drives x)) (db_snapshots d)) of
        None \<Rightarrow> None
      | Some x \<Rightarrow> List.find (\<lambda>p. slot_of p = (e, s)) (ps_physical_drives x))"

definition latest_snapshot_has_disk_group :: "int \<Rightarrow> db \<Rightarrow> bool" where
  "latest_snapshot_has_disk_group dg d =
     (case get_latest_snapshot d of
        None \<Rightarrow> False
      | Some x \<Rightarrow> list_ex (\<lambda>p. pdi_disk_group_id p = Some dg) (ps_physical_drives x))"

definition no_snapshot_body :: "int \<Rightarrow> int \<Rightarrow> dict" where
  "no_snapshot_body e s = [(''error'', JStr ''no snapshot for slot''), (''enclosure'', JInt e), (''slot'', JInt s)]"

definition snapshot_drive :: "web_env \<Rightarrow> int \<Rightarrow> int \<Rightarrow> physical_drive_info action" where
  "snapshot_drive w e s =
     andthen (read_db w) (\<lambda>d.
       case load_latest_drive_for_slot e s d of
         None \<Rightarrow> respond 404 (no_snapshot_body e s)
       | Some x \<Rightarrow> ret x)"

definition query_live_drive_show :: "web_env \<Rightarrow> int \<Rightarrow> int \<Rightarrow> (storcli_failure, drive_show) io" where
  "query_live_drive_show w e s =
     andthen (storcli_step (case build_show_drive_command e s of
                Inl _ \<Rightarrow> Inl (Raised ValueError) | Inr argv \<Rightarrow> Inr argv)) (\<lambda>argv.
     andthen (run_live w argv) (\<lambda>payload.
     andthen (storcli_step (ensure_command_succeeded payload)) (\<lambda>_.
       storcli_step (parse_drive_show payload (if full_actions w then Some (hd argv) else None)))))"

definition require_that :: "bool \<Rightarrow> int \<Rightarrow> dict \<Rightarrow> unit action" where
  "require_that ok code body = (if ok then ret () else respond code body)"

definition built :: "string + string list \<Rightarrow> string list action" where
  "built m = (case m of Inl _ \<Rightarrow> fail (Crashed (Raised ValueError)) | Inr argv \<Rightarrow> ret argv)"

subsection \<open>Advanced drive actions\<close>

datatype drive_action = MarkUbad | MarkUgood | SpinDown | MakeHotSpare

fun drive_action_name :: "drive_action \<Rightarrow> string" where
  "drive_action_name MarkUbad = ''mark_ubad''"
| "drive_action_name MarkUgood = ''mark_ugood''"
| "drive_action_name SpinDown = ''spin_down''"
| "drive_action_name MakeHotSpare = ''make_hot_spare''"

fun advanced_drive_action_allowed :: "drive_action \<Rightarrow> string \<Rightarrow> bool \<Rightarrow> bool" where
  "advanced_drive_action_allowed MarkUbad state _ = can_mark_ubad state"
| "advanced_drive_action_allowed MarkUgood state _ = can_mark_ugood state"
| "advanced_drive_action_allowed SpinDown state _ = can_spin_down state"
| "advanced_drive_action_allowed MakeHotSpare state has_dg = can_make_hot_spare state has_dg"

text \<open>\<open>f"{dg_id}"\<close> of an optional number.\<close>

definition show_dg :: "int option \<Rightarrow> string" where
  "show_dg dg = (case dg of None \<Rightarrow> ''None'' | Some n \<Rightarrow> show_int n)"

fun advanced_drive_action_rejection :: "drive_action \<Rightarrow> string \<Rightarrow> int option \<Rightarrow> string" where
  "advanced_drive_action_rejection MarkUbad state _ =
     ''Cannot mark UBad: drive is '' @ state @ '' (must be UGood first)''"
| "advanced_drive_action_rejection MarkUgood state _ =
     ''Cannot mark UGood: drive is '' @ state @ '' (must be UBad first)''"
| "advanced_drive_action_rejection SpinDown state _ =
     ''Cannot spin down: drive is '' @ state @ '' (must be unconfigured UGood or UBad; refresh drive state)''"
| "advanced_drive_action_rejection MakeHotSpare state dg =
     ''Cannot make hot spare for DG '' @ show_dg dg @ '': drive is '' @ state @
     '' and the requested disk group must exist''"

fun advanced_drive_action_argv :: "drive_action \<Rightarrow> int \<Rightarrow> int \<Rightarrow> int option \<Rightarrow> string + string list" where
  "advanced_drive_action_argv MarkUbad e s _ = build_mark_unconfigured_bad_command e s"
| "advanced_drive_action_argv MarkUgood e s _ = build_mark_unconfigured_good_command e s"
| "advanced_drive_action_argv SpinDown e s _ = build_spin_down_command e s"
| "advanced_drive_action_argv MakeHotSpare e s dg =
     (case dg of None \<Rightarrow> Inl ''dg_id is required'' | Some n \<Rightarrow> build_make_hot_spare_command e s n)"

fun advanced_drive_action_category :: "drive_action \<Rightarrow> string" where
  "advanced_drive_action_category MarkUbad = ''drive_mark_ubad''"
| "advanced_drive_action_category MarkUgood = ''drive_mark_ugood''"
| "advanced_drive_action_category SpinDown = ''drive_spin_down''"
| "advanced_drive_action_category MakeHotSpare = ''drive_make_hot_spare''"

definition drive_ref :: "int \<Rightarrow> int \<Rightarrow> string" where
  "drive_ref e s = ''drive '' @ show_int e @ '':'' @ show_int s"

fun advanced_drive_action_audit_message :: "drive_action \<Rightarrow> int \<Rightarrow> int \<Rightarrow> string \<Rightarrow> int option \<Rightarrow> string" where
  "advanced_drive_action_audit_message MarkUbad e s state _ = ''mark UBad '' @ drive_ref e s @ '' from state '' @ state"
| "advanced_drive_action_audit_message MarkUgood e s state _ = ''mark UGood '' @ drive_ref e s @ '' from state '' @ state"
| "advanced_drive_action_audit_message SpinDown e s state _ =
     ''spin down '' @ drive_ref e s @ '' from state '' @ state @
     ''; remains spun down until reboot or explicit spinup''"
| "advanced_drive_action_audit_message MakeHotSpare e s state dg =
     ''make hot spare '' @ drive_ref e s @ '' for DG '' @ show_dg dg @ '' from state '' @ state @
     ''; reversible by setting the spare drive bad to remove it from the spare pool''"

definition rejected_body :: "drive_action \<Rightarrow> string \<Rightarrow> int option \<Rightarrow> dict \<Rightarrow> dict" where
  "rejected_body action state dg more_fields =
     [(''error'', JStr (advanced_drive_action_rejection action state dg)), (''state'', JStr state)] @ more_fields @
     [(''action'', JStr (drive_action_name action)), (''dg_id'', json_of_int dg)]"

definition drive_fields :: "drive_action \<Rightarrow> int \<Rightarrow> int \<Rightarrow> dict" where
  "drive_fields action e s = [(''action'', JStr (drive_action_name action)), (''enclosure'', JInt e), (''slot'', JInt s)]"

definition has_requested_dg :: "web_env \<Rightarrow> drive_action \<Rightarrow> int option \<Rightarrow> bool action" where
  "has_requested_dg w action dg =
     (if action = MakeHotSpare then
        (case dg of
           None \<Rightarrow> respond 422 (error_body ''dg_id is required'')
         | Some n \<Rightarrow> andthen (read_db w) (\<lambda>d. ret (latest_snapshot_has_disk_group n d)))
      else ret True)"

definition drive_action_gates :: "drive_action \<Rightarrow> write_settings \<Rightarrow> unit action" where
  "drive_action_gates action st =
     andthen (require_that (ws_maintenance_mode st) 403
       [(''error'', JStr ''drive changes require maintenance_mode''),
        (''maintenance_mode'', JBool (ws_maintenance_mode st))]) (\<lambda>_.
       require_that (\<not> (action = MarkUbad \<and> \<not> ws_destructive_mode st)) 403
         (error_body ''mark UBad requires destructive_mode''))"

definition precheck_outcome :: "storcli_error \<Rightarrow> string" where
  "precheck_outcome x = ''failed: storcli precheck failed: '' @ truncate_audit_detail (err_text x)"

definition drive_action_precheck ::
  "web_env \<Rightarrow> action_request \<Rightarrow> drive_action \<Rightarrow> int \<Rightarrow> int \<Rightarrow> int option \<Rightarrow> string \<Rightarrow> drive_show action" where
  "drive_action_precheck w rq action e s dg state =
     andthen (catch_storcli (query_live_drive_show w e s)) (\<lambda>r.
       case r of
         Inr live \<Rightarrow> ret live
       | Inl (x, _) \<Rightarrow>
           andthen (audited w rq (advanced_drive_action_category action)
             (advanced_drive_action_audit_message action e s state dg @ '' '' @ precheck_outcome x) None
             [(''action'', JStr (drive_action_name action)), (''storcli_error'', JStr (err_text x))]) (\<lambda>_.
             respond 502 ([(''error'', JStr ''storcli precheck failed'')] @ drive_fields action e s @
               [(''detail'', JStr (err_text x))])))"

definition run_drive_command ::
  "web_env \<Rightarrow> action_request \<Rightarrow> drive_action \<Rightarrow> int \<Rightarrow> int \<Rightarrow> int option \<Rightarrow> string \<Rightarrow> string list \<Rightarrow> reply action" where
  "run_drive_command w rq action e s dg state argv =
     andthen (run_command w rq None argv) (\<lambda>(result, err).
     andthen (audited w rq (advanced_drive_action_category action)
       (advanced_drive_action_audit_message action e s state dg @ '' '' @ outcome_text err) None
       (drive_fields action e s @ [(''argv'', strings argv)] @
        (case dg of None \<Rightarrow> [] | Some n \<Rightarrow> [(''dg_id'', JInt n)]) @ optional_entries result err)) (\<lambda>_.
       case err of
         Some (x, _) \<Rightarrow>
           respond 502 ([(''error'', JStr ''storcli command failed'')] @ drive_fields action e s @
             [(''argv'', strings argv), (''detail'', JStr (err_text x))])
       | None \<Rightarrow> ret (See_other ''drive_detail_slot_ref'' (show_int e @ '':'' @ show_int s))))"

definition run_advanced_drive_action ::
  "web_env \<Rightarrow> action_request \<Rightarrow> drive_action \<Rightarrow> string \<Rightarrow> string \<Rightarrow> int option \<Rightarrow> string \<Rightarrow> reply action" where
  "run_advanced_drive_action w rq action enclosure slot dg serial =
     andthen (bad_request (bindr (we_int w enclosure) (\<lambda>e. bindr (we_int w slot) (\<lambda>s.
       bindr (validate_enclosure_slot e s) (\<lambda>_. Inr (e, s)))))) (\<lambda>(e, s).
     andthen (snapshot_drive w e s) (\<lambda>drive.
     andthen (require_that (pdi_serial_number drive = serial) 409 (error_body ''snapshot serial mismatch'')) (\<lambda>_.
     andthen (has_requested_dg w action dg) (\<lambda>has_dg.
     andthen (require_that (advanced_drive_action_allowed action (pdi_state drive) has_dg) 409
       (rejected_body action (pdi_state drive) dg [])) (\<lambda>_.
     andthen (read_settings w) (\<lambda>st.
     andthen (drive_action_gates action st) (\<lambda>_.
     andthen (built (advanced_drive_action_argv action e s dg)) (\<lambda>argv.
     andthen (drive_action_precheck w rq action e s dg (pdi_state drive)) (\<lambda>live.
     andthen (require_that (ds_serial_number live = pdi_serial_number drive) 409
       (error_body ''live serial mismatch'')) (\<lambda>_.
     andthen (require_that (advanced_drive_action_allowed action (ds_state live) has_dg) 409
       (rejected_body action (ds_state live) dg [(''snapshot_state'', JStr (pdi_state drive))])) (\<lambda>_.
       run_drive_command w rq action e s dg (ds_state live) argv)))))))))))"

subsection \<open>The replacement steps\<close>

record replace_request =
  rr_serial_number :: string
  rr_dry_run :: bool

definition parse_body :: "'b parsed_body \<Rightarrow> 'b action" where
  "parse_body b =
     (case b of
        NotJson \<Rightarrow> respond 400 (error_body ''request body must be valid JSON'')
      | Invalid errors \<Rightarrow> respond 400 [(''error'', JStr ''invalid request body''), (''detail'', errors)]
      | Body x \<Rightarrow> ret x)"

definition parse_query_dry_run :: "string option \<Rightarrow> bool action" where
  "parse_query_dry_run raw =
     (case raw of
        None \<Rightarrow> ret False
      | Some t \<Rightarrow>
          (let normalized = py_lower (py_strip t)
           in if normalized \<in> set [''1'', ''true'', ''yes'', ''on''] then ret True
              else if normalized \<in> set [''0'', ''false'', ''no'', ''off''] then ret False
              else respond 400 (error_body ''dry_run query parameter must be a boolean'')))"

definition step_fields :: "string \<Rightarrow> int \<Rightarrow> int \<Rightarrow> string \<Rightarrow> dict" where
  "step_fields step e s serial =
     [(''step'', JStr step), (''enclosure'', JInt e), (''slot'', JInt s), (''serial_number'', JStr serial)]"

definition replace_argv :: "string \<Rightarrow> int \<Rightarrow> int \<Rightarrow> string + string list" where
  "replace_argv step e s = (if step = ''offline'' then build_set_offline_command e s else build_set_missing_command e s)"

definition cannot_step_body :: "string \<Rightarrow> string \<Rightarrow> dict" where
  "cannot_step_body step state =
     [(''error'', JStr (''cannot '' @ step @ '' drive currently in state '' @ state)), (''state'', JStr state),
      (''step'', JStr step)]"

definition destructive_gates :: "write_settings \<Rightarrow> unit action" where
  "destructive_gates st =
     require_that (ws_maintenance_mode st \<and> ws_destructive_mode st) 403
       [(''error'', JStr ''destructive operations require maintenance_mode and destructive_mode''),
        (''maintenance_mode'', JBool (ws_maintenance_mode st)), (''destructive_mode'', JBool (ws_destructive_mode st))]"

definition verified_json :: "string option \<Rightarrow> dict option" where
  "verified_json state = map_option (\<lambda>t. [(''verified_state'', JStr t)]) state"

definition replace_precheck ::
  "web_env \<Rightarrow> action_request \<Rightarrow> string \<Rightarrow> string \<Rightarrow> dict option \<Rightarrow> int \<Rightarrow> int \<Rightarrow> string \<Rightarrow> drive_show action" where
  "replace_precheck w rq step msg marker e s serial =
     andthen (catch_storcli (query_live_drive_show w e s)) (\<lambda>r.
       case r of
         Inr live \<Rightarrow> ret live
       | Inl (x, _) \<Rightarrow>
           andthen (audited w rq operator_action (msg @ precheck_outcome x) marker
             [(''storcli_error'', JStr (err_text x))]) (\<lambda>_.
             respond 502 ([(''error'', JStr ''storcli precheck failed'')] @ step_fields step e s serial @
               [(''detail'', JStr (err_text x))])))"

definition uncertain_outcome :: storcli_error where
  "uncertain_outcome =
     CommandFailed (''Controller accepted the command but the drive outcome is uncertain. '' @
       ''Do not remove the drive or repeat the command. Inspect live state and Events.'') None"

text \<open>The command with its postcondition: what was verified, the response, the error.\<close>

definition replace_command ::
  "web_env \<Rightarrow> action_request \<Rightarrow> string \<Rightarrow> int \<Rightarrow> int \<Rightarrow> string \<Rightarrow> string list \<Rightarrow>
   (string option \<times> dict option \<times> (storcli_error \<times> bool option) option) action" where
  "replace_command w rq step e s serial argv =
     andthen (run_command w rq None argv) (\<lambda>(result, err).
       if err \<noteq> None then ret (None, result, err)
       else if \<not> full_actions w then ret (None, result, None)
       else andthen (catch_storcli (query_live_drive_show w e s)) (\<lambda>r.
         case r of
           Inl _ \<Rightarrow> ret (None, result, Some (uncertain_outcome, None))
         | Inr observed \<Rightarrow>
             if ds_serial_number observed \<noteq> serial \<or> normalized_state (ds_state observed) \<noteq> step
             then ret (None, result, Some (uncertain_outcome, None))
             else ret (Some step, result, None)))"

definition run_replace_command ::
  "web_env \<Rightarrow> action_request \<Rightarrow> string \<Rightarrow> int \<Rightarrow> int \<Rightarrow> string \<Rightarrow> string list \<Rightarrow> reply action" where
  "run_replace_command w rq step e s serial argv =
     andthen (replace_command w rq step e s serial argv) (\<lambda>(verified, result, err).
     andthen (audited w rq operator_action (replace_audit_message step e s serial (outcome_text err))
       (verified_json verified)
       (step_fields step e s serial @ [(''argv'', strings argv)] @ optional_entries result err)) (\<lambda>_.
       case err of
         Some (x, _) \<Rightarrow>
           respond 502 ([(''error'', JStr ''storcli command failed'')] @ step_fields step e s serial @
             [(''argv'', strings argv), (''detail'', JStr (err_text x))])
       | None \<Rightarrow>
           respond 200 (step_fields step e s serial @ [(''argv'', strings argv), (''result'', json_of_dict result),
             (''drive_state_verified'', JBool (verified \<noteq> None))])))"

definition run_replace_step ::
  "web_env \<Rightarrow> action_request \<Rightarrow> string \<Rightarrow> string \<Rightarrow> string \<Rightarrow> replace_request parsed_body \<Rightarrow> reply action" where
  "run_replace_step w rq step enclosure slot raw =
     andthen (path_drive w enclosure slot) (\<lambda>(e, s).
     andthen (parse_query_dry_run (ar_dry_run rq)) (\<lambda>query_dry_run.
     andthen (parse_body raw) (\<lambda>body.
     andthen (snapshot_drive w e s) (\<lambda>drive.
     andthen (require_that (pdi_serial_number drive = rr_serial_number body) 409 (error_body ''serial mismatch'')) (\<lambda>_.
     andthen (bad_request (replace_argv step e s)) (\<lambda>argv.
       if rr_dry_run body \<or> query_dry_run then
         andthen (require_that (can_transition (pdi_state drive) step) 409 (cannot_step_body step (pdi_state drive))) (\<lambda>_.
           respond 200 ([(''dry_run'', JBool True)] @ step_fields step e s (rr_serial_number body) @
             [(''argv'', strings argv)]))
       else
         andthen (read_settings w) (\<lambda>st.
         andthen (destructive_gates st) (\<lambda>_.
         andthen (replace_precheck w rq step (replace_audit_message step e s (rr_serial_number body) []) None
           e s (rr_serial_number body)) (\<lambda>live.
         andthen (require_that (ds_serial_number live = rr_serial_number body) 409
           (error_body ''live serial mismatch'')) (\<lambda>_.
         andthen (require_that (can_transition (ds_state live) step) 409 (cannot_step_body step (ds_state live))) (\<lambda>_.
           run_replace_command w rq step e s (rr_serial_number body) argv)))))))))))"

end
