(* ===== verification/ReplaceRoutes.thy ===== *)
theory ReplaceRoutes
  imports Actions
begin

section \<open>Inserting a replacement drive\<close>

text \<open>
  The last step of a replacement in \<open>web/routes.py\<close>: what the audit log says about the slot, the
  topology of the slot, the insert handler, and the once-per-cycle records of a rebuild. SQLite's
  \<open>LIKE\<close> ignores the case of ASCII letters; slots are numbers, so the patterns hold no wildcard of
  their own.
\<close>

subsection \<open>Reading the audit log\<close>

definition like_contains :: "string \<Rightarrow> string \<Rightarrow> bool" where
  "like_contains p s = str_in (py_lower p) (py_lower s)"

definition like_prefix :: "string \<Rightarrow> string \<Rightarrow> bool" where
  "like_prefix p s = starts_with (py_lower p) (py_lower s)"

definition like_suffix :: "string \<Rightarrow> string \<Rightarrow> bool" where
  "like_suffix p s = starts_with (rev (py_lower p)) (rev (py_lower s))"

definition event_order :: "event_row \<Rightarrow> instant \<times> int" where
  "event_order x = (ev_occurred_at x, ev_id x)"

definition names_slot :: "int \<Rightarrow> int \<Rightarrow> event_row \<Rightarrow> bool" where
  "names_slot e s x \<longleftrightarrow>
     like_contains (drive_ref e s @ '' '') (ev_summary x) \<or> like_suffix (drive_ref e s) (ev_summary x)"

definition insert_precheck_marker :: dict where
  "insert_precheck_marker = [(''read_only_precheck'', JStr ''replace_insert'')]"

definition only_a_precheck :: "event_row \<Rightarrow> bool" where
  "only_a_precheck x \<longleftrightarrow>
     (case ev_after x of
        None \<Rightarrow> False
      | Some d \<Rightarrow> dict_get d ''read_only_precheck'' = Some (JStr ''replace_insert''))"

definition slot_audit :: "bool \<Rightarrow> int \<Rightarrow> int \<Rightarrow> event_row \<Rightarrow> bool" where
  "slot_audit full e s x \<longleftrightarrow>
     ev_category x = operator_action \<and> \<not> only_a_precheck x \<and> names_slot e s x \<and>
     \<not> (full \<and> like_prefix ''locate '' (ev_summary x))"

definition load_last_operator_action_for_slot :: "bool \<Rightarrow> int \<Rightarrow> int \<Rightarrow> db \<Rightarrow> event_row option" where
  "load_last_operator_action_for_slot full e s d = best_by event_order (filter (slot_audit full e s) (db_events d))"

text \<open>The word after the first \<open>serial\<close> that another word follows.\<close>

fun serial_after :: "string list \<Rightarrow> string option" where
  "serial_after (t # u # ts) = (if t = ''serial'' then Some u else serial_after (u # ts))"
| "serial_after _ = None"

definition extract_serial_from_audit :: "string \<Rightarrow> string option" where
  "extract_serial_from_audit msg = serial_after (py_words msg)"

definition replacement_resume_context :: "bool \<Rightarrow> int \<Rightarrow> int \<Rightarrow> string \<Rightarrow> db \<Rightarrow> (string \<times> string) option" where
  "replacement_resume_context full e s current_serial d =
     (case load_last_operator_action_for_slot full e s d of
        None \<Rightarrow> None
      | Some x \<Rightarrow>
          if \<not> can_transition_step3 (Some (ev_summary x)) \<or>
             (case ev_after x of None \<Rightarrow> True | Some a \<Rightarrow> dict_get a ''verified_state'' \<noteq> Some (JStr ''missing''))
          then None
          else map_option (\<lambda>outgoing. (outgoing, if current_serial = outgoing then ''physical-swap'' else ''insert''))
                 (extract_serial_from_audit (ev_summary x)))"

subsection \<open>The topology of a slot\<close>

record slot_topology =
  sl_dg :: int
  sl_array :: int
  sl_row :: int

definition array_member_states :: "string list" where
  "array_member_states = [''Onln'', ''Offln'', ''Failed'', ''Rbld'', ''Cpybck'', ''Msng'', ''Missing'']"

text \<open>The disk group of the latest snapshot in which the slot had one.\<close>

definition last_disk_group :: "int \<Rightarrow> int \<Rightarrow> db \<Rightarrow> int option" where
  "last_disk_group e s d =
     (let in_group = (\<lambda>p. slot_of p = (e, s) \<and> pdi_disk_group_id p \<noteq> None)
      in case best_by (\<lambda>x. (sr_captured_at x, sr_id x))
                (filter (\<lambda>x. list_ex in_group (ps_physical_drives x)) (db_snapshots d)) of
           None \<Rightarrow> None
         | Some x \<Rightarrow>
             (case List.find in_group (ps_physical_drives x) of None \<Rightarrow> None | Some p \<Rightarrow> pdi_disk_group_id p))"

definition only_disk_group :: "physical_drive_info list \<Rightarrow> int option" where
  "only_disk_group ps =
     (case remdups (List.map_filter pdi_disk_group_id ps) of [g] \<Rightarrow> Some g | _ \<Rightarrow> None)"

definition member_keys :: "int \<Rightarrow> slot_id \<Rightarrow> physical_drive_info list \<Rightarrow> slot_id list" where
  "member_keys dg target ps =
     sort (remdups (target # map slot_of
       (filter (\<lambda>p. pdi_disk_group_id p = Some dg \<and> pdi_state p \<in> set array_member_states) ps)))"

definition index_of :: "'a \<Rightarrow> 'a list \<Rightarrow> nat" where
  "index_of x xs = length (takeWhile (\<lambda>y. y \<noteq> x) xs)"

definition snapshot_topology :: "int \<Rightarrow> int \<Rightarrow> db \<Rightarrow> slot_topology option" where
  "snapshot_topology e s d =
     (case get_latest_snapshot d of
        None \<Rightarrow> None
      | Some x \<Rightarrow>
          (let ps = ps_physical_drives x
           in if (e, s) \<notin> set (map slot_of ps) then None
              else case (case last_disk_group e s d of Some g \<Rightarrow> Some g | None \<Rightarrow> only_disk_group ps) of
                     None \<Rightarrow> None
                   | Some g \<Rightarrow>
                       Some \<lparr>sl_dg = g, sl_array = 0, sl_row = int (index_of (e, s) (member_keys g (e, s) ps))\<rparr>))"

definition approved_topology :: "int \<Rightarrow> int \<Rightarrow> command_policy \<Rightarrow> slot_topology option" where
  "approved_topology e s p =
     (case List.find (\<lambda>t. rt_slot t = s) (replacements p) of
        None \<Rightarrow> None
      | Some t \<Rightarrow> if e \<noteq> 252 then None else Some \<lparr>sl_dg = rt_dg t, sl_array = rt_array t, sl_row = rt_row t\<rparr>)"

text \<open>A policy that does not load raises \<open>ValueError\<close>, which leaves the handler.\<close>

definition policy_or_crash :: "web_env \<Rightarrow> command_policy action" where
  "policy_or_crash w =
     (let path = as_policy_path (we_settings w)
      in andthen (perform (LoadPolicy path) (\<lambda>tr. load_policy (we_runner w) tr path)) (\<lambda>r.
           case r of Inl _ \<Rightarrow> fail (Crashed (Raised ValueError)) | Inr p \<Rightarrow> ret p))"

definition compute_slot_topology :: "web_env \<Rightarrow> int \<Rightarrow> int \<Rightarrow> slot_topology option action" where
  "compute_slot_topology w e s =
     (if full_actions w
      then andthen (policy_or_crash w) (\<lambda>p. ret (approved_topology e s p))
      else andthen (read_db w) (\<lambda>d. ret (snapshot_topology e s d)))"

definition topology_fields :: "slot_topology \<Rightarrow> dict" where
  "topology_fields t = [(''dg'', JInt (sl_dg t)), (''array'', JInt (sl_array t)), (''row'', JInt (sl_row t))]"

definition drive_replace_topology :: "web_env \<Rightarrow> string \<Rightarrow> string \<Rightarrow> reply action" where
  "drive_replace_topology w enclosure slot =
     andthen (path_drive w enclosure slot) (\<lambda>(e, s).
     andthen (compute_slot_topology w e s) (\<lambda>t.
       case t of
         None \<Rightarrow> respond 404 (no_snapshot_body e s)
       | Some t \<Rightarrow> respond 200 ([(''enclosure'', JInt e), (''slot'', JInt s)] @ topology_fields t)))"

subsection \<open>The insert handler\<close>

definition insert_message :: "int \<Rightarrow> int \<Rightarrow> string \<Rightarrow> slot_topology \<Rightarrow> string \<Rightarrow> string" where
  "insert_message e s serial t outcome =
     ''replace step insert '' @ drive_ref e s @ '' serial '' @ serial @ '' dg='' @ show_int (sl_dg t) @
     '' array='' @ show_int (sl_array t) @ '' row='' @ show_int (sl_row t) @ '' '' @ outcome"

definition insert_audit_gate :: "bool \<Rightarrow> int \<Rightarrow> int \<Rightarrow> string \<Rightarrow> physical_drive_info \<Rightarrow> db \<Rightarrow> unit action" where
  "insert_audit_gate full e s serial drive d =
     (let last_audit = map_option ev_summary (load_last_operator_action_for_slot full e s d);
          outgoing = extract_serial_from_audit (case last_audit of None \<Rightarrow> [] | Some msg \<Rightarrow> msg)
      in andthen (require_that (can_transition_step3 last_audit) 409
           [(''error'', JStr ''must complete replace step missing before insert''),
            (''last_audit'', json_of_text last_audit)]) (\<lambda>_.
         andthen (require_that (outgoing \<noteq> Some serial) 409
           (error_body (''supplied serial matches the OUTGOING drive; '' @
              ''expected the new replacement drive's serial''))) (\<lambda>_.
         require_that (pdi_serial_number drive = serial \<or> outgoing = Some (pdi_serial_number drive)) 409
           (error_body ''serial mismatch (replacement drive)''))))"

definition run_insert_command ::
  "web_env \<Rightarrow> action_request \<Rightarrow> int \<Rightarrow> int \<Rightarrow> string \<Rightarrow> slot_topology \<Rightarrow> string list \<Rightarrow> reply action" where
  "run_insert_command w rq e s serial t argv =
     andthen (run_command w rq None argv) (\<lambda>(result, err).
     andthen (audited w rq operator_action (insert_message e s serial t (outcome_text err)) None
       (step_fields ''insert'' e s serial @ [(''argv'', strings argv)] @ optional_entries result err)) (\<lambda>_.
       case err of
         Some (x, _) \<Rightarrow>
           respond 502 ([(''error'', JStr ''storcli command failed'')] @ step_fields ''insert'' e s serial @
             [(''argv'', strings argv), (''detail'', JStr (err_text x))])
       | None \<Rightarrow>
           respond 200 (step_fields ''insert'' e s serial @ topology_fields t @
             [(''argv'', strings argv), (''result'', json_of_dict result)])))"

definition require_topology :: "int \<Rightarrow> int \<Rightarrow> slot_topology option \<Rightarrow> slot_topology action" where
  "require_topology e s t =
     (case t of
        None \<Rightarrow> respond 409 [(''error'', JStr ''unable to derive insert topology for slot''),
                 (''enclosure'', JInt e), (''slot'', JInt s)]
      | Some t \<Rightarrow> ret t)"

definition insert_argv :: "int \<Rightarrow> int \<Rightarrow> slot_topology \<Rightarrow> string + string list" where
  "insert_argv e s t = build_insert_replacement_command e s (sl_dg t) (sl_array t) (sl_row t)"

definition drive_replace_insert ::
  "web_env \<Rightarrow> action_request \<Rightarrow> string \<Rightarrow> string \<Rightarrow> replace_request parsed_body \<Rightarrow> reply action" where
  "drive_replace_insert w rq enclosure slot raw =
     andthen (path_drive w enclosure slot) (\<lambda>(e, s).
     andthen (parse_query_dry_run (ar_dry_run rq)) (\<lambda>query_dry_run.
     andthen (parse_body raw) (\<lambda>body.
     andthen (snapshot_drive w e s) (\<lambda>drive.
     andthen (read_db w) (\<lambda>d.
     andthen (insert_audit_gate (full_actions w) e s (rr_serial_number body) drive d) (\<lambda>_.
     andthen (andthen (compute_slot_topology w e s) (require_topology e s)) (\<lambda>t.
     andthen (bad_request (insert_argv e s t)) (\<lambda>argv.
       if rr_dry_run body \<or> query_dry_run then
         respond 200 ([(''dry_run'', JBool True)] @ step_fields ''insert'' e s (rr_serial_number body) @
           topology_fields t @ [(''argv'', strings argv)])
       else
         andthen (read_settings w) (\<lambda>st.
         andthen (destructive_gates st) (\<lambda>_.
         andthen (replace_precheck w rq ''insert'' (insert_message e s (rr_serial_number body) t [])
           (Some insert_precheck_marker) e s (rr_serial_number body)) (\<lambda>live.
         andthen (require_that (ds_serial_number live = rr_serial_number body) 409
           (error_body ''live serial mismatch (replacement drive)'')) (\<lambda>_.
         andthen (require_that (ds_state live = ''UGood'') 409
           (error_body ''replacement insert requires a live UGood drive'')) (\<lambda>_.
           run_insert_command w rq e s (rr_serial_number body) t argv)))))))))))))"

subsection \<open>Rebuild records\<close>

definition load_replacement_cycle_marker_for_slot :: "int \<Rightarrow> int \<Rightarrow> db \<Rightarrow> event_row option" where
  "load_replacement_cycle_marker_for_slot e s d =
     best_by event_order (filter (\<lambda>x. ev_category x = operator_action \<and>
         like_prefix (''replace step insert '' @ drive_ref e s @ '' '') (ev_summary x) \<and>
         like_suffix '' succeeded'' (ev_summary x) \<and> \<not> like_contains '' failed'' (ev_summary x))
       (db_events d))"

definition after_marker :: "event_row option \<Rightarrow> event_row \<Rightarrow> bool" where
  "after_marker marker x \<longleftrightarrow> (case marker of None \<Rightarrow> True | Some m \<Rightarrow> event_order m < event_order x)"

definition rebuild_complete_message :: "int \<Rightarrow> int \<Rightarrow> string" where
  "rebuild_complete_message e s = ''rebuild complete '' @ drive_ref e s"

definition rebuild_progress_message :: "int \<Rightarrow> int \<Rightarrow> string" where
  "rebuild_progress_message e s = ''rebuild progress observed '' @ drive_ref e s"

definition load_rebuild_complete_operator_action_for_slot ::
  "int \<Rightarrow> int \<Rightarrow> event_row option \<Rightarrow> db \<Rightarrow> event_row option" where
  "load_rebuild_complete_operator_action_for_slot e s marker d =
     best_by event_order (filter (\<lambda>x. ev_category x = operator_action \<and>
         ev_summary x = rebuild_complete_message e s \<and> after_marker marker x) (db_events d))"

definition load_rebuild_progress_marker_for_slot ::
  "int \<Rightarrow> int \<Rightarrow> event_row option \<Rightarrow> db \<Rightarrow> event_row option" where
  "load_rebuild_progress_marker_for_slot e s marker d =
     best_by event_order (filter (\<lambda>x. ev_category x = ''system'' \<and>
         ev_summary x = rebuild_progress_message e s \<and> after_marker marker x) (db_events d))"

definition record_rebuild_progress_observed_once ::
  "instant \<Rightarrow> int \<Rightarrow> int \<Rightarrow> int \<Rightarrow> string \<Rightarrow> db \<Rightarrow> db" where
  "record_rebuild_progress_observed_once now e s percent state d =
     (let marker = load_replacement_cycle_marker_for_slot e s d
      in if load_rebuild_progress_marker_for_slot e s marker d \<noteq> None then d
         else fst (record_event now Info ''system'' ''Controller'' (rebuild_progress_message e s) None
                (Some [(''percent_complete'', JInt percent), (''state'', JStr state)]) d))"

definition record_rebuild_complete_once :: "instant \<Rightarrow> string \<Rightarrow> int \<Rightarrow> int \<Rightarrow> db \<Rightarrow> db" where
  "record_rebuild_complete_once now username e s d =
     (let marker = load_replacement_cycle_marker_for_slot e s d
      in if load_rebuild_complete_operator_action_for_slot e s marker d \<noteq> None then d
         else fst (record_operator_action now username operator_action (rebuild_complete_message e s) None d))"

definition rebuild_error_reply :: "action_request \<Rightarrow> storcli_error \<Rightarrow> reply" where
  "rebuild_error_reply rq x =
     (let body = [(''error'', JStr (storcli_error_name x)), (''detail'', JStr (err_text x))]
      in if is_htmx_request rq then Page 200 ''partials/rebuild_progress_error.html'' body else Reply 502 body)"

definition rebuild_fields :: "rebuild_status \<Rightarrow> dict" where
  "rebuild_fields st =
     [(''percent_complete'', json_of_int (rs_percent_complete st)), (''state'', JStr (rs_state st)),
      (''time_remaining_minutes'', json_of_int (rs_time_remaining st))]"

definition rebuild_records :: "web_env \<Rightarrow> rebuild_status \<Rightarrow> unit action" where
  "rebuild_records w st =
     (case rs_percent_complete st of
        None \<Rightarrow> ret ()
      | Some n \<Rightarrow>
          if 0 \<le> n \<and> n < 100 \<and> rs_state st = ''In progress'' then transaction w ''rebuild progress''
          else if n = 100 \<and> rs_state st = ''Complete'' then transaction w ''rebuild complete'' else ret ())"

definition drive_rebuild_status :: "web_env \<Rightarrow> action_request \<Rightarrow> string \<Rightarrow> string \<Rightarrow> reply action" where
  "drive_rebuild_status w rq enclosure slot =
     andthen (bad_request (bindr (we_int w enclosure) (\<lambda>e. bindr (we_int w slot) (\<lambda>s.
       bindr (build_rebuild_status_command e s) (\<lambda>argv. Inr (e, s, argv)))))) (\<lambda>(e, s, argv).
     andthen (catch_storcli (andthen (run_live w argv) (\<lambda>payload.
       storcli_step (parse_rebuild_status payload (Some (drive_path e s)))))) (\<lambda>r.
       case r of
         Inl (x, _) \<Rightarrow> ret (rebuild_error_reply rq x)
       | Inr st \<Rightarrow>
           andthen (rebuild_records w st) (\<lambda>_.
             if accepts_html rq then ret (Page 200 ''partials/rebuild_progress.html'' (rebuild_fields st))
             else respond 200 ([(''enclosure'', JInt e), (''slot'', JInt s)] @ rebuild_fields st))))"

end
