(* ===== verification/Pages.thy ===== *)
theory Pages
  imports ControllerDetail DriveDetail ReplaceRoutes
begin

section \<open>Page handlers\<close>

text \<open>
  Handlers of \<open>web/routes.py\<close> that answer with the data of the other theories: the health of the process, the
  maintenance window, the page of a drive with its addresses, and the redirections of its short address.

  \<^item> \<open>slot_url\<close> and \<open>action_url\<close> are the paths of the routes of a drive, \<open>to_number\<close> is \<open>int\<close> of a text.
\<close>

subsection \<open>Health of the process\<close>

record process_state =
  px_collector_enabled :: bool
  px_has_collector :: bool
  px_has_lock :: bool
  px_has_scheduler :: bool
  px_retry_task_done :: "bool option"

definition task_is_alive :: "bool option \<Rightarrow> bool" where
  "task_is_alive task_done = (task_done = Some False)"

definition collector_health :: "process_state \<Rightarrow> string" where
  "collector_health s =
     (if \<not> px_collector_enabled s then ''idle''
      else if px_has_collector s \<and> px_has_lock s \<and> px_has_scheduler s then ''ok''
      else if task_is_alive (px_retry_task_done s) then ''lock_held'' else ''idle'')"

record health_reply =
  hr_status_code :: int
  hr_status :: string
  hr_database :: string
  hr_collector :: string

text \<open>\<open>reachable\<close>: \<open>SELECT 1\<close> returns.\<close>

definition database_health :: "bool \<Rightarrow> string" where
  "database_health reachable = (if reachable then ''ok'' else ''error'')"

definition healthz :: "bool \<Rightarrow> process_state \<Rightarrow> health_reply" where
  "healthz reachable s =
     (let database = database_health reachable; status = (if database = ''ok'' then ''ok'' else ''degraded'')
      in \<lparr>hr_status_code = (if status = ''ok'' then 200 else 503), hr_status = status, hr_database = database,
          hr_collector = collector_health s\<rparr>)"

subsection \<open>The maintenance window\<close>

record maintenance_reply =
  mt_active :: bool
  mt_expires_at :: "instant option"
  mt_started_by :: "string option"
  mt_remaining_seconds :: "int option"

definition maintenance_get :: "instant \<Rightarrow> db \<Rightarrow> py_error + maintenance_reply" where
  "maintenance_get now d =
     bindr (get_maintenance_state (Aware now) d) (\<lambda>state.
       Inr \<lparr>mt_active = mp_active state, mt_expires_at = mp_expires_at state, mt_started_by = mp_started_by state,
            mt_remaining_seconds =
              (case mp_expires_at state of
                 Some t \<Rightarrow> if mp_active state \<and> t > now \<and> (t - now) div sec 1 > 0 then Some ((t - now) div sec 1) else None
               | None \<Rightarrow> None)\<rparr>)"

text \<open>The body of a start request.\<close>

definition maintenance_request :: "int \<Rightarrow> string \<Rightarrow> (int \<times> string) option" where
  "maintenance_request duration_minutes reason =
     (if 1 \<le> duration_minutes \<and> duration_minutes \<le> 1440 \<and> 1 \<le> length reason \<and> length reason \<le> 200 \<and> py_strip reason \<noteq> []
      then Some (duration_minutes, py_strip reason) else None)"

subsection \<open>The page of a drive\<close>

definition not_found :: page_fault where
  "not_found = Page_refused 404 ''Not Found''"

definition parse_slot_ref :: "(string \<Rightarrow> int option) \<Rightarrow> string \<Rightarrow> page_fault + (int \<times> int)" where
  "parse_slot_ref to_number address =
     (if CHR '':'' \<notin> set address then Inl not_found
      else case (to_number (takeWhile (\<lambda>c. c \<noteq> CHR '':'') address),
                 to_number (tl (dropWhile (\<lambda>c. c \<noteq> CHR '':'') address))) of
             (Some e, Some k) \<Rightarrow> Inr (e, k) | _ \<Rightarrow> Inl not_found)"

definition prefix_optional_drive_url ::
  "(string \<Rightarrow> int option) \<Rightarrow> (int \<Rightarrow> int \<Rightarrow> string) \<Rightarrow> string option \<Rightarrow> page_fault + string option" where
  "prefix_optional_drive_url to_number slot_url url =
     (case url of
        None \<Rightarrow> Inr None
      | Some u \<Rightarrow>
          (let ref = (if starts_with ''/drives/'' u then drop 8 u else u)
           in case (to_number (takeWhile (\<lambda>c. c \<noteq> CHR '':'') ref), to_number (tl (dropWhile (\<lambda>c. c \<noteq> CHR '':'') ref))) of
                (Some e, Some k) \<Rightarrow> Inr (Some (slot_url e k)) | _ \<Rightarrow> Inl (Page_crashed ValueError)))"

definition action_route_names :: "(string \<times> string) list" where
  "action_route_names =
     [(''Mark as UBad'', ''drive_mark_ubad''), (''Mark as UGood'', ''drive_mark_ugood''), (''Spin Down'', ''drive_spin_down''),
      (''Hot Spare'', ''drive_make_hot_spare'')]"

text \<open>A label without a route raises a \<open>LookupError\<close>, which the handler answers with 404.\<close>

definition with_action_url :: "(string \<Rightarrow> int \<Rightarrow> int \<Rightarrow> string) \<Rightarrow> int \<Rightarrow> int \<Rightarrow> action_button \<Rightarrow> page_fault + action_button" where
  "with_action_url action_url e k b =
     (case map_of action_route_names (ab_label b) of
        None \<Rightarrow> Inl not_found | Some route \<Rightarrow> Inr (b\<lparr>ab_url := action_url route e k\<rparr>))"

definition prefix_drive_page_urls ::
  "(string \<Rightarrow> int option) \<Rightarrow> (int \<Rightarrow> int \<Rightarrow> string) \<Rightarrow> (string \<Rightarrow> int \<Rightarrow> int \<Rightarrow> string) \<Rightarrow> drive_page \<Rightarrow> page_fault + drive_page" where
  "prefix_drive_page_urls to_number slot_url action_url page =
     bindr (map_res (with_action_url action_url (pp_enclosure (dg_position page)) (pp_slot (dg_position page)))
              (dg_advanced_actions page)) (\<lambda>actions.
     bindr (prefix_optional_drive_url to_number slot_url (dg_prev_drive_url page)) (\<lambda>prev_url.
     bindr (prefix_optional_drive_url to_number slot_url (dg_next_drive_url page)) (\<lambda>next_url.
       Inr (page\<lparr>dg_prev_drive_url := prev_url, dg_next_drive_url := next_url, dg_advanced_actions := actions,
         dg_position := (dg_position page)\<lparr>pp_backplane_layout :=
           map (\<lambda>b. b\<lparr>bp_detail_url := slot_url (bp_enclosure_id b) (bp_slot_id b)\<rparr>)
             (pp_backplane_layout (dg_position page))\<rparr>\<rparr>))))"

definition get_drive_detail ::
  "bool \<Rightarrow> (string \<Rightarrow> int option) \<Rightarrow> (int \<Rightarrow> int \<Rightarrow> string) \<Rightarrow> (string \<Rightarrow> int \<Rightarrow> int \<Rightarrow> string) \<Rightarrow> settings \<Rightarrow> page_env \<Rightarrow>
   db \<Rightarrow> instant \<Rightarrow> int \<Rightarrow> int \<Rightarrow> page_fault + drive_page \<times> (string \<times> string) option" where
  "get_drive_detail full to_number slot_url action_url st env d now e k =
     bindr (load_drive_page d e k st env 30 now) (\<lambda>page.
     bindr (prefix_drive_page_urls to_number slot_url action_url page) (\<lambda>shown.
       Inr (shown, replacement_resume_context full e k (di_serial_number (dg_identity shown)) d)))"

definition get_drive_detail_slot_ref ::
  "bool \<Rightarrow> (string \<Rightarrow> int option) \<Rightarrow> (int \<Rightarrow> int \<Rightarrow> string) \<Rightarrow> (string \<Rightarrow> int \<Rightarrow> int \<Rightarrow> string) \<Rightarrow> settings \<Rightarrow> page_env \<Rightarrow>
   db \<Rightarrow> instant \<Rightarrow> string \<Rightarrow> page_fault + drive_page \<times> (string \<times> string) option" where
  "get_drive_detail_slot_ref full to_number slot_url action_url st env d now address =
     bindr (parse_slot_ref to_number address) (\<lambda>(e, k).
       get_drive_detail full to_number slot_url action_url st env d now e k)"

end
