(* ===== verification/ControllerRoutes.thy ===== *)
theory ControllerRoutes
  imports ReplaceRoutes
begin

section \<open>Controller actions\<close>

text \<open>
  The handlers of \<open>web/routes.py\<close> that act on the controller: patrol read, consistency check,
  buzzer, foreign configuration, and the maintenance window; and the dependency in front of every
  action route. HTMX requests get their rejections with status 200.
\<close>

subsection \<open>Operations in the background\<close>

definition rejection_status :: "action_request \<Rightarrow> int \<Rightarrow> int" where
  "rejection_status rq code = (if is_htmx_request rq then 200 else code)"

definition refuse :: "action_request \<Rightarrow> dict \<Rightarrow> int \<Rightarrow> 'a action" where
  "refuse rq body code = respond (rejection_status rq code) body"

definition audit_reject ::
  "web_env \<Rightarrow> action_request \<Rightarrow> string \<Rightarrow> string \<Rightarrow> string \<Rightarrow> dict \<Rightarrow> int \<Rightarrow> 'a action" where
  "audit_reject w rq action msg reason body code =
     andthen (audited w rq operator_action (msg @ '' rejected: '' @ reason) None
       [(''action'', JStr action), (''rejection_reason'', JStr reason)]) (\<lambda>_. refuse rq body code)"

definition fail_precheck :: "web_env \<Rightarrow> action_request \<Rightarrow> string \<Rightarrow> string \<Rightarrow> storcli_error \<Rightarrow> 'a action" where
  "fail_precheck w rq action msg x =
     andthen (audited w rq operator_action (msg @ '' '' @ failure_text x) None
       [(''action'', JStr action), (''storcli_error'', JStr (err_text x))]) (\<lambda>_.
       refuse rq [(''error'', JStr (storcli_error_name x)), (''action'', JStr action), (''detail'', JStr (err_text x))] 502)"

text \<open>The \<open>try\<close> block of a mutation: a mode change under full actions reads the state first.\<close>

definition unknown_state :: storcli_error where
  "unknown_state = CommandFailed ''Operation state is unknown. Refresh status before changing mode.'' None"

definition checked_command ::
  "web_env \<Rightarrow> action_request \<Rightarrow> string \<Rightarrow> (storcli_failure, string) io \<Rightarrow> string list \<Rightarrow>
   (dict option \<times> (storcli_error \<times> bool option) option) action" where
  "checked_command w rq action live_state argv =
     (if action = ''mode'' \<and> full_actions w then
        andthen (catch_storcli live_state) (\<lambda>r.
          case r of
            Inl e \<Rightarrow> ret (None, Some e)
          | Inr state \<Rightarrow>
              if py_lower state = ''unknown'' then ret (None, Some (unknown_state, None))
              else run_command w rq None argv)
      else run_command w rq None argv)"

definition refresh_error_body :: "string \<Rightarrow> storcli_error \<Rightarrow> dict" where
  "refresh_error_body action x =
     [(''error'', JStr (case x of ParseError _ \<Rightarrow> ''storcli refresh parse failed'' | _ \<Rightarrow> ''storcli refresh failed'')),
      (''action'', JStr action), (''detail'', JStr (err_text x))]"

definition mutation_error_body :: "string \<Rightarrow> string list \<Rightarrow> storcli_error \<Rightarrow> dict" where
  "mutation_error_body action argv x =
     [(''error'', JStr ''storcli command failed''), (''action'', JStr action), (''argv'', strings argv),
      (''detail'', JStr (err_text x))]"

text \<open>The audit entry of a mutation, then the refusal when the command failed.\<close>

definition audit_mutation ::
  "web_env \<Rightarrow> action_request \<Rightarrow> string \<Rightarrow> string \<Rightarrow> string list \<Rightarrow>
   dict option \<times> (storcli_error \<times> bool option) option \<Rightarrow> unit action" where
  "audit_mutation w rq action msg argv outcome =
     andthen (audited w rq operator_action (msg @ '' '' @ outcome_text (snd outcome)) None
       ([(''action'', JStr action), (''argv'', strings argv)] @ optional_entries (fst outcome) (snd outcome))) (\<lambda>_.
       case snd outcome of
         None \<Rightarrow> ret ()
       | Some (x, _) \<Rightarrow> refuse rq (mutation_error_body action argv x) 502)"

subsection \<open>Patrol read\<close>

definition query_live_patrol_read :: "web_env \<Rightarrow> (storcli_failure, patrol_read_status) io" where
  "query_live_patrol_read w =
     andthen (run_live w build_patrol_read_show_command) (\<lambda>payload.
     andthen (storcli_step (ensure_command_succeeded payload)) (\<lambda>_.
       storcli_step (parse_patrol_read_status payload)))"

definition patrol_read_response_body :: "patrol_read_status \<Rightarrow> dict" where
  "patrol_read_response_body s =
     [(''mode'', JStr (pr_mode s)), (''state'', JStr (pr_state s)),
      (''progress_percent'', json_of_int (pr_progress_percent s)),
      (''completed_drive_count'', json_of_int (pr_completed_drive_count s)),
      (''last_run_timestamp'', json_of_text (pr_last_run s))]"

definition query_error :: "action_request \<Rightarrow> storcli_error \<Rightarrow> 'a action" where
  "query_error rq x =
     refuse rq [(''error'', JStr (storcli_error_name x)), (''detail'', JStr (err_text x))] 502"

definition controller_patrol_read :: "web_env \<Rightarrow> action_request \<Rightarrow> reply action" where
  "controller_patrol_read w rq =
     andthen (catch_storcli (query_live_patrol_read w)) (\<lambda>r.
       case r of
         Inl (x, _) \<Rightarrow> query_error rq x
       | Inr s \<Rightarrow> respond 200 (patrol_read_response_body s))"

definition reject_patrol_read_maintenance ::
  "web_env \<Rightarrow> action_request \<Rightarrow> string \<Rightarrow> string \<Rightarrow> write_settings \<Rightarrow> unit action" where
  "reject_patrol_read_maintenance w rq action msg st =
     (if ws_maintenance_mode st then ret ()
      else audit_reject w rq action msg ''maintenance_mode required''
        [(''error'', JStr ''patrol read changes require maintenance_mode''),
         (''maintenance_mode'', JBool (ws_maintenance_mode st))] 403)"

definition run_patrol_read_mutation ::
  "web_env \<Rightarrow> action_request \<Rightarrow> write_settings \<Rightarrow> string \<Rightarrow> string list \<Rightarrow> string \<Rightarrow> reply action" where
  "run_patrol_read_mutation w rq st action argv msg =
     andthen (reject_patrol_read_maintenance w rq action msg st) (\<lambda>_.
     andthen (checked_command w rq action (andthen (query_live_patrol_read w) (\<lambda>s. ret (pr_state s))) argv) (\<lambda>outcome.
     andthen (audit_mutation w rq action msg argv outcome) (\<lambda>_.
     andthen (catch_storcli (query_live_patrol_read w)) (\<lambda>r.
       case r of
         Inl (x, _) \<Rightarrow> refuse rq (refresh_error_body action x) 502
       | Inr s \<Rightarrow> respond 200 (patrol_read_response_body s)))))"

definition controller_patrol_read_start :: "web_env \<Rightarrow> action_request \<Rightarrow> reply action" where
  "controller_patrol_read_start w rq =
     andthen (read_settings w) (\<lambda>st.
     andthen (reject_patrol_read_maintenance w rq ''start'' ''patrol read start'' st) (\<lambda>_.
     andthen (catch_storcli (query_live_patrol_read w)) (\<lambda>r.
       case r of
         Inl (x, _) \<Rightarrow> fail_precheck w rq ''start'' ''patrol read start'' x
       | Inr s \<Rightarrow>
           if \<not> patrol_read_can_start s then
             audit_reject w rq ''start'' ''patrol read start'' ''already running''
               [(''error'', JStr ''patrol read already running''),
                (''patrol_read'', JObj (patrol_read_response_body s))] 409
           else run_patrol_read_mutation w rq st ''start'' build_patrol_read_start_command ''patrol read start'')))"

definition controller_patrol_read_stop :: "web_env \<Rightarrow> action_request \<Rightarrow> reply action" where
  "controller_patrol_read_stop w rq =
     andthen (read_settings w) (\<lambda>st.
     andthen (reject_patrol_read_maintenance w rq ''stop'' ''patrol read stop'' st) (\<lambda>_.
     andthen (catch_storcli (query_live_patrol_read w)) (\<lambda>r.
       case r of
         Inl (x, _) \<Rightarrow> fail_precheck w rq ''stop'' ''patrol read stop'' x
       | Inr s \<Rightarrow>
           if \<not> patrol_read_can_stop s then
             audit_reject w rq ''stop'' ''patrol read stop'' ''not running''
               [(''error'', JStr ''patrol read is not running''),
                (''patrol_read'', JObj (patrol_read_response_body s))] 409
           else run_patrol_read_mutation w rq st ''stop'' build_patrol_read_stop_command ''patrol read stop'')))"

definition parse_operation_body :: "action_request \<Rightarrow> 'b parsed_body \<Rightarrow> 'b action" where
  "parse_operation_body rq b =
     (case b of
        NotJson \<Rightarrow> refuse rq (error_body ''request body must be valid JSON'') 400
      | Invalid errors \<Rightarrow> refuse rq [(''error'', JStr ''invalid request body''), (''detail'', errors)] 400
      | Body x \<Rightarrow> ret x)"

definition operation_argv :: "action_request \<Rightarrow> string + string list \<Rightarrow> string list action" where
  "operation_argv rq m = (case m of Inl msg \<Rightarrow> refuse rq (error_body msg) 400 | Inr argv \<Rightarrow> ret argv)"

definition controller_patrol_read_mode :: "web_env \<Rightarrow> action_request \<Rightarrow> string parsed_body \<Rightarrow> reply action" where
  "controller_patrol_read_mode w rq raw =
     andthen (parse_operation_body rq raw) (\<lambda>mode.
     andthen (operation_argv rq (build_patrol_read_mode_command mode)) (\<lambda>argv.
     andthen (read_settings w) (\<lambda>st.
       run_patrol_read_mutation w rq st ''mode'' argv (''patrol read mode set to '' @ mode))))"

subsection \<open>Consistency check\<close>

text \<open>Its bodies have one more way to be wrong: JSON that is not an object.\<close>

datatype 'b operation_body = NotObject | Parsed "'b parsed_body"

definition parse_consistency_body :: "action_request \<Rightarrow> 'b operation_body \<Rightarrow> 'b action" where
  "parse_consistency_body rq b =
     (case b of
        NotObject \<Rightarrow> refuse rq (error_body ''request body must be an object'') 400
      | Parsed p \<Rightarrow> parse_operation_body rq p)"

definition query_live_consistency_check :: "web_env \<Rightarrow> (storcli_failure, consistency_check_status) io" where
  "query_live_consistency_check w =
     andthen (run_live w build_consistency_check_show_command) (\<lambda>show_payload.
     andthen (run_live w build_consistency_check_show_progress_command) (\<lambda>progress_payload.
     andthen (storcli_step (ensure_command_succeeded show_payload)) (\<lambda>_.
     andthen (storcli_step (ensure_command_succeeded progress_payload)) (\<lambda>_.
       storcli_step (parse_consistency_check_status show_payload progress_payload)))))"

definition consistency_check_response_body :: "consistency_check_status \<Rightarrow> dict" where
  "consistency_check_response_body s =
     [(''mode'', JStr (cc_mode s)), (''state'', JStr (cc_state s)),
      (''progress_percent'', json_of_int (cc_progress_percent s)),
      (''last_run_timestamp'', json_of_text (cc_last_run s)),
      (''inconsistency_count'', json_of_int (cc_inconsistency_count s)),
      (''inconsistency_detail'', json_of_text (cc_inconsistency_detail s))]"

definition inconsistency_category :: string where
  "inconsistency_category = ''consistency_check_inconsistency''"

definition record_consistency_check_inconsistency_state ::
  "instant \<Rightarrow> consistency_check_status \<Rightarrow> db \<Rightarrow> db" where
  "record_consistency_check_inconsistency_state now s d =
     (let existing = map_option ev_summary
            (best_by event_order (filter (\<lambda>x. ev_category x = inconsistency_category) (db_events d)));
          detected = ''consistency check inconsistency detected'';
          resolved = ''consistency check inconsistency resolved'';
          record_it = (\<lambda>severity summary. fst (record_event now severity inconsistency_category ''Controller'' summary
            None (Some (consistency_check_response_body s)) d))
      in if cc_has_inconsistency s then (if existing = Some detected then d else record_it Warning detected)
         else if existing = None \<or> existing = Some resolved then d
         else record_it Info resolved)"

definition controller_consistency_check :: "web_env \<Rightarrow> action_request \<Rightarrow> reply action" where
  "controller_consistency_check w rq =
     andthen (catch_storcli (query_live_consistency_check w)) (\<lambda>r.
       case r of
         Inl (x, _) \<Rightarrow> query_error rq x
       | Inr s \<Rightarrow>
           andthen (transaction w ''inconsistency'') (\<lambda>_. respond 200 (consistency_check_response_body s)))"

definition reject_consistency_check_maintenance ::
  "web_env \<Rightarrow> action_request \<Rightarrow> string \<Rightarrow> string \<Rightarrow> write_settings \<Rightarrow> unit action" where
  "reject_consistency_check_maintenance w rq action msg st =
     (if ws_maintenance_mode st then ret ()
      else audit_reject w rq action msg ''maintenance_mode required''
        [(''error'', JStr ''consistency check changes require maintenance_mode''),
         (''maintenance_mode'', JBool (ws_maintenance_mode st))] 403)"

definition run_consistency_check_mutation ::
  "web_env \<Rightarrow> action_request \<Rightarrow> write_settings \<Rightarrow> string \<Rightarrow> string list \<Rightarrow> string \<Rightarrow> reply action" where
  "run_consistency_check_mutation w rq st action argv msg =
     andthen (reject_consistency_check_maintenance w rq action msg st) (\<lambda>_.
     andthen (checked_command w rq action (andthen (query_live_consistency_check w) (\<lambda>s. ret (cc_state s))) argv) (\<lambda>outcome.
     andthen (audit_mutation w rq action msg argv outcome) (\<lambda>_.
     andthen (catch_storcli (query_live_consistency_check w)) (\<lambda>r.
       case r of
         Inl (x, _) \<Rightarrow> refuse rq (refresh_error_body action x) 502
       | Inr s \<Rightarrow>
           andthen (transaction w ''inconsistency'') (\<lambda>_. respond 200 (consistency_check_response_body s))))))"

definition consistency_start_message :: "int option \<Rightarrow> string" where
  "consistency_start_message vd =
     (case vd of None \<Rightarrow> ''consistency check start all'' | Some v \<Rightarrow> ''consistency check start vd '' @ show_int v)"

definition consistency_target :: "int option \<Rightarrow> string" where
  "consistency_target vd = (case vd of None \<Rightarrow> ''all'' | Some v \<Rightarrow> show_int v)"

definition controller_consistency_check_start ::
  "web_env \<Rightarrow> action_request \<Rightarrow> int option operation_body \<Rightarrow> reply action" where
  "controller_consistency_check_start w rq raw =
     andthen (read_settings w) (\<lambda>st.
     andthen (parse_consistency_body rq raw) (\<lambda>vd.
     andthen (reject_consistency_check_maintenance w rq ''start'' (consistency_start_message vd) st) (\<lambda>_.
     andthen (catch_storcli (query_live_consistency_check w)) (\<lambda>r.
       case r of
         Inl (x, _) \<Rightarrow> fail_precheck w rq ''start'' (consistency_start_message vd) x
       | Inr s \<Rightarrow>
           if \<not> consistency_check_can_start s then
             audit_reject w rq ''start'' (consistency_start_message vd) ''already running''
               [(''error'', JStr ''consistency check already running''), (''target'', JStr (consistency_target vd)),
                (''consistency_check'', JObj (consistency_check_response_body s))] 409
           else
             andthen (built (build_consistency_check_start_command vd)) (\<lambda>argv.
               run_consistency_check_mutation w rq st ''start'' argv (consistency_start_message vd))))))"

definition controller_consistency_check_stop :: "web_env \<Rightarrow> action_request \<Rightarrow> reply action" where
  "controller_consistency_check_stop w rq =
     andthen (read_settings w) (\<lambda>st.
     andthen (reject_consistency_check_maintenance w rq ''stop'' ''consistency check stop'' st) (\<lambda>_.
     andthen (catch_storcli (query_live_consistency_check w)) (\<lambda>r.
       case r of
         Inl (x, _) \<Rightarrow> fail_precheck w rq ''stop'' ''consistency check stop'' x
       | Inr s \<Rightarrow>
           if \<not> consistency_check_can_stop s then
             audit_reject w rq ''stop'' ''consistency check stop'' ''not running''
               [(''error'', JStr ''consistency check is not running''),
                (''consistency_check'', JObj (consistency_check_response_body s))] 409
           else run_consistency_check_mutation w rq st ''stop'' build_consistency_check_stop_command
                  ''consistency check stop'')))"

definition controller_consistency_check_mode ::
  "web_env \<Rightarrow> action_request \<Rightarrow> string operation_body \<Rightarrow> reply action" where
  "controller_consistency_check_mode w rq raw =
     andthen (parse_consistency_body rq raw) (\<lambda>mode.
     andthen (operation_argv rq (build_consistency_check_mode_command mode)) (\<lambda>argv.
     andthen (read_settings w) (\<lambda>st.
       run_consistency_check_mutation w rq st ''mode'' argv (''consistency check mode set to '' @ mode))))"

subsection \<open>Buzzer\<close>

datatype buzzer_action = Silence | Disable | Enable

fun buzzer_name :: "buzzer_action \<Rightarrow> string" where
  "buzzer_name Silence = ''silence''"
| "buzzer_name Disable = ''disable''"
| "buzzer_name Enable = ''enable''"

fun buzzer_argv :: "buzzer_action \<Rightarrow> string list" where
  "buzzer_argv Silence = build_alarm_silence_command"
| "buzzer_argv Disable = build_alarm_disable_command"
| "buzzer_argv Enable = build_alarm_enable_command"

definition buzzer_category :: "buzzer_action \<Rightarrow> string" where
  "buzzer_category a = ''controller_buzzer_'' @ buzzer_name a"

fun buzzer_audit_message :: "string \<Rightarrow> buzzer_action \<Rightarrow> string" where
  "buzzer_audit_message user Silence =
     ''Buzzer silence requested by operator '' @ user @
     ''; target: silence current alarm without disabling future alarms; result:''"
| "buzzer_audit_message user Disable =
     ''Buzzer disable requested by operator '' @ user @ ''; target setting: off; result:''"
| "buzzer_audit_message user Enable =
     ''Buzzer enable requested by operator '' @ user @ ''; target setting: on; result:''"

definition buzzer_outcome :: "(storcli_error \<times> bool option) option \<Rightarrow> string" where
  "buzzer_outcome err =
     (case err of
        None \<Rightarrow> ''succeeded''
      | Some (x, sent) \<Rightarrow>
          (if sent = Some False then ''failed before execution'' else ''failed'') @ '': '' @ error_class x @ '': '' @
          truncate_audit_detail (err_text x))"

definition buzzer_reply :: "buzzer_action \<Rightarrow> (storcli_error \<times> bool option) option \<Rightarrow> reply" where
  "buzzer_reply a err =
     (case err of
        None \<Rightarrow> See_other ''overview'' []
      | Some (x, sent) \<Rightarrow>
          (let fields = [(''action'', JStr (buzzer_name a)), (''argv'', strings (buzzer_argv a)),
                         (''detail'', JStr (err_text x))]
           in if sent = Some False
              then Reply 409 ([(''error'', JStr ''storcli preflight failed'')] @ fields @
                     [(''execution'', JStr ''not_sent'')])
              else Reply 502 ([(''error'', JStr ''storcli command failed'')] @ fields)))"

definition run_controller_buzzer_action :: "web_env \<Rightarrow> action_request \<Rightarrow> buzzer_action \<Rightarrow> reply action" where
  "run_controller_buzzer_action w rq a =
     andthen (read_settings w) (\<lambda>st.
       if \<not> ws_maintenance_mode st then
         andthen (audited w rq (buzzer_category a)
           (buzzer_audit_message (ar_user rq) a @ '' rejected: maintenance_mode required'') None
           [(''action'', JStr (buzzer_name a)), (''rejection_reason'', JStr ''maintenance_mode required'')]) (\<lambda>_.
           respond 403 [(''error'', JStr ''controller buzzer changes require maintenance_mode''),
             (''maintenance_mode'', JBool (ws_maintenance_mode st))])
       else
         andthen (run_command w rq None (buzzer_argv a)) (\<lambda>(result, err).
         andthen (audited w rq (buzzer_category a)
           (buzzer_audit_message (ar_user rq) a @ '' '' @ buzzer_outcome err) None
           ([(''action'', JStr (buzzer_name a)), (''argv'', strings (buzzer_argv a))] @ optional_entries result err)) (\<lambda>_.
           ret (buzzer_reply a err))))"

end
