(* ===== verification/ForeignRoutes.thy ===== *)
theory ForeignRoutes
  imports ControllerRoutes
begin

section \<open>Foreign configuration, maintenance, and the guard of all actions\<close>

text \<open>
  The handlers of \<open>web/routes.py\<close> that import or clear a foreign configuration, the maintenance
  window, the dependency in front of every route (\<open>require_controller_capability\<close> with
  \<open>services/action_capabilities.py\<close>), and the table of action routes.
\<close>

subsection \<open>Foreign configuration\<close>

definition foreign_config_response_body :: "foreign_config_info \<Rightarrow> dict" where
  "foreign_config_response_body f =
     [(''present'', JBool (fci_present f)), (''dg_count'', JInt (fci_dg_count f)),
      (''drive_count'', JInt (fci_drive_count f)), (''total_size_bytes'', json_of_int (fci_total_size_bytes f)),
      (''digest'', JStr (fci_digest f)),
      (''disk_groups'', JArr (map (\<lambda>g. JObj [(''dg_id'', JInt (fg_dg_id g)),
         (''drive_count'', JInt (fg_drive_count g)), (''size_bytes'', json_of_int (fg_size_bytes g))])
         (fci_disk_groups f)))]"

definition query_live_foreign_config :: "web_env \<Rightarrow> (storcli_failure, foreign_config_info) io" where
  "query_live_foreign_config w =
     andthen (run_live w build_foreign_config_show_command) (\<lambda>payload.
       storcli_step (parse_foreign_config (fingerprint (we_runner w)) payload))"

definition any_drive_rebuilding :: "db \<Rightarrow> bool option" where
  "any_drive_rebuilding d =
     map_option (\<lambda>x. list_ex (\<lambda>p. pdi_state p = ''Rbld'') (ps_physical_drives x)) (get_latest_snapshot d)"

definition foreign_message :: "string \<Rightarrow> string \<Rightarrow> string \<Rightarrow> string" where
  "foreign_message action digest outcome =
     ''foreign config '' @ action @ '' digest='' @ (if digest = [] then ''unknown'' else digest) @ '' '' @ outcome"

definition reject_foreign_config_destructive ::
  "web_env \<Rightarrow> action_request \<Rightarrow> string \<Rightarrow> string \<Rightarrow> string \<Rightarrow> dict \<Rightarrow> int \<Rightarrow> 'a action" where
  "reject_foreign_config_destructive w rq action digest reason body code =
     andthen (audited w rq operator_action (foreign_message action digest (''rejected: '' @ reason)) None
       [(''action'', JStr action), (''rejection_reason'', JStr reason)]) (\<lambda>_. respond code body)"

definition foreign_query_step :: "web_env \<Rightarrow> action_request \<Rightarrow> string \<Rightarrow> foreign_config_info action" where
  "foreign_query_step w rq action =
     andthen (catch_storcli (query_live_foreign_config w)) (\<lambda>r.
       case r of
         Inl (x, _) \<Rightarrow>
           reject_foreign_config_destructive w rq action []
             (storcli_error_name x @ '': '' @ truncate_audit_detail (err_text x))
             [(''error'', JStr (storcli_error_name x)), (''detail'', JStr (err_text x))] 502
       | Inr f \<Rightarrow> ret f)"

definition require_or_reject ::
  "web_env \<Rightarrow> action_request \<Rightarrow> string \<Rightarrow> string \<Rightarrow> bool \<Rightarrow> string \<Rightarrow> dict \<Rightarrow> int \<Rightarrow> unit action" where
  "require_or_reject w rq action digest ok reason body code =
     (if ok then ret () else reject_foreign_config_destructive w rq action digest reason body code)"

text \<open>Without full actions the latest snapshot has to say that no drive rebuilds.\<close>

definition rebuild_gate :: "web_env \<Rightarrow> action_request \<Rightarrow> string \<Rightarrow> string \<Rightarrow> unit action" where
  "rebuild_gate w rq action digest =
     (if full_actions w then ret ()
      else andthen (read_db w) (\<lambda>d.
        case any_drive_rebuilding d of
          None \<Rightarrow> reject_foreign_config_destructive w rq action digest ''rebuild state unknown''
            (error_body (''cannot '' @ action @ '' foreign config while rebuild state is unknown '' @
               ''(no controller snapshot available)'')) 409
        | Some True \<Rightarrow> reject_foreign_config_destructive w rq action digest ''rebuild in progress''
            (error_body (''cannot '' @ action @ '' foreign config while a rebuild is in progress'')) 409
        | Some False \<Rightarrow> ret ()))"

definition check_foreign_preview_safety ::
  "web_env \<Rightarrow> action_request \<Rightarrow> string \<Rightarrow> string \<Rightarrow> string list \<Rightarrow> unit action" where
  "check_foreign_preview_safety w rq action digest argv =
     andthen (catch_storcli (map_error plain_failure
       (check_storcli_prewrite (runner_of w) (config_of w) (as_policy_path (we_settings w)) (Some digest) argv))) (\<lambda>r.
       case r of
         Inr _ \<Rightarrow> ret ()
       | Inl (x, _) \<Rightarrow>
           reject_foreign_config_destructive w rq action digest
             (''live safety precheck failed: '' @ truncate_audit_detail (err_text x))
             [(''error'', JStr ''live safety precheck failed''), (''detail'', JStr (err_text x))] 502)"

definition run_foreign_config_destructive ::
  "web_env \<Rightarrow> action_request \<Rightarrow> string \<Rightarrow> string \<Rightarrow> string list \<Rightarrow> reply action" where
  "run_foreign_config_destructive w rq action digest argv =
     andthen (run_command w rq (Some digest) argv) (\<lambda>(result, err).
     andthen (audited w rq operator_action (foreign_message action digest (outcome_text err)) None
       ([(''action'', JStr action), (''argv'', strings argv)] @ optional_entries result err)) (\<lambda>_.
       case err of
         Some (x, _) \<Rightarrow> respond 502 (mutation_error_body action argv x)
       | None \<Rightarrow> respond 200 [(''action'', JStr action), (''argv'', strings argv), (''result'', json_of_dict result)]))"

text \<open>What both handlers do once the configuration is confirmed.\<close>

definition confirmed_foreign_action ::
  "web_env \<Rightarrow> action_request \<Rightarrow> string \<Rightarrow> write_settings \<Rightarrow> bool \<Rightarrow> foreign_config_info \<Rightarrow> string list \<Rightarrow> reply action" where
  "confirmed_foreign_action w rq action st dry_run f argv =
     andthen (rebuild_gate w rq action (fci_digest f)) (\<lambda>_.
     andthen (if dry_run \<and> full_actions w
              then check_foreign_preview_safety w rq action (fci_digest f) argv else ret ()) (\<lambda>_.
       if dry_run then
         respond 200 [(''dry_run'', JBool True), (''action'', JStr action), (''argv'', strings argv),
           (''foreign_config'', JObj (foreign_config_response_body f))]
       else
         andthen (require_or_reject w rq action (fci_digest f) (ws_maintenance_mode st \<and> ws_destructive_mode st)
           ''maintenance_mode and destructive_mode required''
           [(''error'', JStr ''destructive operations require maintenance_mode and destructive_mode''),
            (''maintenance_mode'', JBool (ws_maintenance_mode st)),
            (''destructive_mode'', JBool (ws_destructive_mode st))] 403) (\<lambda>_.
           run_foreign_config_destructive w rq action (fci_digest f) argv)))"

record foreign_request =
  fr_confirmation :: string
  fr_digest :: string
  fr_dry_run :: bool

definition foreign_present_gate :: "web_env \<Rightarrow> action_request \<Rightarrow> string \<Rightarrow> foreign_config_info \<Rightarrow> unit action" where
  "foreign_present_gate w rq action f =
     require_or_reject w rq action (fci_digest f) (fci_present f) ''no foreign configuration present''
       (error_body ''no foreign configuration present'') 409"

definition controller_foreign_config_import ::
  "web_env \<Rightarrow> action_request \<Rightarrow> foreign_request parsed_body \<Rightarrow> reply action" where
  "controller_foreign_config_import w rq raw =
     andthen (parse_body raw) (\<lambda>body.
     andthen (parse_query_dry_run (ar_dry_run rq)) (\<lambda>query_dry_run.
     andthen (read_settings w) (\<lambda>st.
     andthen (foreign_query_step w rq ''import'') (\<lambda>f.
     andthen (foreign_present_gate w rq ''import'' f) (\<lambda>_.
     andthen (require_or_reject w rq ''import'' (fci_digest f) (fr_confirmation body = fci_digest f)
       ''confirmation mismatch'' (error_body ''confirmation mismatch'') 409) (\<lambda>_.
       confirmed_foreign_action w rq ''import'' st (fr_dry_run body \<or> query_dry_run) f
         build_foreign_config_import_command))))))"

definition clear_confirmation :: string where
  "clear_confirmation = ''CLEAR FOREIGN CONFIG''"

definition controller_foreign_config_clear ::
  "web_env \<Rightarrow> action_request \<Rightarrow> foreign_request parsed_body \<Rightarrow> reply action" where
  "controller_foreign_config_clear w rq raw =
     andthen (parse_body raw) (\<lambda>body.
     andthen (parse_query_dry_run (ar_dry_run rq)) (\<lambda>query_dry_run.
     andthen (require_or_reject w rq ''clear'' [] (fr_confirmation body = clear_confirmation)
       ''confirmation phrase mismatch''
       (error_body (''confirmation must be exactly '' @ [CHR 0x27] @ clear_confirmation @ [CHR 0x27])) 409) (\<lambda>_.
     andthen (read_settings w) (\<lambda>st.
     andthen (require_or_reject w rq ''clear'' [] (\<not> (full_actions w \<and> fr_digest body = []))
       ''reviewed digest required''
       (error_body ''Reviewed digest is required. Reload Foreign Configuration.'') 409) (\<lambda>_.
     andthen (foreign_query_step w rq ''clear'') (\<lambda>f.
     andthen (foreign_present_gate w rq ''clear'' f) (\<lambda>_.
     andthen (require_or_reject w rq ''clear'' (fci_digest f) (\<not> (full_actions w \<and> fr_digest body \<noteq> fci_digest f))
       ''reviewed foreign configuration changed''
       (error_body ''Foreign configuration changed since review. Reload and confirm again.'') 409) (\<lambda>_.
       confirmed_foreign_action w rq ''clear'' st (fr_dry_run body \<or> query_dry_run) f
         build_foreign_config_clear_command))))))))"

subsection \<open>The maintenance window\<close>

definition maintenance_start :: "instant \<Rightarrow> string \<Rightarrow> int \<Rightarrow> string \<Rightarrow> db \<Rightarrow> py_error + db" where
  "maintenance_start now username duration_minutes reason d =
     bindr (set_maintenance_state True (Some (Aware (now + minutes duration_minutes))) (Some username) d) (\<lambda>d1.
       Inr (fst (record_operator_action now username operator_action
         (''maintenance start duration '' @ show_int duration_minutes @ '' min reason: '' @ reason) None d1)))"

definition maintenance_stop :: "instant \<Rightarrow> string \<Rightarrow> db \<Rightarrow> py_error + db" where
  "maintenance_stop now username d =
     bindr (get_maintenance_state (Aware now) d) (\<lambda>prior.
     bindr (set_maintenance_state False None None d) (\<lambda>d1.
       Inr (if mp_active prior
            then fst (record_operator_action now username operator_action ''maintenance stop'' None d1) else d1)))"

subsection \<open>The guard of the action routes\<close>

definition read_only_text :: string where
  "read_only_text =
     ''Controller actions are disabled for this read-only rollout. '' @
     ''An operator must review write permissions and explicitly set '' @
     ''CONTROLLER_READ_ONLY=false and CONTROLLER_ACTION_CAPABILITY=locate. '' @
     ''Locate Start also requires an active maintenance window.''"

definition capability_refusal :: "string \<Rightarrow> string \<Rightarrow> string" where
  "capability_refusal capability family =
     ''Controller action '' @ [CHR 0x27] @ family @ [CHR 0x27] @ '' unavailable: CONTROLLER_ACTION_CAPABILITY='' @
     capability @ ''. Only Locate Start/Stop is supported by this '' @
     ''rollout. An operator may select locate after reviewing exact sudoers grants; '' @
     ''other writes require the reviewed full-supported-actions policy.''"

definition action_disabled_reason :: "web_env \<Rightarrow> string \<Rightarrow> string option action" where
  "action_disabled_reason w family =
     (let s = we_settings w; env = we_runner w
      in if as_read_only s then ret (Some ''Controller actions disabled: read-only rollout.'')
         else if full_actions w then
           andthen (perform (VerifyBinary (as_storcli_path s)) (\<lambda>tr. verify_pinned_binary env tr (as_storcli_path s))) (\<lambda>v.
             case v of
               Inl msg \<Rightarrow> ret (Some (''Actions unavailable: '' @ msg @ ''. Ask the administrator to verify the approved policy.''))
             | Inr _ \<Rightarrow>
                 andthen (perform (LoadPolicy (as_policy_path s)) (\<lambda>tr. load_policy env tr (as_policy_path s))) (\<lambda>p.
                   ret (case p of
                     Inl msg \<Rightarrow> Some (''Actions unavailable: '' @ msg @ ''. Ask the administrator to verify the approved policy.'')
                   | Inr _ \<Rightarrow> None)))
         else if as_capability s = ''locate'' \<and> family \<in> set [''locate'', ''maintenance''] then ret None
         else ret (Some (capability_refusal (as_capability s) family)))"

definition route_family :: "string \<Rightarrow> string" where
  "route_family route =
     (if route \<in> set [''drive_locate_start'', ''drive_locate_stop''] then ''locate''
      else if route \<in> set [''maintenance_start'', ''maintenance_stop''] then ''maintenance''
      else ''other writes'')"

definition replacement_route :: "string \<Rightarrow> bool" where
  "replacement_route route \<longleftrightarrow>
     route \<in> set [''drive_replace_offline'', ''drive_replace_missing'', ''drive_replace_insert'']"

text \<open>
  \<open>selected\<close> is the command the handler would build from a parameterised request: \<open>None\<close> for the
  other routes, \<open>Some None\<close> when the request does not parse.
\<close>

definition policy_reason :: "web_env \<Rightarrow> action_request \<Rightarrow> string list option option \<Rightarrow> string option action" where
  "policy_reason w rq selected =
     andthen (policy_or_crash w) (\<lambda>p.
       case selected of
         Some None \<Rightarrow> respond 400 [(''detail'', JStr ''Invalid action request. Review the selected option.'')]
       | Some (Some argv) \<Rightarrow>
           ret (if replacement_route (ar_route rq) then replacement_refusal p (ar_path rq)
                else action_refusal p (ar_path rq) (Some argv))
       | None \<Rightarrow>
           ret (if replacement_route (ar_route rq) then replacement_refusal p (ar_path rq)
                else action_refusal p (ar_path rq) None))"

definition forbidden :: "string \<Rightarrow> string \<Rightarrow> 'a action" where
  "forbidden err msg = respond 403 [(''detail'', JObj [(''error'', JStr err), (''message'', JStr msg)])]"

definition require_controller_capability ::
  "web_env \<Rightarrow> action_request \<Rightarrow> string list option option \<Rightarrow> unit action" where
  "require_controller_capability w rq selected =
     (if as_read_only (we_settings w) then forbidden ''controller_read_only'' read_only_text
      else
        (let family = route_family (ar_route rq)
         in andthen (action_disabled_reason w family) (\<lambda>reason.
            andthen (if reason = None \<and> full_actions w \<and> family \<noteq> ''maintenance''
                     then policy_reason w rq selected else ret reason) (\<lambda>reason.
              case reason of
                None \<Rightarrow> ret ()
              | Some msg \<Rightarrow> forbidden ''controller_action_unavailable'' msg))))"

subsection \<open>The action routes\<close>

datatype controller_action =
    Locate string string string
  | DriveAction drive_action string string "int option" string
  | ReplaceStep string string string "replace_request parsed_body"
  | ReplaceInsert string string "replace_request parsed_body"
  | PatrolStart
  | PatrolStop
  | PatrolMode "string parsed_body"
  | ConsistencyStart "int option operation_body"
  | ConsistencyStop
  | ConsistencyMode "string operation_body"
  | Buzzer buzzer_action
  | ForeignImport "foreign_request parsed_body"
  | ForeignClear "foreign_request parsed_body"

fun run_action :: "web_env \<Rightarrow> action_request \<Rightarrow> controller_action \<Rightarrow> reply action" where
  "run_action w rq (Locate enclosure slot action) = run_locate w rq enclosure slot action"
| "run_action w rq (DriveAction a enclosure slot dg serial) = run_advanced_drive_action w rq a enclosure slot dg serial"
| "run_action w rq (ReplaceStep step enclosure slot raw) = run_replace_step w rq step enclosure slot raw"
| "run_action w rq (ReplaceInsert enclosure slot raw) = drive_replace_insert w rq enclosure slot raw"
| "run_action w rq PatrolStart = controller_patrol_read_start w rq"
| "run_action w rq PatrolStop = controller_patrol_read_stop w rq"
| "run_action w rq (PatrolMode raw) = controller_patrol_read_mode w rq raw"
| "run_action w rq (ConsistencyStart raw) = controller_consistency_check_start w rq raw"
| "run_action w rq ConsistencyStop = controller_consistency_check_stop w rq"
| "run_action w rq (ConsistencyMode raw) = controller_consistency_check_mode w rq raw"
| "run_action w rq (Buzzer a) = run_controller_buzzer_action w rq a"
| "run_action w rq (ForeignImport raw) = controller_foreign_config_import w rq raw"
| "run_action w rq (ForeignClear raw) = controller_foreign_config_clear w rq raw"

text \<open>The name the router gives to the action.\<close>

fun route_of :: "controller_action \<Rightarrow> string" where
  "route_of (Locate _ _ action) = ''drive_locate_'' @ action"
| "route_of (DriveAction a _ _ _ _) = ''drive_'' @ drive_action_name a"
| "route_of (ReplaceStep step _ _ _) = ''drive_replace_'' @ step"
| "route_of (ReplaceInsert _ _ _) = ''drive_replace_insert''"
| "route_of PatrolStart = ''controller_patrol_read_start''"
| "route_of PatrolStop = ''controller_patrol_read_stop''"
| "route_of (PatrolMode _) = ''controller_patrol_read_mode''"
| "route_of (ConsistencyStart _) = ''controller_consistency_check_start''"
| "route_of ConsistencyStop = ''controller_consistency_check_stop''"
| "route_of (ConsistencyMode _) = ''controller_consistency_check_mode''"
| "route_of (Buzzer a) = buzzer_category a"
| "route_of (ForeignImport _) = ''controller_foreign_config_import''"
| "route_of (ForeignClear _) = ''controller_foreign_config_clear''"

definition valid_selection :: "'b parsed_body \<Rightarrow> ('b \<Rightarrow> string + string list) \<Rightarrow> string list option" where
  "valid_selection raw build =
     (case raw of Body x \<Rightarrow> (case build x of Inr argv \<Rightarrow> Some argv | Inl _ \<Rightarrow> None) | _ \<Rightarrow> None)"

definition operation_selection :: "'b operation_body \<Rightarrow> ('b \<Rightarrow> string + string list) \<Rightarrow> string list option" where
  "operation_selection raw build = (case raw of NotObject \<Rightarrow> None | Parsed p \<Rightarrow> valid_selection p build)"

fun requested_approval_command :: "controller_action \<Rightarrow> string list option option" where
  "requested_approval_command (PatrolMode raw) = Some (valid_selection raw build_patrol_read_mode_command)"
| "requested_approval_command (ConsistencyMode raw) =
     Some (operation_selection raw build_consistency_check_mode_command)"
| "requested_approval_command (ConsistencyStart raw) =
     Some (operation_selection raw build_consistency_check_start_command)"
| "requested_approval_command _ = None"

definition serve_action :: "web_env \<Rightarrow> action_request \<Rightarrow> controller_action \<Rightarrow> reply action" where
  "serve_action w rq a =
     andthen (require_controller_capability w rq (requested_approval_command a)) (\<lambda>_. run_action w rq a)"

end
