(* ===== verification/Templates.thy ===== *)
theory Templates
  imports Pages ForeignRoutes
begin

section \<open>What every page is told\<close>

text \<open>
  \<open>web/templates.py\<close>: the maintenance state and the reasons against actions that every page shows, and the filters of
  the templates. Like the guard of the action routes the reasons are found by reading the policy and the binary again, so they are
  computations over the trace of \<open>Runner\<close>.

  \<^item> \<open>escape\<close> is \<open>markupsafe.escape\<close>; \<open>slot_url\<close> is the path of a drive page.
\<close>

subsection \<open>The context of a page\<close>

definition maintenance_required_reason :: string where
  "maintenance_required_reason = ''Start a maintenance window before this action.''"

definition locate_maintenance_reason :: string where
  "locate_maintenance_reason = ''Locate Start requires an active maintenance window.''"

definition destructive_mode_reason :: string where
  "destructive_mode_reason = ''Ask the administrator to enable destructive mode before this action.''"

record page_context =
  pc_observation_warning :: "string option"
  pc_locate_reason :: "string option"
  pc_maintenance_reason :: "string option"
  pc_other_reason :: "string option"
  pc_maintenance :: maintenance_payload
  pc_read_only :: bool
  pc_writes_enabled :: bool
  pc_disk_group :: "int option"
  pc_locate_start_reason :: "string option"
  pc_action_reasons :: "string list"
  pc_gate_reasons :: "string list"
  pc_destructive_reason :: "string option"

text \<open>A query at the time of the request.\<close>

definition db_query :: "web_env \<Rightarrow> (instant \<Rightarrow> db \<Rightarrow> py_error + 'a) \<Rightarrow> 'a action" where
  "db_query w q =
     andthen (perform ReadDb (\<lambda>tr. q (we_now w tr) (we_db w tr))) (\<lambda>r.
       case r of Inl err \<Rightarrow> fail (Crashed (Raised err)) | Inr x \<Rightarrow> ret x)"

definition query_writes_enabled :: "web_env \<Rightarrow> bool action" where
  "query_writes_enabled w = db_query w (\<lambda>now. maintenance_writes_enabled (as_maintenance_mode (we_settings w)) (Aware now))"

definition approved_disk_group :: "web_env \<Rightarrow> string option \<Rightarrow> int option action" where
  "approved_disk_group w other_reason =
     (if full_actions w \<and> other_reason = None then andthen (policy_or_crash w) (\<lambda>p. ret (Some (disk_group p))) else ret None)"

definition locate_start_reason :: "web_env \<Rightarrow> string option \<Rightarrow> string option action" where
  "locate_start_reason w locate_reason =
     (if locate_reason \<noteq> None then ret locate_reason
      else andthen (query_writes_enabled w) (\<lambda>open_window. ret (if open_window then None else Some locate_maintenance_reason)))"

definition page_action_reasons :: "string option list \<Rightarrow> string list" where
  "page_action_reasons reasons = keep_first [] (filter (\<lambda>r. r \<noteq> []) (List.map_filter id reasons))"

definition maintenance_context_processor :: "web_env \<Rightarrow> settings \<Rightarrow> bool \<Rightarrow> page_context action" where
  "maintenance_context_processor w st collector_enabled =
     andthen (db_query w (\<lambda>now d. Inr (observation_warning d st collector_enabled now))) (\<lambda>warning.
     andthen (action_disabled_reason w ''locate'') (\<lambda>locate.
     andthen (action_disabled_reason w ''maintenance'') (\<lambda>maintenance.
     andthen (action_disabled_reason w ''other writes'') (\<lambda>other.
     andthen (db_query w (\<lambda>now. get_maintenance_state (Aware now))) (\<lambda>state.
     andthen (query_writes_enabled w) (\<lambda>enabled.
     andthen (approved_disk_group w other) (\<lambda>dg.
     andthen (locate_start_reason w locate) (\<lambda>start.
       let reasons = page_action_reasons [maintenance, locate, other]
       in ret \<lparr>pc_observation_warning = warning, pc_locate_reason = locate, pc_maintenance_reason = maintenance,
               pc_other_reason = other, pc_maintenance = state, pc_read_only = as_read_only (we_settings w),
               pc_writes_enabled = enabled, pc_disk_group = dg, pc_locate_start_reason = start,
               pc_action_reasons = reasons,
               pc_gate_reasons = reasons @ [maintenance_required_reason, locate_maintenance_reason, destructive_mode_reason],
               pc_destructive_reason =
                 (if as_destructive_mode (we_settings w) then None else Some destructive_mode_reason)\<rparr>))))))))"

subsection \<open>The reason against one action\<close>

text \<open>The command a page assumes for a path and a mode; \<open>Inl\<close> is the failure of the builder.\<close>

definition page_selection :: "string \<Rightarrow> string option \<Rightarrow> string + string list option" where
  "page_selection path mode =
     (if suffix ''/controller/consistency-check/start'' path then bindr (build_consistency_check_start_command None) (\<lambda>c. Inr (Some c))
      else if suffix ''/controller/consistency-check/mode'' path then
        (case mode of None \<Rightarrow> Inl [] | Some m \<Rightarrow> bindr (build_consistency_check_mode_command m) (\<lambda>c. Inr (Some c)))
      else if suffix ''/controller/patrol-read/mode'' path then
        (case mode of None \<Rightarrow> Inl [] | Some m \<Rightarrow> bindr (build_patrol_read_mode_command m) (\<lambda>c. Inr (Some c)))
      else Inr None)"

definition approved_action_reason ::
  "web_env \<Rightarrow> page_context \<Rightarrow> string \<Rightarrow> string option \<Rightarrow> bool \<Rightarrow> string option action" where
  "approved_action_reason w c path mode workflow =
     (if \<not> full_actions w then ret None
      else case pc_other_reason c of
        Some reason \<Rightarrow> ret (Some reason)
      | None \<Rightarrow>
          if \<not> suffix ''/locate/stop'' path \<and> \<not> pc_writes_enabled c then ret (Some maintenance_required_reason)
          else if (str_in ''/replace/'' path \<or> str_in ''/foreign-config/'' path) \<and> \<not> as_destructive_mode (we_settings w)
          then ret (Some destructive_mode_reason)
          else andthen (policy_or_crash w) (\<lambda>p.
            if workflow then ret (replacement_refusal p path)
            else case page_selection path mode of
              Inl _ \<Rightarrow> fail (Crashed (Raised ValueError))
            | Inr selected \<Rightarrow> ret (action_refusal p path selected)))"

subsection \<open>Addresses of the actions\<close>

definition drive_action_tail :: "drive_action \<Rightarrow> string" where
  "drive_action_tail a =
     (case a of MarkUbad \<Rightarrow> ''mark-ubad'' | MarkUgood \<Rightarrow> ''mark-ugood'' | SpinDown \<Rightarrow> ''spindown'' | MakeHotSpare \<Rightarrow> ''hotspare'')"

definition slot_path :: "string \<Rightarrow> string \<Rightarrow> string \<Rightarrow> string" where
  "slot_path base e k = base @ ''/drives/'' @ e @ '':'' @ k"

text \<open>\<open>base\<close> is the prefix under which the application is served.\<close>

fun action_path :: "string \<Rightarrow> controller_action \<Rightarrow> string" where
  "action_path base (Locate e k action) = slot_path base e k @ ''/locate/'' @ action"
| "action_path base (DriveAction a e k dg serial) = slot_path base e k @ ''/actions/'' @ drive_action_tail a"
| "action_path base (ReplaceStep step e k raw) = slot_path base e k @ ''/replace/'' @ step"
| "action_path base (ReplaceInsert e k raw) = slot_path base e k @ ''/replace/insert''"
| "action_path base PatrolStart = base @ ''/controller/patrol-read/start''"
| "action_path base PatrolStop = base @ ''/controller/patrol-read/stop''"
| "action_path base (PatrolMode raw) = base @ ''/controller/patrol-read/mode''"
| "action_path base (ConsistencyStart raw) = base @ ''/controller/consistency-check/start''"
| "action_path base ConsistencyStop = base @ ''/controller/consistency-check/stop''"
| "action_path base (ConsistencyMode raw) = base @ ''/controller/consistency-check/mode''"
| "action_path base (Buzzer a) =
     base @ ''/controller/buzzer/'' @ buzzer_name a"
| "action_path base (ForeignImport raw) = base @ ''/controller/foreign-config/import''"
| "action_path base (ForeignClear raw) = base @ ''/controller/foreign-config/clear''"

subsection \<open>Filters\<close>

definition celsius :: "int option \<Rightarrow> string" where
  "celsius v = (case v of None \<Rightarrow> ''N/A'' | Some n \<Rightarrow> show_int n @ [char_of (194::nat), char_of (176::nat), CHR ''C''])"

text \<open>Binary units up to PiB, with two digits.\<close>

definition signed_2 :: "rat \<Rightarrow> string" where
  "signed_2 x = (if x < 0 then ''-'' @ fixed_2 (- x) else fixed_2 x)"

fun iec_units :: "rat \<Rightarrow> string list \<Rightarrow> string" where
  "iec_units x [] = signed_2 x @ '' PiB''"
| "iec_units x (unit # units) = (if \<bar>x\<bar> < 1024 then signed_2 x @ '' '' @ unit else iec_units (x / 1024) units)"

definition bytes_iec :: "int option \<Rightarrow> string" where
  "bytes_iec v =
     (case v of
        None \<Rightarrow> ''Unknown''
      | Some n \<Rightarrow> if \<bar>n\<bar> < 1024 then show_int n @ '' B''
                  else iec_units (rat_of_int n / 1024) [''KiB'', ''MiB'', ''GiB'', ''TiB''])"

definition iso_utc :: "py_datetime option \<Rightarrow> py_error + string" where
  "iso_utc v =
     (case v of
        None \<Rightarrow> Inr []
      | Some t \<Rightarrow> bindr (require_aware_utc t) (\<lambda>u.
          Inr (date_text u @ ''T'' @ hour_text u @ '':'' @ minute_text u @ '':'' @ padded 2 (u mod minutes 1 div sec 1) @ ''Z'')))"

subsection \<open>Links to drives\<close>

text \<open>\<open>\d+:\d+\<close> at the start of a text, with what follows it.\<close>

definition number_pair :: "string \<Rightarrow> (string \<times> string \<times> string) option" where
  "number_pair s =
     (let a = takeWhile is_digit s; r = dropWhile is_digit s; b = takeWhile is_digit (drop 1 r)
      in if a = [] \<or> r = [] \<or> hd r \<noteq> CHR '':'' \<or> b = [] then None else Some (a, b, dropWhile is_digit (drop 1 r)))"

text \<open>\<open>e\d+:s\d+\<close>: the label, the slot it names and the rest.\<close>

definition event_token :: "string \<Rightarrow> (string \<times> string \<times> string) option" where
  "event_token s =
     (case s of
        [] \<Rightarrow> None
      | c # cs \<Rightarrow>
          (let a = takeWhile is_digit cs; r = dropWhile is_digit cs; b = takeWhile is_digit (drop 2 r)
           in if py_lower [c] \<noteq> ''e'' \<or> a = [] \<or> py_lower (take 2 r) \<noteq> '':s'' \<or> b = [] then None
              else Some (c # a @ take 2 r @ b, a @ '':'' @ b, dropWhile is_digit (drop 2 r))))"

text \<open>A word with spaces behind it, at a word boundary: the text before the label, the label, its slot and the rest.\<close>

definition context_token_of :: "string \<Rightarrow> string \<Rightarrow> (string \<times> string \<times> string \<times> string) option" where
  "context_token_of word s =
     (let r = drop (length word) s; spaces = takeWhile is_space r
      in if py_lower (take (length word) s) \<noteq> word \<or> spaces = [] then None
         else case number_pair (dropWhile is_space r) of
           None \<Rightarrow> None
         | Some (a, b, rest) \<Rightarrow> Some (take (length word) s @ spaces, a @ '':'' @ b, a @ '':'' @ b, rest))"

definition context_token :: "string \<Rightarrow> (string \<times> string \<times> string \<times> string) option" where
  "context_token s =
     (case List.map_filter (\<lambda>word. context_token_of word s) [''pd'', ''drive'', ''slot'', ''slots''] of [] \<Rightarrow> None | t # _ \<Rightarrow> Some t)"

definition slot_token_at :: "bool \<Rightarrow> string \<Rightarrow> (string \<times> string \<times> string \<times> string) option" where
  "slot_token_at inside_word s =
     (case event_token s of
        Some (label, slot, rest) \<Rightarrow> Some ([], label, slot, rest)
      | None \<Rightarrow> if inside_word then None else context_token s)"

text \<open>The first token of a text: what comes before its label, the label, the slot it names, and what follows.\<close>

fun search_slot_token :: "bool \<Rightarrow> string \<Rightarrow> (string \<times> string \<times> string \<times> string) option" where
  "search_slot_token inside_word [] = None"
| "search_slot_token inside_word (c # cs) =
     (case slot_token_at inside_word (c # cs) of
        Some t \<Rightarrow> Some t
      | None \<Rightarrow> map_option (\<lambda>(front, label, slot, rest). (c # front, label, slot, rest)) (search_slot_token (is_word_char c) cs))"

definition slot_link :: "(string \<Rightarrow> string) \<Rightarrow> (string \<Rightarrow> string) \<Rightarrow> string \<Rightarrow> string" where
  "slot_link escape slot_url s =
     (case search_slot_token False s of
        None \<Rightarrow> escape s
      | Some (front, label, slot, rest) \<Rightarrow>
          escape front @ ''<a href='' @ [CHR 0x22] @ escape (slot_url slot) @ [CHR 0x22] @ ''>'' @ escape label @ ''</a>'' @ escape rest)"

end
