(* ===== verification/ActionProps.thy ===== *)
theory ActionProps
  imports ForeignRoutes RunnerSafety
begin

section \<open>Every write is audited\<close>

text \<open>
  Handlers are built from steps that only read, from one command, and from audit entries. \<open>calm\<close>
  computations add no write to the trace; \<open>sends_once\<close> adds at most one write and then returns, so
  that what follows runs; \<open>answers_for\<close> starts with an audit entry. Their composition is
  \<open>accountable\<close>: a write is followed by an audit entry of the same request, and when that entry is
  not saved the reply says so.
\<close>

subsection \<open>Writes in a trace\<close>

definition sent_args :: "run_config \<Rightarrow> string list \<Rightarrow> string list" where
  "sent_args cfg argv = drop (length (argv_of cfg [])) argv"

definition is_write :: "run_config \<Rightarrow> effect \<Rightarrow> bool" where
  "is_write cfg e = (case e of Exec argv \<Rightarrow> ''show'' \<notin> set (sent_args cfg argv) | _ \<Rightarrow> False)"

definition quiet :: "run_config \<Rightarrow> effect list \<Rightarrow> bool" where
  "quiet cfg new \<longleftrightarrow> list_all (\<lambda>e. \<not> is_write cfg e) new"

lemma sent_args_argv_of [simp]: "sent_args cfg (argv_of cfg args) = args"
  by (simp add: sent_args_def argv_of_def)

lemma is_write_simps [simp]:
  "is_write cfg (Exec (argv_of cfg args)) \<longleftrightarrow> ''show'' \<notin> set args"
  "\<not> is_write cfg ReadDb" "\<not> is_write cfg ReadSettings" "\<not> is_write cfg (Audit u c m a)"
  "\<not> is_write cfg (Transaction t)" "\<not> is_write cfg (LoadPolicy p)" "\<not> is_write cfg (VerifyBinary b)"
  by (simp_all add: is_write_def)

lemma quiet_simps [simp]:
  "quiet cfg []" "quiet cfg (a @ b) \<longleftrightarrow> quiet cfg a \<and> quiet cfg b"
  "quiet cfg (e # new) \<longleftrightarrow> \<not> is_write cfg e \<and> quiet cfg new"
  by (simp_all add: quiet_def)

interpretation calm: trace_discipline "quiet cfg" for cfg
  by unfold_locales simp_all

lemma reads_only_quiet: "reads_only cfg new \<Longrightarrow> quiet cfg new"
  by (auto simp: reads_only_def quiet_def list_all_iff is_write_def split: effect.split)

subsection \<open>Calm steps\<close>

named_theorems calm_intros

lemma calm_steps [calm_intros]:
  "extends_by (quiet cfg) (ret x)" "extends_by (quiet cfg) (fail e)" "extends_by (quiet cfg) (lift_sum m)"
  "extends_by (quiet cfg) (respond code body)" "extends_by (quiet cfg) (storcli_step f)"
  "extends_by (quiet cfg) (bad_request b)" "extends_by (quiet cfg) (read_settings w)" "extends_by (quiet cfg) (read_db w)"
  "extends_by (quiet cfg) (transaction w l)" "extends_by (quiet cfg) (audited w rq cat msg after extras)"
  "extends_by (quiet cfg) (parse_body raw)" "extends_by (quiet cfg) (parse_query_dry_run q)"
  "extends_by (quiet cfg) (require_that ok code body)" "extends_by (quiet cfg) (built a)"
  by (auto simp: respond_def storcli_step_def bad_request_def read_settings_def read_db_def transaction_def audited_def
      parse_body_def parse_query_dry_run_def require_that_def built_def Let_def
      intro!: calm.ext_ret calm.ext_fail calm.ext_lift_sum calm.ext_map_error calm.ext_perform calm.ext_andthen
      split: sum.split parsed_body.split option.split)

lemma calm_catch: "extends_by ok m \<Longrightarrow> extends_by ok (catch_storcli m)"
proof -
  have "fst (catch_storcli m tr) = fst (m tr)" for tr
    by (simp add: catch_storcli_def split: prod.split sum.split fault.split)
  then show "extends_by ok m \<Longrightarrow> extends_by ok (catch_storcli m)" by (simp add: extends_by_def)
qed

lemma calm_run:
  assumes "''show'' \<in> set argv"
  shows "extends_by (quiet cfg) (run_storcli env cfg path expected gate argv)"
  unfolding extends_by_def
proof
  fix tr
  obtain tr' r where run: "run_storcli env cfg path expected gate argv tr = (tr', r)"
    by (cases "run_storcli env cfg path expected gate argv tr")
  show "\<exists>new. fst (run_storcli env cfg path expected gate argv tr) = tr @ new \<and> quiet cfg new"
    using run
  proof (cases rule: run_storcli_cases)
    case (invalid e)
    then show ?thesis using run by simp
  next
    case (refused f)
    then show ?thesis using run extends_byE [OF before_dispatch_reads refused(2)] reads_only_quiet by fastforce
  next
    case (dispatched tr1)
    obtain new where "tr1 = tr @ new" "reads_only cfg new"
      using extends_byE [OF before_dispatch_reads dispatched(2)] by blast
    then show ?thesis using run dispatched(3) assms reads_only_quiet by fastforce
  qed
qed

lemma storcli_step_then [simp]:
  "andthen (storcli_step (Inr x)) f = f x" "andthen (storcli_step (Inl e)) f = fail (plain_failure e)"
  by (simp_all add: fun_eq_iff storcli_step_def andthen_def map_error_def lift_sum_def fail_def)

lemma calm_query [calm_intros]:
  "extends_by (quiet (config_of w)) (query_live_drive_show w e s)"
  "extends_by (quiet (config_of w)) (query_live_patrol_read w)"
  "extends_by (quiet (config_of w)) (query_live_consistency_check w)"
  "extends_by (quiet (config_of w)) (query_live_foreign_config w)"
proof -
  have drive: "''show'' \<in> set argv" if "build_show_drive_command e s = Inr argv" for argv
    using that by (auto simp: build_show_drive_command_def bindr_Inr_iff)
  show "extends_by (quiet (config_of w)) (query_live_drive_show w e s)"
  proof (cases "build_show_drive_command e s")
    case (Inl msg)
    then show ?thesis
      by (simp add: query_live_drive_show_def calm_intros)
  next
    case (Inr argv)
    then show ?thesis using drive [OF Inr]
      by (auto simp: query_live_drive_show_def run_live_def intro!: calm.ext_andthen calm_intros calm_run)
  qed
qed (auto simp: query_live_patrol_read_def query_live_consistency_check_def query_live_foreign_config_def run_live_def
    build_patrol_read_show_command_def build_consistency_check_show_command_def
    build_consistency_check_show_progress_command_def build_foreign_config_show_command_def
    intro!: calm.ext_andthen calm_intros calm_run)

subsection \<open>Exceptions that leave a handler\<close>

text \<open>\<open>raises_in es m\<close>: apart from the exceptions of the package, \<open>m\<close> raises only those of \<open>es\<close>.\<close>

definition raises_in :: "py_error list \<Rightarrow> fault + 'a \<Rightarrow> bool" where
  "raises_in es m \<longleftrightarrow> (\<forall>e. m = Inl (Raised e) \<longrightarrow> e \<in> set es)"

named_theorems raise_intros

lemma raises_bindr [raise_intros]:
  "raises_in es m \<Longrightarrow> (\<And>x. raises_in es (f x)) \<Longrightarrow> raises_in es (bindr m f)"
  by (auto simp: raises_in_def bindr_Inl_iff)

lemma raises_steps [raise_intros]:
  "raises_in es (Inr x)" "raises_in es (Inl (Storcli se))" "raises_in es (Inl (parse_fault msg))"
  "KeyError \<in> set es \<Longrightarrow> raises_in es (item d k)" "TypeError \<in> set es \<Longrightarrow> raises_in es (as_mapping v)"
  "TypeError \<in> set es \<Longrightarrow> raises_in es (json_length v)" "TypeError \<in> set es \<Longrightarrow> raises_in es (Inl (Raised TypeError))"
  by (auto simp: raises_in_def parse_fault_def item_def as_mapping_def json_length_def split: option.split json.split)

lemma raises_catching: "raises_in es m \<Longrightarrow> set es \<subseteq> set es' \<Longrightarrow> catching es' msg m \<noteq> Inl (Raised e)"
  by (auto simp: raises_in_def catching_def parse_fault_def split: sum.splits fault.splits if_splits)

lemma raises_case_json [raise_intros]:
  "raises_in es a \<Longrightarrow> (\<And>x. raises_in es (b x)) \<Longrightarrow> (\<And>x. raises_in es (c x)) \<Longrightarrow> (\<And>x y. raises_in es (f x y)) \<Longrightarrow>
   (\<And>x. raises_in es (g x)) \<Longrightarrow> (\<And>x. raises_in es (h x)) \<Longrightarrow> (\<And>x. raises_in es (k x)) \<Longrightarrow>
   raises_in es (case v of JNull \<Rightarrow> a | JBool x \<Rightarrow> b x | JInt x \<Rightarrow> c x | JFloat x y \<Rightarrow> f x y | JStr x \<Rightarrow> g x
     | JArr x \<Rightarrow> h x | JObj x \<Rightarrow> k x)"
  by (cases v) simp_all

lemma raises_case_list [raise_intros]:
  "raises_in es a \<Longrightarrow> (\<And>x xs. raises_in es (f x xs)) \<Longrightarrow> raises_in es (case vs of [] \<Rightarrow> a | x # xs \<Rightarrow> f x xs)"
  by (cases vs) simp_all

lemma raises_case_option [raise_intros]:
  "raises_in es a \<Longrightarrow> (\<And>x. raises_in es (f x)) \<Longrightarrow> raises_in es (case v of None \<Rightarrow> a | Some x \<Rightarrow> f x)"
  by (cases v) simp_all

lemma raises_if [raise_intros]:
  "raises_in es a \<Longrightarrow> raises_in es b \<Longrightarrow> raises_in es (if c then a else b)"
  by simp

lemma raises_map_res: "(\<And>x. raises_in es (f x)) \<Longrightarrow> raises_in es (map_res f xs)"
  by (induction xs) (auto intro!: raise_intros)

lemma vap_error: "vap f x = Inl e \<Longrightarrow> f = Inl e \<or> x = Inl e \<or> e = ValueError"
  by (cases f; cases x) (auto simp: vap_def split: py_error.splits)

lemma raises_drive_show_of: "raises_in [KeyError, TypeError, ValueError] (lift_py (drive_show_of state serial))"
proof -
  have "drive_show_of state serial = Inl e \<Longrightarrow> e = TypeError \<or> e = ValueError" for e
    unfolding drive_show_of_def
    by (auto dest!: vap_error split: json.splits if_splits)
  then show ?thesis by (cases "drive_show_of state serial") (auto simp: raises_in_def lift_py_def)
qed

lemma raises_drive_show_parts:
  "raises_in [KeyError, TypeError, ValueError] (mapping_item d k)"
  "raises_in [KeyError, TypeError, ValueError] (drive_rows d)"
  "raises_in [KeyError, TypeError, ValueError] (identifies_drive payload status rows path)"
  unfolding mapping_item_def drive_rows_def identifies_drive_def case_prod_beta
  by ((intro raise_intros raises_map_res), simp_all)+

lemma raises_extract: "raises_in [KeyError, TypeError, ValueError] (extract_drive_show response rows)"
proof (induction rows)
  case (Cons row rows)
  then show ?case
    by (cases row, simp only: extract_drive_show.simps)
      (intro raise_intros raises_drive_show_parts raises_drive_show_of, simp_all)
qed (simp add: raise_intros)

lemma first_controller_storcli: "first_controller payload \<noteq> Inl (Raised e)"
  unfolding first_controller_def
  by (rule raises_catching [where es = "[KeyError, TypeError]"])
    (intro raise_intros, simp_all)

lemma ensure_command_succeeded_storcli: "ensure_command_succeeded payload \<noteq> Inl (Raised e)"
proof (cases "first_controller payload")
  case (Inl f)
  then show ?thesis using first_controller_storcli [of payload] by (simp add: ensure_command_succeeded_def)
next
  case (Inr c)
  show ?thesis
  proof (cases "dict_get c ''Command Status''")
    case (Some v)
    then have "command_err_msg c = Inr (status_message status)" if "v = JObj status" for status
      using that by (simp add: command_err_msg_def command_status_def get_or_def as_mapping_def)
    then show ?thesis using Inr Some
      by (cases v) (auto simp: ensure_command_succeeded_def parse_fault_def command_failure_def Let_def
          split: option.split json.split)
  qed (simp add: ensure_command_succeeded_def Inr parse_fault_def)
qed

lemma ensured_status:
  assumes "ensure_command_succeeded payload = Inr u"
  obtains c status where "first_controller payload = Inr c" "dict_get c ''Command Status'' = Some (JObj status)"
proof -
  from assms obtain c where c: "first_controller payload = Inr c"
    by (auto simp: ensure_command_succeeded_def bindr_Inr_iff)
  show thesis
  proof (cases "dict_get c ''Command Status''")
    case None
    then show thesis using assms c by (simp add: ensure_command_succeeded_def)
  next
    case (Some v)
    then show thesis using assms c that by (cases v) (simp_all add: ensure_command_succeeded_def)
  qed
qed

lemma parse_drive_show_storcli:
  assumes "ensure_command_succeeded payload = Inr ()"
  shows "parse_drive_show payload requested \<noteq> Inl (Raised e)"
proof -
  from assms obtain c status where c: "first_controller payload = Inr c" "dict_get c ''Command Status'' = Some (JObj status)"
    by (rule ensured_status)
  have "command_status c = Inr status" using c(2) by (simp add: command_status_def get_or_def as_mapping_def)
  then have "ensure_success payload \<noteq> Inl (Raised e)"
    by (simp add: ensure_success_def c(1) command_failed_def command_err_msg_def command_failure_def)
  moreover have "catching [KeyError, TypeError, ValueError] msg (bindr (response_data k) g) \<noteq> Inl (Raised e)"
    if "\<And>r. raises_in [KeyError, TypeError, ValueError] (g r)" for msg k and g :: "dict \<Rightarrow> fault + drive_show"
  proof (rule raises_catching [where es = "[KeyError, TypeError, ValueError]"])
    have "raises_in [KeyError, TypeError, ValueError] (response_data k)"
      by (auto simp: raises_in_def response_data_def catching_def as_mapping_def parse_fault_def split: json.splits)
    then show "raises_in [KeyError, TypeError, ValueError] (bindr (response_data k) g)"
      using that by (intro raise_intros)
  qed simp
  moreover have "raises_in [KeyError, TypeError, ValueError] (case requested of
        None \<Rightarrow> extract_drive_show r r
      | Some path \<Rightarrow>
          bindr (mapping_item k ''Command Status'') (\<lambda>status.
          bindr (drive_rows r) (\<lambda>rows.
          bindr (identifies_drive payload status rows path) (\<lambda>ok.
            if \<not> ok then Inl (parse_fault ''live drive response does not identify the requested slot'')
            else extract_drive_show r r))))" for r k
    by (intro raise_intros raises_extract raises_drive_show_parts)
  ultimately show ?thesis
    unfolding parse_drive_show_def by (cases "ensure_success payload") simp_all
qed

subsection \<open>One command\<close>

text \<open>At most one write, and only with a normal result, so that the handler goes on.\<close>

definition sends_once :: "run_config \<Rightarrow> 'a action \<Rightarrow> bool" where
  "sends_once cfg m \<longleftrightarrow>
     (\<forall>tr. \<exists>new. fst (m tr) = tr @ new \<and>
        (quiet cfg new \<or>
         (\<exists>pre e post. new = pre @ e # post \<and> quiet cfg pre \<and> quiet cfg post) \<and> \<not> isl (snd (m tr))))"

lemma sends_onceE:
  assumes "sends_once cfg m" and "m tr = (tr', r)"
  obtains new where "tr' = tr @ new" "quiet cfg new"
    | pre e post where "tr' = tr @ pre @ e # post" "quiet cfg pre" "quiet cfg post" "\<not> isl r"
  using assms unfolding sends_once_def by (metis fst_conv snd_conv)

lemma sends_once_calm: "extends_by (quiet cfg) m \<Longrightarrow> sends_once cfg m"
  by (auto simp: extends_by_def sends_once_def)

lemma sends_once_after:
  assumes "extends_by (quiet cfg) m" and "\<And>x. sends_once cfg (f x)"
  shows "sends_once cfg (andthen m f)"
  unfolding sends_once_def
proof
  fix tr
  obtain tr1 r where m: "m tr = (tr1, r)" by (cases "m tr")
  obtain new where new: "tr1 = tr @ new" "quiet cfg new" using extends_byE [OF assms(1) m] by blast
  show "\<exists>new. fst (andthen m f tr) = tr @ new \<and> (quiet cfg new \<or>
      (\<exists>pre e post. new = pre @ e # post \<and> quiet cfg pre \<and> quiet cfg post) \<and> \<not> isl (snd (andthen m f tr)))"
  proof (cases r)
    case (Inl e)
    then show ?thesis using m new by (simp add: andthen_def)
  next
    case (Inr x)
    obtain tr2 r2 where f: "f x tr1 = (tr2, r2)" by (cases "f x tr1")
    have eq: "andthen m f tr = (tr2, r2)" using m Inr f by (simp add: andthen_def)
    show ?thesis using assms(2) f
    proof (cases rule: sends_onceE)
      case (1 new2)
      then show ?thesis using eq new by simp
    next
      case (2 pre e post)
      then show ?thesis using eq new by (intro exI [of _ "new @ pre @ e # post"]) (auto intro!: exI [of _ "new @ pre"])
    qed
  qed
qed

text \<open>After the write, steps that only read and always return.\<close>

definition returns :: "'a action \<Rightarrow> bool" where
  "returns m \<longleftrightarrow> (\<forall>tr. \<not> isl (snd (m tr)))"

lemma returns_ret [simp]: "returns (ret x)"
  by (simp add: returns_def ret_def)

lemma returns_then:
  assumes "returns m" and "\<And>x. returns (f x)"
  shows "returns (andthen m f)"
  unfolding returns_def
proof
  fix tr
  obtain tr1 x where "m tr = (tr1, Inr x)"
    using assms(1) unfolding returns_def by (metis isl_def surj_pair sum.exhaust_sel snd_conv)
  then show "\<not> isl (snd (andthen m f tr))"
    using assms(2) unfolding returns_def by (simp add: andthen_def)
qed

lemma sends_once_then:
  assumes "sends_once cfg m" and "\<And>x. extends_by (quiet cfg) (f x)" and "\<And>x. returns (f x)"
  shows "sends_once cfg (andthen m f)"
  unfolding sends_once_def
proof
  fix tr
  obtain tr1 r where m: "m tr = (tr1, r)" by (cases "m tr")
  show "\<exists>new. fst (andthen m f tr) = tr @ new \<and> (quiet cfg new \<or>
      (\<exists>pre e post. new = pre @ e # post \<and> quiet cfg pre \<and> quiet cfg post) \<and> \<not> isl (snd (andthen m f tr)))"
  proof (cases r)
    case (Inl e)
    then have eq: "andthen m f tr = (tr1, Inl e)" using m by (simp add: andthen_def)
    show ?thesis using assms(1) m by (cases rule: sends_onceE) (use eq Inl in auto)
  next
    case (Inr x)
    obtain tr2 r2 where f: "f x tr1 = (tr2, r2)" by (cases "f x tr1")
    obtain new2 where new2: "tr2 = tr1 @ new2" "quiet cfg new2" using extends_byE [OF assms(2) f] by blast
    have eq: "andthen m f tr = (tr2, r2)" using m Inr f by (simp add: andthen_def)
    have "\<not> isl r2" using assms(3) [of x] f by (metis returns_def snd_conv)
    with assms(1) m show ?thesis
      by (cases rule: sends_onceE) (use eq new2 in \<open>fastforce+\<close>)
  qed
qed

lemma run_write_split:
  assumes "run_write w rq digest argv tr = (tr', r)"
  obtains new where "tr' = tr @ new" "quiet (config_of w) new"
    | pre where "tr' = tr @ pre @ [Exec (argv_of (config_of w) (with_json_flag argv))]" "quiet (config_of w) pre"
        "\<And>f. r = Inl f \<Longrightarrow> \<exists>e. sf_fault f = Storcli e"
  using assms unfolding run_write_def
proof (cases rule: run_storcli_cases)
  case (invalid e)
  then show thesis using that(1) [of "[]"] by simp
next
  case (refused f)
  then show thesis using that(1) extends_byE [OF before_dispatch_reads refused(2)] reads_only_quiet by metis
next
  case (dispatched tr1)
  obtain pre where pre: "tr1 = tr @ pre" "quiet (config_of w) pre"
    using extends_byE [OF before_dispatch_reads dispatched(2)] reads_only_quiet by metis
  have "interpret_outcome cfg b out = Inl f \<Longrightarrow> \<exists>e. f = Storcli e" for cfg b out f
    by (auto simp: interpret_outcome_def not_available_def command_refused_def exit_failure_def parse_fault_def
        split: process_outcome.splits if_splits option.splits json.splits)
  then have "r = Inl f \<Longrightarrow> \<exists>e. sf_fault f = Storcli e" for f
    using dispatched(4) by (auto simp: plain_failure_def split: sum.splits)
  then show thesis using that(2) [of pre] pre dispatched(3) by simp
qed

lemma run_command_once: "sends_once (config_of w) (run_command w rq digest argv)"
proof -
  have once: "sends_once (config_of w) (catch_storcli (run_write w rq digest argv))"
    unfolding sends_once_def
  proof
    fix tr
    obtain tr' r where run: "run_write w rq digest argv tr = (tr', r)" by (cases "run_write w rq digest argv tr")
    then have fst: "fst (catch_storcli (run_write w rq digest argv) tr) = tr'"
      by (simp add: catch_storcli_def split: sum.split fault.split)
    show "\<exists>new. fst (catch_storcli (run_write w rq digest argv) tr) = tr @ new \<and> (quiet (config_of w) new \<or>
        (\<exists>pre e post. new = pre @ e # post \<and> quiet (config_of w) pre \<and> quiet (config_of w) post) \<and>
        \<not> isl (snd (catch_storcli (run_write w rq digest argv) tr)))"
      using run
    proof (cases rule: run_write_split)
      case (1 new)
      then show ?thesis using fst by blast
    next
      case (2 pre)
      have "\<not> isl (snd (catch_storcli (run_write w rq digest argv) tr))"
      proof (cases r)
        case (Inl f)
        then obtain e where "sf_fault f = Storcli e" using 2(3) by blast
        then show ?thesis using run Inl by (simp add: catch_storcli_def)
      qed (use run in \<open>simp add: catch_storcli_def\<close>)
      then show ?thesis using fst 2 by fastforce
    qed
  qed
  have ensured: "returns (catch_storcli (storcli_step (ensure_command_succeeded payload)))" for payload
    using ensure_command_succeeded_storcli [of payload]
    by (auto simp: returns_def catch_storcli_def storcli_step_def map_error_def lift_sum_def plain_failure_def
        split: sum.splits fault.splits)
  show ?thesis
    unfolding run_command_def
  proof (rule sends_once_then [OF once])
    fix x :: "(storcli_error \<times> bool option) + dict"
    show "extends_by (quiet (config_of w)) (case x of Inl e \<Rightarrow> ret (None, Some e) | Inr payload \<Rightarrow>
        andthen (catch_storcli (storcli_step (ensure_command_succeeded payload)))
          (\<lambda>s. ret (Some payload, case s of Inl e \<Rightarrow> Some e | Inr _ \<Rightarrow> None)))"
      by (auto split: sum.split intro!: calm.ext_andthen calm_catch calm_intros)
    show "returns (case x of Inl e \<Rightarrow> ret (None, Some e) | Inr payload \<Rightarrow>
        andthen (catch_storcli (storcli_step (ensure_command_succeeded payload)))
          (\<lambda>s. ret (Some payload, case s of Inl e \<Rightarrow> Some e | Inr _ \<Rightarrow> None)))"
      by (auto split: sum.split intro!: returns_then ensured)
  qed
qed

subsection \<open>More calm steps\<close>

lemma calm_cases [calm_intros]:
  "extends_by ok m \<Longrightarrow> extends_by ok m' \<Longrightarrow> extends_by ok (if c then m else m')"
  "(\<And>x. extends_by ok (f x)) \<Longrightarrow> (\<And>y. extends_by ok (g y)) \<Longrightarrow> extends_by ok (case_sum f g t)"
  "extends_by ok n \<Longrightarrow> (\<And>x. extends_by ok (f x)) \<Longrightarrow> extends_by ok (case_option n f v)"
  "(\<And>x y. extends_by ok (h x y)) \<Longrightarrow> extends_by ok (case_prod h p)"
  by (simp_all split: sum.split option.split prod.split)

declare calm_catch [calm_intros] calm.ext_andthen [calm_intros]

lemma calm_drive_steps [calm_intros]:
  "extends_by (quiet (config_of w)) (path_drive w enclosure slot)"
  "extends_by (quiet (config_of w)) (snapshot_drive w e s)"
  "extends_by (quiet (config_of w)) (has_requested_dg w act dg)"
  "extends_by (quiet (config_of w)) (drive_action_gates act st)"
  "extends_by (quiet (config_of w)) (drive_action_precheck w rq act e s dg state)"
  "extends_by (quiet (config_of w)) (destructive_gates st)"
  "extends_by (quiet (config_of w)) (replace_precheck w rq step msg marker e s serial)"
  unfolding path_drive_def snapshot_drive_def has_requested_dg_def drive_action_gates_def drive_action_precheck_def
    destructive_gates_def replace_precheck_def
  by (intro calm_intros)+

lemma calm_policy_or_crash [calm_intros]: "extends_by (quiet cfg) (policy_or_crash w)"
  unfolding policy_or_crash_def Let_def by (intro calm_intros calm.ext_perform) simp

lemma calm_insert_steps [calm_intros]:
  "extends_by (quiet (config_of w)) (compute_slot_topology w e s)"
  "extends_by (quiet (config_of w)) (require_topology e s t)"
  "extends_by (quiet (config_of w)) (insert_audit_gate full e s serial drive d)"
  unfolding compute_slot_topology_def require_topology_def insert_audit_gate_def Let_def
  by (intro calm_intros)+

lemma calm_operation_steps [calm_intros]:
  "extends_by (quiet (config_of w)) (refuse rq body code)"
  "extends_by (quiet (config_of w)) (audit_reject w rq act msg reason body code)"
  "extends_by (quiet (config_of w)) (fail_precheck w rq act msg x)"
  "extends_by (quiet (config_of w)) (reject_patrol_read_maintenance w rq act msg st)"
  "extends_by (quiet (config_of w)) (reject_consistency_check_maintenance w rq act msg st)"
  "extends_by (quiet (config_of w)) (operation_argv rq built_argv)"
  "extends_by (quiet (config_of w)) (parse_operation_body rq raw)"
  "extends_by (quiet (config_of w)) (parse_consistency_body rq oraw)"
  unfolding refuse_def audit_reject_def fail_precheck_def reject_patrol_read_maintenance_def
    reject_consistency_check_maintenance_def operation_argv_def parse_operation_body_def parse_consistency_body_def
  by (auto split: parsed_body.split operation_body.split sum.split intro!: calm_intros)

lemma calm_foreign_steps [calm_intros]:
  "extends_by (quiet (config_of w)) (reject_foreign_config_destructive w rq act digest reason body code)"
  "extends_by (quiet (config_of w)) (foreign_query_step w rq act)"
  "extends_by (quiet (config_of w)) (require_or_reject w rq act digest ok reason body code)"
  "extends_by (quiet (config_of w)) (rebuild_gate w rq act digest)"
  "extends_by (quiet (config_of w)) (foreign_present_gate w rq act f)"
  unfolding foreign_query_step_def require_or_reject_def rebuild_gate_def foreign_present_gate_def
    reject_foreign_config_destructive_def
  by (auto split: option.split bool.split sum.split intro!: calm_intros)

lemma calm_preview [calm_intros]:
  "extends_by (quiet (config_of w)) (check_foreign_preview_safety w rq act digest argv)"
proof -
  have "extends_by (quiet (config_of w))
      (check_storcli_prewrite (runner_of w) (config_of w) (as_policy_path (we_settings w)) (Some digest) argv)"
    using check_storcli_prewrite_reads reads_only_quiet unfolding extends_by_def by metis
  then show ?thesis
    unfolding check_foreign_preview_safety_def by (intro calm_intros calm.ext_map_error)
qed

lemma calm_guard [calm_intros]:
  "extends_by (quiet (config_of w)) (require_controller_capability w rq selected)"
  unfolding require_controller_capability_def policy_reason_def action_disabled_reason_def forbidden_def Let_def
  by (intro calm_intros calm.ext_perform; simp)

subsection \<open>Accountable handlers\<close>

definition answers_for :: "web_env \<Rightarrow> action_request \<Rightarrow> 'a action \<Rightarrow> bool" where
  "answers_for w rq m \<longleftrightarrow>
     (\<forall>tr. \<exists>cat msg after post.
        fst (m tr) = tr @ Audit (ar_user rq) cat msg after # post \<and> quiet (config_of w) post \<and>
        (we_saved w tr \<or> (\<exists>extras. snd (m tr) = Inl (audit_failure extras))))"

definition accounted :: "web_env \<Rightarrow> action_request \<Rightarrow> trace \<Rightarrow> trace \<Rightarrow> reply + 'a \<Rightarrow> bool" where
  "accounted w rq tr new r \<longleftrightarrow>
     quiet (config_of w) new \<or>
     (\<exists>pre e mid cat msg after post.
        new = pre @ e # mid @ Audit (ar_user rq) cat msg after # post \<and>
        quiet (config_of w) pre \<and> quiet (config_of w) mid \<and> quiet (config_of w) post \<and>
        (we_saved w (tr @ pre @ e # mid) \<or> (\<exists>extras. r = Inl (audit_failure extras))))"

definition accountable :: "web_env \<Rightarrow> action_request \<Rightarrow> 'a action \<Rightarrow> bool" where
  "accountable w rq m \<longleftrightarrow> (\<forall>tr. \<exists>new. fst (m tr) = tr @ new \<and> accounted w rq tr new (snd (m tr)))"

lemma accountedI:
  "quiet (config_of w) pre \<Longrightarrow> quiet (config_of w) mid \<Longrightarrow> quiet (config_of w) post \<Longrightarrow>
   we_saved w (tr @ pre @ e # mid) \<or> (\<exists>extras. r = Inl (audit_failure extras)) \<Longrightarrow>
   accounted w rq tr (pre @ e # mid @ Audit (ar_user rq) cat msg after # post) r"
  unfolding accounted_def by blast

lemma accountedE:
  assumes "accounted w rq tr new r"
  obtains "quiet (config_of w) new"
    | pre e mid cat msg after post where "new = pre @ e # mid @ Audit (ar_user rq) cat msg after # post"
        "quiet (config_of w) pre" "quiet (config_of w) mid" "quiet (config_of w) post"
        "we_saved w (tr @ pre @ e # mid) \<or> (\<exists>extras. r = Inl (audit_failure extras))"
  using assms unfolding accounted_def by blast

lemma accounted_after: "accounted w rq (tr @ a) new r \<Longrightarrow> quiet (config_of w) a \<Longrightarrow> accounted w rq tr (a @ new) r"
proof (erule accountedE)
  fix pre e mid cat msg after post
  assume q: "quiet (config_of w) a" and new: "new = pre @ e # mid @ Audit (ar_user rq) cat msg after # post"
    and parts: "quiet (config_of w) pre" "quiet (config_of w) mid" "quiet (config_of w) post"
    and saved: "we_saved w ((tr @ a) @ pre @ e # mid) \<or> (\<exists>extras. r = Inl (audit_failure extras))"
  have "accounted w rq tr ((a @ pre) @ e # mid @ Audit (ar_user rq) cat msg after # post) r"
    using q parts saved by (intro accountedI) auto
  then show "accounted w rq tr (a @ new) r" using new by simp
qed (simp add: accounted_def)

named_theorems acc_intros

lemma acc_calm: "extends_by (quiet (config_of w)) m \<Longrightarrow> accountable w rq m"
  unfolding accountable_def accounted_def extends_by_def by blast

lemma acc_cases [acc_intros]:
  "accountable w rq m \<Longrightarrow> accountable w rq m' \<Longrightarrow> accountable w rq (if c then m else m')"
  "(\<And>x. accountable w rq (f x)) \<Longrightarrow> (\<And>y. accountable w rq (g y)) \<Longrightarrow> accountable w rq (case_sum f g t)"
  "accountable w rq n \<Longrightarrow> (\<And>x. accountable w rq (f x)) \<Longrightarrow> accountable w rq (case_option n f v)"
  "(\<And>x y. accountable w rq (h x y)) \<Longrightarrow> accountable w rq (case_prod h p)"
  by (simp_all split: sum.split option.split prod.split)

lemma acc_then:
  assumes "extends_by (quiet (config_of w)) m" and "\<And>x. accountable w rq (f x)"
  shows "accountable w rq (andthen m f)"
  unfolding accountable_def
proof
  fix tr
  obtain tr1 r where m: "m tr = (tr1, r)" by (cases "m tr")
  obtain a where a: "tr1 = tr @ a" "quiet (config_of w) a" using extends_byE [OF assms(1) m] by blast
  show "\<exists>new. fst (andthen m f tr) = tr @ new \<and> accounted w rq tr new (snd (andthen m f tr))"
  proof (cases r)
    case (Inl e)
    then show ?thesis using m a by (auto simp: andthen_def accounted_def)
  next
    case (Inr x)
    obtain new where "fst (f x tr1) = tr1 @ new" "accounted w rq tr1 new (snd (f x tr1))"
      using assms(2) [of x] unfolding accountable_def by blast
    then show ?thesis using m a Inr accounted_after [of w rq tr a new] by (auto simp: andthen_def)
  qed
qed

lemma acc_send:
  assumes "sends_once (config_of w) m" and "\<And>x. answers_for w rq (f x)"
  shows "accountable w rq (andthen m f)"
  unfolding accountable_def
proof
  fix tr
  obtain tr1 r where m: "m tr = (tr1, r)" by (cases "m tr")
  show "\<exists>new. fst (andthen m f tr) = tr @ new \<and> accounted w rq tr new (snd (andthen m f tr))"
  proof (cases r)
    case (Inl e)
    then have eq: "andthen m f tr = (tr1, Inl e)" using m by (simp add: andthen_def)
    show ?thesis using assms(1) m by (cases rule: sends_onceE) (use eq Inl in \<open>auto simp: accounted_def\<close>)
  next
    case (Inr x)
    obtain cat msg after post where f: "fst (f x tr1) = tr1 @ Audit (ar_user rq) cat msg after # post"
      "quiet (config_of w) post" "we_saved w tr1 \<or> (\<exists>extras. snd (f x tr1) = Inl (audit_failure extras))"
      using assms(2) [of x] unfolding answers_for_def by blast
    have eq: "andthen m f tr = f x tr1" using m Inr by (simp add: andthen_def)
    from assms(1) m show ?thesis
    proof (cases rule: sends_onceE)
      case (1 new)
      then show ?thesis using eq f by (auto simp: accounted_def)
    next
      case (2 pre e mid)
      then have "accounted w rq tr (pre @ e # mid @ Audit (ar_user rq) cat msg after # post) (snd (f x tr1))"
        using f by (intro accountedI) auto
      then show ?thesis using 2(1) eq f(1) by auto
    qed
  qed
qed

lemma answers_audited: "answers_for w rq (audited w rq cat msg after extras)"
  by (auto simp: answers_for_def audited_def andthen_def perform_def ret_def fail_def lift_sum_def)

lemma answers_then:
  assumes "answers_for w rq m" and "\<And>x. extends_by (quiet (config_of w)) (f x)"
  shows "answers_for w rq (andthen m f)"
  unfolding answers_for_def
proof
  fix tr
  obtain tr1 r where m: "m tr = (tr1, r)" by (cases "m tr")
  then obtain cat msg after post where a: "tr1 = tr @ Audit (ar_user rq) cat msg after # post"
    "quiet (config_of w) post" "we_saved w tr \<or> (\<exists>extras. r = Inl (audit_failure extras))"
    using assms(1) unfolding answers_for_def by (metis fst_conv snd_conv)
  show "\<exists>cat msg after post. fst (andthen m f tr) = tr @ Audit (ar_user rq) cat msg after # post \<and>
      quiet (config_of w) post \<and> (we_saved w tr \<or> (\<exists>extras. snd (andthen m f tr) = Inl (audit_failure extras)))"
  proof (cases r)
    case (Inl e)
    then show ?thesis using m a by (auto simp: andthen_def)
  next
    case (Inr x)
    obtain more where "fst (f x tr1) = tr1 @ more" "quiet (config_of w) more"
      using assms(2) [of x] unfolding extends_by_def by blast
    then show ?thesis using m a Inr by (auto simp: andthen_def)
  qed
qed

lemma answers_prod: "(\<And>x y. answers_for w rq (h x y)) \<Longrightarrow> answers_for w rq (case_prod h p)"
  by (cases p) simp

lemmas answers_rules = answers_prod answers_then answers_audited

subsection \<open>The handlers are accountable\<close>

lemma acc_locate [acc_intros]: "accountable w rq (run_locate w rq enclosure slot act)"
  unfolding run_locate_def
  by (rule acc_then, (rule calm_intros)+, intro acc_intros, rule acc_then, rule calm_intros, rule acc_intros(1),
      rule acc_calm, (intro calm_intros)[1], rule acc_send, rule run_command_once, intro answers_rules calm_intros)

lemma acc_drive_command: "accountable w rq (run_drive_command w rq act e s dg state argv)"
  unfolding run_drive_command_def
  by (rule acc_send, rule run_command_once, intro answers_rules calm_intros)

lemma acc_drive_action [acc_intros]: "accountable w rq (run_advanced_drive_action w rq act enclosure slot dg serial)"
  unfolding run_advanced_drive_action_def
  by (intro acc_intros acc_then acc_drive_command calm_intros)

text \<open>The check after a replacement command returns, whatever the live drive answers.\<close>

definition only_storcli :: "(storcli_failure, 'a) io \<Rightarrow> bool" where
  "only_storcli m \<longleftrightarrow> (\<forall>tr tr' f. m tr = (tr', Inl f) \<longrightarrow> (\<exists>x. sf_fault f = Storcli x))"

lemma only_storcli_then: "only_storcli m \<Longrightarrow> (\<And>x. only_storcli (f x)) \<Longrightarrow> only_storcli (andthen m f)"
  unfolding only_storcli_def andthen_Inl by blast

lemma only_storcli_step: "(\<And>e. r \<noteq> Inl (Raised e)) \<Longrightarrow> only_storcli (storcli_step r)"
  by (cases r) (auto simp: only_storcli_def storcli_step_def map_error_Inl plain_failure_def intro: fault.exhaust)

lemma only_storcli_returns: "only_storcli m \<Longrightarrow> returns (catch_storcli m)"
  unfolding only_storcli_def returns_def catch_storcli_def
  by (auto split: prod.split sum.split fault.split) (metis fault.distinct(1))

lemma read_only_storcli:
  assumes "''show'' \<in> set argv"
  shows "only_storcli (run_live w argv)"
  unfolding only_storcli_def run_live_def
proof (intro allI impI)
  fix tr tr' f
  assume "run_storcli (runner_of w) (config_of w) (authorization_path w) None None argv tr = (tr', Inl f)"
  then show "\<exists>x. sf_fault f = Storcli x"
  proof (cases rule: run_storcli_cases)
    case (invalid e)
    then show ?thesis by (simp add: plain_failure_def)
  next
    case (refused g)
    then show ?thesis using assms by (auto simp: before_dispatch_def andthen_Inl split: option.splits)
  next
    case (dispatched tr1)
    then show ?thesis
      by (auto simp: plain_failure_def interpret_outcome_def not_available_def command_refused_def exit_failure_def
          parse_fault_def split: sum.splits process_outcome.splits if_splits option.splits json.splits)
  qed
qed

lemma query_live_drive_returns:
  assumes "validate_enclosure_slot e s = Inr ()"
  shows "returns (catch_storcli (query_live_drive_show w e s))"
proof -
  have parsed: "only_storcli (andthen (storcli_step (ensure_command_succeeded p)) (\<lambda>_. storcli_step (parse_drive_show p k)))" for p k
  proof (cases "ensure_command_succeeded p")
    case (Inl f)
    then show ?thesis using ensure_command_succeeded_storcli [of p]
      by (cases f) (auto simp: only_storcli_def plain_failure_def)
  next
    case (Inr u)
    then show ?thesis using parse_drive_show_storcli by (auto intro: only_storcli_step)
  qed
  have built: "build_show_drive_command e s = Inr [drive_path e s, ''show'', ''all'', ''J'']"
    unfolding build_show_drive_command_def assms by simp
  show ?thesis
    unfolding query_live_drive_show_def built sum.case storcli_step_then
    by (rule only_storcli_returns, rule only_storcli_then, rule read_only_storcli, simp, rule parsed)
qed

lemma acc_replace_command:
  assumes "validate_enclosure_slot e s = Inr ()"
  shows "accountable w rq (run_replace_command w rq step e s serial argv)"
proof -
  have "sends_once (config_of w) (replace_command w rq step e s serial argv)"
    unfolding replace_command_def
  proof (rule sends_once_then [OF run_command_once])
    fix x :: "dict option \<times> (storcli_error \<times> bool option) option"
    let ?k = "case x of (result, err) \<Rightarrow>
       if err \<noteq> None then ret (None, result, err)
       else if \<not> full_actions w then ret (None, result, None)
       else andthen (catch_storcli (query_live_drive_show w e s)) (\<lambda>r.
         case r of
           Inl _ \<Rightarrow> ret (None, result, Some (uncertain_outcome, None))
         | Inr observed \<Rightarrow>
             if ds_serial_number observed \<noteq> serial \<or> normalized_state (ds_state observed) \<noteq> step
             then ret (None, result, Some (uncertain_outcome, None))
             else ret (Some step, result, None))"
    show "extends_by (quiet (config_of w)) ?k" by (intro calm_intros)
    show "returns ?k"
      using query_live_drive_returns [OF assms] by (auto split: prod.split sum.split intro!: returns_then)
  qed
  then show ?thesis
    unfolding run_replace_command_def by (rule acc_send) (intro answers_rules calm_intros)
qed

lemma andthen_ret [simp]: "andthen (ret x) f = f x"
  by (simp add: fun_eq_iff andthen_def ret_def)

lemma acc_bad_request:
  "(\<And>x. m = Inr x \<Longrightarrow> accountable w rq (f x)) \<Longrightarrow> accountable w rq (andthen (bad_request m) f)"
proof (cases m)
  case (Inl msg)
  then have "andthen (bad_request m) f = respond 400 (error_body msg)"
    by (simp add: fun_eq_iff bad_request_def respond_def andthen_def fail_def lift_sum_def)
  then show "accountable w rq (andthen (bad_request m) f)" by (simp add: acc_calm calm_intros)
next
  case (Inr x)
  moreover assume "\<And>x. m = Inr x \<Longrightarrow> accountable w rq (f x)"
  ultimately show "accountable w rq (andthen (bad_request m) f)" by (simp add: bad_request_def)
qed

lemma replace_argv_valid: "replace_argv step e s = Inr argv \<Longrightarrow> validate_enclosure_slot e s = Inr ()"
  by (auto simp: replace_argv_def build_set_offline_command_def build_set_missing_command_def bindr_Inr_iff split: if_splits)

lemma acc_replace_step [acc_intros]: "accountable w rq (run_replace_step w rq step enclosure slot raw)"
  unfolding run_replace_step_def
  by (intro acc_intros acc_bad_request acc_then acc_replace_command calm_intros)
    (erule replace_argv_valid | rule acc_calm, intro calm_intros)+

lemma acc_insert [acc_intros]: "accountable w rq (drive_replace_insert w rq enclosure slot raw)"
proof -
  have "accountable w rq (run_insert_command w rq e s serial t argv)" for e s serial t argv
    unfolding run_insert_command_def by (rule acc_send, rule run_command_once, intro answers_rules calm_intros)
  then show ?thesis
    unfolding drive_replace_insert_def
    by (intro acc_intros acc_then calm_intros) (rule acc_calm, intro calm_intros)
qed

lemma checked_command_once:
  assumes "extends_by (quiet (config_of w)) live_state"
  shows "sends_once (config_of w) (checked_command w rq act live_state argv)"
proof -
  have "sends_once (config_of w) (case r of Inl e \<Rightarrow> ret (None, Some e)
      | Inr state \<Rightarrow> if py_lower state = ''unknown'' then ret (None, Some (unknown_state, None)) else run_command w rq None argv)"
    for r :: "(storcli_error \<times> bool option) + string"
    by (auto split: sum.split intro: run_command_once sends_once_calm calm_intros)
  then show ?thesis
    unfolding checked_command_def using assms by (auto intro!: run_command_once sends_once_after calm_intros)
qed

lemma answers_mutation: "answers_for w rq (audit_mutation w rq act msg argv outcome)"
  unfolding audit_mutation_def by (intro answers_rules calm_intros)

lemma acc_patrol_mutation [acc_intros]: "accountable w rq (run_patrol_read_mutation w rq st act argv msg)"
  unfolding run_patrol_read_mutation_def
  by (rule acc_then, rule calm_intros, rule acc_send, rule checked_command_once, intro calm_intros,
      intro answers_then answers_mutation calm_intros)

lemma acc_consistency_mutation [acc_intros]: "accountable w rq (run_consistency_check_mutation w rq st act argv msg)"
  unfolding run_consistency_check_mutation_def
  by (rule acc_then, rule calm_intros, rule acc_send, rule checked_command_once, intro calm_intros,
      intro answers_then answers_mutation calm_intros)

lemma acc_operations [acc_intros]:
  "accountable w rq (controller_patrol_read_start w rq)" "accountable w rq (controller_patrol_read_stop w rq)"
  "accountable w rq (controller_patrol_read_mode w rq raw)"
  "accountable w rq (controller_consistency_check_start w rq vraw)" "accountable w rq (controller_consistency_check_stop w rq)"
  "accountable w rq (controller_consistency_check_mode w rq mraw)"
  unfolding controller_patrol_read_start_def controller_patrol_read_stop_def controller_patrol_read_mode_def
    controller_consistency_check_start_def controller_consistency_check_stop_def controller_consistency_check_mode_def
  by ((intro acc_intros acc_then calm_intros; rule acc_calm, intro calm_intros)+)

lemma acc_buzzer [acc_intros]: "accountable w rq (run_controller_buzzer_action w rq a)"
  unfolding run_controller_buzzer_action_def
  by (rule acc_then, rule calm_intros, rule acc_cases(1), rule acc_calm, (intro calm_intros)[1], rule acc_send,
      rule run_command_once, intro answers_rules calm_intros)

lemma acc_foreign [acc_intros]:
  "accountable w rq (controller_foreign_config_import w rq raw)" "accountable w rq (controller_foreign_config_clear w rq raw)"
proof -
  have "accountable w rq (run_foreign_config_destructive w rq act digest argv)" for act digest argv
    unfolding run_foreign_config_destructive_def by (rule acc_send, rule run_command_once, intro answers_rules calm_intros)
  then have confirmed: "accountable w rq (confirmed_foreign_action w rq act st dry f argv)" for act st dry f argv
    unfolding confirmed_foreign_action_def
    by (intro acc_intros acc_then calm_intros) (rule acc_calm, intro calm_intros)
  show "accountable w rq (controller_foreign_config_import w rq raw)"
    "accountable w rq (controller_foreign_config_clear w rq raw)"
    unfolding controller_foreign_config_import_def controller_foreign_config_clear_def
    by (intro acc_then calm_intros confirmed)+
qed

lemma acc_run_action: "accountable w rq (run_action w rq a)"
  by (cases a) (simp_all only: run_action.simps acc_intros)

lemma acc_serve_action: "accountable w rq (serve_action w rq a)"
  unfolding serve_action_def by (intro acc_then acc_run_action calm_intros)

subsection \<open>A write that happens\<close>

text \<open>The example of \<open>RunnerSafety\<close> behind a request: the buzzer is disabled under full actions.\<close>

definition sample_web :: web_env where
  "sample_web =
     \<lparr>we_runner = sample_env,
      we_settings = \<lparr>as_read_only = False, as_capability = ''full-supported-actions'', as_maintenance_mode = True,
        as_destructive_mode = False, as_use_sudo = True, as_storcli_path = pinned_binary, as_policy_path = ''p''\<rparr>,
      we_db = (\<lambda>_. empty_db), we_saved = (\<lambda>_. True), we_now = (\<lambda>_. 0), we_int = (\<lambda>_. Inl [])\<rparr>"

definition sample_request :: action_request where
  "sample_request =
     \<lparr>ar_user = ''ann'', ar_route = ''controller_buzzer_disable'', ar_path = ''/controller/buzzer/disable'',
      ar_hx_request = [], ar_accept = [], ar_dry_run = None\<rparr>"

definition sample_write :: effect where
  "sample_write = Exec (argv_of sample_config (with_json_flag build_alarm_disable_command))"

definition sample_new :: "effect list" where
  "sample_new =
     [VerifyBinary pinned_binary, LoadPolicy ''p'', LoadPolicy ''p'', ReadSettings] @ sample_pre @
     [sample_write, Audit ''ann'' ''controller_buzzer_disable''
        ''Buzzer disable requested by operator ann; target setting: off; result: succeeded'' None]"

lemma sample_served:
  "serve_action sample_web sample_request (Buzzer Disable) [] = (sample_new, Inr (See_other ''overview'' []))"
  by code_simp

lemma sample_write_facts: "sample_write \<in> set sample_new" "is_write (config_of sample_web) sample_write"
  by (simp add: sample_new_def, code_simp)

text \<open>C3. Every write a request sends to the controller is followed by an audit entry of the same user,
  whatever the controller, the processes, the policy file or the database answer: a request sends at
  most one write, nothing else is written before or after it, and when the entry cannot be saved the
  reply is the 500 that says the physical outcome is unverified.\<close>

theorem every_write_is_audited:
  assumes "serve_action w rq a tr = (tr @ new, r)" and "e \<in> set new" and "is_write (config_of w) e"
  shows "\<exists>pre mid cat msg after post.
    new = pre @ e # mid @ Audit (ar_user rq) cat msg after # post \<and>
    quiet (config_of w) pre \<and> quiet (config_of w) mid \<and> quiet (config_of w) post \<and>
    (we_saved w (tr @ pre @ e # mid) \<or> (\<exists>extras. r = Inl (audit_failure extras)))"
proof -
  have "accounted w rq tr new r"
    using acc_serve_action [of w rq a] assms(1) unfolding accountable_def by (metis fst_conv same_append_eq snd_conv)
  then show ?thesis
  proof (cases rule: accountedE)
    case 1
    then show ?thesis using assms(2, 3) by (auto simp: quiet_def list_all_iff)
  next
    case (2 pre e' mid cat msg after post)
    then have "e = e'" using assms(2, 3) by (auto simp: quiet_def list_all_iff)
    then show ?thesis using 2 by blast
  qed
qed


theorem every_write_is_audited_witness:
  "\<exists>pre mid cat msg after post.
     sample_new = pre @ sample_write # mid @ Audit ''ann'' cat msg after # post \<and>
     quiet (config_of sample_web) pre \<and> quiet (config_of sample_web) mid \<and> quiet (config_of sample_web) post"
proof -
  have "ar_user sample_request = ''ann''" by (simp add: sample_request_def)
  then show ?thesis
    using every_write_is_audited [of sample_web sample_request "Buzzer Disable" "[]" sample_new
        "Inr (See_other ''overview'' [])" sample_write] sample_served sample_write_facts
    by (simp only: append_Nil) blast
qed

end
