(* ===== verification/TemplateProps.thy ===== *)
theory TemplateProps
  imports Templates ActionProps
begin

section \<open>What the pages offer\<close>

text \<open>
  The reasons the pages give against an action compared with the guard of its route, and the links in event texts.
\<close>

subsection \<open>Reasons and guards\<close>

text \<open>
  A world that stands still: the binary verifies, the policy can be read and is the same at every moment, and so are the
  settings that gate a write.
\<close>

definition settled_world :: "web_env \<Rightarrow> command_policy \<Rightarrow> write_settings \<Rightarrow> bool" where
  "settled_world w p s \<longleftrightarrow>
     (\<forall>tr. verify_pinned_binary (we_runner w) tr (as_storcli_path (we_settings w)) = Inr ()) \<and>
     (\<forall>tr. load_policy (we_runner w) tr (as_policy_path (we_settings w)) = Inr p) \<and>
     (\<forall>tr. write_settings_at w tr = s)"

fun is_replacement :: "controller_action \<Rightarrow> bool" where
  "is_replacement (ReplaceStep _ _ _ _) = True"
| "is_replacement (ReplaceInsert _ _ _) = True"
| "is_replacement _ = False"

text \<open>The paths the router knows.\<close>

fun routed :: "controller_action \<Rightarrow> bool" where
  "routed (Locate _ _ action) = (action \<in> {''start'', ''stop''})"
| "routed (ReplaceStep step _ _ _) = (step \<in> {''offline'', ''missing''})"
| "routed _ = True"

text \<open>The path a page asks about: a replacement is offered as a whole, by its last step.\<close>

fun offered_path :: "string \<Rightarrow> controller_action \<Rightarrow> string" where
  "offered_path base (ReplaceStep step e k raw) = slot_path base e k @ ''/replace/insert''"
| "offered_path base a = action_path base a"

lemma replacement_of_routed:
  assumes "routed a"
  shows "replacement_route (route_of a) = is_replacement a"
  using assms
  by (cases a)
    (auto simp: replacement_route_def buzzer_category_def elim: drive_action_name.elims buzzer_name.elims)

lemma replacement_refusal_step:
  assumes "CHR ''/'' \<notin> set step" "CHR ''/'' \<notin> set step'"
  shows "replacement_refusal p (base @ CHR ''/'' # step) = replacement_refusal p (base @ CHR ''/'' # step')"
proof -
  have "before_last CHR ''/'' (base @ CHR ''/'' # s) = base" if "CHR ''/'' \<notin> set s" for s
  proof -
    have "dropWhile (\<lambda>c. c \<noteq> CHR ''/'') (rev s @ CHR ''/'' # rev base) = CHR ''/'' # rev base"
      using that by (subst dropWhile_append2) auto
    then show ?thesis
      by (simp add: before_last_def)
  qed
  then show ?thesis
    using assms by (simp add: replacement_refusal_def)
qed

lemma before_last_slash:
  assumes "CHR ''/'' \<notin> set tail"
  shows "before_last CHR ''/'' (base @ CHR ''/'' # tail) = base"
proof -
  have "dropWhile (\<lambda>c. c \<noteq> CHR ''/'') (rev tail @ CHR ''/'' # rev base) = CHR ''/'' # rev base"
    using assms by (subst dropWhile_append2) auto
  then show ?thesis
    by (simp add: before_last_def)
qed

lemma offered_refusal:
  assumes "routed a" "is_replacement a"
  shows "replacement_refusal p (offered_path base a) = replacement_refusal p (action_path base a)"
proof -
  have "before_last CHR ''/'' (offered_path base a) = before_last CHR ''/'' (action_path base a)"
  proof (cases a)
    case (ReplaceStep step e k raw)
    then show ?thesis
      using assms(1) before_last_slash[of step "slot_path base e k @ ''/replace''"]
        before_last_slash[of "''insert''" "slot_path base e k @ ''/replace''"] by auto
  qed (use assms in auto)
  then show ?thesis
    by (simp add: replacement_refusal_def)
qed

lemma offered_stop:
  assumes "routed a"
  shows "suffix ''/locate/stop'' (offered_path base a) \<longleftrightarrow> route_of a = ''drive_locate_stop''"
proof (cases a)
  case (Buzzer b)
  then show ?thesis
    by (cases b) (simp_all add: suffix_to_prefix buzzer_category_def)
next
  case (DriveAction d e k dg serial)
  then show ?thesis
    by (cases d) (simp_all add: suffix_to_prefix drive_action_tail_def)
qed (use assms in \<open>auto simp: suffix_to_prefix\<close>)

lemma offered_destructive:
  assumes "routed a"
  shows "(str_in ''/replace/'' (offered_path base a) \<or> str_in ''/foreign-config/'' (offered_path base a)) \<longleftrightarrow>
    (str_in ''/replace/'' (action_path base a) \<or> str_in ''/foreign-config/'' (action_path base a))"
proof (cases a)
  case (ReplaceStep step e k raw)
  then have "str_in ''/replace/'' (offered_path base a)" "str_in ''/replace/'' (action_path base a)"
    by (auto simp: str_in_iff intro: exI[of _ "slot_path base e k"])
  then show ?thesis
    by simp
qed auto

lemma settled_reads:
  assumes "settled_world w p s"
  shows "verify_pinned_binary (we_runner w) tr (as_storcli_path (we_settings w)) = Inr ()"
    "load_policy (we_runner w) tr (as_policy_path (we_settings w)) = Inr p"
    "write_settings_at w tr = s"
  using assms by (simp_all add: settled_world_def)

lemma settled_settings:
  assumes "settled_world w p s" "full_actions w"
  shows "ws_read_only s = as_read_only (we_settings w)" "ws_capability s = ''full-supported-actions''"
    "ws_destructive_mode s = as_destructive_mode (we_settings w)"
  using settled_reads(3)[OF assms(1), of "[]"] assms(2)
  by (auto simp: write_settings_at_def full_actions_def Let_def)

lemma action_family:
  assumes "routed a"
  shows "route_family (route_of a) \<noteq> ''maintenance''"
  using assms
proof (cases a)
  case (DriveAction d e k dg serial)
  then show ?thesis
    by (cases d) (simp_all add: route_family_def)
next
  case (Buzzer b)
  then show ?thesis
    by (cases b) (simp_all add: route_family_def buzzer_category_def)
qed (auto simp: route_family_def)

lemma snd_andthen:
  "snd (andthen m f tr) = (case m tr of (tr', Inl e) \<Rightarrow> Inl e | (tr', Inr x) \<Rightarrow> snd (f x tr'))"
  by (auto simp: andthen_def split: prod.split sum.split)

lemma settled_reason:
  assumes "settled_world w p s" "full_actions w"
  shows "snd (action_disabled_reason w family tr) =
    Inr (if ws_read_only s then Some ''Controller actions disabled: read-only rollout.'' else None)"
  using settled_settings[OF assms] assms(2)
  by (simp add: action_disabled_reason_def Let_def snd_andthen andthen_def perform_def ret_def settled_reads(1,2)[OF assms(1)])

lemma settled_policy:
  assumes "settled_world w p s"
  shows "snd (andthen (policy_or_crash w) f tr) = snd (f p (tr @ [LoadPolicy (as_policy_path (we_settings w))]))"
  by (simp add: policy_or_crash_def Let_def andthen_def perform_def ret_def settled_reads(2)[OF assms])

lemma settled_context:
  assumes "settled_world w p s" "full_actions w" "maintenance_context_processor w st enabled tr = (tr', Inr c)"
  shows "pc_other_reason c = None \<longleftrightarrow> \<not> ws_read_only s" "pc_writes_enabled c = ws_maintenance_mode s"
proof -
  obtain tr1 tr2 tr3 tr4 where other: "action_disabled_reason w ''other writes'' tr1 = (tr2, Inr (pc_other_reason c))"
    and enabled: "query_writes_enabled w tr3 = (tr4, Inr (pc_writes_enabled c))"
    using assms(3) by (auto simp: maintenance_context_processor_def andthen_Inr ret_def Let_def)
  show "pc_other_reason c = None \<longleftrightarrow> \<not> ws_read_only s"
    using settled_reason[OF assms(1,2), of "''other writes''" tr1] other by (auto split: if_splits)
  have "maintenance_writes_enabled (as_maintenance_mode (we_settings w)) (Aware (we_now w tr3)) (we_db w tr3) = Inr (pc_writes_enabled c)"
    using enabled by (auto simp: query_writes_enabled_def db_query_def andthen_Inr perform_def ret_def fail_def lift_sum_def
        split: sum.splits)
  then show "pc_writes_enabled c = ws_maintenance_mode s"
    using settled_reads(3)[OF assms(1), of tr3] by (auto simp: write_settings_at_def Let_def)
qed

text \<open>C33. A page offers an action exactly when its route would take it. With the capability for all supported actions, while
  policy, settings and database stand still, and when the command the page selects is the one the request asks for, the
  reason the page gives against an action is empty if and only if the guard of the route admits the request and the gate
  in front of the write is open under the settings of that moment. A replacement is offered as a whole, and each of its
  steps is taken exactly then.\<close>

theorem pages_offer_what_routes_take:
  assumes "settled_world w p s" "full_actions w" "routed a"
    and "maintenance_context_processor w st enabled tr = (tr', Inr c)"
    and "ar_path rq = action_path base a" "ar_route rq = route_of a"
    and "page_selection (offered_path base a) mode = Inr selected"
    and "requested_approval_command a = map_option Some selected"
  shows "snd (approved_action_reason w c (offered_path base a) mode (is_replacement a) tr1) = Inr None \<longleftrightarrow>
    snd (require_controller_capability w rq (requested_approval_command a) tr2) = Inr () \<and> \<not> gate_closed (request_gate rq) s"
proof -
  note ctx = settled_context[OF assms(1,2,4)] and settings = settled_settings[OF assms(1,2)]
  define refusal where "refusal = (if is_replacement a then replacement_refusal p (action_path base a)
    else action_refusal p (action_path base a) selected)"
  have path: "offered_path base a = action_path base a" if "\<not> is_replacement a"
    using that by (cases a) auto
  have stop: "suffix ''/locate/stop'' (offered_path base a) = wg_recovery (request_gate rq)"
    using offered_stop[OF assms(3), of base] assms(6) by (simp add: request_gate_def)
  have destructive: "(str_in ''/replace/'' (offered_path base a) \<or> str_in ''/foreign-config/'' (offered_path base a)) =
      wg_destructive (request_gate rq)"
    using offered_destructive[OF assms(3), of base] assms(5) by (simp add: request_gate_def)
  have refused: "(if is_replacement a then replacement_refusal p (offered_path base a)
      else action_refusal p (offered_path base a) selected) = refusal"
    using offered_refusal[OF assms(3)] path by (simp add: refusal_def)
  have asked: "snd (andthen (policy_or_crash w) (\<lambda>p. if is_replacement a then ret (replacement_refusal p (offered_path base a))
        else case page_selection (offered_path base a) mode of Inl _ \<Rightarrow> fail (Crashed (Raised ValueError))
          | Inr selected \<Rightarrow> ret (action_refusal p (offered_path base a) selected)) tr1) = Inr refusal"
    unfolding settled_policy[OF assms(1)] assms(7) refused[symmetric] by (simp add: ret_def)
  have page: "snd (approved_action_reason w c (offered_path base a) mode (is_replacement a) tr1) = Inr None \<longleftrightarrow>
      \<not> gate_closed (request_gate rq) s \<and> refusal = None"
  proof (cases "pc_other_reason c")
    case None
    then show ?thesis
      unfolding approved_action_reason_def stop destructive
      using assms(2) ctx settings by (simp add: asked gate_closed_def ret_def)
  next
    case (Some reason)
    then show ?thesis
      using assms(2) ctx by (simp add: approved_action_reason_def gate_closed_def ret_def)
  qed
  have policy: "snd (policy_reason w rq (requested_approval_command a) tr) = Inr refusal" for tr
    using replacement_of_routed[OF assms(3)] assms(5,6,8)
    by (auto simp: policy_reason_def settled_policy[OF assms(1)] refusal_def ret_def split: option.splits)
  have guard: "snd (require_controller_capability w rq (requested_approval_command a) tr2) = Inr () \<longleftrightarrow>
      \<not> ws_read_only s \<and> refusal = None"
  proof (cases "ws_read_only s")
    case True
    then show ?thesis
      using settings(1) by (simp add: require_controller_capability_def forbidden_def respond_def fail_def lift_sum_def)
  next
    case False
    let ?family = "route_family (ar_route rq)" and ?sel = "requested_approval_command a"
    obtain tr3 where granted: "action_disabled_reason w ?family tr2 = (tr3, Inr None)"
      using settled_reason[OF assms(1,2), of ?family tr2] False
      by (cases "action_disabled_reason w ?family tr2") auto
    obtain tr4 where reason: "policy_reason w rq ?sel tr3 = (tr4, Inr refusal)"
      using policy[of tr3] by (cases "policy_reason w rq ?sel tr3") auto
    have family: "?family \<noteq> ''maintenance''"
      using action_family[OF assms(3)] assms(6) by simp
    show ?thesis
      using False settings(1) assms(2) family
      by (auto simp: require_controller_capability_def Let_def andthen_def granted reason forbidden_def respond_def fail_def
          lift_sum_def ret_def split: option.split)
  qed
  show ?thesis
    using page guard by (auto simp: gate_closed_def)
qed

lemma sample_settled:
  "settled_world sample_web sample_policy
     \<lparr>ws_read_only = False, ws_capability = ''full-supported-actions'', ws_maintenance_mode = True, ws_destructive_mode = False\<rparr>"
  by (simp add: settled_world_def sample_web_def sample_env_def write_settings_at_def maintenance_writes_enabled_def
      empty_db_def get_state_def Let_def)

lemma sample_context:
  "case snd (maintenance_context_processor sample_web sample_settings False []) of Inl _ \<Rightarrow> False | Inr _ \<Rightarrow> True"
  by code_simp

lemma pages_offer_what_routes_take_witness:
  "\<exists>tr c. maintenance_context_processor sample_web sample_settings False [] = (tr, Inr c) \<and>
     snd (approved_action_reason sample_web c ''/controller/buzzer/disable'' None False []) = Inr None"
proof -
  obtain tr c where page: "maintenance_context_processor sample_web sample_settings False [] = (tr, Inr c)"
    using sample_context by (cases "maintenance_context_processor sample_web sample_settings False []") (auto split: sum.splits)
  have guard: "snd (require_controller_capability sample_web sample_request None []) = Inr ()"
    by code_simp
  have "full_actions sample_web" "ar_path sample_request = action_path [] (Buzzer Disable)"
    "ar_route sample_request = route_of (Buzzer Disable)" "page_selection (offered_path [] (Buzzer Disable)) None = Inr None"
    by (simp_all add: full_actions_def sample_web_def sample_request_def buzzer_category_def page_selection_def suffix_to_prefix)
  from pages_offer_what_routes_take[OF sample_settled this(1) _ page this(2-4), of "[]" "[]"] guard
  have "snd (approved_action_reason sample_web c ''/controller/buzzer/disable'' None False []) = Inr None"
    by (simp add: gate_closed_def request_gate_def sample_request_def)
  with page show ?thesis
    by blast
qed

subsection \<open>Links in event texts\<close>

definition names_slot_digits :: "string \<Rightarrow> bool" where
  "names_slot_digits slot \<longleftrightarrow> (\<exists>a b. slot = a @ '':'' @ b \<and> a \<noteq> [] \<and> b \<noteq> [] \<and> list_all is_digit (a @ b))"

lemma digits_taken: "list_all is_digit (takeWhile is_digit s)"
  by (auto simp: list_all_iff dest: set_takeWhileD)

lemma names_slot_digitsI:
  "takeWhile is_digit s \<noteq> [] \<Longrightarrow> takeWhile is_digit t \<noteq> [] \<Longrightarrow>
     names_slot_digits (takeWhile is_digit s @ '':'' @ takeWhile is_digit t)"
  using digits_taken[of s] digits_taken[of t] unfolding names_slot_digits_def
  by (intro exI[of _ "takeWhile is_digit s"] exI[of _ "takeWhile is_digit t"]) simp

lemma number_pair_parts:
  assumes "number_pair s = Some (a, b, rest)"
  shows "s = (a @ '':'' @ b) @ rest" "names_slot_digits (a @ '':'' @ b)"
proof -
  let ?r = "dropWhile is_digit s"
  have parts: "a = takeWhile is_digit s" "b = takeWhile is_digit (drop 1 ?r)" "rest = dropWhile is_digit (drop 1 ?r)"
    "a \<noteq> []" "b \<noteq> []" "?r \<noteq> []" "hd ?r = CHR '':''"
    using assms by (auto simp: number_pair_def Let_def split: if_splits)
  have "s = a @ ?r" "?r = CHR '':'' # drop 1 ?r" "drop 1 ?r = b @ rest"
    using parts by (simp, cases ?r, simp_all)
  then show "s = (a @ '':'' @ b) @ rest"
    by (metis append.assoc append_Cons append_Nil)
  show "names_slot_digits (a @ '':'' @ b)"
    using names_slot_digitsI parts by blast
qed

lemma event_token_parts:
  assumes "event_token s = Some (label, slot, rest)"
  shows "s = label @ rest" "names_slot_digits slot"
proof -
  obtain c cs where s: "s = c # cs"
    using assms by (cases s) (auto simp: event_token_def)
  let ?r = "dropWhile is_digit cs"
  have parts: "label = c # takeWhile is_digit cs @ take 2 ?r @ takeWhile is_digit (drop 2 ?r)"
    "slot = takeWhile is_digit cs @ '':'' @ takeWhile is_digit (drop 2 ?r)" "rest = dropWhile is_digit (drop 2 ?r)"
    "takeWhile is_digit cs \<noteq> []" "takeWhile is_digit (drop 2 ?r) \<noteq> []"
    using assms by (auto simp: event_token_def s Let_def split: if_splits)
  show "s = label @ rest"
    unfolding s parts by simp
  show "names_slot_digits slot"
    unfolding parts(2) using names_slot_digitsI[OF parts(4,5)] .
qed

lemma context_token_parts:
  assumes "context_token s = Some (front, label, slot, rest)"
  shows "s = front @ label @ rest" "names_slot_digits slot"
proof -
  obtain word where "context_token_of word s = Some (front, label, slot, rest)"
    using assms by (auto simp: context_token_def map_filter_simps split: list.splits option.splits)
  then obtain a b where found: "number_pair (dropWhile is_space (drop (length word) s)) = Some (a, b, rest)"
    "front = take (length word) s @ takeWhile is_space (drop (length word) s)" "label = a @ '':'' @ b" "slot = a @ '':'' @ b"
    by (auto simp: context_token_of_def Let_def split: if_splits option.splits)
  have "s = take (length word) s @ takeWhile is_space (drop (length word) s) @ dropWhile is_space (drop (length word) s)"
    by simp
  then show "s = front @ label @ rest"
    using number_pair_parts(1)[OF found(1)] found(2,3) by simp
  show "names_slot_digits slot"
    using number_pair_parts(2)[OF found(1)] found(4) by simp
qed

lemma search_slot_token_parts:
  "search_slot_token inside s = Some (front, label, slot, rest) \<Longrightarrow> s = front @ label @ rest \<and> names_slot_digits slot"
proof (induction inside s arbitrary: front rule: search_slot_token.induct)
  case (2 inside c cs)
  show ?case
  proof (cases "slot_token_at inside (c # cs)")
    case None
    with 2 show ?thesis
      by (auto simp del: append_Cons simp: append_Cons[symmetric])
  next
    case (Some t)
    with 2(2) have "slot_token_at inside (c # cs) = Some (front, label, slot, rest)"
      by simp
    then show ?thesis
      using event_token_parts context_token_parts
      by (auto simp: slot_token_at_def split: option.splits if_splits)
  qed
qed simp

text \<open>A link changes nothing of a text but its markup: either the whole text is escaped, or one part of it becomes the
  label of a link and it and the parts around it are escaped, and the link goes to the page of a slot written in digits.\<close>

theorem links_keep_the_text:
  "slot_link escape slot_url s = escape s \<or>
   (\<exists>front label rest a b. s = front @ label @ rest \<and> a \<noteq> [] \<and> b \<noteq> [] \<and> list_all is_digit (a @ b) \<and>
      slot_link escape slot_url s = escape front @ ''<a href='' @ [CHR 0x22] @ escape (slot_url (a @ '':'' @ b)) @ [CHR 0x22] @ ''>'' @
        escape label @ ''</a>'' @ escape rest)"
proof (cases "search_slot_token False s")
  case None
  then show ?thesis
    by (simp add: slot_link_def)
next
  case (Some t)
  then obtain front label slot rest where t: "search_slot_token False s = Some (front, label, slot, rest)"
    by (cases t) auto
  from search_slot_token_parts[OF this] obtain a b where parts: "s = front @ label @ rest" "slot = a @ '':'' @ b" "a \<noteq> []" "b \<noteq> []"
    "list_all is_digit (a @ b)"
    by (auto simp: names_slot_digits_def)
  have "slot_link escape slot_url s = escape front @ ''<a href='' @ [CHR 0x22] @ escape (slot_url (a @ '':'' @ b)) @ [CHR 0x22] @
      ''>'' @ escape label @ ''</a>'' @ escape rest"
    by (simp add: slot_link_def t parts(2))
  with parts show ?thesis
    by blast
qed

end
