(* ===== verification/Collector.thy ===== *)
theory Collector
  imports ForeignConfig Operations Detector
begin

section \<open>One collection\<close>

text \<open>
  \<open>services/collector.py\<close>: the probes in source order, the parsed snapshot and the raw payload
  that accompanies it. \<open>storcli\<close> stands for \<open>run_storcli\<close> with the configured binary: every
  command line of a collection is different, so a function of the command describes any machine,
  changing or not. A StorCLI error of an optional probe is a missing reading; every other
  exception ends the collection.
\<close>

type_synonym storcli_run = "string list \<Rightarrow> fault + dict"

definition run_text :: "storcli_run \<Rightarrow> string \<Rightarrow> fault + dict" where
  "run_text storcli text = storcli (py_words text)"

text \<open>\<open>try: ... except StorcliError: None\<close>.\<close>

definition optional_reading :: "fault + 'a \<Rightarrow> fault + 'a option" where
  "optional_reading m =
     (case m of Inr x \<Rightarrow> Inr (Some x) | Inl (Storcli _) \<Rightarrow> Inr None | Inl (Raised e) \<Rightarrow> Inl (Raised e))"

text \<open>A probe whose payload is kept even when it does not parse.\<close>

definition optional_probe :: "fault + dict \<Rightarrow> (dict \<Rightarrow> fault + 'a option) \<Rightarrow> fault + (dict option \<times> 'a option)" where
  "optional_probe reply parse =
     bindr (optional_reading reply) (\<lambda>payload.
       case payload of
         None \<Rightarrow> Inr (None, None)
       | Some p \<Rightarrow> bindr (optional_reading (parse p)) (\<lambda>x. Inr (Some p, case x of None \<Rightarrow> None | Some y \<Rightarrow> y)))"

subsection \<open>Serialised readings\<close>

definition foreign_dump :: "foreign_config_info \<Rightarrow> json" where
  "foreign_dump f = JObj
     [(''present'', JBool (fci_present f)), (''dg_count'', JInt (fci_dg_count f)),
      (''drive_count'', JInt (fci_drive_count f)), (''total_size_bytes'', json_opt JInt (fci_total_size_bytes f)),
      (''disk_groups'', JArr (map (\<lambda>g. JObj
         [(''dg_id'', JInt (fg_dg_id g)), (''drive_count'', JInt (fg_drive_count g)),
          (''size_bytes'', json_opt JInt (fg_size_bytes g))]) (fci_disk_groups f))),
      (''digest'', JStr (fci_digest f))]"

definition patrol_dict :: "patrol_read_status \<Rightarrow> json" where
  "patrol_dict s = JObj
     [(''mode'', JStr (pr_mode s)), (''state'', JStr (pr_state s)),
      (''progress_percent'', json_opt JInt (pr_progress_percent s)),
      (''completed_drive_count'', json_opt JInt (pr_completed_drive_count s)),
      (''last_run_timestamp'', json_opt JStr (pr_last_run s)),
      (''interval_hours'', json_opt JInt (pr_interval_hours s)),
      (''next_start_timestamp'', json_opt JStr (pr_next_start s))]"

definition consistency_dict :: "consistency_check_status \<Rightarrow> json" where
  "consistency_dict s = JObj
     [(''mode'', JStr (cc_mode s)), (''state'', JStr (cc_state s)),
      (''progress_percent'', json_opt JInt (cc_progress_percent s)),
      (''last_run_timestamp'', json_opt JStr (cc_last_run s)),
      (''inconsistency_count'', json_opt JInt (cc_inconsistency_count s)),
      (''inconsistency_detail'', json_opt JStr (cc_inconsistency_detail s))]"

subsection \<open>Identity and position of the drives\<close>

definition drive_path_key :: "physical_drive_info \<Rightarrow> string" where
  "drive_path_key d = ''Drive /c0/e'' @ show_int (pdi_enclosure_id d) @ ''/s'' @ show_int (pdi_slot_id d)"

definition drive_position_entry :: "dict \<Rightarrow> physical_drive_info \<Rightarrow> fault + (string \<times> json) list" where
  "drive_position_entry response d =
     (let key = drive_path_key d
      in bindr (mapping_item response (key @ '' - Detailed Information'')) (\<lambda>detail.
         bindr (mapping_item detail (key @ '' Policies/Settings'')) (\<lambda>policies.
           Inr [(key, JArr [JObj
                   [(''EID:Slt'', JStr (show_int (pdi_enclosure_id d) @ '':'' @ show_int (pdi_slot_id d))),
                    (''DID'', JInt (pdi_device_id d))]]),
                (key @ '' - Detailed Information'', JObj
                   [(key @ '' Device attributes'', JObj [(''SN'', JStr (pdi_serial_number d))]),
                    (key @ '' Policies/Settings'', JObj [(''Drive position'', get_or policies ''Drive position'' JNull)])])])))"

definition first_response :: "dict \<Rightarrow> fault + dict" where
  "first_response payload =
     bindr (item payload ''Controllers'') (\<lambda>cs.
       case cs of
         JArr (c # _) \<Rightarrow> bindr (as_mapping c) (\<lambda>controller. mapping_item controller ''Response Data'')
       | JArr [] \<Rightarrow> Inl (Raised IndexError)
       | _ \<Rightarrow> Inl (Raised TypeError))"

definition drive_positions :: "dict \<Rightarrow> physical_drive_info list \<Rightarrow> fault + json" where
  "drive_positions physical_payload ds =
     bindr (first_response physical_payload) (\<lambda>response.
     bindr (map_res (drive_position_entry response) ds) (\<lambda>entries.
       Inr (JObj [(''Controllers'', JArr [JObj [(''Response Data'', JObj (merge [] (concat entries)))]])])))"

subsection \<open>The operation probes\<close>

definition patrol_reading :: "storcli_run \<Rightarrow> fault + json" where
  "patrol_reading storcli =
     bindr (optional_reading
         (bindr (run_text storcli ''/c0 show patrolread'') (\<lambda>patrol.
          bindr (ensure_command_succeeded patrol) (\<lambda>_. parse_patrol_read_status patrol))))
       (\<lambda>r. Inr (json_opt patrol_dict r))"

definition consistency_reading :: "storcli_run \<Rightarrow> fault + json" where
  "consistency_reading storcli =
     bindr (optional_reading
         (bindr (run_text storcli ''/c0 show cc'') (\<lambda>cc.
          bindr (ensure_command_succeeded cc) (\<lambda>_.
          bindr (run_text storcli ''/c0/vall show cc'') (\<lambda>progress.
          bindr (ensure_command_succeeded progress) (\<lambda>_. parse_consistency_check_status cc progress))))))
       (\<lambda>r. Inr (json_opt consistency_dict r))"

subsection \<open>The collection\<close>

definition collect_storcli_snapshot ::
  "(json \<Rightarrow> int option) \<Rightarrow> (dict \<Rightarrow> string) \<Rightarrow> instant \<Rightarrow> storcli_run \<Rightarrow> fault + (storcli_snapshot \<times> dict)" where
  "collect_storcli_snapshot to_int fingerprint now storcli =
     bindr (run_text storcli ''/c0 show all'') (\<lambda>controller_payload.
     bindr (run_text storcli ''/c0/vall show all'') (\<lambda>virtual_payload.
     bindr (run_text storcli ''/c0/eall/sall show all'') (\<lambda>physical_payload.
     bindr (parse_controller_show_all controller_payload) (\<lambda>controller.
     bindr (parse_virtual_drives virtual_payload) (\<lambda>vds.
     bindr (parse_physical_drives to_int physical_payload) (\<lambda>pds.
     bindr (validate_complete_inventory controller_payload virtual_payload physical_payload vds pds) (\<lambda>_.
     bindr (run_text storcli ''/c0/cv show all'') (\<lambda>cv_payload.
     bindr (parse_cachevault cv_payload) (\<lambda>cv.
       if ci_cv_present controller \<noteq> (cv \<noteq> None)
       then Inl (parse_fault ''CacheVault presence is unproven: controller/probe disagree'')
       else
         bindr (optional_probe (run_text storcli ''/c0/bbu show all'') parse_bbu) (\<lambda>(bbu_payload, bbu).
         bindr (optional_probe (run_text storcli ''/c0/fall show all'')
                  (\<lambda>p. bindr (parse_foreign_config fingerprint p) (\<lambda>f. Inr (Some f)))) (\<lambda>(foreign_payload, foreign).
         bindr (drive_positions physical_payload pds) (\<lambda>positions.
         bindr (patrol_reading storcli) (\<lambda>patrol.
         bindr (consistency_reading storcli) (\<lambda>cc.
           Inr (\<lparr>sc_controller = controller, sc_virtual_drives = vds, sc_physical_drives = pds,
                 sc_cachevault = cv, sc_bbu = bbu, sc_foreign_config = foreign, sc_captured_at = Aware now\<rparr>,
                [(''controller'', JObj controller_payload), (''virtual_drives'', JObj virtual_payload),
                 (''physical_drives'', JObj physical_payload), (''cachevault'', JObj cv_payload),
                 (''bbu'', json_opt JObj bbu_payload), (''foreign_config'', json_opt JObj foreign_payload),
                 (''foreign_config_state'', json_opt foreign_dump foreign),
                 (''physical_drive_positions'', positions), (''patrol_read'', patrol),
                 (''consistency_check'', cc)])))))))))))))))"

end
