(* ===== verification/Notifier.thy ===== *)
theory Notifier
  imports Database
begin

section \<open>The e-mail notifier\<close>

text \<open>
  \<open>services/notifier.py\<close>: one cycle selects the pending events of the configured severity,
  drops those outside their category's window, marks repeats of a recently notified incident and
  sends one message for each of the others.

  \<^item> The transport is a function of the attempts made so far in the cycle and the message;
    \<open>SendFailed\<close> is one of the exceptions the cycle catches, \<open>SendCrashed\<close> any other.
  \<^item> \<open>stamp\<close> renders an instant in UTC and in Europe/Rome; it depends on time zone data.
  \<^item> The attempts survive a crash, the marks do not: the caller's session is rolled back.
\<close>

datatype send_result = Delivered | SendFailed | SendCrashed

record alert_message =
  am_subject :: string
  am_body :: string

type_synonym attempt = "event_row \<times> send_result"
type_synonym transport = "attempt list \<Rightarrow> alert_message \<Rightarrow> send_result"

definition category_windows :: "(string \<times> int) list" where
  "category_windows = [(''controller_temperature'', 1440), (''foreign_config_detected'', 1440)]"

definition suppress_window_minutes :: "settings \<Rightarrow> event_row \<Rightarrow> int" where
  "suppress_window_minutes s e =
     (case map_of category_windows (ev_category e) of Some m \<Rightarrow> m | None \<Rightarrow> st_alert_suppress_window_minutes s)"

definition max_suppress_window_minutes :: "settings \<Rightarrow> int" where
  "max_suppress_window_minutes s = foldr max (map snd category_windows) (st_alert_suppress_window_minutes s)"

definition incident :: "event_row \<Rightarrow> severity \<times> string \<times> string" where
  "incident e = (ev_severity e, ev_category e, ev_subject e)"

definition event_was_notified_recently :: "event_row \<Rightarrow> instant \<Rightarrow> db \<Rightarrow> bool" where
  "event_was_notified_recently e since d =
     list_ex (\<lambda>x. incident x = incident e \<and> notified_since since x \<and> ev_id x \<noteq> ev_id e) (db_events d)"

definition subject_max_length :: nat where
  "subject_max_length = 200"

definition newline :: string where
  "newline = [CHR 0x0A]"

definition build_alert_message :: "(instant \<Rightarrow> string) \<Rightarrow> event_row \<Rightarrow> alert_message" where
  "build_alert_message stamp e =
     \<lparr>am_subject = take subject_max_length
        (''[MegaRAID '' @ severity_name (ev_severity e) @ ''] '' @ ev_category e @ '': '' @ ev_subject e),
      am_body =
        ''A '' @ severity_name (ev_severity e) @ '' event was recorded on the MegaRAID controller.'' @ newline @ newline @
        ''Severity:    '' @ severity_name (ev_severity e) @ newline @
        ''Category:    '' @ ev_category e @ newline @
        ''Subject:     '' @ ev_subject e @ newline @
        ''Summary:     '' @ ev_summary e @ newline @
        ''Occurred at: '' @ stamp (ev_occurred_at e) @ newline @
        ''Controller:  LSI MegaRAID SAS9270CV-8i'' @ newline @ newline @
        ''Do not reply. This mailbox is unmonitored.'' @ newline\<rparr>"

record notifier_cycle_result =
  nc_attempted :: int
  nc_sent :: int
  nc_deduplicated :: int
  nc_failed :: int
  nc_throttle_warning :: bool

definition nothing_done :: notifier_cycle_result where
  "nothing_done = \<lparr>nc_attempted = 0, nc_sent = 0, nc_deduplicated = 0, nc_failed = 0, nc_throttle_warning = False\<rparr>"

datatype cycle_error = CycleRaised py_error | TransportCrashed

definition lift_cycle :: "py_error + 'a \<Rightarrow> cycle_error + 'a" where
  "lift_cycle m = (case m of Inl e \<Rightarrow> Inl (CycleRaised e) | Inr x \<Rightarrow> Inr x)"

text \<open>The loop over the pending events.\<close>

fun notify_events ::
  "settings \<Rightarrow> transport \<Rightarrow> (instant \<Rightarrow> string) \<Rightarrow> instant \<Rightarrow> event_row list \<Rightarrow>
   attempt list \<Rightarrow> db \<Rightarrow> notifier_cycle_result \<Rightarrow> attempt list \<times> (cycle_error + db \<times> notifier_cycle_result)" where
  "notify_events s transport stamp now [] tried d r = (tried, Inr (d, r))"
| "notify_events s transport stamp now (e # es) tried d r =
     (let since = now - minutes (suppress_window_minutes s e);
          r' = r\<lparr>nc_attempted := nc_attempted r + 1\<rparr>
      in if ev_occurred_at e < since then notify_events s transport stamp now es tried d r
         else if event_was_notified_recently e since d then
           (case mark_event_notified (ev_id e) (Aware now) d of
              Inl err \<Rightarrow> (tried, Inl (CycleRaised err))
            | Inr d' \<Rightarrow> notify_events s transport stamp now es tried d' (r'\<lparr>nc_deduplicated := nc_deduplicated r + 1\<rparr>))
         else (case transport tried (build_alert_message stamp e) of
              SendFailed \<Rightarrow> notify_events s transport stamp now es (tried @ [(e, SendFailed)]) d (r'\<lparr>nc_failed := nc_failed r + 1\<rparr>)
            | SendCrashed \<Rightarrow> (tried @ [(e, SendCrashed)], Inl TransportCrashed)
            | Delivered \<Rightarrow>
                (case mark_event_notified (ev_id e) (Aware now) d of
                   Inl err \<Rightarrow> (tried @ [(e, Delivered)], Inl (CycleRaised err))
                 | Inr d' \<Rightarrow> notify_events s transport stamp now es (tried @ [(e, Delivered)]) d' (r'\<lparr>nc_sent := nc_sent r + 1\<rparr>))))"

text \<open>The last component is the health the cycle records, None when it records none.\<close>

definition run_notifier_cycle ::
  "settings \<Rightarrow> transport \<Rightarrow> (instant \<Rightarrow> string) \<Rightarrow> py_datetime \<Rightarrow> db \<Rightarrow>
   attempt list \<times> (cycle_error + db \<times> notifier_cycle_result \<times> bool option)" where
  "run_notifier_cycle s transport stamp clock d =
     (case bindr (require_aware_utc clock) (\<lambda>now.
            bindr (get_maintenance_state (Aware now) d) (\<lambda>m.
              if mp_active m then Inr None
              else bindr (iter_pending_events (st_alert_severity_threshold s)
                     (Aware (now - minutes (max_suppress_window_minutes s))) d) (\<lambda>pending.
                   bindr (count_events_notified_since (Aware (now - hours 1)) d) (\<lambda>n.
                     Inr (Some (now, pending, n > st_alert_throttle_per_hour s)))))) of
        Inl e \<Rightarrow> ([], Inl (CycleRaised e))
      | Inr None \<Rightarrow> ([], Inr (d, nothing_done, None))
      | Inr (Some (now, pending, throttled)) \<Rightarrow>
          (case notify_events s transport stamp now pending [] d nothing_done of
             (tried, Inl e) \<Rightarrow> (tried, Inl e)
           | (tried, Inr (d', r)) \<Rightarrow> (tried, Inr (d', r\<lparr>nc_throttle_warning := throttled\<rparr>, Some (nc_failed r = 0)))))"

text \<open>\<open>CollectorService._run_smtp_cycle\<close>: an exception is logged, the session rolled back, and the health is bad.\<close>

definition run_smtp_cycle ::
  "settings \<Rightarrow> transport \<Rightarrow> (instant \<Rightarrow> string) \<Rightarrow> py_datetime \<Rightarrow> db \<Rightarrow> attempt list \<times> db \<times> bool option" where
  "run_smtp_cycle s transport stamp clock d =
     (case run_notifier_cycle s transport stamp clock d of
        (tried, Inl _) \<Rightarrow> (tried, d, Some False)
      | (tried, Inr (d', _, health)) \<Rightarrow> (tried, d', health))"

end
