(* ===== verification/Scheduler.thy ===== *)
theory Scheduler
  imports Collector Retention Notifier
begin

section \<open>The collector service\<close>

text \<open>
  \<open>services/scheduler.py\<close>, \<open>services/disk_monitor.py\<close> and the clear marks of
  \<open>services/telegram_relevance.py\<close>: what one poll, one retention run and one disk check do to the
  service, that is to the database and to the detector it keeps in memory.

  \<^item> A transaction reads the clock once for every event it records: \<open>clock\<close> gives the reading
    of the k-th. A commit either returns or fails with an exception; then the database is the old
    one, but the detector has moved on.
  \<^item> \<open>describe\<close> stands for the text of the exception type and message.
  \<^item> The jobs of the scheduler are serialised by the write lock, so each is one step. The
    process lock of the notifier, the metrics and the library scheduler are not modelled.
\<close>

record service =
  sv_db :: db
  sv_detector :: detector

definition new_service :: service where
  "new_service = \<lparr>sv_db = empty_db, sv_detector = new_detector\<rparr>"

subsection \<open>Recovery marks of the controller temperature\<close>

definition controller_clear_keys :: "(severity \<times> string) list" where
  "controller_clear_keys =
     [(Warning, ''telegram_roc_warning_cleared_at''), (Critical, ''telegram_roc_critical_cleared_at'')]"

definition controller_clear_boundary :: "settings \<Rightarrow> severity \<Rightarrow> int" where
  "controller_clear_boundary st sev =
     (if sev = Critical then st_roc_temp_critical_celsius st else st_roc_temp_warning_celsius st)
     - st_roc_temp_hysteresis_celsius st"

definition stored_clear_time :: "db \<Rightarrow> string \<Rightarrow> instant option" where
  "stored_clear_time d k = (case get_state k d of Some (InstantText t) \<Rightarrow> Some t | _ \<Rightarrow> None)"

definition cool_reading :: "int \<Rightarrow> snapshot_row \<Rightarrow> bool" where
  "cool_reading limit s = (case ps_roc_temperature s of None \<Rightarrow> False | Some t \<Rightarrow> t \<le> limit)"

definition last_cool_reading :: "instant \<Rightarrow> int \<Rightarrow> db \<Rightarrow> instant option" where
  "last_cool_reading until limit d =
     best_by id (map sr_captured_at (filter (\<lambda>s. sr_captured_at s \<le> until \<and> cool_reading limit s) (db_snapshots d)))"

definition record_clear :: "settings \<Rightarrow> int option \<Rightarrow> instant \<Rightarrow> severity \<times> string \<Rightarrow> db \<Rightarrow> db" where
  "record_clear st temperature captured entry d =
     (case entry of (sev, key) \<Rightarrow>
       (let limit = controller_clear_boundary st sev;
            existing = stored_clear_time d key;
            cool = (case temperature of None \<Rightarrow> False | Some t \<Rightarrow> t \<le> limit);
            observed = (if cool then Some captured
                        else if existing = None then last_cool_reading captured limit d else None)
        in case observed of
             None \<Rightarrow> d
           | Some t \<Rightarrow> (case existing of
                 None \<Rightarrow> set_state key (InstantText t) d
               | Some t0 \<Rightarrow> if t > t0 then set_state key (InstantText t) d else d)))"

definition record_controller_temperature_clears :: "settings \<Rightarrow> int option \<Rightarrow> instant \<Rightarrow> db \<Rightarrow> db" where
  "record_controller_temperature_clears st temperature captured d =
     fold (record_clear st temperature captured) controller_clear_keys d"

subsection \<open>One poll\<close>

definition collection_failed_prefix :: string where
  "collection_failed_prefix = ''Collection failed:''"

definition monitoring_stale_prefix :: string where
  "monitoring_stale_prefix = ''Monitoring stale:''"

definition system_category :: string where
  "system_category = ''system''"

definition is_failure :: "event_row \<Rightarrow> bool" where
  "is_failure e \<longleftrightarrow> ev_category e = system_category \<and> prefix collection_failed_prefix (ev_summary e)"

definition is_stale_report :: "event_row \<Rightarrow> bool" where
  "is_stale_report e \<longleftrightarrow> ev_category e = system_category \<and> prefix monitoring_stale_prefix (ev_summary e)"

definition latest_system_event :: "db \<Rightarrow> event_row option" where
  "latest_system_event d =
     best_by (\<lambda>e. (ev_occurred_at e, ev_id e)) (filter (\<lambda>e. ev_category e = system_category) (db_events d))"

definition latest_system_event_was_collection_failure :: "db \<Rightarrow> bool" where
  "latest_system_event_was_collection_failure d =
     (case latest_system_event d of None \<Rightarrow> False | Some e \<Rightarrow> is_failure e \<or> is_stale_report e)"

definition recovered_event :: detected_event where
  "recovered_event =
     \<lparr>de_severity = Info, de_category = system_category, de_subject = ''Controller'',
      de_summary = ''Collection recovered'', de_before = None,
      de_after = Some [(''monitoring_outage'', JBool False)]\<rparr>"

definition load_temperature_states :: "db \<Rightarrow> storcli_snapshot \<Rightarrow> (drive_id \<times> temp_state) list" where
  "load_temperature_states d s =
     fold (\<lambda>x acc. case get_temp_state (drive_id_of x) d of
                     None \<Rightarrow> acc | Some t \<Rightarrow> AList.update (drive_id_of x) t acc)
       (sc_physical_drives s) []"

fun record_events :: "(nat \<Rightarrow> instant) \<Rightarrow> nat \<Rightarrow> detected_event list \<Rightarrow> db \<Rightarrow> db" where
  "record_events clock k [] d = d"
| "record_events clock k (e # es) d =
     record_events clock (Suc k) es
       (fst (record_event (clock k) (de_severity e) (de_category e) (de_subject e) (de_summary e)
               (de_before e) (de_after e) d))"

definition store_temperatures :: "detector \<Rightarrow> db \<Rightarrow> db" where
  "store_temperatures det d =
     fold (\<lambda>(k, v). upsert_temp_state k v) (temperature_updates det)
       (fold clear_temp_state_for_slot (temperature_clears det) d)"

text \<open>
  The transaction of a successful collection up to its commit, with the detector as it is left
  in either case; None when \<open>detect\<close> never returns.
\<close>

definition store_snapshot ::
  "settings \<Rightarrow> (nat \<Rightarrow> instant) \<Rightarrow> storcli_snapshot \<Rightarrow> dict \<Rightarrow> service \<Rightarrow> (detector \<times> (py_error + db)) option" where
  "store_snapshot st clock s raw sv =
     (let d = sv_db sv;
          previous = map_option previous_of (get_latest_snapshot d);
          det = set_temperature_states (load_temperature_states d s) (sv_detector sv)
      in case insert_snapshot s (st_store_raw_snapshot_payload st) (Some raw) d of
           Inl e \<Rightarrow> Some (det, Inl e)
         | Inr (d1, row) \<Rightarrow>
             (let d2 = record_controller_temperature_clears st (ci_roc_temperature (sc_controller s)) (sr_captured_at row) d1
              in case detect (detector_thresholds st) previous s det of
                   None \<Rightarrow> None
                 | Some (det', events) \<Rightarrow>
                     (let recovered = (if latest_system_event_was_collection_failure d2 then [recovered_event] else [])
                      in Some (det', Inr (store_temperatures det' (record_events clock 0 (events @ recovered) d2))))))"

subsection \<open>A failed poll\<close>

definition stale_min_failed_polls :: nat where
  "stale_min_failed_polls = 3"

definition last_success :: "db \<Rightarrow> instant option" where
  "last_success d = best_by id (map sr_captured_at (db_snapshots d))"

definition failure_times :: "db \<Rightarrow> instant list" where
  "failure_times d =
     map ev_occurred_at (filter (\<lambda>e. is_failure e \<and>
       (case last_success d of None \<Rightarrow> True | Some t \<Rightarrow> t < ev_occurred_at e)) (db_events d))"

definition stale_since :: "db \<Rightarrow> instant" where
  "stale_since d = (case last_success d of Some t \<Rightarrow> t | None \<Rightarrow> Min (set (failure_times d)))"

definition stale_text :: "int \<Rightarrow> nat \<Rightarrow> string" where
  "stale_text for_minutes polls =
     monitoring_stale_prefix @ '' no successful collection for '' @ show_int for_minutes @ '' min ('' @
     show_nat polls @ '' failed polls); RAID state is unknown''"

definition monitoring_stale_summary :: "settings \<Rightarrow> event_row \<Rightarrow> db \<Rightarrow> string option" where
  "monitoring_stale_summary st failure d =
     (if length (failure_times d) < stale_min_failed_polls then None
      else if ev_occurred_at failure - stale_since d < minutes (st_collector_stale_alert_minutes st) then None
      else if list_ex (\<lambda>e. is_stale_report e \<and> stale_since d < ev_occurred_at e) (db_events d) then None
      else Some (stale_text ((ev_occurred_at failure - stale_since d) div minutes 1) (length (failure_times d))))"

definition record_collection_failure :: "settings \<Rightarrow> (nat \<Rightarrow> instant) \<Rightarrow> string \<Rightarrow> db \<Rightarrow> db" where
  "record_collection_failure st clock text d =
     (case record_event (clock 0) Warning system_category ''Controller''
             (collection_failed_prefix @ '' '' @ text) None None d of
        (d1, failure) \<Rightarrow>
          (case monitoring_stale_summary st failure d1 of
             None \<Rightarrow> d1
           | Some summary \<Rightarrow>
               fst (record_event (clock 1) Critical system_category ''Controller'' summary None
                      (Some [(''monitoring_outage'', JBool True)]) d1)))"

definition failed_poll :: "settings \<Rightarrow> (nat \<Rightarrow> instant) \<Rightarrow> string \<Rightarrow> bool \<Rightarrow> service \<Rightarrow> service" where
  "failed_poll st clock text commits sv =
     (if commits then sv\<lparr>sv_db := record_collection_failure st clock text (sv_db sv)\<rparr> else sv)"

subsection \<open>run\_once\<close>

text \<open>What a poll meets: the collection, the clocks and the fate of its two commits.\<close>

record poll =
  po_collected :: "fault + (storcli_snapshot \<times> dict)"
  po_clock :: "nat \<Rightarrow> instant"
  po_commit_failure :: "string option"
  po_failure_clock :: "nat \<Rightarrow> instant"
  po_failure_commits :: bool

datatype poll_result = Returns bool | Raises py_error

definition caught_in_collection :: "fault \<Rightarrow> bool" where
  "caught_in_collection f = (case f of Storcli _ \<Rightarrow> True | Raised e \<Rightarrow> e \<in> set [OSError, TimeoutError])"

definition run_once ::
  "settings \<Rightarrow> (fault \<Rightarrow> string) \<Rightarrow> poll \<Rightarrow> service \<Rightarrow> (service \<times> poll_result) option" where
  "run_once st describe p sv =
     (let fails = (\<lambda>text sv1. Some (failed_poll st (po_failure_clock p) text (po_failure_commits p) sv1, Returns False))
      in case po_collected p of
           Inl f \<Rightarrow>
             (if caught_in_collection f then fails (describe f) sv
              else Some (sv, Raises (case f of Raised e \<Rightarrow> e | Storcli _ \<Rightarrow> RuntimeError)))
         | Inr (s, raw) \<Rightarrow>
             (case store_snapshot st (po_clock p) s raw sv of
                None \<Rightarrow> None
              | Some (det, Inl e) \<Rightarrow> fails (describe (Raised e)) (sv\<lparr>sv_detector := det\<rparr>)
              | Some (det, Inr d) \<Rightarrow>
                  (case po_commit_failure p of
                     None \<Rightarrow> Some (\<lparr>sv_db = d, sv_detector = det\<rparr>, Returns True)
                   | Some text \<Rightarrow> fails text (sv\<lparr>sv_detector := det\<rparr>))))"

subsection \<open>Disk space\<close>

text \<open>\<open>services/disk_monitor.py\<close>: \<open>free\<close> is what \<open>shutil.disk_usage\<close> reports in bytes, None when the database is not SQLite.\<close>

definition disk_space_category :: string where
  "disk_space_category = ''disk_space''"

definition recovery_hysteresis_mb :: int where
  "recovery_hysteresis_mb = 50"

definition disk_suppress_window :: int where
  "disk_suppress_window = hours 6"

definition latest_disk_space_event :: "db \<Rightarrow> event_row option" where
  "latest_disk_space_event d =
     best_by (\<lambda>e. (ev_occurred_at e, ev_id e)) (filter (\<lambda>e. ev_category e = disk_space_category) (db_events d))"

definition should_suppress :: "event_row option \<Rightarrow> severity \<Rightarrow> instant \<Rightarrow> bool" where
  "should_suppress latest sev now =
     (case latest of
        None \<Rightarrow> False
      | Some e \<Rightarrow> ev_severity e = sev \<and> now - disk_suppress_window \<le> ev_occurred_at e)"

definition disk_level :: "settings \<Rightarrow> int \<Rightarrow> (severity \<times> int) option" where
  "disk_level st free_mb =
     (if free_mb < st_disk_critical_free_mb st then Some (Critical, st_disk_critical_free_mb st)
      else if free_mb < st_disk_warning_free_mb st then Some (Warning, st_disk_warning_free_mb st)
      else None)"

definition disk_recovered :: "settings \<Rightarrow> int \<Rightarrow> event_row option \<Rightarrow> bool" where
  "disk_recovered st free_mb latest =
     (case latest of
        None \<Rightarrow> False
      | Some e \<Rightarrow> ev_severity e \<in> set [Warning, Critical] \<and> free_mb > st_disk_warning_free_mb st + recovery_hysteresis_mb)"

definition disk_event :: "settings \<Rightarrow> int \<Rightarrow> severity \<Rightarrow> string \<Rightarrow> detected_event" where
  "disk_event st free_mb sev summary =
     \<lparr>de_severity = sev, de_category = disk_space_category, de_subject = ''Data partition'', de_summary = summary,
      de_before = None,
      de_after = Some [(''free_mb'', JInt free_mb), (''warning_free_mb'', JInt (st_disk_warning_free_mb st)),
                       (''critical_free_mb'', JInt (st_disk_critical_free_mb st))]\<rparr>"

definition check_data_partition_free_space ::
  "settings \<Rightarrow> py_datetime \<Rightarrow> int option \<Rightarrow> db \<Rightarrow> py_error + (instant \<times> detected_event) list" where
  "check_data_partition_free_space st clock free d =
     bindr (require_aware_utc clock) (\<lambda>now.
       Inr (case free of
              None \<Rightarrow> []
            | Some bytes \<Rightarrow>
                (let free_mb = bytes div (1024 * 1024); latest = latest_disk_space_event d
                 in case disk_level st free_mb of
                      Some (sev, limit) \<Rightarrow>
                        if should_suppress latest sev now then []
                        else [(now, disk_event st free_mb sev
                          (''Free space on data partition: '' @ show_int free_mb @ '' MB (below '' @ severity_name sev @
                           '' threshold '' @ show_int limit @ '' MB)''))]
                    | None \<Rightarrow>
                        if disk_recovered st free_mb latest
                        then [(now, disk_event st free_mb Info (''Free space recovered: '' @ show_int free_mb @ '' MB''))]
                        else [])))"

definition add_dated_event :: "instant \<times> detected_event \<Rightarrow> db \<Rightarrow> db" where
  "add_dated_event te d =
     (case te of (t, e) \<Rightarrow>
        fst (record_event t (de_severity e) (de_category e) (de_subject e) (de_summary e) (de_before e) (de_after e) d))"

definition run_disk_space_monitor :: "settings \<Rightarrow> py_datetime \<Rightarrow> int option \<Rightarrow> db \<Rightarrow> py_error + db" where
  "run_disk_space_monitor st clock free d =
     bindr (check_data_partition_free_space st clock free d) (\<lambda>events. Inr (fold add_dated_event events d))"

subsection \<open>The jobs\<close>

datatype job =
    CollectorJob poll
  | RetentionJob py_datetime
  | DiskJob py_datetime "int option"
  | MailJob py_datetime transport

definition run_job ::
  "settings \<Rightarrow> (fault \<Rightarrow> string) \<Rightarrow> (instant \<Rightarrow> string) \<Rightarrow> job \<Rightarrow> service \<Rightarrow> service option" where
  "run_job st describe stamp j sv =
     (case j of
        CollectorJob p \<Rightarrow> map_option fst (run_once st describe p sv)
      | RetentionJob now \<Rightarrow> Some (sv\<lparr>sv_db := run_retention_once st now (sv_db sv)\<rparr>)
      | DiskJob now free \<Rightarrow>
          (case run_disk_space_monitor st now free (sv_db sv) of Inl _ \<Rightarrow> Some sv | Inr d \<Rightarrow> Some (sv\<lparr>sv_db := d\<rparr>))
      | MailJob now transport \<Rightarrow>
          Some (sv\<lparr>sv_db := fst (snd (run_smtp_cycle st transport stamp now (sv_db sv)))\<rparr>))"

end
