(* ===== verification/Metrics.thy ===== *)
theory Metrics
  imports Health Scheduler Actions
begin

section \<open>Metrics\<close>

text \<open>
  \<open>web/metrics.py\<close> and \<open>db/event_metrics.py\<close>: the gauges of the last snapshot with the cache of the exporter, and
  the counters of events. A gauge is a family with its labels and values; names of families and labels are those of the
  code, the help texts and the text format of the metrics library are left out.
\<close>

subsection \<open>Gauges of a snapshot\<close>

record metric_family =
  mf_name :: string
  mf_labels :: "string list"
  mf_samples :: "(string list \<times> int) list"

definition encode_controller_health :: "settings option \<Rightarrow> snapshot_row \<Rightarrow> py_error + int" where
  "encode_controller_health st s =
     (case map_of [(''optimal'', 0), (''warning'', 1), (''critical'', 2)]
             (derive_controller_health s (ps_physical_drives s) (ps_virtual_drives s) None st) of
        None \<Rightarrow> Inl KeyError | Some n \<Rightarrow> Inr n)"

definition encode_pd_state :: "string \<Rightarrow> int" where
  "encode_pd_state state =
     (if normalized_state state \<in> set [''onln'', ''online'', ''ugood'', ''optimal'', ''dhs'', ''ghs''] then 0
      else if physical_drive_state_severity state state = Critical then 2 else 1)"

definition encode_vd_state :: "string \<Rightarrow> int" where
  "encode_vd_state state = (case virtual_drive_state_severity state of Info \<Rightarrow> 0 | Warning \<Rightarrow> 1 | Critical \<Rightarrow> 2)"

definition drive_labels :: "physical_drive_info \<Rightarrow> string list" where
  "drive_labels p = [show_int (pdi_enclosure_id p), show_int (pdi_slot_id p), pdi_model p, pdi_serial_number p]"

definition vd_labels :: "virtual_drive_info \<Rightarrow> string list" where
  "vd_labels v = [show_int (vdi_vd_id v), vdi_name v, vdi_raid_level v]"

definition families_of :: "snapshot_row \<Rightarrow> int \<Rightarrow> metric_family list" where
  "families_of s health =
     (let controller = [sr_model_name s, sr_serial_number s];
          gauge = (\<lambda>name v. \<lparr>mf_name = name, mf_labels = [''model'', ''serial''], mf_samples = [(controller, v)]\<rparr>);
          drives = ps_physical_drives s
      in [gauge ''megaraid_controller_health'' health] @
         (case ps_roc_temperature s of None \<Rightarrow> [] | Some t \<Rightarrow> [gauge ''megaraid_controller_roc_temperature_celsius'' t]) @
         (case Option.bind (ps_cachevault s) cvi_capacitance of None \<Rightarrow> [] | Some c \<Rightarrow> [gauge ''megaraid_cv_capacitance_percent'' c]) @
         [\<lparr>mf_name = ''megaraid_drive_temperature_celsius'', mf_labels = [''enclosure'', ''slot'', ''model'', ''serial''],
           mf_samples = List.map_filter (\<lambda>p. map_option (\<lambda>t. (drive_labels p, t)) (pdi_temperature p)) drives\<rparr>,
          \<lparr>mf_name = ''megaraid_physical_drive_state'', mf_labels = [''enclosure'', ''slot'', ''model'', ''serial''],
           mf_samples = map (\<lambda>p. (drive_labels p, encode_pd_state (pdi_state p))) drives\<rparr>,
          \<lparr>mf_name = ''megaraid_virtual_drive_state'', mf_labels = [''vd_id'', ''name'', ''raid_level''],
           mf_samples = map (\<lambda>v. (vd_labels v, encode_vd_state (vdi_state v))) (ps_virtual_drives s)\<rparr>])"

text \<open>The exporter reads the identifier and the snapshot in two sessions: \<open>d\<close> is the database at the second.\<close>

definition build_families :: "settings option \<Rightarrow> db \<Rightarrow> int option \<Rightarrow> py_error + metric_family list" where
  "build_families st d latest_id =
     (case latest_id of
        None \<Rightarrow> Inr []
      | Some i \<Rightarrow>
          (case List.find (\<lambda>s. sr_id s = i) (db_snapshots d) of
             None \<Rightarrow> Inr []
           | Some s \<Rightarrow> bindr (encode_controller_health st s) (\<lambda>h. Inr (families_of s h))))"

text \<open>The cache is the identifier of the snapshot it was built from and its families.\<close>

type_synonym metrics_cache = "int option \<times> metric_family list"

definition new_metrics_cache :: metrics_cache where
  "new_metrics_cache = (None, [])"

definition collect_metrics ::
  "settings option \<Rightarrow> db \<Rightarrow> db \<Rightarrow> metrics_cache \<Rightarrow> metrics_cache \<times> (py_error + metric_family list)" where
  "collect_metrics st d d' cache =
     (let latest_id = map_option sr_id (get_latest_snapshot d)
      in if latest_id \<noteq> None \<and> latest_id = fst cache then (cache, Inr (snd cache))
         else case build_families st d' latest_id of
           Inl err \<Rightarrow> (cache, Inl err)
         | Inr fs \<Rightarrow> ((latest_id, fs), Inr fs))"

text \<open>A series of scrapes: each one sees two states of the database, one in each of its sessions.\<close>

fun scrapes :: "settings option \<Rightarrow> metrics_cache \<Rightarrow> (db \<times> db) list \<Rightarrow> (py_error + metric_family list) list" where
  "scrapes st cache [] = []"
| "scrapes st cache ((d, d') # views) =
     (case collect_metrics st d d' cache of (cache', r) \<Rightarrow> r # scrapes st cache' views)"

subsection \<open>Counters of events\<close>

text \<open>
  A process: what is committed in the database, what its open session holds, the counters by severity and category, and
  for the statements the rows its own commits have stored. SQLite admits one writer at a time, so one session with
  uncommitted changes is all a process has.
\<close>

record metrics_session =
  ms_committed :: db
  ms_working :: db
  ms_totals :: "severity \<times> string \<Rightarrow> nat"
  ms_stored :: "event_row list"

definition kind_of :: "event_row \<Rightarrow> severity \<times> string" where
  "kind_of e = (ev_severity e, ev_category e)"

definition pending_events :: "metrics_session \<Rightarrow> event_row list" where
  "pending_events m = drop (length (db_events (ms_committed m))) (db_events (ms_working m))"

definition increment_total :: "severity \<times> string \<Rightarrow> (severity \<times> string \<Rightarrow> nat) \<Rightarrow> severity \<times> string \<Rightarrow> nat" where
  "increment_total k totals = totals(k := totals k + 1)"

definition pop_staged :: "db \<Rightarrow> db" where
  "pop_staged d = d\<lparr>db_staged_metrics := []\<rparr>"

definition increment_staged_event_metrics :: "metrics_session \<Rightarrow> metrics_session" where
  "increment_staged_event_metrics m =
     \<lparr>ms_committed = pop_staged (ms_working m), ms_working = pop_staged (ms_working m),
      ms_totals = fold increment_total (db_staged_metrics (ms_working m)) (ms_totals m),
      ms_stored = ms_stored m @ pending_events m\<rparr>"

definition discard_staged_event_metrics :: "metrics_session \<Rightarrow> metrics_session" where
  "discard_staged_event_metrics m = m\<lparr>ms_working := pop_staged (ms_committed m)\<rparr>"

text \<open>
  Events come from the detectors and the poll (\<open>record_event\<close>), the routes (\<open>record_operator_action\<close>) and the disk monitor
  (\<open>add_dated_event\<close>). \<open>changed\<close>: any other change of the session keeps the severity and the category of every event.
  \<open>elsewhere\<close>: another process commits, which it can only while this session has written nothing.
\<close>

inductive session_step :: "metrics_session \<Rightarrow> metrics_session \<Rightarrow> bool" where
  recorded: "record_event now sev cat subj summary old new (ms_working m) = (d, row) \<Longrightarrow> session_step m (m\<lparr>ms_working := d\<rparr>)"
| audited: "record_operator_action now username cat msg new (ms_working m) = (d, row) \<Longrightarrow> session_step m (m\<lparr>ms_working := d\<rparr>)"
| monitored: "session_step m (m\<lparr>ms_working := add_dated_event te (ms_working m)\<rparr>)"
| changed: "map kind_of (db_events d) = map kind_of (db_events (ms_working m)) \<Longrightarrow>
    db_staged_metrics d = db_staged_metrics (ms_working m) \<Longrightarrow> session_step m (m\<lparr>ms_working := d\<rparr>)"
| stored: "session_step m (increment_staged_event_metrics m)"
| undone: "session_step m (discard_staged_event_metrics m)"
| elsewhere: "ms_working m = ms_committed m \<Longrightarrow> db_staged_metrics d = [] \<Longrightarrow>
    session_step m (m\<lparr>ms_committed := d, ms_working := d\<rparr>)"

inductive_cases session_stepE: "session_step m m'"

inductive session_run :: "metrics_session \<Rightarrow> metrics_session \<Rightarrow> bool" for m where
  start: "session_run m m"
| step: "session_run m m' \<Longrightarrow> session_step m' m'' \<Longrightarrow> session_run m m''"

definition process_start :: "db \<Rightarrow> metrics_session" where
  "process_start d = \<lparr>ms_committed = pop_staged d, ms_working = pop_staged d, ms_totals = (\<lambda>_. 0), ms_stored = []\<rparr>"

end
