(* ===== verification/HealthProps.thy ===== *)
theory HealthProps
  imports Health
begin

section \<open>Grades\<close>

text \<open>
  The grade of a drive, of the components and of the controller as the worst of what they are made of,
  and the agreement of the views that show the grade of drives.
\<close>

definition grades :: "string set" where
  "grades = {''critical'', ''warning'', ''optimal''}"

lemma grades_simps [simp]: "''critical'' \<in> grades" "''warning'' \<in> grades" "''optimal'' \<in> grades"
  by (simp_all add: grades_def)

text \<open>The worst of some grades.\<close>

definition worst_of :: "string list \<Rightarrow> string" where
  "worst_of gs = (if ''critical'' \<in> set gs then ''critical'' else if ''warning'' \<in> set gs then ''warning'' else ''optimal'')"

lemma worst_of_grades [simp]: "worst_of gs \<in> grades"
  by (simp add: worst_of_def grades_def)

lemma worst_of_append: "worst_of [worst_of gs, worst_of hs] = worst_of (gs @ hs)"
  by (auto simp: worst_of_def)

lemma worst_of_single: "g \<in> grades \<Longrightarrow> worst_of [g] = g"
  by (auto simp: worst_of_def grades_def)

lemma worst_pair: "a \<in> grades \<Longrightarrow> b \<in> grades \<Longrightarrow> worst_controller_health a b = worst_of [a, b]"
  by (auto simp: worst_of_def worst_controller_health_def grades_def)

lemma higher_pair: "a \<in> grades \<Longrightarrow> b \<in> grades \<Longrightarrow> higher_severity a b = worst_of [a, b]"
  by (auto simp: worst_of_def higher_severity_def severity_index_def severity_order_def grades_def)

lemma worst_fold:
  assumes "\<And>a x. a \<in> grades \<Longrightarrow> x \<in> set xs \<Longrightarrow> f x a = worst_of [a, g x]" "\<And>x. x \<in> set xs \<Longrightarrow> g x \<in> grades" "a \<in> grades"
  shows "fold f xs a = worst_of (a # map g xs)"
  using assms
proof (induction xs arbitrary: a)
  case Nil
  then show ?case
    by (simp add: worst_of_single)
next
  case (Cons x xs)
  have "fold f xs (worst_of [a, g x]) = worst_of (worst_of [a, g x] # map g xs)"
    using Cons.prems by (intro Cons.IH) simp_all
  also have "\<dots> = worst_of (a # map g (x # xs))"
    by (auto simp: worst_of_def)
  finally show ?case
    using Cons.prems by simp
qed

subsection \<open>Drives\<close>

lemma drive_grade: "dh_severity (assess_drive_health p t) =
    (if drive_critical_reasons p t \<noteq> [] then ''critical'' else if drive_warning_reasons p t \<noteq> [] then ''warning'' else ''optimal'')"
  by (simp add: assess_drive_health_def Let_def)

lemma drive_grade_grades [simp]: "dh_severity (assess_drive_health p t) \<in> grades"
  by (simp add: drive_grade grades_def)

lemma graded_health_grades [simp]: "dh_severity (graded_health p w c) \<in> grades"
  by (simp add: graded_health_def)

definition drive_grades :: "settings \<Rightarrow> physical_drive_info list \<Rightarrow> string list" where
  "drive_grades st ps =
     map (\<lambda>p. dh_severity (graded_health p (st_temp_warning_celsius st) (st_temp_critical_celsius st))) ps"

lemma drives_worst: "physical_drive_aggregate_status ps (Some st) = worst_of (drive_grades st ps)"
proof -
  have "physical_drive_aggregate_status ps (Some st) = worst_of (''optimal'' # drive_grades st ps)"
    unfolding physical_drive_aggregate_status_def drive_grades_def graded_health_def
    by (subst worst_fold) (simp_all add: worst_pair Let_def)
  then show ?thesis
    by (simp add: worst_of_def)
qed

lemma grid_worst:
  "snd (load_drive_grid st (Some s)) = worst_of (drive_grades st (ps_physical_drives s))"
proof -
  let ?tile = "drive_grid_tile (st_temp_warning_celsius st) (st_temp_critical_celsius st)"
  have grade: "dt_tile_severity (?tile p) = dh_severity (graded_health p (st_temp_warning_celsius st) (st_temp_critical_celsius st))"
    for p by (simp add: drive_grid_tile_def Let_def compute_drive_tile_severity_def)
  have "snd (load_drive_grid st (Some s)) =
      worst_of (''optimal'' # map dt_tile_severity (map ?tile (in_position_order (ps_physical_drives s))))"
    unfolding load_drive_grid_def option.case Let_def snd_conv
    by (rule worst_fold) (auto simp: grade higher_pair)
  then show ?thesis
    by (simp add: worst_of_def drive_grades_def grade comp_def in_position_order_def)
qed

subsection \<open>Arrays, components and the controller\<close>

definition array_grades :: "virtual_drive_info list \<Rightarrow> string list" where
  "array_grades vs = map (\<lambda>v. event_severity_to_status (virtual_drive_state_severity (vdi_state v))) vs"

lemma event_status_grades [simp]: "event_severity_to_status x \<in> grades"
  by (cases x) simp_all

lemma arrays_worst: "virtual_drive_controller_health_status vs = worst_of (array_grades vs)"
proof -
  have "virtual_drive_controller_health_status vs = worst_of (''optimal'' # array_grades vs)"
    unfolding virtual_drive_controller_health_status_def array_grades_def
    by (subst worst_fold) (simp_all add: worst_pair)
  then show ?thesis
    by (simp add: worst_of_def)
qed

definition component_grade :: "settings \<Rightarrow> snapshot_row \<Rightarrow> string" where
  "component_grade st s = fst (assess_controller_components s (Some st))"

lemma component_grades [simp]: "component_grade st s \<in> grades"
  by (simp add: component_grade_def assess_controller_components_def Let_def)

lemma snapshot_health_worst:
  "snapshot_health st s =
     (if ps_physical_drives s = [] \<or> ps_virtual_drives s = [] then ''critical''
      else worst_of (component_grade st s # drive_grades st (ps_physical_drives s) @ array_grades (ps_virtual_drives s)))"
proof -
  have "worst_controller_health (worst_controller_health a (worst_of ds)) (worst_of vs) = worst_of (a # ds @ vs)"
    if "a \<in> grades" for a ds vs
    using that by (auto simp: worst_pair worst_of_def)
  then show ?thesis
    by (simp add: snapshot_health_def derive_controller_health_def drives_worst arrays_worst Let_def
        flip: component_grade_def)
qed

text \<open>C28. The grade of the controller is that of the worst part of the snapshot, and nothing else moves it:
  critical when drives or arrays are missing from the snapshot, when a component or a drive has a critical reason or
  an array is in a critical state; else a warning when one of them has a warning reason; else optimal.\<close>

theorem controller_grade_is_the_worst_part:
  "snapshot_health st s =
     (if ps_physical_drives s = [] \<or> ps_virtual_drives s = [] \<or>
         cachevault_critical s @ fst (roc_temperature_reasons s (Some st)) \<noteq> [] \<or>
         (\<exists>p \<in> set (ps_physical_drives s). drive_critical_reasons p
            (temperature_severity (pdi_temperature p) (st_temp_warning_celsius st) (st_temp_critical_celsius st)) \<noteq> []) \<or>
         (\<exists>v \<in> set (ps_virtual_drives s). virtual_drive_state_severity (vdi_state v) = Critical)
      then ''critical''
      else if cachevault_warning s (Some st) @ snd (roc_temperature_reasons s (Some st)) \<noteq> [] \<or>
         (\<exists>p \<in> set (ps_physical_drives s). drive_warning_reasons p
            (temperature_severity (pdi_temperature p) (st_temp_warning_celsius st) (st_temp_critical_celsius st)) \<noteq> []) \<or>
         (\<exists>v \<in> set (ps_virtual_drives s). virtual_drive_state_severity (vdi_state v) = Warning)
      then ''warning'' else ''optimal'')"
proof -
  have array: "event_severity_to_status x = ''critical'' \<longleftrightarrow> x = Critical"
    "event_severity_to_status x = ''warning'' \<longleftrightarrow> x = Warning" for x
    by (cases x; simp)+
  show ?thesis
    unfolding snapshot_health_worst
    by (auto simp: worst_of_def component_grade_def assess_controller_components_def drive_grades_def array_grades_def
        graded_health_def drive_grade image_iff array eq_commute[of "''critical''"] eq_commute[of "''warning''"] Let_def)
qed

subsection \<open>Views of the drives\<close>

lemma row_state_grade: "dv_row_state (physical_drive_row w c p) = dh_severity (graded_health p w c)"
  by (simp add: physical_drive_row_def Let_def compute_drive_tile_severity_def)

lemma count_rows_split:
  assumes "\<forall>r \<in> set rows. dv_row_state r \<in> grades"
  shows "count_rows ''optimal'' rows + count_rows ''warning'' rows + count_rows ''critical'' rows = length rows"
  using assms by (induction rows) (auto simp: count_rows_def grades_def)

text \<open>The three places that grade drives agree: the worst tile of the grid is the part of the controller's grade
  that stands for the drives, the list counts each drive under exactly one grade, and its counts say what the
  worst tile is.\<close>

theorem drive_views_agree:
  assumes "get_latest_snapshot d = Some s"
  shows "snd (load_drive_grid st (Some s)) = physical_drive_aggregate_status (ps_physical_drives s) (Some st) \<and>
    (let total = snd (load_drive_list st d)
     in dls_total total = length (ps_physical_drives s) \<and>
        dls_optimal total + dls_warning total + dls_critical total = dls_total total \<and>
        snd (load_drive_grid st (Some s)) =
          (if dls_critical total > 0 then ''critical'' else if dls_warning total > 0 then ''warning'' else ''optimal''))"
proof -
  let ?rows = "map (physical_drive_row (st_temp_warning_celsius st) (st_temp_critical_celsius st))
    (in_position_order (ps_physical_drives s))"
  have rows: "snd (load_drive_list st d) = drive_list_summary_of ?rows"
    by (simp add: load_drive_list_def assms Let_def)
  have counted: "count_rows g ?rows > 0 \<longleftrightarrow> g \<in> set (drive_grades st (ps_physical_drives s))" for g
    by (auto simp: count_rows_def filter_empty_conv row_state_grade drive_grades_def in_position_order_def)
  show ?thesis
    unfolding rows grid_worst drives_worst
    by (simp add: drive_list_summary_of_def count_rows_split row_state_grade counted worst_of_def Let_def)
      (simp add: in_position_order_def)
qed

text \<open>A controller with a healthy drive, one that fails its self test and one that is hot.\<close>

definition stored_drive :: "int \<Rightarrow> bool \<Rightarrow> int \<Rightarrow> physical_drive_info" where
  "stored_drive k alert degrees =
     \<lparr>pdi_enclosure_id = 252, pdi_slot_id = k, pdi_device_id = k, pdi_model = ''Disk'', pdi_serial_number = ''S'' @ show_int k,
      pdi_firmware_version = ''1'', pdi_size_bytes = 4000787030016, pdi_interface = ''SAS'', pdi_media_type = ''HDD'',
      pdi_state = ''Onln'', pdi_disk_group_id = Some 0, pdi_temperature = Some degrees, pdi_media_errors = 0,
      pdi_other_errors = 0, pdi_predictive_failures = 0, pdi_smart_alert = alert, pdi_sas_address = []\<rparr>"

definition stored_row :: snapshot_row where
  "stored_row =
     \<lparr>ps_alarm_state = ''Off'', ps_cv_present = True, ps_roc_temperature = Some 60, ps_virtual_drives = [],
      ps_physical_drives = [stored_drive 0 False 30, stored_drive 4 True 30, stored_drive 1 False 70], ps_cachevault = None,
      sr_id = 1, sr_captured_at = 0, sr_model_name = [], sr_serial_number = [], sr_firmware_version = [],
      sr_bios_version = [], sr_driver_version = [], sr_bbu_present = True, sr_raw_json = None\<rparr>"

lemma drive_views_agree_witness:
  "snd (load_drive_grid sample_settings (Some stored_row)) =
     physical_drive_aggregate_status (ps_physical_drives stored_row) (Some sample_settings) \<and>
   dls_total (snd (load_drive_list sample_settings (empty_db\<lparr>db_snapshots := [stored_row]\<rparr>))) = 3"
proof -
  have "get_latest_snapshot (empty_db\<lparr>db_snapshots := [stored_row]\<rparr>) = Some stored_row"
    by (simp add: get_latest_snapshot_def)
  from drive_views_agree[OF this, of sample_settings]
  show ?thesis
    by (simp add: Let_def stored_row_def)
qed

lemma controller_grade_is_the_worst_part_witness:
  "snapshot_health sample_settings stored_row = ''critical''"
  using controller_grade_is_the_worst_part[of sample_settings stored_row] by (simp add: stored_row_def)

end
