(* ===== verification/MetricsProps.thy ===== *)
theory MetricsProps
  imports Metrics HealthProps
begin

section \<open>The exporter\<close>

subsection \<open>The cache\<close>

text \<open>
  Two facts of the store while no identifier of a snapshot is given out twice: a snapshot is written once, so what carries
  an identifier is the same in every state, and one that was pruned does not come back. SQLite may give an identifier out
  again after the table was emptied; the statement below is about runs in which it does not.
\<close>

fun states_of :: "(db \<times> db) list \<Rightarrow> db list" where
  "states_of [] = []"
| "states_of ((d, d') # views) = d # d' # states_of views"

definition snapshots_fixed :: "db list \<Rightarrow> bool" where
  "snapshots_fixed ds \<longleftrightarrow>
     (\<forall>d \<in> set ds. \<forall>d' \<in> set ds. \<forall>s \<in> set (db_snapshots d). \<forall>s' \<in> set (db_snapshots d'). sr_id s = sr_id s' \<longrightarrow> s = s')"

fun pruned_for_good :: "(db \<times> db) list \<Rightarrow> bool" where
  "pruned_for_good [] = True"
| "pruned_for_good ((d, d') # views) \<longleftrightarrow>
     (\<forall>s \<in> set (db_snapshots d). s \<notin> set (db_snapshots d') \<longrightarrow> (\<forall>x \<in> set views. s \<notin> set (db_snapshots (fst x)))) \<and>
     pruned_for_good views"

definition families_for :: "settings option \<Rightarrow> snapshot_row \<Rightarrow> py_error + metric_family list" where
  "families_for st s = bindr (encode_controller_health st s) (\<lambda>h. Inr (families_of s h))"

text \<open>What one scrape may show: the last snapshot of its first session, or nothing when that one is gone in the second.\<close>

definition shows_latest :: "settings option \<Rightarrow> db \<times> db \<Rightarrow> py_error + metric_family list \<Rightarrow> bool" where
  "shows_latest st view r =
     (case get_latest_snapshot (fst view) of
        None \<Rightarrow> r = Inr []
      | Some s \<Rightarrow> r = families_for st s \<or> s \<notin> set (db_snapshots (snd view)) \<and> r = Inr [])"

lemma encode_health:
  "encode_controller_health (Some st) s =
     Inr (if snapshot_health st s = ''critical'' then 2 else if snapshot_health st s = ''warning'' then 1 else 0)"
proof -
  have "derive_controller_health s (ps_physical_drives s) (ps_virtual_drives s) None (Some st) = snapshot_health st s"
    by (simp add: snapshot_health_def derive_controller_health_def)
  moreover have "snapshot_health st s \<in> grades"
    by (simp add: snapshot_health_worst)
  ultimately show ?thesis
    by (auto simp: encode_controller_health_def grades_def)
qed

lemma latest_stored: "get_latest_snapshot d = Some s \<Longrightarrow> s \<in> set (db_snapshots d)"
  using best_by_Some unfolding get_latest_snapshot_def by metis

text \<open>Looking a snapshot up by its identifier in another state.\<close>

lemma find_fixed:
  assumes "snapshots_fixed ds" "d \<in> set ds" "d' \<in> set ds" "s \<in> set (db_snapshots d)"
  shows "List.find (\<lambda>x. sr_id x = sr_id s) (db_snapshots d') = (if s \<in> set (db_snapshots d') then Some s else None)"
proof (cases "List.find (\<lambda>x. sr_id x = sr_id s) (db_snapshots d')")
  case None
  then show ?thesis by (auto simp: find_None_iff)
next
  case (Some x)
  then have "x \<in> set (db_snapshots d')" "sr_id x = sr_id s" by (auto simp: find_Some_iff)
  then have "x = s" using assms unfolding snapshots_fixed_def by blast
  with Some \<open>x \<in> set (db_snapshots d')\<close> show ?thesis by simp
qed

text \<open>The cache holds the gauges of the snapshot it names, or nothing when that snapshot will not be seen again.\<close>

definition cache_ok :: "settings option \<Rightarrow> db list \<Rightarrow> (db \<times> db) list \<Rightarrow> metrics_cache \<Rightarrow> bool" where
  "cache_ok st ds views cache \<longleftrightarrow>
     (\<forall>i. fst cache = Some i \<longrightarrow> (\<exists>d \<in> set ds. \<exists>s \<in> set (db_snapshots d). sr_id s = i \<and>
        (families_for st s = Inr (snd cache) \<or> snd cache = [] \<and> (\<forall>x \<in> set views. s \<notin> set (db_snapshots (fst x))))))"

lemma cache_ok_later: "cache_ok st ds (x # views) cache \<Longrightarrow> cache_ok st ds views cache"
  unfolding cache_ok_def by fastforce

lemma built_families:
  assumes "snapshots_fixed ds" "d \<in> set ds" "d' \<in> set ds" "s \<in> set (db_snapshots d)"
  shows "build_families st d' (Some (sr_id s)) = (if s \<in> set (db_snapshots d') then families_for st s else Inr [])"
  using find_fixed [OF assms] by (simp add: build_families_def families_for_def)

lemma collect_shows_latest:
  assumes "snapshots_fixed ds" "d \<in> set ds" "d' \<in> set ds" "cache_ok st ds ((d, d') # views) cache"
    and "pruned_for_good ((d, d') # views)"
  shows "shows_latest st (d, d') (snd (collect_metrics st d d' cache)) \<and>
    cache_ok st ds views (fst (collect_metrics st d d' cache))"
proof (cases "get_latest_snapshot d")
  case None
  then show ?thesis
    by (simp add: collect_metrics_def build_families_def shows_latest_def cache_ok_def)
next
  case (Some s)
  note s = latest_stored [OF Some]
  note later = cache_ok_later [OF assms(4)]
  show ?thesis
  proof (cases "fst cache = Some (sr_id s)")
    case True
    then obtain d0 s' where "d0 \<in> set ds" "s' \<in> set (db_snapshots d0)" "sr_id s' = sr_id s"
      and built: "families_for st s' = Inr (snd cache) \<or> snd cache = [] \<and> s' \<notin> set (db_snapshots d)"
      using assms(4) unfolding cache_ok_def by fastforce
    then have "s' = s"
      using assms(1,2) s unfolding snapshots_fixed_def by blast
    with True built s later show ?thesis
      by (simp add: collect_metrics_def Some shows_latest_def)
  next
    case False
    show ?thesis
    proof (cases "s \<in> set (db_snapshots d')")
      case True
      have made: "build_families st d' (Some (sr_id s)) = families_for st s"
        using built_families [OF assms(1-3) s] True by simp
      have "cache_ok st ds views (Some (sr_id s), fs)" if "families_for st s = Inr fs" for fs
        using that assms(2) s unfolding cache_ok_def by auto
      then show ?thesis
        using False later by (auto simp: collect_metrics_def Some shows_latest_def made split: sum.split)
    next
      case gone: False
      have made: "build_families st d' (Some (sr_id s)) = Inr []"
        using built_families [OF assms(1-3) s] gone by simp
      have "\<forall>x \<in> set views. s \<notin> set (db_snapshots (fst x))" using assms(5) s gone by simp
      then have "cache_ok st ds views (Some (sr_id s), [])"
        using assms(2) s unfolding cache_ok_def by auto
      then show ?thesis
        using False gone by (simp add: collect_metrics_def Some shows_latest_def made)
    qed
  qed
qed

lemma scrapes_show_latest:
  assumes "snapshots_fixed ds" "set (states_of views) \<subseteq> set ds" "cache_ok st ds views cache" "pruned_for_good views"
  shows "list_all2 (shows_latest st) views (scrapes st cache views)"
  using assms(2-4)
proof (induction views arbitrary: cache)
  case (Cons x views)
  obtain d d' where x: "x = (d, d')" by (cases x)
  have "d \<in> set ds" "d' \<in> set ds" using Cons.prems(1) by (simp_all add: x)
  from collect_shows_latest [OF assms(1) this Cons.prems(2,3) [unfolded x]]
  show ?case using Cons by (cases "collect_metrics st d d' cache") (simp add: x)
qed simp

text \<open>C37. The cache of the exporter is invisible: over any series of scrapes, with any changes of the database between and
  during them, each one shows the gauges of the snapshot that was the last when the scrape began, its controller health
  being the grade of the main page; only a snapshot that retention removes in the middle of a scrape shows as nothing. This
  holds as long as no identifier of a snapshot is given out twice.\<close>

theorem scrapes_show_the_last_snapshot:
  assumes "snapshots_fixed (states_of views)" "pruned_for_good views"
  shows "list_all2 (\<lambda>(d, d') r. case get_latest_snapshot d of
      None \<Rightarrow> r = Inr []
    | Some s \<Rightarrow>
        r = Inr (families_of s (if snapshot_health st s = ''critical'' then 2 else if snapshot_health st s = ''warning'' then 1 else 0)) \<or>
        s \<notin> set (db_snapshots d') \<and> r = Inr [])
    views (scrapes (Some st) new_metrics_cache views)"
proof -
  have "list_all2 (shows_latest (Some st)) views (scrapes (Some st) new_metrics_cache views)"
    using scrapes_show_latest [OF assms(1) subset_refl _ assms(2)] by (simp add: cache_ok_def new_metrics_cache_def)
  then show ?thesis
    by (rule list_all2_mono) (auto simp: shows_latest_def families_for_def encode_health split: option.splits)
qed

text \<open>Two scrapes: a poll commits between the two sessions of the first.\<close>

definition newer_row :: snapshot_row where
  "newer_row = stored_row\<lparr>sr_id := sr_id stored_row + 1, sr_captured_at := sr_captured_at stored_row + 1\<rparr>"

definition polled_views :: "(db \<times> db) list" where
  "polled_views =
     (let d = empty_db\<lparr>db_snapshots := [stored_row]\<rparr>; d' = empty_db\<lparr>db_snapshots := [stored_row, newer_row]\<rparr>
      in [(d, d'), (d', d')])"

lemma scrapes_show_the_last_snapshot_witness:
  "scrapes (Some sample_settings) new_metrics_cache polled_views =
     [Inr (families_of stored_row 2), Inr (families_of newer_row 2)]"
proof -
  have ids: "sr_id newer_row \<noteq> sr_id stored_row" "sr_captured_at newer_row > sr_captured_at stored_row"
    by (simp_all add: newer_row_def)
  then have "newer_row \<noteq> stored_row" by metis
  note other = this ids
  have "snapshot_health sample_settings stored_row = ''critical''"
    by (simp add: snapshot_health_worst stored_row_def)
  moreover have "snapshot_health sample_settings newer_row = ''critical''"
    by (simp add: snapshot_health_worst stored_row_def newer_row_def)
  moreover have "snapshots_fixed (states_of polled_views)" "pruned_for_good polled_views"
    using other by (auto simp: snapshots_fixed_def polled_views_def Let_def)
  ultimately show ?thesis
    using scrapes_show_the_last_snapshot [of polled_views sample_settings] other
    by (auto simp: polled_views_def Let_def list_all2_Cons1 get_latest_snapshot_def)
qed

subsection \<open>The counters\<close>

definition events_of :: "severity \<times> string \<Rightarrow> event_row list \<Rightarrow> nat" where
  "events_of k es = length (filter (\<lambda>e. kind_of e = k) es)"

definition staged_of :: "severity \<times> string \<Rightarrow> db \<Rightarrow> nat" where
  "staged_of k d = length (filter (\<lambda>x. x = k) (db_staged_metrics d))"

lemma fold_totals: "fold increment_total ks totals k = totals k + length (filter (\<lambda>x. x = k) ks)"
  by (induction ks arbitrary: totals) (auto simp: increment_total_def)

lemma events_of_kinds: "events_of k es = length (filter (\<lambda>x. x = k) (map kind_of es))"
  by (simp add: events_of_def filter_map comp_def)

text \<open>Every way to add events appends their rows and stages their kinds in the same order.\<close>

definition appends_staged :: "db \<Rightarrow> db \<Rightarrow> bool" where
  "appends_staged d d' \<longleftrightarrow>
     (\<exists>es. db_events d' = db_events d @ es \<and> db_staged_metrics d' = db_staged_metrics d @ map kind_of es)"

lemma adders_stage:
  "appends_staged d (fst (record_event now sev cat subj summary old new d))"
  "appends_staged d (fst (record_operator_action now username cat msg new d))"
  "appends_staged d (add_dated_event te d)"
  by (auto simp: appends_staged_def record_event_def record_operator_action_def add_dated_event_def Let_def kind_of_def
      split: prod.split)

definition counted :: "metrics_session \<Rightarrow> bool" where
  "counted m \<longleftrightarrow>
     (\<forall>k. ms_totals m k = events_of k (ms_stored m)) \<and> db_staged_metrics (ms_committed m) = [] \<and>
     length (db_events (ms_committed m)) \<le> length (db_events (ms_working m)) \<and>
     db_staged_metrics (ms_working m) = map kind_of (pending_events m)"

lemma counted_session_append:
  assumes "counted m" "appends_staged (ms_working m) d"
  shows "counted (m\<lparr>ms_working := d\<rparr>)"
  using assms by (auto simp: counted_def appends_staged_def pending_events_def)

lemma counted_step:
  assumes "session_step m m'" "counted m"
  shows "counted m'"
  using assms(1)
proof (cases rule: session_step.cases)
  case (recorded now sev cat subj summary old new d row)
  then show ?thesis
    using counted_session_append [OF assms(2)] adders_stage(1) by (metis fst_conv)
next
  case (audited now username cat msg new d row)
  then show ?thesis
    using counted_session_append [OF assms(2)] adders_stage(2) by (metis fst_conv)
next
  case (monitored te)
  then show ?thesis
    using counted_session_append [OF assms(2)] adders_stage(3) by metis
next
  case (changed d)
  have "length (db_events d) = length (db_events (ms_working m))" using changed(2) by (metis length_map)
  moreover have "map kind_of (drop n (db_events d)) = map kind_of (drop n (db_events (ms_working m)))" for n
    using changed(2) by (metis drop_map)
  ultimately show ?thesis
    using assms(2) changed(1,3) by (simp add: counted_def pending_events_def)
next
  case stored
  then show ?thesis
    using assms(2)
    by (simp add: counted_def increment_staged_event_metrics_def fold_totals events_of_kinds pop_staged_def pending_events_def)
next
  case undone
  then show ?thesis
    using assms(2) by (simp add: counted_def discard_staged_event_metrics_def pop_staged_def pending_events_def)
next
  case (elsewhere d)
  then show ?thesis
    using assms(2) by (simp add: counted_def pending_events_def)
qed

text \<open>C38. Whatever a process does with its sessions, and whatever others commit in between, the counter of a severity and a
  category is the number of events of that kind the process itself has stored since it started, whether a poll, an
  operator's action or the disk monitor raised them: an event counts when it is committed, and one rolled back never counts.\<close>

theorem counters_count_committed_events:
  assumes "session_run (process_start d) m"
  shows "ms_totals m k = length (filter (\<lambda>e. (ev_severity e, ev_category e) = k) (ms_stored m))"
proof -
  have "counted m"
    using assms
  proof (induction rule: session_run.induct)
    case start
    then show ?case
      by (simp add: counted_def process_start_def pop_staged_def pending_events_def events_of_def)
  next
    case (step m' m'')
    then show ?case
      using counted_step by blast
  qed
  then show ?thesis
    unfolding counted_def events_of_def kind_of_def by blast
qed

text \<open>An operator's action that is stored, and an alert that is rolled back.\<close>

lemma counters_count_committed_events_witness:
  "\<exists>m. session_run (process_start empty_db) m \<and> ms_totals m (Info, ''operator_action'') = 1 \<and> ms_totals m (Critical, ''system'') = 0"
proof -
  let ?start = "process_start empty_db"
  let ?audited = "?start\<lparr>ms_working := fst (record_operator_action 0 ''ann'' ''operator_action'' [] None (ms_working ?start))\<rparr>"
  let ?one = "increment_staged_event_metrics ?audited"
  let ?alerted = "?one\<lparr>ms_working := fst (record_event 5 Critical ''system'' [] [] None None (ms_working ?one))\<rparr>"
  let ?m = "discard_staged_event_metrics ?alerted"
  have "session_run ?start ?audited"
    by (rule session_run.step [OF session_run.start session_step.audited [OF prod.collapse [symmetric]]])
  then have one: "session_run ?start ?one"
    by (rule session_run.step [OF _ session_step.stored])
  have "session_run ?start ?alerted"
    by (rule session_run.step [OF one session_step.recorded [OF prod.collapse [symmetric]]])
  then have run: "session_run ?start ?m"
    by (rule session_run.step [OF _ session_step.undone])
  have rows: "map kind_of (ms_stored ?m) = [(Info, ''operator_action'')]"
    by (simp add: discard_staged_event_metrics_def increment_staged_event_metrics_def process_start_def pending_events_def
        record_operator_action_def Let_def pop_staged_def empty_db_def kind_of_def)
  then obtain e where e: "ms_stored ?m = [e]" "kind_of e = (Info, ''operator_action'')" by auto
  show ?thesis
    using counters_count_committed_events [OF run, of "(Info, ''operator_action'')"]
      counters_count_committed_events [OF run, of "(Critical, ''system'')"] run e(2)
    by (auto simp: e(1) kind_of_def simp del: One_nat_def)
qed

end
