(* ===== verification/Application.thy ===== *)
theory Application
  imports Pages Scheduler
begin

section \<open>The application process\<close>

text \<open>
  \<open>app.py\<close>: the life of a worker process. Several workers run the application; the collector and the metrics server run in
  one of them, the one that holds a lock file. \<open>web/security_headers.py\<close> and \<open>web/static.py\<close> add headers to responses.

  \<^item> What the operating system answers for a lock file is part of the state; the kernel keeps at most one exclusive lock
    per file and gives it up when its holder dies. A lock file is not replaced while the program runs. The process number is
    written after the lock is taken; a write that fails raises and leaves the file open, so the lock stays with the process.
  \<^item> The start of the collector and of the metrics server (library code behind \<open>await\<close>) may succeed, raise or be cancelled.
  \<^item> \<open>make_url\<close> gives backend and database of an address.
\<close>

subsection \<open>Lock files\<close>

datatype open_outcome = Opened | Is_symlink | Open_failed

datatype write_outcome = Pid_written | Pid_not_truncated | Pid_not_written

record lock_file =
  lk_open :: open_outcome
  lk_regular :: bool
  lk_owned :: bool
  lk_single_link :: bool
  lk_write :: write_outcome

datatype lock_error = Lock_refused string | Lock_os_error

type_synonym pid = nat

text \<open>The files, who holds their locks, and the process number written into them.\<close>

record lock_table =
  lt_files :: "string \<Rightarrow> lock_file"
  lt_holder :: "string \<Rightarrow> pid option"
  lt_written :: "string \<Rightarrow> pid option"

definition validate_process_lock_file :: "string \<Rightarrow> string \<Rightarrow> lock_file \<Rightarrow> lock_error + unit" where
  "validate_process_lock_file lock_name path f =
     (if \<not> lk_regular f then Inl (Lock_refused (lock_name @ '' lock path must be a regular file: '' @ path))
      else if \<not> lk_owned f then Inl (Lock_refused (lock_name @ '' lock path must be owned by the current user: '' @ path))
      else if \<not> lk_single_link f then Inl (Lock_refused (lock_name @ '' lock path must not have hard links: '' @ path))
      else Inr ())"

definition try_acquire_process_lock :: "string \<Rightarrow> pid \<Rightarrow> string \<Rightarrow> lock_table \<Rightarrow> lock_table \<times> (lock_error + bool)" where
  "try_acquire_process_lock path me lock_name t =
     (let f = lt_files t path
      in case lk_open f of
           Is_symlink \<Rightarrow> (t, Inl (Lock_refused (lock_name @ '' lock path must not be a symlink: '' @ path)))
         | Open_failed \<Rightarrow> (t, Inl Lock_os_error)
         | Opened \<Rightarrow>
             (case validate_process_lock_file lock_name path f of
                Inl err \<Rightarrow> (t, Inl err)
              | Inr _ \<Rightarrow>
                  if lt_holder t path \<noteq> None then (t, Inr False)
                  else let locked = t\<lparr>lt_holder := (lt_holder t)(path := Some me)\<rparr>
                       in case lk_write f of
                            Pid_written \<Rightarrow> (locked\<lparr>lt_written := (lt_written t)(path := Some me)\<rparr>, Inr True)
                          | Pid_not_truncated \<Rightarrow> (locked, Inl Lock_os_error)
                          | Pid_not_written \<Rightarrow> (locked\<lparr>lt_written := (lt_written t)(path := None)\<rparr>, Inl Lock_os_error)))"

definition release_process_lock :: "string \<Rightarrow> lock_table \<Rightarrow> lock_table" where
  "release_process_lock path t = t\<lparr>lt_holder := (lt_holder t)(path := None)\<rparr>"

subsection \<open>The collector of a worker\<close>

text \<open>\<open>Running\<close>: the runtime holds a collector and its scheduler. \<open>Retrying\<close>: the task that tries again is alive.\<close>

datatype collector_phase = No_collector | Retrying | Running

record worker =
  wk_phase :: collector_phase
  wk_lock :: bool

datatype start_outcome = Start_ok | Start_raises | Start_cancelled

datatype start_result = Started bool | Start_lock_error lock_error | Start_failed | Start_aborted

definition idle_worker :: worker where
  "idle_worker = \<lparr>wk_phase = No_collector, wk_lock = False\<rparr>"

text \<open>Taking the lock and starting the collector; a start that fails or is cancelled gives the lock back.\<close>

definition start_collector_scheduler ::
  "string \<Rightarrow> pid \<Rightarrow> start_outcome \<Rightarrow> worker \<Rightarrow> lock_table \<Rightarrow> (worker \<times> lock_table) \<times> start_result" where
  "start_collector_scheduler path me outcome wk t =
     (if wk_phase wk = Running then ((wk, t), Started True)
      else case try_acquire_process_lock path me ''collector'' t of
        (t', Inl err) \<Rightarrow> ((wk, t'), Start_lock_error err)
      | (t', Inr False) \<Rightarrow> ((wk\<lparr>wk_lock := False\<rparr>, t'), Started False)
      | (t', Inr True) \<Rightarrow>
          (case outcome of
             Start_ok \<Rightarrow> ((\<lparr>wk_phase = Running, wk_lock = True\<rparr>, t'), Started True)
           | Start_raises \<Rightarrow> ((wk\<lparr>wk_lock := False\<rparr>, release_process_lock path t'), Start_failed)
           | Start_cancelled \<Rightarrow> ((wk\<lparr>wk_lock := False\<rparr>, release_process_lock path t'), Start_aborted)))"

text \<open>
  The lifespan before its \<open>yield\<close>: \<open>None\<close> is a worker that does not come up, because an exception leaves the lifespan.
\<close>

definition lifespan_start ::
  "bool \<Rightarrow> string \<Rightarrow> pid \<Rightarrow> start_outcome \<Rightarrow> lock_table \<Rightarrow> worker option \<times> lock_table" where
  "lifespan_start collector_enabled path me outcome t =
     (if \<not> collector_enabled then (Some idle_worker, t)
      else case start_collector_scheduler path me outcome idle_worker t of
        ((wk, t'), Started True) \<Rightarrow> (Some wk, t')
      | ((wk, t'), Started False) \<Rightarrow> (Some (wk\<lparr>wk_phase := Retrying\<rparr>), t')
      | ((wk, t'), _) \<Rightarrow> (None, t'))"

text \<open>One turn of the retry loop after its sleep: anything but a start and a cancellation is tried again.\<close>

definition retry_collector_start :: "string \<Rightarrow> pid \<Rightarrow> start_outcome \<Rightarrow> worker \<Rightarrow> lock_table \<Rightarrow> worker \<times> lock_table" where
  "retry_collector_start path me outcome wk t =
     (if wk_phase wk \<noteq> Retrying then (wk, t)
      else case start_collector_scheduler path me outcome wk t of
        ((wk', t'), Start_aborted) \<Rightarrow> (wk'\<lparr>wk_phase := No_collector\<rparr>, t')
      | ((wk', t'), _) \<Rightarrow> (wk', t'))"

text \<open>The \<open>finally\<close> of the lifespan; the shutdown of the collector may raise, the lock is given back all the same.\<close>

definition lifespan_stop :: "string \<Rightarrow> worker \<Rightarrow> lock_table \<Rightarrow> lock_table" where
  "lifespan_stop path wk t = (if wk_lock wk then release_process_lock path t else t)"

text \<open>What \<open>healthz\<close> sees of a worker.\<close>

definition process_state_of :: "bool \<Rightarrow> worker \<Rightarrow> process_state" where
  "process_state_of collector_enabled wk =
     \<lparr>px_collector_enabled = collector_enabled, px_has_collector = (wk_phase wk = Running), px_has_lock = wk_lock wk,
      px_has_scheduler = (wk_phase wk = Running),
      px_retry_task_done = (if wk_phase wk = Retrying then Some False else None)\<rparr>"

subsection \<open>Workers side by side\<close>

record cluster =
  cl_locks :: lock_table
  cl_workers :: "pid \<Rightarrow> worker option"

definition death :: "pid \<Rightarrow> lock_table \<Rightarrow> lock_table" where
  "death me t = t\<lparr>lt_holder := (\<lambda>path. if lt_holder t path = Some me then None else lt_holder t path)\<rparr>"

text \<open>
  \<open>files_change\<close>: the files change under the program, their locks do not. \<open>process_gone\<close>: a process that is no worker, because it
  never came up or has stopped, ends.
\<close>

inductive cluster_step :: "string \<Rightarrow> cluster \<Rightarrow> cluster \<Rightarrow> bool" for path where
  worker_starts: "cl_workers c me = None \<Longrightarrow> lifespan_start enabled path me outcome (cl_locks c) = (wk, t) \<Longrightarrow>
    cluster_step path c \<lparr>cl_locks = t, cl_workers = (cl_workers c)(me := wk)\<rparr>"
| worker_retries: "cl_workers c me = Some wk \<Longrightarrow> retry_collector_start path me outcome wk (cl_locks c) = (wk', t) \<Longrightarrow>
    cluster_step path c \<lparr>cl_locks = t, cl_workers = (cl_workers c)(me := Some wk')\<rparr>"
| worker_stops: "cl_workers c me = Some wk \<Longrightarrow>
    cluster_step path c \<lparr>cl_locks = lifespan_stop path wk (cl_locks c), cl_workers = (cl_workers c)(me := None)\<rparr>"
| worker_dies: "cl_workers c me = Some wk \<Longrightarrow>
    cluster_step path c \<lparr>cl_locks = death me (cl_locks c), cl_workers = (cl_workers c)(me := None)\<rparr>"
| process_gone: "cl_workers c me = None \<Longrightarrow> cluster_step path c (c\<lparr>cl_locks := death me (cl_locks c)\<rparr>)"
| files_change: "cluster_step path c (c\<lparr>cl_locks := (cl_locks c)\<lparr>lt_files := files\<rparr>\<rparr>)"

inductive_cases cluster_stepE: "cluster_step path c c'"

inductive cluster_run :: "string \<Rightarrow> cluster \<Rightarrow> bool" for path where
  boot: "lt_holder t path = None \<Longrightarrow> cluster_run path \<lparr>cl_locks = t, cl_workers = (\<lambda>_. None)\<rparr>"
| step: "cluster_run path c \<Longrightarrow> cluster_step path c c' \<Longrightarrow> cluster_run path c'"

text \<open>A run in which every process number could be written.\<close>

inductive sound_run :: "string \<Rightarrow> cluster \<Rightarrow> bool" for path where
  boot: "lt_holder t path = None \<Longrightarrow> lk_write (lt_files t path) = Pid_written \<Longrightarrow>
    sound_run path \<lparr>cl_locks = t, cl_workers = (\<lambda>_. None)\<rparr>"
| step: "sound_run path c \<Longrightarrow> cluster_step path c c' \<Longrightarrow> lk_write (lt_files (cl_locks c') path) = Pid_written \<Longrightarrow> sound_run path c'"

subsection \<open>The metrics server\<close>

text \<open>What the waiting loop sees in one turn: whether the server is up, how its task ended if it did (\<open>True\<close>: with an exception),
  whether it was told to exit, and whether the deadline has passed.\<close>

record startup_view =
  su_started :: bool
  su_task_failed :: "bool option"
  su_should_exit :: bool
  su_deadline_passed :: bool

datatype startup_result = Up | Server_error | Exited_early | Stopped_early | Timed_out

fun wait_for_metrics_server_startup :: "startup_view list \<Rightarrow> startup_result option" where
  "wait_for_metrics_server_startup [] = None"
| "wait_for_metrics_server_startup (v # vs) =
     (if su_started v then Some Up
      else case su_task_failed v of
        Some True \<Rightarrow> Some Server_error
      | Some False \<Rightarrow> Some Exited_early
      | None \<Rightarrow> if su_should_exit v then Some Stopped_early
                else if su_deadline_passed v then Some Timed_out
                else wait_for_metrics_server_startup vs)"

text \<open>The lock of the metrics server is kept exactly by a server that came up.\<close>

definition start_metrics_server :: "string \<Rightarrow> pid \<Rightarrow> startup_result \<Rightarrow> lock_table \<Rightarrow> lock_table \<times> (lock_error + startup_result option)" where
  "start_metrics_server path me startup t =
     (case try_acquire_process_lock path me ''metrics'' t of
        (t', Inl err) \<Rightarrow> (t', Inl err)
      | (t', Inr False) \<Rightarrow> (t', Inr None)
      | (t', Inr True) \<Rightarrow> (if startup = Up then t' else release_process_lock path t', Inr (Some startup)))"

definition stop_metrics_server :: "string \<Rightarrow> bool \<Rightarrow> lock_table \<Rightarrow> lock_table" where
  "stop_metrics_server path has_lock t = (if has_lock then release_process_lock path t else t)"

subsection \<open>The notifier job\<close>

text \<open>\<open>cycle\<close> is what runs between the lock and its release, on the table of locks alone.\<close>

definition run_notifier_cycle_with_lock ::
  "string \<Rightarrow> pid \<Rightarrow> (lock_table \<Rightarrow> lock_table \<times> 'a) \<Rightarrow> lock_table \<Rightarrow> lock_table \<times> (lock_error + 'a option)" where
  "run_notifier_cycle_with_lock path me cycle t =
     (case try_acquire_process_lock path me ''notifier'' t of
        (t', Inl err) \<Rightarrow> (t', Inl err)
      | (t', Inr False) \<Rightarrow> (t', Inr None)
      | (t', Inr True) \<Rightarrow> (case cycle t' of (t'', r) \<Rightarrow> (release_process_lock path t'', Inr (Some r))))"

subsection \<open>The database file\<close>

definition resolve_sqlite_db_path :: "(string \<Rightarrow> (string \<times> string option) option) \<Rightarrow> string \<Rightarrow> string option" where
  "resolve_sqlite_db_path make_url url =
     (case make_url url of
        Some (backend, Some file) \<Rightarrow> if backend = ''sqlite'' \<and> file \<notin> set [[], '':memory:''] then Some file else None
      | _ \<Rightarrow> None)"

text \<open>A file as \<open>lstat\<close> gives it: regular or not, and its permission bits.\<close>

definition tighten_sqlite_db_permissions ::
  "(string \<Rightarrow> (string \<times> string option) option) \<Rightarrow> (string \<Rightarrow> (bool \<times> nat) option) \<Rightarrow> (string \<Rightarrow> bool) \<Rightarrow> string \<Rightarrow> string \<Rightarrow> (bool \<times> nat) option" where
  "tighten_sqlite_db_permissions make_url lstat chmod_allowed url =
     (case resolve_sqlite_db_path make_url url of
        None \<Rightarrow> lstat
      | Some path \<Rightarrow>
          (case lstat path of
             None \<Rightarrow> lstat
           | Some (regular, mode) \<Rightarrow>
               if \<not> regular \<or> mode mod 64 = 0 \<or> \<not> chmod_allowed path then lstat
               else lstat(path := Some (regular, 6 * 64))))"

text \<open>\<open>value.replace("%", "%%")\<close>.\<close>

definition configparser_value :: "string \<Rightarrow> string" where
  "configparser_value s = concat (map (\<lambda>c. if c = CHR ''%'' then ''%%'' else [c]) s)"

subsection \<open>Headers of responses\<close>

definition security_headers :: "(string \<times> string) list" where
  "security_headers =
     [(''x-content-type-options'', ''nosniff''), (''x-frame-options'', ''DENY''),
      (''referrer-policy'', ''strict-origin-when-cross-origin'')]"

definition send_with_security_headers :: "(string \<times> string) list \<Rightarrow> (string \<times> string) list" where
  "send_with_security_headers headers =
     fold (\<lambda>(name, v) hs. if name \<in> set (map fst hs) then hs else hs @ [(name, v)]) security_headers headers"

definition static_response_headers :: "int \<Rightarrow> (string \<times> string) list \<Rightarrow> (string \<times> string) list" where
  "static_response_headers status headers =
     (if status = 200 \<and> ''cache-control'' \<notin> set (map fst headers)
      then headers @ [(''cache-control'', ''public, max-age=31536000'')] else headers)"

end
