(* ===== verification/ApplicationProps.thy ===== *)
theory ApplicationProps
  imports Application
begin

section \<open>Workers and their locks\<close>

subsection \<open>Lock operations\<close>

lemma acquire_cases:
  assumes "try_acquire_process_lock path me name t = (t', r)"
  obtains (taken) "r = Inr True" "lt_holder t path = None" "lt_holder t' = (lt_holder t)(path := Some me)" "lt_files t' = lt_files t"
  | (refused) "r \<noteq> Inr True" "t' = t"
  | (leaked) "r = Inl Lock_os_error" "lt_holder t path = None" "lt_holder t' = (lt_holder t)(path := Some me)"
      "lt_files t' = lt_files t" "lk_write (lt_files t path) \<noteq> Pid_written"
proof -
  have "r = Inr True \<and> lt_holder t path = None \<and> lt_holder t' = (lt_holder t)(path := Some me) \<and> lt_files t' = lt_files t \<or>
      r \<noteq> Inr True \<and> t' = t \<or>
      r = Inl Lock_os_error \<and> lt_holder t path = None \<and> lt_holder t' = (lt_holder t)(path := Some me) \<and>
        lt_files t' = lt_files t \<and> lk_write (lt_files t path) \<noteq> Pid_written"
    using assms
    by (auto simp: try_acquire_process_lock_def Let_def split: open_outcome.splits sum.splits if_splits write_outcome.splits)
  then show ?thesis
    by (elim disjE conjE) (erule (3) taken, erule (1) refused, erule (4) leaked)
qed

lemma holder_release [simp]: "lt_holder (release_process_lock path t) = (lt_holder t)(path := None)"
  by (simp add: release_process_lock_def)

text \<open>A job under a lock gives it back, whatever happens inside, as long as the inside leaves the locks alone and the process
  number could be written.\<close>

lemma notifier_lock_returned:
  assumes "\<And>t. lt_holder (fst (cycle t)) = lt_holder t" "lk_write (lt_files t path) = Pid_written"
  shows "lt_holder (fst (run_notifier_cycle_with_lock path me cycle t)) = lt_holder t"
proof (cases "try_acquire_process_lock path me ''notifier'' t")
  case (Pair t' r)
  then show ?thesis
  proof (cases rule: acquire_cases)
    case taken
    then show ?thesis
      using Pair assms(1) [of t'] by (cases "cycle t'") (auto simp: run_notifier_cycle_with_lock_def fun_upd_idem)
  next
    case refused
    then show ?thesis
      using Pair by (auto simp: run_notifier_cycle_with_lock_def split: sum.splits bool.splits)
  qed (use assms(2) in simp)
qed

text \<open>After a failed write the lock is never given back: every later cycle of any process is skipped.\<close>

lemma leaked_lock_stops_notifier:
  assumes "lt_files t path = \<lparr>lk_open = Opened, lk_regular = True, lk_owned = True, lk_single_link = True, lk_write = Pid_not_written\<rparr>"
    and "lt_holder t path = None"
  shows "case run_notifier_cycle_with_lock path me cycle t of (t', r) \<Rightarrow>
    r = Inl Lock_os_error \<and> run_notifier_cycle_with_lock path me' cycle' (t'\<lparr>lt_files := files\<rparr>) \<noteq> (t'', Inr (Some x))"
  using assms
  by (auto simp: run_notifier_cycle_with_lock_def try_acquire_process_lock_def validate_process_lock_file_def Let_def
      split: open_outcome.splits if_splits)

lemma metrics_lock_kept_by_server:
  assumes "start_metrics_server path me startup t = (t', r)" "lk_write (lt_files t path) = Pid_written"
  shows "lt_holder t' = (if r = Inr (Some Up) then (lt_holder t)(path := Some me) else lt_holder t)"
proof (cases "try_acquire_process_lock path me ''metrics'' t")
  case (Pair t1 r1)
  then show ?thesis
  proof (cases rule: acquire_cases)
    case taken
    then show ?thesis
      using Pair assms by (auto simp: start_metrics_server_def fun_upd_idem split: if_splits)
  next
    case refused
    then show ?thesis
      using Pair assms by (auto simp: start_metrics_server_def split: sum.splits bool.splits)
  qed (use assms(2) in simp)
qed

subsection \<open>One collector\<close>

definition sound_worker :: "worker \<Rightarrow> bool" where
  "sound_worker wk \<longleftrightarrow> (wk_lock wk \<longleftrightarrow> wk_phase wk = Running)"

lemma start_collector_cases:
  assumes "start_collector_scheduler path me outcome wk t = ((wk', t'), r)" "sound_worker wk"
  obtains (started) "wk_phase wk \<noteq> Running" "wk_phase wk' = Running" "wk_lock wk'" "r = Started True" "lt_holder t path = None"
      "lt_holder t' = (lt_holder t)(path := Some me)"
  | (running) "wk_phase wk = Running" "wk' = wk" "t' = t" "r = Started True"
  | (waiting) "wk_phase wk \<noteq> Running" "wk_phase wk' = wk_phase wk" "\<not> wk_lock wk'" "r \<noteq> Started True" "lt_holder t' = lt_holder t"
  | (leaked) "wk_phase wk \<noteq> Running" "wk' = wk" "r = Start_lock_error Lock_os_error" "lt_holder t path = None"
      "lt_holder t' = (lt_holder t)(path := Some me)" "lk_write (lt_files t path) \<noteq> Pid_written"
proof (cases "wk_phase wk = Running")
  case True
  with assms show ?thesis by (intro running) (simp_all add: start_collector_scheduler_def)
next
  case idle: False
  show ?thesis
  proof (cases "try_acquire_process_lock path me ''collector'' t")
    case (Pair t1 r1)
    then show ?thesis
    proof (cases rule: acquire_cases)
      case taken
      then show ?thesis
        using Pair idle assms(1) started waiting
        by (cases outcome) (auto simp: start_collector_scheduler_def fun_upd_idem)
    next
      case refused
      then show ?thesis
        using Pair idle assms waiting
        by (auto simp: start_collector_scheduler_def sound_worker_def split: sum.splits bool.splits)
    next
      case leaked_now: leaked
      then show ?thesis
        using Pair idle assms(1) by (intro leaked) (auto simp: start_collector_scheduler_def)
    qed
  qed
qed

definition collects :: "cluster \<Rightarrow> pid \<Rightarrow> bool" where
  "collects c p \<longleftrightarrow> (\<exists>wk. cl_workers c p = Some wk \<and> wk_phase wk = Running)"

definition holds_lock :: "string \<Rightarrow> cluster \<Rightarrow> pid \<Rightarrow> bool" where
  "holds_lock path c p \<longleftrightarrow> lt_holder (cl_locks c) path = Some p"

definition one_collector :: "string \<Rightarrow> cluster \<Rightarrow> bool" where
  "one_collector path c \<longleftrightarrow>
     (\<forall>p wk. cl_workers c p = Some wk \<longrightarrow> sound_worker wk) \<and> (\<forall>p. collects c p \<longrightarrow> holds_lock path c p)"

definition no_leak :: "string \<Rightarrow> cluster \<Rightarrow> bool" where
  "no_leak path c \<longleftrightarrow> (\<forall>p. holds_lock path c p \<longrightarrow> collects c p)"

lemma collects_simps [simp]:
  "collects \<lparr>cl_locks = t, cl_workers = (cl_workers c)(me := wk)\<rparr> p \<longleftrightarrow>
     (if p = me then (\<exists>x. wk = Some x \<and> wk_phase x = Running) else collects c p)"
  "collects (c\<lparr>cl_locks := t\<rparr>) p = collects c p"
  by (auto simp: collects_def)

lemma holds_simps [simp]:
  "holds_lock path \<lparr>cl_locks = t, cl_workers = ws\<rparr> p \<longleftrightarrow> lt_holder t path = Some p"
  "holds_lock path (c\<lparr>cl_locks := t\<rparr>) p \<longleftrightarrow> lt_holder t path = Some p"
  by (simp_all add: holds_lock_def)

lemma collector_holds: "one_collector path c \<Longrightarrow> collects c p \<Longrightarrow> lt_holder (cl_locks c) path = Some p"
  by (auto simp: one_collector_def holds_lock_def)

lemma one_collector_update:
  assumes "one_collector path c" "\<And>x. wk = Some x \<Longrightarrow> sound_worker x"
    and "\<And>p. p \<noteq> me \<Longrightarrow> collects c p \<Longrightarrow> lt_holder t path = Some p"
    and "\<And>x. wk = Some x \<Longrightarrow> wk_phase x = Running \<Longrightarrow> lt_holder t path = Some me"
  shows "one_collector path \<lparr>cl_locks = t, cl_workers = (cl_workers c)(me := wk)\<rparr>"
  using assms unfolding one_collector_def by auto

lemma no_leak_update:
  assumes "\<And>p. lt_holder t path = Some p \<Longrightarrow> if p = me then (\<exists>x. wk = Some x \<and> wk_phase x = Running) else collects c p"
  shows "no_leak path \<lparr>cl_locks = t, cl_workers = (cl_workers c)(me := wk)\<rparr>"
  using assms unfolding no_leak_def by auto

text \<open>What a try of an idle worker does.\<close>

definition fair_start :: "string \<Rightarrow> cluster \<Rightarrow> pid \<Rightarrow> worker \<Rightarrow> worker \<Rightarrow> lock_table \<Rightarrow> start_result \<Rightarrow> bool" where
  "fair_start path c me wk wk' t r \<longleftrightarrow>
     sound_worker wk' \<and> (\<forall>p. p \<noteq> me \<and> collects c p \<longrightarrow> lt_holder t path = Some p) \<and>
     (if wk_phase wk' = Running then lt_holder t path = Some me \<and> r = Started True
      else r \<noteq> Started True \<and> wk_phase wk' = wk_phase wk) \<and>
     (no_leak path c \<and> lk_write (lt_files (cl_locks c) path) = Pid_written \<longrightarrow>
        (\<forall>q. lt_holder t path = Some q \<longrightarrow> (if q = me then wk_phase wk' = Running else collects c q)))"

lemma fair_startI:
  assumes "sound_worker wk'" "\<And>p. p \<noteq> me \<Longrightarrow> collects c p \<Longrightarrow> lt_holder t path = Some p"
    and "wk_phase wk' = Running \<Longrightarrow> lt_holder t path = Some me \<and> r = Started True"
    and "wk_phase wk' \<noteq> Running \<Longrightarrow> r \<noteq> Started True \<and> wk_phase wk' = wk_phase wk"
    and "\<And>q. no_leak path c \<Longrightarrow> lk_write (lt_files (cl_locks c) path) = Pid_written \<Longrightarrow> lt_holder t path = Some q \<Longrightarrow>
      if q = me then wk_phase wk' = Running else collects c q"
  shows "fair_start path c me wk wk' t r"
  unfolding fair_start_def using assms by presburger

lemma start_step:
  assumes "start_collector_scheduler path me outcome wk (cl_locks c) = ((wk', t), r)" "one_collector path c"
    and "sound_worker wk" "wk_phase wk \<noteq> Running" "\<not> collects c me"
  shows "fair_start path c me wk wk' t r"
  using assms(1,3)
proof (cases rule: start_collector_cases)
  case started
  have nobody: "\<not> collects c p" for p using collector_holds [OF assms(2), of p] started(5) by auto
  show ?thesis
    using started by (intro fair_startI) (simp_all add: nobody sound_worker_def split: if_splits)
next
  case running
  with assms(4) show ?thesis by simp
next
  case waiting
  have idle: "wk_phase wk' \<noteq> Running" "sound_worker wk'" using waiting(1-3) by (simp_all add: sound_worker_def)
  show ?thesis
  proof (rule fair_startI)
    show "lt_holder t path = Some p" if "collects c p" for p
      using collector_holds [OF assms(2) that] waiting(5) by simp
    show "if q = me then wk_phase wk' = Running else collects c q" if "no_leak path c" "lt_holder t path = Some q" for q
    proof -
      have "collects c q" using that waiting(5) by (simp add: no_leak_def holds_lock_def)
      then show ?thesis using assms(5) by auto
    qed
  qed (use idle waiting in simp_all)
next
  case leaked
  have nobody: "\<not> collects c p" for p using collector_holds [OF assms(2), of p] leaked(4) by auto
  show ?thesis using leaked assms(3,4) by (intro fair_startI) (simp_all add: nobody)
qed

definition lone :: "string \<Rightarrow> cluster \<Rightarrow> cluster \<Rightarrow> bool" where
  "lone path c c' \<longleftrightarrow> one_collector path c' \<and>
     (no_leak path c \<and> lk_write (lt_files (cl_locks c) path) = Pid_written \<longrightarrow> no_leak path c')"

lemma loneI:
  assumes "one_collector path c" "\<And>x. new = Some x \<Longrightarrow> sound_worker x"
    and "\<And>p. p \<noteq> me \<Longrightarrow> collects c p \<Longrightarrow> lt_holder t path = Some p"
    and "\<And>x. new = Some x \<Longrightarrow> wk_phase x = Running \<Longrightarrow> lt_holder t path = Some me"
    and "\<And>p. no_leak path c \<Longrightarrow> lk_write (lt_files (cl_locks c) path) = Pid_written \<Longrightarrow> lt_holder t path = Some p \<Longrightarrow>
      if p = me then (\<exists>x. new = Some x \<and> wk_phase x = Running) else collects c p"
  shows "lone path c \<lparr>cl_locks = t, cl_workers = (cl_workers c)(me := new)\<rparr>"
  unfolding lone_def
  by (rule conjI, rule one_collector_update [OF assms(1-4)], assumption+, rule impI, elim conjE, rule no_leak_update, rule assms(5))

lemma lone_after:
  assumes fair: "fair_start path c me wk wk' t r" and one: "one_collector path c"
    and new: "case new of None \<Rightarrow> wk_phase wk' \<noteq> Running
      | Some x \<Rightarrow> sound_worker x \<and> (wk_phase x = Running \<longleftrightarrow> wk_phase wk' = Running)"
  shows "lone path c \<lparr>cl_locks = t, cl_workers = (cl_workers c)(me := new)\<rparr>"
proof (rule loneI [OF one])
  show "sound_worker x" if "new = Some x" for x using new that by simp
  show "lt_holder t path = Some p" if "p \<noteq> me" "collects c p" for p using fair that by (simp add: fair_start_def)
  show "lt_holder t path = Some me" if "new = Some x" "wk_phase x = Running" for x
    using fair new that by (simp add: fair_start_def)
  show "if p = me then (\<exists>x. new = Some x \<and> wk_phase x = Running) else collects c p"
    if "no_leak path c" "lk_write (lt_files (cl_locks c) path) = Pid_written" "lt_holder t path = Some p" for p
  proof -
    have "if p = me then wk_phase wk' = Running else collects c p" using fair that unfolding fair_start_def by blast
    then show ?thesis using new by (cases new) (simp_all split: if_splits)
  qed
qed

lemma lone_other:
  assumes one: "one_collector path c" and t: "lt_holder t path = lt_holder (cl_locks c) path \<and> \<not> collects c me \<or>
      lt_holder t path = (if lt_holder (cl_locks c) path = Some me then None else lt_holder (cl_locks c) path)"
    and new: "case new of None \<Rightarrow> True | Some x \<Rightarrow> sound_worker x \<and> wk_phase x \<noteq> Running"
  shows "lone path c \<lparr>cl_locks = t, cl_workers = (cl_workers c)(me := new)\<rparr>"
proof (rule loneI [OF one])
  show "sound_worker x" if "new = Some x" for x using new that by simp
  show "lt_holder t path = Some p" if "p \<noteq> me" "collects c p" for p
    using t that(1) collector_holds [OF one that(2)] by auto
  show "lt_holder t path = Some me" if "new = Some x" "wk_phase x = Running" for x using new that by simp
  show "if p = me then (\<exists>x. new = Some x \<and> wk_phase x = Running) else collects c p"
    if "no_leak path c" "lt_holder t path = Some p" for p
  proof -
    have "lt_holder (cl_locks c) path = Some p" "p = me \<Longrightarrow> \<not> collects c me" using t that(2) by (auto split: if_splits)
    moreover from this(1) have "collects c p" using that(1) by (simp add: no_leak_def holds_lock_def)
    ultimately show ?thesis by auto
  qed
qed

lemma lone_step:
  assumes "cluster_step path c c'" "one_collector path c"
  shows "lone path c c'"
  using assms(1)
proof (cases rule: cluster_step.cases)
  case (worker_starts me enabled outcome wk t)
  have idle: "\<not> collects c me" using worker_starts(2) by (simp add: collects_def)
  have sound: "sound_worker idle_worker" "wk_phase idle_worker \<noteq> Running" by (simp_all add: idle_worker_def sound_worker_def)
  show ?thesis
  proof (cases enabled)
    case False
    then have "wk = Some idle_worker" "t = cl_locks c" using worker_starts(3) by (simp_all add: lifespan_start_def)
    then show ?thesis unfolding worker_starts(1) using sound idle by (intro lone_other [OF assms(2)]) simp_all
  next
    case True
    obtain wk' t' r where begun: "start_collector_scheduler path me outcome idle_worker (cl_locks c) = ((wk', t'), r)"
      by (metis prod.collapse)
    note fair = start_step [OF begun assms(2) sound idle]
    have up: "sound_worker wk'" "wk_phase wk' = Running \<longleftrightarrow> r = Started True"
      using fair by (auto simp: fair_start_def split: if_splits)
    have "t = t'" "case wk of None \<Rightarrow> wk_phase wk' \<noteq> Running
        | Some x \<Rightarrow> sound_worker x \<and> (wk_phase x = Running \<longleftrightarrow> wk_phase wk' = Running)"
      using worker_starts(3) True begun up
      by (auto simp: lifespan_start_def sound_worker_def split: start_result.splits bool.splits)
    then show ?thesis unfolding worker_starts(1) by (simp add: lone_after [OF fair assms(2)])
  qed
next
  case (worker_retries me wk outcome wk' t)
  then have sound: "sound_worker wk"
    using assms(2) by (auto simp: one_collector_def)
  show ?thesis
  proof (cases "wk_phase wk = Retrying")
    case False
    have "(cl_workers c)(me \<mapsto> wk) = cl_workers c" using worker_retries(2) by (simp add: fun_upd_idem)
    then have "c' = c" using False worker_retries by (cases c) (auto simp: retry_collector_start_def)
    then show ?thesis using assms(2) by (simp add: lone_def)
  next
    case True
    then have idle: "\<not> collects c me" "wk_phase wk \<noteq> Running" using worker_retries(2) by (simp_all add: collects_def)
    obtain wk1 t1 r where begun: "start_collector_scheduler path me outcome wk (cl_locks c) = ((wk1, t1), r)"
      by (metis prod.collapse)
    note fair = start_step [OF begun assms(2) sound idle(2,1)]
    have up: "sound_worker wk1" "wk_phase wk1 = Running \<longleftrightarrow> r = Started True"
      using fair by (auto simp: fair_start_def split: if_splits)
    have "t = t1" "sound_worker wk' \<and> (wk_phase wk' = Running \<longleftrightarrow> wk_phase wk1 = Running)"
      using worker_retries(3) True begun up
      by (auto simp: retry_collector_start_def sound_worker_def split: start_result.splits)
    then show ?thesis unfolding worker_retries(1) by (simp add: lone_after [OF fair assms(2)])
  qed
next
  case (worker_stops me wk)
  then have lock: "wk_lock wk \<longleftrightarrow> collects c me"
    using assms(2) by (auto simp: one_collector_def sound_worker_def collects_def)
  have "lt_holder (lifespan_stop path wk (cl_locks c)) path =
      (if collects c me then None else lt_holder (cl_locks c) path)"
    by (simp add: lifespan_stop_def lock)
  then show ?thesis
    unfolding worker_stops(1) using collector_holds [OF assms(2), of me] by (intro lone_other [OF assms(2)]) auto
next
  case (worker_dies me wk)
  show ?thesis unfolding worker_dies(1) by (rule lone_other [OF assms(2)]) (simp_all add: death_def)
next
  case (process_gone me)
  then have idle: "\<not> collects c me" by (simp add: collects_def)
  have kept: "lt_holder (death me (cl_locks c)) path = Some p" if "collects c p" for p
    using collector_holds [OF assms(2) that] that idle by (auto simp: death_def)
  have "\<forall>p wk. cl_workers c p = Some wk \<longrightarrow> sound_worker wk" using assms(2) by (simp add: one_collector_def)
  then have "one_collector path c'"
    unfolding process_gone(1) one_collector_def by (simp add: kept)
  moreover have "no_leak path c'" if "no_leak path c"
    unfolding process_gone(1) using that by (auto simp: no_leak_def holds_lock_def death_def split: if_splits)
  ultimately show ?thesis by (simp add: lone_def)
next
  case (files_change files)
  have same: "collects c' = collects c" "holds_lock path c' = holds_lock path c" "cl_workers c' = cl_workers c"
    unfolding files_change by (simp_all add: fun_eq_iff holds_lock_def)
  show ?thesis using assms(2) unfolding lone_def one_collector_def no_leak_def same by blast
qed

lemma one_collector_run: "cluster_run path c \<Longrightarrow> one_collector path c"
proof (induction rule: cluster_run.induct)
  case (boot t)
  then show ?case
    by (simp add: one_collector_def collects_def)
next
  case (step c c')
  then show ?case
    using lone_step by (auto simp: lone_def)
qed

lemma sound_run_exact: "sound_run path c \<Longrightarrow> cluster_run path c \<and> no_leak path c \<and> lk_write (lt_files (cl_locks c) path) = Pid_written"
proof (induction rule: sound_run.induct)
  case (boot t)
  then show ?case
    by (simp add: no_leak_def cluster_run.boot)
next
  case (step c c')
  then show ?case
    using lone_step [OF step.hyps(2)] one_collector_run cluster_run.step by (auto simp: lone_def)
qed

lemma health_of_running:
  "collector_health (process_state_of True wk) = ''ok'' \<longleftrightarrow> wk_phase wk = Running \<and> wk_lock wk"
  by (auto simp: collector_health_def process_state_of_def task_is_alive_def)

text \<open>C35. However the workers start, try again, stop and die, and whatever happens to the lock file, a running collector is
  always the holder of the lock: there is never a second one, and the health check of a worker says \<open>ok\<close> exactly where one
  runs. As long as the process numbers can be written into the file, also the lock is held by nobody else.\<close>

theorem one_worker_collects:
  assumes "cluster_run path c"
  shows "(collects c p \<longrightarrow> lt_holder (cl_locks c) path = Some p) \<and>
    (collects c p \<and> collects c q \<longrightarrow> p = q) \<and>
    (collects c p \<longleftrightarrow> (\<exists>wk. cl_workers c p = Some wk \<and> collector_health (process_state_of True wk) = ''ok'')) \<and>
    (sound_run path c \<longrightarrow> (lt_holder (cl_locks c) path = Some p \<longleftrightarrow> collects c p))"
proof -
  have one: "one_collector path c" by (rule one_collector_run [OF assms])
  have "collects c p \<longleftrightarrow> (\<exists>wk. cl_workers c p = Some wk \<and> collector_health (process_state_of True wk) = ''ok'')"
    using one unfolding one_collector_def collects_def health_of_running sound_worker_def by blast
  moreover have "lt_holder (cl_locks c) path = Some p \<longleftrightarrow> collects c p" if "sound_run path c"
    using sound_run_exact [OF that] collector_holds [OF one] unfolding no_leak_def holds_lock_def by blast
  moreover have "p = q" if "collects c p" "collects c q"
    using collector_holds [OF one that(1)] collector_holds [OF one that(2)] by simp
  ultimately show ?thesis using collector_holds [OF one] by blast
qed

text \<open>C36. While the process numbers can be written, no worker waits for nothing: in every state reached, when no worker
  collects, the next try of a waiting worker takes over, provided the lock file is sound and the collector starts; until
  then its health check says \<open>lock_held\<close>.\<close>

theorem waiting_worker_takes_over:
  assumes "sound_run path c" "cl_workers c p = Some wk" "wk_phase wk = Retrying"
    and "lt_files (cl_locks c) path =
      \<lparr>lk_open = Opened, lk_regular = True, lk_owned = True, lk_single_link = True, lk_write = Pid_written\<rparr>"
    and "\<forall>q \<in> dom (cl_workers c). wk_phase (the (cl_workers c q)) \<noteq> Running"
  shows "collector_health (process_state_of True wk) = ''lock_held'' \<and>
    (\<exists>c' wk'. cluster_step path c c' \<and> cl_workers c' p = Some wk' \<and> wk_phase wk' = Running)"
proof
  show "collector_health (process_state_of True wk) = ''lock_held''"
    using assms(3) by (simp add: collector_health_def process_state_of_def task_is_alive_def)
  have "\<not> collects c q" for q using assms(5) by (force simp: collects_def)
  then have "lt_holder (cl_locks c) path = None"
    using sound_run_exact [OF assms(1)] unfolding no_leak_def holds_lock_def by (meson not_None_eq)
  then have "\<exists>t. retry_collector_start path p Start_ok wk (cl_locks c) = (\<lparr>wk_phase = Running, wk_lock = True\<rparr>, t)"
    using assms(3,4) by (simp add: retry_collector_start_def start_collector_scheduler_def try_acquire_process_lock_def
        validate_process_lock_file_def)
  then show "\<exists>c' wk'. cluster_step path c c' \<and> cl_workers c' p = Some wk' \<and> wk_phase wk' = Running"
    using cluster_step.worker_retries [OF assms(2)] by fastforce
qed

text \<open>A failed write leaves the lock with a worker that does not collect: from then on every try of any waiting worker, its own
  included, is answered by \<open>lock_held\<close> and changes nothing, while the file is sound again and nobody collects.\<close>

lemma leaked_lock_blocks_retries:
  assumes "lt_holder (cl_locks c) path = Some q" "cl_workers c p = Some wk" "wk_phase wk = Retrying"
    and "lt_files (cl_locks c) path =
      \<lparr>lk_open = Opened, lk_regular = True, lk_owned = True, lk_single_link = True, lk_write = Pid_written\<rparr>"
  shows "retry_collector_start path p outcome wk (cl_locks c) = (wk\<lparr>wk_lock := False\<rparr>, cl_locks c)"
  using assms by (simp add: retry_collector_start_def start_collector_scheduler_def try_acquire_process_lock_def
      validate_process_lock_file_def)

lemma failed_write_leaks:
  assumes "lt_holder t path = None" "wk_phase wk = Retrying"
    and "lt_files t path =
      \<lparr>lk_open = Opened, lk_regular = True, lk_owned = True, lk_single_link = True, lk_write = Pid_not_written\<rparr>"
  shows "case retry_collector_start path p outcome wk t of (wk', t') \<Rightarrow> wk' = wk \<and> lt_holder t' path = Some p"
  using assms by (simp add: retry_collector_start_def start_collector_scheduler_def try_acquire_process_lock_def
      validate_process_lock_file_def Let_def)

text \<open>Two workers: the first collects, the second waits, the first stops.\<close>

definition sound_files :: lock_table where
  "sound_files =
     \<lparr>lt_files = (\<lambda>_. \<lparr>lk_open = Opened, lk_regular = True, lk_owned = True, lk_single_link = True, lk_write = Pid_written\<rparr>),
      lt_holder = (\<lambda>_. None), lt_written = (\<lambda>_. None)\<rparr>"

definition collecting :: worker where
  "collecting = \<lparr>wk_phase = Running, wk_lock = True\<rparr>"

definition first_locks :: lock_table where
  "first_locks = fst (try_acquire_process_lock ''lock'' 1 ''collector'' sound_files)"

definition waiting_worker :: worker where
  "waiting_worker = \<lparr>wk_phase = Retrying, wk_lock = False\<rparr>"

lemma first_locks_eq: "first_locks = sound_files\<lparr>lt_holder := [''lock'' \<mapsto> 1], lt_written := [''lock'' \<mapsto> 1]\<rparr>"
  by (simp add: first_locks_def try_acquire_process_lock_def sound_files_def validate_process_lock_file_def)

lemma first_run: "sound_run ''lock'' \<lparr>cl_locks = first_locks, cl_workers = [1 \<mapsto> collecting]\<rparr>"
proof -
  have boot: "sound_run ''lock'' \<lparr>cl_locks = sound_files, cl_workers = (\<lambda>_. None)\<rparr>"
    by (rule sound_run.boot) (simp_all add: sound_files_def)
  have "lifespan_start True ''lock'' 1 Start_ok sound_files = (Some collecting, first_locks)"
    by (simp add: lifespan_start_def start_collector_scheduler_def idle_worker_def try_acquire_process_lock_def sound_files_def
        validate_process_lock_file_def collecting_def first_locks_def)
  then show ?thesis
    using sound_run.step [OF boot] cluster_step.worker_starts [of "\<lparr>cl_locks = sound_files, cl_workers = (\<lambda>_. None)\<rparr>" 1]
    by (fastforce simp: first_locks_eq sound_files_def)
qed

lemma one_worker_collects_witness:
  "lt_holder first_locks ''lock'' = Some 1 \<and> collects \<lparr>cl_locks = first_locks, cl_workers = [1 \<mapsto> collecting]\<rparr> 1 \<and>
   \<not> collects \<lparr>cl_locks = first_locks, cl_workers = [1 \<mapsto> collecting]\<rparr> 2"
proof -
  have run: "cluster_run ''lock'' \<lparr>cl_locks = first_locks, cl_workers = [1 \<mapsto> collecting]\<rparr>"
    using sound_run_exact [OF first_run] by simp
  show ?thesis
    using one_worker_collects [OF run, of 1 2] first_run by (auto simp: first_locks_eq collects_def collecting_def)
qed

lemma second_run: "sound_run ''lock'' \<lparr>cl_locks = release_process_lock ''lock'' first_locks, cl_workers = [2 \<mapsto> waiting_worker]\<rparr>"
proof -
  let ?c = "\<lparr>cl_locks = first_locks, cl_workers = [1 \<mapsto> collecting, 2 \<mapsto> waiting_worker]\<rparr>"
  have "lifespan_start True ''lock'' 2 Start_ok first_locks = (Some waiting_worker, first_locks)"
    by (simp add: lifespan_start_def start_collector_scheduler_def idle_worker_def try_acquire_process_lock_def sound_files_def
        validate_process_lock_file_def waiting_worker_def first_locks_eq)
  then have both: "sound_run ''lock'' ?c"
    using sound_run.step [OF first_run]
      cluster_step.worker_starts [of "\<lparr>cl_locks = first_locks, cl_workers = [1 \<mapsto> collecting]\<rparr>" 2]
    by (fastforce simp: first_locks_eq sound_files_def)
  have "cluster_step ''lock'' ?c
      \<lparr>cl_locks = lifespan_stop ''lock'' collecting first_locks, cl_workers = ([1 \<mapsto> collecting, 2 \<mapsto> waiting_worker])(1 := None)\<rparr>"
    using cluster_step.worker_stops [of ?c 1 collecting "''lock''"] by simp
  moreover have "([1 \<mapsto> collecting, 2 \<mapsto> waiting_worker])(1 := None) = [(2::nat) \<mapsto> waiting_worker]"
    by (auto simp: fun_eq_iff)
  moreover have "lifespan_stop ''lock'' collecting first_locks = release_process_lock ''lock'' first_locks"
    by (simp add: lifespan_stop_def collecting_def)
  ultimately show ?thesis
    using sound_run.step [OF both] by (simp add: release_process_lock_def first_locks_eq sound_files_def)
qed

lemma waiting_worker_takes_over_witness:
  "\<exists>c' wk'. cluster_step ''lock'' \<lparr>cl_locks = release_process_lock ''lock'' first_locks, cl_workers = [2 \<mapsto> waiting_worker]\<rparr> c' \<and>
     cl_workers c' 2 = Some wk' \<and> wk_phase wk' = Running"
  using waiting_worker_takes_over [OF second_run, of 2 waiting_worker]
  by (simp add: waiting_worker_def first_locks_eq sound_files_def release_process_lock_def)

subsection \<open>Headers\<close>

text \<open>Every response carries the three headers, and what it carried before is kept in front of them unchanged.\<close>

lemma responses_carry_security_headers:
  "prefix headers (send_with_security_headers headers) \<and>
   set (map fst security_headers) \<subseteq> set (map fst (send_with_security_headers headers))"
  by (auto simp: send_with_security_headers_def security_headers_def)

end
