(* ===== verification/Telegram.thy ===== *)
theory Telegram
  imports Scheduler
begin

section \<open>Telegram delivery\<close>

text \<open>
  \<open>services/telegram_messages.py\<close> (the identity of an incident),
  \<open>services/telegram_relevance.py\<close> (whether a queued event still holds) and the cycle of
  \<open>services/telegram_notifier.py\<close>.

  \<^item> \<open>db_deliveries\<close> are the rows of the channel \<open>telegram\<close> by event. Every branch of the loop
    commits, so a cycle is a sequence of committed steps. The database is taken not to change
    under a cycle while a message is on the network.
  \<^item> \<open>start_at i\<close> and \<open>failed_at i\<close> are the readings of the clock for candidate \<open>i\<close>, at its start
    and when its send has failed.
  \<^item> \<open>send\<close> is the transport, a function of the number of messages tried before and the event;
    the text it gets is rendered from the event alone. \<open>SendRaises\<close> is any exception that is not
    \<open>TelegramSendError\<close>. Configuration errors and metrics are not modelled.
\<close>

subsection \<open>Incidents\<close>

definition after_of :: "event_row \<Rightarrow> dict" where
  "after_of e = (case ev_after e of None \<Rightarrow> [] | Some d \<Rightarrow> d)"

definition before_of :: "event_row \<Rightarrow> dict" where
  "before_of e = (case ev_before e of None \<Rightarrow> [] | Some d \<Rightarrow> d)"

definition is_monitoring_outage :: "event_row \<Rightarrow> bool" where
  "is_monitoring_outage e \<longleftrightarrow>
     ev_category e = system_category \<and> ev_subject e = ''Controller'' \<and>
     dict_get (after_of e) ''monitoring_outage'' = Some (JBool True)"

definition incident_state :: "event_row \<Rightarrow> string option" where
  "incident_state e =
     (case dict_get (after_of e) ''state'' of Some (JStr s) \<Rightarrow> Some (normalized_state s) | _ \<Rightarrow> None)"

datatype key_value = KeyFlag bool | KeyText string | KeyName

definition key_value_of :: "json \<Rightarrow> key_value" where
  "key_value_of v = (case v of JBool b \<Rightarrow> KeyFlag b | JStr s \<Rightarrow> KeyText s | _ \<Rightarrow> KeyName)"

definition incident_key :: "event_row \<Rightarrow> (string \<times> key_value) list" where
  "incident_key e =
     (case incident_state e of
        Some s \<Rightarrow> [(''state'', KeyText s)]
      | None \<Rightarrow> sort_key fst (map (\<lambda>(n, v). (n, key_value_of v))
                   (filter (\<lambda>(n, _). n \<noteq> ''serial_number'') (after_of e))))"

subsection \<open>Which events the channel carries\<close>

definition immediate_critical_categories :: "string list" where
  "immediate_critical_categories =
     [''vd_state'', ''pd_state'', ''media_errors'', ''predictive_failures'', ''smart_alert'', ''cv_state'',
      ''temperature'', ''controller_temperature'', ''system'']"

definition confirmed_warning_categories :: "string list" where
  "confirmed_warning_categories = [''temperature'', ''controller_temperature'']"

definition is_telegram_alert :: "event_row \<Rightarrow> bool" where
  "is_telegram_alert e =
     (case ev_severity e of
        Critical \<Rightarrow> if ev_category e = system_category then is_monitoring_outage e
                    else ev_category e \<in> set immediate_critical_categories
      | Warning \<Rightarrow> ev_category e \<in> set confirmed_warning_categories
      | Info \<Rightarrow> False)"

subsection \<open>The drive of an event\<close>

text \<open>The two numbers of \<open>PD e(\d+):s(\d+)\<close>.\<close>

definition drive_subject_of :: "string \<Rightarrow> slot_id option" where
  "drive_subject_of s =
     (if \<not> starts_with ''PD e'' s then None
      else case split_on CHR '':'' (drop 4 s) of
             [e, w] \<Rightarrow>
               (case w of
                  c # n \<Rightarrow> if c = CHR ''s'' \<and> e \<noteq> [] \<and> n \<noteq> [] \<and> list_all is_digit e \<and> list_all is_digit n
                           then Some (int (read_nat e), int (read_nat n)) else None
                | [] \<Rightarrow> None)
           | _ \<Rightarrow> None)"

definition snapshot_at :: "instant \<Rightarrow> db \<Rightarrow> snapshot_row option" where
  "snapshot_at t d =
     best_by (\<lambda>s. (sr_captured_at s, sr_id s)) (filter (\<lambda>s. sr_captured_at s \<le> t) (db_snapshots d))"

definition some_text :: "string \<Rightarrow> string option" where
  "some_text s = (if s = [] then None else Some s)"

definition drive_serial_at :: "db \<Rightarrow> event_row \<Rightarrow> string option" where
  "drive_serial_at d e =
     (case dict_get (after_of e) ''serial_number'' of
        Some (JStr s) \<Rightarrow> some_text s
      | _ \<Rightarrow>
          (case drive_subject_of (ev_subject e) of
             None \<Rightarrow> None
           | Some slot \<Rightarrow>
               (case snapshot_at (ev_occurred_at e) d of
                  None \<Rightarrow> None
                | Some s \<Rightarrow>
                    (case List.find (\<lambda>x. slot_of x = slot) (ps_physical_drives s) of
                       None \<Rightarrow> None | Some x \<Rightarrow> some_text (pdi_serial_number x)))))"

subsection \<open>Superseded incidents\<close>

definition controller_temperature_recovered :: "db \<Rightarrow> settings \<Rightarrow> instant \<Rightarrow> event_row \<Rightarrow> bool" where
  "controller_temperature_recovered d st until e \<longleftrightarrow>
     ev_category e = ''controller_temperature'' \<and> ev_severity e \<in> set [Warning, Critical] \<and>
     (let key = the (map_of controller_clear_keys (ev_severity e))
      in (case stored_clear_time d key of
            Some t \<Rightarrow> ev_occurred_at e < t \<and> t \<le> until | None \<Rightarrow> False) \<or>
         list_ex (\<lambda>s. ev_occurred_at e < sr_captured_at s \<and> sr_captured_at s \<le> until \<and>
                      cool_reading (controller_clear_boundary st (ev_severity e)) s) (db_snapshots d))"

definition flag_incident_started :: "event_row \<Rightarrow> bool" where
  "flag_incident_started e =
     (case map_of [(''smart_alert'', ''smart_alert''), (''cv_state'', ''replacement_required'')] (ev_category e) of
        None \<Rightarrow> False
      | Some flag \<Rightarrow> dict_get (before_of e) flag = Some (JBool False) \<and>
                      dict_get (after_of e) flag = Some (JBool True))"

definition shares_field :: "event_row \<Rightarrow> event_row \<Rightarrow> bool" where
  "shares_field e other \<longleftrightarrow>
     list_ex (\<lambda>n. n \<noteq> ''serial_number'' \<and> n \<in> set (map fst (after_of other))) (map fst (after_of e))"

definition ends_incident :: "event_row \<Rightarrow> event_row \<Rightarrow> bool" where
  "ends_incident e other \<longleftrightarrow>
     shares_field e other \<and>
     (ev_severity other \<noteq> ev_severity e \<or> incident_key other \<noteq> incident_key e \<or> flag_incident_started other \<or>
      (ev_category e = ''pd_state'' \<and>
       dict_get (after_of other) ''serial_number'' \<noteq> dict_get (after_of e) ''serial_number''))"

definition incident_superseded :: "db \<Rightarrow> settings \<Rightarrow> instant \<Rightarrow> int option \<Rightarrow> event_row \<Rightarrow> bool" where
  "incident_superseded d st until before_id e \<longleftrightarrow>
     list_ex (\<lambda>x. ev_category x = ev_category e \<and> ev_subject x = ev_subject e \<and> ev_id e < ev_id x \<and>
                  ev_occurred_at x \<le> until \<and> (case before_id of None \<Rightarrow> True | Some i \<Rightarrow> ev_id x < i) \<and>
                  ends_incident e x) (db_events d) \<or>
     controller_temperature_recovered d st until e"

subsection \<open>Relevance\<close>

datatype relevance = Active | Obsolete | Awaiting string

definition active_if :: "bool \<Rightarrow> relevance" where
  "active_if b = (if b then Active else Obsolete)"

definition temperature_relevance :: "int option \<Rightarrow> severity \<Rightarrow> int \<Rightarrow> int \<Rightarrow> int \<Rightarrow> bool \<Rightarrow> relevance" where
  "temperature_relevance temperature sev warning critical hysteresis clear_at_boundary =
     (case temperature of
        None \<Rightarrow> Awaiting ''awaiting_temperature''
      | Some t \<Rightarrow>
          (let boundary = (if sev = Critical then critical else warning) - hysteresis
           in active_if ((if clear_at_boundary then t > boundary else t \<ge> boundary) \<and> (sev = Critical \<or> t < critical))))"

text \<open>\<open>b == value\<close> for a Boolean and a JSON value.\<close>

definition equals_bool :: "bool \<Rightarrow> json option \<Rightarrow> bool" where
  "equals_bool b v =
     (case v of
        Some (JBool x) \<Rightarrow> x = b
      | Some (JInt i) \<Rightarrow> i = (if b then 1 else 0)
      | Some (JFloat q _) \<Rightarrow> q = (if b then 1 else 0)
      | _ \<Rightarrow> False)"

definition state_text :: "event_row \<Rightarrow> string" where
  "state_text e = py_str (case dict_get (after_of e) ''state'' of None \<Rightarrow> JNull | Some v \<Rightarrow> v)"

definition not_absent :: "event_row \<Rightarrow> bool" where
  "not_absent e \<longleftrightarrow> dict_get (after_of e) ''present'' \<noteq> Some (JBool False)"

definition vd_relevance :: "snapshot_row \<Rightarrow> event_row \<Rightarrow> relevance" where
  "vd_relevance s e =
     (case dict_get (after_of e) ''state'' of
        Some (JStr state) \<Rightarrow>
          (case List.find (\<lambda>x. ev_subject e = ''VD '' @ show_int (vdi_vd_id x)) (ps_virtual_drives s) of
             None \<Rightarrow> active_if (normalized_state state = ''offline'')
           | Some x \<Rightarrow> active_if (not_absent e \<and> normalized_state (vdi_state x) = normalized_state state))
      | _ \<Rightarrow> Awaiting ''awaiting_incident_state'')"

definition cv_relevance :: "snapshot_row \<Rightarrow> event_row \<Rightarrow> relevance" where
  "cv_relevance s e =
     (let cv = ps_cachevault s; after = after_of e
      in if cv = None \<and> ps_cv_present s then Awaiting ''awaiting_incident_state''
         else if dict_get after ''present'' \<noteq> None then active_if (equals_bool (cv \<noteq> None) (dict_get after ''present''))
         else case cv of
                None \<Rightarrow> Obsolete
              | Some c \<Rightarrow>
                  if dict_get after ''state'' \<noteq> None
                  then active_if (normalized_state (cvi_state c) = normalized_state (state_text e))
                  else active_if (cvi_replacement_required c \<and> dict_get after ''replacement_required'' = Some (JBool True)))"

definition counter_of :: "string \<Rightarrow> physical_drive_info \<Rightarrow> int option" where
  "counter_of category x =
     (if category = ''media_errors'' then Some (pdi_media_errors x)
      else if category = ''predictive_failures'' then Some (pdi_predictive_failures x)
      else if category = ''other_errors'' then Some (pdi_other_errors x)
      else None)"

text \<open>
  The end of the drive branch. A counter no drive has raises in the code; candidates carry the
  categories of \<open>is_telegram_alert\<close> only, so it does not happen, and is \<open>Awaiting\<close> here.
\<close>

definition present_drive_relevance :: "db \<Rightarrow> settings \<Rightarrow> physical_drive_info \<Rightarrow> string \<Rightarrow> event_row \<Rightarrow> relevance" where
  "present_drive_relevance d st x serial e =
     (if ev_category e = ''temperature'' then
        (case get_temp_state (pdi_enclosure_id x, pdi_slot_id x, serial) d of
           Some t \<Rightarrow>
             if temp_state_name t \<noteq> severity_name (ev_severity e) then Obsolete
             else temperature_relevance (pdi_temperature x) (ev_severity e) (st_temp_warning_celsius st)
                    (st_temp_critical_celsius st) (st_temp_hysteresis_celsius st) False
         | None \<Rightarrow>
             temperature_relevance (pdi_temperature x) (ev_severity e) (st_temp_warning_celsius st)
               (st_temp_critical_celsius st) (st_temp_hysteresis_celsius st) False)
      else if ev_category e = ''pd_state'' then
        active_if (not_absent e \<and> normalized_state (pdi_state x) = normalized_state (state_text e))
      else if ev_category e = ''smart_alert'' then active_if (pdi_smart_alert x)
      else case dict_get (after_of e) (ev_category e) of
             Some (JInt v) \<Rightarrow>
               (case counter_of (ev_category e) x of
                  Some n \<Rightarrow> active_if (n \<ge> max 1 v) | None \<Rightarrow> Awaiting ''awaiting_incident_state'')
           | Some (JBool v) \<Rightarrow>
               (case counter_of (ev_category e) x of
                  Some n \<Rightarrow> active_if (n \<ge> 1) | None \<Rightarrow> Awaiting ''awaiting_incident_state'')
           | _ \<Rightarrow> Awaiting ''awaiting_incident_state'')"

definition drive_relevance :: "db \<Rightarrow> settings \<Rightarrow> snapshot_row \<Rightarrow> event_row \<Rightarrow> relevance" where
  "drive_relevance d st s e =
     (case drive_subject_of (ev_subject e) of
        None \<Rightarrow> Awaiting ''awaiting_drive_identity''
      | Some slot \<Rightarrow>
          (let serial = drive_serial_at d e
           in case List.find (\<lambda>x. slot_of x = slot) (ps_physical_drives s) of
                None \<Rightarrow>
                  if ev_category e = ''pd_state'' \<and> normalized_state (state_text e) = ''missing''
                  then (if serial \<noteq> None then Active else Awaiting ''awaiting_drive_identity'')
                  else Obsolete
              | Some x \<Rightarrow>
                  (case serial of
                     None \<Rightarrow> Awaiting ''awaiting_drive_identity''
                   | Some n \<Rightarrow>
                       if pdi_serial_number x = [] then Awaiting ''awaiting_drive_identity''
                       else if pdi_serial_number x \<noteq> n then Obsolete
                       else present_drive_relevance d st x n e)))"

definition poll_failed_since :: "db \<Rightarrow> instant \<Rightarrow> instant \<Rightarrow> bool" where
  "poll_failed_since d start now \<longleftrightarrow>
     list_ex (\<lambda>x. is_failure x \<and> start \<le> ev_occurred_at x \<and> ev_occurred_at x \<le> now) (db_events d)"

definition delivery_relevance :: "db \<Rightarrow> settings \<Rightarrow> instant \<Rightarrow> event_row \<Rightarrow> relevance" where
  "delivery_relevance d st now e =
     (let snapshot = snapshot_at now d
      in if ev_category e = system_category then
           (case snapshot of None \<Rightarrow> Active | Some s \<Rightarrow> active_if (sr_captured_at s < ev_occurred_at e))
         else case snapshot of
                None \<Rightarrow> Awaiting ''awaiting_fresh_data''
              | Some s \<Rightarrow>
                  if sr_captured_at s < now - sec (max 60 (2 * st_metrics_interval_seconds st))
                  then Awaiting ''awaiting_fresh_data''
                  else if poll_failed_since d (sr_captured_at s) now then Awaiting ''awaiting_fresh_data''
                  else if incident_superseded d st now None e then Obsolete
                  else if ev_category e = ''controller_temperature'' then
                    temperature_relevance (ps_roc_temperature s) (ev_severity e) (st_roc_temp_warning_celsius st)
                      (st_roc_temp_critical_celsius st) (st_roc_temp_hysteresis_celsius st) True
                  else if ev_category e = ''vd_state'' then vd_relevance s e
                  else if ev_category e = ''cv_state'' then cv_relevance s e
                  else drive_relevance d st s e)"

subsection \<open>Constants of the channel\<close>

definition repeat_suppress_window :: int where
  "repeat_suppress_window = hours 24"

definition max_candidates_per_cycle :: nat where
  "max_candidates_per_cycle = 100"

definition max_sends_per_cycle :: nat where
  "max_sends_per_cycle = 5"

definition retry_base_seconds :: int where
  "retry_base_seconds = 60"

definition retry_max_seconds :: int where
  "retry_max_seconds = 3600"

definition telegram_retry_after_max_seconds :: int where
  "telegram_retry_after_max_seconds = 3600"

definition cooldown_key :: string where
  "cooldown_key = ''telegram_not_before''"

text \<open>What \<open>TelegramSendError\<close> keeps of the provider's hint.\<close>

definition bounded_retry_after :: "json option \<Rightarrow> int option" where
  "bounded_retry_after hint =
     (case hint of
        None \<Rightarrow> None
      | Some JNull \<Rightarrow> None
      | Some (JInt n) \<Rightarrow> if n > 0 then Some (min n telegram_retry_after_max_seconds) else Some 60
      | Some _ \<Rightarrow> Some 60)"

datatype send_outcome = SendOk | SendFails string "json option" | SendRaises

subsection \<open>Rows of the channel\<close>

definition delivery_of :: "int \<Rightarrow> db \<Rightarrow> delivery_row option" where
  "delivery_of i d = map_of (db_deliveries d) i"

definition put_delivery :: "int \<Rightarrow> delivery_row \<Rightarrow> db \<Rightarrow> db" where
  "put_delivery i r d = d\<lparr>db_deliveries := AList.update i r (db_deliveries d)\<rparr>"

definition new_delivery :: delivery_row where
  "new_delivery =
     \<lparr>dl_status = Retry, dl_attempts = 0, dl_last_attempt_at = None, dl_next_attempt_at = None,
      dl_delivered_at = None, dl_detail = None\<rparr>"

definition delivery_row_of :: "int \<Rightarrow> db \<Rightarrow> delivery_row" where
  "delivery_row_of i d = (case delivery_of i d of None \<Rightarrow> new_delivery | Some r \<Rightarrow> r)"

definition set_status :: "delivery_status \<Rightarrow> string option \<Rightarrow> delivery_row \<Rightarrow> delivery_row" where
  "set_status s detail r = r\<lparr>dl_status := s, dl_detail := detail, dl_next_attempt_at := None\<rparr>"

definition claim :: "instant \<Rightarrow> event_row \<Rightarrow> db \<Rightarrow> db" where
  "claim now e d =
     (let r = set_status Sending None (delivery_row_of (ev_id e) d)
      in put_delivery (ev_id e)
           (r\<lparr>dl_attempts := dl_attempts r + 1, dl_last_attempt_at := Some now\<rparr>) d)"

definition retry_delay_seconds :: "int \<Rightarrow> int option \<Rightarrow> int" where
  "retry_delay_seconds attempts retry_after =
     max (min (retry_base_seconds * 2 ^ nat (min (attempts - 1) 6)) retry_max_seconds)
         (case retry_after of None \<Rightarrow> 0 | Some n \<Rightarrow> n)"

definition record_send_failure :: "instant \<Rightarrow> string \<Rightarrow> int option \<Rightarrow> event_row \<Rightarrow> db \<Rightarrow> db" where
  "record_send_failure now reason retry_after e d =
     (let r = delivery_row_of (ev_id e) d
      in put_delivery (ev_id e)
           ((set_status Retry (Some reason) r)
              \<lparr>dl_next_attempt_at := Some (now + sec (retry_delay_seconds (dl_attempts r) retry_after))\<rparr>) d)"

definition defer_delivery :: "instant \<Rightarrow> string \<Rightarrow> instant option \<Rightarrow> event_row \<Rightarrow> db \<Rightarrow> db" where
  "defer_delivery now detail next_attempt e d =
     put_delivery (ev_id e)
       ((set_status Retry (Some detail) (delivery_row_of (ev_id e) d))
          \<lparr>dl_next_attempt_at := Some (case next_attempt of Some t \<Rightarrow> t | None \<Rightarrow> now + sec 60)\<rparr>) d"

definition skip_delivery :: "string \<Rightarrow> event_row \<Rightarrow> db \<Rightarrow> db" where
  "skip_delivery detail e d =
     put_delivery (ev_id e) (set_status Skipped (Some detail) (delivery_row_of (ev_id e) d)) d"

definition mark_sent :: "instant \<Rightarrow> event_row \<Rightarrow> db \<Rightarrow> db" where
  "mark_sent now e d =
     put_delivery (ev_id e)
       ((set_status Sent None (delivery_row_of (ev_id e) d))\<lparr>dl_delivered_at := Some now\<rparr>) d"

text \<open>A claim left by a crash, or a failure of an earlier release, is queued again.\<close>

definition requeue_interrupted :: "event_row \<Rightarrow> db \<Rightarrow> db" where
  "requeue_interrupted e d =
     (case delivery_of (ev_id e) d of
        Some r \<Rightarrow>
          if dl_status r = Sending \<or> dl_status r = Failed
          then put_delivery (ev_id e)
                 (set_status Retry (Some ''outcome unknown: interrupted or failed send'') r) d
          else d
      | None \<Rightarrow> d)"

subsection \<open>Candidates\<close>

definition delivery_open :: "instant \<Rightarrow> delivery_row option \<Rightarrow> bool" where
  "delivery_open now row \<longleftrightarrow>
     (case row of
        None \<Rightarrow> True
      | Some r \<Rightarrow>
          (dl_status r \<in> set [Sending, Retry, Failed] \<or>
           (dl_status r = Skipped \<and> dl_detail r = Some ''maintenance'')) \<and>
          (case dl_next_attempt_at r of None \<Rightarrow> True | Some t \<Rightarrow> t \<le> now))"

text \<open>The order of the query: rows with no deadline first, then by deadline, time and id.\<close>

definition candidate_order :: "db \<Rightarrow> event_row \<Rightarrow> (bool \<times> instant) \<times> instant \<times> int" where
  "candidate_order d e =
     ((case delivery_of (ev_id e) d of
         Some r \<Rightarrow> (case dl_next_attempt_at r of Some t \<Rightarrow> (True, t) | None \<Rightarrow> (False, 0))
       | None \<Rightarrow> (False, 0)),
      ev_occurred_at e, ev_id e)"

definition load_candidates :: "instant \<Rightarrow> db \<Rightarrow> event_row list" where
  "load_candidates now d =
     take max_candidates_per_cycle
       (sort_key (candidate_order d)
         (filter (\<lambda>e. ev_occurred_at e \<le> now \<and> is_telegram_alert e \<and> delivery_open now (delivery_of (ev_id e) d))
           (db_events d)))"

definition warning_has_ended :: "event_row \<Rightarrow> db \<Rightarrow> bool" where
  "warning_has_ended e d \<longleftrightarrow>
     list_ex (\<lambda>x. ev_category x = ev_category e \<and> ev_subject x = ev_subject e \<and> ev_id e < ev_id x \<and>
                  ev_severity x \<noteq> Warning) (db_events d)"

definition sent_since :: "instant \<Rightarrow> int \<Rightarrow> db \<Rightarrow> bool" where
  "sent_since since i d \<longleftrightarrow>
     (case delivery_of i d of
        Some r \<Rightarrow> dl_status r = Sent \<and> (case dl_delivered_at r of Some t \<Rightarrow> since \<le> t | None \<Rightarrow> False)
      | None \<Rightarrow> False)"

definition same_incident_sent_since :: "settings \<Rightarrow> instant \<Rightarrow> event_row \<Rightarrow> db \<Rightarrow> bool" where
  "same_incident_sent_since st since e d \<longleftrightarrow>
     list_ex (\<lambda>x. sent_since since (ev_id x) d \<and>
                  ev_severity x = ev_severity e \<and> ev_category x = ev_category e \<and>
                  ev_subject x = ev_subject e \<and> ev_id x \<noteq> ev_id e \<and>
                  incident_key x = incident_key e \<and> drive_serial_at d x = drive_serial_at d e \<and>
                  \<not> incident_superseded d st (ev_occurred_at e) (Some (ev_id e + 1)) x)
       (db_events d)"

subsection \<open>The cycle\<close>

datatype delivery_decision = DeferTo string "instant option" | SkipWith string | SendNow

definition decide :: "settings \<Rightarrow> instant \<Rightarrow> bool \<Rightarrow> nat \<Rightarrow> event_row \<Rightarrow> db \<Rightarrow> delivery_decision" where
  "decide st now blocked sends_left e d =
     (let delay = minutes (st_telegram_warning_confirm_minutes st)
      in if ev_severity e = Warning \<and> ev_occurred_at e > now - delay
         then DeferTo ''awaiting_confirmation'' (Some (ev_occurred_at e + delay))
         else if ev_severity e = Warning \<and> warning_has_ended e d then SkipWith ''not_confirmed''
         else case delivery_relevance d st now e of
                Obsolete \<Rightarrow> SkipWith ''obsolete''
              | Awaiting detail \<Rightarrow> DeferTo detail None
              | Active \<Rightarrow>
                  if same_incident_sent_since st (now - repeat_suppress_window) e d then SkipWith ''duplicate''
                  else if blocked \<or> sends_left = 0 then DeferTo ''channel_deferred'' None
                  else SendNow)"

record cycle =
  cy_db :: db
  cy_blocked :: bool
  cy_cooldown :: instant
  cy_sends_left :: nat
  cy_tried :: "event_row list"
  cy_sent :: nat
  cy_failed :: nat
  cy_skipped :: nat
  cy_deferred :: nat
  cy_now :: instant
  cy_raised :: bool

definition send_step :: "(nat \<Rightarrow> event_row \<Rightarrow> send_outcome) \<Rightarrow> instant \<Rightarrow> instant \<Rightarrow> event_row \<Rightarrow> cycle \<Rightarrow> cycle" where
  "send_step send now failed_at e c =
     (let d = claim now e (cy_db c);
          c = c\<lparr>cy_sends_left := cy_sends_left c - 1, cy_tried := cy_tried c @ [e]\<rparr>
      in case send (length (cy_tried c) - 1) e of
           SendOk \<Rightarrow> c\<lparr>cy_db := mark_sent now e d, cy_sent := cy_sent c + 1\<rparr>
         | SendRaises \<Rightarrow> c\<lparr>cy_db := d, cy_raised := True\<rparr>
         | SendFails reason hint \<Rightarrow>
             (let retry_after = bounded_retry_after hint;
                  d = record_send_failure failed_at reason retry_after e d;
                  c = c\<lparr>cy_blocked := True, cy_failed := cy_failed c + 1\<rparr>
              in case retry_after of
                   None \<Rightarrow> c\<lparr>cy_db := d\<rparr>
                 | Some n \<Rightarrow>
                     c\<lparr>cy_cooldown := failed_at + sec n,
                       cy_db := set_state cooldown_key (InstantText (failed_at + sec n)) d\<rparr>))"

definition candidate_step ::
    "settings \<Rightarrow> (nat \<Rightarrow> event_row \<Rightarrow> send_outcome) \<Rightarrow> instant \<Rightarrow> instant \<Rightarrow> event_row \<Rightarrow> cycle \<Rightarrow> cycle" where
  "candidate_step st send now failed_at e c =
     (let c = c\<lparr>cy_now := now, cy_db := requeue_interrupted e (cy_db c)\<rparr>; d = cy_db c
      in case decide st now (cy_blocked c) (cy_sends_left c) e d of
           DeferTo detail t \<Rightarrow> c\<lparr>cy_db := defer_delivery now detail t e d, cy_deferred := cy_deferred c + 1\<rparr>
         | SkipWith detail \<Rightarrow> c\<lparr>cy_db := skip_delivery detail e d, cy_skipped := cy_skipped c + 1\<rparr>
         | SendNow \<Rightarrow> send_step send now failed_at e c)"

text \<open>
  The loop. \<open>start_at i\<close> is the time candidate \<open>i\<close> is looked at (\<open>now\<close> when the caller gives no
  clock) and \<open>failed_at i\<close> the time a failure of its send is recorded. An exception leaves it.
\<close>

fun deliver_candidates ::
    "settings \<Rightarrow> (nat \<Rightarrow> event_row \<Rightarrow> send_outcome) \<Rightarrow> (nat \<Rightarrow> instant) \<Rightarrow> (nat \<Rightarrow> instant) \<Rightarrow> nat \<Rightarrow>
     event_row list \<Rightarrow> cycle \<Rightarrow> cycle" where
  "deliver_candidates st send start_at failed_at i [] c = c"
| "deliver_candidates st send start_at failed_at i (e # es) c =
     (if cy_raised c then c
      else deliver_candidates st send start_at failed_at (Suc i) es
             (candidate_step st send (start_at i) (failed_at i) e c))"

definition latest_retry :: "instant \<Rightarrow> instant" where
  "latest_retry now = now + sec telegram_retry_after_max_seconds"

text \<open>Only this module writes the key, and always an instant.\<close>

definition stored_cooldown :: "instant \<Rightarrow> db \<Rightarrow> instant" where
  "stored_cooldown now d = (case get_state cooldown_key d of Some (InstantText t) \<Rightarrow> t | _ \<Rightarrow> now)"

definition clamp_cooldown :: "instant \<Rightarrow> db \<Rightarrow> instant \<times> db" where
  "clamp_cooldown now d =
     (if stored_cooldown now d > latest_retry now
      then (latest_retry now, set_state cooldown_key (InstantText (latest_retry now)) d)
      else (stored_cooldown now d, d))"

definition clamp_deadline :: "instant \<Rightarrow> delivery_row \<Rightarrow> delivery_row" where
  "clamp_deadline now r =
     (if dl_status r = Retry \<and> dl_attempts r > 0 \<and>
         (case dl_next_attempt_at r of Some t \<Rightarrow> latest_retry now < t | None \<Rightarrow> False)
      then r\<lparr>dl_next_attempt_at := Some (latest_retry now)\<rparr> else r)"

definition clamp_deadlines :: "instant \<Rightarrow> db \<Rightarrow> db" where
  "clamp_deadlines now d =
     d\<lparr>db_deliveries := map (\<lambda>(i, r). (i, clamp_deadline now r)) (db_deliveries d)\<rparr>"

definition cycle_start :: "instant \<Rightarrow> db \<Rightarrow> cycle" where
  "cycle_start now d =
     (let (cooldown, d) = clamp_cooldown now d
      in \<lparr>cy_db = clamp_deadlines now d, cy_blocked = cooldown > now, cy_cooldown = cooldown,
          cy_sends_left = max_sends_per_cycle, cy_tried = [], cy_sent = 0, cy_failed = 0, cy_skipped = 0,
          cy_deferred = 0, cy_now = now, cy_raised = False\<rparr>)"

definition run_telegram_cycle ::
    "settings \<Rightarrow> (nat \<Rightarrow> event_row \<Rightarrow> send_outcome) \<Rightarrow> (nat \<Rightarrow> instant) \<Rightarrow> (nat \<Rightarrow> instant) \<Rightarrow> instant \<Rightarrow> db \<Rightarrow>
     cycle" where
  "run_telegram_cycle st send start_at failed_at now d =
     (let c = cycle_start now d
      in deliver_candidates st send start_at failed_at 0 (load_candidates now (cy_db c)) c)"

text \<open>The health the cycle reports at its end.\<close>

definition pending_failure :: "db \<Rightarrow> bool" where
  "pending_failure d \<longleftrightarrow>
     list_ex (\<lambda>(_, r). dl_status r \<in> set [Retry, Sending, Failed] \<and> dl_attempts r > 0) (db_deliveries d)"

definition cycle_healthy :: "cycle \<Rightarrow> bool" where
  "cycle_healthy c \<longleftrightarrow> cy_failed c = 0 \<and> \<not> pending_failure (cy_db c) \<and> cy_cooldown c \<le> cy_now c"

end
