(* ===== verification/Transports.thy ===== *)
theory Transports
  imports Telegram Operations
begin

section \<open>Transports\<close>

text \<open>
  \<open>alerts/telegram.py\<close> and \<open>alerts/transport.py\<close>: the token file, one message over the Bot API with its errors, and
  the dialogue of a mail. What the network does with a request is an \<open>exchange\<close>: the response headers if they came, the
  chunks of the body and what stopped it. \<open>parse_json\<close> is the JSON reading of a body (\<open>None\<close> when it raises). Bytes are numbers.
\<close>

subsection \<open>Configuration\<close>

definition token_char :: "char \<Rightarrow> bool" where
  "token_char c \<longleftrightarrow> is_alpha c \<or> is_digit c \<or> c = CHR ''_'' \<or> c = CHR ''-''"

definition valid_token :: "string \<Rightarrow> bool" where
  "valid_token t =
     (let bot = takeWhile is_digit t; rest = dropWhile is_digit t
      in 5 \<le> length bot \<and> length bot \<le> 16 \<and> rest \<noteq> [] \<and> hd rest = CHR '':'' \<and>
         30 \<le> length (tl rest) \<and> length (tl rest) \<le> 64 \<and> list_all token_char (tl rest))"

definition valid_chat_id :: "string \<Rightarrow> bool" where
  "valid_chat_id s =
     (let digits = (case s of c # cs \<Rightarrow> if c = CHR ''-'' then cs else s | [] \<Rightarrow> [])
      in digits \<noteq> [] \<and> hd digits \<noteq> CHR ''0'' \<and> list_all is_digit digits \<and> 5 \<le> length digits \<and> length digits \<le> 20)"

text \<open>A file as \<open>open\<close>, \<open>fstat\<close> and \<open>read\<close> show it; \<open>Inl\<close> is the text of the operating system's error.\<close>

record token_file =
  tk_regular :: bool
  tk_mode :: nat
  tk_bytes :: "nat list"

definition token_file_max_bytes :: nat where
  "token_file_max_bytes = 256"

definition ascii_text :: "nat list \<Rightarrow> string option" where
  "ascii_text bs = (if list_all (\<lambda>b. b < 128) bs then Some (map char_of bs) else None)"

definition read_token_file :: "(string \<Rightarrow> string + token_file) \<Rightarrow> string \<Rightarrow> string + string" where
  "read_token_file open_file raw_path =
     (if py_strip raw_path = [] then Inl ''TELEGRAM_BOT_TOKEN_FILE is not set''
      else if hd raw_path \<noteq> CHR ''/'' then Inl ''TELEGRAM_BOT_TOKEN_FILE must be an absolute path''
      else case open_file raw_path of
        Inl err \<Rightarrow> Inl (''TELEGRAM_BOT_TOKEN_FILE cannot be opened: '' @ err)
      | Inr f \<Rightarrow>
          if \<not> tk_regular f then Inl ''TELEGRAM_BOT_TOKEN_FILE must be a regular file''
          else if tk_mode f mod 8 \<noteq> 0 \<or> tk_mode f div 16 mod 2 = 1 then
            Inl ''TELEGRAM_BOT_TOKEN_FILE must not be group-writable or accessible by others''
          else
            (let raw = take (token_file_max_bytes + 1) (tk_bytes f);
                 token = (case ascii_text raw of None \<Rightarrow> [] | Some t \<Rightarrow> py_strip t)
             in if length raw > token_file_max_bytes \<or> \<not> valid_token token
                then Inl ''TELEGRAM_BOT_TOKEN_FILE does not contain a valid bot token'' else Inr token))"

record telegram_config =
  tc_chat_id :: string
  tc_token :: string

definition load_telegram_config ::
  "(string \<Rightarrow> string + token_file) \<Rightarrow> string \<Rightarrow> string \<Rightarrow> string option \<Rightarrow> string + telegram_config" where
  "load_telegram_config open_file token_path configured_chat_id chat_id =
     (let resolved = py_strip (case chat_id of Some c \<Rightarrow> c | None \<Rightarrow> configured_chat_id)
      in if \<not> valid_chat_id resolved then Inl ''TELEGRAM_CHAT_ID must be a numeric chat id''
         else case read_token_file open_file token_path of
           Inl err \<Rightarrow> Inl err | Inr token \<Rightarrow> Inr \<lparr>tc_chat_id = resolved, tc_token = token\<rparr>)"

subsection \<open>One message\<close>

definition telegram_max_message_length :: nat where
  "telegram_max_message_length = 4096"

definition telegram_url :: "telegram_config \<Rightarrow> string" where
  "telegram_url c = ''https://api.telegram.org'' @ ''/bot'' @ tc_token c @ ''/sendMessage''"

definition telegram_payload :: "telegram_config \<Rightarrow> string \<Rightarrow> dict" where
  "telegram_payload c msg =
     [(''chat_id'', JStr (tc_chat_id c)), (''text'', JStr (take telegram_max_message_length msg)),
      (''disable_web_page_preview'', JBool True)]"

text \<open>
  What stops an exchange: the deadline, or an error of the client, named by its class. An exchange stops before the response
  headers, or gives status, content encoding and body chunks and then ends or stops.
\<close>

datatype exchange_stop = Deadline | Client_error string

datatype exchange =
    Unanswered exchange_stop
  | Answered int string "nat list list" "exchange_stop option"

definition response_max_bytes :: nat where
  "response_max_bytes = 65536"

text \<open>The chunks are read until one would pass the limit; then the body read so far is given up.\<close>

fun read_chunks :: "nat list \<Rightarrow> nat list list \<Rightarrow> nat list option" where
  "read_chunks body [] = Some body"
| "read_chunks body (c # cs) = (if length body + length c > response_max_bytes then None else read_chunks (body @ c) cs)"

datatype read_outcome = Read_body int "nat list" | Read_error string | Read_timeout | Read_raised string

definition stopped :: "exchange_stop \<Rightarrow> read_outcome" where
  "stopped e = (case e of Deadline \<Rightarrow> Read_timeout | Client_error name \<Rightarrow> Read_raised name)"

fun read_response :: "exchange \<Rightarrow> read_outcome" where
  "read_response (Unanswered e) = stopped e"
| "read_response (Answered status encoding chunks ending) =
     (if py_lower (py_strip encoding) \<noteq> ''identity'' then Read_error ''unexpected response encoding''
      else case read_chunks [] chunks of
             None \<Rightarrow> Read_error ''response too large''
           | Some body \<Rightarrow> (case ending of None \<Rightarrow> Read_body status body | Some e \<Rightarrow> stopped e))"

function redact :: "string \<Rightarrow> string \<Rightarrow> string" where
  "redact token [] = []"
| "redact token (c # cs) =
     (if token \<noteq> [] \<and> prefix token (c # cs) then ''[redacted]'' @ redact token (drop (length token) (c # cs))
      else c # redact token cs)"
  by pat_completeness auto
termination
  by (relation "measure (\<lambda>(token, s). length s)") auto

definition json_body :: "(nat list \<Rightarrow> json option) \<Rightarrow> nat list \<Rightarrow> dict" where
  "json_body parse_json body = (case parse_json body of Some (JObj d) \<Rightarrow> d | _ \<Rightarrow> [])"

definition retry_after_seconds :: "dict \<Rightarrow> int option" where
  "retry_after_seconds body =
     (case dict_get body ''parameters'' of
        Some (JObj ps) \<Rightarrow> (case dict_get ps ''retry_after'' of Some (JInt n) \<Rightarrow> if n > 0 then Some n else None | _ \<Rightarrow> None)
      | _ \<Rightarrow> None)"

definition error_description :: "telegram_config \<Rightarrow> dict \<Rightarrow> string" where
  "error_description c body =
     take 160 (redact (tc_token c) (case dict_get body ''description'' of
        Some v \<Rightarrow> if truthy v then py_str v else [] | None \<Rightarrow> []))"

definition raise_for_response :: "telegram_config \<Rightarrow> (nat list \<Rightarrow> json option) \<Rightarrow> int \<Rightarrow> nat list \<Rightarrow> send_outcome" where
  "raise_for_response c parse_json status body =
     (let d = json_body parse_json body; description = error_description c d
      in if status = 200 \<and> dict_get d ''ok'' = Some (JBool True) then SendOk
         else if status = 429 then
           SendFails ''rate limited'' (Some (JInt (case retry_after_seconds d of Some n \<Rightarrow> n | None \<Rightarrow> 60)))
         else SendFails (''HTTP '' @ show_int status @ (if description = [] then [] else '': '' @ description)) None)"

fun limited_hint :: "exchange \<Rightarrow> json option" where
  "limited_hint (Answered status _ _ _) = (if status = 429 then Some (JInt 60) else None)"
| "limited_hint (Unanswered _) = None"

definition send_async :: "telegram_config \<Rightarrow> (nat list \<Rightarrow> json option) \<Rightarrow> exchange \<Rightarrow> send_outcome" where
  "send_async c parse_json x =
     (case read_response x of
        Read_body status body \<Rightarrow> raise_for_response c parse_json status body
      | Read_error reason \<Rightarrow> SendFails reason (limited_hint x)
      | Read_timeout \<Rightarrow> SendFails ''timeout'' (limited_hint x)
      | Read_raised name \<Rightarrow> SendFails (''network error: '' @ name) (limited_hint x))"

subsection \<open>One mail\<close>

datatype smtp_command = Smtp_connect | Smtp_ehlo | Smtp_starttls | Smtp_login | Smtp_message

definition smtp_dialogue :: "bool \<Rightarrow> smtp_command list" where
  "smtp_dialogue use_starttls =
     [Smtp_connect, Smtp_ehlo] @ (if use_starttls then [Smtp_starttls, Smtp_ehlo] else []) @ [Smtp_login, Smtp_message]"

text \<open>The commands are given in order until one fails: what was done, and whether the mail was accepted.\<close>

definition smtp_send :: "bool \<Rightarrow> (smtp_command list \<Rightarrow> smtp_command \<Rightarrow> bool) \<Rightarrow> smtp_command list \<times> bool" where
  "smtp_send use_starttls accepts =
     fold (\<lambda>c (done_so_far, ok). if ok \<and> accepts done_so_far c then (done_so_far @ [c], True) else (done_so_far, False))
       (smtp_dialogue use_starttls) ([], True)"

definition message_id_domain :: "string \<Rightarrow> string option" where
  "message_id_domain from_addr =
     (if CHR ''@'' \<in> set from_addr then Some (rev (takeWhile (\<lambda>c. c \<noteq> CHR ''@'') (rev from_addr))) else None)"

end
