(* ===== verification/TelegramProps.thy ===== *)
theory TelegramProps
  imports Telegram
begin

section \<open>Properties of the Telegram channel\<close>

text \<open>
  An abstract channel keeps, for every event, whether it waits, is claimed, was delivered or was
  dropped, and the events one cycle put on the network, in order. What ends a claim is the answer of the
  transport to that message. The cycle implements the channel: each candidate is a few of its steps, and the
  phase every tried event is left in is the one its answer stands for. Bounds on one cycle and on the retry
  delay follow.
\<close>

subsection \<open>The rows of the channel are a keyed table\<close>

interpretation deliveries: keyed_table delivery_of put_delivery
  by unfold_locales (simp_all add: delivery_of_def put_delivery_def update_conv')

lemma other_fields [simp]:
  "delivery_of i (set_state k v d) = delivery_of i d"
  "db_events (set_state k v d) = db_events d"
  "db_events (put_delivery i r d) = db_events d"
  by (simp_all add: delivery_of_def set_state_def put_delivery_def)

lemma delivery_of_put [simp]: "delivery_of j (put_delivery i r d) = (if j = i then Some r else delivery_of j d)"
  by (simp add: delivery_of_def put_delivery_def update_conv')

lemma delivery_of_clamped [simp]:
  "delivery_of i (clamp_deadlines now d) = map_option (clamp_deadline now) (delivery_of i d)"
  by (simp add: delivery_of_def clamp_deadlines_def map_of_map)

lemma clamp_deadline_keeps [simp]:
  "dl_status (clamp_deadline now r) = dl_status r" "dl_detail (clamp_deadline now r) = dl_detail r"
  "dl_attempts (clamp_deadline now r) = dl_attempts r"
  by (simp_all add: clamp_deadline_def)

lemma set_status_fields [simp]:
  "dl_status (set_status s detail r) = s" "dl_detail (set_status s detail r) = detail"
  "dl_attempts (set_status s detail r) = dl_attempts r" "dl_next_attempt_at (set_status s detail r) = None"
  by (simp_all add: set_status_def)

subsection \<open>The abstract channel\<close>

datatype phase = Waiting | Claimed | Delivered | Dropped

record channel =
  ch_phase :: "int \<Rightarrow> phase"
  ch_wire :: "event_row list"

definition wire_ids :: "channel \<Rightarrow> int set" where
  "wire_ids c = ev_id ` set (ch_wire c)"

text \<open>
  \<open>send k e\<close> is the answer to the \<open>k\<close>-th message of the cycle, event \<open>e\<close>. Only the last message can be
  acknowledged or refused, and only as the transport answered it. A claim is taken back without an answer
  only when it is none of this cycle's.
\<close>

inductive channel_step :: "(nat \<Rightarrow> event_row \<Rightarrow> send_outcome) \<Rightarrow> channel \<Rightarrow> channel \<Rightarrow> bool" for send where
  Claim: "ch_phase c (ev_id e) = Waiting \<Longrightarrow> ev_id e \<notin> wire_ids c \<Longrightarrow>
    channel_step send c (c\<lparr>ch_phase := (ch_phase c)(ev_id e := Claimed), ch_wire := ch_wire c @ [e]\<rparr>)"
| Ack: "ch_phase c (ev_id e) = Claimed \<Longrightarrow> ch_wire c = w @ [e] \<Longrightarrow> send (length w) e = SendOk \<Longrightarrow>
    channel_step send c (c\<lparr>ch_phase := (ch_phase c)(ev_id e := Delivered)\<rparr>)"
| Refuse: "ch_phase c (ev_id e) = Claimed \<Longrightarrow> ch_wire c = w @ [e] \<Longrightarrow> send (length w) e = SendFails reason hint \<Longrightarrow>
    channel_step send c (c\<lparr>ch_phase := (ch_phase c)(ev_id e := Waiting)\<rparr>)"
| Recover: "ch_phase c i = Claimed \<Longrightarrow> i \<notin> wire_ids c \<Longrightarrow>
    channel_step send c (c\<lparr>ch_phase := (ch_phase c)(i := Waiting)\<rparr>)"
| Drop: "ch_phase c i = Waiting \<Longrightarrow> i \<notin> wire_ids c \<Longrightarrow>
    channel_step send c (c\<lparr>ch_phase := (ch_phase c)(i := Dropped)\<rparr>)"

inductive_cases channel_stepE: "channel_step send c c'"

abbreviation channel_path :: "(nat \<Rightarrow> event_row \<Rightarrow> send_outcome) \<Rightarrow> channel \<Rightarrow> channel \<Rightarrow> bool" where
  "channel_path send \<equiv> (channel_step send)\<^sup>*\<^sup>*"

definition settled :: "phase \<Rightarrow> bool" where
  "settled p \<longleftrightarrow> p = Delivered \<or> p = Dropped"

text \<open>An event that is settled stays so and is not put on the network again.\<close>

lemma settled_step:
  "channel_step send c c' \<Longrightarrow> settled (ch_phase c i) \<Longrightarrow>
   ch_phase c' i = ch_phase c i \<and> (i \<in> wire_ids c' \<longleftrightarrow> i \<in> wire_ids c)"
  by (erule channel_stepE) (auto simp: settled_def wire_ids_def)

lemma settled_path:
  "channel_path send c c' \<Longrightarrow> settled (ch_phase c i) \<Longrightarrow>
   ch_phase c' i = ch_phase c i \<and> (i \<in> wire_ids c' \<longleftrightarrow> i \<in> wire_ids c)"
proof (induction rule: rtranclp_induct)
  case (step y z)
  then show ?case using settled_step [of send y z i] by simp
qed simp

text \<open>The phase an answered message ends in.\<close>

definition answered_phase :: "send_outcome \<Rightarrow> phase" where
  "answered_phase r = (case r of SendOk \<Rightarrow> Delivered | SendFails _ _ \<Rightarrow> Waiting | SendRaises \<Rightarrow> Claimed)"

lemma answered_phase_simps [simp]:
  "answered_phase SendOk = Delivered" "answered_phase (SendFails reason hint) = Waiting" "answered_phase SendRaises = Claimed"
  by (simp_all add: answered_phase_def)

subsection \<open>Abstraction\<close>

definition phase_of :: "delivery_row option \<Rightarrow> phase" where
  "phase_of row =
     (case row of
        None \<Rightarrow> Waiting
      | Some r \<Rightarrow>
          (case dl_status r of
             Sending \<Rightarrow> Claimed
           | Sent \<Rightarrow> Delivered
           | Skipped \<Rightarrow> if dl_detail r = Some ''maintenance'' then Waiting else Dropped
           | _ \<Rightarrow> Waiting))"

definition channel_of :: "db \<Rightarrow> event_row list \<Rightarrow> channel" where
  "channel_of d tried = \<lparr>ch_phase = (\<lambda>i. phase_of (delivery_of i d)), ch_wire = tried\<rparr>"

definition cycle_channel :: "cycle \<Rightarrow> channel" where
  "cycle_channel c = channel_of (cy_db c) (cy_tried c)"

lemma phase_simps [simp]:
  "phase_of None = Waiting" "phase_of (map_option (clamp_deadline now) row) = phase_of row"
  "dl_status r = Sending \<Longrightarrow> phase_of (Some r) = Claimed" "dl_status r = Sent \<Longrightarrow> phase_of (Some r) = Delivered"
  "dl_status r = Retry \<Longrightarrow> phase_of (Some r) = Waiting"
  by (auto simp: phase_of_def split: option.splits)

lemma channel_put:
  "ch_phase (channel_of (put_delivery i r d) t) = (ch_phase (channel_of d t))(i := phase_of (Some r))"
  "ch_wire (channel_of d t) = t" "wire_ids (channel_of d t) = ev_id ` set t"
  by (auto simp: channel_of_def wire_ids_def)

lemma channel_of_put:
  "channel_of (put_delivery i r d) t = (channel_of d t)\<lparr>ch_phase := (ch_phase (channel_of d t))(i := phase_of (Some r))\<rparr>"
  by (auto simp: channel_of_def)

lemma channel_of_set_state [simp]: "channel_of (set_state k v d) t = channel_of d t"
  by (simp add: channel_of_def)

lemma channel_same: "phase_of (Some r) = phase_of (delivery_of i d) \<Longrightarrow> channel_of (put_delivery i r d) t = channel_of d t"
  by (auto simp: channel_of_def)

subsection \<open>Every candidate is a path of the channel\<close>

lemma decide_skips: "decide st now b n e d = SkipWith detail \<Longrightarrow> detail \<noteq> ''maintenance''"
  by (auto simp: decide_def Let_def split: if_splits relevance.splits)

lemma decide_sends: "decide st now b n e d = SendNow \<Longrightarrow> \<not> b \<and> 0 < n"
  by (auto simp: decide_def Let_def split: if_splits relevance.splits)

lemma requeue_path:
  assumes "\<not> settled (phase_of (delivery_of (ev_id e) d))" and "ev_id e \<notin> ev_id ` set t"
  shows "channel_path send (channel_of d t) (channel_of (requeue_interrupted e d) t)"
    and "phase_of (delivery_of (ev_id e) (requeue_interrupted e d)) = Waiting"
proof -
  have "channel_of (requeue_interrupted e d) t = channel_of d t \<or>
    channel_step send (channel_of d t) (channel_of (requeue_interrupted e d) t)"
  proof (cases "delivery_of (ev_id e) d")
    case (Some r)
    show ?thesis
    proof (cases "dl_status r = Sending")
      case True
      then show ?thesis
        using Recover [of "channel_of d t" "ev_id e" send] Some assms(2)
        by (simp add: requeue_interrupted_def channel_of_put channel_put) (simp add: channel_of_def)
    next
      case False
      then show ?thesis using Some
        by (auto simp: requeue_interrupted_def phase_of_def split: delivery_status.splits intro!: channel_same)
    qed
  qed (simp add: requeue_interrupted_def)
  then show "channel_path send (channel_of d t) (channel_of (requeue_interrupted e d) t)" by auto
  show "phase_of (delivery_of (ev_id e) (requeue_interrupted e d)) = Waiting"
    using assms(1) by (auto simp: requeue_interrupted_def phase_of_def settled_def split: option.splits delivery_status.splits if_splits)
qed

lemma defer_same:
  "phase_of (delivery_of (ev_id e) d) = Waiting \<Longrightarrow> channel_of (defer_delivery now detail t e d) u = channel_of d u"
  by (simp add: defer_delivery_def channel_same)

lemma skip_path:
  assumes "phase_of (delivery_of (ev_id e) d) = Waiting" and "detail \<noteq> ''maintenance''" and "ev_id e \<notin> ev_id ` set t"
  shows "channel_path send (channel_of d t) (channel_of (skip_delivery detail e d) t)"
proof -
  have "phase_of (Some (set_status Skipped (Some detail) r)) = Dropped" for r
    using assms(2) by (simp add: phase_of_def)
  then show ?thesis
    using Drop [of "channel_of d t" "ev_id e" send] assms(1,3)
    by (simp add: skip_delivery_def channel_of_put channel_put) (simp add: channel_of_def r_into_rtranclp)
qed

lemma claim_step:
  assumes "phase_of (delivery_of (ev_id e) d) = Waiting" and "ev_id e \<notin> ev_id ` set t"
  shows "channel_step send (channel_of d t) (channel_of (claim now e d) (t @ [e]))"
    and "phase_of (delivery_of (ev_id e) (claim now e d)) = Claimed"
  using Claim [of "channel_of d t" e send] assms
  by (simp_all add: claim_def Let_def channel_of_put channel_put) (simp add: channel_of_def)

lemma sent_step:
  assumes "phase_of (delivery_of (ev_id e) d) = Claimed" and "send (length t) e = SendOk"
  shows "channel_step send (channel_of d (t @ [e])) (channel_of (mark_sent now e d) (t @ [e]))"
  using Ack [of "channel_of d (t @ [e])" e t send] assms
  by (simp add: mark_sent_def channel_of_put channel_put) (simp add: channel_of_def)

lemma refused_step:
  assumes "phase_of (delivery_of (ev_id e) d) = Claimed" and "send (length t) e = SendFails why hint"
  shows "channel_step send (channel_of d (t @ [e])) (channel_of (record_send_failure now reason h e d) (t @ [e]))"
  using Refuse [of "channel_of d (t @ [e])" e t send why hint] assms
  by (simp add: record_send_failure_def Let_def channel_of_put channel_put) (simp add: channel_of_def)

lemma send_step_tried [simp]: "cy_tried (send_step send now failed_at e c) = cy_tried c @ [e]"
  by (auto simp: send_step_def Let_def split: send_outcome.split option.split)

lemma send_step_phase:
  "phase_of (delivery_of (ev_id e) (cy_db (send_step send now failed_at e c))) =
   answered_phase (send (length (cy_tried c)) e)"
  by (auto simp: send_step_def Let_def mark_sent_def record_send_failure_def claim_def split: send_outcome.split option.split)

lemma send_path:
  assumes "phase_of (delivery_of (ev_id e) (cy_db c)) = Waiting" and "ev_id e \<notin> ev_id ` set (cy_tried c)"
  shows "channel_path send (cycle_channel c) (cycle_channel (send_step send now failed_at e c))"
proof -
  let ?d = "claim now e (cy_db c)" and ?t = "cy_tried c @ [e]"
  note claimed = claim_step(1) [OF assms, where send = send and now = now] claim_step(2) [OF assms, where now = now]
  have "channel_path send (cycle_channel c) (channel_of ?d ?t)"
    unfolding cycle_channel_def using claimed(1) by (rule r_into_rtranclp)
  moreover have "channel_path send (channel_of ?d ?t) (cycle_channel (send_step send now failed_at e c))"
    using sent_step [OF claimed(2), where send = send and t = "cy_tried c"]
      refused_step [OF claimed(2), where send = send and t = "cy_tried c"]
    by (auto simp: send_step_def cycle_channel_def Let_def split: send_outcome.split option.split)
  ultimately show ?thesis by (rule rtranclp_trans)
qed

lemma candidate_path:
  assumes "\<not> settled (phase_of (delivery_of (ev_id e) (cy_db c)))" and "ev_id e \<notin> ev_id ` set (cy_tried c)"
  shows "channel_path send (cycle_channel c) (cycle_channel (candidate_step st send now failed_at e c))"
proof -
  let ?d = "requeue_interrupted e (cy_db c)"
  let ?c = "c\<lparr>cy_now := now, cy_db := ?d\<rparr>"
  note first = requeue_path [OF assms]
  have "channel_path send (channel_of ?d (cy_tried c)) (cycle_channel (candidate_step st send now failed_at e c))"
  proof (cases "decide st now (cy_blocked c) (cy_sends_left c) e ?d")
    case (DeferTo detail t)
    then show ?thesis by (simp add: candidate_step_def Let_def cycle_channel_def defer_same first(2))
  next
    case (SkipWith detail)
    then show ?thesis
      by (simp add: candidate_step_def Let_def cycle_channel_def skip_path first(2) assms(2) decide_skips [OF SkipWith])
  next
    case SendNow
    then show ?thesis
      using send_path [of e ?c send now failed_at] first(2) assms(2)
      by (simp add: candidate_step_def Let_def cycle_channel_def)
  qed
  then show ?thesis using first(1) [where send = send] unfolding cycle_channel_def by (rule rtranclp_trans [rotated])
qed

lemma send_step_other: "j \<noteq> ev_id e \<Longrightarrow> delivery_of j (cy_db (send_step send now failed_at e c)) = delivery_of j (cy_db c)"
  by (auto simp: send_step_def claim_def mark_sent_def record_send_failure_def Let_def split: send_outcome.split option.split)

lemma candidate_other:
  "j \<noteq> ev_id e \<Longrightarrow> delivery_of j (cy_db (candidate_step st send now failed_at e c)) = delivery_of j (cy_db c)"
  by (auto simp: candidate_step_def send_step_other defer_delivery_def skip_delivery_def requeue_interrupted_def Let_def
      split: delivery_decision.split option.split)

text \<open>Every tried event is in the phase its answer stands for.\<close>

definition answers_kept :: "(nat \<Rightarrow> event_row \<Rightarrow> send_outcome) \<Rightarrow> cycle \<Rightarrow> bool" where
  "answers_kept send c \<longleftrightarrow>
     (\<forall>k < length (cy_tried c).
        phase_of (delivery_of (ev_id (cy_tried c ! k)) (cy_db c)) = answered_phase (send k (cy_tried c ! k)))"

lemma candidate_tried:
  "cy_tried (candidate_step st send now failed_at e c) = cy_tried c \<or>
   cy_tried (candidate_step st send now failed_at e c) = cy_tried c @ [e] \<and>
   phase_of (delivery_of (ev_id e) (cy_db (candidate_step st send now failed_at e c))) =
     answered_phase (send (length (cy_tried c)) e)"
  by (auto simp: candidate_step_def Let_def send_step_phase split: delivery_decision.split)

lemma candidate_answers:
  assumes "answers_kept send c" and "ev_id e \<notin> ev_id ` set (cy_tried c)"
  shows "answers_kept send (candidate_step st send now failed_at e c)"
proof -
  let ?c = "candidate_step st send now failed_at e c"
  have old: "phase_of (delivery_of (ev_id (cy_tried c ! k)) (cy_db ?c)) = answered_phase (send k (cy_tried c ! k))"
    if "k < length (cy_tried c)" for k
  proof -
    have "ev_id (cy_tried c ! k) \<noteq> ev_id e" using assms(2) nth_mem [OF that] by (metis image_eqI)
    then show ?thesis using assms(1) that by (simp add: answers_kept_def candidate_other)
  qed
  then show ?thesis using candidate_tried [of st send now failed_at e c]
    by (auto simp: answers_kept_def nth_append less_Suc_eq)
qed

lemma candidates_path:
  "distinct (map ev_id es) \<Longrightarrow> \<forall>e \<in> set es. \<not> settled (phase_of (delivery_of (ev_id e) (cy_db c))) \<Longrightarrow>
   \<forall>e \<in> set es. ev_id e \<notin> ev_id ` set (cy_tried c) \<Longrightarrow> answers_kept send c \<Longrightarrow>
   channel_path send (cycle_channel c) (cycle_channel (deliver_candidates st send start_at failed_at i es c)) \<and>
   answers_kept send (deliver_candidates st send start_at failed_at i es c)"
proof (induction es arbitrary: i c)
  case (Cons e es)
  let ?c = "candidate_step st send (start_at i) (failed_at i) e c"
  let ?r = "deliver_candidates st send start_at failed_at (Suc i) es ?c"
  have "\<not> settled (phase_of (delivery_of (ev_id x) (cy_db ?c))) \<and> ev_id x \<notin> ev_id ` set (cy_tried ?c)"
    if "x \<in> set es" for x
  proof -
    have "ev_id x \<noteq> ev_id e" using that Cons.prems(1) by (auto simp: image_iff)
    moreover have "\<not> settled (phase_of (delivery_of (ev_id x) (cy_db c)))" "ev_id x \<notin> ev_id ` set (cy_tried c)"
      using Cons.prems(2,3) that by auto
    ultimately show ?thesis using candidate_tried [of st send "start_at i" "failed_at i" e c]
      by (elim disjE conjE) (simp_all add: candidate_other)
  qed
  moreover have "answers_kept send ?c" using candidate_answers Cons.prems(3,4) by simp
  ultimately have "channel_path send (cycle_channel ?c) (cycle_channel ?r) \<and> answers_kept send ?r"
    using Cons.IH Cons.prems(1) by simp
  moreover have "channel_path send (cycle_channel c) (cycle_channel ?c)" using candidate_path Cons.prems(2,3) by simp
  ultimately show ?case using Cons.prems(4) by auto
qed simp

subsection \<open>The start of a cycle\<close>

lemma cycle_start_channel: "cycle_channel (cycle_start now d) = channel_of d []"
  by (auto simp: cycle_channel_def cycle_start_def clamp_cooldown_def channel_of_def)

lemma cycle_start_events: "db_events (cy_db (cycle_start now d)) = db_events d"
  by (simp add: cycle_start_def clamp_cooldown_def clamp_deadlines_def)

lemma open_not_settled: "delivery_open now row \<Longrightarrow> \<not> settled (phase_of row)"
  by (auto simp: delivery_open_def phase_of_def settled_def split: option.splits delivery_status.splits if_splits)

lemma candidates_open:
  "e \<in> set (load_candidates now d) \<Longrightarrow>
   e \<in> set (db_events d) \<and> is_telegram_alert e \<and> ev_occurred_at e \<le> now \<and> delivery_open now (delivery_of (ev_id e) d)"
  by (auto simp: load_candidates_def dest: in_set_takeD)

lemma candidates_distinct: "distinct (map ev_id (db_events d)) \<Longrightarrow> distinct (map ev_id (load_candidates now d))"
  by (auto simp: load_candidates_def take_map [symmetric] distinct_map intro!: distinct_take
      intro: inj_on_subset dest: in_set_takeD)

lemma cycle_path:
  assumes "distinct (map ev_id (db_events d))"
  shows "channel_path send (channel_of d []) (cycle_channel (run_telegram_cycle st send start_at failed_at now d)) \<and>
    answers_kept send (run_telegram_cycle st send start_at failed_at now d)"
proof -
  let ?c = "cycle_start now d"
  have "distinct (map ev_id (load_candidates now (cy_db ?c)))"
    using assms by (simp add: candidates_distinct cycle_start_events)
  moreover have "\<forall>e \<in> set (load_candidates now (cy_db ?c)). \<not> settled (phase_of (delivery_of (ev_id e) (cy_db ?c)))"
    using candidates_open open_not_settled by blast
  moreover have "cy_tried ?c = []" by (simp add: cycle_start_def case_prod_beta)
  ultimately show ?thesis
    unfolding run_telegram_cycle_def Let_def cycle_start_channel [symmetric, of d now]
    by (intro candidates_path) (simp_all add: answers_kept_def)
qed

subsection \<open>The budget of a cycle\<close>

definition within_budget :: "cycle \<Rightarrow> bool" where
  "within_budget c \<longleftrightarrow>
     length (cy_tried c) + cy_sends_left c = max_sends_per_cycle \<and>
     length (cy_tried c) = cy_sent c + cy_failed c + of_bool (cy_raised c) \<and>
     cy_failed c \<le> of_bool (cy_blocked c) \<and> (cy_raised c \<longrightarrow> cy_failed c = 0)"

lemma send_within_budget:
  "within_budget c \<Longrightarrow> \<not> cy_raised c \<Longrightarrow> \<not> cy_blocked c \<Longrightarrow> 0 < cy_sends_left c \<Longrightarrow>
   within_budget (send_step send now failed_at e c)"
  by (auto simp: within_budget_def send_step_def Let_def split: send_outcome.split option.split)

lemma candidate_within_budget:
  assumes "within_budget c" and "\<not> cy_raised c"
  shows "within_budget (candidate_step st send now failed_at e c)"
proof (cases "decide st now (cy_blocked c) (cy_sends_left c) e (requeue_interrupted e (cy_db c))")
  case SendNow
  then show ?thesis using assms decide_sends [OF SendNow]
    by (auto simp: candidate_step_def Let_def intro!: send_within_budget) (simp add: within_budget_def)
qed (use assms in \<open>simp_all add: candidate_step_def Let_def within_budget_def\<close>)

lemma candidates_within_budget:
  "within_budget c \<Longrightarrow> within_budget (deliver_candidates st send start_at failed_at i es c)"
  by (induction es arbitrary: i c) (simp_all add: candidate_within_budget)

lemma cycle_within_budget: "within_budget (run_telegram_cycle st send start_at failed_at now d)"
  unfolding run_telegram_cycle_def Let_def
  by (rule candidates_within_budget) (auto simp: within_budget_def cycle_start_def split: prod.split)

text \<open>A blocked channel stays silent for the whole cycle.\<close>

lemma candidate_blocked:
  "cy_blocked c \<Longrightarrow>
   cy_blocked (candidate_step st send now failed_at e c) \<and> cy_tried (candidate_step st send now failed_at e c) = cy_tried c"
  using decide_sends
  by (fastforce simp: candidate_step_def Let_def split: delivery_decision.split)

lemma candidates_blocked:
  "cy_blocked c \<Longrightarrow> cy_tried (deliver_candidates st send start_at failed_at i es c) = cy_tried c"
  by (induction es arbitrary: i c) (simp_all add: candidate_blocked)

lemma cycle_start_blocked: "cy_blocked (cycle_start now d) \<longleftrightarrow> now < stored_cooldown now d"
  by (auto simp: cycle_start_def clamp_cooldown_def latest_retry_def telegram_retry_after_max_seconds_def sec_def)

lemma blocked_cycle_silent:
  "now < stored_cooldown now d \<Longrightarrow> cy_tried (run_telegram_cycle st send start_at failed_at now d) = []"
  unfolding run_telegram_cycle_def Let_def
  by (subst candidates_blocked) (simp_all add: cycle_start_blocked, simp add: cycle_start_def case_prod_beta)

subsection \<open>Retry delays\<close>

lemma bounded_hint: "case bounded_retry_after h of None \<Rightarrow> True | Some n \<Rightarrow> 0 < n \<and> n \<le> 3600"
  by (auto simp: bounded_retry_after_def telegram_retry_after_max_seconds_def split: option.split json.split)

lemma retry_delay_bounds:
  "60 \<le> retry_delay_seconds n (bounded_retry_after h) \<and> retry_delay_seconds n (bounded_retry_after h) \<le> 3600"
proof -
  have "(1::int) \<le> 2 ^ nat (min (n - 1) 6)" by simp
  then show ?thesis using bounded_hint [of h]
    by (auto simp: retry_delay_seconds_def retry_base_seconds_def retry_max_seconds_def le_max_iff_disj split: option.splits)
qed

subsection \<open>Properties\<close>

text \<open>C10. The Telegram cycle implements the abstract channel: whatever the transport answers, and also
  when it raises, what the rows and the network show before and after a cycle is connected by steps
  of the abstract machine, in which an event is claimed before it goes out, at most once in a cycle, is acknowledged
  only on the transport's success and queued again only on its failure, and never leaves a settled phase. At the end
  of the cycle the event of every message is delivered when the transport answered success, waiting again when it
  answered a failure, and still claimed when it raised.\<close>

theorem telegram_cycle_refines_channel:
  assumes "distinct (map ev_id (db_events d))"
  shows "channel_path send (channel_of d []) (cycle_channel (run_telegram_cycle st send start_at failed_at now d)) \<and>
    (let c = run_telegram_cycle st send start_at failed_at now d in
     list_all (\<lambda>(k, e). phase_of (delivery_of (ev_id e) (cy_db c)) =
         (case send k e of SendOk \<Rightarrow> Delivered | SendFails _ _ \<Rightarrow> Waiting | SendRaises \<Rightarrow> Claimed))
       (enumerate 0 (cy_tried c)))"
  using cycle_path [OF assms, of send st start_at failed_at now]
  by (simp add: Let_def answers_kept_def answered_phase_def list_all_length nth_enumerate_eq)

definition outage_event :: event_row where
  "outage_event =
     \<lparr>ev_id = 1, ev_occurred_at = 0, ev_severity = Critical, ev_category = system_category,
      ev_subject = ''Controller'', ev_summary = ''Monitoring stale'', ev_before = None,
      ev_after = Some [(''monitoring_outage'', JBool True)], ev_notified_at = None,
      ev_operator_username = None\<rparr>"

definition outage_db :: db where
  "outage_db = empty_db\<lparr>db_events := [outage_event]\<rparr>"

lemma outage_is_sent:
  "run_telegram_cycle sample_settings (\<lambda>_ _. SendOk) (\<lambda>_. 5) (\<lambda>_. 6) 5 outage_db =
     \<lparr>cy_db = outage_db\<lparr>db_deliveries :=
        [(1, \<lparr>dl_status = Sent, dl_attempts = 1, dl_last_attempt_at = Some 5, dl_next_attempt_at = None,
              dl_delivered_at = Some 5, dl_detail = None\<rparr>)]\<rparr>,
      cy_blocked = False, cy_cooldown = 5, cy_sends_left = 4, cy_tried = [outage_event], cy_sent = 1,
      cy_failed = 0, cy_skipped = 0, cy_deferred = 0, cy_now = 5, cy_raised = False\<rparr>"
  by code_simp

theorem telegram_cycle_refines_channel_witness:
  "let send = (\<lambda>_ _. SendOk); c = run_telegram_cycle sample_settings send (\<lambda>_. 5) (\<lambda>_. 6) 5 outage_db in
   channel_path send (channel_of outage_db []) (cycle_channel c) \<and>
   ch_wire (cycle_channel c) = [outage_event] \<and> phase_of (delivery_of 1 (cy_db c)) = Delivered"
proof -
  have "distinct (map ev_id (db_events outage_db))" by (simp add: outage_db_def)
  from telegram_cycle_refines_channel [OF this, of "\<lambda>_ _. SendOk" sample_settings "\<lambda>_. 5" "\<lambda>_. 6" 5]
  show ?thesis by (simp add: outage_is_sent cycle_channel_def channel_of_def outage_event_def)
qed

text \<open>C15. A cycle puts at most five messages on the network, none while the stored embargo of the
  provider lasts, and after a failed one nothing more: every message tried is counted as sent, as the
  one failure, or as the one that raised.\<close>

theorem telegram_cycle_bounded:
  "let c = run_telegram_cycle st send start_at failed_at now d in
   length (cy_tried c) \<le> (if now < stored_cooldown now d then 0 else 5) \<and>
   length (cy_tried c) = cy_sent c + cy_failed c + of_bool (cy_raised c) \<and>
   cy_failed c + of_bool (cy_raised c) \<le> 1"
  using cycle_within_budget [of st send start_at failed_at now d]
    blocked_cycle_silent [of now d st send start_at failed_at]
  by (auto simp: Let_def within_budget_def max_sends_per_cycle_def of_bool_def split: if_splits)

text \<open>An event whose row says sent, or skipped for another reason than maintenance, is never put
  on the network by a later cycle, and its phase stays what it was.\<close>

theorem settled_event_never_resent:
  assumes "distinct (map ev_id (db_events d))" and "delivery_of i d = Some r"
    and "dl_status r = Sent \<or> (dl_status r = Skipped \<and> dl_detail r \<noteq> Some ''maintenance'')"
  shows "i \<notin> ev_id ` set (cy_tried (run_telegram_cycle st send start_at failed_at now d)) \<and>
    phase_of (delivery_of i (cy_db (run_telegram_cycle st send start_at failed_at now d))) = phase_of (Some r)"
proof -
  let ?c = "run_telegram_cycle st send start_at failed_at now d"
  have "settled (ch_phase (channel_of d []) i)"
    using assms(2, 3) by (auto simp: channel_of_def settled_def phase_of_def)
  then have "ch_phase (cycle_channel ?c) i = ch_phase (channel_of d []) i \<and>
      (i \<in> wire_ids (cycle_channel ?c) \<longleftrightarrow> i \<in> wire_ids (channel_of d []))"
    by (rule settled_path [OF cycle_path [OF assms(1), THEN conjunct1]])
  then show ?thesis using assms(2) by (simp add: cycle_channel_def channel_of_def wire_ids_def)
qed

theorem settled_event_never_resent_witness:
  "1 \<notin> ev_id ` set (cy_tried (run_telegram_cycle sample_settings (\<lambda>_ _. SendRaises) (\<lambda>_. 9) (\<lambda>_. 9) 9
     (outage_db\<lparr>db_deliveries := [(1, set_status Sent None new_delivery)]\<rparr>)))"
  using settled_event_never_resent [of "outage_db\<lparr>db_deliveries := [(1, set_status Sent None new_delivery)]\<rparr>" 1
      "set_status Sent None new_delivery" sample_settings "\<lambda>_ _. SendRaises" "\<lambda>_. 9" "\<lambda>_. 9" 9]
  by (simp add: outage_db_def delivery_of_def)

end
