(* ===== verification/TransportProps.thy ===== *)
theory TransportProps
  imports Transports TelegramProps
begin

section \<open>What the transports promise\<close>

text \<open>The token stays out of every failure text, whatever the server answers; waits stay bounded; the mail dialogue never
  offers the password before the encryption that was asked for.\<close>

subsection \<open>Texts that cannot hold a word\<close>

declare str_in.simps(2) [simp del]

lemma prefix_across: "x \<notin> set t \<Longrightarrow> prefix t (a @ x # b) \<longleftrightarrow> prefix t a"
  by (induction a arbitrary: t) (auto simp: prefix_Cons)

lemma str_in_across:
  assumes "x \<notin> set t" "t \<noteq> []"
  shows "str_in t (a @ x # b) \<longleftrightarrow> str_in t a \<or> str_in t b"
proof (induction a)
  case Nil
  have "\<not> prefix t (x # b)" using assms by (cases t) auto
  then show ?case using assms by (simp add: str_in.simps)
next
  case (Cons c a)
  have "prefix t ((c # a) @ x # b) \<longleftrightarrow> prefix t (c # a)" by (rule prefix_across) (rule assms)
  then show ?case using Cons by (simp add: str_in.simps)
qed

lemma not_in_across:
  "x \<notin> set t \<Longrightarrow> t \<noteq> [] \<Longrightarrow> \<not> str_in t a \<Longrightarrow> \<not> str_in t b \<Longrightarrow> \<not> str_in t (a @ x # b)"
  by (simp add: str_in_across)

lemma str_in_set: "str_in t s \<Longrightarrow> set t \<subseteq> set s"
  by (auto simp: str_in_iff)

lemma str_in_take: "str_in t (take n s) \<Longrightarrow> str_in t s"
  by (metis str_in_iff append_take_drop_id append.assoc)

lemma prefix_of_redacted: "prefix u (redact t s) \<Longrightarrow> CHR ''['' \<notin> set u \<Longrightarrow> prefix u s"
proof (induction t s arbitrary: u rule: redact.induct)
  case (1 token)
  then show ?case by simp
next
  case (2 token c cs)
  show ?case
  proof (cases "token \<noteq> [] \<and> prefix token (c # cs)")
    case True
    then have "prefix u (CHR ''['' # (''redacted]'' @ redact token (drop (length token) (c # cs))))" using 2(3) by simp
    then have "u = []" using 2(4) by (cases u) simp_all
    then show ?thesis by simp
  next
    case False
    then have "redact token (c # cs) = c # redact token cs" by auto
    then have start: "prefix u (c # redact token cs)" using 2(3) by simp
    show ?thesis
    proof (cases u)
      case (Cons d v)
      then have "prefix v cs" using 2(2) [OF False, of v] 2(4) start by simp
      then show ?thesis using Cons start by simp
    qed simp
  qed
qed

lemma redact_removes:
  assumes "t \<noteq> []" "CHR ''['' \<notin> set t" "CHR '']'' \<notin> set t" "CHR '':'' \<in> set t"
  shows "\<not> str_in t (redact t s)"
  using assms
proof (induction t s rule: redact.induct)
  case (1 token)
  then show ?case by simp
next
  case (2 token c cs)
  show ?case
  proof (cases "prefix token (c # cs)")
    case True
    let ?r = "redact token (drop (length token) (c # cs))"
    have "\<not> str_in token ?r" using True 2 by blast
    moreover have "\<not> str_in token ''redacted''" using 2(6) str_in_set [of token "''redacted''"] by auto
    ultimately have "\<not> str_in token (''redacted'' @ CHR '']'' # ?r)" by (simp only: str_in_across [OF 2(5,3)] simp_thms)
    then have "\<not> str_in token ([] @ CHR ''['' # (''redacted'' @ CHR '']'' # ?r))"
      using 2(3) by (simp only: str_in_across [OF 2(4,3)] str_in.simps simp_thms)
    moreover have "redact token (c # cs) = [] @ CHR ''['' # (''redacted'' @ CHR '']'' # ?r)"
      using True 2(3) by (simp only: redact.simps if_True append.simps simp_thms)
    ultimately show ?thesis by (simp only: not_False_eq_True)
  next
    case False
    then have eq: "redact token (c # cs) = c # redact token cs" by simp
    have "\<not> prefix token (c # redact token cs)"
      using prefix_of_redacted [of token token "c # cs", unfolded eq] 2(4) False by blast
    then show ?thesis using 2(2) [OF _ 2(3-6)] False by (simp only: eq str_in.simps simp_thms)
  qed
qed

subsection \<open>The shape of a token\<close>

lemma valid_token_shape:
  assumes "valid_token t"
  obtains bot rest where "t = bot @ CHR '':'' # rest" "rest \<noteq> []" "\<forall>c \<in> set bot. is_digit c" "\<forall>c \<in> set rest. token_char c"
    "5 \<le> length bot"
proof
  let ?bot = "takeWhile is_digit t" and ?rest = "dropWhile is_digit t"
  have v: "?rest \<noteq> []" "hd ?rest = CHR '':''" "30 \<le> length (tl ?rest)" "list_all token_char (tl ?rest)" "5 \<le> length ?bot"
    using assms by (auto simp: valid_token_def Let_def)
  have "?rest = CHR '':'' # tl ?rest" using v(1,2) by (metis list.collapse)
  then show "t = ?bot @ CHR '':'' # tl ?rest" by (metis takeWhile_dropWhile_id)
  show "tl ?rest \<noteq> []"
  proof
    assume "tl ?rest = []"
    then show False using v(3) by (simp only: list.size)
  qed
  show "\<forall>c \<in> set ?bot. is_digit c" by (auto dest: set_takeWhileD)
  show "\<forall>c \<in> set (tl ?rest). token_char c" using v(4) by (simp add: list_all_iff)
  show "5 \<le> length ?bot" by (rule v(5))
qed

lemma valid_token_chars:
  assumes "valid_token t" "c \<in> set t"
  shows "token_char c \<or> c = CHR '':''"
  using assms(1)
proof (rule valid_token_shape)
  fix bot rest
  assume "t = bot @ CHR '':'' # rest" "\<forall>c \<in> set bot. is_digit c" "\<forall>c \<in> set rest. token_char c"
  then show ?thesis using assms(2) by (auto simp: token_char_def)
qed

lemma valid_token_lacks:
  assumes "valid_token t"
  shows "CHR ''['' \<notin> set t" "CHR '']'' \<notin> set t" "CHR '' '' \<notin> set t" "t \<noteq> []" "CHR '':'' \<in> set t"
proof -
  have not_char: "\<not> token_char CHR ''[''" "\<not> token_char CHR '']''" "\<not> token_char CHR '' ''" by code_simp+
  show "CHR ''['' \<notin> set t" "CHR '']'' \<notin> set t" "CHR '' '' \<notin> set t"
    using valid_token_chars [OF assms] not_char by auto
  show "CHR '':'' \<in> set t" using assms by (rule valid_token_shape) auto
  then show "t \<noteq> []" by auto
qed

lemma token_needs_colon: "valid_token t \<Longrightarrow> CHR '':'' \<notin> set s \<Longrightarrow> \<not> str_in t s"
  using valid_token_lacks(5) str_in_set by blast

lemma token_not_ended_by_colon:
  assumes "valid_token t" "CHR '':'' \<notin> set s"
  shows "\<not> str_in t (s @ '':'')"
proof
  assume "str_in t (s @ '':'')"
  then obtain p q where split: "s @ '':'' = p @ t @ q" by (auto simp: str_in_iff)
  from assms(1) show False
  proof (rule valid_token_shape)
    fix bot rest
    assume "t = bot @ CHR '':'' # rest" "rest \<noteq> []"
    then have "s = p @ bot @ CHR '':'' # butlast (rest @ q)"
      using arg_cong [OF split, of butlast] by (auto simp: butlast_append)
    then show False using assms(2) by auto
  qed
qed

lemma no_colon_in_number: "CHR '':'' \<notin> set (show_int n)"
proof -
  have "\<not> is_digit CHR '':''" by code_simp
  then show ?thesis using show_nat_digits by (auto simp: show_int_def)
qed

lemma http_reason_hides_token:
  assumes t: "valid_token t" and d: "\<not> str_in t d"
  shows "\<not> str_in t (''HTTP '' @ show_int n @ (if d = [] then [] else '': '' @ d))"
proof -
  note lacks = valid_token_lacks(3,4) [OF t]
  have http: "''HTTP '' @ z = ''HTTP'' @ CHR '' '' # z" for z by simp
  have word: "\<not> str_in t ''HTTP''" by (rule token_needs_colon [OF t]) simp
  have bare: "\<not> str_in t (show_int n)" by (rule token_needs_colon [OF t no_colon_in_number])
  have "\<not> str_in t ((show_int n @ '':'') @ CHR '' '' # d)"
    by (rule not_in_across [OF lacks token_not_ended_by_colon [OF t no_colon_in_number] d])
  then have "\<not> str_in t (show_int n @ (if d = [] then [] else '': '' @ d))" using bare by simp
  then show ?thesis unfolding http by (rule not_in_across [OF lacks word])
qed

subsection \<open>What a failure says\<close>

lemma description_hides_token: "valid_token (tc_token c) \<Longrightarrow> \<not> str_in (tc_token c) (error_description c d)"
  unfolding error_description_def using redact_removes valid_token_lacks str_in_take by blast

lemma response_reason_hides_token:
  assumes "valid_token (tc_token c)" "raise_for_response c parse_json status body = SendFails reason hint"
  shows "\<not> str_in (tc_token c) reason"
proof -
  let ?d = "error_description c (json_body parse_json body)"
  have "reason = ''rate limited'' \<or> reason = ''HTTP '' @ show_int status @ (if ?d = [] then [] else '': '' @ ?d)"
    using assms(2) unfolding raise_for_response_def Let_def by (simp only: send_outcome.simps split: if_splits) auto
  then show ?thesis
  proof (elim disjE)
    assume "reason = ''rate limited''"
    then show ?thesis using token_needs_colon [OF assms(1)] by simp
  next
    assume "reason = ''HTTP '' @ show_int status @ (if ?d = [] then [] else '': '' @ ?d)"
    then show ?thesis
      using http_reason_hides_token [OF assms(1) description_hides_token [OF assms(1)]] by (simp only: not_False_eq_True)
  qed
qed

lemma network_reason_hides_token:
  assumes "valid_token t" "CHR '':'' \<notin> set name"
  shows "\<not> str_in t (''network error: '' @ name)"
proof -
  note lacks = valid_token_lacks(3,4) [OF assms(1)]
  have "\<not> str_in t ''network''" "\<not> str_in t (''error'' @ '':'')" "\<not> str_in t name"
    using token_needs_colon [OF assms(1)] token_not_ended_by_colon [OF assms(1), of "''error''"] assms(2) by simp_all
  then have "\<not> str_in t (''network'' @ CHR '' '' # ((''error'' @ '':'') @ CHR '' '' # name))"
    by (simp only: str_in_across [OF lacks] simp_thms)
  then show ?thesis by simp
qed

fun stop_of :: "exchange \<Rightarrow> exchange_stop option" where
  "stop_of (Unanswered e) = Some e"
| "stop_of (Answered _ _ _ ending) = ending"

lemma read_raised_name: "read_response x = Read_raised name \<Longrightarrow> stop_of x = Some (Client_error name)"
  by (cases x) (auto simp: stopped_def split: option.splits exchange_stop.splits if_splits)

lemma read_error_reason:
  "read_response x = Read_error reason \<Longrightarrow> reason \<in> {''unexpected response encoding'', ''response too large''}"
  by (cases x) (auto simp: stopped_def split: option.splits exchange_stop.splits if_splits)

lemma read_too_long: "read_chunks body cs = Some b \<Longrightarrow> length body \<le> response_max_bytes \<Longrightarrow> length b \<le> response_max_bytes"
  by (induction body cs rule: read_chunks.induct) (auto split: if_splits)

lemma body_bounded: "read_response x = Read_body status b \<Longrightarrow> length b \<le> response_max_bytes"
  using read_too_long [of "[]"] by (cases x) (auto simp: stopped_def split: option.splits exchange_stop.splits if_splits)

definition sample_telegram :: telegram_config where
  "sample_telegram = \<lparr>tc_chat_id = ''12345'', tc_token = ''123456:abcdefghijklmnopqrstuvwxyzABCDEFGH''\<rparr>"

definition echoing_exchange :: exchange where
  "echoing_exchange = Answered 404 ''identity'' [[1], [2]] None"

definition echoed_body :: "nat list \<Rightarrow> json option" where
  "echoed_body _ = Some (JObj [(''description'', JStr (''no bot '' @ tc_token sample_telegram @ '' here''))])"

text \<open>C34. No failure text holds the bot token, whatever the server sends: when \<open>TelegramTransport.send_async\<close> fails for a
  token of the accepted form, the reason it gives, which is stored in the delivery row and logged, does not contain the token,
  even when the server repeats the token in its description (in any position, also around the 160-character cut) or the
  description comes on any status. The client's error is named by its class, which holds no colon.\<close>

theorem failures_never_show_the_token:
  assumes "valid_token (tc_token c)"
    and "\<And>name. stop_of x = Some (Client_error name) \<Longrightarrow> CHR '':'' \<notin> set name"
    and "send_async c parse_json x = SendFails reason hint"
  shows "\<not> str_in (tc_token c) reason"
proof (cases "read_response x")
  case (Read_body status body)
  then show ?thesis using assms(3) response_reason_hides_token [OF assms(1)] by (simp add: send_async_def)
next
  case (Read_error r)
  then show ?thesis
    using assms(3) read_error_reason [OF Read_error] token_needs_colon [OF assms(1), of r] by (auto simp: send_async_def)
next
  case Read_timeout
  then show ?thesis using assms(3) token_needs_colon [OF assms(1), of "''timeout''"] by (auto simp: send_async_def)
next
  case (Read_raised name)
  have "CHR '':'' \<notin> set name" using read_raised_name [OF Read_raised] assms(2) by auto
  then show ?thesis
    using Read_raised assms(3) network_reason_hides_token [OF assms(1)] by (auto simp: send_async_def)
qed

lemma failures_never_show_the_token_witness:
  "send_async sample_telegram echoed_body echoing_exchange = SendFails ''HTTP 404: no bot [redacted] here'' None \<and>
   \<not> str_in (tc_token sample_telegram) ''HTTP 404: no bot [redacted] here''"
proof -
  have sent: "send_async sample_telegram echoed_body echoing_exchange = SendFails ''HTTP 404: no bot [redacted] here'' None"
  proof -
    have "py_lower (py_strip ''identity'') = ''identity''" by code_simp
    then have "read_response echoing_exchange = Read_body 404 [1, 2]"
      by (simp add: echoing_exchange_def response_max_bytes_def)
    moreover have "raise_for_response sample_telegram echoed_body 404 [1, 2] =
        SendFails ''HTTP 404: no bot [redacted] here'' None" by code_simp
    ultimately show ?thesis by (simp add: send_async_def)
  qed
  have "valid_token (tc_token sample_telegram)" by code_simp
  moreover have "CHR '':'' \<notin> set name" if "stop_of echoing_exchange = Some (Client_error name)" for name
    using that by (simp add: echoing_exchange_def)
  ultimately show ?thesis using failures_never_show_the_token [OF _ _ sent] sent by blast
qed

subsection \<open>Waits, token files, the mail dialogue\<close>

lemma rate_limit_always_waits:
  assumes "send_async c parse_json (Answered 429 encoding chunks ending) = SendFails reason hint"
  shows "\<exists>n. bounded_retry_after hint = Some n \<and> 0 < n \<and> n \<le> 3600"
proof -
  have "\<exists>n. hint = Some (JInt n)"
    using assms by (auto simp: send_async_def raise_for_response_def stopped_def Let_def
      split: read_outcome.splits option.splits if_splits exchange_stop.splits)
  then obtain n where "bounded_retry_after hint = Some n"
    by (fastforce simp: bounded_retry_after_def split: if_splits)
  then show ?thesis using bounded_hint [of hint] by simp
qed

lemma token_file_gives_valid_tokens: "read_token_file open_file path = Inr token \<Longrightarrow> valid_token token"
  by (auto simp: read_token_file_def Let_def split: if_splits sum.splits)

lemma loaded_config_valid:
  "load_telegram_config open_file path chat over = Inr c \<Longrightarrow> valid_token (tc_token c) \<and> valid_chat_id (tc_chat_id c)"
  by (auto simp: load_telegram_config_def Let_def token_file_gives_valid_tokens split: if_splits sum.splits)

lemma message_fits: "dict_get (telegram_payload c msg) ''text'' = Some (JStr s) \<Longrightarrow> length s \<le> telegram_max_message_length"
  by (auto simp: telegram_payload_def dict_get_def)

lemma mail_stops_at_the_first_refusal: "prefix (fst (smtp_send u accepts)) (smtp_dialogue u)"
  "snd (smtp_send u accepts) \<longleftrightarrow> fst (smtp_send u accepts) = smtp_dialogue u"
  by (cases u; auto simp: smtp_send_def smtp_dialogue_def)+

lemma password_after_encryption:
  "Smtp_login \<in> set (fst (smtp_send True accepts)) \<Longrightarrow>
   take 4 (fst (smtp_send True accepts)) = [Smtp_connect, Smtp_ehlo, Smtp_starttls, Smtp_ehlo]"
  by (auto simp: smtp_send_def smtp_dialogue_def split: if_splits)

end
