(* ===== verification/PageProps.thy ===== *)
theory PageProps
  imports Pages CommandSafety HealthProps
begin

section \<open>The page of a drive\<close>

text \<open>
  The buttons of the page against the gates and the allow list behind them, and the links between the pages of
  the drives.
\<close>

subsection \<open>Buttons\<close>

text \<open>C32. The buttons of the page offer Mark as UGood, Spin Down and Hot Spare exactly when the gate of the route accepts the
  state of the drive (for a hot spare, with a disk group to serve), and each of the three has a command the runner admits.
  Mark as UBad is never offered, though its gate accepts some states, and its command is never admitted.\<close>

theorem offered_actions_can_run:
  assumes "validate_enclosure_slot e k = Inr ()" "0 \<le> dg" "dg \<le> 63"
  shows "map (\<lambda>b. (ab_label b, ab_is_enabled b)) (advanced_actions p) =
      [(''Mark as UBad'', False), (''Mark as UGood'', can_mark_ugood (pdi_state p)),
       (''Spin Down'', can_spin_down (pdi_state p)), (''Hot Spare'', can_make_hot_spare (pdi_state p) True)] \<and>
    (\<exists>bad good down spare.
       build_mark_unconfigured_bad_command e k = Inr bad \<and> validate_command (with_json_flag bad) \<noteq> Inr () \<and>
       build_mark_unconfigured_good_command e k = Inr good \<and> validate_command (with_json_flag good) = Inr () \<and>
       build_spin_down_command e k = Inr down \<and> validate_command (with_json_flag down) = Inr () \<and>
       build_make_hot_spare_command e k dg = Inr spare \<and> validate_command (with_json_flag spare) = Inr ())"
proof
  show "map (\<lambda>b. (ab_label b, ab_is_enabled b)) (advanced_actions p) =
      [(''Mark as UBad'', False), (''Mark as UGood'', can_mark_ugood (pdi_state p)),
       (''Spin Down'', can_spin_down (pdi_state p)), (''Hot Spare'', can_make_hot_spare (pdi_state p) True)]"
    by (simp add: advanced_actions_def action_button_of_def can_mark_ugood_def can_spin_down_def can_make_hot_spare_def Let_def)
  obtain bad good down spare where made: "build_mark_unconfigured_bad_command e k = Inr bad"
    "build_mark_unconfigured_good_command e k = Inr good" "build_spin_down_command e k = Inr down"
    "build_make_hot_spare_command e k dg = Inr spare"
    using assms by (simp add: build_mark_unconfigured_bad_command_def build_mark_unconfigured_good_command_def
        build_spin_down_command_def build_make_hot_spare_command_def)
  then show "\<exists>bad good down spare.
       build_mark_unconfigured_bad_command e k = Inr bad \<and> validate_command (with_json_flag bad) \<noteq> Inr () \<and>
       build_mark_unconfigured_good_command e k = Inr good \<and> validate_command (with_json_flag good) = Inr () \<and>
       build_spin_down_command e k = Inr down \<and> validate_command (with_json_flag down) = Inr () \<and>
       build_make_hot_spare_command e k dg = Inr spare \<and> validate_command (with_json_flag spare) = Inr ()"
    using mark_bad_never_admitted[OF made(1)] built_admitted[OF built.intros(7), OF made(2)]
      built_admitted[OF built.intros(8), OF made(3)] built_admitted[OF built.intros(9), OF made(4)] by metis
qed

lemma offered_actions_can_run_witness:
  "\<exists>down. build_spin_down_command 252 3 = Inr down \<and> validate_command (with_json_flag down) = Inr ()"
proof -
  have "validate_enclosure_slot 252 3 = Inr ()"
    by (simp add: validate_enclosure_slot_def)
  then obtain down where "build_spin_down_command 252 3 = Inr down" "validate_command (with_json_flag down) = Inr ()"
    using offered_actions_can_run[of 252 3 0] by auto
  then show ?thesis
    by blast
qed

subsection \<open>Links between drives\<close>

lemma position_of_nth:
  assumes "i < length ps" "P (ps ! i)" "\<And>j. j < i \<Longrightarrow> \<not> P (ps ! j)"
  shows "position_of P ps = Some i"
proof -
  have "takeWhile (\<lambda>p. \<not> P p) ps = take i ps"
    using assms by (intro takeWhile_eq_take_P_nth) auto
  then have "length (takeWhile (\<lambda>p. \<not> P p) ps) = i"
    using assms(1) by simp
  then show ?thesis
    using assms(1) by (simp add: position_of_def Let_def)
qed

lemma position_in_order:
  assumes "distinct (map slot_of ps)" "i < length ps"
  shows "position_of (\<lambda>p. pdi_enclosure_id p = pdi_enclosure_id (ps ! i) \<and> pdi_slot_id p = pdi_slot_id (ps ! i)) ps = Some i"
proof (rule position_of_nth)
  show "\<not> (pdi_enclosure_id (ps ! j) = pdi_enclosure_id (ps ! i) \<and> pdi_slot_id (ps ! j) = pdi_slot_id (ps ! i))"
    if "j < i" for j
    using nth_eq_iff_index_eq[OF assms(1), of j i] that assms(2) by (auto simp: slot_of_def)
qed (use assms in auto)

text \<open>The links of the drive pages walk through the drives of the controller in their physical order, forwards and
  backwards: from each drive the next link leads to the one behind it and the previous link of that one leads back, there
  is none at the ends, and no drive is left out.\<close>

theorem drive_links_walk_the_shelf:
  assumes "distinct (map slot_of drives)"
  shows "let ps = in_position_order drives; url = (\<lambda>p. drive_url (pdi_enclosure_id p) (pdi_slot_id p))
    in set ps = set drives \<and> sorted (map position_key ps) \<and>
       map (\<lambda>p. neighbor_drive_url drives p 1) ps = (if ps = [] then [] else map (\<lambda>p. Some (url p)) (tl ps) @ [None]) \<and>
       map (\<lambda>p. neighbor_drive_url drives p (- 1)) ps = (if ps = [] then [] else None # map (\<lambda>p. Some (url p)) (butlast ps))"
proof -
  let ?ps = "in_position_order drives"
  have distinct: "distinct (map slot_of ?ps)"
    using assms unfolding in_position_order_def
    by (metis distinct_map distinct_sort set_sort)
  have found: "position_of (\<lambda>q. pdi_enclosure_id q = pdi_enclosure_id (?ps ! i) \<and> pdi_slot_id q = pdi_slot_id (?ps ! i)) ?ps = Some i"
    if "i < length ?ps" for i
    using position_in_order[OF distinct that] .
  have ahead: "neighbor_drive_url drives (?ps ! i) 1 =
      (if Suc i < length ?ps then Some (drive_url (pdi_enclosure_id (?ps ! Suc i)) (pdi_slot_id (?ps ! Suc i))) else None)"
    if "i < length ?ps" for i
    using found[OF that] by (auto simp: neighbor_drive_url_def Let_def nat_add_distrib)
  have behind: "neighbor_drive_url drives (?ps ! i) (- 1) =
      (if i = 0 then None else Some (drive_url (pdi_enclosure_id (?ps ! (i - 1))) (pdi_slot_id (?ps ! (i - 1)))))"
    if "i < length ?ps" for i
    using found[OF that] that by (auto simp: neighbor_drive_url_def Let_def nat_diff_distrib)
  have "map (\<lambda>p. neighbor_drive_url drives p 1) ?ps =
      (if ?ps = [] then [] else map (\<lambda>p. Some (drive_url (pdi_enclosure_id p) (pdi_slot_id p))) (tl ?ps) @ [None])"
    by (rule nth_equalityI) (auto simp: ahead nth_append nth_tl)
  moreover have "map (\<lambda>p. neighbor_drive_url drives p (- 1)) ?ps =
      (if ?ps = [] then [] else None # map (\<lambda>p. Some (drive_url (pdi_enclosure_id p) (pdi_slot_id p))) (butlast ?ps))"
    by (rule nth_equalityI) (auto simp: behind nth_Cons nth_butlast split: nat.split)
  ultimately show ?thesis
    by (simp add: Let_def) (simp add: in_position_order_def)
qed

lemma drive_links_walk_the_shelf_witness:
  "let drives = ps_physical_drives stored_row; ps = in_position_order drives
   in map (\<lambda>p. neighbor_drive_url drives p 1) ps =
        map (\<lambda>p. Some (drive_url (pdi_enclosure_id p) (pdi_slot_id p))) (tl ps) @ [None] \<and> length ps = 3"
proof -
  have "distinct (map slot_of (ps_physical_drives stored_row))"
    by (simp add: stored_row_def stored_drive_def slot_of_def)
  moreover have "length (in_position_order (ps_physical_drives stored_row)) = 3"
    by (simp add: in_position_order_def stored_row_def)
  moreover from this have "in_position_order (ps_physical_drives stored_row) \<noteq> []"
    by auto
  ultimately show ?thesis
    using drive_links_walk_the_shelf[of "ps_physical_drives stored_row"] by (simp add: Let_def)
qed

end
