(* ===== verification/HistoryProps.thy ===== *)
theory HistoryProps
  imports History HealthProps
begin

section \<open>What a history shows\<close>

text \<open>
  The three tiers of a history complement each other, and its markers are the changes of serial number along it.
\<close>

subsection \<open>Tiers\<close>

fun period_of :: "history_source \<Rightarrow> instant \<Rightarrow> instant" where
  "period_of From_raw t = t"
| "period_of From_hourly t = hour_bucket t"
| "period_of From_daily t = day_bucket t"

definition source_of :: "aggregate_point \<Rightarrow> history_source" where
  "source_of p = hk_source (ap_key p)"

text \<open>\<open>p\<close> is a finer record of the same drive for the period \<open>q\<close> stands for.\<close>

definition refines_point :: "aggregate_point \<Rightarrow> aggregate_point \<Rightarrow> bool" where
  "refines_point p q \<longleftrightarrow> ap_serial p = ap_serial q \<and>
     source_chronology_rank (source_of p) > source_chronology_rank (source_of q) \<and>
     period_of (source_of q) (ap_timestamp p) = ap_timestamp q"

text \<open>Of the rows at hand, a view keeps one for every period: none that a kept one refines, and what it leaves
  out is refined by a kept one.\<close>

definition one_tier_each :: "aggregate_point list \<Rightarrow> aggregate_point list \<Rightarrow> bool" where
  "one_tier_each available shown \<longleftrightarrow> set shown \<subseteq> set available \<and>
     (\<forall>p \<in> set shown. \<forall>q \<in> set shown. \<not> refines_point p q) \<and>
     (\<forall>q \<in> set available. q \<in> set shown \<or> (\<exists>p \<in> set shown. refines_point p q))"

text \<open>Rows carry the tier of the table they were read from.\<close>

definition tiered :: "selected_rows \<Rightarrow> bool" where
  "tiered rows \<longleftrightarrow> (\<forall>p \<in> set (sl_raw rows). hk_source (rw_key p) = From_raw) \<and>
     (\<forall>p \<in> set (sl_hourly rows). hk_source (ap_key p) = From_hourly) \<and>
     (\<forall>p \<in> set (sl_daily rows). hk_source (ap_key p) = From_daily)"

lemma point_of_raw_sel [simp]:
  "ap_timestamp (point_of_raw p) = rw_timestamp p" "ap_serial (point_of_raw p) = rw_serial p"
  "ap_key (point_of_raw p) = rw_key p"
  by (simp_all add: point_of_raw_def)

lemma in_uncovered [simp]: "q \<in> set (uncovered c ps) \<longleftrightarrow> q \<in> set ps \<and> (ap_timestamp q, ap_serial q) \<notin> c"
  by (auto simp: uncovered_def)

lemma in_raw_periods: "x \<in> raw_periods b ps \<longleftrightarrow> (\<exists>p \<in> set ps. x = (b (rw_timestamp p), rw_serial p))"
  by (auto simp: raw_periods_def)

lemma in_hourly_periods: "x \<in> hourly_periods b ps \<longleftrightarrow> (\<exists>p \<in> set ps. x = (b (ap_timestamp p), ap_serial p))"
  by (auto simp: hourly_periods_def)

lemma in_all_points: "p \<in> set (all_points rows) \<longleftrightarrow>
    (\<exists>r \<in> set (sl_raw rows). p = point_of_raw r) \<or> p \<in> set (sl_hourly rows) \<or> p \<in> set (sl_daily rows)"
  by (auto simp: all_points_def)

lemma tiered_sources:
  assumes "tiered rows" "p \<in> set (all_points rows)"
  shows "source_of p = From_raw \<Longrightarrow> \<exists>r \<in> set (sl_raw rows). p = point_of_raw r"
    and "source_of p = From_hourly \<Longrightarrow> p \<in> set (sl_hourly rows)"
    and "source_of p = From_daily \<Longrightarrow> p \<in> set (sl_daily rows)"
  using assms by (auto simp: tiered_def in_all_points source_of_def)

lemma hourly_kept: "q \<in> set (sl_hourly (error_rows rows)) \<longleftrightarrow>
    q \<in> set (sl_hourly rows) \<and> (ap_timestamp q, ap_serial q) \<notin> raw_periods hour_bucket (sl_raw rows)"
  by (simp add: error_rows_def Let_def)

lemma daily_kept: "q \<in> set (sl_daily (error_rows rows)) \<longleftrightarrow>
    q \<in> set (sl_daily rows) \<and> (ap_timestamp q, ap_serial q) \<notin> raw_periods day_bucket (sl_raw rows) \<and>
    (ap_timestamp q, ap_serial q) \<notin> hourly_periods day_bucket (sl_hourly (error_rows rows))"
  by (simp add: error_rows_def Let_def)

lemma raw_kept: "sl_raw (error_rows rows) = sl_raw rows"
  by (simp add: error_rows_def Let_def)

lemma tiered_error_rows: "tiered rows \<Longrightarrow> tiered (error_rows rows)"
  by (auto simp: tiered_def error_rows_def Let_def)

lemma error_rows_one_tier:
  assumes "tiered rows"
  shows "one_tier_each (all_points rows) (all_points (error_rows rows))"
proof -
  let ?e = "error_rows rows"
  note kept = raw_kept hourly_kept daily_kept in_raw_periods in_hourly_periods
  have sub: "set (all_points ?e) \<subseteq> set (all_points rows)"
    by (auto simp: in_all_points kept)
  have apart: "\<not> refines_point p q" if p: "p \<in> set (all_points ?e)" and q: "q \<in> set (all_points ?e)" for p q
  proof
    assume ref: "refines_point p q"
    note srcs = tiered_sources[OF tiered_error_rows[OF assms] p] tiered_sources[OF tiered_error_rows[OF assms] q]
    show False
    proof (cases "source_of q")
      case From_daily
      then have "day_bucket (ap_timestamp p) = ap_timestamp q" "source_of p \<noteq> From_daily" "ap_serial p = ap_serial q"
        using ref by (auto simp: refines_point_def)
      then show False
        using srcs From_daily by (cases "source_of p")
          (auto simp: raw_kept daily_kept in_raw_periods in_hourly_periods)
    next
      case From_hourly
      then have "hour_bucket (ap_timestamp p) = ap_timestamp q" "source_of p = From_raw" "ap_serial p = ap_serial q"
        using ref by (cases "source_of p"; auto simp: refines_point_def)+
      then show False
        using srcs From_hourly by (auto simp: kept)
    next
      case From_raw
      then show False
        using ref by (cases "source_of p") (auto simp: refines_point_def)
    qed
  qed
  have raw: "\<exists>p \<in> set (all_points ?e). refines_point p q"
    if "r \<in> set (sl_raw rows)" "source_of q \<noteq> From_raw" "period_of (source_of q) (rw_timestamp r) = ap_timestamp q"
      "rw_serial r = ap_serial q" for r q
    using that assms
    by (intro bexI[of _ "point_of_raw r"]; cases "source_of q")
      (auto simp: refines_point_def source_of_def tiered_def in_all_points kept)
  have covered: "q \<in> set (all_points ?e) \<or> (\<exists>p \<in> set (all_points ?e). refines_point p q)"
    if q: "q \<in> set (all_points rows)" for q
  proof (cases "source_of q")
    case From_raw
    then show ?thesis
      using tiered_sources(1)[OF assms q] by (auto simp: in_all_points kept)
  next
    case From_hourly
    then have "q \<in> set (sl_hourly rows)"
      using tiered_sources(2)[OF assms q] by simp
    then consider "q \<in> set (sl_hourly ?e)" | "(ap_timestamp q, ap_serial q) \<in> raw_periods hour_bucket (sl_raw rows)"
      by (auto simp: hourly_kept)
    then show ?thesis
    proof cases
      case 2
      then obtain p where "p \<in> set (sl_raw rows)" "hour_bucket (rw_timestamp p) = ap_timestamp q" "rw_serial p = ap_serial q"
        by (auto simp: in_raw_periods)
      then show ?thesis
        using From_hourly by (intro disjI2 raw) simp_all
    qed (simp add: in_all_points)
  next
    case From_daily
    then have daily: "q \<in> set (sl_daily rows)"
      using tiered_sources(3)[OF assms q] by simp
    have hourly: "\<exists>p \<in> set (all_points ?e). refines_point p q"
      if "p \<in> set (sl_hourly ?e)" "day_bucket (ap_timestamp p) = ap_timestamp q" "ap_serial p = ap_serial q" for p
      using that From_daily tiered_error_rows[OF assms]
      by (intro bexI[of _ p]) (auto simp: refines_point_def source_of_def tiered_def in_all_points)
    show ?thesis
    proof (cases "q \<in> set (sl_daily ?e)")
      case True
      then show ?thesis by (simp add: in_all_points)
    next
      case False
      then consider "(ap_timestamp q, ap_serial q) \<in> raw_periods day_bucket (sl_raw rows)"
        | "(ap_timestamp q, ap_serial q) \<in> hourly_periods day_bucket (sl_hourly ?e)"
        using daily by (auto simp: daily_kept)
      then show ?thesis
      proof cases
        case 1
        then obtain p where "p \<in> set (sl_raw rows)" "day_bucket (rw_timestamp p) = ap_timestamp q" "rw_serial p = ap_serial q"
          by (auto simp: in_raw_periods)
        then show ?thesis
          using From_daily by (intro disjI2 raw) simp_all
      next
        case 2
        then obtain p where "p \<in> set (sl_hourly ?e)" "day_bucket (ap_timestamp p) = ap_timestamp q" "ap_serial p = ap_serial q"
          by (auto simp: in_hourly_periods)
        then show ?thesis
          by (intro disjI2 hourly)
      qed
    qed
  qed
  show ?thesis
    unfolding one_tier_each_def using sub apart covered by blast
qed

lemma one_tier_cong: "set shown = set shown' \<Longrightarrow> set available = set available' \<Longrightarrow>
    one_tier_each available shown = one_tier_each available' shown'"
  by (simp add: one_tier_each_def)

definition measured :: "selected_rows \<Rightarrow> selected_rows" where
  "measured rows =
     \<lparr>sl_raw = filter (\<lambda>p. rw_temperature p \<noteq> None) (sl_raw rows), sl_hourly = filter (\<lambda>p. ap_avg p \<noteq> None) (sl_hourly rows),
      sl_daily = filter (\<lambda>p. ap_avg p \<noteq> None) (sl_daily rows)\<rparr>"

lemma all_points_measured: "all_points (measured rows) = filter (\<lambda>p. ap_avg p \<noteq> None) (all_points rows)"
  by (simp add: all_points_def measured_def filter_map comp_def point_of_raw_def)

lemma temperature_measured: "temperature_rows rows = error_rows (measured rows)"
  by (simp add: temperature_rows_def measured_def)

lemma tiered_tables:
  "tiered \<lparr>sl_raw = load_raw_points d e k cutoff until, sl_hourly = load_hourly_points d e k cutoff until,
           sl_daily = load_daily_points d e k cutoff until\<rparr>"
proof -
  have bucket: "hk_source (ap_key (bucket_point_of src x)) = src" for src x
    by (cases x) (simp add: bucket_point_of_def split: prod.split)
  have raw: "hk_source (rw_key (raw_point_of x)) = From_raw" for x
    by (cases x) (simp add: raw_point_of_def)
  show ?thesis
    by (auto simp: tiered_def load_raw_points_def load_hourly_points_def load_daily_points_def load_bucket_points_def
        bucket raw simp del: split_paired_All)
qed

lemma tiered_select: "tiered rows \<Longrightarrow> tiered (select_rows_for_serial_window rows current)"
  by (simp add: select_rows_for_serial_window_def tiered_def Let_def)

lemma loaded_tiered:
  assumes "load_selected_history_rows d e k current range_days now = Inr rows"
  shows "tiered rows"
proof -
  obtain until where "rows = (let r = select_rows_for_serial_window
      \<lparr>sl_raw = load_raw_points d e k (until - days range_days) until, sl_hourly = load_hourly_points d e k (until - days range_days) until,
       sl_daily = load_daily_points d e k (until - days range_days) until\<rparr> current
    in \<lparr>sl_raw = sort_key raw_sort_key (sl_raw r), sl_hourly = sort_key point_sort_key (sl_hourly r),
        sl_daily = sort_key point_sort_key (sl_daily r)\<rparr>)"
    using assms unfolding load_selected_history_rows_def Let_def by (auto simp: bindr_Inr_iff split: if_splits)
  then show ?thesis
    using tiered_select[OF tiered_tables] by (simp add: tiered_def Let_def)
qed

text \<open>C29. Both histories of a slot show every period once and lose none: of the samples, hourly rows and daily rows
  selected for the window no shown one refines another (no reading is counted in two tiers), and each row left out has a
  shown finer record of the same drive in its hour or day. The temperature history does so for the rows that carry
  a temperature.\<close>

theorem history_shows_each_period_once:
  assumes "load_selected_history_rows d e k current range_days now = Inr rows"
  shows "\<exists>errors temperatures.
    load_drive_error_series d e k current range_days now = Inr errors \<and>
    one_tier_each (all_points rows) (ds_points errors) \<and>
    load_drive_temperature_series d e k current range_days now = Inr temperatures \<and>
    one_tier_each (filter (\<lambda>p. ap_avg p \<noteq> None) (all_points rows)) (ds_points temperatures)"
proof -
  note tiered = loaded_tiered[OF assms]
  have "tiered (measured rows)"
    using tiered by (auto simp: tiered_def measured_def)
  from error_rows_one_tier[OF this]
  have kept: "one_tier_each (all_points (measured rows)) (all_points (error_rows (measured rows)))" .
  then have filtered: "filter (\<lambda>p. ap_avg p \<noteq> None) (all_points (error_rows (measured rows))) = all_points (error_rows (measured rows))"
    by (auto simp: one_tier_each_def all_points_measured intro!: filter_True)
  then have measured: "one_tier_each (filter (\<lambda>p. ap_avg p \<noteq> None) (all_points rows))
      (sort_key point_sort_key (filter (\<lambda>p. ap_avg p \<noteq> None) (all_points (temperature_rows rows))))"
    using kept by (simp only: temperature_measured filtered one_tier_each_def all_points_measured set_sort simp_thms) blast
  have "one_tier_each (all_points rows) (sort_key point_sort_key (all_points (error_rows rows)))"
    using error_rows_one_tier[OF tiered] by (simp add: one_tier_each_def)
  then show ?thesis
    using measured by (simp add: load_drive_error_series_def load_drive_temperature_series_def assms series_of_def Let_def)
qed

text \<open>A drive with a sample, and an hourly row and a daily row of the same day.\<close>

definition stored_history :: db where
  "stored_history =
     (let m = \<lparr>mr_temp_min = Some 30, mr_temp_max = Some 31, mr_temp_avg = Some 30, mr_temp_count = 1, mr_media_errors_max = 0,
               mr_other_errors_max = 0, mr_predictive_failures_max = 0, mr_sample_count = 1\<rparr>
      in empty_db\<lparr>db_snapshots := [stored_row], db_hourly := [((0, 252, 0, ''S0''), m)], db_daily := [((0, 252, 0, ''S0''), m)]\<rparr>)"

lemma history_shows_each_period_once_witness:
  "\<exists>rows errors. load_selected_history_rows stored_history 252 0 ''S0'' 7 (Aware (days 1)) = Inr rows \<and>
     load_drive_error_series stored_history 252 0 ''S0'' 7 (Aware (days 1)) = Inr errors \<and>
     one_tier_each (all_points rows) (ds_points errors)"
proof -
  obtain rows where rows: "load_selected_history_rows stored_history 252 0 ''S0'' 7 (Aware (days 1)) = Inr rows"
    by (simp add: load_selected_history_rows_def Let_def)
  from history_shows_each_period_once[OF this] show ?thesis
    using rows by blast
qed

subsection \<open>Markers\<close>

lemma markers_from_serials:
  "map rk_previous (replacement_markers_from (Some x) ps) = butlast (remdups_adj (x # map ap_serial ps))"
  "map rk_current (replacement_markers_from (Some x) ps) = tl (remdups_adj (x # map ap_serial ps))"
proof (induction ps arbitrary: x)
  case (Cons p ps)
  { case 1 from Cons.IH(1) show ?case by simp
  next case 2 from Cons.IH(2) show ?case by simp }
qed simp_all

lemma sort_key_of_sorted: "sorted (map f xs) \<Longrightarrow> sort_key f xs = xs"
  by (induction xs) (auto simp: insort_is_Cons)

text \<open>The replacement markers of a history are the changes of serial number along its points in their order: read
  with the first serial number in front they are its runs, so no replacement is missed, none is invented, and each
  marker starts at the serial number the one before it ended with.\<close>

theorem markers_are_serial_changes:
  assumes "load_drive_temperature_series d e k current range_days now = Inr series \<or>
           load_drive_error_series d e k current range_days now = Inr series"
  shows "map rk_previous (ds_markers series) = butlast (remdups_adj (map ap_serial (ds_points series))) \<and>
         map rk_current (ds_markers series) = tl (remdups_adj (map ap_serial (ds_points series)))"
proof -
  have series: "\<exists>ps. ds_points series = sort_key point_sort_key ps \<and> ds_markers series = replacement_markers (ds_points series)"
    using assms by (auto simp: load_drive_temperature_series_def load_drive_error_series_def bindr_Inr_iff series_of_def Let_def)
  then have "ds_markers series = replacement_markers_from None (ds_points series)"
    by (auto simp: replacement_markers_def sort_key_of_sorted)
  then show ?thesis
    by (cases "ds_points series") (simp_all add: markers_from_serials)
qed

lemma markers_are_serial_changes_witness:
  "\<exists>series. load_drive_error_series stored_history 252 0 ''S0'' 7 (Aware (days 1)) = Inr series \<and>
     map rk_current (ds_markers series) = tl (remdups_adj (map ap_serial (ds_points series)))"
proof -
  obtain series where series: "load_drive_error_series stored_history 252 0 ''S0'' 7 (Aware (days 1)) = Inr series"
    by (simp add: load_drive_error_series_def load_selected_history_rows_def Let_def)
  from markers_are_serial_changes[OF disjI2[OF this]] show ?thesis
    using series by blast
qed

end
