(* ===== verification/DetectorProps.thy ===== *)
theory DetectorProps
  imports Database
begin

section \<open>Properties of the event detector\<close>

text \<open>
  The temperature loop and its closed form, the silence of an unchanged machine, the stamping of
  serial numbers, missing and replaced drives, and the foreign-configuration edges.
  The configuration validator guarantees the threshold order \<open>sane\<close> asks for.
\<close>

subsection \<open>Dictionaries built by comprehension\<close>

lemma map_of_fold_update:
  "map_of (fold (\<lambda>x. AList.update (key x) (val x)) xs d) k =
     (case map_of (rev (map (\<lambda>x. (key x, val x)) xs)) k of Some v \<Rightarrow> Some v | None \<Rightarrow> map_of d k)"
  by (induction xs arbitrary: d) (auto simp: update_conv' map_add_def split: option.splits)

lemma map_of_dict_of:
  "map_of (dict_of key xs) k = map_of (rev (map (\<lambda>x. (key x, x)) xs)) k"
  by (simp add: dict_of_def map_of_fold_update [where val = "\<lambda>x. x"] split: option.splits)

lemma map_of_distinct_keys:
  assumes "distinct (map key xs)" and "x \<in> set xs"
  shows "map_of (rev (map (\<lambda>x. (key x, val x)) xs)) (key x) = Some (val x)"
proof -
  have "map fst (rev (map (\<lambda>x. (key x, val x)) xs)) = rev (map key xs)" by (simp add: rev_map)
  with assms have "distinct (map fst (rev (map (\<lambda>x. (key x, val x)) xs)))"
    by (metis distinct_rev)
  then show ?thesis using assms(2) by (auto intro!: map_of_is_SomeI)
qed

lemma dict_of_distinct:
  "distinct (map key xs) \<Longrightarrow> x \<in> set xs \<Longrightarrow> map_of (dict_of key xs) (key x) = Some x"
  by (simp add: map_of_dict_of map_of_distinct_keys [where val = "\<lambda>x. x"])

lemma dict_of_None: "map_of (dict_of key xs) k = None \<longleftrightarrow> k \<notin> key ` set xs"
  by (auto simp: map_of_dict_of map_of_eq_None_iff image_iff)

lemma dict_of_Some: "map_of (dict_of key xs) k = Some x \<Longrightarrow> x \<in> set xs \<and> key x = k"
  by (auto simp: map_of_dict_of dest!: map_of_SomeD)

lemma distinct_dict_of: "distinct (map fst (dict_of key xs))"
proof -
  have "distinct (map fst (fold (\<lambda>x d. AList.update (key x) x d) xs d))"
    if "distinct (map fst d)" for d :: "('a \<times> 'b) list"
    using that by (induction xs arbitrary: d) (auto simp: distinct_update)
  then show ?thesis by (simp add: dict_of_def)
qed

lemma dict_of_member:
  "distinct (map key xs) \<Longrightarrow> x \<in> set xs \<Longrightarrow> x \<in> snd ` set (dict_of key xs)"
  using dict_of_distinct [of key xs x] by (force dest: map_of_SomeD)

subsection \<open>Names of slots\<close>

lemma show_int_no_colon: "CHR '':'' \<notin> set (show_int i)"
proof -
  have "\<not> is_digit CHR '':''" by (simp add: is_digit_def code_of_def)
  then show ?thesis
    using show_nat_digits by (auto simp: show_int_def)
qed

lemma colon_split:
  "CHR '':'' \<notin> set x \<Longrightarrow> CHR '':'' \<notin> set x' \<Longrightarrow> x @ CHR '':'' # y = x' @ CHR '':'' # y' \<Longrightarrow> x = x' \<and> y = y'"
  by (induction x arbitrary: x') (auto simp: Cons_eq_append_conv append_eq_Cons_conv)

lemma drive_subject_inject [simp]: "drive_subject d = drive_subject e \<longleftrightarrow> slot_of d = slot_of e"
proof
  assume "drive_subject d = drive_subject e"
  then have "show_int (pdi_enclosure_id d) @ CHR '':'' # (CHR ''s'' # show_int (pdi_slot_id d)) =
      show_int (pdi_enclosure_id e) @ CHR '':'' # (CHR ''s'' # show_int (pdi_slot_id e))"
    by (simp add: drive_subject_def)
  from colon_split [OF show_int_no_colon show_int_no_colon this]
  show "slot_of d = slot_of e" by (simp add: slot_of_def)
qed (simp add: slot_of_def drive_subject_def)

subsection \<open>The temperature loop\<close>

text \<open>The order \<open>config.py\<close> enforces on the thresholds.\<close>

definition sane :: "thresholds \<Rightarrow> bool" where
  "sane th \<longleftrightarrow> th_warning th < th_critical th \<and> 0 < th_hysteresis th \<and> 0 < th_roc_hysteresis th"

lemma sane_settings:
  "validate_runtime_values network_ok s = Inr s' \<Longrightarrow> sane (detector_thresholds s)"
  using valid_temperatures [of network_ok s s'] by (simp add: sane_def detector_thresholds_def)

text \<open>
  The state a reading settles in: a threshold holds from above at its value, and from the state it
  guards (or a worse one) at its value less the hysteresis.
\<close>

definition settled :: "thresholds \<Rightarrow> int \<Rightarrow> temp_state \<Rightarrow> temp_state" where
  "settled th t st =
     (if t \<ge> th_critical th - (if st = TempCritical then th_hysteresis th else 0) then TempCritical
      else if t \<ge> th_warning th - (if st = TempOk then 0 else th_hysteresis th) then TempWarning
      else TempOk)"

lemma settled_idem: "sane th \<Longrightarrow> settled th t (settled th t st) = settled th t st"
  by (cases st) (auto simp: settled_def sane_def)

lemma step_None: "sane th \<Longrightarrow> temperature_step th d t st = None \<longleftrightarrow> settled th t st = st"
  by (cases st) (auto simp: settled_def sane_def temperature_step_def Let_def)

lemma step_settled:
  "sane th \<Longrightarrow> temperature_step th d t st = Some (st', e) \<Longrightarrow> settled th t st' = settled th t st"
  by (cases st) (auto simp: settled_def sane_def temperature_step_def Let_def split: if_splits)

text \<open>The distance to the settled state, which every iteration shortens.\<close>

fun band :: "temp_state \<Rightarrow> int" where
  "band TempOk = 0"
| "band TempWarning = 1"
| "band TempCritical = 2"

definition distance :: "thresholds \<Rightarrow> int \<Rightarrow> temp_state \<Rightarrow> nat" where
  "distance th t st = nat \<bar>band (settled th t st) - band st\<bar>"

lemma step_closer:
  "sane th \<Longrightarrow> temperature_step th d t st = Some (st', e) \<Longrightarrow> distance th t st' < distance th t st"
  by (cases st) (auto simp: settled_def sane_def distance_def temperature_step_def Let_def split: if_splits)

lemma temperature_loop_returns:
  assumes "sane th"
  shows "\<exists>rest. temperature_loop th d t events st = Some (events @ rest, settled th t st)
    \<and> length rest = distance th t st"
proof (induction "distance th t st" arbitrary: events st rule: less_induct)
  case less
  show ?case
  proof (cases "temperature_step th d t st")
    case None
    with assms have "settled th t st = st" by (simp add: step_None)
    then show ?thesis using None by (subst temperature_loop.simps) (simp add: distance_def)
  next
    case (Some x)
    obtain st' e where x: "x = (st', e)" by (cases x)
    note step = Some [unfolded x]
    from less [OF step_closer [OF assms step], of "events @ [e]"] obtain rest where
      "temperature_loop th d t (events @ [e]) st' = Some (events @ e # rest, settled th t st')"
      "length rest = distance th t st'" by auto
    moreover have "distance th t st = Suc (distance th t st')"
      using step assms by (cases st) (auto simp: settled_def sane_def distance_def temperature_step_def Let_def split: if_splits)
    ultimately show ?thesis
      using step step_settled [OF assms step]
      by (subst temperature_loop.simps) (auto intro!: exI [of _ "e # rest"])
  qed
qed

lemma transitions_return:
  assumes "sane th" and "pdi_temperature d = Some t"
  obtains events where "temperature_transitions th d st = Some (events, settled th t st)"
    and "length events = distance th t st"
proof -
  from temperature_loop_returns [OF assms(1), of d t "[]" st] obtain rest where
    "temperature_loop th d t [] st = Some (rest, settled th t st)" "length rest = distance th t st"
    by auto
  with assms(2) that show thesis by (simp add: temperature_transitions_def)
qed

lemma distance_zero: "settled th t st = st \<Longrightarrow> distance th t st = 0"
  by (simp add: distance_def)

subsection \<open>All drives\<close>

definition reading :: "physical_drive_info \<Rightarrow> int" where
  "reading d = (case pdi_temperature d of None \<Rightarrow> 0 | Some t \<Rightarrow> t)"

text \<open>What the pass over the drives writes: each drive with a reading, its settled state.\<close>

definition settle_all ::
  "thresholds \<Rightarrow> (physical_drive_info \<Rightarrow> temp_state) \<Rightarrow> physical_drive_info list \<Rightarrow>
   (drive_id \<times> temp_state) list \<Rightarrow> (drive_id \<times> temp_state) list" where
  "settle_all th start drives updates =
     fold (\<lambda>d. AList.update (drive_id_of d) (settled th (reading d) (start d)))
       (filter (\<lambda>d. pdi_temperature d \<noteq> None) drives) updates"

lemma drive_temperatures_settle:
  assumes "sane th"
  shows "\<exists>events. drive_temperatures th states previous replaced drives updates =
      Some (settle_all th (initial_temp_state states previous replaced) drives updates, events)
    \<and> ((\<forall>d \<in> set drives. pdi_temperature d \<noteq> None \<longrightarrow>
          settled th (reading d) (initial_temp_state states previous replaced d) =
          initial_temp_state states previous replaced d) \<longrightarrow> events = [])"
proof (induction drives arbitrary: updates)
  case Nil
  then show ?case by (simp add: settle_all_def)
next
  case (Cons d ds)
  let ?st = "initial_temp_state states previous replaced d"
  show ?case
  proof (cases "pdi_temperature d")
    case None
    with Cons.IH [of updates] show ?thesis by (auto simp: settle_all_def)
  next
    case (Some t)
    then have r: "reading d = t" by (simp add: reading_def)
    from transitions_return [OF assms Some] obtain first where
      f: "temperature_transitions th d ?st = Some (first, settled th t ?st)"
      "length first = distance th t ?st" by blast
    from Cons.IH [of "AList.update (drive_id_of d) (settled th t ?st) updates"] obtain rest where
      rest: "drive_temperatures th states previous replaced ds
        (AList.update (drive_id_of d) (settled th t ?st) updates) =
        Some (settle_all th (initial_temp_state states previous replaced) ds
          (AList.update (drive_id_of d) (settled th t ?st) updates), rest)"
      "(\<forall>d \<in> set ds. pdi_temperature d \<noteq> None \<longrightarrow>
          settled th (reading d) (initial_temp_state states previous replaced d) =
          initial_temp_state states previous replaced d) \<longrightarrow> rest = []" by blast
    have "first = []" if "settled th t ?st = ?st"
      using f(2) that by (simp add: distance_zero)
    with Some f rest r show ?thesis
      by (intro exI [of _ "first @ rest"] conjI impI) (simp_all add: settle_all_def)
  qed
qed

lemma settle_all_lookup:
  assumes "distinct (map slot_of drives)" and "d \<in> set drives" and "pdi_temperature d = Some t"
  shows "map_of (settle_all th start drives []) (drive_id_of d) = Some (settled th t (start d))"
proof -
  let ?ds = "filter (\<lambda>d. pdi_temperature d \<noteq> None) drives"
  have "distinct (map slot_of ?ds)" using assms(1) by (simp add: distinct_map_filter)
  then have "distinct (map drive_id_of ?ds)"
    by (auto simp: distinct_map inj_on_def slot_of_def drive_id_of_def)
  from map_of_distinct_keys [OF this, of d "\<lambda>d. settled th (reading d) (start d)"] assms(2,3)
  show ?thesis
    by (simp add: settle_all_def map_of_fold_update reading_def)
qed

lemma distinct_settle_all:
  assumes "distinct (map fst updates)"
  shows "distinct (map fst (settle_all th start drives updates))"
proof -
  have "distinct (map fst (fold (\<lambda>d. AList.update (drive_id_of d) (f d)) ds updates))" for f ds
    using assms by (induction ds arbitrary: updates) (auto simp: distinct_update)
  then show ?thesis by (simp add: settle_all_def)
qed

lemma map_of_filter_key: "map_of (filter (\<lambda>x. fst x = k) xs) k = map_of xs k"
  by (induction xs) auto

lemma map_of_sort_key: "map_of (sort_key fst xs) k = map_of xs k"
proof (cases "k \<in> fst ` set xs")
  case True
  then obtain x where "x \<in> set xs" "fst x = k" by auto
  then have "filter (\<lambda>x. fst x = k) (sort_key fst xs) = filter (\<lambda>x. fst x = k) xs"
    using sort_key_stable [of fst k xs] by simp
  then show ?thesis by (metis map_of_filter_key)
next
  case False
  then have "map_of xs k = None" by (simp add: map_of_eq_None_iff)
  moreover from False have "map_of (sort_key fst xs) k = None" by (simp add: map_of_eq_None_iff)
  ultimately show ?thesis by simp
qed

subsection \<open>The temperature property\<close>

text \<open>C23. The temperature loop of a drive returns for every reading, in the state the thresholds and
  the hysteresis give, having emitted one event per band it crossed.\<close>

theorem temperature_settles:
  assumes "validate_runtime_values network_ok s = Inr s'" and "pdi_temperature d = Some t"
  shows "map_option (\<lambda>(events, st'). (length events, st'))
      (temperature_transitions (detector_thresholds s) d st) =
    Some (nat \<bar>band (settled (detector_thresholds s) t st) - band st\<bar>, settled (detector_thresholds s) t st)"
proof -
  from transitions_return [OF sane_settings [OF assms(1)] assms(2), of st] obtain events where
    "temperature_transitions (detector_thresholds s) d st = Some (events, settled (detector_thresholds s) t st)"
    "length events = distance (detector_thresholds s) t st" by blast
  then show ?thesis by (simp add: distance_def)
qed

definition sample_drive :: "int \<Rightarrow> string \<Rightarrow> int option \<Rightarrow> physical_drive_info" where
  "sample_drive slot serial temperature =
     \<lparr>pdi_enclosure_id = 2, pdi_slot_id = slot, pdi_device_id = slot, pdi_model = ''M'',
      pdi_serial_number = serial, pdi_firmware_version = ''F'', pdi_size_bytes = 1, pdi_interface = ''SAS'',
      pdi_media_type = ''HDD'', pdi_state = ''Onln'', pdi_disk_group_id = Some 0, pdi_temperature = temperature,
      pdi_media_errors = 0, pdi_other_errors = 0, pdi_predictive_failures = 0, pdi_smart_alert = False,
      pdi_sas_address = ''A''\<rparr>"

theorem temperature_settles_witness:
  "map_option (\<lambda>(events, st'). (length events, st'))
      (temperature_transitions (detector_thresholds sample_settings) (sample_drive 1 ''S'' (Some 56)) TempCritical) =
    Some (0, TempCritical) \<and>
   map_option (\<lambda>(events, st'). (length events, st'))
      (temperature_transitions (detector_thresholds sample_settings) (sample_drive 1 ''S'' (Some 40)) TempCritical) =
    Some (2, TempOk)"
  using temperature_settles [OF sample_settings_valid, of "sample_drive 1 ''S'' (Some 56)" 56 TempCritical]
    temperature_settles [OF sample_settings_valid, of "sample_drive 1 ''S'' (Some 40)" 40 TempCritical]
  by (simp add: sample_drive_def sample_settings_def detector_thresholds_def settled_def)

subsection \<open>An unchanged machine\<close>

lemma quiet_virtual_drives:
  assumes "distinct (map vdi_vd_id (sc_virtual_drives c))" and "ps_virtual_drives p = sc_virtual_drives c"
  shows "detect_virtual_drives p c = []"
proof -
  have "vd_changes (sc_virtual_drives c) d = []" if "d \<in> set (sc_virtual_drives c)" for d
    using dict_of_distinct [OF assms(1) that] by (simp add: vd_changes_def)
  moreover have "vd_arrivals (sc_virtual_drives c) d = []" if "d \<in> set (sc_virtual_drives c)" for d
    using that by (simp add: vd_arrivals_def)
  ultimately show ?thesis by (simp add: detect_virtual_drives_def assms(2))
qed

lemma same_drive:
  assumes "distinct (map slot_of ds)" and "d \<in> set ds"
  shows "slot_change_of ds d = SameDrive d"
  using dict_of_distinct [OF assms] by (simp add: slot_change_of_def)

lemma dict_of_keys: "(k, x) \<in> set (dict_of key xs) \<Longrightarrow> k = key x \<and> x \<in> set xs"
  using dict_of_Some [of key xs k x] map_of_eq_Some_iff [OF distinct_dict_of, of key xs k x] by blast

lemma quiet_replacements:
  assumes "distinct (map slot_of (sc_physical_drives c))" and "ps_physical_drives p = sc_physical_drives c"
  shows "detect_drive_replacements p c d = (d, [], [])"
proof -
  have "removed_drives (sc_physical_drives c) (sc_physical_drives c) = []"
    by (auto simp: removed_drives_def filter_empty_conv dest!: dict_of_keys)
  moreover have "replaced_slots (sc_physical_drives c) (sc_physical_drives c) = []"
    using same_drive [OF assms(1)] by (simp add: replaced_slots_def filter_empty_conv)
  moreover have "concat (map (replacement_event (sc_physical_drives c)) (sc_physical_drives c)) = []"
    using same_drive [OF assms(1)] by (simp add: replacement_event_def)
  ultimately show ?thesis by (simp add: detect_drive_replacements_def assms(2) Let_def)
qed

lemma quiet_physical_drives:
  assumes "distinct (map slot_of (sc_physical_drives c))" and "ps_physical_drives p = sc_physical_drives c"
  shows "detect_physical_drives p c [] = []"
proof -
  have "drive_changes (sc_physical_drives c) [] d = []" if "d \<in> set (sc_physical_drives c)" for d
    using dict_of_distinct [OF assms(1) that] by (simp add: drive_changes_def Let_def counter_events_def counters_def)
  then show ?thesis by (simp add: detect_physical_drives_def assms(2))
qed

lemma quiet_cachevault:
  assumes "ps_cachevault p = map_option cachevault_row (sc_cachevault c)"
    and "ps_cv_present p = ci_cv_present (sc_controller c)"
  shows "detect_cachevault th p c = []"
  using assms
  by (cases "sc_cachevault c")
    (auto simp: detect_cachevault_def cachevault_gone_events_def cachevault_change_events_def cachevault_row_def
      capacitance_low_def split: option.splits)

lemma quiet_roc:
  assumes "sane th"
  shows "detect_roc_temperature th t t = []"
  using assms by (auto simp: detect_roc_temperature_def roc_change_events_def sane_def split: option.splits)

lemma compare_updates:
  "compare_snapshots th previous c d = (d', events, replaced) \<Longrightarrow>
     det_updates d' = det_updates d \<and> det_states d' = det_states d \<and> det_foreign_present d' = det_foreign_present d"
  by (auto simp: compare_snapshots_def detect_drive_replacements_def Let_def split: option.splits)

definition foreign_after :: "foreign_config_info option \<Rightarrow> bool option \<Rightarrow> bool option" where
  "foreign_after f before = (case f of None \<Rightarrow> before | Some x \<Rightarrow> Some (fci_present x))"

lemma foreign_updates:
  "det_updates (fst (detect_foreign_config f d)) = det_updates d"
  "det_foreign_present (fst (detect_foreign_config f d)) = foreign_after f (det_foreign_present d)"
  by (simp_all add: detect_foreign_config_def foreign_after_def split: option.splits)

lemma foreign_quiet:
  "det_foreign_present d = foreign_after f b \<Longrightarrow> snd (detect_foreign_config f d) = []"
  by (auto simp: detect_foreign_config_def foreign_after_def split: option.splits)

lemma detect_updates:
  assumes "sane th" and "detect th previous c d = Some (d1, events)"
  shows "\<exists>start. det_updates d1 = settle_all th start (sc_physical_drives c) []"
    and "det_foreign_present d1 = foreign_after (sc_foreign_config c) (det_foreign_present d)"
proof -
  obtain da compared replaced where
    cmp: "compare_snapshots th previous c (d\<lparr>det_updates := [], det_clears := []\<rparr>) = (da, compared, replaced)"
    by (metis prod_cases3)
  from compare_updates [OF this] have da: "det_updates da = []" "det_foreign_present da = det_foreign_present d"
    by simp_all
  let ?start = "initial_temp_state (det_states da) (temperature_states_from_previous th previous) replaced"
  from drive_temperatures_settle [OF assms(1), of "det_states da" "temperature_states_from_previous th previous"
      replaced "sc_physical_drives c" "[]"] obtain ts where
    "drive_temperatures th (det_states da) (temperature_states_from_previous th previous) replaced
      (sc_physical_drives c) [] = Some (settle_all th ?start (sc_physical_drives c) [], ts)" by blast
  with da have "detect_temperatures th previous c replaced da =
      Some (da\<lparr>det_updates := settle_all th ?start (sc_physical_drives c) []\<rparr>, ts)"
    by (simp add: detect_temperatures_def)
  with assms(2) cmp have "d1 = fst (detect_foreign_config (sc_foreign_config c)
      (da\<lparr>det_updates := settle_all th ?start (sc_physical_drives c) []\<rparr>))"
    by (auto simp: detect_def split: prod.splits)
  then show "\<exists>start. det_updates d1 = settle_all th start (sc_physical_drives c) []"
    and "det_foreign_present d1 = foreign_after (sc_foreign_config c) (det_foreign_present d)"
    by (auto simp: foreign_updates da)
qed

lemma detect_quiet:
  assumes sane: "sane th"
    and p: "p = previous_of row" and row: "insert_snapshot c store_raw raw b = Inr (b', row)"
    and slots: "distinct (map slot_of (sc_physical_drives c))"
    and vds: "distinct (map vdi_vd_id (sc_virtual_drives c))"
    and states: "\<And>x. x \<in> set (sc_physical_drives c) \<Longrightarrow> pdi_temperature x \<noteq> None \<Longrightarrow>
      \<exists>st. map_of (det_states d) (drive_id_of x) = Some st \<and> settled th (reading x) st = st"
    and foreign: "det_foreign_present d = foreign_after (sc_foreign_config c) before"
  shows "map_option snd (detect th (Some p) c d) = Some []"
proof -
  from row have fields: "ps_alarm_state p = ci_alarm_state (sc_controller c)"
      "ps_cv_present p = ci_cv_present (sc_controller c)"
      "ps_roc_temperature p = ci_roc_temperature (sc_controller c)"
      "ps_virtual_drives p = sc_virtual_drives c" "ps_physical_drives p = sc_physical_drives c"
      "ps_cachevault p = map_option cachevault_row (sc_cachevault c)"
    by (auto simp: p insert_snapshot_def bindr_Inr_iff Let_def previous_of_def previous_snapshot.truncate_def)
  let ?d = "d\<lparr>det_updates := [], det_clears := []\<rparr>"
  have cmp: "compare_snapshots th (Some p) c ?d = (?d, [], [])"
    by (simp add: compare_snapshots_def quiet_replacements [OF slots fields(5)] detect_controller_def
      fields(1) quiet_virtual_drives [OF vds fields(4)] quiet_physical_drives [OF slots fields(5)]
      quiet_cachevault [OF fields(6,2)])
  let ?start = "initial_temp_state (det_states ?d) (temperature_states_from_previous th (Some p)) []"
  have settled: "settled th (reading x) (?start x) = ?start x"
    if "x \<in> set (sc_physical_drives c)" "pdi_temperature x \<noteq> None" for x
    using states [OF that] by (auto simp: initial_temp_state_def)
  from drive_temperatures_settle [OF sane, of "det_states ?d" "temperature_states_from_previous th (Some p)"
      "[]" "sc_physical_drives c" "[]"] settled obtain ups where
    "drive_temperatures th (det_states ?d) (temperature_states_from_previous th (Some p)) []
      (sc_physical_drives c) [] = Some (ups, [])" by blast
  then have temps: "detect_temperatures th (Some p) c [] ?d = Some (?d\<lparr>det_updates := ups\<rparr>, [])"
    by (simp add: detect_temperatures_def)
  have "snd (detect_foreign_config (sc_foreign_config c) (?d\<lparr>det_updates := ups\<rparr>)) = []"
    by (rule foreign_quiet [of _ _ before]) (simp add: foreign)
  then obtain d3 where "detect_foreign_config (sc_foreign_config c) (?d\<lparr>det_updates := ups\<rparr>) = (d3, [])"
    by (metis prod.collapse)
  then show ?thesis
    by (simp add: detect_def cmp temps fields(3) quiet_roc [OF sane] stamp_serials_def)
qed

definition sample_controller :: "bool \<Rightarrow> int option \<Rightarrow> controller_info" where
  "sample_controller cv roc =
     \<lparr>ci_model_name = ''M'', ci_serial_number = ''S'', ci_firmware_version = ''F'', ci_bios_version = ''B'',
      ci_driver_name = ''D'', ci_driver_version = ''V'', ci_pci_address = ''P'', ci_system_time = 0,
      ci_alarm_state = ''on'', ci_cv_present = cv, ci_bbu_present = False, ci_roc_temperature = roc\<rparr>"

definition sample_snapshot :: "int \<Rightarrow> physical_drive_info list \<Rightarrow> storcli_snapshot" where
  "sample_snapshot t drives =
     \<lparr>sc_controller = sample_controller False (Some 96), sc_virtual_drives = [], sc_physical_drives = drives,
      sc_cachevault = None, sc_bbu = None, sc_foreign_config = Some no_foreign_config, sc_captured_at = Aware t\<rparr>"

text \<open>The first poll of a machine with a hot drive.\<close>

lemma sample_first_detect:
  "detect (detector_thresholds sample_settings) None (sample_snapshot 0 [sample_drive 1 ''S'' (Some 61)]) new_detector =
   Some (\<lparr>det_states = [], det_updates = [((2, 1, ''S''), TempCritical)], det_clears = [], det_foreign_present = Some False\<rparr>,
     snd (the (detect (detector_thresholds sample_settings) None (sample_snapshot 0 [sample_drive 1 ''S'' (Some 61)]) new_detector)))"
  by code_simp

subsection \<open>Drives that disappear, appear or change\<close>

lemma foreign_clears: "det_clears (fst (detect_foreign_config f d)) = det_clears d"
  by (simp add: detect_foreign_config_def split: option.splits)

lemma detect_decompose:
  assumes "detect th previous c d = Some (d1, events)"
  obtains da compared replaced db ts where
    "compare_snapshots th previous c (d\<lparr>det_updates := [], det_clears := []\<rparr>) = (da, compared, replaced)"
    and "detect_temperatures th previous c replaced da = Some (db, ts)"
    and "det_clears d1 = det_clears da" and "det_updates d1 = det_updates db"
    and "set (stamp_serials (sc_physical_drives c) compared) \<subseteq> set events"
    and "\<exists>raw. events = stamp_serials (sc_physical_drives c) raw"
proof -
  obtain da compared replaced where
    cmp: "compare_snapshots th previous c (d\<lparr>det_updates := [], det_clears := []\<rparr>) = (da, compared, replaced)"
    by (metis prod_cases3)
  from assms cmp obtain db ts where
    temps: "detect_temperatures th previous c replaced da = Some (db, ts)"
    by (auto simp: detect_def split: option.splits prod.splits)
  obtain d3 fs where foreign: "detect_foreign_config (sc_foreign_config c) db = (d3, fs)" by (metis prod.exhaust)
  from temps have clears: "det_clears db = det_clears da"
    by (auto simp: detect_temperatures_def split: option.splits prod.splits)
  from assms cmp temps foreign have d1: "d1 = d3"
    and ev: "\<exists>mid. events = stamp_serials (sc_physical_drives c) (compared @ mid)"
    by (auto simp: detect_def)
  from ev have "set (stamp_serials (sc_physical_drives c) compared) \<subseteq> set events"
    by (auto simp: stamp_serials_def Let_def)
  moreover have "det_clears d1 = det_clears da" "det_updates d1 = det_updates db"
    using foreign_clears [of "sc_foreign_config c" db] foreign_updates(1) [of "sc_foreign_config c" db] foreign clears d1
    by simp_all
  ultimately show thesis using that [OF cmp temps] ev by blast
qed

lemma set_fold_insert: "set (fold List.insert xs ys) = set xs \<union> set ys"
  by (induction xs arbitrary: ys) auto

lemma compare_some:
  assumes "compare_snapshots th (Some p) c d = (da, compared, replaced)"
  shows "replaced = replaced_slots (ps_physical_drives p) (sc_physical_drives c)"
    and "set (det_clears da) = slot_of ` set (removed_drives (ps_physical_drives p) (sc_physical_drives c)) \<union> set replaced \<union> set (det_clears d)"
    and "drive_gone_event ` set (removed_drives (ps_physical_drives p) (sc_physical_drives c)) \<subseteq> set compared"
    and "\<Union> (set ` replacement_event (ps_physical_drives p) ` set (sc_physical_drives c)) \<subseteq> set compared"
  using assms by (auto simp: compare_snapshots_def detect_drive_replacements_def Let_def set_fold_insert)

lemma drive_gone_subject: "de_subject (drive_gone_event x) = drive_subject x"
  by (simp add: drive_gone_event_def presence_event_def)

lemma stamp_other:
  assumes "slot_of x \<notin> slot_of ` set drives"
  shows "map_of (dict_of drive_subject drives) (drive_subject x) = None"
  using assms by (auto simp: dict_of_None)

lemma stamp_unknown:
  "e \<in> set events \<Longrightarrow> map_of (dict_of drive_subject drives) (de_subject e) = None \<Longrightarrow>
     e \<in> set (stamp_serials drives events)"
  by (force simp: stamp_serials_def Let_def)

text \<open>A drive of the last snapshot whose slot the current one lacks is reported as a critical event
  that names its slot, its last state and its serial number, and its temperature state is cleared.\<close>

theorem missing_drive_is_reported:
  assumes "detect th (Some p) c d = Some (d1, events)"
    and "x \<in> set (ps_physical_drives p)" and "distinct (map slot_of (ps_physical_drives p))"
    and "slot_of x \<notin> slot_of ` set (sc_physical_drives c)"
  shows "\<lparr>de_severity = Critical, de_category = ''pd_state'', de_subject = drive_subject x,
      de_summary = drive_subject x @ '' no longer detected'',
      de_before = Some [(''present'', JBool True), (''state'', JStr (pdi_state x))],
      de_after = Some [(''present'', JBool False), (''state'', JStr ''Missing''),
        (''serial_number'', JStr (pdi_serial_number x))]\<rparr> \<in> set events
    \<and> slot_of x \<in> set (temperature_clears d1)"
proof -
  from assms(1) obtain da compared replaced where
    cmp: "compare_snapshots th (Some p) c (d\<lparr>det_updates := [], det_clears := []\<rparr>) = (da, compared, replaced)"
    and clears: "det_clears d1 = det_clears da"
    and ev: "set (stamp_serials (sc_physical_drives c) compared) \<subseteq> set events"
    by (rule detect_decompose)
  have "x \<in> set (removed_drives (ps_physical_drives p) (sc_physical_drives c))"
    using dict_of_member [OF assms(3,2)] assms(4) by (auto simp: removed_drives_def)
  then have x: "slot_of x \<in> set (det_clears da)" "drive_gone_event x \<in> set compared"
    unfolding compare_some(2) [OF cmp] using compare_some(3) [OF cmp] by blast+
  have "drive_gone_event x \<in> set (stamp_serials (sc_physical_drives c) compared)"
    by (rule stamp_unknown [OF x(2)]) (simp add: drive_gone_subject stamp_other [OF assms(4)])
  with ev have "drive_gone_event x \<in> set events" by blast
  then show ?thesis
    using x(1) clears by (simp add: temperature_clears_def drive_gone_event_def presence_event_def json_opt_def)
qed

definition sample_previous :: "physical_drive_info list \<Rightarrow> previous_snapshot" where
  "sample_previous drives =
     \<lparr>ps_alarm_state = ''on'', ps_cv_present = False, ps_roc_temperature = Some 96, ps_virtual_drives = [],
      ps_physical_drives = drives, ps_cachevault = None\<rparr>"

lemma sample_missing_detect:
  "detect (detector_thresholds sample_settings) (Some (sample_previous [sample_drive 1 ''S'' None]))
      (sample_snapshot 0 []) new_detector =
   Some (\<lparr>det_states = [], det_updates = [], det_clears = [(2, 1)], det_foreign_present = Some False\<rparr>,
     [drive_gone_event (sample_drive 1 ''S'' None)])"
  by code_simp

theorem missing_drive_is_reported_witness:
  "\<lparr>de_severity = Critical, de_category = ''pd_state'', de_subject = ''PD e2:s1'',
      de_summary = ''PD e2:s1 no longer detected'',
      de_before = Some [(''present'', JBool True), (''state'', JStr ''Onln'')],
      de_after = Some [(''present'', JBool False), (''state'', JStr ''Missing''),
        (''serial_number'', JStr ''S'')]\<rparr> \<in> set [drive_gone_event (sample_drive 1 ''S'' None)]"
proof -
  have subject: "drive_subject (sample_drive 1 ''S'' None) = ''PD e2:s1''" by code_simp
  have "sample_drive 1 ''S'' None \<in> set (ps_physical_drives (sample_previous [sample_drive 1 ''S'' None]))"
    "distinct (map slot_of (ps_physical_drives (sample_previous [sample_drive 1 ''S'' None])))"
    "slot_of (sample_drive 1 ''S'' None) \<notin> slot_of ` set (sc_physical_drives (sample_snapshot 0 []))"
    by (simp_all add: sample_previous_def sample_snapshot_def)
  from missing_drive_is_reported [OF sample_missing_detect this]
  show ?thesis by (simp add: subject) (simp add: sample_drive_def)
qed

text \<open>Every event about the slot of a drive of the current snapshot carries the serial number of the drive
  in that slot, whatever produced the event.\<close>

theorem drive_events_carry_serial:
  assumes "detect th previous c d = Some (d1, events)" and "e \<in> set events"
    and "x \<in> set (sc_physical_drives c)" and "distinct (map slot_of (sc_physical_drives c))"
    and "de_subject e = drive_subject x"
  shows "col_get (de_after e) ''serial_number'' = Some (JStr (pdi_serial_number x))"
proof -
  from assms(1) obtain raw where raw: "events = stamp_serials (sc_physical_drives c) raw"
    by (rule detect_decompose) blast
  have "distinct (map drive_subject (sc_physical_drives c))"
    using assms(4) by (auto simp: distinct_map inj_on_def)
  from dict_of_distinct [OF this assms(3)]
  have look: "map_of (dict_of drive_subject (sc_physical_drives c)) (drive_subject x) = Some x" .
  from assms(2) raw obtain e0 where e0: "e = (case map_of (dict_of drive_subject (sc_physical_drives c)) (de_subject e0) of
      None \<Rightarrow> e0
    | Some d \<Rightarrow> e0\<lparr>de_after := Some (dict_put (de_after e0) ''serial_number'' (JStr (pdi_serial_number d)))\<rparr>)"
    by (auto simp: stamp_serials_def Let_def)
  have "de_subject e0 = drive_subject x" using e0 assms(5) by (auto split: option.splits)
  with look have "map_of (dict_of drive_subject (sc_physical_drives c)) (de_subject e0) = Some x" by simp
  with e0 have "de_after e = Some (dict_put (de_after e0) ''serial_number'' (JStr (pdi_serial_number x)))" by simp
  then show ?thesis by simp
qed

lemma sample_last_event:
  "(case snd (the (detect (detector_thresholds sample_settings) None
      (sample_snapshot 0 [sample_drive 1 ''S'' (Some 61)]) new_detector)) of
      [] \<Rightarrow> None | e # es \<Rightarrow> Some (de_subject (last (e # es)))) = Some ''PD e2:s1''"
  by code_simp

theorem drive_events_carry_serial_witness:
  "col_get (de_after (last (snd (the (detect (detector_thresholds sample_settings) None
      (sample_snapshot 0 [sample_drive 1 ''S'' (Some 61)]) new_detector))))) ''serial_number'' = Some (JStr ''S'')"
proof -
  let ?events = "snd (the (detect (detector_thresholds sample_settings) None
      (sample_snapshot 0 [sample_drive 1 ''S'' (Some 61)]) new_detector))"
  from sample_last_event have e: "last ?events \<in> set ?events" "de_subject (last ?events) = ''PD e2:s1''"
    by (cases ?events; simp)+
  have subject: "drive_subject (sample_drive 1 ''S'' (Some 61)) = ''PD e2:s1''" by code_simp
  have "sample_drive 1 ''S'' (Some 61) \<in> set (sc_physical_drives (sample_snapshot 0 [sample_drive 1 ''S'' (Some 61)]))"
    "distinct (map slot_of (sc_physical_drives (sample_snapshot 0 [sample_drive 1 ''S'' (Some 61)])))"
    by (simp_all add: sample_snapshot_def)
  from drive_events_carry_serial [OF sample_first_detect e(1) this] e(2) subject
  show ?thesis by (simp add: sample_drive_def)
qed

text \<open>A drive whose slot held another serial number starts again from the normal state: the state written
  for it is the one its reading settles in from ok, whatever states are stored for the slot, and the states of
  the drive before it are cleared.\<close>

theorem replaced_drive_starts_cold:
  assumes "validate_runtime_values network_ok s = Inr s'"
    and "detect (detector_thresholds s) (Some p) c d = Some (d1, events)"
    and "x \<in> set (sc_physical_drives c)" and "pdi_temperature x = Some t"
    and "distinct (map slot_of (sc_physical_drives c))"
    and "y \<in> set (ps_physical_drives p)" and "distinct (map slot_of (ps_physical_drives p))"
    and "slot_of y = slot_of x" and "pdi_serial_number y \<noteq> pdi_serial_number x"
  shows "map_of (temperature_updates d1) (drive_id_of x) = Some (settled (detector_thresholds s) t TempOk)
    \<and> slot_of x \<in> set (temperature_clears d1)"
proof -
  let ?th = "detector_thresholds s"
  from assms(2) obtain da compared replaced db ts where
    cmp: "compare_snapshots ?th (Some p) c (d\<lparr>det_updates := [], det_clears := []\<rparr>) = (da, compared, replaced)"
    and temps: "detect_temperatures ?th (Some p) c replaced da = Some (db, ts)"
    and clears: "det_clears d1 = det_clears da" and ups: "det_updates d1 = det_updates db"
    by (rule detect_decompose)
  from dict_of_distinct [OF assms(7,6)] assms(8,9) have "slot_change_of (ps_physical_drives p) x = Replaced y"
    by (simp add: slot_change_of_def)
  then have x: "slot_of x \<in> set replaced"
    unfolding compare_some(1) [OF cmp] replaced_slots_def using assms(3) by (auto intro!: imageI)
  let ?start = "initial_temp_state (det_states da) (temperature_states_from_previous ?th (Some p)) replaced"
  from drive_temperatures_settle [OF sane_settings [OF assms(1)], of "det_states da"
      "temperature_states_from_previous ?th (Some p)" replaced "sc_physical_drives c" "det_updates da"] temps
      compare_updates [OF cmp]
  have "det_updates db = settle_all ?th ?start (sc_physical_drives c) []"
    by (auto simp: detect_temperatures_def)
  moreover have "?start x = TempOk" using x by (simp add: initial_temp_state_def)
  ultimately have "map_of (temperature_updates d1) (drive_id_of x) = Some (settled ?th t TempOk)"
    using settle_all_lookup [OF assms(5,3,4), of ?th ?start]
    by (simp add: temperature_updates_def map_of_sort_key ups)
  moreover have "slot_of x \<in> set (temperature_clears d1)"
    using x compare_some(2) [OF cmp] clears by (simp add: temperature_clears_def)
  ultimately show ?thesis ..
qed

lemma sample_replaced_detect:
  "detect (detector_thresholds sample_settings) (Some (sample_previous [sample_drive 1 ''S'' (Some 61)]))
      (sample_snapshot 0 [sample_drive 1 ''T'' (Some 56)])
      (set_temperature_states [((2, 1, ''T''), TempCritical)] new_detector) =
   Some (\<lparr>det_states = [((2, 1, ''T''), TempCritical)], det_updates = [((2, 1, ''T''), TempWarning)],
      det_clears = [(2, 1)], det_foreign_present = Some False\<rparr>,
     snd (the (detect (detector_thresholds sample_settings) (Some (sample_previous [sample_drive 1 ''S'' (Some 61)]))
      (sample_snapshot 0 [sample_drive 1 ''T'' (Some 56)])
      (set_temperature_states [((2, 1, ''T''), TempCritical)] new_detector))))"
  by code_simp

theorem replaced_drive_starts_cold_witness:
  "map_of (temperature_updates \<lparr>det_states = [((2, 1, ''T''), TempCritical)], det_updates = [((2, 1, ''T''), TempWarning)],
      det_clears = [(2, 1)], det_foreign_present = Some False\<rparr>) (2, 1, ''T'') = Some TempWarning"
  using replaced_drive_starts_cold [OF sample_settings_valid sample_replaced_detect,
      of "sample_drive 1 ''T'' (Some 56)" 56 "sample_drive 1 ''S'' (Some 61)"]
  by (simp add: sample_snapshot_def sample_previous_def sample_drive_def slot_of_def drive_id_of_def settled_def
      detector_thresholds_def sample_settings_def)

subsection \<open>Foreign configuration\<close>

text \<open>The readings of a series of polls, each an observation or a failed probe.\<close>

fun foreign_polls :: "foreign_config_info option list \<Rightarrow> detector \<Rightarrow> detector \<times> detected_event list" where
  "foreign_polls [] d = (d, [])"
| "foreign_polls (f # fs) d =
     (case detect_foreign_config f d of
        (d', es) \<Rightarrow> (case foreign_polls fs d' of (d'', es') \<Rightarrow> (d'', es @ es')))"

text \<open>The edges of a series of presences, from a first presence.\<close>

fun edges :: "bool \<Rightarrow> bool list \<Rightarrow> bool list" where
  "edges b [] = []"
| "edges b (c # cs) = (if c = b then edges b cs else c # edges c cs)"

lemma edges_alternate: "successively (\<noteq>) (b # edges b cs)"
  by (induction cs arbitrary: b) auto

lemma edges_successive: "successively (\<noteq>) (edges b cs)"
  using edges_alternate [of b cs] by (cases "edges b cs") auto

lemma foreign_polls_edges:
  "map (\<lambda>e. de_severity e = Warning) (snd (foreign_polls fs d)) =
     edges (det_foreign_present d = Some True) (List.map_filter (map_option fci_present) fs)"
proof (induction fs arbitrary: d)
  case Nil
  then show ?case by (simp add: List.map_filter_def)
next
  case (Cons f fs)
  show ?case
  proof (cases f)
    case None
    then show ?thesis using Cons.IH [of d] by (simp add: detect_foreign_config_def split: prod.splits)
  next
    case (Some x)
    then show ?thesis
      using Cons.IH [of "d\<lparr>det_foreign_present := Some (fci_present x)\<rparr>"]
      by (auto simp: detect_foreign_config_def foreign_detected_event_def foreign_cleared_event_def foreign_event_def
          split: prod.splits)
  qed
qed

text \<open>Over a series of polls a foreign configuration is announced exactly at each change of the presence the
  successful probes report: a warning when it appears, an info when it goes, strictly alternating, and failed
  probes in between change nothing.\<close>

theorem foreign_events_are_edges:
  "map (\<lambda>e. de_severity e = Warning) (snd (foreign_polls fs d)) =
     edges (det_foreign_present d = Some True) (List.map_filter (map_option fci_present) fs)
   \<and> successively (\<noteq>) (map (\<lambda>e. de_severity e = Warning) (snd (foreign_polls fs d)))"
  unfolding foreign_polls_edges using edges_successive by blast

end
