(* ===== verification/ParserProps.thy ===== *)
theory ParserProps
  imports ForeignConfig "HOL-Library.Multiset"
begin

section \<open>What the parsers guarantee\<close>

text \<open>
  Properties of \<open>storcli/parser.py\<close>: a complete inventory is one on which three responses
  agree, a live drive answer names the drive that was asked for, and the presence flag and digest
  of a foreign configuration agree.
\<close>

subsection \<open>Success\<close>

lemma ensure_success_Inr:
  "ensure_success payload = Inr c \<longleftrightarrow> first_controller payload = Inr c \<and> command_failed c = Inr False"
proof (cases "first_controller payload")
  case (Inr d)
  then show ?thesis
    by (cases "command_failed d") (auto simp: ensure_success_def bindr_Inr_iff split: bindr_split)
qed (simp add: ensure_success_def)

lemma ensure_inventory_success_Inr:
  assumes "ensure_inventory_success payload = Inr c"
  shows "first_controller payload = Inr c"
  using assms by (auto simp: ensure_inventory_success_def bindr_Inr_iff ensure_success_Inr split: if_splits)

lemma single_controller:
  assumes "first_controller payload = Inr c" "bindr (item payload ''Controllers'') json_length = Inr 1"
  shows "dict_get payload ''Controllers'' = Some (JArr [JObj c])"
  using assms by (auto simp: first_controller_Inr_iff item_def json_length_def)

subsection \<open>Complete inventories\<close>

lemma distinct_if_length_remdups: "length (remdups xs) = length xs \<Longrightarrow> distinct xs"
  by (simp add: length_remdups_eq)

lemma sort_eq_mset: "sort xs = sort ys \<Longrightarrow> mset xs = mset ys"
  by (metis mset_sort)

lemma validate_complete_inventory_Inr:
  assumes "validate_complete_inventory cp vp pp vds pds = Inr ()"
  obtains response summary rows keys where
    "bindr (first_controller cp) response_data = Inr response"
    "dict_get response ''Virtual Drives'' = Some (JInt (int (length vds)))"
    "dict_get response ''Physical Drives'' = Some (JInt (int (length pds)))"
    "parse_virtual_drives cp = Inr summary"
    "get_or response ''PD LIST'' (JArr []) = JArr rows" "map_res summary_pd_key rows = Inr keys"
    "same_inventory (int (length vds)) (int (length pds)) vds pds summary keys"
proof -
  let ?chk = "\<lambda>response summary. case get_or response ''PD LIST'' (JArr []) of
      JArr rows \<Rightarrow> bindr (map_res summary_pd_key rows) (\<lambda>keys.
        if \<not> same_inventory (int (length vds)) (int (length pds)) vds pds summary keys then Inl (Raised ValueError)
        else bindr (item response ''Cachevault_Info'') (\<lambda>cv. case cv of JArr _ \<Rightarrow> Inr () | _ \<Rightarrow> Inl (Raised ValueError)))
      | _ \<Rightarrow> Inl (Raised ValueError)"
  obtain response vd_count pd_count summary where r: "bindr (first_controller cp) response_data = Inr response"
    and c: "dict_get response ''Virtual Drives'' = Some vd_count" "dict_get response ''Physical Drives'' = Some pd_count"
    and n: "vd_count = JInt (int (length vds))" "pd_count = JInt (int (length pds))"
    and s: "parse_virtual_drives cp = Inr summary" and rest: "?chk response summary = Inr ()"
    using assms unfolding validate_complete_inventory_def catching_Inr_iff bindr_Inr_iff
    by (auto simp: bindr_Inr_iff split: if_splits)
  from rest obtain rows keys where "get_or response ''PD LIST'' (JArr []) = JArr rows"
    "map_res summary_pd_key rows = Inr keys"
    "same_inventory (int (length vds)) (int (length pds)) vds pds summary keys"
    by (cases "get_or response ''PD LIST'' (JArr [])") (auto simp: bindr_Inr_iff split: if_splits)
  with r c n s show thesis using that by blast
qed

text \<open>An inventory accepted as complete has no duplicate virtual drive and no two drives in one slot,
  every drive has a serial, and the controller's own summary agrees with both detailed responses:
  its two counts, and drive for drive the identities and normalised states, order aside.\<close>

theorem complete_inventory_agrees:
  assumes "validate_complete_inventory cp vp pp vds pds = Inr ()"
  shows "distinct (map vdi_vd_id vds) \<and> distinct (map drive_location pds) \<and>
    (\<forall>d \<in> set pds. pdi_serial_number d \<noteq> []) \<and>
    (\<exists>response summary rows keys.
       bindr (first_controller cp) response_data = Inr response \<and>
       dict_get response ''Virtual Drives'' = Some (JInt (int (length vds))) \<and>
       dict_get response ''Physical Drives'' = Some (JInt (int (length pds))) \<and>
       parse_virtual_drives cp = Inr summary \<and> mset (map vd_key vds) = mset (map vd_key summary) \<and>
       get_or response ''PD LIST'' (JArr []) = JArr rows \<and> map_res summary_pd_key rows = Inr keys \<and>
       mset (map pd_key pds) = mset keys)"
proof -
  obtain response summary rows keys where
    f: "bindr (first_controller cp) response_data = Inr response"
    "dict_get response ''Virtual Drives'' = Some (JInt (int (length vds)))"
    "dict_get response ''Physical Drives'' = Some (JInt (int (length pds)))"
    "parse_virtual_drives cp = Inr summary"
    "get_or response ''PD LIST'' (JArr []) = JArr rows" "map_res summary_pd_key rows = Inr keys"
    and same: "same_inventory (int (length vds)) (int (length pds)) vds pds summary keys"
    using validate_complete_inventory_Inr [OF assms] by blast
  have "distinct (map vdi_vd_id vds)" "distinct (map drive_location pds)"
    using same distinct_if_length_remdups [of "map vdi_vd_id vds"] distinct_if_length_remdups [of "map drive_location pds"]
    by (simp_all add: same_inventory_def)
  moreover have "mset (map vd_key vds) = mset (map vd_key summary)"
    using same unfolding same_inventory_def by (elim conjE, intro sort_eq_mset)
  moreover have "mset (map pd_key pds) = mset keys"
    using same unfolding same_inventory_def by (elim conjE, intro sort_eq_mset)
  moreover have "\<forall>d \<in> set pds. pdi_serial_number d \<noteq> []"
    using same by (simp add: same_inventory_def list_all_iff)
  ultimately show ?thesis using f by (intro conjI exI [of _ response] exI [of _ summary] exI [of _ rows] exI [of _ keys])
qed

subsection \<open>One live drive\<close>

lemma identifies_drive_True:
  assumes "identifies_drive payload status rows path = Inr True"
  obtains r where "bindr (item payload ''Controllers'') json_length = Inr 1"
    "dict_get status ''Controller'' = Some (JInt 0)" "rows = [(''Drive '' @ path, JObj r)]"
    "dict_get r ''EID:Slt'' = Some (JStr (slot_token path))"
proof -
  from assms obtain key row where n: "bindr (item payload ''Controllers'') json_length = Inr 1"
    and c: "dict_get status ''Controller'' = Some (JInt 0)" and rows: "rows = [(key, row)]"
    and rest: "(if key \<noteq> ''Drive '' @ path then Inr False
      else bindr (as_mapping row) (\<lambda>r. Inr (dict_get r ''EID:Slt'' = Some (JStr (slot_token path))))) = (Inr True :: fault + bool)"
    unfolding identifies_drive_def bindr_Inr_iff [of "bindr _ _"]
    by (auto split: if_splits list.splits)
  then obtain r where "row = JObj r" "key = ''Drive '' @ path" "dict_get r ''EID:Slt'' = Some (JStr (slot_token path))"
    by (auto simp: bindr_Inr_iff split: if_splits)
  with n c rows show thesis using that by blast
qed

lemma parse_drive_show_requested:
  assumes "parse_drive_show payload (Some path) = Inr ds"
  obtains c status rows where "first_controller payload = Inr c" "dict_get c ''Command Status'' = Some (JObj status)"
    "bindr (response_data c) drive_rows = Inr rows" "identifies_drive payload status rows path = Inr True"
    "bindr (response_data c) (\<lambda>r. extract_drive_show r r) = Inr ds"
proof -
  from assms obtain c r status rows ok where "first_controller payload = Inr c" "response_data c = Inr r"
    "mapping_item c ''Command Status'' = Inr status" "drive_rows r = Inr rows"
    "identifies_drive payload status rows path = Inr ok"
    "(if \<not> ok then Inl (parse_fault ''live drive response does not identify the requested slot'') else extract_drive_show r r) = Inr ds"
    unfolding parse_drive_show_def by (auto simp: bindr_Inr_iff ensure_success_Inr)
  then show thesis using that by (auto simp: mapping_item_def bindr_Inr_iff split: if_splits)
qed

lemma drive_show_of_Inr:
  "drive_show_of (JStr st) sn = Inr ds \<Longrightarrow> py_strip (ds_state ds) \<noteq> [] \<and> ds_serial_number ds \<noteq> [] \<and>
     py_strip (ds_serial_number ds) = ds_serial_number ds"
  by (cases sn) (auto simp: drive_show_of_def vap_Inr_iff drive_show.make_def split: if_splits)

lemma extract_drive_show_Inr:
  "extract_drive_show r kvs = Inr ds \<Longrightarrow> \<exists>st sn. drive_show_of (JStr st) sn = Inr ds"
proof (induction kvs)
  case (Cons kv kvs)
  obtain k v where kv: "kv = (k, v)" by (cases kv)
  show ?case
  proof (cases "\<exists>first more st. drive_key k \<and> v = JArr (JObj first # more) \<and> dict_get first ''State'' = Some (JStr st)")
    case True
    with Cons.prems kv show ?thesis by (clarsimp simp: bindr_Inr_iff) blast
  next
    case False
    then have "extract_drive_show r (kv # kvs) = extract_drive_show r kvs"
      unfolding kv by (auto split: json.split list.split option.split)
    with Cons show ?thesis by simp
  qed
qed simp

text \<open>A live answer accepted for a requested drive comes from a response with a single controller,
  numbered 0, that shows exactly one drive, and that drive carries the requested path and slot
  address; its state is not blank and its serial is non-empty and stripped.\<close>

theorem live_drive_is_the_requested_one:
  assumes "parse_drive_show payload (Some path) = Inr ds"
  shows "(\<exists>c status response r. dict_get payload ''Controllers'' = Some (JArr [JObj c]) \<and>
      dict_get c ''Command Status'' = Some (JObj status) \<and> dict_get status ''Controller'' = Some (JInt 0) \<and>
      response_data c = Inr response \<and> drive_rows response = Inr [(''Drive '' @ path, JObj r)] \<and>
      dict_get r ''EID:Slt'' = Some (JStr (slot_token path))) \<and>
    py_strip (ds_state ds) \<noteq> [] \<and> ds_serial_number ds \<noteq> [] \<and> py_strip (ds_serial_number ds) = ds_serial_number ds"
proof -
  obtain c status rows where c: "first_controller payload = Inr c" "dict_get c ''Command Status'' = Some (JObj status)"
    and rows: "bindr (response_data c) drive_rows = Inr rows" "identifies_drive payload status rows path = Inr True"
    and x: "bindr (response_data c) (\<lambda>r. extract_drive_show r r) = Inr ds"
    using parse_drive_show_requested [OF assms] by blast
  from identifies_drive_True [OF rows(2)] obtain r where
    r: "bindr (item payload ''Controllers'') json_length = Inr 1" "dict_get status ''Controller'' = Some (JInt 0)"
    "rows = [(''Drive '' @ path, JObj r)]" "dict_get r ''EID:Slt'' = Some (JStr (slot_token path))" by blast
  from rows(1) obtain response where resp: "response_data c = Inr response" "drive_rows response = Inr rows"
    by (auto simp: bindr_Inr_iff)
  from x resp obtain st sn where "drive_show_of (JStr st) sn = Inr ds" using extract_drive_show_Inr by fastforce
  from drive_show_of_Inr [OF this] single_controller [OF c(1) r(1)] c r resp show ?thesis by blast
qed

text \<open>A one-drive inventory for the witnesses.\<close>

definition sample_response :: "string \<Rightarrow> dict \<Rightarrow> dict" where
  "sample_response st data =
     [(''Controllers'', JArr [JObj [(''Command Status'', JObj [(''Controller'', JInt 0), (''Status'', JStr st)]),
                                  (''Response Data'', JObj data)]])]"

definition sample_controller_response :: dict where
  "sample_controller_response = sample_response ''Success''
     [(''Virtual Drives'', JInt 1),
      (''VD LIST'', JArr [JObj [(''DG/VD'', JStr ''0/0''), (''TYPE'', JStr ''RAID1''), (''State'', JStr ''Optl''),
         (''Access'', JStr ''RW''), (''Cache'', JStr ''RWBD''), (''Size'', JStr ''1.5 TB''), (''Name'', JStr [])]]),
      (''Physical Drives'', JInt 1),
      (''PD LIST'', JArr [JObj [(''EID:Slt'', JStr ''252:3''), (''DID'', JInt 11), (''State'', JStr ''Onln'')]]),
      (''Cachevault_Info'', JArr [])]"

definition sample_vd :: virtual_drive_info where
  "sample_vd = \<lparr>vdi_vd_id = 0, vdi_name = [], vdi_raid_level = ''RAID1'', vdi_size_bytes = 1500000000000,
     vdi_state = ''Optl'', vdi_access = ''RW'', vdi_cache = ''RWBD''\<rparr>"

definition sample_pd :: physical_drive_info where
  "sample_pd = \<lparr>pdi_enclosure_id = 252, pdi_slot_id = 3, pdi_device_id = 11, pdi_model = ''M'',
     pdi_serial_number = ''SN1'', pdi_firmware_version = ''F'', pdi_size_bytes = 1, pdi_interface = ''SAS'',
     pdi_media_type = ''HDD'', pdi_state = ''Onln'', pdi_disk_group_id = Some 0, pdi_temperature = Some 30,
     pdi_media_errors = 0, pdi_other_errors = 0, pdi_predictive_failures = 0, pdi_smart_alert = False,
     pdi_sas_address = ''5000''\<rparr>"

lemma sample_inventory_complete:
  "validate_complete_inventory sample_controller_response (sample_response ''Success'' []) (sample_response ''success'' [])
     [sample_vd] [sample_pd] = Inr ()"
  by code_simp

theorem complete_inventory_agrees_witness:
  "distinct (map drive_location [sample_pd]) \<and> pdi_serial_number sample_pd \<noteq> [] \<and>
   (\<exists>response. bindr (first_controller sample_controller_response) response_data = Inr response \<and>
      dict_get response ''Physical Drives'' = Some (JInt (int (length [sample_pd]))))"
  using complete_inventory_agrees [OF sample_inventory_complete] by auto

definition sample_drive_response :: dict where
  "sample_drive_response = sample_response ''Success''
     [(''Drive /c0/e252/s3'', JArr [JObj [(''EID:Slt'', JStr ''252:3''), (''State'', JStr ''UGood'')]]),
      (''Drive /c0/e252/s3 - Detailed Information'',
        JObj [(''Drive /c0/e252/s3 Device attributes'', JObj [(''SN'', JStr '' SN1 '')])])]"

theorem live_drive_is_the_requested_one_witness:
  "parse_drive_show sample_drive_response (Some ''/c0/e252/s3'') = Inr \<lparr>ds_state = ''UGood'', ds_serial_number = ''SN1''\<rparr> \<and>
   (\<exists>response r. drive_rows response = Inr [(''Drive /c0/e252/s3'', JObj r)])"
proof -
  have p: "parse_drive_show sample_drive_response (Some ''/c0/e252/s3'') = Inr \<lparr>ds_state = ''UGood'', ds_serial_number = ''SN1''\<rparr>"
    by code_simp
  from live_drive_is_the_requested_one [OF this] p show ?thesis by auto
qed

subsection \<open>Foreign configurations\<close>

lemma fold_res_invariant:
  assumes "fold_res f xs acc = Inr r" "P acc" "\<And>x a b. f x a = Inr b \<Longrightarrow> P a \<Longrightarrow> P b"
  shows "P r"
  using assms(1,2) by (induction xs arbitrary: acc) (auto simp: bindr_Inr_iff dest: assms(3))

lemma count_summary_nonneg:
  assumes "count_summary kv acc = Inr acc'" "0 \<le> fst acc \<and> 0 \<le> snd acc"
  shows "0 \<le> fst acc' \<and> 0 \<le> snd acc'"
proof -
  obtain k v d e where kv: "kv = (k, v)" "acc = (d, e)" by (cases kv, cases acc)
  let ?skip = "\<not> str_in ''total'' (py_lower k) \<or> \<not> str_in ''foreign'' (py_lower k) \<or> \<not> str_in ''count'' (py_lower k)"
  show ?thesis
  proof (cases ?skip)
    case True
    with assms kv show ?thesis by (simp only: count_summary_def Let_def prod.case if_True) simp
  next
    case False
    with assms(1) kv obtain c where c: "(case c of None \<Rightarrow> Inr acc | Some n \<Rightarrow>
        if n \<le> 0 then Inr acc else if str_in ''dg'' (py_lower k) \<and> d = 0 then Inr (n, e)
        else if str_in ''drive'' (py_lower k) \<and> e = 0 then Inr (d, n) else Inr acc) = (Inr acc' :: fault + int \<times> int)"
      by (simp only: count_summary_def Let_def prod.case if_False bindr_Inr_iff) blast
    with assms(2) kv show ?thesis by (cases c) (simp_all split: if_splits, auto)
  qed
qed

lemma describe_foreign_Inr:
  assumes "describe_foreign fp response = Inr cfg"
  shows "cfg = no_foreign_config \<or>
    (\<exists>dgs drives sz groups. cfg = present_config fp response dgs drives sz groups \<and> 0 \<le> dgs \<and> 0 \<le> drives \<and> (0 < dgs \<or> 0 < drives))"
proof -
  from assms obtain groups sz where
    g: "foreign_disk_groups response (foreign_drives response) = Inr groups" "foreign_total_size_bytes response groups = Inr sz"
    by (auto simp: describe_foreign_def Let_def bindr_Inr_iff)
  show ?thesis
  proof (cases "length groups = 0 \<and> length (foreign_drives response) = 0")
    case True
    with assms g obtain dgs drives where c: "foreign_summary_counts response = Inr (dgs, drives)"
      and r: "(if dgs > 0 \<or> drives > 0 then Inr (present_config fp response dgs drives sz groups) else Inr no_foreign_config) = (Inr cfg :: fault + foreign_config_info)"
      by (auto simp: describe_foreign_def Let_def bindr_Inr_iff)
    have "0 \<le> dgs \<and> 0 \<le> drives"
      using fold_res_invariant [where P = "\<lambda>acc. 0 \<le> fst acc \<and> 0 \<le> snd acc", OF c [unfolded foreign_summary_counts_def]]
        count_summary_nonneg by simp
    with r show ?thesis by (auto split: if_splits)
  next
    case False
    with assms g have "cfg = present_config fp response (int (length groups)) (int (length (foreign_drives response))) sz groups"
      by (auto simp: describe_foreign_def Let_def)
    with False show ?thesis by (metis length_greater_0_conv list.size(3) of_nat_0_less_iff of_nat_0_le_iff)
  qed
qed

text \<open>A parsed foreign configuration is present exactly when its digest is non-empty, so an empty
  confirmation can never match one; a present configuration reports at least one disk group or
  drive, and its digest ends in the fingerprint of the whole response.\<close>

theorem foreign_presence_matches_digest:
  assumes "parse_foreign_config fp payload = Inr cfg"
  shows "(fci_present cfg \<longleftrightarrow> fci_digest cfg \<noteq> []) \<and>
    (fci_present cfg \<longrightarrow> (0 < fci_dg_count cfg \<or> 0 < fci_drive_count cfg) \<and>
       (\<exists>response. bindr (first_controller payload) response_data = Inr response \<and> suffix (fp response) (fci_digest cfg)))"
proof -
  from assms consider "cfg = no_foreign_config"
    | c response where "first_controller payload = Inr c" "response_data c = Inr response" "describe_foreign fp response = Inr cfg"
    by (auto simp: parse_foreign_config_def bindr_Inr_iff split: if_splits sum.splits fault.splits storcli_error.splits)
  then show ?thesis
  proof cases
    case 1
    then show ?thesis by (simp add: no_foreign_config_def)
  next
    case 2
    from describe_foreign_Inr [OF 2(3)] 2(1,2) show ?thesis
      by (auto simp: no_foreign_config_def present_config_def foreign_config_digest_def Let_def suffix_def)
  qed
qed

definition sample_foreign :: dict where
  "sample_foreign = sample_response ''Success'' [(''Total Foreign DG Count'', JInt 1)]"

theorem foreign_presence_matches_digest_witness:
  "fci_digest (present_config (\<lambda>_. ''ab12'') [(''Total Foreign DG Count'', JInt 1)] 1 0 None []) \<noteq> []"
proof -
  have "parse_foreign_config (\<lambda>_. ''ab12'') sample_foreign =
      Inr (present_config (\<lambda>_. ''ab12'') [(''Total Foreign DG Count'', JInt 1)] 1 0 None [])"
    by code_simp
  from foreign_presence_matches_digest [OF this] show ?thesis by (simp add: present_config_def)
qed

subsection \<open>Order and size of the parsed lists\<close>

text \<open>The parsed virtual drives are the response's rows, each validated, in increasing VD number.\<close>

theorem virtual_drives_sorted:
  assumes "parse_virtual_drives payload = Inr vds"
  shows "sorted (map vdi_vd_id vds) \<and>
    (\<exists>response parsed. bindr (first_controller payload) response_data = Inr response \<and>
       list_all2 (\<lambda>v d. validate_object virtual_drive_of v = Inr d) (vd_items response) parsed \<and> mset vds = mset parsed)"
proof -
  from assms obtain c response parsed where "ensure_inventory_success payload = Inr c" "response_data c = Inr response"
    "map_res (validate_object virtual_drive_of) (vd_items response) = Inr parsed" "vds = sort_key vdi_vd_id parsed"
    by (auto simp: parse_virtual_drives_def bindr_Inr_iff)
  then show ?thesis
    using ensure_inventory_success_Inr by (auto simp: map_res_Inr_iff bindr_Inr_iff)
qed

theorem virtual_drives_sorted_witness:
  "parse_virtual_drives sample_controller_response = Inr [sample_vd] \<and> sorted (map vdi_vd_id [sample_vd]) \<and>
   (\<exists>response. bindr (first_controller sample_controller_response) response_data = Inr response)"
proof -
  have p: "parse_virtual_drives sample_controller_response = Inr [sample_vd]" by code_simp
  from virtual_drives_sorted [OF p] p show ?thesis by blast
qed

end
