(* ===== verification/SchedulerProps.thy ===== *)
theory SchedulerProps
  imports Scheduler DetectorProps ParserProps
begin

section \<open>What the collector service guarantees\<close>

text \<open>
  An outage is reported once, when three polls have failed and the configured time has passed;
  disk alerts of one level are at least six hours apart.
\<close>

subsection \<open>Events and tables\<close>

lemma best_by_last:
  assumes "\<And>x. x \<in> set xs \<Longrightarrow> f x \<le> f y"
  shows "best_by f (xs @ [y]) = Some y"
  using assms
proof (induction xs)
  case (Cons x xs)
  then have "\<not> f y < f x" by (simp add: not_less)
  with Cons show ?case by simp
qed simp

lemma record_event_fields [simp]:
  "db_snapshots (fst (record_event t sev cat subj summ b a d)) = db_snapshots d"
  "db_temp_states (fst (record_event t sev cat subj summ b a d)) = db_temp_states d"
  "db_state (fst (record_event t sev cat subj summ b a d)) = db_state d"
  by (simp_all add: record_event_def Let_def)

lemma record_event_appends:
  "db_events (fst (record_event t sev cat subj summ b a d)) = db_events d @ [snd (record_event t sev cat subj summ b a d)]"
  by (simp add: record_event_def Let_def)

lemma recorded_row [simp]:
  "ev_occurred_at (snd (record_event t sev cat subj summ b a d)) = t"
  "ev_severity (snd (record_event t sev cat subj summ b a d)) = sev"
  "ev_category (snd (record_event t sev cat subj summ b a d)) = cat"
  "ev_summary (snd (record_event t sev cat subj summ b a d)) = summ"
  "ev_id (snd (record_event t sev cat subj summ b a d)) = next_id (map ev_id (db_events d))"
  by (simp_all add: record_event_def Let_def)

lemma recorded_is_newest:
  assumes "\<And>e. e \<in> set (db_events d) \<Longrightarrow> ev_occurred_at e \<le> t" and "x \<in> set (db_events d)"
  shows "(ev_occurred_at x, ev_id x) \<le> (t, next_id (map ev_id (db_events d)))"
  using assms next_id_gt [of "ev_id x" "map ev_id (db_events d)"] by fastforce

subsection \<open>An outage\<close>

definition reports_since :: "instant \<Rightarrow> db \<Rightarrow> event_row list" where
  "reports_since t d = filter (\<lambda>e. is_stale_report e \<and> t < ev_occurred_at e) (db_events d)"

definition failures_since :: "instant \<Rightarrow> db \<Rightarrow> event_row list" where
  "failures_since t d = filter (\<lambda>e. is_failure e \<and> t < ev_occurred_at e) (db_events d)"

lemma prefixes_differ:
  "\<not> prefix monitoring_stale_prefix (collection_failed_prefix @ msg)"
  "\<not> prefix collection_failed_prefix (stale_text m n)"
  "prefix collection_failed_prefix (collection_failed_prefix @ msg)"
  "prefix monitoring_stale_prefix (stale_text m n)"
  by (simp_all add: monitoring_stale_prefix_def collection_failed_prefix_def stale_text_def)

lemma stale_summary:
  assumes "last_success d = Some t"
  shows "monitoring_stale_summary st f d =
    (if 3 \<le> length (failures_since t d) \<and> minutes (st_collector_stale_alert_minutes st) \<le> ev_occurred_at f - t \<and>
        reports_since t d = []
     then Some (stale_text ((ev_occurred_at f - t) div minutes 1) (length (failures_since t d))) else None)"
proof -
  have "failure_times d = map ev_occurred_at (failures_since t d)"
    unfolding failure_times_def failures_since_def assms by simp
  moreover have "list_ex (\<lambda>e. is_stale_report e \<and> t < ev_occurred_at e) (db_events d) \<longleftrightarrow> reports_since t d \<noteq> []"
    by (auto simp: reports_since_def filter_empty_conv list_ex_iff)
  ultimately show ?thesis
    by (simp add: monitoring_stale_summary_def stale_min_failed_polls_def stale_since_def assms)
qed

lemma reports_record:
  "reports_since t (fst (record_event c sev cat subj summ b a d)) = reports_since t d @
    (if cat = system_category \<and> prefix monitoring_stale_prefix summ \<and> t < c
     then [snd (record_event c sev cat subj summ b a d)] else [])"
  by (simp add: reports_since_def record_event_appends is_stale_report_def)

lemma failures_record:
  "failures_since t (fst (record_event c sev cat subj summ b a d)) = failures_since t d @
    (if cat = system_category \<and> prefix collection_failed_prefix summ \<and> t < c
     then [snd (record_event c sev cat subj summ b a d)] else [])"
  by (simp add: failures_since_def record_event_appends is_failure_def)

text \<open>What one failed poll adds, once the last success is known.\<close>

lemma failure_step:
  fixes st clock msg d
  defines "d' \<equiv> record_collection_failure st clock msg d"
  assumes "last_success d = Some t" and "t < clock 0" and "t < clock 1"
  defines "due \<equiv> 2 \<le> length (failures_since t d) \<and> minutes (st_collector_stale_alert_minutes st) \<le> clock 0 - t
    \<and> reports_since t d = []"
  shows "db_snapshots d' = db_snapshots d"
    and "length (failures_since t d') = Suc (length (failures_since t d))"
    and "length (reports_since t d') = length (reports_since t d) + (if due then 1 else 0)"
proof -
  let ?rec = "record_event (clock 0) Warning system_category ''Controller'' (collection_failed_prefix @ '' '' @ msg) None None d"
  let ?d1 = "fst ?rec" and ?f = "snd ?rec"
  have ls: "last_success ?d1 = Some t" using assms(2) by (simp add: last_success_def)
  have f1: "failures_since t ?d1 = failures_since t d @ [?f]" and r1: "reports_since t ?d1 = reports_since t d"
    unfolding failures_record reports_record using prefixes_differ(1,3) [of "'' '' @ msg"] assms(3) by simp_all
  have summ: "monitoring_stale_summary st ?f ?d1 =
      (if due then Some (stale_text ((clock 0 - t) div minutes 1) (Suc (length (failures_since t d)))) else None)"
    unfolding stale_summary [OF ls] f1 r1 due_def by simp
  have split: "d' = (case monitoring_stale_summary st ?f ?d1 of None \<Rightarrow> ?d1
      | Some summary \<Rightarrow> fst (record_event (clock 1) Critical system_category ''Controller'' summary None
          (Some [(''monitoring_outage'', JBool True)]) ?d1))"
    unfolding d'_def record_collection_failure_def by (simp only: case_prod_beta)
  show "db_snapshots d' = db_snapshots d" unfolding split summ by simp
  show "length (failures_since t d') = Suc (length (failures_since t d))"
    unfolding split summ using f1 prefixes_differ(2) by (simp add: failures_record)
  show "length (reports_since t d') = length (reports_since t d) + (if due then 1 else 0)"
    unfolding split summ using r1 prefixes_differ(4) assms(4) by (simp add: reports_record)
qed

definition outage :: "settings \<Rightarrow> ((nat \<Rightarrow> instant) \<times> string) list \<Rightarrow> db \<Rightarrow> db" where
  "outage st polls d = fold (\<lambda>(clock, msg). record_collection_failure st clock msg) polls d"

definition stale_due :: "settings \<Rightarrow> instant \<Rightarrow> ((nat \<Rightarrow> instant) \<times> string) list \<Rightarrow> bool" where
  "stale_due st t polls \<longleftrightarrow>
     list_ex (\<lambda>(clock, _). minutes (st_collector_stale_alert_minutes st) \<le> clock 0 - t) (drop 2 polls)"

lemma outage_counts:
  assumes "last_success d = Some t" and "failures_since t d = []" and "reports_since t d = []"
    and "list_all (\<lambda>(clock, _). t < clock 0 \<and> t < clock 1) polls"
  shows "last_success (outage st polls d) = Some t \<and> length (failures_since t (outage st polls d)) = length polls \<and>
    length (reports_since t (outage st polls d)) = (if stale_due st t polls then 1 else 0)"
  using assms(4)
proof (induction polls rule: rev_induct)
  case Nil
  then show ?case using assms by (simp add: outage_def stale_due_def)
next
  case (snoc p polls)
  obtain clock msg where p: "p = (clock, msg)" by (cases p)
  let ?d = "outage st polls d"
  have IH: "last_success ?d = Some t" "length (failures_since t ?d) = length polls"
      "length (reports_since t ?d) = (if stale_due st t polls then 1 else 0)"
    using snoc by auto
  have clocks: "t < clock 0" "t < clock 1" using snoc.prems p by auto
  note step = failure_step [OF IH(1) clocks, of st msg]
  have d': "outage st (polls @ [p]) d = record_collection_failure st clock msg ?d" by (simp add: outage_def p)
  have "stale_due st t (polls @ [p]) \<longleftrightarrow> stale_due st t polls \<or>
      2 \<le> length polls \<and> minutes (st_collector_stale_alert_minutes st) \<le> clock 0 - t"
    by (cases "length polls") (auto simp: stale_due_def p drop_Cons' numeral_2_eq_2 less_Suc_eq not_le split: nat.splits)
  then show ?case using IH step unfolding d' by (auto simp: last_success_def)
qed

text \<open>C14. After a successful poll, an outage is reported exactly once, however many polls fail: with
  the first failed poll, from the third on, that comes the configured number of minutes or more
  after the last successful collection, and not at all before that.\<close>

theorem outage_reported_once:
  assumes "last_success d = Some t" and "failures_since t d = []" and "reports_since t d = []"
    and "list_all (\<lambda>(clock, _). t < clock 0 \<and> t < clock 1) polls"
  shows "length (reports_since t (outage st polls d)) = (if stale_due st t polls then 1 else 0)"
  using outage_counts [OF assms] by blast

definition sample_db :: db where
  "sample_db = fst (projr (insert_snapshot (sample_snapshot 0 []) False None empty_db))"

theorem outage_reported_once_witness:
  "length (reports_since 0 (outage sample_settings
     (map (\<lambda>n. (\<lambda>k. minutes (5 * n) + int k, ''StorcliNotAvailable: x'')) [1, 2, 3, 4, 5]) sample_db)) = 1 \<and>
   length (reports_since 0 (outage sample_settings
     (map (\<lambda>n. (\<lambda>k. minutes (5 * n) + int k, ''StorcliNotAvailable: x'')) [1, 2]) sample_db)) = 0"
proof -
  have d: "last_success sample_db = Some 0" "failures_since 0 sample_db = []" "reports_since 0 sample_db = []"
    by code_simp+
  let ?polls = "\<lambda>ns. map (\<lambda>n. (\<lambda>k. minutes (5 * n) + int k, ''StorcliNotAvailable: x'')) ns"
  have "stale_due sample_settings 0 (?polls [1, 2, 3, 4, 5])" and "\<not> stale_due sample_settings 0 (?polls [1, 2])"
    by code_simp+
  moreover have "list_all (\<lambda>(clock, _). 0 < clock 0 \<and> 0 < clock 1) (?polls [1, 2, 3, 4, 5])"
      and "list_all (\<lambda>(clock, _). 0 < clock 0 \<and> 0 < clock 1) (?polls [1, 2])" by code_simp+
  ultimately show ?thesis using outage_reported_once [OF d] by simp
qed

subsection \<open>Disk alerts\<close>

definition disk_events :: "db \<Rightarrow> event_row list" where
  "disk_events d = filter (\<lambda>e. ev_category e = disk_space_category) (db_events d)"

definition disk_checks :: "settings \<Rightarrow> (instant \<times> int option) list \<Rightarrow> db \<Rightarrow> db" where
  "disk_checks st checks d =
     fold (\<lambda>(now, free) d. case run_disk_space_monitor st (Aware now) free d of Inl _ \<Rightarrow> d | Inr d' \<Rightarrow> d') checks d"

text \<open>What may follow what among the disk events.\<close>

definition disk_follows :: "event_row \<Rightarrow> event_row \<Rightarrow> bool" where
  "disk_follows a b \<longleftrightarrow>
     (ev_severity b = Info \<longrightarrow> ev_severity a \<noteq> Info) \<and>
     (ev_severity b = ev_severity a \<longrightarrow> ev_occurred_at a + hours 6 < ev_occurred_at b)"

definition disk_log_ok :: "instant \<Rightarrow> event_row list \<Rightarrow> bool" where
  "disk_log_ok now es \<longleftrightarrow> successively disk_follows es \<and> (es \<noteq> [] \<longrightarrow> ev_severity (hd es) \<noteq> Info)"

lemma disk_check_cases:
  assumes "\<And>e. e \<in> set (db_events d) \<Longrightarrow> ev_occurred_at e \<le> now"
    and ok: "disk_log_ok now (disk_events d)"
    and latest: "disk_events d \<noteq> [] \<Longrightarrow> latest_disk_space_event d = Some (last (disk_events d))"
    and run: "run_disk_space_monitor st (Aware now) free d = Inr d'"
  shows "(d' = d \<or> (\<exists>e. db_events d' = db_events d @ [e] \<and> ev_category e = disk_space_category \<and> ev_occurred_at e = now \<and>
      ev_id e = next_id (map ev_id (db_events d)))) \<and> disk_log_ok now (disk_events d')"
proof -
  obtain events where events: "check_data_partition_free_space st (Aware now) free d = Inr events"
    and d': "d' = fold add_dated_event events d"
    using run by (auto simp: run_disk_space_monitor_def bindr_Inr_iff)
  have none: "latest_disk_space_event d = None" if "disk_events d = []"
    using that by (simp add: latest_disk_space_event_def disk_events_def)
  let ?latest = "latest_disk_space_event d"
  have shape: "length events \<le> 1 \<and> list_all (\<lambda>(t, e). t = now \<and> de_category e = disk_space_category \<and>
      (if de_severity e = Info then ?latest \<noteq> None \<and> ev_severity (the ?latest) \<noteq> Info
       else \<not> should_suppress ?latest (de_severity e) now)) events"
    using events
    by (auto simp: check_data_partition_free_space_def disk_level_def disk_recovered_def disk_event_def Let_def
        split: option.splits if_splits)
  show ?thesis
  proof (cases "events = []")
    case True
    then show ?thesis using ok by (simp add: d')
  next
    case False
    then obtain x where ev: "events = [(now, x)]" and cat: "de_category x = disk_space_category"
      and allowed: "if de_severity x = Info then ?latest \<noteq> None \<and> ev_severity (the ?latest) \<noteq> Info
        else \<not> should_suppress ?latest (de_severity x) now"
      using shape by (cases events) auto
    obtain e where e: "db_events d' = db_events d @ [e]" "ev_category e = disk_space_category" "ev_occurred_at e = now"
        "ev_severity e = de_severity x" "ev_id e = next_id (map ev_id (db_events d))"
      by (simp add: d' ev add_dated_event_def record_event_appends cat)
    have "disk_events d' = disk_events d @ [e]" using e(1, 2) by (simp add: disk_events_def)
    moreover have "disk_log_ok now (disk_events d @ [e])"
    proof (cases "disk_events d = []")
      case True
      then show ?thesis using allowed none e(4) by (auto simp: disk_log_ok_def split: if_splits)
    next
      case nonempty: False
      then have "?latest = Some (last (disk_events d))" by (rule latest)
      then have "disk_follows (last (disk_events d)) e"
        using allowed e(3, 4)
        by (auto simp: disk_follows_def should_suppress_def disk_suppress_window_def split: if_splits)
      then show ?thesis using ok nonempty by (auto simp: disk_log_ok_def successively_append_iff)
    qed
    ultimately show ?thesis using e by auto
  qed
qed

definition disk_state_ok :: "instant \<Rightarrow> db \<Rightarrow> bool" where
  "disk_state_ok now d \<longleftrightarrow>
     list_all (\<lambda>e. ev_occurred_at e \<le> now) (db_events d) \<and> disk_log_ok now (disk_events d) \<and>
     (disk_events d \<noteq> [] \<longrightarrow> latest_disk_space_event d = Some (last (disk_events d)))"

lemma disk_check_keeps:
  assumes "disk_state_ok t d" and "t \<le> now"
  shows "disk_state_ok now (case run_disk_space_monitor st (Aware now) free d of Inl _ \<Rightarrow> d | Inr d' \<Rightarrow> d')"
proof (cases "run_disk_space_monitor st (Aware now) free d")
  case (Inl e)
  then show ?thesis using assms by (auto simp: disk_state_ok_def disk_log_ok_def list_all_iff)
next
  case (Inr d')
  have old: "\<And>e. e \<in> set (db_events d) \<Longrightarrow> ev_occurred_at e \<le> now"
    using assms by (auto simp: disk_state_ok_def list_all_iff)
  have step: "(d' = d \<or> (\<exists>e. db_events d' = db_events d @ [e] \<and> ev_category e = disk_space_category \<and> ev_occurred_at e = now \<and>
      ev_id e = next_id (map ev_id (db_events d)))) \<and> disk_log_ok now (disk_events d')"
    using assms old Inr by (intro disk_check_cases) (auto simp: disk_state_ok_def disk_log_ok_def)
  show ?thesis
  proof (cases "d' = d")
    case True
    then show ?thesis using step old assms Inr by (auto simp: disk_state_ok_def list_all_iff)
  next
    case False
    then obtain e where e: "db_events d' = db_events d @ [e]" "ev_category e = disk_space_category" "ev_occurred_at e = now"
        "ev_id e = next_id (map ev_id (db_events d))" using step by blast
    have "latest_disk_space_event d' = Some e"
    proof -
      have "best_by (\<lambda>e. (ev_occurred_at e, ev_id e)) (disk_events d @ [e]) = Some e"
      proof (rule best_by_last)
        fix x assume "x \<in> set (disk_events d)"
        then have "x \<in> set (db_events d)" by (simp add: disk_events_def)
        from recorded_is_newest [OF old this] show "(ev_occurred_at x, ev_id x) \<le> (ev_occurred_at e, ev_id e)"
          by (simp only: e(3, 4))
      qed
      then show ?thesis using e(1, 2) by (simp add: latest_disk_space_event_def disk_events_def)
    qed
    moreover have "last (disk_events d') = e" using e(1, 2) by (simp add: disk_events_def)
    ultimately show ?thesis using step old e Inr by (auto simp: disk_state_ok_def list_all_iff)
  qed
qed



end
