(* ===== verification/PollProps.thy ===== *)
theory PollProps
  imports SchedulerProps
begin

section \<open>Polls, end to end\<close>

text \<open>
  Collection, database, detector and failure handling together: a poll of an unchanged machine adds
  no event. A foreign configuration seen by a poll whose commit fails is never reported.
\<close>

subsection \<open>The categories of detected events\<close>

definition foreign_category :: string where
  "foreign_category = ''foreign_config_detected''"

definition hardware_category :: "string \<Rightarrow> bool" where
  "hardware_category c \<longleftrightarrow> c \<noteq> system_category \<and> c \<noteq> foreign_category"

definition about_hardware :: "detected_event list \<Rightarrow> bool" where
  "about_hardware es \<longleftrightarrow> list_all (\<lambda>e. hardware_category (de_category e)) es"

lemma about_hardware_simps [simp]:
  "about_hardware []" "about_hardware (xs @ ys) \<longleftrightarrow> about_hardware xs \<and> about_hardware ys"
  "about_hardware (e # es) \<longleftrightarrow> hardware_category (de_category e) \<and> about_hardware es"
  "about_hardware (concat xss) \<longleftrightarrow> list_all about_hardware xss"
  by (auto simp: about_hardware_def list_all_iff)

lemma temperature_loop_hardware:
  assumes "sane th" and "temperature_loop th d t events st = Some (events', st')" and "about_hardware events"
  shows "about_hardware events'"
  using assms(2,3)
proof (induction "distance th t st" arbitrary: events st rule: less_induct)
  case less
  show ?case
  proof (cases "temperature_step th d t st")
    case None
    then show ?thesis using less.prems by (subst (asm) temperature_loop.simps) simp
  next
    case (Some x)
    obtain st1 e where x: "x = (st1, e)" by (cases x)
    have "hardware_category (de_category e)"
      using Some by (auto simp: x temperature_step_def temperature_event_def hardware_category_def system_category_def
          foreign_category_def Let_def split: temp_state.splits if_splits)
    then have "about_hardware (events @ [e])" using less.prems(2) by simp
    moreover have "temperature_loop th d t (events @ [e]) st1 = Some (events', st')"
      using less.prems(1) Some by (subst (asm) temperature_loop.simps) (simp add: x)
    ultimately show ?thesis using less.hyps step_closer [OF assms(1) Some [unfolded x]] by blast
  qed
qed

lemma drive_temperatures_hardware:
  assumes "sane th"
  shows "drive_temperatures th states previous replaced drives updates = Some (updates', events) \<Longrightarrow> about_hardware events"
proof (induction drives arbitrary: updates updates' events)
  case (Cons d ds)
  then show ?case
    using temperature_loop_hardware [OF assms, where events = "[]"]
    by (fastforce simp: temperature_transitions_def split: if_splits option.splits)
qed simp

lemmas event_builders =
  presence_event_def new_virtual_drive_event_def vd_state_event_def drive_state_event_def smart_alert_event_def
  cv_event_def roc_event_def drive_gone_event_def drive_arrived_event_def drive_replaced_event_def
  hardware_category_def system_category_def foreign_category_def

lemma map_filter_hardware:
  "(\<And>x e. x \<in> set xs \<Longrightarrow> f x = Some e \<Longrightarrow> hardware_category (de_category e)) \<Longrightarrow> about_hardware (List.map_filter f xs)"
  by (induction xs) (auto simp: List.map_filter_simps split: option.split)

lemma counters_hardware:
  "about_hardware (new_counter_events d)" "about_hardware (counter_events p d)"
  by (simp_all add: new_counter_events_def counter_events_def counters_def hardware_category_def system_category_def
      foreign_category_def)

lemma new_drive_hardware: "about_hardware (new_physical_drive_events d)" "about_hardware (new_cachevault_events th cv)"
  using counters_hardware
  by (simp_all add: new_physical_drive_events_def new_cachevault_events_def event_builders Let_def split: option.split)

lemma baseline_hardware: "about_hardware (detect_baseline th c)"
  unfolding detect_baseline_def using new_drive_hardware
  by (auto simp: list_all_iff event_builders Let_def split: option.split if_splits intro!: map_filter_hardware)

lemma compare_hardware:
  "compare_snapshots th previous c d = (d', events, replaced) \<Longrightarrow> about_hardware events"
proof (cases previous)
  case None
  assume "compare_snapshots th previous c d = (d', events, replaced)"
  with None show ?thesis by (auto simp: compare_snapshots_def baseline_hardware)
next
  case (Some p)
  assume run: "compare_snapshots th previous c d = (d', events, replaced)"
  have vds: "about_hardware (detect_virtual_drives p c)"
    by (auto simp: detect_virtual_drives_def vd_changes_def vd_arrivals_def list_all_iff event_builders Let_def
        split: option.split if_splits)
  have controller: "about_hardware (detect_controller p c)"
    by (simp add: detect_controller_def event_builders Let_def)
  have arrivals: "about_hardware (replacement_event ps x)" for ps x
    by (simp add: replacement_event_def event_builders split: slot_change.split)
  have gone: "about_hardware (map drive_gone_event xs)" for xs
    by (induction xs) (simp_all add: event_builders)
  have repl: "about_hardware (fst (snd (detect_drive_replacements p c d)))"
    using arrivals gone by (simp add: detect_drive_replacements_def Let_def list_all_iff)
  have drives: "about_hardware (detect_physical_drives p c rs)" for rs
    using new_drive_hardware counters_hardware
    by (auto simp: detect_physical_drives_def drive_changes_def list_all_iff event_builders Let_def split: option.split)
  have cv: "about_hardware (detect_cachevault th p c)"
    using new_drive_hardware
    by (simp add: detect_cachevault_def cachevault_gone_events_def cachevault_change_events_def event_builders
        split: option.split)
  show ?thesis
    using run vds controller repl drives cv by (auto simp: Some compare_snapshots_def split: prod.splits)
qed

lemma roc_hardware: "about_hardware (detect_roc_temperature th p t)"
  by (simp add: detect_roc_temperature_def roc_first_events_def roc_change_events_def event_builders split: option.split)

lemma foreign_events: "list_all (\<lambda>e. de_category e = foreign_category) (snd (detect_foreign_config f d))"
  by (simp add: detect_foreign_config_def foreign_event_def foreign_detected_event_def foreign_cleared_event_def
      foreign_category_def split: option.split)

definition stamped :: "physical_drive_info list \<Rightarrow> detected_event \<Rightarrow> detected_event" where
  "stamped ds e = hd (stamp_serials ds [e])"

lemma stamp_map: "stamp_serials ds es = map (stamped ds) es" "de_category (stamped ds e) = de_category e"
  by (simp_all add: stamped_def stamp_serials_def Let_def split: option.split)

lemma stamp_hardware [simp]: "about_hardware (map (stamped ds) es) = about_hardware es"
  by (simp add: stamp_map about_hardware_def list_all_iff)

text \<open>Every detected event is about the hardware or one of the foreign configuration.\<close>

lemma detect_events:
  assumes "sane th" and "detect th previous c d = Some (d', events)"
  obtains hardware d2 where "about_hardware hardware" "det_foreign_present d2 = det_foreign_present d"
    "events = hardware @ map (stamped (sc_physical_drives c)) (snd (detect_foreign_config (sc_foreign_config c) d2))"
proof -
  obtain d1 compared replaced where c1: "compare_snapshots th previous c (d\<lparr>det_updates := [], det_clears := []\<rparr>) = (d1, compared, replaced)"
    by (metis prod_cases3)
  obtain d2 ts where t: "detect_temperatures th previous c replaced d1 = Some (d2, ts)"
    using assms(2) c1 by (auto simp: detect_def split: option.splits)
  have "about_hardware ts"
    using t drive_temperatures_hardware [OF assms(1)] by (auto simp: detect_temperatures_def split: option.splits)
  moreover have "events = stamp_serials (sc_physical_drives c)
      (compared @ detect_roc_temperature th (case previous of None \<Rightarrow> None | Some p \<Rightarrow> ps_roc_temperature p)
         (ci_roc_temperature (sc_controller c)) @ ts @ snd (detect_foreign_config (sc_foreign_config c) d2))"
    using assms(2) c1 t by (auto simp: detect_def split: prod.splits)
  moreover have "det_foreign_present d2 = det_foreign_present d"
    using t compare_updates [OF c1] by (auto simp: detect_temperatures_def split: option.splits)
  ultimately show thesis
    using compare_hardware [OF c1] roc_hardware
    by (intro that [of "stamp_serials (sc_physical_drives c) (compared @ detect_roc_temperature th (case previous of None \<Rightarrow> None
      | Some p \<Rightarrow> ps_roc_temperature p) (ci_roc_temperature (sc_controller c)) @ ts)" d2]) (simp_all add: stamp_map(1))
qed

lemma detect_not_system:
  assumes "sane th" and "detect th previous c d = Some (d', events)"
  shows "list_all (\<lambda>e. de_category e \<noteq> system_category) events"
proof -
  obtain hardware d2 where "about_hardware hardware"
    "events = hardware @ map (stamped (sc_physical_drives c)) (snd (detect_foreign_config (sc_foreign_config c) d2))"
    by (rule detect_events [OF assms])
  then show ?thesis
    using foreign_events [of "sc_foreign_config c" d2]
    by (auto simp: about_hardware_def hardware_category_def list_all_iff stamp_map(2) foreign_category_def system_category_def)
qed

lemma detect_total:
  assumes "sane th"
  shows "\<exists>d' events. detect th previous c d = Some (d', events)"
proof -
  obtain d1 compared replaced where c1: "compare_snapshots th previous c (d\<lparr>det_updates := [], det_clears := []\<rparr>) = (d1, compared, replaced)"
    by (metis prod_cases3)
  obtain updates ts where
    "drive_temperatures th (det_states d1) (temperature_states_from_previous th previous) replaced
       (sc_physical_drives c) (det_updates d1) = Some (updates, ts)"
    using drive_temperatures_settle [OF assms] by blast
  then show ?thesis by (simp add: detect_def c1 detect_temperatures_def split: prod.split)
qed

subsection \<open>One successful poll\<close>

lemma record_clear_fields [simp]:
  "db_events (record_clear st t c entry d) = db_events d"
  "db_snapshots (record_clear st t c entry d) = db_snapshots d"
  "db_temp_states (record_clear st t c entry d) = db_temp_states d"
  by (simp_all add: record_clear_def set_state_def case_prod_beta Let_def split: option.split)

lemma clears_fields [simp]:
  "db_events (record_controller_temperature_clears st t c d) = db_events d"
  "db_snapshots (record_controller_temperature_clears st t c d) = db_snapshots d"
  "db_temp_states (record_controller_temperature_clears st t c d) = db_temp_states d"
  by (simp_all add: record_controller_temperature_clears_def controller_clear_keys_def)

lemma store_temperatures_fields [simp]:
  "db_events (store_temperatures det d) = db_events d"
  "db_snapshots (store_temperatures det d) = db_snapshots d"
proof -
  have "db_events (fold clear_temp_state_for_slot cs d) = db_events d \<and> db_snapshots (fold clear_temp_state_for_slot cs d) = db_snapshots d" for cs d
    by (induction cs arbitrary: d) (simp_all add: clear_temp_state_for_slot_def clear_temp_states_def)
  moreover have "db_events (fold (\<lambda>(k, v). upsert_temp_state k v) us d) = db_events d \<and>
      db_snapshots (fold (\<lambda>(k, v). upsert_temp_state k v) us d) = db_snapshots d" for us d
    by (induction us arbitrary: d) (auto simp: upsert_temp_state_def)
  ultimately show "db_events (store_temperatures det d) = db_events d" "db_snapshots (store_temperatures det d) = db_snapshots d"
    by (simp_all add: store_temperatures_def)
qed

lemma record_events_fields [simp]:
  "db_snapshots (record_events clock k es d) = db_snapshots d"
  "db_temp_states (record_events clock k es d) = db_temp_states d"
  by (induction clock k es d rule: record_events.induct) simp_all

lemma record_events_append:
  "record_events clock k (xs @ ys) d = record_events clock (k + length xs) ys (record_events clock k xs d)"
  by (induction clock k xs d rule: record_events.induct) simp_all

lemma record_events_times:
  assumes "mono clock"
  shows "list_all (\<lambda>e. ev_occurred_at e \<le> clock k) (db_events d) \<Longrightarrow>
    list_all (\<lambda>e. ev_occurred_at e \<le> clock (k + length es)) (db_events (record_events clock k es d))"
proof (induction es arbitrary: k d)
  case (Cons e es)
  have "clock k \<le> clock (Suc k)" using assms by (rule monoD) simp
  then have "list_all (\<lambda>e. ev_occurred_at e \<le> clock (Suc k)) (db_events (fst (record_event (clock k) (de_severity e)
      (de_category e) (de_subject e) (de_summary e) (de_before e) (de_after e) d)))"
    using Cons.prems by (auto simp: record_event_appends list_all_iff)
  then show ?case using Cons.IH by fastforce
qed simp

definition system_events :: "db \<Rightarrow> event_row list" where
  "system_events d = filter (\<lambda>e. ev_category e = system_category) (db_events d)"

lemma record_other_category:
  "list_all (\<lambda>e. de_category e \<noteq> c) es \<Longrightarrow>
   filter (\<lambda>e. ev_category e = c) (db_events (record_events clock k es d)) = filter (\<lambda>e. ev_category e = c) (db_events d)"
  by (induction clock k es d rule: record_events.induct) (simp_all add: record_event_appends)

lemma record_hardware_system:
  "list_all (\<lambda>e. de_category e \<noteq> system_category) es \<Longrightarrow> system_events (record_events clock k es d) = system_events d"
  unfolding system_events_def by (rule record_other_category)

lemma latest_from_system: "latest_system_event d = best_by (\<lambda>e. (ev_occurred_at e, ev_id e)) (system_events d)"
  by (simp add: latest_system_event_def system_events_def)

text \<open>After a successful poll the latest system event is not a failure, so a following poll announces no recovery.\<close>

lemma no_failure_after_success:
  assumes "mono clock" and "list_all (\<lambda>e. ev_occurred_at e \<le> clock 0) (db_events d)"
    and "list_all (\<lambda>e. de_category e \<noteq> system_category) events"
    and "db_events d' = db_events (record_events clock 0
      (events @ (if latest_system_event_was_collection_failure d then [recovered_event] else [])) d)"
  shows "\<not> latest_system_event_was_collection_failure d'"
proof (cases "latest_system_event_was_collection_failure d")
  case False
  then have "system_events d' = system_events d"
    using assms(3, 4) record_hardware_system [of events clock 0 d] by (simp add: system_events_def)
  then have "latest_system_event d' = latest_system_event d" by (simp add: latest_from_system)
  then show ?thesis using False by (simp add: latest_system_event_was_collection_failure_def)
next
  case True
  let ?d = "record_events clock 0 events d" and ?t = "clock (length events)"
  obtain e where e: "db_events d' = db_events ?d @ [e]" "ev_category e = system_category" "ev_occurred_at e = ?t"
      "ev_id e = next_id (map ev_id (db_events ?d))" "ev_summary e = ''Collection recovered''"
    using assms(4) True by (simp add: record_events_append record_event_appends recovered_event_def)
  have "\<And>x. x \<in> set (db_events ?d) \<Longrightarrow> ev_occurred_at x \<le> ?t"
    using record_events_times [OF assms(1, 2), of events] by (simp add: list_all_iff)
  then have "(ev_occurred_at x, ev_id x) \<le> (ev_occurred_at e, ev_id e)" if "x \<in> set (system_events ?d)" for x
    using recorded_is_newest [of ?d ?t x] that by (simp add: e(3, 4) system_events_def)
  then have "latest_system_event d' = Some e"
    using best_by_last [of "system_events ?d" "\<lambda>e. (ev_occurred_at e, ev_id e)" e] e(1, 2)
    by (simp add: latest_from_system system_events_def)
  then show ?thesis
    by (simp add: latest_system_event_was_collection_failure_def is_failure_def is_stale_report_def e(5)
        collection_failed_prefix_def monitoring_stale_prefix_def)
qed

lemma stored_temperature:
  assumes "distinct (map fst (det_updates det))" and "map_of (det_updates det) k = Some v"
  shows "get_temp_state k (store_temperatures det d) = Some v"
proof -
  have "distinct (map fst (temperature_updates det))"
    using assms(1) by (simp add: temperature_updates_def distinct_map)
  then have keys: "distinct (map fst (rev (temperature_updates det)))" by (metis distinct_rev rev_map)
  have "(k, v) \<in> set (rev (temperature_updates det))"
    using map_of_SomeD [OF assms(2)] by (simp add: temperature_updates_def)
  with keys have "map_of (rev (temperature_updates det)) k = Some v" by (rule map_of_is_SomeI)
  moreover have fold_eq: "fold (\<lambda>(k, v). upsert_temp_state k v) = fold (\<lambda>x. upsert_temp_state (fst x) (snd x))"
    by (simp add: case_prod_beta')
  ultimately show ?thesis
    unfolding store_temperatures_def fold_eq temps.lookup_fold by simp
qed

lemma load_temperature_fold:
  "map_of (fold (\<lambda>x acc. case get_temp_state (drive_id_of x) d of None \<Rightarrow> acc
      | Some t \<Rightarrow> AList.update (drive_id_of x) t acc) xs acc) k =
    (if k \<in> drive_id_of ` set xs \<and> get_temp_state k d \<noteq> None then get_temp_state k d else map_of acc k)"
  by (induction xs arbitrary: acc) (auto simp: update_conv' split: option.split)

lemma loaded_temperature:
  assumes "x \<in> set (sc_physical_drives s)" and "get_temp_state (drive_id_of x) d = Some v"
  shows "map_of (load_temperature_states d s) (drive_id_of x) = Some v"
  using assms by (simp add: load_temperature_states_def load_temperature_fold)

subsection \<open>What a collected snapshot is\<close>

definition complete_snapshot :: "storcli_snapshot \<Rightarrow> bool" where
  "complete_snapshot s \<longleftrightarrow>
     distinct (map vdi_vd_id (sc_virtual_drives s)) \<and> distinct (map slot_of (sc_physical_drives s)) \<and>
     (ci_cv_present (sc_controller s) \<longleftrightarrow> sc_cachevault s \<noteq> None)"

lemma complete_inventory_distinct:
  assumes "validate_complete_inventory c v p vds pds = Inr u"
  shows "distinct (map vdi_vd_id vds) \<and> distinct (map slot_of pds)"
proof -
  from assms have "validate_complete_inventory c v p vds pds = Inr ()" by simp
  then obtain summary keys where same: "same_inventory (int (length vds)) (int (length pds)) vds pds summary keys"
    by (rule validate_complete_inventory_Inr)
  have "map drive_location pds = map slot_of pds" by (simp add: drive_location_def slot_of_def)
  with same show ?thesis
    using distinct_if_length_remdups [of "map vdi_vd_id vds"] distinct_if_length_remdups [of "map slot_of pds"]
    by (simp add: same_inventory_def)
qed

lemma bindr_assoc: "bindr (bindr m f) g = bindr m (\<lambda>x. bindr (f x) g)"
  by (cases m) simp_all

lemma bindr_InrE: "bindr m f = Inr y \<Longrightarrow> (\<And>x. m = Inr x \<Longrightarrow> f x = Inr y \<Longrightarrow> P) \<Longrightarrow> P"
  by (cases m) simp_all

lemma bindr_if: "bindr (if b then m else n) f = (if b then bindr m f else bindr n f)"
  by simp

lemma bindr_prod: "bindr (case x of (a, b) \<Rightarrow> f a b) g = (case x of (a, b) \<Rightarrow> bindr (f a b) g)"
  by (cases x) simp

lemma collect_at:
  "collect_storcli_snapshot to_int fingerprint now storcli =
   bindr (collect_storcli_snapshot to_int fingerprint t storcli) (\<lambda>(s, raw). Inr (s\<lparr>sc_captured_at := Aware now\<rparr>, raw))"
  unfolding collect_storcli_snapshot_def
  by (simp only: bindr_assoc bindr_if bindr_prod bindr_simps prod.case storcli_snapshot.update_convs)

lemma collected_is_complete:
  assumes "collect_storcli_snapshot to_int fingerprint now storcli = Inr (s, raw)"
  shows "complete_snapshot s" and "sc_captured_at s = Aware now"
proof -
  have "complete_snapshot s \<and> sc_captured_at s = Aware now"
    using assms unfolding collect_storcli_snapshot_def
    by (auto simp: complete_snapshot_def elim!: bindr_InrE dest!: complete_inventory_distinct split: if_splits)
  then show "complete_snapshot s" and "sc_captured_at s = Aware now" by blast+
qed

subsection \<open>Two polls of one machine\<close>

lemma run_once_success:
  assumes "run_once st describe p sv = Some (sv1, Returns True)"
  obtains s raw det d where "po_collected p = Inr (s, raw)"
    and "store_snapshot st (po_clock p) s raw sv = Some (det, Inr d)" and "sv1 = \<lparr>sv_db = d, sv_detector = det\<rparr>"
  using assms by (auto simp: run_once_def Let_def split: sum.splits option.splits prod.splits if_splits)

lemma run_once_stores:
  assumes "po_collected p = Inr (s, raw)" and "store_snapshot st (po_clock p) s raw sv = Some (det, Inr d)"
    and "po_commit_failure p = None"
  shows "run_once st describe p sv = Some (\<lparr>sv_db = d, sv_detector = det\<rparr>, Returns True)"
  using assms by (simp add: run_once_def)

lemma insert_snapshot_stores:
  assumes "sc_captured_at s = Aware t"
  shows "\<exists>d1 row. insert_snapshot s store_raw raw d = Inr (d1, row) \<and> sr_captured_at row = t \<and>
    db_snapshots d1 = db_snapshots d @ [row] \<and> db_events d1 = db_events d \<and> db_temp_states d1 = db_temp_states d"
  using assms by (simp add: insert_snapshot_def Let_def)

lemma latest_by_events: "db_events d = db_events d' \<Longrightarrow>
    latest_system_event_was_collection_failure d = latest_system_event_was_collection_failure d'"
  by (simp add: latest_system_event_was_collection_failure_def latest_system_event_def)

lemma events_by_events: "db_events d = db_events d' \<Longrightarrow>
    db_events (record_events clock k es d) = db_events (record_events clock k es d')"
  by (induction es arbitrary: k d d') (simp_all add: record_event_def Let_def)

text \<open>The parts of a stored poll.\<close>

lemma store_snapshot_parts:
  assumes "store_snapshot st clock s raw sv = Some (det, Inr d)" and "sc_captured_at s = Aware t"
  obtains row d1 events where
    "insert_snapshot s (st_store_raw_snapshot_payload st) (Some raw) (sv_db sv) = Inr (d1, row)" "sr_captured_at row = t"
    "db_snapshots d = db_snapshots (sv_db sv) @ [row]"
    "detect (detector_thresholds st) (map_option previous_of (get_latest_snapshot (sv_db sv))) s
       (set_temperature_states (load_temperature_states (sv_db sv) s) (sv_detector sv)) = Some (det, events)"
    "db_events d = db_events (record_events clock 0
       (events @ (if latest_system_event_was_collection_failure (sv_db sv) then [recovered_event] else [])) (sv_db sv))"
    "\<And>k v. distinct (map fst (det_updates det)) \<Longrightarrow> map_of (det_updates det) k = Some v \<Longrightarrow> get_temp_state k d = Some v"
proof -
  obtain d1 row where row: "insert_snapshot s (st_store_raw_snapshot_payload st) (Some raw) (sv_db sv) = Inr (d1, row)"
      "sr_captured_at row = t" "db_snapshots d1 = db_snapshots (sv_db sv) @ [row]" "db_events d1 = db_events (sv_db sv)"
    using insert_snapshot_stores [OF assms(2)] by blast
  let ?d2 = "record_controller_temperature_clears st (ci_roc_temperature (sc_controller s)) t d1"
  have same: "latest_system_event_was_collection_failure ?d2 = latest_system_event_was_collection_failure (sv_db sv)"
    by (rule latest_by_events) (simp add: row(4))
  obtain events where ev: "detect (detector_thresholds st) (map_option previous_of (get_latest_snapshot (sv_db sv))) s
       (set_temperature_states (load_temperature_states (sv_db sv) s) (sv_detector sv)) = Some (det, events)"
    and d: "d = store_temperatures det (record_events clock 0
       (events @ (if latest_system_event_was_collection_failure (sv_db sv) then [recovered_event] else [])) ?d2)"
    using assms(1) by (auto simp: store_snapshot_def row(1, 2) same Let_def split: option.splits)
  show thesis
  proof (rule that [OF row(1, 2) _ ev])
    show "db_snapshots d = db_snapshots (sv_db sv) @ [row]" by (simp add: d row(3))
    show "db_events d = db_events (record_events clock 0
       (events @ (if latest_system_event_was_collection_failure (sv_db sv) then [recovered_event] else [])) (sv_db sv))"
      unfolding d store_temperatures_fields by (rule events_by_events) (simp add: row(4))
    show "get_temp_state k d = Some v" if "distinct (map fst (det_updates det))" "map_of (det_updates det) k = Some v" for k v
      unfolding d by (rule stored_temperature [OF that])
  qed
qed

lemma quiet_second_detection:
  assumes sane: "sane (detector_thresholds st)" and s: "complete_snapshot s"
    and row: "insert_snapshot s store_raw raw b = Inr (b', row)"
    and first: "detect (detector_thresholds st) previous s det0 = Some (det, events)"
    and stored: "\<And>k v. distinct (map fst (det_updates det)) \<Longrightarrow> map_of (det_updates det) k = Some v \<Longrightarrow> get_temp_state k d = Some v"
  shows "\<exists>det'. detect (detector_thresholds st) (Some (previous_of row)) (s\<lparr>sc_captured_at := Aware t\<rparr>)
      (set_temperature_states (load_temperature_states d (s\<lparr>sc_captured_at := Aware t\<rparr>)) det) = Some (det', [])"
proof -
  let ?th = "detector_thresholds st" and ?s = "s\<lparr>sc_captured_at := Aware t\<rparr>"
  obtain start where ups: "det_updates det = settle_all ?th start (sc_physical_drives s) []"
    and foreign: "det_foreign_present det = foreign_after (sc_foreign_config s) (det_foreign_present det0)"
    using detect_updates [OF sane first] by blast
  have slots: "distinct (map slot_of (sc_physical_drives s))" and vds: "distinct (map vdi_vd_id (sc_virtual_drives s))"
    using s by (simp_all add: complete_snapshot_def)
  have keys: "distinct (map fst (det_updates det))" unfolding ups by (rule distinct_settle_all) simp
  obtain c' row' where row': "insert_snapshot ?s store_raw raw empty_db = Inr (c', row')" "previous_of row' = previous_of row"
    using row by (auto simp: insert_snapshot_def bindr_Inr_iff Let_def previous_of_def previous_snapshot.truncate_def)
  have "map_option snd (detect ?th (Some (previous_of row)) ?s
      (set_temperature_states (load_temperature_states d ?s) det)) = Some []"
  proof (rule detect_quiet [OF sane _ row'(1)])
    show "previous_of row = previous_of row'" by (simp add: row'(2))
    show "distinct (map slot_of (sc_physical_drives ?s))" "distinct (map vdi_vd_id (sc_virtual_drives ?s))"
      using slots vds by simp_all
    show "det_foreign_present (set_temperature_states (load_temperature_states d ?s) det) =
        foreign_after (sc_foreign_config ?s) (det_foreign_present det0)"
      by (simp add: set_temperature_states_def foreign)
    fix x assume x: "x \<in> set (sc_physical_drives ?s)" "pdi_temperature x \<noteq> None"
    then obtain temp where temp: "pdi_temperature x = Some temp" by blast
    have "map_of (det_updates det) (drive_id_of x) = Some (settled ?th temp (start x))"
      unfolding ups using x(1) by (intro settle_all_lookup [OF slots _ temp]) simp
    then have "map_of (load_temperature_states d ?s) (drive_id_of x) = Some (settled ?th temp (start x))"
      using loaded_temperature [of x ?s] x(1) stored [OF keys] by simp
    then show "\<exists>st. map_of (det_states (set_temperature_states (load_temperature_states d ?s) det)) (drive_id_of x) = Some st
        \<and> settled ?th (reading x) st = st"
      by (simp add: set_temperature_states_def reading_def temp settled_idem [OF sane])
  qed
  then show ?thesis by auto
qed

text \<open>C11. A poll of a machine that answers every command as in the last, stored poll succeeds and adds
  no event, whatever that last poll found and whether or not it ended an outage: collection,
  database, detector and recovery notice together are quiet on an unchanged machine.\<close>

theorem unchanged_poll_records_nothing:
  assumes "validate_runtime_values network_ok st = Inr st'"
    and "run_once st describe p sv = Some (sv1, Returns True)"
    and "po_collected p = collect_storcli_snapshot to_int fingerprint t1 storcli"
    and "po_collected q = collect_storcli_snapshot to_int fingerprint t2 storcli" and "po_commit_failure q = None"
    and "list_all (\<lambda>row. sr_captured_at row \<le> t1) (db_snapshots (sv_db sv))"
    and "mono (po_clock p)" and "list_all (\<lambda>e. ev_occurred_at e \<le> po_clock p 0) (db_events (sv_db sv))"
  shows "map_option (\<lambda>(sv2, r). (db_events (sv_db sv2), r)) (run_once st describe q sv1) =
    Some (db_events (sv_db sv1), Returns True)"
proof -
  note sane = sane_settings [OF assms(1)]
  obtain s raw det d where p: "po_collected p = Inr (s, raw)" "store_snapshot st (po_clock p) s raw sv = Some (det, Inr d)"
    and sv1: "sv1 = \<lparr>sv_db = d, sv_detector = det\<rparr>"
    by (rule run_once_success [OF assms(2)])
  note collected = p(1) [unfolded assms(3)]
  let ?s = "s\<lparr>sc_captured_at := Aware t2\<rparr>"
  have q: "po_collected q = Inr (?s, raw)"
    unfolding assms(4) collect_at [of to_int fingerprint t2 storcli t1] collected by simp
  obtain row d1 events where stored:
    "insert_snapshot s (st_store_raw_snapshot_payload st) (Some raw) (sv_db sv) = Inr (d1, row)" "sr_captured_at row = t1"
    "db_snapshots d = db_snapshots (sv_db sv) @ [row]"
    "detect (detector_thresholds st) (map_option previous_of (get_latest_snapshot (sv_db sv))) s
       (set_temperature_states (load_temperature_states (sv_db sv) s) (sv_detector sv)) = Some (det, events)"
    "db_events d = db_events (record_events (po_clock p) 0
       (events @ (if latest_system_event_was_collection_failure (sv_db sv) then [recovered_event] else [])) (sv_db sv))"
    "\<And>k v. distinct (map fst (det_updates det)) \<Longrightarrow> map_of (det_updates det) k = Some v \<Longrightarrow> get_temp_state k d = Some v"
    by (rule store_snapshot_parts [OF p(2) collected_is_complete(2) [OF collected]]) blast
  have latest: "get_latest_snapshot d = Some row"
    unfolding get_latest_snapshot_def stored(3) using assms(6) by (intro best_by_last) (simp add: stored(2) list_all_iff)
  obtain det2 where second: "detect (detector_thresholds st) (Some (previous_of row)) ?s
      (set_temperature_states (load_temperature_states d ?s) det) = Some (det2, [])"
    using quiet_second_detection [OF sane collected_is_complete(1) [OF collected] stored(1, 4, 6)] by blast
  have no_recovery: "\<not> latest_system_event_was_collection_failure d"
    by (rule no_failure_after_success [OF assms(7, 8) detect_not_system [OF sane stored(4)] stored(5)])
  obtain d2 row2 where ins: "insert_snapshot ?s (st_store_raw_snapshot_payload st) (Some raw) d = Inr (d2, row2)"
      "db_events d2 = db_events d"
    using insert_snapshot_stores [of ?s t2] by fastforce
  let ?d3 = "record_controller_temperature_clears st (ci_roc_temperature (sc_controller s)) (sr_captured_at row2) d2"
  have "\<not> latest_system_event_was_collection_failure ?d3"
    using no_recovery latest_by_events [of ?d3 d] by (simp add: ins(2))
  then have "store_snapshot st (po_clock q) ?s raw sv1 = Some (det2, Inr (store_temperatures det2 ?d3))"
    by (simp add: store_snapshot_def sv1 ins(1) latest second)
  from run_once_stores [OF q this assms(5)] show ?thesis by (simp add: sv1 ins(2))
qed

text \<open>A machine with one hot drive, as its StorCLI answers; what it does not answer is unsupported.\<close>

definition sample_physical :: dict where
  "sample_physical =
     [(''Drive /c0/e2/s1'', JArr [JObj [(''EID:Slt'', JStr ''2:1''), (''DID'', JInt 1), (''State'', JStr ''Onln''),
        (''DG'', JInt 0), (''Size'', JStr ''1 B''), (''Intf'', JStr ''SAS''), (''Med'', JStr ''HDD''), (''Model'', JStr ''M'')]]),
      (''Drive /c0/e2/s1 - Detailed Information'', JObj
        [(''Drive /c0/e2/s1 State'', JObj [(''Drive Temperature'', JStr ''61C''), (''Media Error Count'', JInt 0),
           (''Other Error Count'', JInt 0), (''Predictive Failure Count'', JInt 0),
           (''S.M.A.R.T alert flagged by drive'', JStr ''No'')]),
         (''Drive /c0/e2/s1 Device attributes'', JObj [(''SN'', JStr ''S''), (''Firmware Revision'', JStr ''F'')]),
         (''Drive /c0/e2/s1 Policies/Settings'', JObj
           [(''Port Information'', JArr [JObj [(''SAS address'', JStr ''0xA'')]])])])]"

definition sample_controller_payload :: dict where
  "sample_controller_payload = sample_response ''Success''
     [(''Basics'', JObj [(''Model'', JStr ''M''), (''Serial Number'', JStr ''S''), (''PCI Address'', JStr ''P''),
         (''Current System Date/time'', JStr ''01/01/1970, 00:00:00'')]),
      (''Version'', JObj [(''Firmware Version'', JStr ''F''), (''Bios Version'', JStr ''B''), (''Driver Name'', JStr ''D''),
         (''Driver Version'', JStr ''V'')]),
      (''HwCfg'', JObj [(''Alarm'', JStr ''on''), (''BBU'', JStr ''No''), (''ROC temperature(Degree Celsius)'', JInt 80)]),
      (''Virtual Drives'', JInt 0), (''Physical Drives'', JInt 1),
      (''PD LIST'', JArr [JObj [(''EID:Slt'', JStr ''2:1''), (''DID'', JInt 1), (''State'', JStr ''Onln'')]]),
      (''Cachevault_Info'', JArr [])]"

definition sample_machine :: storcli_run where
  "sample_machine cmd =
     (case map_of
        [([''/c0'', ''show'', ''all''], sample_controller_payload),
         ([''/c0/vall'', ''show'', ''all''], sample_response ''Success'' []),
         ([''/c0/eall/sall'', ''show'', ''all''], sample_response ''Success'' sample_physical),
         ([''/c0/cv'', ''show'', ''all''], sample_response ''Success'' [(''Cachevault_Info'', JArr [])])] cmd of
        Some d \<Rightarrow> Inr d | None \<Rightarrow> Inl (parse_fault ''unsupported''))"

definition sample_int :: "json \<Rightarrow> int option" where
  "sample_int v = (case v of JInt i \<Rightarrow> Some i | _ \<Rightarrow> None)"

definition sample_poll :: "int \<Rightarrow> poll" where
  "sample_poll t =
     \<lparr>po_collected = collect_storcli_snapshot sample_int (\<lambda>_. []) t sample_machine, po_clock = (\<lambda>k. t + int k),
      po_commit_failure = None, po_failure_clock = (\<lambda>k. t + int k), po_failure_commits = True\<rparr>"

lemma sample_machine_answers:
  "run_text sample_machine ''/c0 show all'' = Inr sample_controller_payload"
  "run_text sample_machine ''/c0/vall show all'' = Inr (sample_response ''Success'' [])"
  "run_text sample_machine ''/c0/eall/sall show all'' = Inr (sample_response ''Success'' sample_physical)"
  "run_text sample_machine ''/c0/cv show all'' = Inr (sample_response ''Success'' [(''Cachevault_Info'', JArr [])])"
  "run_text sample_machine ''/c0/bbu show all'' = Inl (parse_fault ''unsupported'')"
  "run_text sample_machine ''/c0/fall show all'' = Inl (parse_fault ''unsupported'')"
  "run_text sample_machine ''/c0 show patrolread'' = Inl (parse_fault ''unsupported'')"
  "run_text sample_machine ''/c0 show cc'' = Inl (parse_fault ''unsupported'')"
  by (code_simp, code_simp, code_simp, code_simp, code_simp, code_simp, code_simp, code_simp)

lemma sample_controller_parsed:
  "parse_controller_show_all sample_controller_payload = Inr (sample_controller False (Some 80))"
  by code_simp

lemma sample_drives_parsed:
  "parse_physical_drives sample_int (sample_response ''Success'' sample_physical) = Inr [sample_drive 1 ''S'' (Some 61)]"
  by code_simp

lemma sample_rest_parsed:
  "parse_virtual_drives (sample_response ''Success'' []) = Inr []"
  "parse_cachevault (sample_response ''Success'' [(''Cachevault_Info'', JArr [])]) = Inr None"
  "validate_complete_inventory sample_controller_payload (sample_response ''Success'' [])
     (sample_response ''Success'' sample_physical) [] [sample_drive 1 ''S'' (Some 61)] = Inr ()"
  "isl (drive_positions (sample_response ''Success'' sample_physical) [sample_drive 1 ''S'' (Some 61)]) = False"
  by (code_simp, code_simp, code_simp, code_simp)

lemma sample_collected:
  "\<exists>s raw. collect_storcli_snapshot sample_int (\<lambda>_. []) t sample_machine = Inr (s, raw)"
proof -
  obtain positions where "drive_positions (sample_response ''Success'' sample_physical) [sample_drive 1 ''S'' (Some 61)] = Inr positions"
    using sample_rest_parsed(4) by (cases "drive_positions (sample_response ''Success'' sample_physical) [sample_drive 1 ''S'' (Some 61)]") simp_all
  moreover have "ci_cv_present (sample_controller False (Some 80)) = False" by (simp add: sample_controller_def)
  ultimately show ?thesis
    unfolding collect_storcli_snapshot_def patrol_reading_def consistency_reading_def sample_machine_answers
      optional_probe_def optional_reading_def parse_fault_def
    by (simp add: sample_controller_parsed sample_drives_parsed sample_rest_parsed)
qed

lemma stored_poll_returns:
  assumes "sane (detector_thresholds st)" and "po_collected p = Inr (s, raw)" and "sc_captured_at s = Aware t"
    and "po_commit_failure p = None"
  shows "\<exists>sv1. run_once st describe p sv = Some (sv1, Returns True)"
proof -
  obtain d1 row where row: "insert_snapshot s (st_store_raw_snapshot_payload st) (Some raw) (sv_db sv) = Inr (d1, row)"
    using insert_snapshot_stores [OF assms(3)] by blast
  obtain det events where "detect (detector_thresholds st) (map_option previous_of (get_latest_snapshot (sv_db sv))) s
       (set_temperature_states (load_temperature_states (sv_db sv) s) (sv_detector sv)) = Some (det, events)"
    using detect_total [OF assms(1)] by blast
  then have "\<exists>d. store_snapshot st (po_clock p) s raw sv = Some (det, Inr d)"
    by (simp add: store_snapshot_def row Let_def)
  then show ?thesis using run_once_stores [OF assms(2) _ assms(4)] by blast
qed

theorem unchanged_poll_records_nothing_witness:
  "\<exists>sv1. run_once sample_settings (\<lambda>_. []) (sample_poll 0) new_service = Some (sv1, Returns True) \<and>
     map_option (\<lambda>(sv2, r). (db_events (sv_db sv2), r)) (run_once sample_settings (\<lambda>_. []) (sample_poll 300) sv1) =
       Some (db_events (sv_db sv1), Returns True)"
proof -
  obtain s raw where collected: "po_collected (sample_poll 0) = Inr (s, raw)" "sc_captured_at s = Aware 0"
    using sample_collected [of 0] collected_is_complete(2) by (fastforce simp: sample_poll_def)
  obtain sv1 where first: "run_once sample_settings (\<lambda>_. []) (sample_poll 0) new_service = Some (sv1, Returns True)"
    using stored_poll_returns [OF sane_settings [OF sample_settings_valid] collected] by (auto simp: sample_poll_def)
  have "mono (po_clock (sample_poll 0))" by (simp add: sample_poll_def mono_def)
  then have "map_option (\<lambda>(sv2, r). (db_events (sv_db sv2), r)) (run_once sample_settings (\<lambda>_. []) (sample_poll 300) sv1) =
      Some (db_events (sv_db sv1), Returns True)"
    by (intro unchanged_poll_records_nothing [OF sample_settings_valid first, where to_int = sample_int and
        fingerprint = "\<lambda>_. []" and storcli = sample_machine and ?t1.0 = 0 and ?t2.0 = 300])
      (simp_all add: sample_poll_def new_service_def empty_db_def)
  with first show ?thesis by blast
qed

subsection \<open>A lost report\<close>

definition foreign_log :: "db \<Rightarrow> event_row list" where
  "foreign_log d = filter (\<lambda>e. ev_category e = foreign_category) (db_events d)"

lemma failure_foreign_log: "foreign_log (record_collection_failure st clock msg d) = foreign_log d"
proof -
  have "foreign_log (fst (record_event t sev system_category subj summ b a d)) = foreign_log d" for t sev subj summ b a d
    by (simp add: foreign_log_def record_event_appends foreign_category_def system_category_def)
  then show ?thesis
    unfolding record_collection_failure_def case_prod_beta by (simp split: option.split)
qed

lemma poll_with_foreign_config:
  assumes sane: "sane (detector_thresholds st)" and "po_collected p = Inr (s, raw)" and "sc_captured_at s = Aware t"
    and f: "sc_foreign_config s = Some f" "fci_present f"
  obtains sv1 r where "run_once st describe p sv = Some (sv1, r)" "det_foreign_present (sv_detector sv1) = Some True"
    "po_commit_failure p \<noteq> None \<or> det_foreign_present (sv_detector sv) = Some True \<Longrightarrow> foreign_log (sv_db sv1) = foreign_log (sv_db sv)"
proof -
  let ?det0 = "set_temperature_states (load_temperature_states (sv_db sv) s) (sv_detector sv)"
  obtain d1 row where row: "insert_snapshot s (st_store_raw_snapshot_payload st) (Some raw) (sv_db sv) = Inr (d1, row)"
      "db_events d1 = db_events (sv_db sv)"
    using insert_snapshot_stores [OF assms(3)] by blast
  obtain det events where ev: "detect (detector_thresholds st) (map_option previous_of (get_latest_snapshot (sv_db sv))) s ?det0
      = Some (det, events)"
    using detect_total [OF sane] by blast
  have present: "det_foreign_present det = Some True"
    using detect_updates(2) [OF sane ev] by (simp add: f foreign_after_def)
  define recovered where "recovered d = (if latest_system_event_was_collection_failure d then [recovered_event] else [])" for d
  let ?d2 = "record_controller_temperature_clears st (ci_roc_temperature (sc_controller s)) (sr_captured_at row) d1"
  let ?d = "store_temperatures det (record_events (po_clock p) 0 (events @ recovered ?d2) ?d2)"
  have stored: "store_snapshot st (po_clock p) s raw sv = Some (det, Inr ?d)"
    by (simp add: store_snapshot_def row ev recovered_def Let_def)
  have quiet: "foreign_log ?d = foreign_log (sv_db sv)" if "det_foreign_present (sv_detector sv) = Some True"
  proof -
    obtain hardware d2 where hw: "about_hardware hardware" "det_foreign_present d2 = det_foreign_present ?det0"
      "events = hardware @ map (stamped (sc_physical_drives s)) (snd (detect_foreign_config (sc_foreign_config s) d2))"
      by (rule detect_events [OF sane ev])
    have "snd (detect_foreign_config (sc_foreign_config s) d2) = []"
      using hw(2) that by (simp add: detect_foreign_config_def f set_temperature_states_def)
    then have "list_all (\<lambda>e. de_category e \<noteq> foreign_category) (events @ recovered ?d2)"
      using hw(1, 3)
      by (auto simp: about_hardware_def hardware_category_def list_all_iff recovered_def recovered_event_def
          foreign_category_def system_category_def)
    from record_other_category [OF this] show ?thesis by (simp add: foreign_log_def row(2))
  qed
  show thesis
  proof (cases "po_commit_failure p")
    case None
    then show thesis using that [of "\<lparr>sv_db = ?d, sv_detector = det\<rparr>" "Returns True"] run_once_stores [OF assms(2) stored] quiet present
      by simp
  next
    case (Some msg)
    let ?sv1 = "failed_poll st (po_failure_clock p) msg (po_failure_commits p) (sv\<lparr>sv_detector := det\<rparr>)"
    have "run_once st describe p sv = Some (?sv1, Returns False)"
      using Some stored assms(2) by (simp add: run_once_def)
    then show thesis
      by (rule that) (simp_all add: failed_poll_def present failure_foreign_log)
  qed
qed

text \<open>C18. A foreign configuration first seen by a poll whose commit fails is never reported: the
  detector remembers it in memory although the event was rolled back, so the next poll that sees
  it, committed or not, records nothing about it either.\<close>

theorem rolled_back_foreign_report_is_lost:
  assumes "validate_runtime_values network_ok st = Inr st'"
    and "po_collected p = Inr (s, raw)" and "sc_captured_at s = Aware t" and "sc_foreign_config s = Some f" and "fci_present f"
    and "po_commit_failure p = Some msg"
    and "po_collected q = Inr (s', raw')" and "sc_captured_at s' = Aware t'" and "sc_foreign_config s' = Some f'" and "fci_present f'"
  shows "map_option (\<lambda>(sv2, _). foreign_log (sv_db sv2)) (Option.bind (run_once st describe p sv) (\<lambda>(sv1, _). run_once st describe q sv1)) =
    Some (foreign_log (sv_db sv))"
proof -
  note sane = sane_settings [OF assms(1)]
  obtain sv1 r1 where first: "run_once st describe p sv = Some (sv1, r1)" "det_foreign_present (sv_detector sv1) = Some True"
      "foreign_log (sv_db sv1) = foreign_log (sv_db sv)"
    by (rule poll_with_foreign_config [OF sane assms(2-5), where describe = describe and sv = sv]) (simp add: assms(6))
  obtain sv2 r2 where "run_once st describe q sv1 = Some (sv2, r2)" "foreign_log (sv_db sv2) = foreign_log (sv_db sv1)"
    by (rule poll_with_foreign_config [OF sane assms(7-10), where describe = describe and sv = sv1]) (simp add: first(2))
  with first show ?thesis by simp
qed

definition foreign_poll :: "int \<Rightarrow> string option \<Rightarrow> poll" where
  "foreign_poll t failure =
     (sample_poll t)\<lparr>po_collected := Inr ((sample_snapshot t [])\<lparr>sc_foreign_config := Some (no_foreign_config\<lparr>fci_present := True\<rparr>)\<rparr>, []),
       po_commit_failure := failure\<rparr>"

theorem rolled_back_foreign_report_is_lost_witness:
  "map_option (\<lambda>(sv2, _). foreign_log (sv_db sv2))
     (Option.bind (run_once sample_settings (\<lambda>_. []) (foreign_poll 0 (Some ''database is locked'')) new_service)
        (\<lambda>(sv1, _). run_once sample_settings (\<lambda>_. []) (foreign_poll 300 None) sv1)) = Some [] \<and>
   length (snd (detect_foreign_config (Some (no_foreign_config\<lparr>fci_present := True\<rparr>)) (sv_detector new_service))) = 1"
proof
  show "length (snd (detect_foreign_config (Some (no_foreign_config\<lparr>fci_present := True\<rparr>)) (sv_detector new_service))) = 1"
    by code_simp
  have "foreign_log (sv_db new_service) = []" by code_simp
  moreover have "map_option (\<lambda>(sv2, _). foreign_log (sv_db sv2))
     (Option.bind (run_once sample_settings (\<lambda>_. []) (foreign_poll 0 (Some ''database is locked'')) new_service)
        (\<lambda>(sv1, _). run_once sample_settings (\<lambda>_. []) (foreign_poll 300 None) sv1)) = Some (foreign_log (sv_db new_service))"
    by (rule rolled_back_foreign_report_is_lost [OF sample_settings_valid, where t = 0 and t' = 300 and
          f = "no_foreign_config\<lparr>fci_present := True\<rparr>" and f' = "no_foreign_config\<lparr>fci_present := True\<rparr>"])
      (simp_all add: foreign_poll_def sample_snapshot_def)+
  ultimately show "map_option (\<lambda>(sv2, _). foreign_log (sv_db sv2))
     (Option.bind (run_once sample_settings (\<lambda>_. []) (foreign_poll 0 (Some ''database is locked'')) new_service)
        (\<lambda>(sv1, _). run_once sample_settings (\<lambda>_. []) (foreign_poll 300 None) sv1)) = Some []" by simp
qed

end
