(* ===== verification/OverviewProps.thy ===== *)
theory OverviewProps
  imports Overview PollProps
begin

section \<open>From a poll to the main page\<close>

text \<open>
  What the poll stores of running operations is what the main page reads, and a failed poll is visible on the page
  from its commit on.
\<close>

subsection \<open>Stored operations\<close>

lemma json_opt_null: "json_opt f x = JNull \<Longrightarrow> (\<And>y. f y \<noteq> JNull) \<Longrightarrow> x = None"
  by (cases x) (auto simp: json_opt_def)

lemma optional_text_json: "dict_get d k = Some (json_opt JStr x) \<Longrightarrow> optional_text d k = Some x"
  by (cases x) (simp_all add: optional_text_def json_opt_def)

lemma optional_integer_json: "dict_get d k = Some (json_opt JInt x) \<Longrightarrow> optional_integer d k = Some x"
  by (cases x) (simp_all add: optional_integer_def json_opt_def)

lemma patrol_read_back:
  "col_get (sr_raw_json s) ''patrol_read'' = Some (patrol_dict p) \<Longrightarrow> load_patrol_read_state s = Some p"
  by (simp add: load_patrol_read_state_def patrol_dict_def stored_text_def optional_text_json optional_integer_json)

lemma consistency_read_back:
  "col_get (sr_raw_json s) ''consistency_check'' = Some (consistency_dict c) \<Longrightarrow> load_consistency_check_state s = Some c"
  by (simp add: load_consistency_check_state_def consistency_dict_def stored_text_def optional_text_json optional_integer_json)

lemma kept_keys:
  "map_of (List.map_filter (\<lambda>k. case f k of None \<Rightarrow> None | Some JNull \<Rightarrow> None | Some v \<Rightarrow> Some (k, v)) ks) k =
   (if k \<in> set ks then (case f k of Some JNull \<Rightarrow> None | x \<Rightarrow> x) else None)"
proof (induction ks)
  case (Cons x ks)
  then show ?case
    by (cases "f x") (auto simp: List.map_filter_simps split: json.splits)
qed (simp add: List.map_filter_simps)

lemma operation_state_get:
  "k \<in> {''patrol_read'', ''consistency_check''} \<Longrightarrow>
   dict_get (operation_state (Some raw)) k = (case dict_get raw k of Some JNull \<Rightarrow> None | x \<Rightarrow> x)"
  unfolding operation_state_def dict_get_def[of "List.map_filter _ _"] kept_keys by auto

lemma raw_column_get:
  "col_get (raw_column store_raw (Some raw)) k =
   (if store_raw then dict_get raw k else dict_get (operation_state (Some raw)) k)"
  by (simp add: raw_column_def)

lemma column_keeps:
  assumes "dict_get raw k = Some v" "k \<in> {''patrol_read'', ''consistency_check''}"
  shows "v \<noteq> JNull \<Longrightarrow> col_get (raw_column store_raw (Some raw)) k = Some v"
    and "v = JNull \<Longrightarrow> col_get (raw_column store_raw (Some raw)) k \<in> {None, Some JNull}"
  using assms by (cases v; simp add: raw_column_get operation_state_get)+

lemma stored_reading:
  assumes "insert_snapshot s store_raw (Some raw) d = Inr (d', row)"
  shows "dict_get raw ''patrol_read'' = Some (json_opt patrol_dict p) \<Longrightarrow> load_patrol_read_state row = p"
    and "dict_get raw ''consistency_check'' = Some (json_opt consistency_dict c) \<Longrightarrow> load_consistency_check_state row = c"
proof -
  have column: "sr_raw_json row = raw_column store_raw (Some raw)"
    using assms by (auto simp: insert_snapshot_def bindr_Inr_iff Let_def)
  show "load_patrol_read_state row = p" if stored: "dict_get raw ''patrol_read'' = Some (json_opt patrol_dict p)"
  proof (cases p)
    case None
    then show ?thesis
      using column_keeps(2)[OF stored, of store_raw]
      by (auto simp: load_patrol_read_state_def column json_opt_def)
  next
    case (Some x)
    then show ?thesis
      using column_keeps(1)[OF stored, of store_raw]
      by (intro patrol_read_back[of row x, folded column, THEN trans]) (auto simp: column json_opt_def patrol_dict_def)
  qed
  show "load_consistency_check_state row = c" if stored: "dict_get raw ''consistency_check'' = Some (json_opt consistency_dict c)"
  proof (cases c)
    case None
    then show ?thesis
      using column_keeps(2)[OF stored, of store_raw]
      by (auto simp: load_consistency_check_state_def column json_opt_def)
  next
    case (Some x)
    then show ?thesis
      using column_keeps(1)[OF stored, of store_raw]
      by (intro consistency_read_back[of row x, folded column, THEN trans]) (auto simp: column json_opt_def consistency_dict_def)
  qed
qed

lemma collected_readings:
  assumes "collect_storcli_snapshot to_int fingerprint now storcli = Inr (s, raw)"
  shows "\<exists>p c. patrol_reading storcli = Inr (json_opt patrol_dict p) \<and> dict_get raw ''patrol_read'' = Some (json_opt patrol_dict p) \<and>
    consistency_reading storcli = Inr (json_opt consistency_dict c) \<and>
    dict_get raw ''consistency_check'' = Some (json_opt consistency_dict c)"
proof -
  obtain x y where "patrol_reading storcli = Inr x" "dict_get raw ''patrol_read'' = Some x"
    "consistency_reading storcli = Inr y" "dict_get raw ''consistency_check'' = Some y"
    using assms by (auto simp: collect_storcli_snapshot_def bindr_Inr_iff split: if_splits)
  moreover have "\<exists>p. x = json_opt patrol_dict p"
    using calculation(1) by (auto simp: patrol_reading_def bindr_Inr_iff)
  moreover have "\<exists>c. y = json_opt consistency_dict c"
    using calculation(3) by (auto simp: consistency_reading_def bindr_Inr_iff)
  ultimately show ?thesis
    by blast
qed

text \<open>C30. What a poll learns of the patrol read and of the consistency check is what the main page works from: whether or
  not the raw data is kept, the status parsed in the poll goes through the JSON column of the snapshot unchanged, and
  a reading the controller did not give is read back as none.\<close>

theorem operations_survive_storage:
  assumes "collect_storcli_snapshot to_int fingerprint now storcli = Inr (s, raw)"
    and "insert_snapshot s store_raw (Some raw) d = Inr (d', row)"
  shows "patrol_reading storcli = Inr (json_opt patrol_dict (load_patrol_read_state row)) \<and>
         consistency_reading storcli = Inr (json_opt consistency_dict (load_consistency_check_state row))"
  using collected_readings[OF assms(1)] stored_reading[OF assms(2)] by auto

lemma operations_survive_storage_witness:
  "\<exists>s raw row. collect_storcli_snapshot sample_int (\<lambda>_. []) 0 sample_machine = Inr (s, raw) \<and>
     patrol_reading sample_machine = Inr (json_opt patrol_dict (load_patrol_read_state row))"
proof -
  obtain s raw where collected: "collect_storcli_snapshot sample_int (\<lambda>_. []) 0 sample_machine = Inr (s, raw)"
    using sample_collected by blast
  moreover obtain d' row where "insert_snapshot s True (Some raw) empty_db = Inr (d', row)"
    using insert_snapshot_stores collected_is_complete(2)[OF collected] by blast
  ultimately show ?thesis
    using operations_survive_storage by blast
qed

subsection \<open>Failed polls\<close>

lemma py_lower_append: "py_lower (x @ y) = py_lower x @ py_lower y"
  by (simp add: py_lower_def)

lemma lower_prefix: "starts_with (py_lower x) (py_lower (x @ y))"
  by (simp add: py_lower_append)

lemma failure_recorded:
  "\<exists>e \<in> set (db_events (record_collection_failure st clock msg d)).
     ev_category e = ''system'' \<and> ev_occurred_at e = clock 0 \<and> starts_with (py_lower ''Collection failed:'') (py_lower (ev_summary e))"
proof -
  let ?rec = "record_event (clock 0) Warning system_category ''Controller'' (collection_failed_prefix @ '' '' @ msg) None None d"
  have here: "snd ?rec \<in> set (db_events (fst ?rec))" "ev_category (snd ?rec) = ''system''" "ev_occurred_at (snd ?rec) = clock 0"
    "ev_summary (snd ?rec) = collection_failed_prefix @ '' '' @ msg"
    by (simp_all add: record_event_def Let_def system_category_def)
  then have "starts_with (py_lower ''Collection failed:'') (py_lower (ev_summary (snd ?rec)))"
    using lower_prefix[of collection_failed_prefix "'' '' @ msg"] unfolding collection_failed_prefix_def[symmetric] by metis
  moreover have "set (db_events (fst ?rec)) \<subseteq> set (db_events (record_collection_failure st clock msg d))"
    by (auto simp: record_collection_failure_def record_event_def Let_def split: option.split)
  ultimately show ?thesis
    using here(1-3) by blast
qed

text \<open>C31. A failed poll is visible on the pages from its commit until a newer snapshot is stored: whatever else is
  recorded meanwhile, the pages carry a warning, be it that nothing was collected, that the data is stale or that the collection
  failed.\<close>

theorem failed_poll_is_visible:
  assumes "set (db_events (record_collection_failure st clock msg d)) \<subseteq> set (db_events d')"
    and "\<forall>s \<in> set (db_snapshots d'). sr_captured_at s \<le> clock 0 \<or> now < sr_captured_at s"
    and "clock 0 \<le> now"
  shows "observation_warning d' st True now \<noteq> None"
proof -
  obtain e where e: "e \<in> set (db_events d')" "ev_category e = ''system''" "ev_occurred_at e = clock 0"
    "starts_with (py_lower ''Collection failed:'') (py_lower (ev_summary e))"
    using failure_recorded[of st clock msg d] assms(1) by blast
  have "list_ex (\<lambda>e. ev_category e = ''system'' \<and> starts_with (py_lower ''Collection failed:'') (py_lower (ev_summary e)) \<and>
      sr_captured_at s \<le> ev_occurred_at e \<and> ev_occurred_at e \<le> now) (db_events d')"
    if "best_by (\<lambda>s. (sr_captured_at s, sr_id s)) (filter (\<lambda>s. sr_captured_at s \<le> now) (db_snapshots d')) = Some s" for s
  proof -
    have "s \<in> set (db_snapshots d')" "sr_captured_at s \<le> now"
      using best_by_Some[OF that] by auto
    then have "sr_captured_at s \<le> clock 0"
      using assms(2) by auto
    then show ?thesis
      using e assms(3) unfolding list_ex_iff by (intro bexI[of _ e]) simp_all
  qed
  then show ?thesis
    by (auto simp only: observation_warning_def Let_def split: option.split if_split)
qed

lemma failed_poll_is_visible_witness:
  "observation_warning (record_collection_failure sample_settings (\<lambda>_. 10) ''timeout'' empty_db) sample_settings True 20 \<noteq> None"
proof -
  have "db_snapshots (record_collection_failure sample_settings (\<lambda>_. 10) ''timeout'' empty_db) = []"
    by (simp add: record_collection_failure_def record_event_def empty_db_def Let_def split: option.split)
  then show ?thesis
    using failed_poll_is_visible[of sample_settings "\<lambda>_. 10" "''timeout''" empty_db
        "record_collection_failure sample_settings (\<lambda>_. 10) ''timeout'' empty_db" 20] by simp
qed

end
