(* ===== verification/EventProps.thy ===== *)
theory EventProps
  imports Events
begin

section \<open>Reading the list of events\<close>

text \<open>
  The order of the list, what a page of it holds, and what a reader sees who follows the cursors to
  the end of it.
\<close>

subsection \<open>The order of the list\<close>

lemma newest_first_filter: "newest_first (filter P es) = filter P (newest_first es)"
  by (simp only: newest_first_def filter_sort rev_filter [symmetric])

lemma set_newest_first [simp]: "set (newest_first es) = set es"
  by (simp add: newest_first_def)

lemma length_newest_first [simp]: "length (newest_first es) = length es"
  by (simp add: newest_first_def)

lemma distinct_newest_keys: "distinct (map ev_id es) \<Longrightarrow> distinct (map newest_key es)"
  by (induction es) (auto simp: newest_key_def)

definition falling :: "event_row list \<Rightarrow> bool" where
  "falling es \<longleftrightarrow> sorted_wrt (\<lambda>a b. newest_key b < newest_key a) es"

lemma falling_newest_first:
  assumes "distinct (map ev_id es)"
  shows "falling (newest_first es)"
proof -
  have "distinct (map newest_key (sort_key newest_key es))"
    using distinct_newest_keys[OF assms] by (metis distinct_map distinct_sort set_sort)
  then have "sorted_wrt (<) (map newest_key (sort_key newest_key es))"
    by (simp add: strict_sorted_iff)
  then show ?thesis
    by (simp add: falling_def newest_first_def sorted_wrt_rev sorted_wrt_map)
qed

definition cursor_of :: "event_row \<Rightarrow> events_cursor" where
  "cursor_of e = \<lparr>cu_before_occurred_at = ev_occurred_at e, cu_before_id = ev_id e\<rparr>"

lemma older_than_cursor: "older_than (cursor_of x) e \<longleftrightarrow> newest_key e < newest_key x"
  by (auto simp: older_than_def cursor_of_def newest_key_def less_prod_def' less_prod_def)

lemma older_than_trans: "older_than c x \<Longrightarrow> older_than (cursor_of x) e \<Longrightarrow> older_than c e"
  by (auto simp: older_than_def cursor_of_def)

lemma falling_older_drop:
  assumes "falling es" "k < length es"
  shows "filter (older_than (cursor_of (es ! k))) es = drop (Suc k) es"
proof -
  have split: "es = take (Suc k) es @ drop (Suc k) es"
    by simp
  have newer: "\<not> older_than (cursor_of (es ! k)) e" if "e \<in> set (take (Suc k) es)" for e
  proof -
    from that obtain i where i: "i \<le> k" "e = es ! i"
      using assms(2) by (auto simp: in_set_conv_nth less_Suc_eq_le)
    show ?thesis
      using i assms sorted_wrt_nth_less[of "\<lambda>a b. newest_key b < newest_key a" es i k]
      by (cases "i = k") (auto simp: older_than_cursor falling_def)
  qed
  have older: "older_than (cursor_of (es ! k)) e" if "e \<in> set (drop (Suc k) es)" for e
  proof -
    from that obtain i where "i < length es - Suc k" "e = es ! (Suc k + i)"
      using assms(2) by (auto simp: in_set_conv_nth)
    then show ?thesis
      using assms sorted_wrt_nth_less[of "\<lambda>a b. newest_key b < newest_key a" es k "Suc k + i"]
      by (auto simp: older_than_cursor falling_def)
  qed
  show ?thesis
    by (subst split, subst filter_append) (simp add: filter_id_conv newer older filter_empty_conv)
qed

lemma falling_drop: "falling es \<Longrightarrow> falling (drop k es)"
  by (simp add: falling_def sorted_wrt_drop)

subsection \<open>Reading to the end\<close>

text \<open>A reader starts without a cursor and follows the cursor of each page, \<open>n\<close> pages at most.\<close>

fun read_pages ::
  "nat \<Rightarrow> db \<Rightarrow> int \<Rightarrow> string list \<Rightarrow> string list \<Rightarrow> events_cursor option \<Rightarrow> py_error + event_item list" where
  "read_pages 0 d size_of categories severities c = Inr []"
| "read_pages (Suc n) d size_of categories severities c =
     bindr (load_events_fragment d size_of (map_option (\<lambda>x. Aware (cu_before_occurred_at x)) c)
              (map_option cu_before_id c) categories severities None None) (\<lambda>f.
       case ef_next_cursor f of
         None \<Rightarrow> Inr (ef_events f)
       | Some c' \<Rightarrow> bindr (read_pages n d size_of categories severities (Some c')) (\<lambda>rest. Inr (ef_events f @ rest)))"

definition filtered_by :: "string list \<Rightarrow> string list \<Rightarrow> event_row \<Rightarrow> bool" where
  "filtered_by categories severities = selects
     \<lparr>eq_categories = normalize_filters (map Some categories), eq_severities = normalize_filters (map Some severities),
      eq_since = None, eq_before = None\<rparr>"

definition whole_list :: "db \<Rightarrow> string list \<Rightarrow> string list \<Rightarrow> event_row list" where
  "whole_list d categories severities = newest_first (filter (filtered_by categories severities) (db_events d))"

definition rest_after :: "event_row list \<Rightarrow> events_cursor option \<Rightarrow> event_row list" where
  "rest_after es c = (case c of None \<Rightarrow> es | Some x \<Rightarrow> filter (older_than x) es)"

lemma matching_rest:
  "matching_events \<lparr>eq_categories = normalize_filters (map Some categories),
      eq_severities = normalize_filters (map Some severities), eq_since = None, eq_before = c\<rparr> d =
   rest_after (whole_list d categories severities) c"
  by (cases c)
    (auto simp: matching_events_def rest_after_def whole_list_def filtered_by_def selects_def newest_first_filter
      intro!: filter_cong)

lemma next_cursor_cut:
  assumes "page > 0"
  shows "next_cursor page (take (nat (page + 1)) es) =
         (if length es > nat page then Some (cursor_of (es ! (nat page - 1))) else None)"
proof -
  have cut: "take (nat page) (take (nat (page + 1)) es) = take (nat page) es"
    by (simp add: min_def)
  have long: "int (length (take (nat (page + 1)) es)) > page \<longleftrightarrow> length es > nat page"
    using assms by (simp add: min_def) linarith
  show ?thesis
  proof (cases "length es > nat page")
    case True
    then have "last (take (nat page) es) = es ! (nat page - 1)"
      using assms by (subst last_conv_nth) (auto simp: min_def)
    then show ?thesis
      using True by (simp only: next_cursor_def long cut cursor_of_def Let_def if_True)
  qed (simp only: next_cursor_def long if_False)
qed

lemma page_of_rest:
  assumes "page > 0"
  shows "load_events_fragment d page (map_option (\<lambda>x. Aware (cu_before_occurred_at x)) c)
           (map_option cu_before_id c) categories severities None None =
         (let es = rest_after (whole_list d categories severities) c
          in Inr \<lparr>ef_events = map event_item_of (take (nat page) es),
                  ef_next_cursor = (if length es > nat page then Some (cursor_of (es ! (nat page - 1))) else None),
                  ef_is_first_page = (c = None),
                  ef_category_filters = normalize_filters (map Some categories),
                  ef_severity_filters = normalize_filters (map Some severities)\<rparr>)"
proof -
  have cut: "take (nat page) (take (nat (page + 1)) es) = take (nat page) es" for es :: "event_row list"
    by (simp add: min_def)
  have cursor: "(case (map_option cu_before_occurred_at c, map_option cu_before_id c) of
      (Some t, Some i) \<Rightarrow> Some \<lparr>cu_before_occurred_at = t, cu_before_id = i\<rparr> | _ \<Rightarrow> None) = c"
    by (cases c) simp_all
  have aware: "(case map_option (\<lambda>x. Aware (cu_before_occurred_at x)) c of
      None \<Rightarrow> Inr None | Some t \<Rightarrow> bindr (require_aware_utc t) (\<lambda>u. Inr (Some u))) =
      (Inr (map_option cu_before_occurred_at c) :: py_error + instant option)"
    by (cases c) (simp_all add: bindr_def)
  have total: "\<not> page < 1" "(map_option (\<lambda>x. Aware (cu_before_occurred_at x)) c = None) = (c = None)"
    "(map_option cu_before_id c = None) = (c = None)"
    using assms by auto
  show ?thesis
    by (simp only: load_events_fragment_def total if_False aware bindr_simps Let_def cursor matching_rest
        filter_inputs_def option.case cut next_cursor_cut[OF assms] simp_thms)
qed

lemma rest_after_page:
  assumes "falling es" "page > 0" "length (rest_after es c) > page"
  shows "rest_after es (Some (cursor_of (rest_after es c ! (page - 1)))) = drop page (rest_after es c)"
proof -
  let ?r = "rest_after es c"
  have falling: "falling ?r"
    using assms(1) by (auto simp: rest_after_def falling_def sorted_wrt_filter split: option.split)
  have "filter (older_than (cursor_of (?r ! (page - 1)))) es =
        filter (older_than (cursor_of (?r ! (page - 1)))) ?r"
  proof (cases c)
    case (Some x)
    have "?r ! (page - 1) \<in> set ?r"
      using assms by (intro nth_mem) simp
    then have "older_than x (?r ! (page - 1))"
      using Some by (simp add: rest_after_def)
    then have "older_than x e" if "older_than (cursor_of (?r ! (page - 1))) e" for e
      using that by (rule older_than_trans)
    then show ?thesis
      by (simp only: Some rest_after_def option.case filter_filter) (metis (lifting))
  qed (simp add: rest_after_def)
  also have "\<dots> = drop (Suc (page - 1)) ?r"
    using falling assms by (intro falling_older_drop) simp_all
  finally show ?thesis
    using assms by (simp add: rest_after_def)
qed

lemma read_pages_rest:
  assumes "distinct (map ev_id (db_events d))" "page > 0"
    and "length (rest_after (whole_list d categories severities) c) < n"
  shows "read_pages n d page categories severities c =
         Inr (map event_item_of (rest_after (whole_list d categories severities) c))"
  using assms(3)
proof (induction n arbitrary: c)
  case (Suc n)
  let ?r = "rest_after (whole_list d categories severities)"
  have falling: "falling (whole_list d categories severities)"
    using assms(1) by (simp add: whole_list_def falling_newest_first distinct_map_filter)
  show ?case
  proof (cases "length (?r c) > nat page")
    case True
    have "?r (Some (cursor_of (?r c ! (nat page - 1)))) = drop (nat page) (?r c)"
      using True assms(2) by (intro rest_after_page falling) simp_all
    then show ?thesis
      using True Suc assms(2)
      by (simp add: page_of_rest bindr_def Let_def flip: map_append)
  qed (use assms(2) in \<open>simp add: page_of_rest bindr_def Let_def\<close>)
qed simp

text \<open>A table of \<open>n\<close> events, and a reader of numbers of one digit.\<close>

definition listing :: "nat \<Rightarrow> db" where
  "listing n = empty_db\<lparr>db_events := map (\<lambda>i.
     \<lparr>ev_id = int i + 1, ev_occurred_at = int (i div 2), ev_severity = Info,
      ev_category = (if i mod 3 = 0 then ''controller'' else ''pd_state''), ev_subject = ''Drive'', ev_summary = [],
      ev_before = None, ev_after = None, ev_notified_at = None, ev_operator_username = None\<rparr>) [0..<n]\<rparr>"

definition one_digit :: "string \<Rightarrow> int option" where
  "one_digit s = (case s of [c] \<Rightarrow> if is_digit c then Some (int (code_of c) - 48) else None | _ \<Rightarrow> None)"

lemma one_digit_values: "one_digit ''1'' = Some 1" "one_digit ''3'' = Some 3"
  by code_simp+

definition numbered_as_occurring :: "db \<Rightarrow> bool" where
  "numbered_as_occurring d \<longleftrightarrow> distinct (map ev_id (db_events d)) \<and>
     (\<forall>a \<in> set (db_events d). \<forall>b \<in> set (db_events d). ev_id a < ev_id b \<longrightarrow> ev_occurred_at a \<le> ev_occurred_at b)"

lemma listing_numbered:
  "distinct (map ev_id (db_events (listing n)))" "numbered_as_occurring (listing n)"
proof -
  show ids: "distinct (map ev_id (db_events (listing n)))"
    by (simp add: listing_def comp_def distinct_map inj_on_def)
  have "i div 2 \<le> j div 2" if "i < j" for i j :: nat
    using that by (simp add: div_le_mono)
  then show "numbered_as_occurring (listing n)"
    unfolding numbered_as_occurring_def by (intro conjI ids) (simp add: listing_def)
qed

text \<open>C26. Following the cursors from the first page shows every event the filters keep, newest first
  and each once, whatever the size of a page: the pages put together are the whole filtered list, and
  as many pages as there are events, and one, are enough to reach the end of it. Identifiers of
  events are unique.\<close>

theorem pages_show_every_event_once:
  assumes "distinct (map ev_id (db_events d))" "page \<ge> 1"
  shows "read_pages (Suc (length (db_events d))) d page categories severities None =
         Inr (map event_item_of (newest_first (filter (filtered_by categories severities) (db_events d))))"
  using read_pages_rest[OF assms(1), of page categories severities None "Suc (length (db_events d))"] assms(2)
  by (simp add: rest_after_def whole_list_def less_Suc_eq_le)

lemma pages_show_every_event_once_witness:
  "distinct (map ev_id (db_events (listing 5))) \<and>
   read_pages 6 (listing 5) 2 [''pd_state''] [] None =
     Inr (map event_item_of (newest_first (filter (filtered_by [''pd_state''] []) (db_events (listing 5)))))"
proof -
  have "distinct (map ev_id (db_events (listing 5)))"
    by (rule listing_numbered(1))
  then show ?thesis
    using pages_show_every_event_once[of "listing 5" 2 "[''pd_state'']" "[]"] by (simp add: listing_def)
qed

subsection \<open>Polling\<close>

text \<open>The events a poll after identifier \<open>n\<close> is to show.\<close>

definition news :: "db \<Rightarrow> string list \<Rightarrow> string list \<Rightarrow> int \<Rightarrow> event_row list" where
  "news d categories severities n =
     newest_first (filter (\<lambda>e. filtered_by categories severities e \<and> ev_id e > n) (db_events d))"

lemma matching_since:
  "matching_events \<lparr>eq_categories = normalize_filters (map Some categories),
      eq_severities = normalize_filters (map Some severities), eq_since = Some n, eq_before = None\<rparr> d =
   news d categories severities n"
  by (auto simp: matching_events_def news_def filtered_by_def selects_def intro!: arg_cong[of _ _ newest_first] filter_cong)

lemma load_since:
  assumes "page > 0"
  shows "load_events_fragment d page None None categories severities None (Some n) =
         (let es = news d categories severities n
          in Inr \<lparr>ef_events = map event_item_of (take (nat page) es),
                  ef_next_cursor = (if length es > nat page then Some (cursor_of (es ! (nat page - 1))) else None),
                  ef_is_first_page = False,
                  ef_category_filters = normalize_filters (map Some categories),
                  ef_severity_filters = normalize_filters (map Some severities)\<rparr>)"
proof -
  have cut: "take (nat page) (take (nat (page + 1)) es) = take (nat page) es" for es :: "event_row list"
    by (simp add: min_def)
  have total: "\<not> page < 1" "(None = Some n) = False" "(Some n = None) = False"
    using assms by auto
  show ?thesis
    by (simp only: load_events_fragment_def total if_False bindr_simps Let_def matching_since prod.case
        filter_inputs_def option.case cut next_cursor_cut[OF assms] simp_thms)
qed

definition poll_of ::
  "(string \<Rightarrow> py_datetime option) \<Rightarrow> (string \<Rightarrow> int option) \<Rightarrow> string \<Rightarrow> string list \<Rightarrow> string list \<Rightarrow> db \<Rightarrow> events_reply" where
  "poll_of from_iso to_number since = events_fragment_response from_iso to_number None None (Some since)"

lemma poll_reply:
  assumes "to_number since = Some n" "n > 0"
  shows "\<exists>c f. poll_of from_iso to_number since categories severities d = Rendered c \<and> ec_view c = Fragment f \<and>
    (let es = news d (normalize_query_values categories) (normalize_query_values severities) n
     in ef_events f = map event_item_of (take 50 es) \<and> \<not> ec_page_items c \<and> \<not> ec_page_fragment c \<and>
        ec_poll_since c = max n (case es of [] \<Rightarrow> 0 | e # _ \<Rightarrow> ev_id e))"
proof -
  have first: "(case map event_item_of (take 50 es) of [] \<Rightarrow> 0 | e # _ \<Rightarrow> ei_id e) =
      (case es of [] \<Rightarrow> 0 | e # _ \<Rightarrow> ev_id e)" for es
    by (cases es) (simp_all add: event_item_of_def Let_def)
  show ?thesis
    using assms
    by (simp add: poll_of_def events_fragment_response_def parse_events_cursor_def parse_events_since_def
        load_events_view_def load_since events_page_size_def Let_def view_latest_id_def latest_event_id_def first)
qed

lemma first_news_is_latest:
  assumes "numbered_as_occurring d" "e \<in> set (news d categories severities n)"
  shows "ev_id e \<le> ev_id (hd (news d categories severities n))"
proof -
  let ?l = "news d categories severities n"
  have falling: "falling ?l"
    using assms(1) by (simp add: news_def numbered_as_occurring_def falling_newest_first distinct_map_filter)
  obtain x xs where l: "?l = x # xs"
    using assms(2) by (cases ?l) auto
  have known: "e \<in> set (db_events d)" "x \<in> set (db_events d)"
    using assms(2) l by (auto simp: news_def dest!: arg_cong[of _ _ set])
  show ?thesis
  proof (cases "e = x")
    case False
    then have "newest_key e < newest_key x"
      using assms(2) falling l by (auto simp: falling_def)
    then have "ev_occurred_at e < ev_occurred_at x \<or> ev_id e < ev_id x"
      by (auto simp: newest_key_def)
    then show ?thesis
      using assms(1) known l unfolding numbered_as_occurring_def by (fastforce simp: not_le)
  qed (simp add: l)
qed

lemma distinct_take_nth: "distinct ys \<Longrightarrow> k < length ys \<Longrightarrow> ys ! k \<notin> set (take k ys)"
  by (subst (asm) id_take_nth_drop[of k ys]) auto

lemma nth_not_before: "distinct (map f xs) \<Longrightarrow> k < length xs \<Longrightarrow> f (xs ! k) \<notin> f ` set (take k xs)"
  using distinct_take_nth[of "map f xs" k] by (simp add: take_map)

lemma no_filters: "normalize_query_values [] = []" "normalize_filters [] = []"
  by (simp_all add: normalize_query_values_def normalize_filters_def)

lemma listing_news: "length (news (listing n) [] [] (int k)) = n - k"
proof -
  have "filter (\<lambda>e. filtered_by [] [] e \<and> int k < ev_id e) (db_events (listing n)) =
        filter (\<lambda>e. int k < ev_id e) (db_events (listing n))"
    by (auto simp: filtered_by_def selects_def no_filters)
  moreover have "filter (\<lambda>i. k \<le> i) [0..<n] = [k..<n]"
    by (induction n) auto
  ultimately show ?thesis
    by (simp add: news_def listing_def filter_map comp_def)
qed

text \<open>While rows are numbered as they occur, a poll after a known identifier shows every event past it
  that the filters keep, newest first, provided they are at most fifty; and the next poll asks for what
  comes after all of them, so none is shown twice.\<close>

theorem poll_shows_the_news:
  assumes "numbered_as_occurring d" "to_number since = Some n" "n > 0"
    and "length (news d (normalize_query_values categories) (normalize_query_values severities) n) \<le> 50"
  shows "\<exists>c f. poll_of from_iso to_number since categories severities d = Rendered c \<and> ec_view c = Fragment f \<and>
    (let es = news d (normalize_query_values categories) (normalize_query_values severities) n
     in ef_events f = map event_item_of es \<and> (\<forall>e \<in> set es. ev_id e \<le> ec_poll_since c) \<and> ec_poll_since c \<ge> n)"
  using poll_reply[where from_iso = from_iso and categories = categories and severities = severities and d = d, of to_number since n, OF assms(2,3)] assms(4)
    first_news_is_latest[OF assms(1), of _ "normalize_query_values categories" "normalize_query_values severities" n]
  by (fastforce simp: Let_def split: list.splits)

lemma poll_shows_the_news_witness:
  "\<exists>c f. poll_of (\<lambda>_. None) one_digit ''3'' [] [] (listing 5) = Rendered c \<and> ec_view c = Fragment f \<and>
    ef_events f = map event_item_of (news (listing 5) [] [] 3) \<and> ec_poll_since c \<ge> 3"
  using poll_shows_the_news[of "listing 5" one_digit "''3''" 3 "[]" "[]" "\<lambda>_. None"] listing_numbered(2) listing_news[of 5 3]
  by (auto simp: one_digit_values no_filters Let_def)

text \<open>C27. When more than fifty events came since the last poll, the poll shows the newest fifty and offers no
  button for the others, and it moves past them: none of the older ones is in its answer, nor in the answer of any
  later poll, which asks for what comes after the identifier this one gave, whatever was stored in between and
  whatever the filters. The list has a gap until the page is loaded again.\<close>

theorem poll_skips_past_a_page:
  assumes "numbered_as_occurring d" "to_number since = Some n" "n > 0"
    and "length (news d (normalize_query_values categories) (normalize_query_values severities) n) > 50"
  shows "\<exists>c f. poll_of from_iso to_number since categories severities d = Rendered c \<and> ec_view c = Fragment f \<and>
    \<not> ec_page_items c \<and> \<not> ec_page_fragment c \<and>
    (\<forall>e \<in> set (drop 50 (news d (normalize_query_values categories) (normalize_query_values severities) n)).
       n < ev_id e \<and> ev_id e \<notin> ei_id ` set (ef_events f) \<and>
       (\<forall>since' m categories' severities' d' c' f'.
          to_number since' = Some m \<and> m \<ge> ec_poll_since c \<and>
          poll_of from_iso to_number since' categories' severities' d' = Rendered c' \<and> ec_view c' = Fragment f' \<longrightarrow>
          ev_id e \<notin> ei_id ` set (ef_events f') \<and> ec_poll_since c' \<ge> ec_poll_since c))"
proof -
  let ?es = "news d (normalize_query_values categories) (normalize_query_values severities) n"
  have "distinct (map ev_id ?es)"
    using assms(1) by (simp add: news_def numbered_as_occurring_def newest_first_def rev_map distinct_map)
      (auto simp: inj_on_def distinct_map)
  then have "distinct (map ev_id (take 50 ?es) @ map ev_id (drop 50 ?es))"
    by (metis append_take_drop_id map_append)
  then have hidden: "ev_id e \<notin> ev_id ` set (take 50 ?es)" if "e \<in> set (drop 50 ?es)" for e
    using that by auto
  obtain x xs where l: "?es = x # xs" using assms(4) by (cases ?es) auto
  obtain c f where r: "poll_of from_iso to_number since categories severities d = Rendered c" "ec_view c = Fragment f"
    "ef_events f = map event_item_of (take 50 ?es)" "\<not> ec_page_items c" "\<not> ec_page_fragment c"
    "ec_poll_since c = max n (case ?es of [] \<Rightarrow> 0 | e # _ \<Rightarrow> ev_id e)"
    using poll_reply[where from_iso = from_iso and categories = categories and severities = severities and d = d, of to_number since n, OF assms(2,3)] unfolding Let_def by blast
  have shown: "ei_id ` set (ef_events f) = ev_id ` set (take 50 ?es)"
    by (simp add: r(3) image_image event_item_of_def Let_def)
  have old: "n < ev_id e" "ev_id e \<le> ec_poll_since c" if "e \<in> set (drop 50 ?es)" for e
  proof -
    have member: "e \<in> set ?es" using that by (rule in_set_dropD)
    then show "n < ev_id e" by (simp add: news_def)
    show "ev_id e \<le> ec_poll_since c" using first_news_is_latest[OF assms(1) member] by (simp add: r(6) l)
  qed
  have later: "(\<forall>y \<in> ei_id ` set (ef_events f'). ec_poll_since c < y) \<and> ec_poll_since c' \<ge> ec_poll_since c"
    if later: "to_number since' = Some m" "m \<ge> ec_poll_since c"
      "poll_of from_iso to_number since' categories' severities' d' = Rendered c'" "ec_view c' = Fragment f'"
    for since' m categories' severities' d' c' f'
  proof -
    let ?ms = "news d' (normalize_query_values categories') (normalize_query_values severities') m"
    have "m > 0" using later(2) assms(3) by (simp add: r(6))
    from poll_reply[where from_iso = from_iso and categories = categories' and severities = severities' and d = d',
        of to_number since' m, OF later(1) this] later(3,4)
    have "ef_events f' = map event_item_of (take 50 ?ms)" "ec_poll_since c' \<ge> m" by (auto simp: Let_def)
    moreover have "m < ev_id y" if "y \<in> set (take 50 ?ms)" for y
      using in_set_takeD[OF that] by (simp add: news_def)
    ultimately show ?thesis using later(2) by (fastforce simp: event_item_of_def Let_def)
  qed
  have gone: "ev_id e \<notin> ei_id ` set (ef_events f') \<and> ec_poll_since c' \<ge> ec_poll_since c"
    if e: "e \<in> set (drop 50 ?es)" and l: "to_number since' = Some m \<and> m \<ge> ec_poll_since c \<and>
      poll_of from_iso to_number since' categories' severities' d' = Rendered c' \<and> ec_view c' = Fragment f'"
    for e since' m categories' severities' d' c' f'
  proof -
    note l' = later [of since' m categories' severities' d' c' f']
    from l have *: "\<forall>y \<in> ei_id ` set (ef_events f'). ec_poll_since c < y" "ec_poll_since c' \<ge> ec_poll_since c"
      using l' by auto
    have "ev_id e \<notin> ei_id ` set (ef_events f')" using *(1) old(2) [OF e] by (meson not_less)
    with *(2) show ?thesis by simp
  qed
  have unseen: "ev_id e \<notin> ei_id ` set (ef_events f)" if "e \<in> set (drop 50 ?es)" for e
    using hidden [OF that] shown by simp
  show ?thesis
    by (rule exI [of _ c], rule exI [of _ f], intro conjI ballI allI impI)
      (rule r(1) r(2) r(4) r(5) old(1) unseen gone [THEN conjunct1] gone [THEN conjunct2]; assumption)+
qed

lemma poll_skips_past_a_page_witness:
  "\<exists>c f. poll_of (\<lambda>_. None) one_digit ''1'' [] [] (listing 60) = Rendered c \<and> ec_view c = Fragment f \<and>
    length (drop 50 (news (listing 60) [] [] 1)) = 9 \<and>
    (\<forall>e \<in> set (drop 50 (news (listing 60) [] [] 1)). ev_id e \<notin> ei_id ` set (ef_events f))"
  using poll_skips_past_a_page[of "listing 60" one_digit "''1''" 1 "[]" "[]" "\<lambda>_. None"] listing_numbered(2) listing_news[of 60 1]
  by (fastforce simp: one_digit_values no_filters)

end
