(* ===== verification/ActionSafety.thy ===== *)
theory ActionSafety
  imports ActionProps
begin

section \<open>What a write presupposes\<close>

text \<open>
  A Hoare-style calculus on handlers: \<open>writes_ok w start m tr Q\<close> says that \<open>m\<close>, started at the trace \<open>tr\<close>,
  adds at most one write and that \<open>Q\<close> holds of it and of the trace in front of it. Through a calm step
  the rest of the handler is shown under what that step read, so each guard of the code becomes a
  fact about the trace. The properties say for each family of actions what a write needs.
\<close>

subsection \<open>The calculus\<close>

definition writes_ok :: "web_env \<Rightarrow> trace \<Rightarrow> 'a action \<Rightarrow> trace \<Rightarrow> (effect \<Rightarrow> trace \<Rightarrow> bool) \<Rightarrow> bool" where
  "writes_ok w start m tr Q \<longleftrightarrow>
     (prefix start tr \<longrightarrow> (\<exists>new. fst (m tr) = tr @ new \<and>
        (quiet (config_of w) new \<or>
         (\<exists>pre e post. new = pre @ e # post \<and> quiet (config_of w) pre \<and> quiet (config_of w) post \<and> Q e (tr @ pre)))))"

lemma wo_calm: "extends_by (quiet (config_of w)) m \<Longrightarrow> writes_ok w start m tr Q"
  unfolding extends_by_def writes_ok_def by blast

lemma writes_okI:
  "fst (m tr) = tr @ pre @ e # post \<Longrightarrow> quiet (config_of w) pre \<Longrightarrow> quiet (config_of w) post \<Longrightarrow> Q e (tr @ pre) \<Longrightarrow>
   writes_ok w start m tr Q"
  unfolding writes_ok_def by blast

lemma writes_ok_quiet: "fst (m tr) = tr @ new \<Longrightarrow> quiet (config_of w) new \<Longrightarrow> writes_ok w start m tr Q"
  unfolding writes_ok_def by blast

lemma writes_okE:
  assumes "writes_ok w start m tr Q" and "prefix start tr"
  obtains new where "fst (m tr) = tr @ new" "quiet (config_of w) new"
    | pre e post where "fst (m tr) = tr @ pre @ e # post" "quiet (config_of w) pre" "quiet (config_of w) post" "Q e (tr @ pre)"
  using assms unfolding writes_ok_def by blast

text \<open>
  Under the step the rest is shown for the trace the step left, which extends \<open>start\<close>; the trace of
  the write extends it in turn, so every trace met on the way lies between the two.
\<close>

lemma wo_then:
  assumes "extends_by (quiet (config_of w)) m"
    and "\<And>x tr1. prefix start tr \<Longrightarrow> m tr = (tr1, Inr x) \<Longrightarrow> prefix tr tr1 \<Longrightarrow> prefix start tr1 \<Longrightarrow>
      writes_ok w start (f x) tr1 (\<lambda>e t. prefix tr1 t \<longrightarrow> Q e t)"
  shows "writes_ok w start (andthen m f) tr Q"
  unfolding writes_ok_def
proof (intro impI)
  assume s: "prefix start tr"
  obtain tr1 r where m: "m tr = (tr1, r)" by (cases "m tr")
  obtain a where a: "tr1 = tr @ a" "quiet (config_of w) a" using extends_byE [OF assms(1) m] by blast
  show "\<exists>new. fst (andthen m f tr) = tr @ new \<and> (quiet (config_of w) new \<or>
      (\<exists>pre e post. new = pre @ e # post \<and> quiet (config_of w) pre \<and> quiet (config_of w) post \<and> Q e (tr @ pre)))"
  proof (cases r)
    case (Inl e)
    then show ?thesis using m a by (auto simp: andthen_def)
  next
    case (Inr x)
    then have eq: "andthen m f tr = f x tr1" using m by (simp add: andthen_def)
    have later: "prefix start tr1" using s a(1) by (auto simp: prefix_def)
    with assms(2) [OF s] extends_prefix [OF assms(1) m] m Inr have "writes_ok w start (f x) tr1 (\<lambda>e t. prefix tr1 t \<longrightarrow> Q e t)" by blast
    then show ?thesis using later
    proof (cases rule: writes_okE)
      case (1 new)
      then show ?thesis using eq a by auto
    next
      case (2 pre e post)
      then have "fst (andthen m f tr) = tr @ (a @ pre) @ e # post" "quiet (config_of w) (a @ pre)" "Q e (tr @ (a @ pre))"
        using eq a by simp_all
      then show ?thesis using 2(3) by blast
    qed
  qed
qed

lemma wo_before:
  assumes "writes_ok w start m tr Q" and "\<And>x. extends_by (quiet (config_of w)) (f x)"
  shows "writes_ok w start (andthen m f) tr Q"
  unfolding writes_ok_def
proof (intro impI)
  assume s: "prefix start tr"
  obtain tr1 r where m: "m tr = (tr1, r)" by (cases "m tr")
  obtain more where more: "fst (andthen m f tr) = tr1 @ more" "quiet (config_of w) more"
  proof (cases r)
    case (Inl e)
    then show thesis using that [of "[]"] m by (simp add: andthen_def)
  next
    case (Inr x)
    obtain rest where "fst (f x tr1) = tr1 @ rest" "quiet (config_of w) rest"
      using assms(2) [of x] unfolding extends_by_def by blast
    then show thesis using that m Inr by (simp add: andthen_def)
  qed
  from assms(1) s show "\<exists>new. fst (andthen m f tr) = tr @ new \<and> (quiet (config_of w) new \<or>
      (\<exists>pre e post. new = pre @ e # post \<and> quiet (config_of w) pre \<and> quiet (config_of w) post \<and> Q e (tr @ pre)))"
  proof (cases rule: writes_okE)
    case (1 new)
    then show ?thesis using m more by auto
  next
    case (2 pre e post)
    then have "fst (andthen m f tr) = tr @ pre @ e # (post @ more)" "quiet (config_of w) (post @ more)"
      using m more by simp_all
    then show ?thesis using 2(2, 4) by blast
  qed
qed

lemma wo_if: "(c \<Longrightarrow> writes_ok w start m tr Q) \<Longrightarrow> (\<not> c \<Longrightarrow> writes_ok w start m' tr Q) \<Longrightarrow> writes_ok w start (if c then m else m') tr Q"
  by simp

lemma wo_sum:
  "(\<And>x. t = Inl x \<Longrightarrow> writes_ok w start (f x) tr Q) \<Longrightarrow> (\<And>y. t = Inr y \<Longrightarrow> writes_ok w start (g y) tr Q) \<Longrightarrow>
   writes_ok w start (case_sum f g t) tr Q"
  by (cases t) simp_all

lemma wo_prod: "(\<And>x y. p = (x, y) \<Longrightarrow> writes_ok w start (h x y) tr Q) \<Longrightarrow> writes_ok w start (case_prod h p) tr Q"
  by (cases p) simp

lemma wo_use:
  assumes "writes_ok w tr m tr Q" and "m tr = (tr @ new, r)" and "e \<in> set new" and "is_write (config_of w) e"
  obtains pre where "prefix (pre @ [e]) new" "Q e (tr @ pre)"
proof (cases rule: writes_okE [OF assms(1) prefix_order.refl])
  case (1 new')
  then show thesis using assms(2-4) by (auto simp: quiet_def list_all_iff)
next
  case (2 pre e' post)
  then have "new = pre @ e' # post" "e' = e" using assms(2-4) by (auto simp: quiet_def list_all_iff)
  then show thesis using that [of pre] 2(4) by simp
qed

subsection \<open>The command itself\<close>

definition checked_foreign :: "web_env \<Rightarrow> string option \<Rightarrow> trace \<Rightarrow> trace \<Rightarrow> bool" where
  "checked_foreign w digest start t \<longleftrightarrow>
     (\<exists>p identity t1 t2. prefix start t1 \<and> prefix t2 t \<and>
        check_foreign_safety (runner_of w) (config_of w) p identity digest t1 = (t2, Inr ()))"

definition authorised :: "web_env \<Rightarrow> action_request \<Rightarrow> string option \<Rightarrow> string list \<Rightarrow> trace \<Rightarrow> trace \<Rightarrow> bool" where
  "authorised w rq digest argv start t \<longleftrightarrow>
     validate_command (with_json_flag argv) = Inr () \<and>
     (full_actions w \<longrightarrow>
        approved_between (runner_of w) (as_policy_path (we_settings w)) (with_json_flag argv) start t \<and>
        (\<exists>t1. t = t1 @ [ReadSettings] \<and> \<not> gate_closed (request_gate rq) (write_settings_at w t1)) \<and>
        (with_json_flag argv ! 0 = ''/c0/fall'' \<longrightarrow> checked_foreign w digest start t))"

lemma preflight_foreign:
  assumes "preflight env cfg path expected args tr = (tr', Inr ())" and "args ! 0 = ''/c0/fall''"
  obtains p identity t1 t2 where "prefix tr t1" "prefix t2 tr'"
    "check_foreign_safety env cfg p identity expected t1 = (t2, Inr ())"
proof -
  from assms(1) obtain p0 tr1 where
    chk: "check_storcli_prewrite env cfg path expected args (tr @ [LoadPolicy path]) = (tr1, Inr ())"
    and tr': "tr' = (tr1 @ [LoadPolicy path]) @ [VerifyBinary (binary_path cfg)]"
    unfolding preflight_def reload_unchanged_def by (auto simp: andthen_Inr split: if_splits)
  obtain p tr2 identity controller tr3 where
    l: "load_approved env cfg path args (tr @ [LoadPolicy path]) = (tr2, Inr p)"
    and r: "run_read env cfg controller_show tr2 = (tr3, Inr identity)"
    and t: "prewrite_tail env cfg p expected args identity controller tr3 = (tr1, Inr ())"
    by (rule check_storcli_prewrite_Inr [OF chk])
  have "''show'' \<in> set controller_show" by (simp add: controller_show_def)
  then have "prefix tr2 tr3" using extends_prefix [OF run_read_reads r] by blast
  moreover have "prefix tr tr2" using load_approved_Inr [OF l] by simp
  ultimately have "prefix tr tr3" by (metis prefix_order.trans)
  moreover have "check_foreign_safety env cfg p identity expected tr3 = (tr1, Inr ())"
    using prewrite_tail_Inr [OF t] assms(2) by blast
  ultimately show thesis using that [of tr3 tr1 p identity] tr' by simp
qed

lemma run_write_authorised:
  assumes "run_write w rq digest argv tr = (tr', r)" and "''show'' \<notin> set argv"
  obtains new where "tr' = tr @ new" "quiet (config_of w) new"
    | pre where "tr' = tr @ pre @ [Exec (argv_of (config_of w) (with_json_flag argv))]" "quiet (config_of w) pre"
        "authorised w rq digest argv tr (tr @ pre)"
  using assms(1) unfolding run_write_def
proof (cases rule: run_storcli_cases)
  case (invalid e)
  then show thesis using that(1) [of "[]"] by simp
next
  case (refused f)
  then show thesis using that(1) extends_byE [OF before_dispatch_reads refused(2)] reads_only_quiet by metis
next
  case (dispatched tr1)
  obtain pre where pre: "tr1 = tr @ pre" "quiet (config_of w) pre"
    using extends_byE [OF before_dispatch_reads dispatched(2)] reads_only_quiet by metis
  have "authorised w rq digest argv tr tr1"
  proof (cases "full_actions w")
    case True
    with dispatched(2) assms(2) obtain tr2 where
      p: "preflight (runner_of w) (config_of w) (as_policy_path (we_settings w)) digest (with_json_flag argv) tr = (tr2, Inr ())"
      and g: "open_gate (runner_of w) (Some (request_gate rq)) tr2 = (tr1, Inr ())"
      by (auto simp: before_dispatch_def andthen_Inr authorization_path_def)
    have gate: "\<exists>t1. tr1 = t1 @ [ReadSettings] \<and> \<not> gate_closed (request_gate rq) (write_settings_at w t1)"
      and up: "prefix tr2 tr1"
      using g by (auto simp: open_gate_def andthen_Inr before_write_check_def runner_of_def split: if_splits)
    have longer: "prefix t tr2 \<Longrightarrow> prefix t tr1" for t using up by (metis prefix_order.trans)
    then have "approved_between (runner_of w) (as_policy_path (we_settings w)) (with_json_flag argv) tr tr1"
      using preflight_Inr(2) [OF p] unfolding approved_between_def by blast
    moreover have "checked_foreign w digest tr tr1" if "with_json_flag argv ! 0 = ''/c0/fall''"
      using preflight_foreign [OF p that] longer unfolding checked_foreign_def by metis
    ultimately show ?thesis using dispatched(1) gate by (simp add: authorised_def)
  next
    case False
    then show ?thesis using dispatched(1) by (simp add: authorised_def)
  qed
  then show thesis using that(2) [of pre] pre dispatched(3) by simp
qed

lemma wo_run_command:
  assumes "\<And>t. ''show'' \<notin> set argv \<Longrightarrow> prefix start tr \<Longrightarrow> prefix tr t \<Longrightarrow> authorised w rq digest argv tr t \<Longrightarrow>
    Q (Exec (argv_of (config_of w) (with_json_flag argv))) t"
  shows "writes_ok w start (run_command w rq digest argv) tr Q"
  unfolding run_command_def
proof (rule wo_before)
  obtain tr' r where run: "run_write w rq digest argv tr = (tr', r)" by (cases "run_write w rq digest argv tr")
  then have fst: "fst (catch_storcli (run_write w rq digest argv) tr) = tr'"
    by (simp add: catch_storcli_def split: sum.split fault.split)
  show "writes_ok w start (catch_storcli (run_write w rq digest argv)) tr Q"
  proof (cases "''show'' \<in> set argv")
    case True
    then show ?thesis unfolding run_write_def by (intro wo_calm calm_intros calm_run)
  next
    case False
    from run False show ?thesis
    proof (cases rule: run_write_authorised)
      case (1 new)
      then show ?thesis using fst by (intro writes_ok_quiet) auto
    next
      case (2 pre)
      show ?thesis
        unfolding writes_ok_def
      proof (intro impI)
        assume "prefix start tr"
        then have "Q (Exec (argv_of (config_of w) (with_json_flag argv))) (tr @ pre)" using assms False 2(3) by simp
        then show "\<exists>new. fst (catch_storcli (run_write w rq digest argv) tr) = tr @ new \<and> (quiet (config_of w) new \<or>
            (\<exists>pre e post. new = pre @ e # post \<and> quiet (config_of w) pre \<and> quiet (config_of w) post \<and> Q e (tr @ pre)))"
          using fst 2(1, 2) quiet_simps(1) by blast
      qed
    qed
  qed
qed (auto split: sum.split intro!: calm_intros)


subsection \<open>The maintenance window\<close>

fun locate_stop :: "controller_action \<Rightarrow> bool" where
  "locate_stop (Locate _ _ act) \<longleftrightarrow> act \<noteq> ''start''"
| "locate_stop _ \<longleftrightarrow> False"

fun destructive :: "controller_action \<Rightarrow> bool" where
  "destructive (DriveAction act _ _ _ _) \<longleftrightarrow> act = MarkUbad"
| "destructive (ReplaceStep _ _ _ _) \<longleftrightarrow> True"
| "destructive (ReplaceInsert _ _ _) \<longleftrightarrow> True"
| "destructive (ForeignImport _) \<longleftrightarrow> True"
| "destructive (ForeignClear _) \<longleftrightarrow> True"
| "destructive _ \<longleftrightarrow> False"

definition maintenance_seen :: "web_env \<Rightarrow> trace \<Rightarrow> trace \<Rightarrow> bool" where
  "maintenance_seen w start t \<longleftrightarrow>
     (\<exists>t0. prefix start t0 \<and> prefix t0 t \<and> ws_maintenance_mode (write_settings_at w t0))"

definition sent_as ::
  "web_env \<Rightarrow> action_request \<Rightarrow> string option \<Rightarrow> string list \<Rightarrow> trace \<Rightarrow> effect \<Rightarrow> trace \<Rightarrow> bool" where
  "sent_as w rq digest argv start e t \<longleftrightarrow>
     e = Exec (argv_of (config_of w) (with_json_flag argv)) \<and>
     (\<exists>t1. prefix start t1 \<and> prefix t1 t \<and> authorised w rq digest argv t1 t)"

definition command_sent :: "web_env \<Rightarrow> action_request \<Rightarrow> trace \<Rightarrow> effect \<Rightarrow> trace \<Rightarrow> bool" where
  "command_sent w rq start e t \<longleftrightarrow> (\<exists>digest argv. sent_as w rq digest argv start e t)"

definition in_window :: "web_env \<Rightarrow> action_request \<Rightarrow> controller_action \<Rightarrow> trace \<Rightarrow> effect \<Rightarrow> trace \<Rightarrow> bool" where
  "in_window w rq a start e t \<longleftrightarrow>
     command_sent w rq start e t \<and> (locate_stop a \<or> maintenance_seen w start t) \<and>
     (destructive a \<longrightarrow> as_destructive_mode (we_settings w))"

named_theorems step_facts

lemma read_settings_Inr [step_facts]:
  "read_settings w tr = (tr', Inr st) \<longleftrightarrow> tr' = tr @ [ReadSettings] \<and> st = write_settings_at w tr"
  by (auto simp: read_settings_def)

lemma read_db_Inr [step_facts]: "read_db w tr = (tr', Inr d) \<longleftrightarrow> tr' = tr @ [ReadDb] \<and> d = we_db w tr"
  by (auto simp: read_db_def)

lemma respond_Inr [simp, step_facts]: "respond c b tr \<noteq> (tr', Inr x)"
  by (simp add: respond_def)

lemma require_that_Inr [step_facts]: "require_that ok c b tr = (tr', Inr u) \<longleftrightarrow> ok \<and> tr' = tr"
  by (auto simp: require_that_def)

lemma audit_reject_Inr [step_facts]: "audit_reject w rq act msg reason body c tr \<noteq> (tr', Inr x)"
  by (auto simp: audit_reject_def andthen_Inr refuse_def)

lemma reject_foreign_Inr [step_facts]: "reject_foreign_config_destructive w rq act dg reason body c tr \<noteq> (tr', Inr x)"
  by (auto simp: reject_foreign_config_destructive_def andthen_Inr)

lemma gates_Inr [step_facts]:
  "destructive_gates st tr = (tr', Inr u) \<longleftrightarrow> ws_maintenance_mode st \<and> ws_destructive_mode st \<and> tr' = tr"
  "drive_action_gates act st tr = (tr', Inr u) \<longleftrightarrow>
     ws_maintenance_mode st \<and> \<not> (act = MarkUbad \<and> \<not> ws_destructive_mode st) \<and> tr' = tr"
  "reject_patrol_read_maintenance w rq op msg st tr = (tr', Inr u) \<longleftrightarrow> ws_maintenance_mode st \<and> tr' = tr"
  "reject_consistency_check_maintenance w rq op msg st tr = (tr', Inr u) \<longleftrightarrow> ws_maintenance_mode st \<and> tr' = tr"
  "require_or_reject w rq op dg ok reason body c tr = (tr', Inr u) \<longleftrightarrow> ok \<and> tr' = tr"
  by (auto simp: destructive_gates_def drive_action_gates_def andthen_Inr step_facts reject_patrol_read_maintenance_def
      reject_consistency_check_maintenance_def require_or_reject_def split: if_splits)

lemma settings_destructive [simp]: "ws_destructive_mode (write_settings_at w tr) = as_destructive_mode (we_settings w)"
  by (simp add: write_settings_at_def Let_def)

lemma wo_answers:
  "writes_ok w start (respond c b) tr Q" "writes_ok w start (ret x) tr Q" "writes_ok w start (fail r) tr Q"
  "writes_ok w start (refuse rq body c) tr Q" "writes_ok w start (audit_reject w rq act msg reason body c) tr Q"
  "writes_ok w start (fail_precheck w rq act msg err) tr Q"
  by (intro wo_calm calm_intros)+

lemma catch_Inr [step_facts]:
  "catch_storcli m tr = (tr', Inr (Inr x)) \<longleftrightarrow> m tr = (tr', Inr x)"
  by (auto simp: catch_storcli_def split: prod.splits sum.splits fault.splits)

lemma caught_Inr:
  assumes "\<And>y tr1. F y tr1 \<noteq> (tr', Inr l)"
  shows "andthen (catch_storcli m) (case_sum F ret) tr = (tr', Inr l) \<longleftrightarrow> m tr = (tr', Inr l)"
proof (cases "catch_storcli m tr")
  case (Pair t1 res)
  then show ?thesis
    using assms catch_Inr [of m tr] by (cases res; cases "projr res") (auto simp: andthen_def ret_def)
qed

lemma prechecks_Inr [step_facts]:
  "replace_precheck w rq step msg marker e s serial tr = (tr', Inr live) \<longleftrightarrow> query_live_drive_show w e s tr = (tr', Inr live)"
  "drive_action_precheck w rq act e s dg state tr = (tr', Inr live) \<longleftrightarrow> query_live_drive_show w e s tr = (tr', Inr live)"
  unfolding replace_precheck_def drive_action_precheck_def
  by (rule caught_Inr, simp add: andthen_Inr case_prod_beta)+

lemma foreign_query_Inr [step_facts]:
  "foreign_query_step w rq act tr = (tr', Inr f) \<longleftrightarrow> query_live_foreign_config w tr = (tr', Inr f)"
  unfolding foreign_query_step_def by (rule caught_Inr) (simp add: step_facts case_prod_beta)

text \<open>What the commands of the handlers need: the fact that the dispatch establishes.\<close>

definition sendable :: "web_env \<Rightarrow> action_request \<Rightarrow> string option \<Rightarrow> string list \<Rightarrow> trace \<Rightarrow> trace \<Rightarrow> (effect \<Rightarrow> trace \<Rightarrow> bool) \<Rightarrow> bool" where
  "sendable w rq digest argv start tr Q \<longleftrightarrow>
     (\<forall>t. prefix start tr \<and> prefix tr t \<and> authorised w rq digest argv tr t \<longrightarrow>
        Q (Exec (argv_of (config_of w) (with_json_flag argv))) t)"

lemma wo_command: "sendable w rq digest argv start tr Q \<Longrightarrow> writes_ok w start (run_command w rq digest argv) tr Q"
  by (rule wo_run_command) (simp add: sendable_def)

lemma wo_replace_command:
  assumes "sendable w rq None argv start tr Q"
  shows "writes_ok w start (replace_command w rq step e s serial argv) tr Q"
  unfolding replace_command_def
proof (rule wo_before [OF wo_command [OF assms]])
  show "extends_by (quiet (config_of w)) (case x of (result, err) \<Rightarrow>
       if err \<noteq> None then ret (None, result, err)
       else if \<not> full_actions w then ret (None, result, None)
       else andthen (catch_storcli (query_live_drive_show w e s)) (\<lambda>r.
         case r of
           Inl _ \<Rightarrow> ret (None, result, Some (uncertain_outcome, None))
         | Inr observed \<Rightarrow>
             if ds_serial_number observed \<noteq> serial \<or> normalized_state (ds_state observed) \<noteq> step
             then ret (None, result, Some (uncertain_outcome, None))
             else ret (Some step, result, None)))" for x :: "dict option \<times> (storcli_error \<times> bool option) option"
    by (intro calm_intros)
qed

lemma wo_sends:
  assumes "sendable w rq None argv start tr Q"
  shows "writes_ok w start (run_drive_command w rq act e s dg state argv) tr Q"
    and "writes_ok w start (run_replace_command w rq step e s serial argv) tr Q"
    and "writes_ok w start (run_insert_command w rq e s serial tp argv) tr Q"
  unfolding run_drive_command_def run_replace_command_def run_insert_command_def
  by (rule wo_before, rule wo_command wo_replace_command, rule assms, intro calm_intros)+

lemma wo_foreign:
  "sendable w rq (Some digest) argv start tr Q \<Longrightarrow> writes_ok w start (run_foreign_config_destructive w rq act digest argv) tr Q"
  unfolding run_foreign_config_destructive_def by (rule wo_before, rule wo_command) (assumption, intro calm_intros)

lemma wo_checked:
  assumes "extends_by (quiet (config_of w)) live_state"
    and "\<And>tr1. prefix tr tr1 \<Longrightarrow> sendable w rq None argv start tr1 Q"
  shows "writes_ok w start (checked_command w rq act live_state argv) tr Q"
  unfolding checked_command_def
proof (rule wo_if)
  have "prefix tr tr1 \<Longrightarrow> writes_ok w start (run_command w rq None argv) tr1 (\<lambda>e t. prefix tr1 t \<longrightarrow> Q e t)" for tr1
    using assms(2) [of tr1] by (intro wo_command) (simp add: sendable_def)
  then show "writes_ok w start (andthen (catch_storcli live_state) (\<lambda>r. case r of
        Inl e \<Rightarrow> ret (None, Some e)
      | Inr state \<Rightarrow> if py_lower state = ''unknown'' then ret (None, Some (unknown_state, None)) else run_command w rq None argv)) tr Q"
    using assms(1) by (intro wo_then wo_sum wo_if wo_answers calm_intros)
  show "writes_ok w start (run_command w rq None argv) tr Q"
    using assms(2) by (simp add: wo_command)
qed


lemmas wo_rules = wo_then wo_if wo_sum wo_prod wo_answers

lemma maintenance_seen_at:
  "ws_maintenance_mode (write_settings_at w t0) \<Longrightarrow> prefix start t0 \<Longrightarrow> prefix (t0 @ new) t \<Longrightarrow> maintenance_seen w start t"
  unfolding maintenance_seen_def by (metis append_prefixD)

lemma sendable_as: "(\<And>e t. sent_as w rq digest argv start e t \<Longrightarrow> Q e t) \<Longrightarrow> sendable w rq digest argv start tr Q"
  unfolding sendable_def sent_as_def by blast

lemma sendable_sent: "(\<And>e t. command_sent w rq start e t \<Longrightarrow> Q e t) \<Longrightarrow> sendable w rq digest argv start tr Q"
  by (rule sendable_as) (auto simp: command_sent_def)

lemma window_drive_action:
  "writes_ok w start (run_advanced_drive_action w rq act enclosure slot dg serial) tr
     (in_window w rq (DriveAction act enclosure slot dg serial) start)"
  unfolding run_advanced_drive_action_def
  by (intro wo_rules calm_intros wo_sends sendable_sent)
    (auto simp: step_facts in_window_def intro: maintenance_seen_at)

lemma window_locate:
  "writes_ok w start (run_locate w rq enclosure slot act) tr (in_window w rq (Locate enclosure slot act) start)"
  unfolding run_locate_def
  by (intro wo_rules calm_intros wo_before [OF wo_command] sendable_sent)
    (auto simp: step_facts in_window_def intro: maintenance_seen_at)

lemma window_replace:
  "writes_ok w start (run_replace_step w rq step enclosure slot raw) tr (in_window w rq (ReplaceStep step enclosure slot raw) start)"
  "writes_ok w start (drive_replace_insert w rq enclosure slot raw) tr (in_window w rq (ReplaceInsert enclosure slot raw) start)"
  unfolding run_replace_step_def drive_replace_insert_def
  by ((intro wo_rules calm_intros wo_sends sendable_sent),
    (auto simp: step_facts in_window_def intro: maintenance_seen_at)[1])+

lemma window_buzzer:
  "writes_ok w start (run_controller_buzzer_action w rq b) tr (in_window w rq (Buzzer b) start)"
  unfolding run_controller_buzzer_action_def
  by (intro wo_rules calm_intros wo_before [OF wo_command] sendable_sent)
    (auto simp: step_facts in_window_def intro: maintenance_seen_at)


lemma calm_audit_mutation [calm_intros]: "extends_by (quiet (config_of w)) (audit_mutation w rq act msg argv outcome)"
  unfolding audit_mutation_def by (intro calm_intros)

lemma wo_mutations:
  assumes "\<And>tr1. prefix tr tr1 \<Longrightarrow> ws_maintenance_mode st \<Longrightarrow> sendable w rq None argv start tr1 Q"
  shows "writes_ok w start (run_patrol_read_mutation w rq st act argv msg) tr Q"
    and "writes_ok w start (run_consistency_check_mutation w rq st act argv msg) tr Q"
proof -
  have chk: "writes_ok w start (checked_command w rq act live argv) tr Q"
    if "extends_by (quiet (config_of w)) live" "ws_maintenance_mode st" for live
    using that assms by (intro wo_checked)
  have rest: "writes_ok w start (andthen (reject w rq act msg st) (\<lambda>_. m)) tr Q"
    if "reject = reject_patrol_read_maintenance \<or> reject = reject_consistency_check_maintenance"
      and "ws_maintenance_mode st \<Longrightarrow> writes_ok w start m tr Q" for reject m
  proof (rule wo_then)
    show "extends_by (quiet (config_of w)) (reject w rq act msg st)"
      using that(1) by (auto intro!: calm_intros)
    fix x tr1
    assume "reject w rq act msg st tr = (tr1, Inr x)"
    then have "writes_ok w start m tr Q" "tr1 = tr" using that by (auto simp: step_facts)
    then show "writes_ok w start m tr1 (\<lambda>e t. prefix tr1 t \<longrightarrow> Q e t)"
      unfolding writes_ok_def by blast
  qed
  show "writes_ok w start (run_patrol_read_mutation w rq st act argv msg) tr Q"
    unfolding run_patrol_read_mutation_def
    by (rule rest, simp, rule wo_before, rule chk, intro calm_intros, assumption, intro calm_intros)
  show "writes_ok w start (run_consistency_check_mutation w rq st act argv msg) tr Q"
    unfolding run_consistency_check_mutation_def
    by (rule rest, simp, rule wo_before, rule chk, intro calm_intros, assumption, intro calm_intros)
qed

lemma window_operations:
  "writes_ok w start (controller_patrol_read_start w rq) tr (in_window w rq PatrolStart start)"
  "writes_ok w start (controller_patrol_read_stop w rq) tr (in_window w rq PatrolStop start)"
  "writes_ok w start (controller_patrol_read_mode w rq praw) tr (in_window w rq (PatrolMode praw) start)"
  "writes_ok w start (controller_consistency_check_start w rq vraw) tr (in_window w rq (ConsistencyStart vraw) start)"
  "writes_ok w start (controller_consistency_check_stop w rq) tr (in_window w rq ConsistencyStop start)"
  "writes_ok w start (controller_consistency_check_mode w rq mraw) tr (in_window w rq (ConsistencyMode mraw) start)"
  unfolding controller_patrol_read_start_def controller_patrol_read_stop_def controller_patrol_read_mode_def
    controller_consistency_check_start_def controller_consistency_check_stop_def controller_consistency_check_mode_def
  by ((intro wo_rules calm_intros wo_mutations sendable_sent),
    (auto simp: step_facts in_window_def intro: maintenance_seen_at)[1])+

lemma window_foreign:
  "writes_ok w start (controller_foreign_config_import w rq raw) tr (in_window w rq (ForeignImport raw) start)"
  "writes_ok w start (controller_foreign_config_clear w rq raw) tr (in_window w rq (ForeignClear raw) start)"
  unfolding controller_foreign_config_import_def controller_foreign_config_clear_def confirmed_foreign_action_def
    foreign_present_gate_def
  by ((intro wo_rules calm_intros wo_foreign sendable_sent),
    (auto simp: step_facts in_window_def intro: maintenance_seen_at)[1])+

lemma window_run_action: "writes_ok w start (run_action w rq a) tr (in_window w rq a start)"
  by (cases a) (simp_all only: run_action.simps window_locate window_drive_action window_replace window_operations
      window_buzzer window_foreign)


subsection \<open>The guard of all actions\<close>

fun is_locate :: "controller_action \<Rightarrow> bool" where
  "is_locate (Locate _ _ _) \<longleftrightarrow> True"
| "is_locate _ \<longleftrightarrow> False"

definition granted :: "web_env \<Rightarrow> controller_action \<Rightarrow> bool" where
  "granted w a \<longleftrightarrow>
     \<not> as_read_only (we_settings w) \<and> (full_actions w \<or> as_capability (we_settings w) = ''locate'' \<and> is_locate a)"

lemma locate_family: "route_family (route_of a) \<in> {''locate'', ''maintenance''} \<Longrightarrow> is_locate a"
proof (cases a)
  case (DriveAction act enclosure slot dg serial)
  then show "route_family (route_of a) \<in> {''locate'', ''maintenance''} \<Longrightarrow> is_locate a"
    by (cases act) (simp_all add: route_family_def)
qed (auto simp: route_family_def buzzer_category_def split: if_splits)

lemma capability_granted:
  assumes "require_controller_capability w rq sel tr = (tr', Inr u)" and "ar_route rq = route_of a"
  shows "granted w a"
proof -
  let ?family = "route_family (ar_route rq)"
  from assms(1) have writable: "\<not> as_read_only (we_settings w)"
    by (auto simp: require_controller_capability_def forbidden_def split: if_splits)
  show ?thesis
  proof (cases "full_actions w")
    case False
    from assms(1) writable False obtain tr1 where "action_disabled_reason w ?family tr = (tr1, Inr None)"
      by (auto simp: require_controller_capability_def forbidden_def Let_def andthen_Inr ret_def split: if_splits option.splits)
    then have "as_capability (we_settings w) = ''locate'' \<and> ?family \<in> {''locate'', ''maintenance''}"
      using writable False by (auto simp: action_disabled_reason_def Let_def ret_def split: if_splits)
    then show ?thesis using writable assms(2) locate_family by (simp add: granted_def)
  qed (simp add: granted_def writable)
qed


lemma calm_capability: "extends_by (quiet (config_of w)) (require_controller_capability w rq sel)"
  by (intro calm_intros)

lemma wo_weaken:
  assumes "writes_ok w start m tr Q" and "\<And>e t. prefix tr t \<Longrightarrow> Q e t \<Longrightarrow> R e t"
  shows "writes_ok w start m tr R"
proof (cases "prefix start tr")
  case True
  with assms(1) show ?thesis
  proof (cases rule: writes_okE)
    case (2 pre e post)
    have "R e (tr @ pre)" using assms(2) 2(4) by simp
    then show ?thesis by (rule writes_okI [where m = m and tr = tr and pre = pre and Q = R, OF 2(1-3)])
  qed (rule writes_ok_quiet)
qed (simp add: writes_ok_def)

lemma wo_serve:
  assumes "ar_route rq = route_of a" and "\<And>tr1. writes_ok w tr (run_action w rq a) tr1 Q"
  shows "writes_ok w tr (serve_action w rq a) tr (\<lambda>e t. granted w a \<and> Q e t)"
  unfolding serve_action_def
proof (rule wo_then [OF calm_capability])
  fix u tr1
  assume "require_controller_capability w rq (requested_approval_command a) tr = (tr1, Inr u)"
  then have "granted w a" using assms(1) by (rule capability_granted)
  then show "writes_ok w tr (run_action w rq a) tr1 (\<lambda>e t. prefix tr1 t \<longrightarrow> granted w a \<and> Q e t)"
    using assms(2) by (rule_tac wo_weaken) simp_all
qed




subsection \<open>Drives are replaced as confirmed\<close>

definition seen_live :: "web_env \<Rightarrow> int \<Rightarrow> int \<Rightarrow> drive_show \<Rightarrow> trace \<Rightarrow> trace \<Rightarrow> bool" where
  "seen_live w e s live start t \<longleftrightarrow>
     (\<exists>t1 t2. prefix start t1 \<and> prefix t2 t \<and> query_live_drive_show w e s t1 = (t2, Inr live))"

lemma seen_liveI: "query_live_drive_show w e s t1 = (t2, Inr live) \<Longrightarrow> prefix start t1 \<Longrightarrow> prefix t2 t \<Longrightarrow> seen_live w e s live start t"
  unfolding seen_live_def by blast

lemma bad_request_Inr [step_facts]: "bad_request m tr = (tr', Inr x) \<longleftrightarrow> m = Inr x \<and> tr' = tr"
  by (auto simp: bad_request_def ret_def split: sum.splits)

lemma path_drive_Inr [step_facts]:
  "path_drive w enclosure slot tr = (tr', Inr (e, s)) \<longleftrightarrow>
     we_int w enclosure = Inr e \<and> we_int w slot = Inr s \<and> validate_enclosure_slot e s = Inr () \<and> tr' = tr"
  by (cases "we_int w enclosure"; cases "we_int w slot")
    (auto simp: path_drive_def andthen_Inr bad_request_Inr ret_def)

lemma parse_body_Inr [step_facts]: "parse_body raw tr = (tr', Inr b) \<longleftrightarrow> raw = Body b \<and> tr' = tr"
  by (auto simp: parse_body_def ret_def split: parsed_body.splits)

definition step_confirmed ::
  "web_env \<Rightarrow> action_request \<Rightarrow> string \<Rightarrow> string \<Rightarrow> string \<Rightarrow> replace_request parsed_body \<Rightarrow> trace \<Rightarrow> effect \<Rightarrow> trace \<Rightarrow> bool" where
  "step_confirmed w rq step enclosure slot raw start x t \<longleftrightarrow>
     (\<exists>e s body argv live.
        we_int w enclosure = Inr e \<and> we_int w slot = Inr s \<and> raw = Body body \<and> \<not> rr_dry_run body \<and>
        replace_argv step e s = Inr argv \<and> sent_as w rq None argv start x t \<and>
        seen_live w e s live start t \<and> ds_serial_number live = rr_serial_number body \<and>
        can_transition (ds_state live) step)"

lemma confirmed_replace_step:
  "writes_ok w start (run_replace_step w rq step enclosure slot raw) tr (step_confirmed w rq step enclosure slot raw start)"
  unfolding run_replace_step_def
  by (intro wo_rules calm_intros wo_sends sendable_as)
    (auto simp: step_facts step_confirmed_def intro: seen_liveI prefix_prefix)


definition insert_confirmed ::
  "web_env \<Rightarrow> action_request \<Rightarrow> string \<Rightarrow> string \<Rightarrow> replace_request parsed_body \<Rightarrow> trace \<Rightarrow> effect \<Rightarrow> trace \<Rightarrow> bool" where
  "insert_confirmed w rq enclosure slot raw start x t \<longleftrightarrow>
     (\<exists>e s body argv live tp ev t0.
        we_int w enclosure = Inr e \<and> we_int w slot = Inr s \<and> raw = Body body \<and> \<not> rr_dry_run body \<and>
        prefix start t0 \<and> prefix t0 t \<and>
        load_last_operator_action_for_slot (full_actions w) e s (we_db w t0) = Some ev \<and>
        can_transition_step3 (Some (ev_summary ev)) \<and>
        extract_serial_from_audit (ev_summary ev) \<noteq> Some (rr_serial_number body) \<and>
        insert_argv e s tp = Inr argv \<and> sent_as w rq None argv start x t \<and>
        seen_live w e s live start t \<and> ds_serial_number live = rr_serial_number body \<and> ds_state live = ''UGood'')"

lemma insert_audit_gate_Inr:
  "insert_audit_gate full e s serial drive d tr = (tr', Inr u) \<Longrightarrow>
   \<exists>ev. load_last_operator_action_for_slot full e s d = Some ev \<and> can_transition_step3 (Some (ev_summary ev)) \<and>
     extract_serial_from_audit (ev_summary ev) \<noteq> Some serial"
  by (cases "load_last_operator_action_for_slot full e s d")
    (auto simp: insert_audit_gate_def Let_def andthen_Inr step_facts can_transition_step3_def)

lemma confirmed_insert:
  "writes_ok w start (drive_replace_insert w rq enclosure slot raw) tr (insert_confirmed w rq enclosure slot raw start)"
  unfolding drive_replace_insert_def
proof (intro wo_rules calm_intros wo_sends sendable_as, goal_cases)
  case (1 _ _ e s _ _ body)
  then show ?case
    by (clarsimp simp: step_facts insert_confirmed_def dest!: insert_audit_gate_Inr)
      (intro exI conjI seen_liveI, assumption+, auto intro: prefix_prefix append_prefixD)
qed

subsection \<open>Foreign configurations are acted on as reviewed\<close>

definition foreign_reviewed :: "web_env \<Rightarrow> string \<Rightarrow> foreign_request \<Rightarrow> foreign_config_info \<Rightarrow> bool" where
  "foreign_reviewed w act body f \<longleftrightarrow>
     fci_present f \<and> \<not> fr_dry_run body \<and>
     (if act = ''import'' then fr_confirmation body = fci_digest f
      else fr_confirmation body = clear_confirmation \<and> (full_actions w \<longrightarrow> fr_digest body = fci_digest f))"

definition foreign_confirmed ::
  "web_env \<Rightarrow> action_request \<Rightarrow> string \<Rightarrow> string list \<Rightarrow> foreign_request parsed_body \<Rightarrow> trace \<Rightarrow> effect \<Rightarrow> trace \<Rightarrow> bool" where
  "foreign_confirmed w rq act argv raw start x t \<longleftrightarrow>
     (\<exists>body f t1 t2. raw = Body body \<and> foreign_reviewed w act body f \<and>
        prefix start t1 \<and> prefix t2 t \<and> query_live_foreign_config w t1 = (t2, Inr f) \<and>
        sent_as w rq (Some (fci_digest f)) argv start x t)"

lemma foreign_confirmedI:
  "query_live_foreign_config w t1 = (t2, Inr f) \<Longrightarrow> prefix start t1 \<Longrightarrow> prefix t2 t \<Longrightarrow>
   sent_as w rq (Some (fci_digest f)) argv start x t \<Longrightarrow> foreign_reviewed w act body f \<Longrightarrow>
   foreign_confirmed w rq act argv (Body body) start x t"
  unfolding foreign_confirmed_def by blast

lemma confirmed_foreign:
  "writes_ok w start (controller_foreign_config_import w rq raw) tr
     (foreign_confirmed w rq ''import'' build_foreign_config_import_command raw start)"
  "writes_ok w start (controller_foreign_config_clear w rq raw) tr
     (foreign_confirmed w rq ''clear'' build_foreign_config_clear_command raw start)"
  unfolding controller_foreign_config_import_def controller_foreign_config_clear_def confirmed_foreign_action_def
    foreign_present_gate_def
  by ((intro wo_rules calm_intros wo_foreign sendable_as),
    (auto simp: step_facts foreign_reviewed_def intro!: foreign_confirmedI prefix_prefix)[1])+


subsection \<open>The requests\<close>

lemma wo_served: "(\<And>tr1. writes_ok w tr (run_action w rq a) tr1 Q) \<Longrightarrow> writes_ok w tr (serve_action w rq a) tr Q"
  unfolding serve_action_def by (rule wo_then [OF calm_capability], rule wo_weaken, assumption, rule impI)

text \<open>C4. A replacement step (offline or missing) writes at most once, and only the command of that step for
  the slot in the path, after a live reading of this slot in the same request showed the serial
  number that the operator confirmed in a state from which the step is allowed. A dry run writes nothing.\<close>

theorem replacement_step_needs_confirmed_drive:
  "writes_ok w tr (serve_action w rq (ReplaceStep step enclosure slot raw)) tr
     (step_confirmed w rq step enclosure slot raw tr)"
  by (rule wo_served) (simp add: confirmed_replace_step)

text \<open>C5. An insert writes at most once, and only when the last audit entry of the slot, read in the same
  request, records a succeeded missing step of another serial number, and a live reading of the slot
  showed the replacement the operator confirmed as UGood.\<close>

theorem insert_needs_missing_step_and_good_drive:
  "writes_ok w tr (serve_action w rq (ReplaceInsert enclosure slot raw)) tr
     (insert_confirmed w rq enclosure slot raw tr)"
  by (rule wo_served) (simp add: confirmed_insert)

text \<open>C6. Import and clear write at most once, with the digest of the foreign configuration that this request
  read from the controller: import only when the operator confirmed this digest, clear only with the
  exact phrase and, under full actions, the digest the operator reviewed.\<close>

theorem foreign_writes_as_reviewed:
  "writes_ok w tr (serve_action w rq (ForeignImport raw)) tr
     (foreign_confirmed w rq ''import'' build_foreign_config_import_command raw tr) \<and>
   writes_ok w tr (serve_action w rq (ForeignClear raw)) tr
     (foreign_confirmed w rq ''clear'' build_foreign_config_clear_command raw tr)"
  by (intro conjI wo_served) (simp_all add: confirmed_foreign)

end
