(* ===== verification/ReplaceProps.thy ===== *)
theory ReplaceProps
  imports ActionSafety SchedulerProps PolicySafety DetectorProps
begin

section \<open>The audit log as state\<close>

text \<open>
  Three features of \<open>web/routes.py\<close> keep their state in the event table alone: the insert step reads
  which drive the missing step took out, a rebuild is reported complete once per replacement cycle,
  and inconsistencies of the consistency check are reported on their edges.
\<close>

subsection \<open>What one more event changes\<close>

lemma operator_row [simp]:
  "ev_occurred_at (snd (record_operator_action t u cat msg a d)) = t"
  "ev_category (snd (record_operator_action t u cat msg a d)) = cat"
  "ev_summary (snd (record_operator_action t u cat msg a d)) = msg"
  "ev_after (snd (record_operator_action t u cat msg a d)) = a"
  "ev_id (snd (record_operator_action t u cat msg a d)) = next_id (map ev_id (db_events d))"
  "db_events (fst (record_operator_action t u cat msg a d)) = db_events d @ [snd (record_operator_action t u cat msg a d)]"
  by (simp_all add: record_operator_action_def Let_def)

definition clock_at :: "instant \<Rightarrow> db \<Rightarrow> bool" where
  "clock_at now d \<longleftrightarrow> list_all (\<lambda>x. ev_occurred_at x \<le> now) (db_events d)"

lemma clock_mono: "clock_at t d \<Longrightarrow> t \<le> now \<Longrightarrow> clock_at now d"
  by (fastforce simp: clock_at_def list_all_iff)

lemma newest_event:
  assumes "clock_at now d" and "x \<in> set (db_events d)" and "ev_occurred_at y = now" "ev_id y = next_id (map ev_id (db_events d))"
  shows "event_order x < event_order y"
  using assms next_id_gt [of "ev_id x" "map ev_id (db_events d)"] by (fastforce simp: event_order_def clock_at_def list_all_iff)

lemma best_event_appended:
  assumes "clock_at now d" and "db_events d' = db_events d @ [y]" "ev_occurred_at y = now" "ev_id y = next_id (map ev_id (db_events d))"
  shows "best_by event_order (filter P (db_events d')) =
    (if P y then Some y else best_by event_order (filter P (db_events d)))"
proof (cases "P y")
  case True
  have "best_by event_order (filter P (db_events d) @ [y]) = Some y"
    using newest_event [OF assms(1) _ assms(3,4)] by (intro best_by_last) (auto simp: less_imp_le)
  then show ?thesis using True assms(2) by simp
qed (simp add: assms(2))

subsection \<open>The missing step and the insert gate\<close>

lemma py_words_token:
  "token_ok w \<Longrightarrow> is_space c \<Longrightarrow> py_words (w @ c # s) = w # py_words s"
  by (simp add: py_words_def split_ws_token token_ok_def)

lemma message_words:
  assumes "token_ok step" "token_ok serial"
  shows "py_words (replace_audit_message step e s serial outcome) =
    [''replace'', ''step'', step, ''drive'', show_int e @ '':'' @ show_int s, ''serial'', serial] @ py_words outcome"
proof -
  have eq: "replace_audit_message step e s serial outcome =
      ''replace'' @ CHR '' '' # ''step'' @ CHR '' '' # step @ CHR '' '' # ''drive'' @ CHR '' '' #
      (show_int e @ '':'' @ show_int s) @ CHR '' '' # ''serial'' @ CHR '' '' # serial @ CHR '' '' # outcome"
    by (simp add: replace_audit_message_def)
  have "is_space CHR '' ''" by (simp add: is_space_def code_of_def)
  moreover have "token_ok ''replace''" "token_ok ''step''" "token_ok ''drive''" "token_ok ''serial''"
    by (simp_all add: token_ok_def is_space_def code_of_def)
  moreover have "token_ok (show_int e @ '':'' @ show_int s)"
    using show_nat_no_space by (auto simp: token_ok_def list_all_iff show_int_def is_space_def code_of_def)
  ultimately show ?thesis using assms unfolding eq by (simp only: py_words_token) simp
qed

lemma serial_of_message:
  "token_ok step \<Longrightarrow> step \<noteq> ''serial'' \<Longrightarrow> token_ok serial \<Longrightarrow>
   extract_serial_from_audit (replace_audit_message step e s serial outcome) = Some serial"
  by (auto simp: extract_serial_from_audit_def message_words append_eq_Cons_conv)

lemma message_names_slot:
  "names_slot e s y" if "ev_summary y = replace_audit_message step e s serial outcome"
proof -
  have "ev_summary y = (''replace step '' @ step @ '' '') @ (drive_ref e s @ '' '') @ (''serial '' @ serial @ '' '' @ outcome)"
    using that by (simp add: replace_audit_message_def drive_ref_def)
  then have "py_lower (ev_summary y) = py_lower (''replace step '' @ step @ '' '') @ py_lower (drive_ref e s @ '' '') @
      py_lower (''serial '' @ serial @ '' '' @ outcome)"
    by (simp only: py_lower_def map_append)
  then show ?thesis unfolding names_slot_def like_contains_def str_in_iff by blast
qed

lemma step_message_not_locate: "\<not> like_prefix ''locate '' (replace_audit_message step e s serial outcome)"
  by (simp add: like_prefix_def replace_audit_message_def py_lower_def lower_char_def is_upper_def code_of_def)

lemma recorded_step_is_last:
  assumes "clock_at now d" and "\<not> only_a_precheck (snd (record_operator_action now user operator_action
      (replace_audit_message step e s serial outcome) after d))"
  shows "load_last_operator_action_for_slot full e s
      (fst (record_operator_action now user operator_action (replace_audit_message step e s serial outcome) after d)) =
    Some (snd (record_operator_action now user operator_action (replace_audit_message step e s serial outcome) after d))"
    (is "_ = Some ?y")
proof -
  have "slot_audit full e s ?y"
    using assms(2) message_names_slot step_message_not_locate by (simp add: slot_audit_def)
  then show ?thesis
    unfolding load_last_operator_action_for_slot_def by (subst best_event_appended [OF assms(1), where y = ?y]) simp_all
qed

text \<open>C20. The missing step is what the insert step looks for. Once the audit entry of a succeeded missing step
  is recorded, the gate of the insert step admits, for that slot, exactly the serial numbers other
  than the one taken out, for a snapshot that shows either the new or the old drive.\<close>

theorem missing_step_opens_insert_gate:
  assumes "clock_at now d" and "0 \<le> e" "0 \<le> s" and "token_ok serial"
    and "d' = fst (record_operator_action now user operator_action
      (replace_audit_message ''missing'' e s serial ''succeeded'') (verified_json verified) d)"
  shows "insert_audit_gate full e s new drive d' tr = (tr, Inr ()) \<longleftrightarrow>
    new \<noteq> serial \<and> (pdi_serial_number drive = new \<or> pdi_serial_number drive = serial)"
proof -
  let ?msg = "replace_audit_message ''missing'' e s serial ''succeeded''"
  have "\<not> only_a_precheck (snd (record_operator_action now user operator_action ?msg (verified_json verified) d))"
    by (auto simp: only_a_precheck_def verified_json_def dict_get_def split: option.splits)
  then have last: "map_option ev_summary (load_last_operator_action_for_slot full e s d') = Some ?msg"
    using recorded_step_is_last [OF assms(1)] unfolding assms(5) by simp
  have "can_transition_step3 (Some ?msg)"
    using gate_message [OF assms(2,3)] assms(4) by (simp add: can_transition_step3_def token_ok_def list_all_iff)
  moreover have "extract_serial_from_audit ?msg = Some serial"
    using assms(4) by (intro serial_of_message) (simp_all add: token_ok_def is_space_def code_of_def)
  ultimately show ?thesis
    by (auto simp: insert_audit_gate_def last Let_def andthen_Inr require_that_Inr)
qed

theorem missing_step_opens_insert_gate_witness:
  "insert_audit_gate True 252 3 ''NEW1'' (sample_drive 3 ''OLD1'' None)
     (fst (record_operator_action 7 ''ann'' operator_action (replace_audit_message ''missing'' 252 3 ''OLD1'' ''succeeded'')
        (verified_json (Some ''missing'')) empty_db)) [] = ([], Inr ())"
  by (rule missing_step_opens_insert_gate [where now = 7 and user = "''ann''" and d = empty_db
        and serial = "''OLD1''" and verified = "Some ''missing''", THEN iffD2])
    (simp_all add: clock_at_def empty_db_def token_ok_def is_space_def code_of_def sample_drive_def)

subsection \<open>One completion per replacement cycle\<close>

lemma complete_is_no_marker: "\<not> like_prefix (''replace step insert '' @ x) (rebuild_complete_message e s)"
  by (simp add: like_prefix_def rebuild_complete_message_def py_lower_def lower_char_def is_upper_def code_of_def)

lemma recorded_completion:
  assumes "clock_at now d"
  shows "load_replacement_cycle_marker_for_slot e s (fst (record_operator_action now u operator_action (rebuild_complete_message e s) None d)) =
      load_replacement_cycle_marker_for_slot e s d" (is ?marker)
    and "load_rebuild_complete_operator_action_for_slot e s (load_replacement_cycle_marker_for_slot e s d)
      (fst (record_operator_action now u operator_action (rebuild_complete_message e s) None d)) \<noteq> None" (is "?found \<noteq> None")
proof -
  let ?r = "record_operator_action now u operator_action (rebuild_complete_message e s) None d"
  have best: "best_by event_order (filter P (db_events (fst ?r))) =
      (if P (snd ?r) then Some (snd ?r) else best_by event_order (filter P (db_events d)))" for P
    by (rule best_event_appended [OF assms]) simp_all
  show ?marker
    unfolding load_replacement_cycle_marker_for_slot_def best using complete_is_no_marker by simp
  have "after_marker (load_replacement_cycle_marker_for_slot e s d) (snd ?r)"
  proof (cases "load_replacement_cycle_marker_for_slot e s d")
    case (Some m)
    then have "m \<in> set (db_events d)" unfolding load_replacement_cycle_marker_for_slot_def using best_by_Some by fastforce
    then show ?thesis using Some newest_event [OF assms, of m "snd ?r"] by (simp add: after_marker_def)
  qed (simp add: after_marker_def)
  then show "?found \<noteq> None" unfolding load_rebuild_complete_operator_action_for_slot_def best by simp
qed



subsection \<open>Inconsistencies are reported on their edges\<close>

definition inconsistency_events :: "db \<Rightarrow> event_row list" where
  "inconsistency_events d = filter (\<lambda>x. ev_category x = inconsistency_category) (db_events d)"

text \<open>What an observer with one bit of memory reports.\<close>

fun edge_reports :: "bool \<Rightarrow> bool list \<Rightarrow> string list" where
  "edge_reports known [] = []"
| "edge_reports known (b # bs) =
     (if b = known then edge_reports known bs
      else (if b then ''consistency check inconsistency detected''
            else ''consistency check inconsistency resolved'') # edge_reports b bs)"

definition last_report :: "db \<Rightarrow> string option" where
  "last_report d = map_option ev_summary (best_by event_order (inconsistency_events d))"

definition known_inconsistent :: "db \<Rightarrow> bool" where
  "known_inconsistent d \<longleftrightarrow> last_report d = Some ''consistency check inconsistency detected''"

definition report_state_ok :: "db \<Rightarrow> bool" where
  "report_state_ok d \<longleftrightarrow> last_report d \<in> {None, Some ''consistency check inconsistency detected'',
     Some ''consistency check inconsistency resolved''}"

lemma record_inconsistency_step:
  assumes "clock_at now d" "report_state_ok d" and d'_def: "d' = record_consistency_check_inconsistency_state now st d"
  shows "clock_at now d' \<and> report_state_ok d' \<and> known_inconsistent d' = cc_has_inconsistency st \<and>
    map ev_summary (inconsistency_events d') =
      map ev_summary (inconsistency_events d) @ edge_reports (known_inconsistent d) [cc_has_inconsistency st]"
proof (cases "cc_has_inconsistency st = known_inconsistent d")
  case True
  then have "d' = d"
    using assms(2) by (auto simp: d'_def record_consistency_check_inconsistency_state_def Let_def known_inconsistent_def
        report_state_ok_def last_report_def inconsistency_events_def)
  then show ?thesis using True assms(1, 2) by simp
next
  case False
  let ?sev = "if cc_has_inconsistency st then Warning else Info"
  let ?msg = "if cc_has_inconsistency st then ''consistency check inconsistency detected''
    else ''consistency check inconsistency resolved''"
  let ?r = "record_event now ?sev inconsistency_category ''Controller'' ?msg None (Some (consistency_check_response_body st)) d"
  have d': "d' = fst ?r"
    using False assms(2) by (auto simp: d'_def record_consistency_check_inconsistency_state_def Let_def known_inconsistent_def
        report_state_ok_def last_report_def inconsistency_events_def)
  have new: "db_events d' = db_events d @ [snd ?r]" unfolding d' by (rule record_event_appends)
  have "last_report d' = Some ?msg"
    unfolding last_report_def inconsistency_events_def
    using best_event_appended [OF assms(1) new] by simp
  moreover have "clock_at now d'" using assms(1) by (simp add: clock_at_def new)
  moreover have "inconsistency_events d' = inconsistency_events d @ [snd ?r]"
    by (simp add: inconsistency_events_def new)
  ultimately show ?thesis using False by (auto simp: report_state_ok_def known_inconsistent_def)
qed

lemma edge_reports_append:
  "edge_reports known (b # bs) = edge_reports known [b] @ edge_reports b bs"
  by simp

text \<open>C22. Over any run of consistency check readings taken at times that do not decrease, the inconsistency
  events are those of an observer with one bit of memory: one event when an inconsistency appears,
  one when it is gone, none in between, whoever asks and how often.\<close>

theorem inconsistency_events_are_edges:
  assumes "clock_at now d" "report_state_ok d" and "sorted (now # map fst readings)"
  shows "map ev_summary (inconsistency_events
      (fold (\<lambda>(t, st). record_consistency_check_inconsistency_state t st) readings d)) =
    map ev_summary (inconsistency_events d) @
      edge_reports (known_inconsistent d) (map (cc_has_inconsistency \<circ> snd) readings)"
  using assms
proof (induction readings arbitrary: now d)
  case (Cons r readings)
  obtain t st where r: "r = (t, st)" by (cases r)
  let ?d' = "record_consistency_check_inconsistency_state t st d"
  have "clock_at t d" using Cons.prems(1, 3) clock_mono by (simp add: r)
  note step = record_inconsistency_step [OF this Cons.prems(2) refl, of st]
  have "sorted (t # map fst readings)" using Cons.prems(3) by (simp add: r)
  with Cons.IH [of t ?d'] step show ?case by (simp add: r)
qed simp

theorem inconsistency_events_are_edges_witness:
  "let bad = \<lparr>cc_mode = ''auto'', cc_state = ''stopped'', cc_progress_percent = None, cc_last_run = None,
      cc_inconsistency_count = Some 2, cc_inconsistency_detail = None\<rparr>;
       good = bad\<lparr>cc_inconsistency_count := Some 0\<rparr>
   in map ev_summary (inconsistency_events (fold (\<lambda>(t, st). record_consistency_check_inconsistency_state t st)
        [(1, good), (2, bad), (3, bad), (4, good), (5, bad)] empty_db)) =
      [''consistency check inconsistency detected'', ''consistency check inconsistency resolved'',
       ''consistency check inconsistency detected'']"
  by (simp only: Let_def, subst inconsistency_events_are_edges [where now = 0])
    (simp_all add: clock_at_def empty_db_def report_state_ok_def last_report_def inconsistency_events_def
      known_inconsistent_def cc_has_inconsistency_def)

end
