(* ===== verification/Web.thy ===== *)
theory Web
  imports Config
begin

section \<open>Web gates\<close>

text \<open>
  The middlewares of \<open>web/\<close> in the order \<open>app.py\<close> stacks them: forwarded prefix, attempt
  limiter, basic authentication, CSRF.

  \<^item> Header values are latin-1 text; decoded credentials are kept as their UTF-8 bytes, one
    character per byte, which is what the comparisons of \<open>hmac\<close> and \<open>bcrypt\<close> see.
  \<^item> \<open>checkpw\<close> stands for \<open>bcrypt.checkpw\<close>; \<open>trusted\<close> says whether a peer address lies in
    a configured proxy network; the value of the CSRF cookie is the one \<open>SimpleCookie\<close> reads.
  \<^item> Times of the monotonic clock are microseconds.
\<close>

subsection \<open>Base64\<close>

definition base64_alphabet :: string where
  "base64_alphabet = ''ABCDEFGHIJKLMNOPQRSTUVWXYZabcdefghijklmnopqrstuvwxyz0123456789+/''"

definition urlsafe_alphabet :: string where
  "urlsafe_alphabet = ''ABCDEFGHIJKLMNOPQRSTUVWXYZabcdefghijklmnopqrstuvwxyz0123456789-_''"

fun index_of :: "char \<Rightarrow> string \<Rightarrow> nat option" where
  "index_of c [] = None"
| "index_of c (x # xs) = (if c = x then Some 0 else map_option Suc (index_of c xs))"

fun encode_bytes :: "string \<Rightarrow> nat list \<Rightarrow> string" where
  "encode_bytes abc [] = []"
| "encode_bytes abc [a] = [abc ! (a div 4), abc ! (a mod 4 * 16), CHR ''='', CHR ''='']"
| "encode_bytes abc [a, b] = [abc ! (a div 4), abc ! (a mod 4 * 16 + b div 16), abc ! (b mod 16 * 4), CHR ''='']"
| "encode_bytes abc (a # b # c # bs) =
     abc ! (a div 4) # abc ! (a mod 4 * 16 + b div 16) # abc ! (b mod 16 * 4 + c div 64) # abc ! (c mod 64) #
     encode_bytes abc bs"

text \<open>\<open>base64.b64decode(token, validate=True)\<close>: None is \<open>binascii.Error\<close>.\<close>

fun decode_base64 :: "string \<Rightarrow> nat list option" where
  "decode_base64 [] = Some []"
| "decode_base64 (w # x # y # z # rest) =
     (case (index_of w base64_alphabet, index_of x base64_alphabet) of
        (Some i, Some j) \<Rightarrow>
          (let first = i * 4 + j div 16
           in case index_of y base64_alphabet of
                None \<Rightarrow> if y = CHR ''='' \<and> z = CHR ''='' \<and> rest = [] then Some [first] else None
              | Some k \<Rightarrow>
                  (let second = j mod 16 * 16 + k div 4
                   in case index_of z base64_alphabet of
                        None \<Rightarrow> if z = CHR ''='' \<and> rest = [] then Some [first, second] else None
                      | Some l \<Rightarrow> map_option (\<lambda>bs. first # second # (k mod 4 * 64 + l) # bs) (decode_base64 rest)))
      | _ \<Rightarrow> None)"
| "decode_base64 _ = None"

definition continuation :: "nat \<Rightarrow> bool" where
  "continuation b \<longleftrightarrow> 128 \<le> b \<and> b \<le> 191"

text \<open>Whether \<open>bytes.decode("utf-8")\<close> returns.\<close>

fun utf8_ok :: "nat list \<Rightarrow> bool" where
  "utf8_ok [] = True"
| "utf8_ok (a # bs) =
     (if a < 128 then utf8_ok bs
      else case bs of
        [] \<Rightarrow> False
      | b # cs \<Rightarrow>
          (if 194 \<le> a \<and> a \<le> 223 then continuation b \<and> utf8_ok cs
           else case cs of
             [] \<Rightarrow> False
           | c # ds \<Rightarrow>
               (if 224 \<le> a \<and> a \<le> 239 then
                  (if a = 224 then 160 else 128) \<le> b \<and> b \<le> (if a = 237 then 159 else 191) \<and> continuation c \<and> utf8_ok ds
                else case ds of
                  [] \<Rightarrow> False
                | d # es \<Rightarrow>
                    240 \<le> a \<and> a \<le> 244 \<and> (if a = 240 then 144 else 128) \<le> b \<and> b \<le> (if a = 244 then 143 else 191) \<and>
                    continuation c \<and> continuation d \<and> utf8_ok es)))"

subsection \<open>Requests\<close>

record request =
  rq_http :: bool
  rq_path :: string
  rq_method :: string
  rq_peer :: string
  rq_authorization :: "string option"
  rq_forwarded_for :: "string option"
  rq_forwarded_prefix :: "string option"
  rq_csrf_header :: "string option"
  rq_csrf_cookie :: "string option"
  rq_root_path :: string
  rq_username :: "string option"

datatype outcome = Responds int | RaisesError | IsCancelled

definition is_whitelisted :: "string \<Rightarrow> bool" where
  "is_whitelisted path \<longleftrightarrow> path \<in> set [''/healthz'', ''/favicon.ico''] \<or> starts_with ''/static/'' path"

definition passes_through :: "request \<Rightarrow> bool" where
  "passes_through rq \<longleftrightarrow> \<not> rq_http rq \<or> is_whitelisted (rq_path rq)"

subsection \<open>Forwarded prefix\<close>

definition prefix_char :: "char \<Rightarrow> bool" where
  "prefix_char c \<longleftrightarrow> is_alpha c \<or> is_digit c \<or> c \<in> set ''._~-''"

definition is_safe_forwarded_prefix :: "string \<Rightarrow> bool" where
  "is_safe_forwarded_prefix v =
     (case split_on CHR ''/'' v of
        first # segments \<Rightarrow>
          first = [] \<and> segments \<noteq> [] \<and> list_all (\<lambda>g. g \<noteq> [] \<and> list_all prefix_char g) segments \<and>
          list_all (\<lambda>g. g \<noteq> ''.'' \<and> g \<noteq> ''..'') segments
      | [] \<Rightarrow> False)"

definition rstrip_slash :: "string \<Rightarrow> string" where
  "rstrip_slash v = rev (dropWhile (\<lambda>c. c = CHR ''/'') (rev v))"

definition normalize_forwarded_prefix :: "string option \<Rightarrow> string option" where
  "normalize_forwarded_prefix v =
     (case v of
        None \<Rightarrow> None
      | Some t \<Rightarrow> if t = [] \<or> rstrip_slash t = [] \<or> \<not> is_safe_forwarded_prefix (rstrip_slash t) then None
                  else Some (rstrip_slash t))"

definition forwarded_prefix :: "request \<Rightarrow> request" where
  "forwarded_prefix rq =
     (case normalize_forwarded_prefix (rq_forwarded_prefix rq) of
        None \<Rightarrow> rq | Some p \<Rightarrow> rq\<lparr>rq_root_path := p\<rparr>)"

subsection \<open>Basic authentication\<close>

datatype bcrypt_result = Matches | Differs | BadHash

record admin =
  ad_username :: string
  ad_password_hash :: string

definition basic_token_ok :: "string \<Rightarrow> bool" where
  "basic_token_ok t \<longleftrightarrow> t \<noteq> [] \<and> list_all (\<lambda>c. is_alpha c \<or> is_digit c \<or> c \<in> set ''+/='') t"

text \<open>\<open>text.split(sep, 1)\<close> into exactly two parts.\<close>

definition split_once :: "char \<Rightarrow> string \<Rightarrow> (string \<times> string) option" where
  "split_once d s =
     (case dropWhile (\<lambda>c. c \<noteq> d) s of [] \<Rightarrow> None | _ # rest \<Rightarrow> Some (takeWhile (\<lambda>c. c \<noteq> d) s, rest))"

definition decode_credentials :: "string \<Rightarrow> (string \<times> string) option" where
  "decode_credentials token =
     (case decode_base64 token of
        None \<Rightarrow> None
      | Some bs \<Rightarrow> if utf8_ok bs then split_once CHR '':'' (map char_of bs) else None)"

definition verified_username ::
  "(string \<Rightarrow> string \<Rightarrow> bcrypt_result) \<Rightarrow> admin \<Rightarrow> string option \<Rightarrow> string option" where
  "verified_username checkpw ad header =
     (case header of
        None \<Rightarrow> None
      | Some h \<Rightarrow>
          (case split_once CHR '' '' h of
             None \<Rightarrow> None
           | Some (scheme, token) \<Rightarrow>
               (if py_lower scheme \<noteq> ''basic'' \<or> \<not> basic_token_ok token then None
                else case decode_credentials token of
                  None \<Rightarrow> None
                | Some (username, password) \<Rightarrow>
                    (if username \<noteq> ad_username ad then None
                     else case checkpw password (ad_password_hash ad) of
                       Matches \<Rightarrow> Some username | _ \<Rightarrow> None))))"

text \<open>The call: the notification to the limiter, if any, and the outcome.\<close>

definition basic_auth ::
  "(string \<Rightarrow> string \<Rightarrow> bcrypt_result) \<Rightarrow> admin \<Rightarrow> (request \<Rightarrow> outcome) \<Rightarrow> request \<Rightarrow> bool option \<times> outcome" where
  "basic_auth checkpw ad app rq =
     (if passes_through rq then (None, app rq)
      else case verified_username checkpw ad (rq_authorization rq) of
             None \<Rightarrow> (Some False, Responds 401)
           | Some u \<Rightarrow> (Some True, app (rq\<lparr>rq_username := Some u\<rparr>)))"

subsection \<open>CSRF\<close>

definition protected_methods :: "string list" where
  "protected_methods = [''POST'', ''PUT'', ''DELETE'', ''PATCH'']"

definition upper :: "string \<Rightarrow> string" where
  "upper s = map (\<lambda>c. if is_lower c then char_of (code_of c - 32) else c) s"

text \<open>
  The comparison of the two tokens: \<open>hmac.compare_digest\<close> raises on text that is not ASCII, which
  is None here.
\<close>

definition is_ascii :: "string \<Rightarrow> bool" where
  "is_ascii s \<longleftrightarrow> list_all (\<lambda>c. code_of c < 128) s"

definition csrf_accepts :: "request \<Rightarrow> bool option" where
  "csrf_accepts rq =
     (if upper (rq_method rq) \<notin> set protected_methods then Some True
      else case (rq_csrf_cookie rq, rq_csrf_header rq) of
             (Some c, Some h) \<Rightarrow> if is_ascii c \<and> is_ascii h then Some (c = h) else None
           | _ \<Rightarrow> Some False)"

definition csrf :: "(request \<Rightarrow> outcome) \<Rightarrow> request \<Rightarrow> outcome" where
  "csrf app rq =
     (if passes_through rq then app rq
      else case csrf_accepts rq of None \<Rightarrow> RaisesError | Some True \<Rightarrow> app rq | Some False \<Rightarrow> Responds 403)"

text \<open>\<open>_generate_token\<close> on the 32 random bytes; a wrong length raises RuntimeError.\<close>

definition generate_token :: "nat list \<Rightarrow> py_error + string" where
  "generate_token random =
     (let token = rev (dropWhile (\<lambda>c. c = CHR ''='') (rev (encode_bytes urlsafe_alphabet random)))
      in if length token \<noteq> 43 then Inl RuntimeError else Inr token)"

end
