(* ===== verification/RateLimit.thy ===== *)
theory RateLimit
  imports Web
begin

section \<open>Limiting authentication attempts\<close>

text \<open>
  \<open>web/rate_limit.py\<close>, and the stack of the four middlewares as \<open>app.py\<close> builds it.

  \<^item> A slot is an object compared by identity: \<open>sl_id\<close> is its identity, drawn from
    \<open>lm_next_slot\<close>. The dict of deques is a map from address to list; an address whose deque
    is empty has no entry.
  \<^item> The bodies under the lock never await, so each of them is one atomic step; the call of the
    middleware is split where it does await: \<open>reserve\<close>, the notification, and the end.
  \<^item> \<open>contains\<close> stands for the membership test of \<open>ipaddress\<close>, False for a text that is no address.
\<close>

record slot =
  sl_id :: nat
  sl_at :: instant

record limiter =
  lm_limit :: nat
  lm_attempts :: "string \<rightharpoonup> slot list"
  lm_next_prune :: instant
  lm_next_slot :: nat

definition new_limiter :: "settings \<Rightarrow> instant \<Rightarrow> limiter" where
  "new_limiter st now =
     \<lparr>lm_limit = nat (st_auth_rate_limit_per_minute st + st_auth_rate_limit_burst st),
      lm_attempts = Map.empty, lm_next_prune = now + sec 60, lm_next_slot = 0\<rparr>"

definition queue :: "limiter \<Rightarrow> string \<Rightarrow> slot list" where
  "queue lm ip = (case lm_attempts lm ip of None \<Rightarrow> [] | Some q \<Rightarrow> q)"

definition evict_expired :: "instant \<Rightarrow> slot list \<Rightarrow> slot list" where
  "evict_expired now q = dropWhile (\<lambda>s. sl_at s \<le> now - sec 60) q"

definition stored :: "slot list \<Rightarrow> slot list option" where
  "stored q = (if q = [] then None else Some q)"

definition prune_expired_attempts :: "instant \<Rightarrow> limiter \<Rightarrow> limiter" where
  "prune_expired_attempts now lm =
     (if now < lm_next_prune lm then lm
      else lm\<lparr>lm_attempts := (\<lambda>ip. case lm_attempts lm ip of
                                 None \<Rightarrow> None | Some q \<Rightarrow> stored (evict_expired now q)),
              lm_next_prune := now + sec 60\<rparr>)"

definition set_queue :: "string \<Rightarrow> slot list \<Rightarrow> limiter \<Rightarrow> limiter" where
  "set_queue ip q lm = lm\<lparr>lm_attempts := (lm_attempts lm)(ip := stored q)\<rparr>"

definition append_slot :: "string \<Rightarrow> instant \<Rightarrow> slot list \<Rightarrow> limiter \<Rightarrow> limiter \<times> slot" where
  "append_slot ip now q lm =
     (let s = \<lparr>sl_id = lm_next_slot lm, sl_at = now\<rparr>
      in ((set_queue ip (q @ [s]) lm)\<lparr>lm_next_slot := lm_next_slot lm + 1\<rparr>, s))"

definition reserve_attempt_slot :: "string \<Rightarrow> instant \<Rightarrow> limiter \<Rightarrow> limiter \<times> slot option" where
  "reserve_attempt_slot ip now lm0 =
     (let lm = prune_expired_attempts now lm0;
          q = evict_expired now (queue lm ip)
      in if length q \<ge> lm_limit lm then (set_queue ip q lm, None)
         else (case append_slot ip now q lm of (lm', s) \<Rightarrow> (lm', Some s)))"

definition release_attempt_slot :: "string \<Rightarrow> slot \<Rightarrow> limiter \<Rightarrow> limiter" where
  "release_attempt_slot ip s lm =
     (case lm_attempts lm ip of
        None \<Rightarrow> lm
      | Some q \<Rightarrow> if s \<in> set q then set_queue ip (remove1 s q) lm else lm)"

definition is_limited :: "string \<Rightarrow> instant \<Rightarrow> limiter \<Rightarrow> limiter \<times> bool" where
  "is_limited ip now lm0 =
     (let lm = prune_expired_attempts now lm0
      in case lm_attempts lm ip of
           None \<Rightarrow> (lm, False)
         | Some q \<Rightarrow>
             (let r = evict_expired now q
              in (set_queue ip r lm, r \<noteq> [] \<and> length r \<ge> lm_limit lm)))"

definition record_failed_attempt :: "string \<Rightarrow> instant \<Rightarrow> limiter \<Rightarrow> limiter" where
  "record_failed_attempt ip now lm0 =
     (let lm = prune_expired_attempts now lm0
      in fst (append_slot ip now (evict_expired now (queue lm ip)) lm))"

subsection \<open>The address an attempt counts against\<close>

text \<open>\<open>str.strip\<close> on latin-1 text.\<close>

definition is_space_latin :: "char \<Rightarrow> bool" where
  "is_space_latin c \<longleftrightarrow> is_space c \<or> code_of c = 133 \<or> code_of c = 160"

definition strip_latin :: "string \<Rightarrow> string" where
  "strip_latin s = rev (dropWhile is_space_latin (rev (dropWhile is_space_latin s)))"

definition is_trusted_proxy_peer :: "(string \<Rightarrow> string \<Rightarrow> bool) \<Rightarrow> string list \<Rightarrow> string \<Rightarrow> bool" where
  "is_trusted_proxy_peer contains networks peer \<longleftrightarrow> list_ex (\<lambda>n. contains n peer) networks"

definition client_ip :: "(string \<Rightarrow> string \<Rightarrow> bool) \<Rightarrow> string list \<Rightarrow> request \<Rightarrow> string" where
  "client_ip contains networks rq =
     (case rq_forwarded_for rq of
        None \<Rightarrow> rq_peer rq
      | Some h \<Rightarrow>
          if is_trusted_proxy_peer contains networks (rq_peer rq)
          then (case List.find (\<lambda>e. e \<noteq> []) (rev (map strip_latin (split_on CHR '','' h))) of
                  Some e \<Rightarrow> e | None \<Rightarrow> rq_peer rq)
          else rq_peer rq)"

subsection \<open>The call\<close>

definition notify_auth_result :: "string \<Rightarrow> slot \<Rightarrow> bool \<Rightarrow> limiter \<Rightarrow> limiter" where
  "notify_auth_result ip s credentials_valid lm =
     (if credentials_valid then release_attempt_slot ip s lm else lm)"

text \<open>The end of the call, after a response, an exception or a cancellation.\<close>

definition finish_attempt :: "string \<Rightarrow> slot \<Rightarrow> bool \<Rightarrow> outcome \<Rightarrow> limiter \<Rightarrow> limiter" where
  "finish_attempt ip s auth_result_received out lm =
     (if \<not> auth_result_received \<and> out \<noteq> Responds 401 then release_attempt_slot ip s lm else lm)"

definition auth_rate_limit ::
  "(string \<Rightarrow> string \<Rightarrow> bool) \<Rightarrow> string list \<Rightarrow> instant \<Rightarrow> (request \<Rightarrow> bool option \<times> outcome) \<Rightarrow> request \<Rightarrow>
   limiter \<Rightarrow> limiter \<times> outcome" where
  "auth_rate_limit contains networks now app rq lm =
     (if passes_through rq then (lm, snd (app rq))
      else let ip = client_ip contains networks rq
           in case reserve_attempt_slot ip now lm of
                (lm1, None) \<Rightarrow> (lm1, Responds 429)
              | (lm1, Some s) \<Rightarrow>
                  (case app rq of (note, out) \<Rightarrow>
                     (let lm2 = (case note of None \<Rightarrow> lm1 | Some v \<Rightarrow> notify_auth_result ip s v lm1)
                      in (finish_attempt ip s (note \<noteq> None) out lm2, out))))"

record gate =
  gt_contains :: "string \<Rightarrow> string \<Rightarrow> bool"
  gt_networks :: "string list"
  gt_checkpw :: "string \<Rightarrow> string \<Rightarrow> bcrypt_result"
  gt_admin :: admin

definition serve :: "gate \<Rightarrow> instant \<Rightarrow> (request \<Rightarrow> outcome) \<Rightarrow> request \<Rightarrow> limiter \<Rightarrow> limiter \<times> outcome" where
  "serve g now app rq lm =
     auth_rate_limit (gt_contains g) (gt_networks g) now
       (basic_auth (gt_checkpw g) (gt_admin g) (csrf app)) (forwarded_prefix rq) lm"

subsection \<open>Interleaved requests\<close>

text \<open>
  A run of the limiter with any number of requests in flight. \<open>rn_refused\<close> records every attempt
  whose credentials were refused, with its slot; it is not read by any step.
\<close>

record flight =
  fl_ip :: string
  fl_slot :: slot
  fl_answered :: bool

record run =
  rn_now :: instant
  rn_limiter :: limiter
  rn_flights :: "flight list"
  rn_refused :: "(string \<times> slot) list"

definition answered :: "flight \<Rightarrow> flight list \<Rightarrow> flight list" where
  "answered f fs = map (\<lambda>g. if g = f then g\<lparr>fl_answered := True\<rparr> else g) fs"

inductive gate_step :: "run \<Rightarrow> run \<Rightarrow> bool" where
  Passes: "rn_now r \<le> t \<Longrightarrow> gate_step r (r\<lparr>rn_now := t\<rparr>)"
| Arrives: "reserve_attempt_slot ip (rn_now r) (rn_limiter r) = (lm, Some s) \<Longrightarrow>
    gate_step r (r\<lparr>rn_limiter := lm, rn_flights := rn_flights r @ [\<lparr>fl_ip = ip, fl_slot = s, fl_answered = False\<rparr>]\<rparr>)"
| TurnedAway: "reserve_attempt_slot ip (rn_now r) (rn_limiter r) = (lm, None) \<Longrightarrow>
    gate_step r (r\<lparr>rn_limiter := lm\<rparr>)"
| Accepted: "f \<in> set (rn_flights r) \<Longrightarrow> \<not> fl_answered f \<Longrightarrow>
    gate_step r (r\<lparr>rn_limiter := notify_auth_result (fl_ip f) (fl_slot f) True (rn_limiter r),
                   rn_flights := answered f (rn_flights r)\<rparr>)"
| Refused: "f \<in> set (rn_flights r) \<Longrightarrow> \<not> fl_answered f \<Longrightarrow>
    gate_step r (r\<lparr>rn_limiter := notify_auth_result (fl_ip f) (fl_slot f) False (rn_limiter r),
                   rn_flights := answered f (rn_flights r),
                   rn_refused := rn_refused r @ [(fl_ip f, fl_slot f)]\<rparr>)"
| Ends: "f \<in> set (rn_flights r) \<Longrightarrow>
    gate_step r (r\<lparr>rn_limiter := finish_attempt (fl_ip f) (fl_slot f) (fl_answered f) out (rn_limiter r),
                   rn_flights := remove1 f (rn_flights r)\<rparr>)"

definition start_run :: "settings \<Rightarrow> instant \<Rightarrow> run" where
  "start_run st now = \<lparr>rn_now = now, rn_limiter = new_limiter st now, rn_flights = [], rn_refused = []\<rparr>"

inductive gate_run :: "settings \<Rightarrow> instant \<Rightarrow> run \<Rightarrow> bool" for st t0 where
  Start: "gate_run st t0 (start_run st t0)"
| Step: "gate_run st t0 r \<Longrightarrow> gate_step r r' \<Longrightarrow> gate_run st t0 r'"

inductive_cases gate_stepE: "gate_step r r'"

subsection \<open>Queues\<close>

lemma queue_set_queue [simp]: "queue (set_queue ip q lm) i = (if i = ip then q else queue lm i)"
  by (simp add: queue_def set_queue_def stored_def)

lemma set_queue_fields [simp]:
  "lm_limit (set_queue ip q lm) = lm_limit lm" "lm_next_slot (set_queue ip q lm) = lm_next_slot lm"
  by (simp_all add: set_queue_def)

lemma queue_update_next [simp]: "queue (lm\<lparr>lm_next_slot := n\<rparr>) ip = queue lm ip"
  by (simp add: queue_def)

lemma prune_fields [simp]:
  "lm_limit (prune_expired_attempts now lm) = lm_limit lm"
  "lm_next_slot (prune_expired_attempts now lm) = lm_next_slot lm"
  by (simp_all add: prune_expired_attempts_def)

lemma queue_prune:
  "queue (prune_expired_attempts now lm) ip = queue lm ip \<or>
   queue (prune_expired_attempts now lm) ip = evict_expired now (queue lm ip)"
  by (cases "lm_attempts lm ip")
    (simp_all add: prune_expired_attempts_def queue_def stored_def split: if_split)

lemma evict_idem [simp]: "evict_expired now (evict_expired now q) = evict_expired now q"
  by (simp add: evict_expired_def dropWhile_idem)

lemma evict_prune [simp]:
  "evict_expired now (queue (prune_expired_attempts now lm) ip) = evict_expired now (queue lm ip)"
  using queue_prune [of now lm ip] by auto

lemma evict_subset: "set (evict_expired now q) \<subseteq> set q"
  by (auto simp: evict_expired_def dest: set_dropWhileD)

lemma evict_keeps: "s \<in> set q \<Longrightarrow> now - sec 60 < sl_at s \<Longrightarrow> s \<in> set (evict_expired now q)"
  by (induction q) (auto simp: evict_expired_def)

lemma prune_keeps:
  "s \<in> set (queue lm ip) \<Longrightarrow> now - sec 60 < sl_at s \<Longrightarrow> s \<in> set (queue (prune_expired_attempts now lm) ip)"
  using queue_prune [of now lm ip] evict_keeps by metis

lemma prune_subset: "set (queue (prune_expired_attempts now lm) ip) \<subseteq> set (queue lm ip)"
  using queue_prune [of now lm ip] evict_subset [of now "queue lm ip"] by auto

lemma queue_release:
  "queue (release_attempt_slot ip s lm) i = (if i = ip then remove1 s (queue lm i) else queue lm i)"
  by (auto simp: release_attempt_slot_def queue_def set_queue_def stored_def remove1_idem split: option.splits)

lemma release_fields [simp]:
  "lm_limit (release_attempt_slot ip s lm) = lm_limit lm"
  "lm_next_slot (release_attempt_slot ip s lm) = lm_next_slot lm"
  by (simp_all add: release_attempt_slot_def split: option.splits)

lemma reserve_SomeD:
  assumes "reserve_attempt_slot ip now lm = (lm', Some s)"
  shows "s = \<lparr>sl_id = lm_next_slot lm, sl_at = now\<rparr>"
    and "lm_limit lm' = lm_limit lm" and "lm_next_slot lm' = Suc (lm_next_slot lm)"
    and "queue lm' ip = evict_expired now (queue lm ip) @ [s]"
    and "i \<noteq> ip \<Longrightarrow> queue lm' i = queue (prune_expired_attempts now lm) i"
    and "length (evict_expired now (queue lm ip)) < lm_limit lm"
  using assms by (auto simp: reserve_attempt_slot_def append_slot_def Let_def split: if_splits)

lemma reserve_NoneD:
  assumes "reserve_attempt_slot ip now lm = (lm', None)"
  shows "lm_limit lm' = lm_limit lm" and "lm_next_slot lm' = lm_next_slot lm"
    and "queue lm' ip = evict_expired now (queue lm ip)"
    and "i \<noteq> ip \<Longrightarrow> queue lm' i = queue (prune_expired_attempts now lm) i"
  using assms by (auto simp: reserve_attempt_slot_def append_slot_def Let_def split: if_splits)

lemma reserve_granted_iff:
  "snd (reserve_attempt_slot ip now lm) \<noteq> None \<longleftrightarrow>
   length (evict_expired now (queue lm ip)) < lm_limit lm"
  by (simp add: reserve_attempt_slot_def append_slot_def Let_def)

end
