(* ===== verification/WebProps.thy ===== *)
theory WebProps
  imports RateLimit
begin

section \<open>What the web gates guarantee\<close>

text \<open>
  Base64 inverts its encoder, so exactly the administrator's credentials pass; whoever is refused
  never reaches the routes; and the limiter bounds the guesses of an address whatever the
  interleaving of its requests, while valid credentials cost nothing.
\<close>

subsection \<open>Base64\<close>

lemma index_of_nth: "distinct abc \<Longrightarrow> i < length abc \<Longrightarrow> index_of (abc ! i) abc = Some i"
proof (induction abc arbitrary: i)
  case (Cons c abc)
  then show ?case by (cases i) (auto simp: nth_mem)
qed simp

lemma index_of_None: "c \<notin> set abc \<Longrightarrow> index_of c abc = None"
  by (induction abc) auto

lemma base64_alphabet_facts:
  "distinct base64_alphabet" "length base64_alphabet = 64" "CHR ''='' \<notin> set base64_alphabet"
  by (simp_all add: base64_alphabet_def)

lemma urlsafe_alphabet_facts:
  "distinct urlsafe_alphabet" "length urlsafe_alphabet = 64" "CHR ''='' \<notin> set urlsafe_alphabet"
  by (simp_all add: urlsafe_alphabet_def)

lemma index_of_base64 [simp]:
  "i < 64 \<Longrightarrow> index_of (base64_alphabet ! i) base64_alphabet = Some i"
  "index_of CHR ''='' base64_alphabet = None"
  by (simp_all add: index_of_nth index_of_None base64_alphabet_facts)

lemma byte_digits:
  "a < (256::nat) \<Longrightarrow> a div 4 < 64" "b < (256::nat) \<Longrightarrow> b div 16 < 16" "c < (256::nat) \<Longrightarrow> c div 64 < 4"
  by (simp_all add: less_mult_imp_div_less)

lemma byte_pieces:
  "a mod 4 * 16 < (64::nat)" "b < 256 \<Longrightarrow> a mod 4 * 16 + b div 16 < (64::nat)"
  "b mod 16 * 4 < (64::nat)" "c < 256 \<Longrightarrow> b mod 16 * 4 + c div 64 < (64::nat)" "c mod 64 < (64::nat)"
proof -
  have "a mod 4 < 4" and "b mod 16 < 16" by simp_all
  then show "a mod 4 * 16 < 64" and "b mod 16 * 4 < 64"
    and "b < 256 \<Longrightarrow> a mod 4 * 16 + b div 16 < 64" and "c < 256 \<Longrightarrow> b mod 16 * 4 + c div 64 < 64"
    using byte_digits(2) [of b] byte_digits(3) [of c] by linarith+
qed simp

lemma decode_encode:
  "list_all (\<lambda>b. b < 256) bs \<Longrightarrow> decode_base64 (encode_bytes base64_alphabet bs) = Some bs"
  by (induction base64_alphabet bs rule: encode_bytes.induct)
    (simp_all add: byte_digits byte_pieces Let_def)

lemma encode_chars:
  assumes "length abc = 64" and "list_all (\<lambda>b. b < 256) bs"
  shows "set (encode_bytes abc bs) \<subseteq> insert CHR ''='' (set abc)"
  using assms by (induction abc bs rule: encode_bytes.induct) (simp_all add: byte_digits byte_pieces subset_eq)

lemma basic_token_encode:
  assumes "bs \<noteq> []" and "list_all (\<lambda>b. b < 256) bs"
  shows "basic_token_ok (encode_bytes base64_alphabet bs)"
proof -
  have "list_all (\<lambda>c. is_alpha c \<or> is_digit c \<or> c \<in> set ''+/='') base64_alphabet"
    unfolding base64_alphabet_def by code_simp
  moreover have "encode_bytes base64_alphabet bs \<noteq> []"
    using assms(1) by (cases "(base64_alphabet, bs)" rule: encode_bytes.cases) auto
  ultimately show ?thesis
    using encode_chars [OF base64_alphabet_facts(2) assms(2)]
    unfolding basic_token_ok_def list_all_iff by fastforce
qed

lemma split_once_append:
  assumes "d \<notin> set a"
  shows "split_once d (a @ d # b) = Some (a, b)"
proof -
  have "takeWhile (\<lambda>c. c \<noteq> d) (a @ d # b) = a" and "dropWhile (\<lambda>c. c \<noteq> d) (a @ d # b) = d # b"
    using assms by (induction a) auto
  then show ?thesis by (simp add: split_once_def)
qed

lemma map_char_of_code_of: "map char_of (map code_of s) = s"
  by (induction s) (simp_all add: code_of_def)

lemma code_of_bytes: "list_all (\<lambda>b. b < 256) (map code_of s)"
  by (simp add: list_all_iff code_of_def)

subsection \<open>Credentials\<close>

lemma basic_scheme_no_space: "py_lower scheme = ''basic'' \<Longrightarrow> CHR '' '' \<notin> set scheme"
proof
  assume lower: "py_lower scheme = ''basic''" and "CHR '' '' \<in> set scheme"
  then have "lower_char CHR '' '' \<in> set ''basic''" unfolding lower [symmetric] py_lower_def by simp
  moreover have "lower_char CHR '' '' = CHR '' ''" by code_simp
  ultimately show False by simp
qed

definition basic_header :: "string \<Rightarrow> string \<Rightarrow> string \<Rightarrow> string" where
  "basic_header scheme username password =
     scheme @ '' '' @ encode_bytes base64_alphabet (map code_of (username @ '':'' @ password))"

text \<open>The header a client builds from a name and a password, in any spelling of the scheme,
  is read back exactly: the request is authenticated, as that name, when the name is the
  administrator's and \<open>bcrypt\<close> accepts the password, and refused otherwise.\<close>

theorem credentials_read_back:
  assumes "py_lower scheme = ''basic''"
    and "CHR '':'' \<notin> set username"
    and "utf8_ok (map code_of (username @ '':'' @ password))"
  shows "verified_username checkpw ad (Some (basic_header scheme username password)) =
    (if username = ad_username ad \<and> checkpw password (ad_password_hash ad) = Matches then Some username else None)"
proof -
  let ?bytes = "map code_of (username @ '':'' @ password)"
  have "split_once CHR '' '' (basic_header scheme username password) = Some (scheme, encode_bytes base64_alphabet ?bytes)"
    using split_once_append [OF basic_scheme_no_space [OF assms(1)]] by (simp add: basic_header_def)
  moreover have "basic_token_ok (encode_bytes base64_alphabet ?bytes)"
    by (rule basic_token_encode [OF _ code_of_bytes]) simp
  moreover have "decode_credentials (encode_bytes base64_alphabet ?bytes) = Some (username, password)"
    unfolding decode_credentials_def decode_encode [OF code_of_bytes] option.case map_char_of_code_of
    using assms(3) split_once_append [OF assms(2), of password] by simp
  ultimately show ?thesis
    using assms(1) by (simp add: verified_username_def split: bcrypt_result.split)
qed

theorem credentials_read_back_witness:
  "verified_username (\<lambda>p h. if p = ''s3cret:x'' then Matches else Differs)
     \<lparr>ad_username = ''admin'', ad_password_hash = ''hash''\<rparr>
     (Some (basic_header ''BASIC'' ''admin'' ''s3cret:x'')) = Some ''admin''"
proof -
  have "py_lower ''BASIC'' = ''basic''" by code_simp
  moreover have "utf8_ok (map code_of (''admin'' @ '':'' @ ''s3cret:x''))" by code_simp
  ultimately show ?thesis
    by (subst credentials_read_back) simp_all
qed

text \<open>C12. A request that is neither whitelisted nor carries the administrator's credentials never
  reaches the routes: it is answered 401 or 429, and both the answer and the limiter afterwards
  are the same whatever the routes would have done.\<close>

theorem unauthenticated_never_served:
  assumes "\<not> passes_through rq"
    and "verified_username (gt_checkpw g) (gt_admin g) (rq_authorization rq) = None"
  shows "snd (serve g now app rq lm) \<in> {Responds 401, Responds 429} \<and> serve g now app rq lm = serve g now app' rq lm"
proof -
  have same: "passes_through (forwarded_prefix rq) = passes_through rq"
      "rq_authorization (forwarded_prefix rq) = rq_authorization rq"
    by (simp_all add: forwarded_prefix_def passes_through_def split: option.split)
  have "basic_auth (gt_checkpw g) (gt_admin g) (csrf a) (forwarded_prefix rq) = (Some False, Responds 401)" for a
    using assms by (simp add: basic_auth_def same)
  with assms(1) show ?thesis
    by (simp add: serve_def auth_rate_limit_def same Let_def split: prod.split option.split)
qed

definition sample_gate :: gate where
  "sample_gate =
     \<lparr>gt_contains = (\<lambda>n p. n = p), gt_networks = [''10.0.0.1''],
      gt_checkpw = (\<lambda>p h. if p = ''pw'' then Matches else Differs),
      gt_admin = \<lparr>ad_username = ''admin'', ad_password_hash = ''hash''\<rparr>\<rparr>"

definition sample_request :: "string option \<Rightarrow> request" where
  "sample_request authorization =
     \<lparr>rq_http = True, rq_path = ''/drives'', rq_method = ''GET'', rq_peer = ''192.0.2.7'',
      rq_authorization = authorization, rq_forwarded_for = None, rq_forwarded_prefix = None,
      rq_csrf_header = None, rq_csrf_cookie = None, rq_root_path = '''', rq_username = None\<rparr>"

definition sample_limiter :: "nat \<Rightarrow> limiter" where
  "sample_limiter n = \<lparr>lm_limit = n, lm_attempts = Map.empty, lm_next_prune = sec 60, lm_next_slot = 0\<rparr>"

theorem unauthenticated_never_served_witness:
  "serve sample_gate 0 (\<lambda>_. Responds 200) (sample_request (Some ''Basic !'')) (sample_limiter 3) =
   serve sample_gate 0 (\<lambda>_. RaisesError) (sample_request (Some ''Basic !'')) (sample_limiter 3)"
proof -
  have "\<not> passes_through (sample_request (Some ''Basic !''))" by code_simp
  moreover have "verified_username (gt_checkpw sample_gate) (gt_admin sample_gate)
      (rq_authorization (sample_request (Some ''Basic !''))) = None" by code_simp
  ultimately show ?thesis using unauthenticated_never_served by blast
qed

subsection \<open>The limiter\<close>

definition in_window :: "instant \<Rightarrow> slot \<Rightarrow> bool" where
  "in_window t s \<longleftrightarrow> t - sec 60 < sl_at s \<and> sl_at s \<le> t"

text \<open>
  The attempts an address is charged for: those refused and those not answered yet. Each of them
  is still in the queue while it is younger than the window, so the queue bounds their number.
\<close>

definition charged_well :: "nat \<Rightarrow> instant \<Rightarrow> limiter \<Rightarrow> (string \<times> slot) set \<Rightarrow> bool" where
  "charged_well n now lm W \<longleftrightarrow>
     finite W \<and> lm_limit lm = n \<and>
     (\<forall>p \<in> W. sl_at (snd p) \<le> now \<and> sl_id (snd p) < lm_next_slot lm \<and>
        (now - sec 60 < sl_at (snd p) \<longrightarrow> snd p \<in> set (queue lm (fst p)))) \<and>
     (\<forall>ip t. card {p \<in> W. fst p = ip \<and> in_window t (snd p)} \<le> n) \<and>
     (\<forall>ip. \<forall>s \<in> set (queue lm ip). sl_at s \<le> now \<and> sl_id s < lm_next_slot lm)"

lemma charged_shrinks:
  assumes "charged_well n now lm W" and "W' \<subseteq> W" and "now \<le> now'"
    and "lm_limit lm' = lm_limit lm" and "lm_next_slot lm' = lm_next_slot lm"
    and "\<And>ip. set (queue lm' ip) \<subseteq> set (queue lm ip)"
    and "\<And>ip s. (ip, s) \<in> W' \<Longrightarrow> now' - sec 60 < sl_at s \<Longrightarrow> s \<in> set (queue lm ip) \<Longrightarrow> s \<in> set (queue lm' ip)"
  shows "charged_well n now' lm' W'"
  unfolding charged_well_def
proof (intro conjI allI ballI impI)
  show "finite W'" using assms(1, 2) finite_subset by (auto simp: charged_well_def)
  show "lm_limit lm' = n" using assms(1, 4) by (simp add: charged_well_def)
  fix p assume p: "p \<in> W'"
  then have pW: "sl_at (snd p) \<le> now" "sl_id (snd p) < lm_next_slot lm"
      "now - sec 60 < sl_at (snd p) \<longrightarrow> snd p \<in> set (queue lm (fst p))"
    using assms(1, 2) by (auto simp: charged_well_def)
  show "sl_at (snd p) \<le> now'" using pW(1) assms(3) by simp
  show "sl_id (snd p) < lm_next_slot lm'" using pW(2) assms(5) by simp
  assume live: "now' - sec 60 < sl_at (snd p)"
  then have "snd p \<in> set (queue lm (fst p))" using pW(3) assms(3) by simp
  then show "snd p \<in> set (queue lm' (fst p))" using assms(7) [of "fst p" "snd p"] p live by simp
next
  fix ip t
  have "card {p \<in> W'. fst p = ip \<and> in_window t (snd p)} \<le> card {p \<in> W. fst p = ip \<and> in_window t (snd p)}"
    using assms(1, 2) by (intro card_mono) (auto simp: charged_well_def)
  also have "\<dots> \<le> n" using assms(1) by (simp add: charged_well_def)
  finally show "card {p \<in> W'. fst p = ip \<and> in_window t (snd p)} \<le> n" .
next
  fix ip s assume "s \<in> set (queue lm' ip)"
  then have "s \<in> set (queue lm ip)" using assms(6) by blast
  then have "sl_at s \<le> now \<and> sl_id s < lm_next_slot lm" using assms(1) by (simp add: charged_well_def)
  then show "sl_at s \<le> now'" and "sl_id s < lm_next_slot lm'" using assms(3, 5) by simp_all
qed

lemma charged_reserve:
  assumes well: "charged_well n now lm W" and reserve: "reserve_attempt_slot ip now lm = (lm', Some s)"
  shows "charged_well n now lm' (insert (ip, s) W)"
  unfolding charged_well_def
proof (intro conjI allI ballI impI)
  note got = reserve_SomeD [OF reserve]
  show "finite (insert (ip, s) W)" and "lm_limit lm' = n"
    using well got(2) by (simp_all add: charged_well_def)
  fix p assume p: "p \<in> insert (ip, s) W"
  show "sl_at (snd p) \<le> now" and "sl_id (snd p) < lm_next_slot lm'"
    using p well by (auto simp: charged_well_def got(1, 3) intro: less_SucI)
  assume live: "now - sec 60 < sl_at (snd p)"
  show "snd p \<in> set (queue lm' (fst p))"
  proof (cases "p = (ip, s)")
    case False
    then have "snd p \<in> set (queue lm (fst p))" using p well live by (simp add: charged_well_def)
    then show ?thesis
      using evict_keeps prune_keeps live got(4) got(5) [of "fst p"] by (cases "fst p = ip") auto
  qed (simp add: got(4))
next
  note got = reserve_SomeD [OF reserve]
  fix i t
  let ?in = "\<lambda>V :: (string \<times> slot) set. {p \<in> V. fst p = i \<and> in_window t (snd p)}"
  have fin: "finite W" and old: "card (?in W) \<le> n" using well by (simp_all add: charged_well_def)
  show "card (?in (insert (ip, s) W)) \<le> n"
  proof (cases "i = ip \<and> now \<le> t")
    case True
    have "snd ` ?in W \<subseteq> set (evict_expired now (queue lm ip))"
    proof
      fix x assume "x \<in> snd ` ?in W"
      then have "(ip, x) \<in> W" and "in_window t x" using True by auto
      then have "now - sec 60 < sl_at x" using True by (simp add: in_window_def)
      moreover have "x \<in> set (queue lm ip)"
        using well \<open>(ip, x) \<in> W\<close> calculation by (fastforce simp: charged_well_def)
      ultimately show "x \<in> set (evict_expired now (queue lm ip))" by (rule evict_keeps [rotated])
    qed
    then have "card (snd ` ?in W) \<le> length (evict_expired now (queue lm ip))"
      by (meson List.finite_set card_length card_mono le_trans)
    moreover have "card (snd ` ?in W) = card (?in W)"
      by (rule card_image) (auto simp: inj_on_def prod_eq_iff)
    ultimately have "card (?in W) < n" using got(6) well by (simp add: charged_well_def)
    moreover have "card (?in (insert (ip, s) W)) \<le> card (insert (ip, s) (?in W))"
      using fin by (intro card_mono) auto
    moreover have "card (insert (ip, s) (?in W)) \<le> Suc (card (?in W))"
      using fin by (simp add: card_insert_if)
    ultimately show ?thesis by linarith
  next
    case False
    then have "?in (insert (ip, s) W) = ?in W" by (auto simp: got(1) in_window_def)
    then show ?thesis using old by simp
  qed
next
  note got = reserve_SomeD [OF reserve]
  fix i x assume x: "x \<in> set (queue lm' i)"
  then have "x = s \<or> x \<in> set (queue lm i)"
    using got(4) got(5) [of i] evict_subset prune_subset by (cases "i = ip") fastforce+
  then have "x = s \<or> sl_at x \<le> now \<and> sl_id x < lm_next_slot lm" using well by (auto simp: charged_well_def)
  then show "sl_at x \<le> now" and "sl_id x < lm_next_slot lm'" by (auto simp: got(1, 3))
qed

text \<open>The invariant of a run.\<close>

definition charges :: "run \<Rightarrow> (string \<times> slot) set" where
  "charges r = set (rn_refused r) \<union> (\<lambda>f. (fl_ip f, fl_slot f)) ` {f \<in> set (rn_flights r). \<not> fl_answered f}"

definition run_ok :: "nat \<Rightarrow> run \<Rightarrow> bool" where
  "run_ok n r \<longleftrightarrow>
     charged_well n (rn_now r) (rn_limiter r) (charges r) \<and>
     distinct (map fl_slot (rn_flights r)) \<and> distinct (rn_refused r) \<and>
     (\<forall>f \<in> set (rn_flights r). sl_id (fl_slot f) < lm_next_slot (rn_limiter r)) \<and>
     (\<forall>f \<in> set (rn_flights r). \<not> fl_answered f \<longrightarrow> fl_slot f \<notin> snd ` set (rn_refused r))"

lemma slots_answered [simp]: "map fl_slot (answered f fs) = map fl_slot fs"
  by (simp add: answered_def)

lemma open_answered:
  assumes "g \<in> set (answered f fs)" and "\<not> fl_answered g"
  shows "g \<in> set fs \<and> g \<noteq> f"
proof -
  obtain h where h: "h \<in> set fs" "g = (if h = f then h\<lparr>fl_answered := True\<rparr> else h)"
    using assms(1) by (auto simp: answered_def)
  with assms(2) have "h \<noteq> f" by auto
  with h show ?thesis by simp
qed

lemma slot_in_answered: "g \<in> set (answered f fs) \<Longrightarrow> fl_slot g \<in> fl_slot ` set fs"
  by (auto simp: answered_def split: if_splits)

lemma same_slot: "distinct (map fl_slot fs) \<Longrightarrow> f \<in> set fs \<Longrightarrow> g \<in> set fs \<Longrightarrow> fl_slot f = fl_slot g \<Longrightarrow> f = g"
  by (auto simp: distinct_map dest: inj_onD)

lemma released_is_not_charged:
  assumes ok: "run_ok n r" and f: "f \<in> set (rn_flights r)" "\<not> fl_answered f"
    and s: "(ip, s) \<in> set (rn_refused r) \<union> (\<lambda>g. (fl_ip g, fl_slot g)) ` {g \<in> set (rn_flights r). \<not> fl_answered g \<and> g \<noteq> f}"
  shows "s \<noteq> fl_slot f"
proof (cases "(ip, s) \<in> set (rn_refused r)")
  case True
  then have "s \<in> snd ` set (rn_refused r)" by force
  moreover have "fl_slot f \<notin> snd ` set (rn_refused r)" using ok f unfolding run_ok_def by blast
  ultimately show ?thesis by metis
next
  case False
  then obtain g where "g \<in> set (rn_flights r)" "g \<noteq> f" "s = fl_slot g" using s by auto
  then show ?thesis using ok f(1) same_slot [of "rn_flights r" f g] by (auto simp: run_ok_def)
qed

lemma release_keeps_others:
  "s \<noteq> s' \<Longrightarrow> s \<in> set (queue lm ip) \<Longrightarrow> s \<in> set (queue (release_attempt_slot i s' lm) ip)"
  by (cases "ip = i") (simp_all add: queue_release)

lemma release_subset: "set (queue (release_attempt_slot i s lm) ip) \<subseteq> set (queue lm ip)"
  by (cases "ip = i") (simp_all add: queue_release set_remove1_subset)

lemma run_ok_release:
  assumes ok: "run_ok n r" and f: "f \<in> set (rn_flights r)" "\<not> fl_answered f"
    and fs: "{g \<in> set fs. \<not> fl_answered g} \<subseteq> {g \<in> set (rn_flights r). \<not> fl_answered g \<and> g \<noteq> f}"
      "distinct (map fl_slot fs)" "fl_slot ` set fs \<subseteq> fl_slot ` set (rn_flights r)"
    and lm: "lm = release_attempt_slot (fl_ip f) (fl_slot f) (rn_limiter r)"
  shows "run_ok n (r\<lparr>rn_limiter := lm, rn_flights := fs\<rparr>)"
proof -
  have "charged_well n (rn_now r) lm (charges (r\<lparr>rn_limiter := lm, rn_flights := fs\<rparr>))"
  proof (rule charged_shrinks)
    show "charged_well n (rn_now r) (rn_limiter r) (charges r)" using ok by (simp add: run_ok_def)
    show "charges (r\<lparr>rn_limiter := lm, rn_flights := fs\<rparr>) \<subseteq> charges r" using fs(1) by (auto simp: charges_def)
    fix ip s
    assume "(ip, s) \<in> charges (r\<lparr>rn_limiter := lm, rn_flights := fs\<rparr>)" and "s \<in> set (queue (rn_limiter r) ip)"
    moreover have "charges (r\<lparr>rn_limiter := lm, rn_flights := fs\<rparr>) \<subseteq> set (rn_refused r) \<union>
        (\<lambda>g. (fl_ip g, fl_slot g)) ` {g \<in> set (rn_flights r). \<not> fl_answered g \<and> g \<noteq> f}"
      using fs(1) unfolding charges_def by auto
    ultimately have "s \<noteq> fl_slot f" and "s \<in> set (queue (rn_limiter r) ip)"
      using released_is_not_charged [OF ok f, of ip s] by blast+
    then show "s \<in> set (queue lm ip)" by (simp add: lm release_keeps_others)
  qed (simp_all add: lm release_subset)
  moreover have "\<forall>g \<in> set fs. sl_id (fl_slot g) < lm_next_slot (rn_limiter r)"
    using ok fs(3) unfolding run_ok_def by (metis (no_types, lifting) image_eqI image_iff subsetD)
  moreover have "\<forall>g \<in> set fs. \<not> fl_answered g \<longrightarrow> fl_slot g \<notin> snd ` set (rn_refused r)"
    using ok fs(1) unfolding run_ok_def by blast
  ultimately show ?thesis using ok fs(2) by (simp add: run_ok_def lm)
qed

lemma run_ok_other_limiter:
  assumes "run_ok n r" and "rn_now r \<le> t" and "lm_limit lm = lm_limit (rn_limiter r)"
    and "lm_next_slot lm = lm_next_slot (rn_limiter r)"
    and "\<And>ip. set (queue lm ip) \<subseteq> set (queue (rn_limiter r) ip)"
    and "\<And>ip s. s \<in> set (queue (rn_limiter r) ip) \<Longrightarrow> t - sec 60 < sl_at s \<Longrightarrow> s \<in> set (queue lm ip)"
  shows "run_ok n (r\<lparr>rn_now := t, rn_limiter := lm\<rparr>)"
proof -
  have "charged_well n t lm (charges r)"
    by (rule charged_shrinks [of n "rn_now r" "rn_limiter r" "charges r"])
      (use assms in \<open>simp_all add: run_ok_def\<close>)
  then show ?thesis using assms(1, 4) by (simp add: run_ok_def charges_def)
qed

lemma run_ok_fewer_flights:
  assumes ok: "run_ok n r" and f: "f \<in> set (rn_flights r)"
  shows "run_ok n (r\<lparr>rn_flights := remove1 f (rn_flights r)\<rparr>)"
proof -
  let ?r = "r\<lparr>rn_flights := remove1 f (rn_flights r)\<rparr>"
  have fs: "set (remove1 f (rn_flights r)) \<subseteq> set (rn_flights r)" by (rule set_remove1_subset)
  have "charged_well n (rn_now r) (rn_limiter r) (charges ?r)"
  proof (rule charged_shrinks)
    show "charged_well n (rn_now r) (rn_limiter r) (charges r)" using ok by (simp add: run_ok_def)
    show "charges ?r \<subseteq> charges r" using fs by (auto simp: charges_def)
  qed simp_all
  moreover have "distinct (map fl_slot (remove1 f (rn_flights r)))"
    using ok distinct_remove1 fs by (auto simp: run_ok_def distinct_map dest: inj_on_subset)
  ultimately show ?thesis using ok fs by (auto simp: run_ok_def)
qed

lemma run_ok_refuse:
  assumes ok: "run_ok n r" and f: "f \<in> set (rn_flights r)" "\<not> fl_answered f"
  shows "run_ok n (r\<lparr>rn_flights := answered f (rn_flights r), rn_refused := rn_refused r @ [(fl_ip f, fl_slot f)]\<rparr>)"
proof -
  let ?r = "r\<lparr>rn_flights := answered f (rn_flights r), rn_refused := rn_refused r @ [(fl_ip f, fl_slot f)]\<rparr>"
  have open_flights: "\<And>g. g \<in> set (answered f (rn_flights r)) \<Longrightarrow> \<not> fl_answered g \<Longrightarrow>
      g \<in> set (rn_flights r) \<and> fl_slot g \<noteq> fl_slot f"
    using open_answered ok f(1) same_slot [of "rn_flights r"] unfolding run_ok_def by blast
  have "charged_well n (rn_now r) (rn_limiter r) (charges ?r)"
  proof (rule charged_shrinks)
    show "charged_well n (rn_now r) (rn_limiter r) (charges r)" using ok by (simp add: run_ok_def)
    show "charges ?r \<subseteq> charges r" using f open_answered [of _ f "rn_flights r"] by (auto simp: charges_def)
  qed simp_all
  moreover have "\<forall>g \<in> set (answered f (rn_flights r)). sl_id (fl_slot g) < lm_next_slot (rn_limiter r)"
    using ok slot_in_answered unfolding run_ok_def by fastforce
  moreover have "(fl_ip f, fl_slot f) \<notin> set (rn_refused r)"
    using ok f unfolding run_ok_def by force
  ultimately show ?thesis
    using ok open_flights unfolding run_ok_def by auto
qed

lemma run_ok_arrive:
  assumes ok: "run_ok n r" and got: "reserve_attempt_slot ip (rn_now r) (rn_limiter r) = (lm, Some s)"
  shows "run_ok n (r\<lparr>rn_limiter := lm, rn_flights := rn_flights r @ [\<lparr>fl_ip = ip, fl_slot = s, fl_answered = False\<rparr>]\<rparr>)"
    (is "run_ok n ?r")
proof -
  note new = reserve_SomeD [OF got]
  have "{f \<in> set (rn_flights ?r). \<not> fl_answered f} =
      insert \<lparr>fl_ip = ip, fl_slot = s, fl_answered = False\<rparr> {f \<in> set (rn_flights r). \<not> fl_answered f}"
    by auto
  then have "charges ?r = insert (ip, s) (charges r)" unfolding charges_def by simp
  then have "charged_well n (rn_now r) lm (charges ?r)"
    using charged_reserve [OF _ got] ok by (simp add: run_ok_def)
  moreover have "s \<notin> fl_slot ` set (rn_flights r)"
  proof
    assume "s \<in> fl_slot ` set (rn_flights r)"
    then have "sl_id s < lm_next_slot (rn_limiter r)" using ok unfolding run_ok_def by blast
    then show False by (simp add: new(1))
  qed
  moreover have "s \<notin> snd ` set (rn_refused r)"
  proof
    assume "s \<in> snd ` set (rn_refused r)"
    then obtain i where "(i, s) \<in> set (rn_refused r)" by auto
    then have "(i, s) \<in> charges r" by (simp add: charges_def)
    then have "sl_id s < lm_next_slot (rn_limiter r)"
      using ok unfolding run_ok_def charged_well_def by (metis snd_conv)
    then show False by (simp add: new(1))
  qed
  moreover have "\<forall>f \<in> set (rn_flights r). sl_id (fl_slot f) < lm_next_slot lm"
    using ok unfolding run_ok_def new(3) by (blast intro: less_SucI)
  moreover have "sl_id s < lm_next_slot lm" by (simp add: new(1, 3))
  ultimately show ?thesis using ok unfolding run_ok_def by simp
qed

lemma gate_step_ok: "gate_step r r' \<Longrightarrow> run_ok n r \<Longrightarrow> run_ok n r'"
proof (induction rule: gate_step.induct)
  case (Passes r t)
  then show ?case using run_ok_other_limiter [of n r t "rn_limiter r"] by simp
next
  case (Arrives ip r lm s)
  then show ?case by (rule run_ok_arrive [rotated])
next
  case (TurnedAway ip r lm)
  note kept = reserve_NoneD [OF TurnedAway.hyps]
  have "set (queue lm i) \<subseteq> set (queue (rn_limiter r) i)" for i
    using kept(3) kept(4) [of i] evict_subset prune_subset by (cases "i = ip") auto
  moreover have "s \<in> set (queue lm i)" if "s \<in> set (queue (rn_limiter r) i)" "rn_now r - sec 60 < sl_at s" for i s
    using kept(3) kept(4) [of i] that evict_keeps prune_keeps by (cases "i = ip") auto
  ultimately have "run_ok n (r\<lparr>rn_now := rn_now r, rn_limiter := lm\<rparr>)"
    using TurnedAway.prems kept(1, 2) by (intro run_ok_other_limiter) auto
  then show ?case by simp
next
  case (Accepted f r)
  have "{g \<in> set (answered f (rn_flights r)). \<not> fl_answered g} \<subseteq>
      {g \<in> set (rn_flights r). \<not> fl_answered g \<and> g \<noteq> f}"
    using open_answered by blast
  moreover have "fl_slot ` set (answered f (rn_flights r)) \<subseteq> fl_slot ` set (rn_flights r)"
    using slot_in_answered by blast
  moreover have "distinct (map fl_slot (answered f (rn_flights r)))"
    using Accepted.prems by (simp add: run_ok_def)
  ultimately show ?case unfolding notify_auth_result_def if_True
    using run_ok_release [OF Accepted.prems Accepted.hyps] by blast
next
  case (Refused f r)
  then show ?case using run_ok_refuse [of n r f] by (simp add: notify_auth_result_def)
next
  case (Ends f r out)
  show ?case
  proof (cases "\<not> fl_answered f \<and> out \<noteq> Responds 401")
    case True
    have "distinct (map fl_slot (rn_flights r))" using Ends.prems by (simp add: run_ok_def)
    then have "distinct (rn_flights r)" and "distinct (map fl_slot (remove1 f (rn_flights r)))"
      using run_ok_fewer_flights [OF Ends.prems Ends.hyps] by (simp_all add: distinct_map run_ok_def)
    then show ?thesis unfolding finish_attempt_def using True Ends
      by (simp only: if_True, intro run_ok_release [of n r f]) (auto dest: set_remove1_subset [THEN subsetD])
  next
    case False
    then show ?thesis using run_ok_fewer_flights [OF Ends.prems Ends.hyps] by (auto simp: finish_attempt_def)
  qed
qed

lemma gate_run_ok:
  "gate_run st t0 r \<Longrightarrow> run_ok (nat (st_auth_rate_limit_per_minute st + st_auth_rate_limit_burst st)) r"
proof (induction rule: gate_run.induct)
  case Start
  show ?case
    by (simp add: start_run_def run_ok_def charged_well_def charges_def new_limiter_def queue_def)
next
  case (Step r r')
  then show ?case using gate_step_ok by blast
qed

text \<open>C13. However the requests of all clients interleave, the number of attempts with refused
  credentials that one address makes in any 60 seconds never exceeds the configured rate plus the
  burst.\<close>

theorem refused_attempts_bounded:
  assumes "gate_run st t0 r"
  shows "int (length (filter (\<lambda>(i, s). i = ip \<and> in_window t s) (rn_refused r)))
    \<le> max 0 (st_auth_rate_limit_per_minute st + st_auth_rate_limit_burst st)"
proof -
  let ?n = "nat (st_auth_rate_limit_per_minute st + st_auth_rate_limit_burst st)"
  have ok: "run_ok ?n r" by (rule gate_run_ok [OF assms])
  then have "distinct (filter (\<lambda>(i, s). i = ip \<and> in_window t s) (rn_refused r))"
    by (simp add: run_ok_def)
  then have "length (filter (\<lambda>(i, s). i = ip \<and> in_window t s) (rn_refused r)) =
      card (set (filter (\<lambda>(i, s). i = ip \<and> in_window t s) (rn_refused r)))"
    by (rule distinct_card [symmetric])
  also have "\<dots> \<le> card {p \<in> charges r. fst p = ip \<and> in_window t (snd p)}"
    using ok by (intro card_mono) (auto simp: run_ok_def charged_well_def charges_def)
  also have "\<dots> \<le> ?n" using ok by (simp add: run_ok_def charged_well_def)
  finally show ?thesis by linarith
qed

text \<open>A run with one refused attempt.\<close>

lemma one_refusal_run:
  fixes first
  defines "first \<equiv> \<lparr>sl_id = 0, sl_at = (0::instant)\<rparr>"
  obtains r where "gate_run sample_settings 0 r" and "rn_refused r = [(''192.0.2.7'', first)]" and "rn_now r = 0"
proof -
  let ?r0 = "start_run sample_settings 0" and ?ip = "''192.0.2.7''"
  have "length (evict_expired 0 (queue (rn_limiter ?r0) ?ip)) < lm_limit (rn_limiter ?r0)" by code_simp
  then have "snd (reserve_attempt_slot ?ip (rn_now ?r0) (rn_limiter ?r0)) \<noteq> None"
    by (simp only: reserve_granted_iff) (simp add: start_run_def)
  then obtain lm s where got: "reserve_attempt_slot ?ip (rn_now ?r0) (rn_limiter ?r0) = (lm, Some s)"
    by (metis not_None_eq prod.collapse)
  have s: "s = first"
    using reserve_SomeD(1) [OF got] by (simp add: first_def start_run_def new_limiter_def)
  let ?f = "\<lparr>fl_ip = ?ip, fl_slot = s, fl_answered = False\<rparr>"
  let ?r1 = "?r0\<lparr>rn_limiter := lm, rn_flights := rn_flights ?r0 @ [?f]\<rparr>"
  have r1: "gate_run sample_settings 0 ?r1" using gate_run.Start got by (blast intro: gate_run.Step Arrives)
  have "gate_step ?r1 (?r1\<lparr>rn_limiter := notify_auth_result (fl_ip ?f) (fl_slot ?f) False (rn_limiter ?r1),
      rn_flights := answered ?f (rn_flights ?r1), rn_refused := rn_refused ?r1 @ [(fl_ip ?f, fl_slot ?f)]\<rparr>)"
    by (rule gate_step.Refused) simp_all
  from gate_run.Step [OF r1 this] show thesis
    by (rule that) (simp_all add: start_run_def s)
qed

theorem refused_attempts_bounded_witness:
  "\<exists>r. gate_run sample_settings 0 r \<and> rn_refused r = [(''192.0.2.7'', \<lparr>sl_id = 0, sl_at = 0\<rparr>)] \<and>
     int (length (filter (\<lambda>(i, s). i = ''192.0.2.7'' \<and> in_window 0 s) (rn_refused r))) \<le> 7"
proof -
  obtain r where r: "gate_run sample_settings 0 r" "rn_refused r = [(''192.0.2.7'', \<lparr>sl_id = 0, sl_at = 0\<rparr>)]"
    by (rule one_refusal_run) blast
  have "max 0 (st_auth_rate_limit_per_minute sample_settings + st_auth_rate_limit_burst sample_settings) = 7"
    by code_simp
  then show ?thesis using r refused_attempts_bounded [OF r(1), of "''192.0.2.7''" 0] by metis
qed

text \<open>With settings that pass validation, an address is never locked out for good: from every
  reachable state, once 60 seconds have passed its next attempt gets a slot, whatever it sent
  before and however many of its requests are still in flight.\<close>

theorem lockout_ends_after_a_minute:
  assumes "validate_runtime_values network_ok st = Inr st'"
    and "gate_run st t0 r"
    and "rn_now r + sec 60 \<le> t"
  shows "snd (reserve_attempt_slot ip t (rn_limiter r)) \<noteq> None"
proof -
  have ok: "run_ok (nat (st_auth_rate_limit_per_minute st + st_auth_rate_limit_burst st)) r"
    by (rule gate_run_ok [OF assms(2)])
  then have "\<forall>s \<in> set (queue (rn_limiter r) ip). sl_at s \<le> rn_now r" by (simp add: run_ok_def charged_well_def)
  then have "evict_expired t (queue (rn_limiter r) ip) = []" using assms(3) by (fastforce simp: evict_expired_def)
  moreover have "0 < lm_limit (rn_limiter r)"
    using ok valid_limits(1, 2) [OF assms(1)] by (simp add: run_ok_def charged_well_def)
  ultimately show ?thesis by (simp only: reserve_granted_iff) simp
qed

theorem lockout_ends_after_a_minute_witness:
  "\<exists>r. gate_run sample_settings 0 r \<and> rn_refused r \<noteq> [] \<and>
     snd (reserve_attempt_slot ''192.0.2.7'' (sec 60) (rn_limiter r)) \<noteq> None"
proof -
  obtain r where r: "gate_run sample_settings 0 r" "rn_refused r = [(''192.0.2.7'', \<lparr>sl_id = 0, sl_at = 0\<rparr>)]" "rn_now r = 0"
    by (rule one_refusal_run) blast
  then have "rn_now r + sec 60 \<le> sec 60" by simp
  then have "snd (reserve_attempt_slot ''192.0.2.7'' (sec 60) (rn_limiter r)) \<noteq> None"
    by (rule lockout_ends_after_a_minute [OF sample_settings_valid r(1)])
  moreover have "rn_refused r \<noteq> []" using r(2) by simp
  ultimately show ?thesis using r(1) by blast
qed

text \<open>Valid credentials cost nothing: a request that passes authentication is handed to the
  CSRF check and the routes with the user's name, and whatever they answer the limiter holds
  exactly the live attempts it held before, for every address.\<close>

theorem valid_credentials_cost_nothing:
  assumes "\<not> passes_through rq"
    and "verified_username (gt_checkpw g) (gt_admin g) (rq_authorization rq) = Some u"
    and "length (evict_expired now (queue lm (client_ip (gt_contains g) (gt_networks g) rq))) < lm_limit lm"
    and "list_all (\<lambda>s. sl_id s < lm_next_slot lm) (queue lm (client_ip (gt_contains g) (gt_networks g) rq))"
  shows "snd (serve g now app rq lm) = csrf app ((forwarded_prefix rq)\<lparr>rq_username := Some u\<rparr>) \<and>
    evict_expired now (queue (fst (serve g now app rq lm)) i) = evict_expired now (queue lm i)"
proof -
  let ?ip = "client_ip (gt_contains g) (gt_networks g) rq"
  have same: "passes_through (forwarded_prefix rq) = passes_through rq"
      "rq_authorization (forwarded_prefix rq) = rq_authorization rq"
      "client_ip (gt_contains g) (gt_networks g) (forwarded_prefix rq) = ?ip"
    by (simp_all add: forwarded_prefix_def passes_through_def client_ip_def split: option.split)
  obtain lm1 s where got: "reserve_attempt_slot ?ip now lm = (lm1, Some s)"
    using assms(3) by (metis reserve_granted_iff not_None_eq prod.collapse)
  note new = reserve_SomeD [OF got]
  have "basic_auth (gt_checkpw g) (gt_admin g) (csrf app) (forwarded_prefix rq) =
      (Some True, csrf app ((forwarded_prefix rq)\<lparr>rq_username := Some u\<rparr>))"
    using assms(1, 2) by (simp add: basic_auth_def same)
  then have served: "serve g now app rq lm =
      (release_attempt_slot ?ip s lm1, csrf app ((forwarded_prefix rq)\<lparr>rq_username := Some u\<rparr>))"
    using assms(1) got
    by (simp add: serve_def auth_rate_limit_def same Let_def notify_auth_result_def finish_attempt_def)
  have "s \<notin> set (evict_expired now (queue lm ?ip))"
    using assms(4) evict_subset by (fastforce simp: list_all_iff new(1))
  then have "remove1 s (evict_expired now (queue lm ?ip) @ [s]) = evict_expired now (queue lm ?ip)"
    by (simp add: remove1_append)
  then show ?thesis using new(4) new(5) [of i] by (cases "i = ?ip") (simp_all add: served queue_release)
qed

definition signed_in :: string where
  "signed_in = basic_header ''Basic'' ''admin'' ''pw''"

theorem valid_credentials_cost_nothing_witness:
  "snd (serve sample_gate 0 (\<lambda>rq. Responds (if rq_username rq = Some ''admin'' then 200 else 500))
     (sample_request (Some signed_in)) (sample_limiter 1)) = Responds 200"
proof -
  let ?rq = "sample_request (Some signed_in)" and ?lm = "sample_limiter 1"
  have "\<not> passes_through ?rq" by code_simp
  moreover have "verified_username (gt_checkpw sample_gate) (gt_admin sample_gate) (rq_authorization ?rq) = Some ''admin''"
    by code_simp
  moreover have "length (evict_expired 0 (queue ?lm (client_ip (gt_contains sample_gate) (gt_networks sample_gate) ?rq))) < lm_limit ?lm"
    by code_simp
  moreover have "list_all (\<lambda>s. sl_id s < lm_next_slot ?lm) (queue ?lm (client_ip (gt_contains sample_gate) (gt_networks sample_gate) ?rq))"
    by code_simp
  moreover have "csrf (\<lambda>rq. Responds (if rq_username rq = Some ''admin'' then 200 else 500))
      ((forwarded_prefix ?rq)\<lparr>rq_username := Some ''admin''\<rparr>) = Responds 200" by code_simp
  ultimately show ?thesis using valid_credentials_cost_nothing by metis
qed

subsection \<open>CSRF tokens\<close>

lemma encode_one_pad:
  assumes "length abc = 64" and "CHR ''='' \<notin> set abc" and "list_all (\<lambda>b. b < 256) bs" and "length bs mod 3 = 2"
  shows "\<exists>t. encode_bytes abc bs = t @ ''='' \<and> CHR ''='' \<notin> set t \<and> set t \<subseteq> set abc \<and> length t = 4 * (length bs div 3) + 3"
  using assms
proof (induction abc bs rule: encode_bytes.induct)
  case (3 abc a b)
  then show ?case
    by (intro exI [of _ "[abc ! (a div 4), abc ! (a mod 4 * 16 + b div 16), abc ! (b mod 16 * 4)]"])
      (auto simp: byte_digits byte_pieces dest: nth_mem)
next
  case (4 abc a b c bs)
  then have len: "length bs mod 3 = 2" and small: "a < 256" "b < 256" "c < 256"
    by (simp_all add: Suc3_eq_add_3)
  obtain t where t: "encode_bytes abc bs = t @ ''=''" "CHR ''='' \<notin> set t" "set t \<subseteq> set abc"
      "length t = 4 * (length bs div 3) + 3"
    using "4.IH" "4.prems" len by auto
  let ?q = "[abc ! (a div 4), abc ! (a mod 4 * 16 + b div 16), abc ! (b mod 16 * 4 + c div 64), abc ! (c mod 64)]"
  have "set ?q \<subseteq> set abc" using small by (simp add: byte_digits byte_pieces "4.prems"(1))
  moreover have "length (?q @ t) = 4 * (length (a # b # c # bs) div 3) + 3"
    using t(4) by (simp add: Suc3_eq_add_3)
  ultimately show ?case
    using t(1, 2, 3) "4.prems"(2) by (intro exI [of _ "?q @ t"]) auto
qed simp_all

lemma encode_map:
  "length abc = 64 \<Longrightarrow> f CHR ''='' = CHR ''='' \<Longrightarrow> list_all (\<lambda>b. b < 256) bs \<Longrightarrow>
   encode_bytes (map f abc) bs = map f (encode_bytes abc bs)"
  by (induction abc bs rule: encode_bytes.induct) (simp_all add: byte_digits byte_pieces)

lemma dropWhile_none: "c \<notin> set xs \<Longrightarrow> dropWhile (\<lambda>x. x = c) xs = xs"
  by (cases xs) auto

lemma strip_pad:
  assumes "CHR ''='' \<notin> set t"
  shows "rev (dropWhile (\<lambda>c. c = CHR ''='') (rev (t @ ''=''))) = t"
  using dropWhile_none [of "CHR ''=''" "rev t"] assms by simp

text \<open>The other spelling of the two characters in which the alphabets differ.\<close>

definition to_standard :: "char \<Rightarrow> char" where
  "to_standard c = (if c = CHR ''-'' then CHR ''+'' else if c = CHR ''_'' then CHR ''/'' else c)"

lemma to_standard_alphabet: "map to_standard urlsafe_alphabet = base64_alphabet"
  by code_simp

text \<open>C19. From 32 random bytes the CSRF token is always produced: it has the 43 characters the
  code insists on, all of the URL-safe alphabet, and no randomness is lost, since decoding it
  gives the bytes back.\<close>

theorem csrf_token_well_formed:
  assumes "length random = 32" and "list_all (\<lambda>b. b < 256) random"
  shows "\<exists>t. generate_token random = Inr t \<and> length t = 43 \<and> set t \<subseteq> set urlsafe_alphabet \<and>
    decode_base64 (map to_standard t @ ''='') = Some random"
proof -
  obtain t where t: "encode_bytes urlsafe_alphabet random = t @ ''=''" "CHR ''='' \<notin> set t"
      "set t \<subseteq> set urlsafe_alphabet" "length t = 4 * (length random div 3) + 3"
    using encode_one_pad [OF urlsafe_alphabet_facts(2, 3) assms(2)] assms(1) by auto
  have "generate_token random = Inr t"
    using t(1, 4) strip_pad [OF t(2)] assms(1) by (simp add: generate_token_def)
  moreover have "to_standard CHR ''='' = CHR ''=''" by code_simp
  then have "map to_standard (encode_bytes urlsafe_alphabet random) = encode_bytes base64_alphabet random"
    using encode_map [of urlsafe_alphabet to_standard random] urlsafe_alphabet_facts(2) to_standard_alphabet assms(2)
    by metis
  then have "decode_base64 (map to_standard t @ ''='') = Some random"
    using decode_encode [OF assms(2)] \<open>to_standard CHR ''='' = CHR ''=''\<close> by (simp add: t(1))
  ultimately show ?thesis using t(3, 4) assms(1) by auto
qed

theorem csrf_token_well_formed_witness:
  "\<exists>t. generate_token (replicate 32 255) = Inr t \<and> length t = 43"
  using csrf_token_well_formed [of "replicate 32 255"] by (auto simp: list_all_iff)

end
