(* ===== verification/NotifierProps.thy ===== *)
theory NotifierProps
  imports Notifier DetectorProps
begin

section \<open>Properties of the e-mail notifier\<close>

text \<open>
  One induction over the loop gives what was sent, another what was marked. Maintenance silences
  the cycle; one incident gives one message; a failed message stays pending.
\<close>

definition delivered :: "attempt list \<Rightarrow> event_row list" where
  "delivered tried = map fst (filter (\<lambda>a. snd a = Delivered) tried)"

definition failed_events :: "attempt list \<Rightarrow> event_row list" where
  "failed_events tried = map fst (filter (\<lambda>a. snd a = SendFailed) tried)"

lemma delivered_simps [simp]:
  "delivered [] = []" "failed_events [] = []"
  "delivered ((e, x) # tried) = (if x = Delivered then [e] else []) @ delivered tried"
  "failed_events ((e, x) # tried) = (if x = SendFailed then [e] else []) @ failed_events tried"
  "delivered (tried @ more_tried) = delivered tried @ delivered more_tried"
  "failed_events (tried @ more_tried) = failed_events tried @ failed_events more_tried"
  by (simp_all add: delivered_def failed_events_def)

text \<open>The events with the ids of a set marked as notified.\<close>

definition mark_row :: "int set \<Rightarrow> instant \<Rightarrow> event_row \<Rightarrow> event_row" where
  "mark_row ids now e = (if ev_id e \<in> ids then e\<lparr>ev_notified_at := Some now\<rparr> else e)"

lemma mark_row_simps [simp]:
  "ev_id (mark_row ids now e) = ev_id e"
  "incident (mark_row ids now e) = incident e"
  "since \<le> now \<Longrightarrow> notified_since since (mark_row ids now e) \<longleftrightarrow> ev_id e \<in> ids \<or> notified_since since e"
  by (simp_all add: mark_row_def incident_def notified_since_def)

definition mark_rows :: "int set \<Rightarrow> instant \<Rightarrow> db \<Rightarrow> db" where
  "mark_rows ids now d = d\<lparr>db_events := map (mark_row ids now) (db_events d)\<rparr>"

lemma set_mark_rows [simp]: "set (db_events (mark_rows ids now d)) = mark_row ids now ` set (db_events d)"
  by (simp add: mark_rows_def)

lemma mark_event_notified_rows:
  "i \<in> ev_id ` set (db_events d) \<Longrightarrow> mark_event_notified i (Aware now) d = Inr (mark_rows {i} now d)"
  by (simp add: mark_event_notified_def mark_rows_def mark_row_def [abs_def])

lemma mark_rows_empty [simp]: "mark_rows {} now d = d"
  by (simp add: mark_rows_def mark_row_def [abs_def])

lemma mark_rows_twice: "mark_rows A now (mark_rows B now d) = mark_rows (A \<union> B) now d"
  by (simp add: mark_rows_def mark_row_def [abs_def])

text \<open>Every event still has its row.\<close>

definition has_row :: "db \<Rightarrow> event_row \<Rightarrow> bool" where
  "has_row d e \<longleftrightarrow> (\<exists>x \<in> set (db_events d). ev_id x = ev_id e \<and> incident x = incident e)"

lemma has_row_mark: "has_row d e \<Longrightarrow> has_row (mark_rows ids now d) e"
  by (auto simp: has_row_def)

lemma has_row_id: "has_row d e \<Longrightarrow> ev_id e \<in> ev_id ` set (db_events d)"
  unfolding has_row_def by (metis image_eqI)

lemma recently_iff:
  "event_was_notified_recently e since d \<longleftrightarrow>
     (\<exists>x \<in> set (db_events d). incident x = incident e \<and> notified_since since x \<and> ev_id x \<noteq> ev_id e)"
  by (simp add: event_was_notified_recently_def list_ex_iff)

lemma recently_mark:
  "event_was_notified_recently e since d \<Longrightarrow> since \<le> now \<Longrightarrow>
     event_was_notified_recently e since (mark_rows ids now d)"
  by (auto simp: recently_iff)

lemma recently_marked:
  "has_row d e \<Longrightarrow> incident e' = incident e \<Longrightarrow> ev_id e' \<noteq> ev_id e \<Longrightarrow> since \<le> now \<Longrightarrow>
     event_was_notified_recently e' since (mark_rows {ev_id e} now d)"
  by (auto simp: recently_iff has_row_def)

subsection \<open>What is sent\<close>

lemma notify_events_sent:
  assumes "distinct (map ev_id es)" and "\<forall>e \<in> set es. has_row d e \<and> 0 < suppress_window_minutes s e"
    and "notify_events s transport stamp now es tried d r = (tried', res)"
  shows "\<exists>new. tried' = tried @ new \<and> distinct (map incident (delivered new)) \<and>
    (\<forall>e \<in> set (delivered new). e \<in> set es \<and>
       \<not> event_was_notified_recently e (now - minutes (suppress_window_minutes s e)) d)"
  using assms
proof (induction es arbitrary: tried d r)
  case Nil
  then show ?case by simp
next
  case (Cons e es)
  let ?since = "now - minutes (suppress_window_minutes s e)"
  have row: "has_row d e" and ids: "ev_id e \<notin> ev_id ` set es" "distinct (map ev_id es)"
    and rows: "\<forall>x \<in> set es. has_row d x \<and> 0 < suppress_window_minutes s x"
    using Cons.prems(1,2) by auto
  note mark = mark_event_notified_rows [OF has_row_id [OF row], of now]
  have marked: "\<forall>x \<in> set es. has_row (mark_rows {ev_id e} now d) x \<and> 0 < suppress_window_minutes s x"
    using rows has_row_mark by blast
  have keep: "\<not> event_was_notified_recently x (now - minutes (suppress_window_minutes s x)) d"
    if "\<not> event_was_notified_recently x (now - minutes (suppress_window_minutes s x)) (mark_rows {ev_id e} now d)"
      and "x \<in> set es" for x
    using that recently_mark [of x "now - minutes (suppress_window_minutes s x)" d now] rows
    by (force simp: minutes_def sec_def)
  consider (skip) "ev_occurred_at e < ?since"
    | (dup) "\<not> ev_occurred_at e < ?since" "event_was_notified_recently e ?since d"
    | (send) "\<not> ev_occurred_at e < ?since" "\<not> event_was_notified_recently e ?since d" by blast
  then show ?case
  proof cases
    case skip
    with Cons.IH [OF ids(2) rows] Cons.prems(3) show ?thesis by (fastforce simp: Let_def)
  next
    case dup
    with Cons.prems(3) mark obtain r2 where
      "notify_events s transport stamp now es tried (mark_rows {ev_id e} now d) r2 = (tried', res)"
      by (auto simp: Let_def)
    from Cons.IH [OF ids(2) marked this] keep show ?thesis by fastforce
  next
    case send
    show ?thesis
    proof (cases "transport tried (build_alert_message stamp e)")
      case SendFailed
      with send Cons.prems(3) obtain r2 where
        "notify_events s transport stamp now es (tried @ [(e, SendFailed)]) d r2 = (tried', res)"
        by (auto simp: Let_def)
      from Cons.IH [OF ids(2) rows this] show ?thesis by fastforce
    next
      case SendCrashed
      with send Cons.prems(3) show ?thesis by (auto simp: Let_def)
    next
      case Delivered
      with send Cons.prems(3) mark obtain r2 where
        "notify_events s transport stamp now es (tried @ [(e, Delivered)]) (mark_rows {ev_id e} now d) r2 = (tried', res)"
        by (auto simp: Let_def)
      from Cons.IH [OF ids(2) marked this] obtain new where
        new: "tried' = (tried @ [(e, Delivered)]) @ new" "distinct (map incident (delivered new))"
        "\<forall>x \<in> set (delivered new). x \<in> set es \<and>
          \<not> event_was_notified_recently x (now - minutes (suppress_window_minutes s x)) (mark_rows {ev_id e} now d)"
        by blast
      have "incident e \<notin> incident ` set (delivered new)"
      proof
        assume "incident e \<in> incident ` set (delivered new)"
        then obtain x where x: "x \<in> set (delivered new)" "incident x = incident e" by auto
        with new(3) have "x \<in> set es"
          "\<not> event_was_notified_recently x (now - minutes (suppress_window_minutes s x)) (mark_rows {ev_id e} now d)"
          by auto
        moreover from this(1) ids(1) have "ev_id x \<noteq> ev_id e" by (metis image_eqI)
        moreover have "now - minutes (suppress_window_minutes s x) \<le> now"
          using bspec [OF rows \<open>x \<in> set es\<close>] by (simp add: minutes_def sec_def)
        ultimately show False using recently_marked [OF row x(2)] by blast
      qed
      with new keep send show ?thesis by (intro exI [of _ "(e, Delivered) # new"]) auto
    qed
  qed
qed

subsection \<open>What is marked\<close>

text \<open>
  An event is due while it is inside the window of its category. It repeats another one when an event of the same
  incident was notified inside that window before the cycle, or got its message in this cycle.
\<close>

definition due :: "settings \<Rightarrow> instant \<Rightarrow> event_row \<Rightarrow> bool" where
  "due s now e \<longleftrightarrow> now - minutes (suppress_window_minutes s e) \<le> ev_occurred_at e"

definition repeats :: "settings \<Rightarrow> instant \<Rightarrow> db \<Rightarrow> event_row list \<Rightarrow> event_row \<Rightarrow> bool" where
  "repeats s now d sent e \<longleftrightarrow>
     event_was_notified_recently e (now - minutes (suppress_window_minutes s e)) d \<or>
     (\<exists>x \<in> set sent. incident x = incident e \<and> ev_id x \<noteq> ev_id e)"

lemma same_window: "incident x = incident e \<Longrightarrow> suppress_window_minutes s x = suppress_window_minutes s e"
  by (simp add: incident_def suppress_window_minutes_def)

lemma same_row:
  "distinct (map ev_id (db_events d)) \<Longrightarrow> x \<in> set (db_events d) \<Longrightarrow> y \<in> set (db_events d) \<Longrightarrow> ev_id x = ev_id y \<Longrightarrow> x = y"
  by (auto simp: distinct_map inj_on_def)

lemma mark_row_other [simp]: "ev_id e \<notin> ids \<Longrightarrow> mark_row ids now e = e"
  by (simp add: mark_row_def)

text \<open>What repeats after the row of \<open>e\<close> was marked repeated already before, or repeats \<open>e\<close>.\<close>

lemma repeats_after_mark:
  assumes d: "distinct (map ev_id (db_events d))" "e \<in> set (db_events d)"
    and x: "x \<in> set (db_events d)" "ev_notified_at x = None"
    and r: "repeats s now (mark_rows {ev_id e} now d) sent x" and sent: "set sent \<subseteq> set sent'"
    and e: "ev_id x \<noteq> ev_id e" "e \<in> set sent' \<or> event_was_notified_recently e (now - minutes (suppress_window_minutes s e)) d"
  shows "repeats s now d sent' x"
proof -
  let ?since = "now - minutes (suppress_window_minutes s x)"
  from r consider (mailed) "\<exists>y \<in> set sent. incident y = incident x \<and> ev_id y \<noteq> ev_id x"
    | (noted) y where "y \<in> set (db_events d)" "incident y = incident x" "ev_id y \<noteq> ev_id x"
        "notified_since ?since (mark_row {ev_id e} now y)"
    by (auto simp: repeats_def recently_iff)
  then show ?thesis
  proof cases
    case mailed
    then show ?thesis using sent by (auto simp: repeats_def)
  next
    case noted
    show ?thesis
    proof (cases "ev_id y = ev_id e")
      case False
      then show ?thesis using noted by (auto simp: repeats_def recently_iff)
    next
      case True
      then have y: "y = e" using same_row [OF d(1) noted(1) d(2)] by simp
      then have i: "incident e = incident x" using noted(2) by simp
      note w = same_window [OF i, of s]
      from e(2) show ?thesis
      proof
        assume "e \<in> set sent'"
        then show ?thesis using i e(1) by (auto simp: repeats_def)
      next
        assume "event_was_notified_recently e (now - minutes (suppress_window_minutes s e)) d"
        then obtain z where z: "z \<in> set (db_events d)" "incident z = incident e" "notified_since ?since z"
          by (auto simp: recently_iff w)
        have "ev_id z \<noteq> ev_id x"
          using same_row [OF d(1) z(1) x(1)] z(3) x(2) by (auto simp: notified_since_def)
        then show ?thesis using z i by (auto simp: repeats_def recently_iff)
      qed
    qed
  qed
qed

lemma repeats_more: "repeats s now d sent x \<Longrightarrow> set sent \<subseteq> set sent' \<Longrightarrow> repeats s now d sent' x"
  by (auto simp: repeats_def)

text \<open>
  What one run of the loop over \<open>es\<close> did: \<open>new\<close> was tried and \<open>ids\<close> were marked.
\<close>

definition loop_result ::
    "settings \<Rightarrow> instant \<Rightarrow> event_row list \<Rightarrow> db \<Rightarrow> attempt list \<Rightarrow> int set \<Rightarrow> bool" where
  "loop_result s now es d new ids \<longleftrightarrow>
     ids \<subseteq> ev_id ` set es \<and> set (failed_events new) \<subseteq> set es \<and> set (delivered new) \<subseteq> set es \<and>
     ev_id ` set (delivered new) \<subseteq> ids \<and> ids \<inter> ev_id ` set (failed_events new) = {} \<and>
     (\<forall>x \<in> set es. ev_id x \<in> ids \<longrightarrow> due s now x \<and> (x \<in> set (delivered new) \<or> repeats s now d (delivered new) x)) \<and>
     (\<forall>x \<in> set es. due s now x \<longrightarrow> ev_id x \<in> ids \<or> x \<in> set (failed_events new))"

lemma loop_resultD:
  assumes "loop_result s now es d new ids"
  shows "ids \<subseteq> ev_id ` set es" "set (failed_events new) \<subseteq> set es" "set (delivered new) \<subseteq> set es"
    "ev_id ` set (delivered new) \<subseteq> ids" "ids \<inter> ev_id ` set (failed_events new) = {}"
    "x \<in> set es \<Longrightarrow> ev_id x \<in> ids \<Longrightarrow> due s now x"
    "x \<in> set es \<Longrightarrow> ev_id x \<in> ids \<Longrightarrow> x \<notin> set (delivered new) \<Longrightarrow> repeats s now d (delivered new) x"
    "x \<in> set es \<Longrightarrow> due s now x \<Longrightarrow> x \<notin> set (failed_events new) \<Longrightarrow> ev_id x \<in> ids"
  using assms unfolding loop_result_def by (elim conjE, blast)+

lemma loop_resultI:
  assumes "ids \<subseteq> ev_id ` set es" "set (failed_events new) \<subseteq> set es" "set (delivered new) \<subseteq> set es"
    "ev_id ` set (delivered new) \<subseteq> ids" "ids \<inter> ev_id ` set (failed_events new) = {}"
    "\<And>x. x \<in> set es \<Longrightarrow> ev_id x \<in> ids \<Longrightarrow> due s now x"
    "\<And>x. x \<in> set es \<Longrightarrow> ev_id x \<in> ids \<Longrightarrow> x \<notin> set (delivered new) \<Longrightarrow> repeats s now d (delivered new) x"
    "\<And>x. x \<in> set es \<Longrightarrow> due s now x \<Longrightarrow> x \<notin> set (failed_events new) \<Longrightarrow> ev_id x \<in> ids"
  shows "loop_result s now es d new ids"
  unfolding loop_result_def using assms by (intro conjI ballI impI) blast+

lemma loop_skip:
  assumes "loop_result s now es d new ids" and "\<not> due s now e" and "ev_id e \<notin> ev_id ` set es"
  shows "loop_result s now (e # es) d new ids"
proof -
  note old = loop_resultD [OF assms(1)]
  have head: "ev_id e \<notin> ids" using old(1) assms(3) by blast
  show ?thesis
  proof (rule loop_resultI)
    show "due s now x" if "x \<in> set (e # es)" "ev_id x \<in> ids" for x using that head old(6) by auto
    show "repeats s now d (delivered new) x" if "x \<in> set (e # es)" "ev_id x \<in> ids" "x \<notin> set (delivered new)" for x
      using that head old(7) by auto
    show "ev_id x \<in> ids" if "x \<in> set (e # es)" "due s now x" "x \<notin> set (failed_events new)" for x
      using that assms(2) old(8) by auto
  qed (use old(1-5) in auto)
qed

lemma loop_fail:
  assumes "loop_result s now es d new ids" and "ev_id e \<notin> ev_id ` set es"
  shows "loop_result s now (e # es) d ((e, SendFailed) # new) ids"
proof -
  note old = loop_resultD [OF assms(1)]
  have head: "ev_id e \<notin> ids" using old(1) assms(2) by blast
  show ?thesis
  proof (rule loop_resultI)
    show "due s now x" if "x \<in> set (e # es)" "ev_id x \<in> ids" for x using that head old(6) by auto
    show "repeats s now d (delivered ((e, SendFailed) # new)) x"
      if "x \<in> set (e # es)" "ev_id x \<in> ids" "x \<notin> set (delivered ((e, SendFailed) # new))" for x
      using that head old(7) by auto
    show "ev_id x \<in> ids" if "x \<in> set (e # es)" "due s now x" "x \<notin> set (failed_events ((e, SendFailed) # new))" for x
      using that old(8) by auto
  qed (use old(1-5) head in auto)
qed

text \<open>\<open>first\<close> is what the loop did with the head: nothing for a repeat, one delivery otherwise.\<close>

lemma loop_mark:
  assumes d: "distinct (map ev_id (db_events d))" "set (e # es) \<subseteq> set (db_events d)"
      "\<forall>x \<in> set es. ev_notified_at x = None" "ev_id e \<notin> ev_id ` set es"
    and loop: "loop_result s now es (mark_rows {ev_id e} now d) new ids" and "due s now e"
    and first: "first = [(e, Delivered)] \<or>
      first = [] \<and> event_was_notified_recently e (now - minutes (suppress_window_minutes s e)) d"
  shows "loop_result s now (e # es) d (first @ new) (insert (ev_id e) ids)"
proof -
  note old = loop_resultD [OF loop]
  let ?sent = "delivered (first @ new)"
  have e: "e \<in> set ?sent \<or> event_was_notified_recently e (now - minutes (suppress_window_minutes s e)) d"
    and failed: "failed_events first = []" and sub: "set (delivered new) \<subseteq> set ?sent"
      "set ?sent \<subseteq> insert e (set (delivered new))"
    using first by auto
  have head: "ev_id e \<notin> ids" "ev_id e \<notin> ev_id ` set (failed_events new)" using old(1,2) d(4) by blast+
  have tail: "ev_id x \<in> ids" "ev_id x \<noteq> ev_id e" if "x \<in> set es" "ev_id x \<in> insert (ev_id e) ids" for x
    using that d(4) by (metis image_eqI insertE)+
  have known: "set es \<subseteq> set (db_events d)" "e \<in> set (db_events d)" using d(2) by auto
  show ?thesis
  proof (rule loop_resultI)
    show "due s now x" if "x \<in> set (e # es)" "ev_id x \<in> insert (ev_id e) ids" for x
      using that tail(1) [of x] old(6) \<open>due s now e\<close> by auto
    show "repeats s now d ?sent x"
      if x: "x \<in> set (e # es)" "ev_id x \<in> insert (ev_id e) ids" "x \<notin> set ?sent" for x
    proof (cases "x = e")
      case True
      then show ?thesis using e x(3) by (auto simp: repeats_def)
    next
      case False
      with x(1) have es: "x \<in> set es" by simp
      have "repeats s now (mark_rows {ev_id e} now d) (delivered new) x"
        using old(7) [OF es tail(1) [OF es x(2)]] x(3) sub(1) by blast
      then show ?thesis
        by (rule repeats_after_mark [OF d(1) known(2) subsetD [OF known(1) es] bspec [OF d(3) es] _ sub(1) tail(2) [OF es x(2)] e])
    qed
    show "ev_id x \<in> insert (ev_id e) ids"
      if "x \<in> set (e # es)" "due s now x" "x \<notin> set (failed_events (first @ new))" for x
      using that old(8) by (auto simp: failed)
    show "insert (ev_id e) ids \<inter> ev_id ` set (failed_events (first @ new)) = {}" using old(5) head(2) by (simp add: failed)
    show "ev_id ` set ?sent \<subseteq> insert (ev_id e) ids" "set ?sent \<subseteq> set (e # es)" using sub(2) old(3,4) by auto
    show "insert (ev_id e) ids \<subseteq> ev_id ` set (e # es)" "set (failed_events (first @ new)) \<subseteq> set (e # es)"
      using old(1,2) by (auto simp: failed)
  qed
qed

lemma notify_events_marked:
  assumes "distinct (map ev_id es)" and "distinct (map ev_id (db_events d))" and "set es \<subseteq> set (db_events d)"
    and "\<forall>e \<in> set es. ev_notified_at e = None"
    and "notify_events s transport stamp now es tried d r = (tried', Inr (d', r'))"
  shows "\<exists>new ids. tried' = tried @ new \<and> d' = mark_rows ids now d \<and> loop_result s now es d new ids \<and>
    nc_sent r' = nc_sent r + int (length (delivered new)) \<and>
    nc_failed r' = nc_failed r + int (length (failed_events new)) \<and>
    nc_deduplicated r' = nc_deduplicated r + int (card ids) - int (length (delivered new)) \<and>
    nc_attempted r' - (nc_sent r' + nc_deduplicated r' + nc_failed r') =
      nc_attempted r - (nc_sent r + nc_deduplicated r + nc_failed r)"
  using assms
proof (induction es arbitrary: tried d r)
  case Nil
  then show ?case by (intro exI [of _ "[]"] exI [of _ "{}"]) (simp add: loop_result_def)
next
  case (Cons e es)
  let ?since = "now - minutes (suppress_window_minutes s e)"
  let ?d = "mark_rows {ev_id e} now d"
  have ids: "ev_id e \<notin> ev_id ` set es" "distinct (map ev_id es)"
    and rows: "e \<in> set (db_events d)" "set es \<subseteq> set (db_events d)" "\<forall>x \<in> set es. ev_notified_at x = None"
    using Cons.prems(1,3,4) by auto
  have row: "ev_id e \<in> ev_id ` set (db_events d)" using rows(1) by (rule imageI)
  note mark = mark_event_notified_rows [OF row, of now]
  have other: "mark_row {ev_id e} now x = x" if "x \<in> set es" for x
    using that ids(1) by (intro mark_row_other) (metis image_eqI singletonD)
  have "x \<in> set (db_events ?d)" if "x \<in> set es" for x
    using that rows(2) other [OF that] by (metis image_eqI set_mark_rows subsetD)
  then have marked: "distinct (map ev_id (db_events ?d))" "set es \<subseteq> set (db_events ?d)"
    using Cons.prems(2) by (auto simp: mark_rows_def o_def)
  have fin: "finite M" "ev_id e \<notin> M" if "loop_result s now es d0 new M" for d0 new M
    using that ids(1) finite_subset [of M "ev_id ` set es"] by (auto simp: loop_result_def)
  consider (skip) "ev_occurred_at e < ?since"
    | (dup) "\<not> ev_occurred_at e < ?since" "event_was_notified_recently e ?since d"
    | (send) "\<not> ev_occurred_at e < ?since" "\<not> event_was_notified_recently e ?since d" by blast
  then show ?case
  proof cases
    case skip
    then have late: "\<not> due s now e" by (simp add: due_def)
    from skip Cons.prems(5) have "notify_events s transport stamp now es tried d r = (tried', Inr (d', r'))"
      by (simp add: Let_def)
    from Cons.IH [OF ids(2) Cons.prems(2) rows(2,3) this] loop_skip [OF _ late ids(1)] show ?thesis
      by blast
  next
    case dup
    then have is_due: "due s now e" by (simp add: due_def)
    from dup Cons.prems(5) mark have
      "notify_events s transport stamp now es tried ?d
        (r\<lparr>nc_attempted := nc_attempted r + 1, nc_deduplicated := nc_deduplicated r + 1\<rparr>) = (tried', Inr (d', r'))"
      by (simp add: Let_def)
    from Cons.IH [OF ids(2) marked rows(3) this] obtain new M where new: "tried' = tried @ new"
      "d' = mark_rows M now ?d" "loop_result s now es ?d new M"
      and counts: "nc_sent r' = nc_sent r + int (length (delivered new))"
      "nc_failed r' = nc_failed r + int (length (failed_events new))"
      "nc_deduplicated r' = nc_deduplicated r + 1 + int (card M) - int (length (delivered new))"
      "nc_attempted r' - (nc_sent r' + nc_deduplicated r' + nc_failed r') =
        nc_attempted r + 1 - (nc_sent r + (nc_deduplicated r + 1) + nc_failed r)" by auto
    have "loop_result s now (e # es) d new (insert (ev_id e) M)"
      using loop_mark [OF Cons.prems(2,3) rows(3) ids(1) new(3) is_due, of "[]"] dup(2) by simp
    then show ?thesis using new(1,2) counts fin [OF new(3)]
      by (intro exI [of _ new] exI [of _ "insert (ev_id e) M"]) (simp add: mark_rows_twice)
  next
    case send
    then have is_due: "due s now e" by (simp add: due_def)
    show ?thesis
    proof (cases "transport tried (build_alert_message stamp e)")
      case SendCrashed
      with send Cons.prems(5) show ?thesis by (simp add: Let_def)
    next
      case SendFailed
      with send Cons.prems(5) have
        "notify_events s transport stamp now es (tried @ [(e, SendFailed)]) d
          (r\<lparr>nc_attempted := nc_attempted r + 1, nc_failed := nc_failed r + 1\<rparr>) = (tried', Inr (d', r'))"
        by (simp add: Let_def)
      from Cons.IH [OF ids(2) Cons.prems(2) rows(2,3) this] obtain new M where new: "tried' = (tried @ [(e, SendFailed)]) @ new"
        "d' = mark_rows M now d" "loop_result s now es d new M"
        and counts: "nc_sent r' = nc_sent r + int (length (delivered new))"
        "nc_failed r' = nc_failed r + 1 + int (length (failed_events new))"
        "nc_deduplicated r' = nc_deduplicated r + int (card M) - int (length (delivered new))"
        "nc_attempted r' - (nc_sent r' + nc_deduplicated r' + nc_failed r') =
          nc_attempted r + 1 - (nc_sent r + nc_deduplicated r + (nc_failed r + 1))" by auto
      with loop_fail [OF new(3) ids(1)] show ?thesis
        by (intro exI [of _ "(e, SendFailed) # new"] exI [of _ M]) simp
    next
      case Delivered
      with send Cons.prems(5) mark have
        "notify_events s transport stamp now es (tried @ [(e, Delivered)]) ?d
          (r\<lparr>nc_attempted := nc_attempted r + 1, nc_sent := nc_sent r + 1\<rparr>) = (tried', Inr (d', r'))"
        by (simp add: Let_def)
      from Cons.IH [OF ids(2) marked rows(3) this] obtain new M where new: "tried' = (tried @ [(e, Delivered)]) @ new"
        "d' = mark_rows M now ?d" "loop_result s now es ?d new M"
        and counts: "nc_sent r' = nc_sent r + 1 + int (length (delivered new))"
        "nc_failed r' = nc_failed r + int (length (failed_events new))"
        "nc_deduplicated r' = nc_deduplicated r + int (card M) - int (length (delivered new))"
        "nc_attempted r' - (nc_sent r' + nc_deduplicated r' + nc_failed r') =
          nc_attempted r + 1 - (nc_sent r + 1 + nc_deduplicated r + nc_failed r)" by auto
      have "loop_result s now (e # es) d ((e, Delivered) # new) (insert (ev_id e) M)"
        using loop_mark [OF Cons.prems(2,3) rows(3) ids(1) new(3) is_due, of "[(e, Delivered)]"] by simp
      with new counts fin [OF new(3)] show ?thesis
        by (intro exI [of _ "(e, Delivered) # new"] exI [of _ "insert (ev_id e) M"]) (simp add: mark_rows_twice)
    qed
  qed
qed

subsection \<open>One cycle\<close>

definition allowed_severity :: "settings \<Rightarrow> severity \<Rightarrow> bool" where
  "allowed_severity s sev \<longleftrightarrow>
     (case severities_at_or_above (st_alert_severity_threshold s) of Inl _ \<Rightarrow> False | Inr xs \<Rightarrow> sev \<in> set xs)"

lemma pending_facts:
  assumes "iter_pending_events (st_alert_severity_threshold s) since d = Inr pending"
    and "distinct (map ev_id (db_events d))"
  shows "distinct (map ev_id pending)"
    and "e \<in> set pending \<Longrightarrow> e \<in> set (db_events d) \<and> ev_notified_at e = None \<and> allowed_severity s (ev_severity e)"
proof -
  from assms(1) obtain start allowed where
    p: "pending = sort_key pending_before
          (filter (\<lambda>e. ev_severity e \<in> set allowed \<and> ev_notified_at e = None \<and> start \<le> ev_occurred_at e) (db_events d))"
    and a: "severities_at_or_above (st_alert_severity_threshold s) = Inr allowed"
    by (auto simp: iter_pending_events_def bindr_Inr_iff)
  show "distinct (map ev_id pending)"
    using assms(2) by (auto simp: p distinct_map inj_on_def)
  show "e \<in> set pending \<Longrightarrow> e \<in> set (db_events d) \<and> ev_notified_at e = None \<and> allowed_severity s (ev_severity e)"
    by (simp add: p a allowed_severity_def)
qed

lemma pending_complete:
  assumes "iter_pending_events (st_alert_severity_threshold s) (Aware (now - minutes (max_suppress_window_minutes s))) d = Inr pending"
    and "e \<in> set (db_events d)" "ev_notified_at e = None" "allowed_severity s (ev_severity e)" "due s now e"
  shows "e \<in> set pending"
proof -
  have "suppress_window_minutes s e \<le> max_suppress_window_minutes s"
    by (auto simp: suppress_window_minutes_def max_suppress_window_minutes_def category_windows_def split: option.splits if_splits)
  then have "now - minutes (max_suppress_window_minutes s) \<le> ev_occurred_at e"
    using assms(5) by (simp add: due_def minutes_def sec_def)
  then show ?thesis using assms(1-4)
    by (auto simp: iter_pending_events_def bindr_Inr_iff allowed_severity_def split: sum.splits)
qed

lemma cycle_cases:
  assumes "run_notifier_cycle s transport stamp (Aware now) d = (tried, res)"
  obtains (early) e where "tried = []" "res = Inl e"
  | (silent) "tried = []" "res = Inr (d, nothing_done, None)"
  | (loop) pending w res' where "iter_pending_events (st_alert_severity_threshold s)
        (Aware (now - minutes (max_suppress_window_minutes s))) d = Inr pending"
      "notify_events s transport stamp now pending [] d nothing_done = (tried, res')"
      "res = (case res' of Inl e \<Rightarrow> Inl e | Inr (d', r) \<Rightarrow> Inr (d', r\<lparr>nc_throttle_warning := w\<rparr>, Some (nc_failed r = 0)))"
proof (cases "bindr (get_maintenance_state (Aware now) d) (\<lambda>m.
              if mp_active m then Inr None
              else bindr (iter_pending_events (st_alert_severity_threshold s)
                     (Aware (now - minutes (max_suppress_window_minutes s))) d) (\<lambda>pending.
                   bindr (count_events_notified_since (Aware (now - hours 1)) d) (\<lambda>n.
                     Inr (Some (now, pending, n > st_alert_throttle_per_hour s)))))")
  case (Inl e)
  with assms have "tried = []" "res = Inl (CycleRaised e)" by (auto simp: run_notifier_cycle_def)
  then show thesis by (rule early)
next
  case (Inr x)
  show thesis
  proof (cases x)
    case None
    with Inr assms have "tried = []" "res = Inr (d, nothing_done, None)" by (auto simp: run_notifier_cycle_def)
    then show thesis by (rule silent)
  next
    case (Some y)
    obtain t pending w where y: "y = (t, pending, w)" by (metis prod_cases3)
    from Inr Some y have t: "t = now" and p: "iter_pending_events (st_alert_severity_threshold s)
        (Aware (now - minutes (max_suppress_window_minutes s))) d = Inr pending"
      by (auto simp: bindr_Inr_iff split: if_splits)
    obtain tried' res' where n: "notify_events s transport stamp now pending [] d nothing_done = (tried', res')"
      by (metis prod.exhaust)
    from assms Inr Some y t n have "tried = tried'"
      "res = (case res' of Inl e \<Rightarrow> Inl e | Inr (d', r) \<Rightarrow> Inr (d', r\<lparr>nc_throttle_warning := w\<rparr>, Some (nc_failed r = 0)))"
      by (auto simp: run_notifier_cycle_def split: sum.splits)
    with n loop [OF p, of res' w] show thesis by simp
  qed
qed

lemma window_positive:
  assumes "validate_runtime_values network_ok s = Inr s'"
  shows "0 < suppress_window_minutes s e"
  using valid_limits(4) [OF assms] by (simp add: suppress_window_minutes_def category_windows_def)

lemma has_own_row: "e \<in> set (db_events d) \<Longrightarrow> has_row d e"
  by (auto simp: has_row_def)

text \<open>A notifier cycle sends at most one message for an incident, and none for an incident it was notified of
  within the window of the category; what it sends is a stored event, not yet notified, of an allowed severity.
  This holds for every behaviour of the mail server, also when the cycle dies in the middle.\<close>

theorem one_message_per_incident:
  assumes "validate_runtime_values network_ok s = Inr s'" and "distinct (map ev_id (db_events d))"
    and "run_notifier_cycle s transport stamp (Aware now) d = (tried, res)"
  shows "distinct (map incident (delivered tried)) \<and>
    (\<forall>e \<in> set (delivered tried). e \<in> set (db_events d) \<and> ev_notified_at e = None \<and>
       allowed_severity s (ev_severity e) \<and>
       \<not> event_was_notified_recently e (now - minutes (suppress_window_minutes s e)) d)"
  using assms(3)
proof (cases rule: cycle_cases)
  case (loop pending w res')
  note p = pending_facts [OF loop(1) assms(2)]
  have "\<forall>e \<in> set pending. has_row d e \<and> 0 < suppress_window_minutes s e"
    using p(2) has_own_row window_positive [OF assms(1)] by blast
  from notify_events_sent [OF p(1) this loop(2)] p(2) show ?thesis by auto
qed simp_all

text \<open>C16. After a cycle that ends, an event is marked, with the time of the cycle, only when it was pending (stored,
  not notified, of an allowed severity, inside the window of its category) and either got its message or repeats an
  incident that was notified inside the window or got its message in this cycle; and when a cycle ran, every pending
  event is either marked or its message failed, never both: a failed one keeps its row and is tried again in the next
  cycle. The counters add up, marked rows are the sent and the repeated ones, and the recorded health is good exactly
  when no message failed.\<close>

theorem failed_messages_stay_pending:
  assumes "distinct (map ev_id (db_events d))"
    and "run_notifier_cycle s transport stamp (Aware now) d = (tried, Inr (d', r, health))"
  shows "(\<exists>ids. d' = mark_rows ids now d \<and> ids \<subseteq> ev_id ` set (db_events d) \<and>
      ev_id ` set (delivered tried) \<subseteq> ids \<and> ids \<inter> ev_id ` set (failed_events tried) = {} \<and>
      int (card ids) = nc_sent r + nc_deduplicated r \<and>
      (\<forall>e \<in> set (db_events d). ev_id e \<in> ids \<longrightarrow>
         ev_notified_at e = None \<and> allowed_severity s (ev_severity e) \<and> due s now e \<and>
         (e \<in> set (delivered tried) \<or> repeats s now d (delivered tried) e)) \<and>
      (\<forall>e \<in> set (db_events d). ev_notified_at e = None \<and> allowed_severity s (ev_severity e) \<and> due s now e \<and> health \<noteq> None \<longrightarrow>
         ev_id e \<in> ids \<or> e \<in> set (failed_events tried))) \<and>
    nc_attempted r = nc_sent r + nc_deduplicated r + nc_failed r \<and>
    nc_sent r = int (length (delivered tried)) \<and> nc_failed r = int (length (failed_events tried)) \<and>
    (health = None \<and> tried = [] \<or> health = Some (failed_events tried = []))"
  using assms(2)
proof (cases rule: cycle_cases)
  case silent
  then show ?thesis by (auto simp: nothing_done_def intro: exI [of _ "{}"])
next
  case (loop pending w res')
  from loop(3) obtain r' where r': "res' = Inr (d', r')" "r = r'\<lparr>nc_throttle_warning := w\<rparr>" "health = Some (nc_failed r' = 0)"
    by (auto split: sum.splits)
  note p = pending_facts [OF loop(1) assms(1)]
  have "set pending \<subseteq> set (db_events d)" "\<forall>e \<in> set pending. ev_notified_at e = None" using p(2) by auto
  from notify_events_marked [OF p(1) assms(1) this loop(2) [unfolded r'(1)]] obtain ids where
    ids: "d' = mark_rows ids now d" "loop_result s now pending d tried ids"
    and counts: "nc_sent r' = int (length (delivered tried))" "nc_failed r' = int (length (failed_events tried))"
      "nc_deduplicated r' = int (card ids) - int (length (delivered tried))"
      "nc_attempted r' = nc_sent r' + nc_deduplicated r' + nc_failed r'"
    by (auto simp: nothing_done_def)
  note old = loop_resultD [OF ids(2)]
  have mine: "e \<in> set pending" if "e \<in> set (db_events d)" "ev_id e \<in> ids" for e
    using old(1) that p(2) same_row [OF assms(1) that(1)] by (metis image_iff subsetD)
  have "ids \<subseteq> ev_id ` set (db_events d)" using old(1) p(2) by blast
  moreover have "ev_notified_at e = None \<and> allowed_severity s (ev_severity e) \<and> due s now e \<and>
      (e \<in> set (delivered tried) \<or> repeats s now d (delivered tried) e)"
    if "e \<in> set (db_events d)" "ev_id e \<in> ids" for e
    using mine [OF that] p(2) old(6,7) that(2) by blast
  moreover have "ev_id e \<in> ids \<or> e \<in> set (failed_events tried)"
    if "e \<in> set (db_events d)" "ev_notified_at e = None" "allowed_severity s (ev_severity e)" "due s now e" for e
    using old(8) [OF pending_complete [OF loop(1) that]] that(4) by blast
  ultimately show ?thesis using ids(1) old(4,5) counts by (auto simp: r'(2,3) intro!: exI [of _ ids])
qed simp_all

subsection \<open>Maintenance\<close>

lemma maintenance_stored:
  assumes "set_maintenance_state active (Some (Aware e)) who d = Inr d'"
  shows "get_state maintenance_mode_key d' = Some (MaintenanceText \<lparr>mp_active = active, mp_expires_at = Some e, mp_started_by = who\<rparr>)"
  using assms by (auto simp: set_maintenance_state_def sys.lookup_same)

text \<open>An opened maintenance window holds until its end and not longer, whatever the configuration says: before
  the end writes are enabled and the notifier sends and changes nothing, from the end on writes are disabled.\<close>

theorem maintenance_window_is_exact:
  assumes "set_maintenance_state True (Some (Aware e)) who d = Inr d'"
  shows "maintenance_writes_enabled configured (Aware now) d' = Inr (now < e) \<and>
    (now < e \<longrightarrow> run_notifier_cycle s transport stamp (Aware now) d' = ([], Inr (d', nothing_done, None)))"
  using maintenance_stored [OF assms]
  by (simp add: maintenance_writes_enabled_def get_maintenance_state_def run_notifier_cycle_def)

theorem maintenance_window_is_exact_witness:
  "maintenance_writes_enabled True (Aware 5) (projr (set_maintenance_state True (Some (Aware 5)) None empty_db)) = Inr False"
proof -
  have "set_maintenance_state True (Some (Aware 5)) None empty_db =
      Inr (projr (set_maintenance_state True (Some (Aware 5)) None empty_db))"
    by (simp add: set_maintenance_state_def)
  from maintenance_window_is_exact [OF this, of True 5] show ?thesis by simp
qed

definition sample_events :: db where
  "sample_events =
     fst (record_event 10 Critical ''pd_state'' ''PD e2:s1'' ''b'' None None
       (fst (record_event 5 Critical ''pd_state'' ''PD e2:s1'' ''a'' None None empty_db)))"

definition answering :: "send_result \<Rightarrow> transport" where
  "answering x tried m = x"

lemma sample_sent:
  "map (\<lambda>(e, x). (ev_id e, x)) (fst (run_notifier_cycle sample_settings (answering Delivered) (\<lambda>_. []) (Aware 20) sample_events)) =
   [(1, Delivered)]"
  by code_simp

lemma sample_failed:
  "run_notifier_cycle sample_settings (answering SendFailed) (\<lambda>_. []) (Aware 20) sample_events =
   (map (\<lambda>e. (e, SendFailed)) (db_events sample_events),
    Inr (sample_events, nothing_done\<lparr>nc_attempted := 2, nc_failed := 2\<rparr>, Some False))"
  by code_simp

lemma sample_ids: "distinct (map ev_id (db_events sample_events))"
  by code_simp

theorem one_message_per_incident_witness:
  "map (\<lambda>(e, x). (ev_id e, x)) (fst (run_notifier_cycle sample_settings (answering Delivered) (\<lambda>_. []) (Aware 20) sample_events)) =
     [(1, Delivered)] \<and>
   distinct (map incident (delivered (fst (run_notifier_cycle sample_settings (answering Delivered) (\<lambda>_. []) (Aware 20) sample_events))))"
  using one_message_per_incident [OF sample_settings_valid sample_ids prod.collapse [symmetric]] sample_sent by blast

theorem failed_messages_stay_pending_witness:
  "nc_failed (nothing_done\<lparr>nc_attempted := 2, nc_failed := 2\<rparr>) =
     int (length (failed_events (map (\<lambda>e. (e, SendFailed)) (db_events sample_events))))"
  by (rule failed_messages_stay_pending [OF sample_ids sample_failed,
      THEN conjunct2, THEN conjunct2, THEN conjunct2, THEN conjunct1])

end
