(* ===== verification/RetentionProps.thy ===== *)
theory RetentionProps
  imports Retention DetectorProps
begin

section \<open>Properties of metric retention\<close>

text \<open>
  The grouping of samples into buckets is stated once, for any key and accumulator that satisfy the
  laws of the locale, and used for the hourly and the daily tier. The main result is that a
  retention run loses no sample as long as raw data is not kept longer than hourly data; the
  configuration allows the other order too, and then samples are lost.
\<close>

subsection \<open>Buckets of time\<close>

lemma hour_bucket_le: "hour_bucket t \<le> t"
  by (simp add: hour_bucket_def hours_def sec_def)

lemma bucket_below: "0 < u \<Longrightarrow> t < b - b mod u \<Longrightarrow> t - t mod u < b - b mod (u::int)"
  by (smt (verit) pos_mod_sign)

lemma bucket_above: "0 < u \<Longrightarrow> c mod u = 0 \<Longrightarrow> c \<le> t \<Longrightarrow> c \<le> t - t mod (u::int)"
proof -
  assume u: "0 < u" and c: "c mod u = 0" and le: "c \<le> t"
  from c have "c = u * (c div u)" by (metis add.right_neutral mult_div_mod_eq)
  moreover have "t - t mod u = u * (t div u)" by (metis add_diff_cancel_right' mult_div_mod_eq)
  moreover have "c div u \<le> t div u" using le u by (rule zdiv_mono1)
  ultimately show ?thesis using u by (metis mult_left_mono less_imp_le)
qed

lemma bucket_aligned: "(b - b mod u) mod u = (0::int)"
  by (simp add: minus_mod_eq_mult_div)

lemma hour_unit: "0 < hours 1" and day_unit: "0 < days 1"
  by (simp_all add: hours_def days_def sec_def)

lemma aligned_day_hour: "c mod days 1 = 0 \<Longrightarrow> c mod hours 1 = 0"
  using mod_mod_cancel [of "hours 1" "days 1" c] by (simp add: days_def hours_def sec_def)

subsection \<open>Grouping\<close>

locale bucketing =
  fixes key :: "'x \<Rightarrow> 'k" and start :: "'k \<Rightarrow> 'a" and add :: "'x \<Rightarrow> 'a \<Rightarrow> 'a"
    and acc_key :: "'a \<Rightarrow> 'k" and weight :: "'a \<Rightarrow> int" and share :: "'x \<Rightarrow> int"
  assumes key_start: "acc_key (start k) = k"
    and key_add: "acc_key a = key x \<Longrightarrow> acc_key (add x a) = acc_key a"
    and weight_start: "weight (start k) = 0"
    and weight_add: "weight (add x a) = weight a + share x"
begin

lemma step_lookup:
  "map_of (bucket_step key start add x bs) k =
     (if k = key x then Some (add x (case map_of bs k of None \<Rightarrow> start k | Some a \<Rightarrow> a)) else map_of bs k)"
  by (auto simp: bucket_step_def update_conv' split: option.splits)

lemma fold_lookup:
  "map_of (fold (bucket_step key start add) xs bs) k =
     (if filter (\<lambda>x. key x = k) xs = [] then map_of bs k
      else Some (fold add (filter (\<lambda>x. key x = k) xs) (case map_of bs k of None \<Rightarrow> start k | Some a \<Rightarrow> a)))"
  by (induction xs arbitrary: bs) (auto simp: step_lookup)

lemma all_lookup:
  "map_of (bucket_all key start add xs) k =
     (if filter (\<lambda>x. key x = k) xs = [] then None else Some (fold add (filter (\<lambda>x. key x = k) xs) (start k)))"
  by (simp add: bucket_all_def fold_lookup)

lemma fold_keys:
  assumes "\<forall>(k, a) \<in> set bs. acc_key a = k" and "distinct (map fst bs)"
  shows "(\<forall>(k, a) \<in> set (fold (bucket_step key start add) xs bs). acc_key a = k)
    \<and> distinct (map fst (fold (bucket_step key start add) xs bs))"
  using assms
proof (induction xs arbitrary: bs)
  case Nil
  then show ?case by simp
next
  case (Cons x xs)
  let ?a = "case map_of bs (key x) of None \<Rightarrow> start (key x) | Some a \<Rightarrow> a"
  have a: "acc_key ?a = key x"
    using Cons.prems(1) by (auto simp: key_start split: option.splits dest!: map_of_SomeD)
  have "distinct (map fst (bucket_step key start add x bs))"
    using Cons.prems(2) by (simp add: bucket_step_def distinct_update)
  moreover have "acc_key b = k" if "(k, b) \<in> set (bucket_step key start add x bs)" for k b
  proof -
    from that calculation have "map_of (bucket_step key start add x bs) k = Some b" by simp
    then show "acc_key b = k"
      using a Cons.prems(1) key_add [OF a] by (auto simp: step_lookup split: if_splits dest!: map_of_SomeD)
  qed
  ultimately show ?case using Cons.IH by fastforce
qed

lemma all_keys: "\<forall>(k, a) \<in> set (bucket_all key start add xs). acc_key a = k"
  using fold_keys [of "[]" xs] by (auto simp: bucket_all_def)

lemma all_distinct: "distinct (map fst (bucket_all key start add xs))"
  using fold_keys [of "[]" xs] by (auto simp: bucket_all_def)

lemma all_domain: "fst ` set (bucket_all key start add xs) = key ` set xs"
proof -
  have "k \<in> fst ` set (bucket_all key start add xs) \<longleftrightarrow> k \<in> key ` set xs" for k
    using map_of_eq_None_iff [of "bucket_all key start add xs" k] by (auto simp: all_lookup filter_empty_conv split: if_splits)
  then show ?thesis by blast
qed

lemma step_weight:
  assumes "distinct (map fst bs)"
  shows "(\<Sum>p \<leftarrow> bucket_step key start add x bs. weight (snd p)) = (\<Sum>p \<leftarrow> bs. weight (snd p)) + share x"
  using assms
proof (induction bs)
  case Nil
  then show ?case by (simp add: bucket_step_def weight_start weight_add)
next
  case (Cons p bs)
  show ?case
  proof (cases "fst p = key x")
    case True
    then show ?thesis by (cases p) (simp add: bucket_step_def weight_add)
  next
    case False
    then have "bucket_step key start add x (p # bs) = p # bucket_step key start add x bs"
      by (cases p) (simp add: bucket_step_def)
    with Cons show ?thesis by simp
  qed
qed

lemma all_weight: "(\<Sum>p \<leftarrow> bucket_all key start add xs. weight (snd p)) = (\<Sum>x \<leftarrow> xs. share x)"
proof -
  have "(\<Sum>p \<leftarrow> fold (bucket_step key start add) xs bs. weight (snd p)) = (\<Sum>p \<leftarrow> bs. weight (snd p)) + (\<Sum>x \<leftarrow> xs. share x)"
    if "distinct (map fst bs)" for bs
    using that
  proof (induction xs arbitrary: bs)
    case Nil
    then show ?case by simp
  next
    case (Cons x xs)
    have "distinct (map fst (bucket_step key start add x bs))"
      using Cons.prems by (simp add: bucket_step_def distinct_update)
    with Cons step_weight [OF Cons.prems, of x] show ?case by simp
  qed
  from this [of "[]"] show ?thesis by (simp add: bucket_all_def)
qed

end

text \<open>Both tiers satisfy the laws, with the sample count as the weight.\<close>

interpretation raw: bucketing raw_key raw_start raw_add raw_acc_key ra_sample_count "\<lambda>_. 1"
proof
  fix a :: raw_metrics and x :: raw_sample
  assume "raw_acc_key a = raw_key x"
  then show "raw_acc_key (raw_add x a) = raw_acc_key a"
    by (auto simp: raw_acc_key_def raw_key_def raw_add_def Let_def)
qed (auto simp: raw_acc_key_def raw_add_def Let_def)

interpretation hourly: bucketing hourly_key hourly_start hourly_add hourly_acc_key ha_sample_count "\<lambda>x. mr_sample_count (snd x)"
proof
  fix a :: hourly_metrics and x :: hourly_row
  obtain b e s serial m where x: "x = ((b, e, s, serial), m)" by (metis prod_cases5 surj_pair)
  assume "hourly_acc_key a = hourly_key x"
  then show "hourly_acc_key (hourly_add x a) = hourly_acc_key a"
    by (auto simp: hourly_acc_key_def hourly_add_def Let_def x)
next
  fix x :: hourly_row and a :: hourly_metrics
  obtain b e s serial m where x: "x = ((b, e, s, serial), m)" by (metis prod_cases5 surj_pair)
  show "ha_sample_count (hourly_add x a) = ha_sample_count a + mr_sample_count (snd x)"
    by (simp add: hourly_add_def Let_def x)
qed (auto simp: hourly_acc_key_def)

subsection \<open>Writing fresh rows\<close>

lemma update_fresh: "k \<notin> fst ` set t \<Longrightarrow> AList.update k v t = t @ [(k, v)]"
  by (induction t) auto

lemma fold_update_fresh:
  assumes "distinct (map fst bs)" and "\<forall>(k, a) \<in> set bs. acck a = k" and "fst ` set bs \<inter> fst ` set t = {}"
  shows "fold (\<lambda>p. AList.update (acck (snd p)) (row (snd p))) bs t = t @ map (\<lambda>p. (fst p, row (snd p))) bs"
  using assms
proof (induction bs arbitrary: t)
  case Nil
  then show ?case by simp
next
  case (Cons p bs)
  obtain k a where p: "p = (k, a)" by (cases p)
  with Cons.prems have k: "acck a = k" "k \<notin> fst ` set t" "k \<notin> fst ` set bs" by auto
  with Cons.prems p have "fst ` set bs \<inter> fst ` set (t @ [(k, row a)]) = {}" by auto
  with Cons p k show ?case by (simp add: update_fresh)
qed

lemma fold_upsert_hourly:
  "fold (upsert_hourly \<circ> snd) bs d =
     d\<lparr>db_hourly := fold (\<lambda>p. AList.update (raw_acc_key (snd p)) (hourly_row_of (snd p))) bs (db_hourly d)\<rparr>"
  by (induction bs arbitrary: d) (simp_all add: upsert_hourly_def)

lemma fold_upsert_daily:
  "fold (upsert_daily \<circ> snd) bs d =
     d\<lparr>db_daily := fold (\<lambda>p. AList.update (hourly_acc_key (snd p)) (daily_row_of (snd p))) bs (db_daily d)\<rparr>"
  by (induction bs arbitrary: d) (simp_all add: upsert_daily_def)

lemma hourly_row_count: "mr_sample_count (hourly_row_of a) = ra_sample_count a"
  by (simp add: hourly_row_of_def split: prod.splits)

lemma daily_row_count: "mr_sample_count (daily_row_of a) = ha_sample_count a"
  by (simp add: daily_row_of_def)

subsection \<open>The tiers\<close>

definition counted :: "hourly_row list \<Rightarrow> int" where
  "counted rows = (\<Sum>x \<leftarrow> rows. mr_sample_count (snd x))"

definition total_samples :: "db \<Rightarrow> int" where
  "total_samples d = int (length (raw_samples d)) + counted (db_hourly d) + counted (db_daily d)"

definition raw_cutoff :: "settings \<Rightarrow> instant \<Rightarrow> instant" where
  "raw_cutoff s t = hour_bucket (t - days (st_metrics_raw_retention_days s))"

definition hourly_cutoff :: "settings \<Rightarrow> instant \<Rightarrow> instant" where
  "hourly_cutoff s t = day_bucket (t - days (st_metrics_hourly_retention_days s))"

text \<open>The state a run at time \<open>t\<close> leaves: raw data above its cutoff, then hourly rows, then daily rows.\<close>

definition tiers :: "settings \<Rightarrow> instant \<Rightarrow> db \<Rightarrow> bool" where
  "tiers s t d \<longleftrightarrow>
     (\<forall>r \<in> set (db_snapshots d). raw_cutoff s t \<le> sr_captured_at r) \<and>
     (\<forall>x \<in> set (db_hourly d). hourly_cutoff s t \<le> fst (fst x) \<and> fst (fst x) < raw_cutoff s t) \<and>
     (\<forall>x \<in> set (db_daily d). fst (fst x) < hourly_cutoff s t)"

lemma bucket_mono: "0 < u \<Longrightarrow> t \<le> t' \<Longrightarrow> t - t mod u \<le> t' - t' mod (u::int)"
  using bucket_above [of u "t - t mod u" t'] bucket_aligned [of t u] by (smt (verit) pos_mod_sign)

lemma cutoffs:
  assumes "st_metrics_raw_retention_days s \<le> st_metrics_hourly_retention_days s"
  shows "hourly_cutoff s t \<le> raw_cutoff s t"
proof -
  have "hourly_cutoff s t \<le> t - days (st_metrics_hourly_retention_days s)"
    using day_unit by (simp add: hourly_cutoff_def day_bucket_def)
  also have "\<dots> \<le> t - days (st_metrics_raw_retention_days s)"
    using assms by (simp add: days_def sec_def)
  finally have "hourly_cutoff s t \<le> t - days (st_metrics_raw_retention_days s)" .
  moreover have "hourly_cutoff s t mod hours 1 = 0"
    by (rule aligned_day_hour) (simp add: hourly_cutoff_def day_bucket_def bucket_aligned)
  ultimately show ?thesis
    using bucket_above [OF hour_unit] by (simp add: raw_cutoff_def hour_bucket_def)
qed

lemma cutoffs_mono:
  "before \<le> now \<Longrightarrow> raw_cutoff s before \<le> raw_cutoff s now"
  "before \<le> now \<Longrightarrow> hourly_cutoff s before \<le> hourly_cutoff s now"
  using bucket_mono [OF hour_unit] bucket_mono [OF day_unit]
  by (simp_all add: raw_cutoff_def hourly_cutoff_def hour_bucket_def day_bucket_def)

lemma raw_samples_captured: "x \<in> set (raw_samples d) \<Longrightarrow> \<exists>r \<in> set (db_snapshots d). snd x = sr_captured_at r"
  by (auto simp: raw_samples_def)

lemma raw_samples_filter:
  "raw_samples (d\<lparr>db_snapshots := filter (\<lambda>r. P (sr_captured_at r)) (db_snapshots d)\<rparr>) = filter (\<lambda>x. P (snd x)) (raw_samples d)"
proof -
  have "concat (map (\<lambda>r. map (\<lambda>x. (x, sr_captured_at r)) (ps_physical_drives r)) (filter (\<lambda>r. P (sr_captured_at r)) rs)) =
      filter (\<lambda>x. P (snd x)) (concat (map (\<lambda>r. map (\<lambda>x. (x, sr_captured_at r)) (ps_physical_drives r)) rs))" for rs :: "snapshot_row list"
    by (induction rs) (simp_all add: filter_map comp_def)
  then show ?thesis by (simp add: raw_samples_def)
qed

lemma filter_split_length: "length xs = length (filter P xs) + length (filter (\<lambda>x. \<not> P x) xs)"
  by (induction xs) auto

lemma counted_split: "counted xs = counted (filter P xs) + counted (filter (\<lambda>x. \<not> P x) xs)"
  by (induction xs) (auto simp: counted_def)

lemma counted_append: "counted (xs @ ys) = counted xs + counted ys"
  by (simp add: counted_def)

subsection \<open>One run\<close>

text \<open>The result of the first step on a database in tiers.\<close>

lemma hourly_step:
  assumes "tiers s before d" and "before \<le> now"
  obtains new where
    "downsample_to_hourly (Aware now) (st_metrics_raw_retention_days s) d = Inr (d\<lparr>db_hourly := db_hourly d @ new\<rparr>, int (length new))"
    and "\<forall>x \<in> set new. raw_cutoff s before \<le> fst (fst x) \<and> fst (fst x) < raw_cutoff s now"
    and "counted new = int (length (filter (\<lambda>x. snd x < raw_cutoff s now) (raw_samples d)))"
proof -
  let ?old = "filter (\<lambda>x. snd x < raw_cutoff s now) (raw_samples d)"
  let ?bs = "bucket_all raw_key raw_start raw_add ?old"
  let ?new = "map (\<lambda>p. (fst p, hourly_row_of (snd p))) ?bs"
  have range: "raw_cutoff s before \<le> fst k \<and> fst k < raw_cutoff s now" if "k \<in> fst ` set ?bs" for k
  proof -
    from that obtain x where x: "x \<in> set (raw_samples d)" "snd x < raw_cutoff s now" "k = raw_key x"
      by (auto simp: raw.all_domain)
    from raw_samples_captured [OF x(1)] assms(1) have "raw_cutoff s before \<le> snd x" by (auto simp: tiers_def)
    then have "raw_cutoff s before \<le> hour_bucket (snd x)"
      unfolding hour_bucket_def by (intro bucket_above [OF hour_unit])
        (simp_all add: raw_cutoff_def hour_bucket_def bucket_aligned)
    with hour_bucket_le [of "snd x"] x(2,3) show ?thesis by (simp add: raw_key_def)
  qed
  have stored: "fst k < raw_cutoff s before" if "k \<in> fst ` set (db_hourly d)" for k
    using assms(1) that by (auto simp: tiers_def)
  have fresh: "fst ` set ?bs \<inter> fst ` set (db_hourly d) = {}"
    using range stored by (meson disjoint_iff not_less)
  have "downsample_to_hourly (Aware now) (st_metrics_raw_retention_days s) d =
      Inr (fold (upsert_hourly \<circ> snd) ?bs d, int (length ?bs))"
    unfolding downsample_to_hourly_def raw_cutoff_def require_aware_utc.simps bindr_simps Let_def by (rule refl)
  also have "fold (upsert_hourly \<circ> snd) ?bs d = d\<lparr>db_hourly := db_hourly d @ ?new\<rparr>"
    using fold_update_fresh [OF raw.all_distinct raw.all_keys fresh, of hourly_row_of] by (simp add: fold_upsert_hourly)
  finally have "downsample_to_hourly (Aware now) (st_metrics_raw_retention_days s) d =
      Inr (d\<lparr>db_hourly := db_hourly d @ ?new\<rparr>, int (length ?new))" by simp
  moreover have "\<forall>x \<in> set ?new. raw_cutoff s before \<le> fst (fst x) \<and> fst (fst x) < raw_cutoff s now"
    using range by simp
  moreover have "counted ?new = int (length ?old)"
    using raw.all_weight [of ?old]
    by (simp add: counted_def comp_def hourly_row_count sum_list_triv del: filter_filter)
  ultimately show thesis by (rule that)
qed

lemma hourly_key_bucket: "fst (hourly_key x) = day_bucket (fst (fst x))"
  by (cases x rule: hourly_key.cases) simp

text \<open>The second step, on hourly rows that lie above the last hourly cutoff.\<close>

lemma daily_step:
  assumes "\<forall>x \<in> set (db_hourly d). hourly_cutoff s before \<le> fst (fst x)"
    and "\<forall>x \<in> set (db_daily d). fst (fst x) < hourly_cutoff s before"
  obtains new where
    "downsample_to_daily (Aware now) (st_metrics_hourly_retention_days s) d = Inr (d\<lparr>db_daily := db_daily d @ new\<rparr>, int (length new))"
    and "\<forall>x \<in> set new. fst (fst x) < hourly_cutoff s now"
    and "counted new = counted (filter (\<lambda>x. fst (fst x) < hourly_cutoff s now) (db_hourly d))"
proof -
  let ?old = "filter (\<lambda>x. fst (fst x) < hourly_cutoff s now) (db_hourly d)"
  let ?bs = "bucket_all hourly_key hourly_start hourly_add ?old"
  let ?new = "map (\<lambda>p. (fst p, daily_row_of (snd p))) ?bs"
  have range: "hourly_cutoff s before \<le> fst k \<and> fst k < hourly_cutoff s now" if "k \<in> fst ` set ?bs" for k
  proof -
    from that obtain x where x: "x \<in> set (db_hourly d)" "fst (fst x) < hourly_cutoff s now" "k = hourly_key x"
      by (auto simp: hourly.all_domain)
    with assms(1) have "hourly_cutoff s before \<le> fst (fst x)" by blast
    then have "hourly_cutoff s before \<le> day_bucket (fst (fst x))"
      unfolding day_bucket_def by (intro bucket_above [OF day_unit])
        (simp_all add: hourly_cutoff_def day_bucket_def bucket_aligned)
    moreover have "day_bucket (fst (fst x)) \<le> fst (fst x)" using day_unit by (simp add: day_bucket_def)
    ultimately show ?thesis using x(2,3) by (simp add: hourly_key_bucket)
  qed
  have stored: "fst k < hourly_cutoff s before" if "k \<in> fst ` set (db_daily d)" for k
    using assms(2) that by auto
  have fresh: "fst ` set ?bs \<inter> fst ` set (db_daily d) = {}"
    using range stored by (meson disjoint_iff not_less)
  have "downsample_to_daily (Aware now) (st_metrics_hourly_retention_days s) d =
      Inr (fold (upsert_daily \<circ> snd) ?bs d, int (length ?bs))"
    unfolding downsample_to_daily_def hourly_cutoff_def require_aware_utc.simps bindr_simps Let_def by (rule refl)
  also have "fold (upsert_daily \<circ> snd) ?bs d = d\<lparr>db_daily := db_daily d @ ?new\<rparr>"
    using fold_update_fresh [OF hourly.all_distinct hourly.all_keys fresh, of daily_row_of] by (simp add: fold_upsert_daily)
  finally have "downsample_to_daily (Aware now) (st_metrics_hourly_retention_days s) d =
      Inr (d\<lparr>db_daily := db_daily d @ ?new\<rparr>, int (length ?new))" by simp
  moreover have "\<forall>x \<in> set ?new. fst (fst x) < hourly_cutoff s now"
  proof
    fix x assume "x \<in> set ?new"
    then obtain p where "p \<in> set ?bs" "fst x = fst p" by (metis (no_types, lifting) fst_conv imageE set_map)
    with range [of "fst p"] show "fst (fst x) < hourly_cutoff s now" by simp
  qed
  moreover have "counted ?new = counted ?old"
    using hourly.all_weight [of ?old] by (simp add: counted_def comp_def daily_row_count del: filter_filter)
  ultimately show thesis by (rule that)
qed

lemma prune_raw_result:
  "\<exists>n. prune_raw_snapshots (Aware now) (st_metrics_raw_retention_days s) d =
     Inr (d\<lparr>db_snapshots := filter (\<lambda>r. \<not> sr_captured_at r < raw_cutoff s now) (db_snapshots d)\<rparr>, n)"
  by (auto simp: prune_raw_snapshots_def raw_cutoff_def Let_def filter_empty_conv)

lemma prune_hourly_result:
  "\<exists>n. prune_hourly_metrics (Aware now) (st_metrics_hourly_retention_days s) d =
     Inr (d\<lparr>db_hourly := filter (\<lambda>x. \<not> fst (fst x) < hourly_cutoff s now) (db_hourly d)\<rparr>, n)"
  by (auto simp: prune_hourly_metrics_def hourly_cutoff_def Let_def filter_empty_conv)

text \<open>C24. As long as raw data is not kept longer than hourly data, a retention run loses and duplicates no sample:
  every sample is counted in exactly one tier before and after, and the run leaves the tiers apart for the next.\<close>

theorem retention_conserves_samples:
  assumes "st_metrics_raw_retention_days s \<le> st_metrics_hourly_retention_days s"
    and "tiers s before d" and "before \<le> now"
  shows "tiers s now (run_retention_once s (Aware now) d)
    \<and> total_samples (run_retention_once s (Aware now) d) = total_samples d"
proof -
  from assms(2) have t: "\<forall>x \<in> set (db_hourly d). hourly_cutoff s before \<le> fst (fst x) \<and> fst (fst x) < raw_cutoff s before"
    "\<forall>x \<in> set (db_daily d). fst (fst x) < hourly_cutoff s before" by (simp_all add: tiers_def)
  obtain new1 where n1:
    "downsample_to_hourly (Aware now) (st_metrics_raw_retention_days s) d = Inr (d\<lparr>db_hourly := db_hourly d @ new1\<rparr>, int (length new1))"
    "\<forall>x \<in> set new1. raw_cutoff s before \<le> fst (fst x) \<and> fst (fst x) < raw_cutoff s now"
    "counted new1 = int (length (filter (\<lambda>x. snd x < raw_cutoff s now) (raw_samples d)))"
    using hourly_step [OF assms(2,3)] by blast
  let ?d1 = "d\<lparr>db_hourly := db_hourly d @ new1\<rparr>"
  note le = cutoffs [OF assms(1)] cutoffs_mono [OF assms(3), of s]
  have d1: "\<forall>x \<in> set (db_hourly ?d1). hourly_cutoff s before \<le> fst (fst x)"
    "\<forall>x \<in> set (db_daily ?d1). fst (fst x) < hourly_cutoff s before"
    using t n1(2) le(1) [of before] by fastforce+
  obtain new2 where n2:
    "downsample_to_daily (Aware now) (st_metrics_hourly_retention_days s) ?d1 = Inr (?d1\<lparr>db_daily := db_daily ?d1 @ new2\<rparr>, int (length new2))"
    "\<forall>x \<in> set new2. fst (fst x) < hourly_cutoff s now"
    "counted new2 = counted (filter (\<lambda>x. fst (fst x) < hourly_cutoff s now) (db_hourly ?d1))"
    using daily_step [OF d1] by blast
  let ?d2 = "?d1\<lparr>db_daily := db_daily ?d1 @ new2\<rparr>"
  let ?d3 = "?d2\<lparr>db_snapshots := filter (\<lambda>r. \<not> sr_captured_at r < raw_cutoff s now) (db_snapshots ?d2)\<rparr>"
  let ?d4 = "?d3\<lparr>db_hourly := filter (\<lambda>x. \<not> fst (fst x) < hourly_cutoff s now) (db_hourly ?d3)\<rparr>"
  have run: "run_retention_once s (Aware now) d = ?d4"
    using n1(1) n2(1) prune_raw_result [of now s ?d2] prune_hourly_result [of now s ?d3]
    by (auto simp: run_retention_once_def retention_transaction_def)
  have samples: "raw_samples ?d4 = filter (\<lambda>x. \<not> snd x < raw_cutoff s now) (raw_samples d)"
    using raw_samples_filter [where d = d and P = "\<lambda>c. \<not> c < raw_cutoff s now"] by (simp add: raw_samples_def)
  have "total_samples ?d4 = total_samples d"
    using n1(3) n2(3) samples
      filter_split_length [of "raw_samples d" "\<lambda>x. snd x < raw_cutoff s now"]
      counted_split [of "db_hourly ?d1" "\<lambda>x. fst (fst x) < hourly_cutoff s now"]
    by (simp add: total_samples_def counted_append)
  moreover have "tiers s now ?d4"
    using t n1(2) n2(2) le by (fastforce simp: tiers_def)
  ultimately show ?thesis by (simp add: run)
qed

definition sample_row :: "instant \<Rightarrow> physical_drive_info list \<Rightarrow> snapshot_row" where
  "sample_row t drives = snd (projr (insert_snapshot (sample_snapshot t drives) False None empty_db))"

definition sample_history :: "(instant \<times> physical_drive_info list) list \<Rightarrow> db" where
  "sample_history rows = empty_db\<lparr>db_snapshots := map (\<lambda>(t, ds). sample_row t ds) rows\<rparr>"

theorem retention_conserves_samples_witness:
  "tiers sample_settings (days 31) (run_retention_once sample_settings (Aware (days 31)) (sample_history [(0, [sample_drive 1 ''S'' None])]))
   \<and> total_samples (run_retention_once sample_settings (Aware (days 31)) (sample_history [(0, [sample_drive 1 ''S'' None])])) = 1"
proof -
  have t: "tiers sample_settings 0 (sample_history [(0, [sample_drive 1 ''S'' None])])"
    by (simp add: tiers_def sample_history_def sample_row_def insert_snapshot_def sample_snapshot_def Let_def empty_db_def
        raw_cutoff_def hour_bucket_def sample_settings_def days_def hours_def sec_def)
  have c: "total_samples (sample_history [(0, [sample_drive 1 ''S'' None])]) = 1"
    by (simp add: total_samples_def raw_samples_def sample_history_def sample_row_def insert_snapshot_def sample_snapshot_def
        Let_def empty_db_def counted_def)
  show ?thesis
    using retention_conserves_samples [OF _ t, of "days 31"] c by (simp add: sample_settings_def days_def sec_def)
qed

subsection \<open>Raw data kept longer than hourly data\<close>

text \<open>
  The validator does not relate the two retention periods. With raw data kept longer, a run folds
  the first hours of a day into the daily row and prunes them; the next run folds the rest of the
  day and overwrites the row.
\<close>

definition long_raw_settings :: settings where
  "long_raw_settings = sample_settings\<lparr>st_metrics_raw_retention_days := 3, st_metrics_hourly_retention_days := 1\<rparr>"

definition two_hours :: db where
  "two_hours = sample_history [(hours 1, [sample_drive 1 ''S'' None]), (hours 5, [sample_drive 1 ''S'' None])]"

definition daily_night_run :: "int \<Rightarrow> py_datetime" where
  "daily_night_run day = Aware (days day + hours 3 + minutes 30)"

text \<open>The settings accept a raw retention above the hourly retention, and then two nightly runs lose a
  sample: of the two samples of one day the daily row in the end counts one.\<close>

theorem long_raw_retention_loses_samples:
  "validate_runtime_values (\<lambda>_. False) long_raw_settings = Inr long_raw_settings
   \<and> total_samples two_hours = 2
   \<and> total_samples (run_retention_once long_raw_settings (daily_night_run 4)
       (run_retention_once long_raw_settings (daily_night_run 3) two_hours)) = 1"
  by code_simp

subsection \<open>Exact hourly rows\<close>

interpretation rows: keyed_table "\<lambda>k t. map_of t k" AList.update
  by unfold_locales (simp add: update_conv')

lemma raw_add_fields:
  "ra_sample_count (fold raw_add xs a) = ra_sample_count a + int (length xs)"
  "ra_temperatures (fold raw_add xs a) = ra_temperatures a @ List.map_filter (pdi_temperature \<circ> fst) xs"
  "ra_media_errors_max (fold raw_add xs a) = fold max (map (pdi_media_errors \<circ> fst) xs) (ra_media_errors_max a)"
  "ra_other_errors_max (fold raw_add xs a) = fold max (map (pdi_other_errors \<circ> fst) xs) (ra_other_errors_max a)"
  "ra_predictive_failures_max (fold raw_add xs a) = fold max (map (pdi_predictive_failures \<circ> fst) xs) (ra_predictive_failures_max a)"
  by (induction xs arbitrary: a) (auto simp: raw_add_def Let_def List.map_filter_def max.commute split: option.splits)

lemma map_of_rev: "distinct (map fst xs) \<Longrightarrow> map_of (rev xs) = map_of xs"
  using map_of_inject_set [of "rev xs" xs] by (simp add: rev_map [symmetric])

lemma map_of_map_snd: "map_of (map (\<lambda>p. (fst p, f (snd p))) xs) k = map_option f (map_of xs k)"
  by (induction xs) auto

lemma hourly_lookup:
  assumes "downsample_to_hourly (Aware now) retention d = Inr (d', n)"
  shows "map_of (db_hourly d') k =
    (let xs = filter (\<lambda>x. raw_key x = k) (filter (\<lambda>x. snd x < hour_bucket (now - days retention)) (raw_samples d))
     in if xs = [] then map_of (db_hourly d) k else Some (hourly_row_of (fold raw_add xs (raw_start k))))"
proof -
  let ?all = "filter (\<lambda>x. snd x < hour_bucket (now - days retention)) (raw_samples d)"
  let ?bs = "bucket_all raw_key raw_start raw_add ?all"
  from assms have d': "d' = fold (upsert_hourly \<circ> snd) ?bs d"
    by (auto simp: downsample_to_hourly_def Let_def)
  have keyed: "map (\<lambda>p. (raw_acc_key (snd p), hourly_row_of (snd p))) ?bs = map (\<lambda>p. (fst p, hourly_row_of (snd p))) ?bs"
    using raw.all_keys [of ?all] by auto
  have dist: "distinct (map fst (map (\<lambda>p. (fst p, hourly_row_of (snd p))) ?bs))"
    using raw.all_distinct [of ?all] by (simp add: comp_def)
  have "map_of (rev (map (\<lambda>p. (fst p, hourly_row_of (snd p))) ?bs)) k = map_option hourly_row_of (map_of ?bs k)"
    using map_of_rev [OF dist] by (simp add: map_of_map_snd)
  then have "map_of (db_hourly d') k =
      (case map_option hourly_row_of (map_of ?bs k) of None \<Rightarrow> map_of (db_hourly d) k | Some r \<Rightarrow> Some r)"
    using rows.lookup_fold [where k = k and key = "\<lambda>p. raw_acc_key (snd p)" and val = "\<lambda>p. hourly_row_of (snd p)" and xs = ?bs and t = "db_hourly d"]
    by (simp add: d' fold_upsert_hourly keyed split: option.splits)
  then show ?thesis by (simp add: raw.all_lookup Let_def split: if_splits)
qed

text \<open>The samples of one hourly bucket.\<close>

definition bucket_samples :: "instant \<Rightarrow> int \<Rightarrow> db \<Rightarrow> bucket_key \<Rightarrow> raw_sample list" where
  "bucket_samples now retention d k =
     filter (\<lambda>x. raw_key x = k) (filter (\<lambda>x. snd x < hour_bucket (now - days retention)) (raw_samples d))"

text \<open>The hourly row of a drive in an hour is exactly the aggregate of its samples in that hour: their
  number, the extremes and the mean of the temperatures read, the largest error counters; hours without
  samples before the cutoff keep their row.\<close>

theorem hourly_rows_are_exact:
  assumes "downsample_to_hourly (Aware now) retention d = Inr (d', n)"
  shows "map_of (db_hourly d') k =
    (let xs = bucket_samples now retention d k; ts = List.map_filter (pdi_temperature \<circ> fst) xs
     in if xs = [] then map_of (db_hourly d) k
        else Some \<lparr>mr_temp_min = (if ts = [] then None else Some (Min (set ts))),
               mr_temp_max = (if ts = [] then None else Some (Max (set ts))),
               mr_temp_avg = (if ts = [] then None else Some (of_int (sum_list ts) / of_nat (length ts))),
               mr_temp_count = int (length ts),
               mr_media_errors_max = fold max (map (pdi_media_errors \<circ> fst) xs) 0,
               mr_other_errors_max = fold max (map (pdi_other_errors \<circ> fst) xs) 0,
               mr_predictive_failures_max = fold max (map (pdi_predictive_failures \<circ> fst) xs) 0,
               mr_sample_count = int (length xs)\<rparr>)"
proof -
  obtain b e sl serial where k: "k = (b, e, sl, serial)" by (metis prod_cases4)
  show ?thesis
    unfolding hourly_lookup [OF assms] bucket_samples_def Let_def
    by (simp add: hourly_row_of_def temperature_summary_def raw_add_fields k)
qed

lemma sample_downsample:
  "downsample_to_hourly (Aware (days 31)) 30 (sample_history [(0, [sample_drive 1 ''S'' (Some 40)]), (minutes 5, [sample_drive 1 ''S'' (Some 43)])]) =
   Inr ((sample_history [(0, [sample_drive 1 ''S'' (Some 40)]), (minutes 5, [sample_drive 1 ''S'' (Some 43)])])
     \<lparr>db_hourly := [((0, 2, 1, ''S''),
        \<lparr>mr_temp_min = Some 40, mr_temp_max = Some 43, mr_temp_avg = Some (83 / 2), mr_temp_count = 2,
         mr_media_errors_max = 0, mr_other_errors_max = 0, mr_predictive_failures_max = 0, mr_sample_count = 2\<rparr>)]\<rparr>, 1)"
  by code_simp

theorem hourly_rows_are_exact_witness:
  "map_option mr_sample_count (map_of
     [((0, 2, 1, ''S''), \<lparr>mr_temp_min = Some 40, mr_temp_max = Some 43, mr_temp_avg = Some (83 / 2 :: rat), mr_temp_count = 2,
         mr_media_errors_max = 0, mr_other_errors_max = 0, mr_predictive_failures_max = 0, mr_sample_count = 2\<rparr>)]
     (0, 2, 1, ''S'')) =
   Some (int (length (bucket_samples (days 31) 30
     (sample_history [(0, [sample_drive 1 ''S'' (Some 40)]), (minutes 5, [sample_drive 1 ''S'' (Some 43)])]) (0, 2, 1, ''S''))))"
proof -
  have ne: "bucket_samples (days 31) 30
     (sample_history [(0, [sample_drive 1 ''S'' (Some 40)]), (minutes 5, [sample_drive 1 ''S'' (Some 43)])]) (0, 2, 1, ''S'') \<noteq> []"
    by code_simp
  show ?thesis
    using hourly_rows_are_exact [OF sample_downsample, of "(0, 2, 1, ''S'')"] ne by (simp add: Let_def)
qed

lemma update_same: "map_of t k = Some v \<Longrightarrow> AList.update k v t = t"
  by (induction t) (auto split: if_splits)

text \<open>Running the hourly step again changes nothing: recomputing the rows from the same raw data writes the
  values that are there.\<close>

theorem hourly_step_is_idempotent:
  assumes "downsample_to_hourly now_utc retention d = Inr (d', n)"
  shows "downsample_to_hourly now_utc retention d' = Inr (d', n)"
proof -
  from assms obtain now where now: "now_utc = Aware now"
    by (cases now_utc) (auto simp: downsample_to_hourly_def)
  let ?all = "\<lambda>d. filter (\<lambda>x. snd x < hour_bucket (now - days retention)) (raw_samples d)"
  let ?bs = "bucket_all raw_key raw_start raw_add (?all d)"
  have d': "d' = fold (upsert_hourly \<circ> snd) ?bs d" and n: "n = int (length ?bs)"
    using assms by (auto simp: now downsample_to_hourly_def Let_def)
  have same: "raw_samples d' = raw_samples d" by (simp add: d' fold_upsert_hourly raw_samples_def)
  have "map_of (db_hourly d') (raw_acc_key a) = Some (hourly_row_of a)" if "(k, a) \<in> set ?bs" for k a
  proof -
    from that raw.all_keys [of "?all d"] have k: "raw_acc_key a = k" by auto
    from that raw.all_distinct [of "?all d"] have "map_of ?bs k = Some a" by simp
    then show ?thesis
      using hourly_lookup [OF assms [unfolded now], of k] by (simp add: raw.all_lookup k Let_def split: if_splits)
  qed
  then have "fold (upsert_hourly \<circ> snd) bs d' = d'" if "set bs \<subseteq> set ?bs" for bs
    using that by (induction bs) (auto simp: upsert_hourly_def update_same)
  from this [of ?bs] show ?thesis
    by (simp add: now downsample_to_hourly_def Let_def same n)
qed

theorem hourly_step_is_idempotent_witness:
  "downsample_to_hourly (Aware (days 31)) 30
    ((sample_history [(0, [sample_drive 1 ''S'' (Some 40)]), (minutes 5, [sample_drive 1 ''S'' (Some 43)])])
     \<lparr>db_hourly := [((0, 2, 1, ''S''),
        \<lparr>mr_temp_min = Some 40, mr_temp_max = Some 43, mr_temp_avg = Some (83 / 2), mr_temp_count = 2,
         mr_media_errors_max = 0, mr_other_errors_max = 0, mr_predictive_failures_max = 0, mr_sample_count = 2\<rparr>)]\<rparr>) =
   Inr ((sample_history [(0, [sample_drive 1 ''S'' (Some 40)]), (minutes 5, [sample_drive 1 ''S'' (Some 43)])])
     \<lparr>db_hourly := [((0, 2, 1, ''S''),
        \<lparr>mr_temp_min = Some 40, mr_temp_max = Some 43, mr_temp_avg = Some (83 / 2), mr_temp_count = 2,
         mr_media_errors_max = 0, mr_other_errors_max = 0, mr_predictive_failures_max = 0, mr_sample_count = 2\<rparr>)]\<rparr>, 1)"
  by (rule hourly_step_is_idempotent [OF sample_downsample])

subsection \<open>Exact daily rows\<close>

text \<open>The hourly rows a run folds into one daily row, and the temperatures that count for its mean.\<close>

definition day_rows :: "instant \<Rightarrow> int \<Rightarrow> db \<Rightarrow> bucket_key \<Rightarrow> hourly_row list" where
  "day_rows now retention d k =
     filter (\<lambda>x. hourly_key x = k) (filter (\<lambda>x. fst (fst x) < day_bucket (now - days retention)) (db_hourly d))"

definition with_mean :: "hourly_row list \<Rightarrow> metrics_row list" where
  "with_mean xs = filter (\<lambda>m. mr_temp_avg m \<noteq> None \<and> mr_temp_count m > 0) (map snd xs)"

lemma with_mean_simps [simp]:
  "with_mean [] = []"
  "with_mean (x # xs) = (if mr_temp_avg (snd x) \<noteq> None \<and> mr_temp_count (snd x) > 0 then [snd x] else []) @ with_mean xs"
  by (simp_all add: with_mean_def)

lemma hourly_add_one:
  "ha_sample_count (hourly_add x a) = ha_sample_count a + mr_sample_count (snd x)"
  "ha_temperature_mins (hourly_add x a) = ha_temperature_mins a @ option_list (mr_temp_min (snd x))"
  "ha_temperature_maxes (hourly_add x a) = ha_temperature_maxes a @ option_list (mr_temp_max (snd x))"
  "ha_media_errors_max (hourly_add x a) = max (mr_media_errors_max (snd x)) (ha_media_errors_max a)"
  "ha_other_errors_max (hourly_add x a) = max (mr_other_errors_max (snd x)) (ha_other_errors_max a)"
  "ha_predictive_failures_max (hourly_add x a) = max (mr_predictive_failures_max (snd x)) (ha_predictive_failures_max a)"
  "ha_temperature_sample_count (hourly_add x a) = ha_temperature_sample_count a + sum_list (map mr_temp_count (with_mean [x]))"
  "ha_temperature_weighted_sum (hourly_add x a) = ha_temperature_weighted_sum a +
     sum_list (map (\<lambda>m. the (mr_temp_avg m) * of_int (mr_temp_count m)) (with_mean [x]))"
  by (auto simp: hourly_add_def Let_def max.commute split: prod.splits option.splits)

lemma hourly_add_fields:
  "ha_sample_count (fold hourly_add xs a) = ha_sample_count a + sum_list (map (mr_sample_count \<circ> snd) xs)"
  "ha_temperature_mins (fold hourly_add xs a) = ha_temperature_mins a @ List.map_filter (mr_temp_min \<circ> snd) xs"
  "ha_temperature_maxes (fold hourly_add xs a) = ha_temperature_maxes a @ List.map_filter (mr_temp_max \<circ> snd) xs"
  "ha_media_errors_max (fold hourly_add xs a) = fold max (map (mr_media_errors_max \<circ> snd) xs) (ha_media_errors_max a)"
  "ha_other_errors_max (fold hourly_add xs a) = fold max (map (mr_other_errors_max \<circ> snd) xs) (ha_other_errors_max a)"
  "ha_predictive_failures_max (fold hourly_add xs a) = fold max (map (mr_predictive_failures_max \<circ> snd) xs) (ha_predictive_failures_max a)"
  "ha_temperature_sample_count (fold hourly_add xs a) = ha_temperature_sample_count a + sum_list (map mr_temp_count (with_mean xs))"
  "ha_temperature_weighted_sum (fold hourly_add xs a) = ha_temperature_weighted_sum a +
     sum_list (map (\<lambda>m. the (mr_temp_avg m) * of_int (mr_temp_count m)) (with_mean xs))"
  by (induction xs arbitrary: a) (auto simp: hourly_add_one option_list_def List.map_filter_def split: option.split)

lemma daily_lookup:
  assumes "downsample_to_daily (Aware now) retention d = Inr (d', n)"
  shows "map_of (db_daily d') k =
    (let xs = day_rows now retention d k
     in if xs = [] then map_of (db_daily d) k else Some (daily_row_of (fold hourly_add xs (hourly_start k))))"
proof -
  let ?all = "filter (\<lambda>x. fst (fst x) < day_bucket (now - days retention)) (db_hourly d)"
  let ?bs = "bucket_all hourly_key hourly_start hourly_add ?all"
  from assms have d': "d' = fold (upsert_daily \<circ> snd) ?bs d"
    by (auto simp: downsample_to_daily_def Let_def)
  have keyed: "map (\<lambda>p. (hourly_acc_key (snd p), daily_row_of (snd p))) ?bs = map (\<lambda>p. (fst p, daily_row_of (snd p))) ?bs"
    using hourly.all_keys [of ?all] by auto
  have dist: "distinct (map fst (map (\<lambda>p. (fst p, daily_row_of (snd p))) ?bs))"
    using hourly.all_distinct [of ?all] by (simp add: comp_def)
  have "map_of (rev (map (\<lambda>p. (fst p, daily_row_of (snd p))) ?bs)) k = map_option daily_row_of (map_of ?bs k)"
    using map_of_rev [OF dist] by (simp add: map_of_map_snd)
  then have "map_of (db_daily d') k =
      (case map_option daily_row_of (map_of ?bs k) of None \<Rightarrow> map_of (db_daily d) k | Some r \<Rightarrow> Some r)"
    using rows.lookup_fold [where k = k and key = "\<lambda>p. hourly_acc_key (snd p)" and val = "\<lambda>p. daily_row_of (snd p)" and xs = ?bs and t = "db_daily d"]
    by (simp add: d' fold_upsert_daily keyed split: option.splits)
  then show ?thesis by (simp add: hourly.all_lookup day_rows_def Let_def split: if_splits)
qed

text \<open>C25. The daily row of a drive and day becomes exactly the aggregate of the hourly rows of that day that are
  still stored: their samples, the extremes, the mean weighted by the temperatures read, the largest error
  counters. Whatever the daily row held before is replaced, so samples only it counted are lost; without such
  hourly rows it is kept.\<close>

theorem daily_rows_are_replaced:
  assumes "downsample_to_daily (Aware now) retention d = Inr (d', n)"
  shows "map_of (db_daily d') k =
    (let xs = filter (\<lambda>x. hourly_key x = k) (filter (\<lambda>x. fst (fst x) < day_bucket (now - days retention)) (db_hourly d));
         mins = List.map_filter (mr_temp_min \<circ> snd) xs; maxes = List.map_filter (mr_temp_max \<circ> snd) xs;
         means = filter (\<lambda>m. mr_temp_avg m \<noteq> None \<and> mr_temp_count m > 0) (map snd xs);
         readings = sum_list (map mr_temp_count means)
     in if xs = [] then map_of (db_daily d) k
        else Some \<lparr>mr_temp_min = (if mins = [] then None else Some (Min (set mins))),
               mr_temp_max = (if maxes = [] then None else Some (Max (set maxes))),
               mr_temp_avg = (if readings = 0 then None
                 else Some (sum_list (map (\<lambda>m. the (mr_temp_avg m) * of_int (mr_temp_count m)) means) / of_int readings)),
               mr_temp_count = readings,
               mr_media_errors_max = fold max (map (mr_media_errors_max \<circ> snd) xs) 0,
               mr_other_errors_max = fold max (map (mr_other_errors_max \<circ> snd) xs) 0,
               mr_predictive_failures_max = fold max (map (mr_predictive_failures_max \<circ> snd) xs) 0,
               mr_sample_count = sum_list (map (mr_sample_count \<circ> snd) xs)\<rparr>)"
proof -
  obtain b e sl serial where k: "k = (b, e, sl, serial)" by (metis prod_cases4)
  show ?thesis
    unfolding daily_lookup [OF assms] day_rows_def Let_def
    by (simp add: daily_row_of_def hourly_add_fields with_mean_def k)
qed

text \<open>A day of which an earlier run counted three samples and whose last hour, with one sample, is folded now.\<close>

definition counted_row :: "int \<Rightarrow> metrics_row" where
  "counted_row n =
     \<lparr>mr_temp_min = None, mr_temp_max = None, mr_temp_avg = None, mr_temp_count = 0, mr_media_errors_max = 0,
      mr_other_errors_max = 0, mr_predictive_failures_max = 0, mr_sample_count = n\<rparr>"

definition split_day :: db where
  "split_day = empty_db\<lparr>db_hourly := [((hours 5, 2, 1, ''S''), counted_row 1)], db_daily := [((0, 2, 1, ''S''), counted_row 3)]\<rparr>"

lemma split_day_folded:
  "downsample_to_daily (Aware (days 4)) 1 split_day = Inr (split_day\<lparr>db_daily := [((0, 2, 1, ''S''), counted_row 1)]\<rparr>, 1)"
  by code_simp

theorem daily_rows_are_replaced_witness:
  "map_option mr_sample_count (map_of (db_daily split_day) (0, 2, 1, ''S'')) = Some 3 \<and>
   map_option mr_sample_count (map_of (db_daily (split_day\<lparr>db_daily := [((0, 2, 1, ''S''), counted_row 1)]\<rparr>)) (0, 2, 1, ''S'')) = Some 1"
proof -
  have "day_bucket (days 4 - days 1) = days 3" "day_bucket (hours 5) = 0" "hours 5 < days 3" by code_simp+
  then show ?thesis
    using daily_rows_are_replaced [OF split_day_folded, of "(0, 2, 1, ''S'')"]
    by (simp add: split_day_def counted_row_def Let_def)
qed

end
