(* ===== verification/Spec2Isabelle.thy ===== *)
theory Spec2Isabelle
  imports LocateProps TemplateProps MetricsProps ApplicationProps TransportProps PageProps HistoryProps OverviewProps EventProps HealthProps ActionSafety ReplaceProps TelegramProps PollProps WebProps NotifierProps RetentionProps DetectorProps ActionGates RunnerSafety ParserProps PolicySafety CommandSafety
begin

text \<open>
  This library verifies megaraid-dashboard, a web application that watches a RAID controller through
  the vendor's command line tool StorCLI, keeps a history in SQLite, reports events by mail and
  Telegram, and lets an operator replace drives and change the controller. Source paths below are
  relative to \<open>src/src/megaraid_dashboard/\<close>; those of the operator's tools start with \<open>src/scripts/\<close>.

  \<^bold>\<open>The program and the theories.\<close>

  \<^item> Foundations: \<open>Prelude\<close> (results that may raise, text, JSON, instants), \<open>Patterns\<close> (the regular
    expressions used as filters).
  \<^item> StorCLI: \<open>States\<close> (\<open>storcli/states.py\<close>), \<open>Commands\<close> (the builders and transition gates of
    \<open>services/drive_actions.py\<close>, the allow list of \<open>storcli/runner.py\<close>, \<open>storcli/exceptions.py\<close>),
    \<open>Policy\<close> (\<open>storcli/policy.py\<close>), \<open>Parsing\<close> and \<open>Models\<close> (\<open>storcli/models.py\<close>), \<open>Payload\<close>,
    \<open>Parser\<close>, \<open>ForeignConfig\<close> (\<open>storcli/parser.py\<close>), \<open>Operations\<close> (the status readers of
    \<open>services/drive_actions.py\<close>), \<open>Prewrite\<close> (\<open>storcli/prewrite.py\<close>), \<open>Runner\<close>
    (\<open>storcli/runner.py\<close>: the only place where a process is started).
  \<^item> State: \<open>Config\<close> (\<open>config.py\<close>), \<open>Database\<close> (\<open>db/models.py\<close>, \<open>db/dao.py\<close>, one \<open>db\<close> value per
    session), \<open>Retention\<close> (\<open>db/retention.py\<close>).
  \<^item> Background work: \<open>Collector\<close> (\<open>services/collector.py\<close>), \<open>Detector\<close>
    (\<open>services/event_detector.py\<close>), \<open>Scheduler\<close> (\<open>services/scheduler.py\<close>, \<open>services/disk_monitor.py\<close>),
    \<open>Notifier\<close> (\<open>services/notifier.py\<close>), \<open>Telegram\<close> (\<open>services/telegram_notifier.py\<close>,
    \<open>services/telegram_relevance.py\<close>, \<open>services/telegram_messages.py\<close>).
  \<^item> Requests: \<open>Web\<close> (\<open>web/auth.py\<close>, \<open>web/csrf.py\<close>, \<open>web/middleware.py\<close>), \<open>RateLimit\<close>
    (\<open>web/rate_limit.py\<close> and the stack of middlewares), \<open>Actions\<close>, \<open>ReplaceRoutes\<close>, \<open>ControllerRoutes\<close>,
    \<open>ForeignRoutes\<close> (the action routes of \<open>web/routes.py\<close>, \<open>services/audit.py\<close>,
    \<open>services/action_capabilities.py\<close>).
  \<^item> Pages: \<open>Events\<close> (\<open>services/events.py\<close> and the event pages of \<open>web/routes.py\<close>), \<open>Health\<close>
    (\<open>services/drive_health.py\<close>, \<open>services/controller_health.py\<close>, \<open>services/drive_position.py\<close> and the
    grades, the grid and the list of drives of \<open>services/overview.py\<close>), \<open>History\<close>
    (\<open>services/drive_history.py\<close>, \<open>services/controller_history.py\<close>, the chart handlers), \<open>Overview\<close> (the main
    page and the running operations of \<open>services/overview.py\<close>, \<open>services/observation_health.py\<close>),
    \<open>ControllerDetail\<close> (\<open>services/controller_detail.py\<close>), \<open>DriveDetail\<close> (\<open>services/drive_detail.py\<close>),
    \<open>Pages\<close> (health, maintenance window and drive pages of \<open>web/routes.py\<close>), \<open>Templates\<close>
    (\<open>web/templates.py\<close>: the reasons against actions every page shows, the filters).
  \<^item> The process: \<open>Application\<close> (\<open>app.py\<close>: lock files, the workers and their collector, the metrics server,
    the database file; \<open>web/security_headers.py\<close>, \<open>web/static.py\<close>; the notifier lock of
    \<open>services/scheduler.py\<close>), \<open>Metrics\<close> (\<open>web/metrics.py\<close>, \<open>db/event_metrics.py\<close>), \<open>Transports\<close>
    (\<open>alerts/telegram.py\<close>, \<open>alerts/transport.py\<close>).
  \<^item> The operator's tools: \<open>LocateActivity\<close> (\<open>src/scripts/locate_activity.py\<close>: one controller property,
    changed and restored under a receipt, an audit row and a public status).

  A poll runs Collector, Parser, Database and Detector in this order; the notifiers read the events
  it stored; a request passes the middlewares, the capability guard and a handler, which reads the
  database, asks the Runner for live evidence, sends at most one command and records it as an event.
  The pages read the database only: the last snapshot, the tiers of the metrics and the events.

  \<^bold>\<open>How the code is rendered.\<close> A raise is \<open>Inl\<close> of an error value, in two kinds where \<open>except\<close> clauses tell
  them apart (\<open>fault\<close>). Tables are lists of rows. An instance attribute or process-wide variable is a
  field of a record passed through. What runs against the outside world (Runner and the handlers) is a
  computation over a trace of effects: every answer of the outside is a function of the trace so far, so
  files, settings, processes and the database may change between any two steps. Early returns of a
  handler are its failures. Floating-point numbers are rationals. Log calls are left out.

  \<^bold>\<open>What the lemmas show.\<close>

  \<^item> \<open>CommandSafety\<close>, \<open>PolicySafety\<close>, \<open>RunnerSafety\<close>: which commands the allow list and the policy let
    through, and that a write leaves the Runner only after the policy, the pinned binary, the live
    topology and the request's gate were checked, in this order, from fresh readings.
  \<^item> \<open>ParserProps\<close>, \<open>ActionGates\<close>: what an accepted response guarantees; the gate of the insert step.
  \<^item> \<open>ActionProps\<close>, \<open>ActionSafety\<close>, \<open>ReplaceProps\<close>: every write of a request is audited and presupposes
    current authority, a maintenance window seen in the request and the identity the operator confirmed;
    the audit log as the state of a replacement.
  \<^item> \<open>DetectorProps\<close>, \<open>RetentionProps\<close>, \<open>PollProps\<close>, \<open>SchedulerProps\<close>: termination and closed form of the
    temperature loop, conservation of samples, silence of an unchanged machine, one report per outage.
  \<^item> \<open>NotifierProps\<close>, \<open>TelegramProps\<close>: one message per incident, and a marked row is a delivered or a repeated
    incident; the Telegram cycle refines an abstract channel of waiting, claimed, delivered and dropped
    events, whose acknowledgements are tied to the answers of the transport.
  \<^item> \<open>EventProps\<close>, \<open>HistoryProps\<close>: following the cursors shows every event once, and a poll past a full page
    skips some; a history counts no reading in two tiers, loses none and marks every change of drive.
  \<^item> \<open>HealthProps\<close>, \<open>OverviewProps\<close>, \<open>PageProps\<close>: the grade of the controller by its reasons, the status of
    operations read back from storage, the warning after a failed poll, the buttons of a drive against the
    gates and the allow list behind them, the links between drives.
  \<^item> \<open>TemplateProps\<close>: a page gives no reason against an action exactly when the guard and the gate of its
    route accept it; linking slots in a text changes no character of it.
  \<^item> \<open>ApplicationProps\<close>: over all runs of all workers one collector at most, which holds the lock, and, while
    the process numbers can be written into the lock file, a waiting worker that takes over; a failed write
    leaves the lock with a worker that does not collect. \<open>MetricsProps\<close>: as long as snapshot identifiers are
    not reused the cache of the exporter cannot be seen; the counters count the events a process itself
    committed. \<open>TransportProps\<close>: no failure text holds the bot token.
  \<^item> \<open>LocateProps\<close> (over \<open>Journal\<close> and \<open>LocateJournal\<close>): over all calls of the Locate activity tool, each of
    which may be killed after any step, no write is unannounced and none is repeated blindly. \<open>Journal\<close> has
    the rules: a monitor reads the trace, and a triple says what it has seen at the end of a computation and
    that it was safe at every step before.
  \<^item> \<open>WebProps\<close>: credentials are read back exactly, nothing is served without them, guesses are bounded.

  \<^bold>\<open>Interfaces.\<close> \<open>trace_discipline\<close> (what every computation of the runner and of the handlers adds to the
  trace, interpreted on reads only and on quiet traces), \<open>monitored\<close> (a monitor of a trace and what must hold
  of it after every step, interpreted on the receipts of the Locate activity tool), the aggregation laws of \<open>RetentionProps\<close>
  (interpreted on the hourly and the daily tier) and the other locales are each interpreted on the
  definitions of the model.

  \<^bold>\<open>Parameters.\<close> Code outside the repository is a function the definitions take: \<open>to_int\<close> (pydantic's
  conversion of plain integers), \<open>fingerprint\<close> (SHA-256 of canonical JSON), \<open>network_ok\<close> (\<open>ipaddress\<close>),
  \<open>checkpw\<close> (bcrypt), \<open>contains\<close> (a peer in a trusted network), \<open>transport\<close> and \<open>send\<close> (SMTP and the
  Telegram API), the fields of \<open>runner_env\<close> (file system, processes, settings), \<open>storcli\<close> in
  \<open>Collector\<close> (the runner, as the collector uses it), \<open>we_db\<close>, \<open>we_saved\<close>, \<open>we_now\<close>, \<open>we_int\<close> (the
  session, the commit, the clock and \<open>int\<close> of a path segment); in the pages \<open>from_iso\<close> and \<open>to_number\<close>
  (the readings of a query by \<open>datetime.fromisoformat\<close> and \<open>int\<close>), \<open>make_url\<close> and \<open>file_size\<close> (the address and the
  file of the database), \<open>slot_url\<close> and \<open>action_url\<close> (\<open>request.url_for\<close>), the record \<open>page_env\<close> (what the process
  knows of its notifier, its collector and its database file), \<open>escape\<close> (HTML quoting), \<open>parse_json\<close> and
  \<open>exchange\<close> (what the Telegram server and the network answer), \<open>open_file\<close> and the records \<open>lock_file\<close> and
  \<open>startup_view\<close> (what the operating system and the server library show), \<open>led_env\<close> (the service, the files, the
  database and the clock as the Locate activity tool meets them, after any trace of its steps).

  \<^bold>\<open>Bounds and fuel.\<close> No definition uses fuel. The temperature loop of the detector is a partial function
  into option; that it returns, and what, is proved for every reading when the thresholds are sane, which
  the configuration validator guarantees. All other recursion is structural or has a measure.

  \<^bold>\<open>Not modelled.\<close> Reading and checking the policy file and the binary (file-system calls whose outcomes
  the Runner takes as inputs), the registration of routes and the migration call of \<open>app.py\<close>, the MIME form of
  mails, the rendering of templates, the text format of the metrics, the
  schema migrations and the release script: they hold no decision of the monitored behaviour, or consist of calls
  into frameworks. Of the charts the colours and line styles are left out.
\<close>

end
